(* ===== verification/Prelude.thy ===== *)
theory Prelude
  imports Main
begin

text \<open>
  Shared vocabulary of the development.

  A service method of the backend reads and mutates a database session and may raise.
  It is modelled as a \<^emph>\<open>program\<close>: a function from the session state to an outcome
  (\<open>Inl\<close> an exception, \<open>Inr\<close> a value) together with the state that the method leaves
  behind, so that the mutations made before a \<open>raise\<close> are visible.  Whether they survive is
  decided by the caller: \<open>atomic\<close> is the \<open>async with session.begin()\<close> block and the route
  handler that commits only on success.

  The theory also holds the row operations that the repositories share (first row that
  satisfies a query, update of the rows that satisfy a predicate) and the collections of
  rules that the component proofs use:
  \<open>run_simps\<close> inverts the outcome of a program, \<open>keeps_intros\<close> proves that a program keeps
  a predicate of the state whatever its outcome, \<open>succeeds_intros\<close> that it keeps it when it returns.
\<close>

named_theorems run_simps
named_theorems keeps_intros
named_theorems row_simps
named_theorems succeeds_intros
named_theorems returns_intros

section \<open>Programs: state and exceptions\<close>

type_synonym ('s, 'e, 'a) prog = "'s \<Rightarrow> ('e + 'a) \<times> 's"

definition ret :: "'a \<Rightarrow> ('s, 'e, 'a) prog" where
  "ret a s = (Inr a, s)"

definition raise :: "'e \<Rightarrow> ('s, 'e, 'a) prog" where
  "raise e s = (Inl e, s)"

definition bnd :: "('s, 'e, 'a) prog \<Rightarrow> ('a \<Rightarrow> ('s, 'e, 'b) prog) \<Rightarrow> ('s, 'e, 'b) prog" where
  "bnd m f s = (case m s of (Inl e, s') \<Rightarrow> (Inl e, s') | (Inr a, s') \<Rightarrow> f a s')"

definition andthen :: "('s, 'e, 'a) prog \<Rightarrow> ('s, 'e, 'b) prog \<Rightarrow> ('s, 'e, 'b) prog" where
  "andthen m k = bnd m (\<lambda>_. k)"

definition guard :: "bool \<Rightarrow> 'e \<Rightarrow> ('s, 'e, unit) prog" where
  "guard b e = (if b then ret () else raise e)"

definition gets :: "('s \<Rightarrow> 'a) \<Rightarrow> ('s, 'e, 'a) prog" where
  "gets f s = (Inr (f s), s)"

definition modify :: "('s \<Rightarrow> 's) \<Rightarrow> ('s, 'e, unit) prog" where
  "modify f s = (Inr (), f s)"

definition lift :: "'e + 'a \<Rightarrow> ('s, 'e, 'a) prog" where
  "lift r s = (r, s)"

text \<open>\<open>require\<close> is the idiom \<open>if row is None: raise ...\<close>.\<close>

definition require :: "'a option \<Rightarrow> 'e \<Rightarrow> ('s, 'e, 'a) prog" where
  "require o' e = (case o' of None \<Rightarrow> raise e | Some a \<Rightarrow> ret a)"

text \<open>\<open>attempt\<close> is \<open>try/except\<close>: the outcome of the body becomes a value.\<close>

definition attempt :: "('s, 'e, 'a) prog \<Rightarrow> ('s, 'e, 'e + 'a) prog" where
  "attempt m s = (case m s of (r, s') \<Rightarrow> (Inr r, s'))"

primrec mapP :: "('a \<Rightarrow> ('s, 'e, 'b) prog) \<Rightarrow> 'a list \<Rightarrow> ('s, 'e, 'b list) prog" where
  "mapP f [] = ret []"
| "mapP f (x # xs) = bnd (f x) (\<lambda>y. bnd (mapP f xs) (\<lambda>ys. ret (y # ys)))"

text \<open>A transaction keeps the final state on success only; \<open>rb old new\<close> is what a rollback
  leaves (the old tables with whatever cannot be rolled back).\<close>

definition atomic :: "('s \<Rightarrow> 's \<Rightarrow> 's) \<Rightarrow> ('s, 'e, 'a) prog \<Rightarrow> ('s, 'e, 'a) prog" where
  "atomic rb m s = (case m s of (Inl e, s') \<Rightarrow> (Inl e, rb s s') | (Inr a, s') \<Rightarrow> (Inr a, s'))"

subsection \<open>Inversion of outcomes\<close>

lemma ret_run [run_simps]: "ret a s = (r, t) \<longleftrightarrow> r = Inr a \<and> t = s"
  by (auto simp: ret_def)

lemma raise_run [run_simps]: "raise e s = (r, t) \<longleftrightarrow> r = Inl e \<and> t = s"
  by (auto simp: raise_def)

lemma gets_run [run_simps]: "gets f s = (r, t) \<longleftrightarrow> r = Inr (f s) \<and> t = s"
  by (auto simp: gets_def)

lemma modify_run [run_simps]: "modify f s = (r, t) \<longleftrightarrow> r = Inr () \<and> t = f s"
  by (auto simp: modify_def)

lemma lift_Inr [run_simps]: "lift v s = (Inr a, t) \<longleftrightarrow> v = Inr a \<and> t = s"
  by (auto simp: lift_def)

lemma lift_Inl [run_simps]: "lift v s = (Inl x, t) \<longleftrightarrow> v = Inl x \<and> t = s"
  by (auto simp: lift_def)

lemma guard_Inr [run_simps]: "guard b e s = (Inr u, t) \<longleftrightarrow> b \<and> t = s"
  by (auto simp: guard_def ret_def raise_def)

lemma guard_Inl [run_simps]: "guard b e s = (Inl x, t) \<longleftrightarrow> \<not> b \<and> x = e \<and> t = s"
  by (auto simp: guard_def ret_def raise_def)

lemma require_Inr [run_simps]: "require v e s = (Inr a, t) \<longleftrightarrow> v = Some a \<and> t = s"
  by (auto simp: require_def ret_def raise_def split: option.splits)

lemma require_Inl [run_simps]: "require v e s = (Inl x, t) \<longleftrightarrow> v = None \<and> x = e \<and> t = s"
  by (auto simp: require_def ret_def raise_def split: option.splits)

lemma bnd_Inr [run_simps]:
  "bnd m f s = (Inr b, t) \<longleftrightarrow> (\<exists>a u. m s = (Inr a, u) \<and> f a u = (Inr b, t))"
  by (auto simp: bnd_def split: prod.splits sum.splits)

lemma bnd_Inl [run_simps]:
  "bnd m f s = (Inl e, t) \<longleftrightarrow>
     m s = (Inl e, t) \<or> (\<exists>a u. m s = (Inr a, u) \<and> f a u = (Inl e, t))"
  by (auto simp: bnd_def split: prod.splits sum.splits)

lemma andthen_Inr [run_simps]:
  "andthen m k s = (Inr b, t) \<longleftrightarrow> (\<exists>a u. m s = (Inr a, u) \<and> k u = (Inr b, t))"
  by (simp add: andthen_def bnd_Inr)

lemma andthen_Inl [run_simps]:
  "andthen m k s = (Inl e, t) \<longleftrightarrow>
     m s = (Inl e, t) \<or> (\<exists>a u. m s = (Inr a, u) \<and> k u = (Inl e, t))"
  by (simp add: andthen_def bnd_Inl)

lemma attempt_run [run_simps]:
  "attempt m s = (r, t) \<longleftrightarrow> (\<exists>v. m s = (v, t) \<and> r = Inr v)"
  by (auto simp: attempt_def split: prod.splits)

lemma atomic_Inr [run_simps]: "atomic rb m s = (Inr a, t) \<longleftrightarrow> m s = (Inr a, t)"
  by (auto simp: atomic_def split: prod.splits sum.splits)

lemma atomic_Inl [run_simps]:
  "atomic rb m s = (Inl e, t) \<longleftrightarrow> (\<exists>u. m s = (Inl e, u) \<and> t = rb s u)"
  by (auto simp: atomic_def split: prod.splits sum.splits)

text \<open>Evaluation rules: used to run a program forwards on a state.\<close>

lemma bnd_eval: "m s = (Inr a, u) \<Longrightarrow> bnd m f s = f a u"
  by (simp add: bnd_def)

lemma bnd_eval_Inl: "m s = (Inl e, u) \<Longrightarrow> bnd m f s = (Inl e, u)"
  by (simp add: bnd_def)

lemma andthen_eval: "m s = (Inr a, u) \<Longrightarrow> andthen m k s = k u"
  by (simp add: andthen_def bnd_def)

lemma andthen_eval_Inl: "m s = (Inl e, u) \<Longrightarrow> andthen m k s = (Inl e, u)"
  by (simp add: andthen_def bnd_def)

text \<open>\<open>exec_defs\<close> unfolds the combinators; with it \<open>simp\<close> runs a program on a concrete state.\<close>

lemmas exec_defs = ret_def raise_def bnd_def andthen_def guard_def gets_def modify_def lift_def
  require_def attempt_def atomic_def

subsection \<open>Predicates kept by a program\<close>

text \<open>\<open>keeps P m\<close>: \<open>m\<close> leads from states with \<open>P\<close> to states with \<open>P\<close>, also when it raises.\<close>

definition keeps :: "('s \<Rightarrow> bool) \<Rightarrow> ('s, 'e, 'a) prog \<Rightarrow> bool" where
  "keeps P m \<longleftrightarrow> (\<forall>s r t. P s \<longrightarrow> m s = (r, t) \<longrightarrow> P t)"

lemma keepsI: "(\<And>s r t. P s \<Longrightarrow> m s = (r, t) \<Longrightarrow> P t) \<Longrightarrow> keeps P m"
  by (simp add: keeps_def)

lemma keepsD: "keeps P m \<Longrightarrow> m s = (r, t) \<Longrightarrow> P s \<Longrightarrow> P t"
  by (auto simp: keeps_def)

lemma keeps_ret [keeps_intros]: "keeps P (ret a)"
  by (auto simp: keeps_def run_simps)

lemma keeps_raise [keeps_intros]: "keeps P (raise e)"
  by (auto simp: keeps_def run_simps)

lemma keeps_gets [keeps_intros]: "keeps P (gets f)"
  by (auto simp: keeps_def run_simps)

lemma keeps_lift [keeps_intros]: "keeps P (lift r)"
  by (auto simp: keeps_def lift_def)

lemma keeps_guard [keeps_intros]: "keeps P (guard b e)"
  by (auto simp: keeps_def guard_def ret_def raise_def)

lemma keeps_require [keeps_intros]: "keeps P (require v e)"
  by (auto simp: keeps_def require_def ret_def raise_def split: option.splits)

lemma keeps_modify: "(\<And>s. P s \<Longrightarrow> P (f s)) \<Longrightarrow> keeps P (modify f)"
  by (auto simp: keeps_def run_simps)

lemma keeps_bnd [keeps_intros]: "keeps P m \<Longrightarrow> (\<And>a. keeps P (f a)) \<Longrightarrow> keeps P (bnd m f)"
  unfolding keeps_def
proof (intro allI impI)
  fix s r t
  assume m: "\<forall>s r t. P s \<longrightarrow> m s = (r, t) \<longrightarrow> P t"
    and f: "\<And>a. \<forall>s r t. P s \<longrightarrow> f a s = (r, t) \<longrightarrow> P t"
    and s: "P s" and run: "bnd m f s = (r, t)"
  obtain v u where u: "m s = (v, u)" by (cases "m s")
  with m s have "P u" by blast
  with f run u show "P t" by (cases v) (auto simp: bnd_def)
qed

lemma keeps_andthen [keeps_intros]: "keeps P m \<Longrightarrow> keeps P k \<Longrightarrow> keeps P (andthen m k)"
  unfolding andthen_def by (rule keeps_bnd)

lemma keeps_attempt [keeps_intros]: "keeps P m \<Longrightarrow> keeps P (attempt m)"
  by (auto simp: keeps_def run_simps)

lemma keeps_if [keeps_intros]: "keeps P m \<Longrightarrow> keeps P k \<Longrightarrow> keeps P (if b then m else k)"
  by simp

lemma keeps_case_option [keeps_intros]:
  "keeps P m \<Longrightarrow> (\<And>a. keeps P (f a)) \<Longrightarrow> keeps P (case v of None \<Rightarrow> m | Some a \<Rightarrow> f a)"
  by (cases v) auto

lemma keeps_case_sum [keeps_intros]:
  "(\<And>a. keeps P (f a)) \<Longrightarrow> (\<And>a. keeps P (g a)) \<Longrightarrow>
   keeps P (case v of Inl a \<Rightarrow> f a | Inr b \<Rightarrow> g b)"
  by (cases v) auto

lemma keeps_case_prod [keeps_intros]:
  "(\<And>a b. keeps P (f a b)) \<Longrightarrow> keeps P (case v of (a, b) \<Rightarrow> f a b)"
  by (cases v) auto

lemma keeps_mapP [keeps_intros]: "(\<And>x. keeps P (f x)) \<Longrightarrow> keeps P (mapP f xs)"
  by (induction xs) (auto intro!: keeps_intros)

lemma keeps_atomic:
  "keeps P m \<Longrightarrow> (\<And>s t. P s \<Longrightarrow> P t \<Longrightarrow> P (rb s t)) \<Longrightarrow> keeps P (atomic rb m)"
  unfolding keeps_def
proof (intro allI impI)
  fix s r t
  assume m: "\<forall>s r t. P s \<longrightarrow> m s = (r, t) \<longrightarrow> P t"
    and rb: "\<And>s t. P s \<Longrightarrow> P t \<Longrightarrow> P (rb s t)"
    and s: "P s" and run: "atomic rb m s = (r, t)"
  obtain v u where u: "m s = (v, u)" by (cases "m s")
  with m s have "P u" by blast
  with rb s run u show "P t" by (cases v) (auto simp: atomic_def)
qed

text \<open>\<open>succeeds P m\<close>: \<open>m\<close> keeps \<open>P\<close> when it returns; when it raises, the transaction around it is rolled
  back.\<close>

definition succeeds :: "('s \<Rightarrow> bool) \<Rightarrow> ('s, 'e, 'a) prog \<Rightarrow> bool" where
  "succeeds P m \<longleftrightarrow> (\<forall>s a t. P s \<longrightarrow> m s = (Inr a, t) \<longrightarrow> P t)"

lemma succeedsI: "(\<And>s a t. P s \<Longrightarrow> m s = (Inr a, t) \<Longrightarrow> P t) \<Longrightarrow> succeeds P m"
  by (simp add: succeeds_def)

lemma succeedsD: "succeeds P m \<Longrightarrow> m s = (Inr a, t) \<Longrightarrow> P s \<Longrightarrow> P t"
  by (auto simp: succeeds_def)

lemma keeps_succeeds: "keeps P m \<Longrightarrow> succeeds P m"
  by (auto simp: succeeds_def keeps_def)

lemma succeeds_leaf [succeeds_intros]:
  "succeeds P (ret a)" "succeeds P (raise e)" "succeeds P (gets f)" "succeeds P (lift r)" "succeeds P (guard b e)"
  "succeeds P (require v e)"
  by (auto intro!: keeps_succeeds keeps_intros)

lemma succeeds_bnd [succeeds_intros]:
  assumes "succeeds P m" and "\<And>a. succeeds P (f a)"
  shows "succeeds P (bnd m f)"
proof (rule succeedsI)
  fix s b t
  assume "P s" and "bnd m f s = (Inr b, t)"
  then obtain a u where "m s = (Inr a, u)" "f a u = (Inr b, t)" by (auto simp: bnd_Inr)
  with \<open>P s\<close> assms show "P t" by (meson succeedsD)
qed

lemma succeeds_andthen [succeeds_intros]: "succeeds P m \<Longrightarrow> succeeds P k \<Longrightarrow> succeeds P (andthen m k)"
  unfolding andthen_def by (rule succeeds_bnd)

lemma succeeds_branches [succeeds_intros]:
  "succeeds P m \<Longrightarrow> succeeds P k \<Longrightarrow> succeeds P (if b then m else k)"
  "succeeds P m \<Longrightarrow> (\<And>a. succeeds P (f a)) \<Longrightarrow> succeeds P (case v of None \<Rightarrow> m | Some a \<Rightarrow> f a)"
  "(\<And>a b. succeeds P (h a b)) \<Longrightarrow> succeeds P (case w of (a, b) \<Rightarrow> h a b)"
  by (auto split: option.splits prod.splits)

text \<open>\<open>returns P left k m\<close>: from a state with \<open>P\<close> in which \<open>k\<close> units of the resource \<open>left\<close> remain, \<open>m\<close>
  returns, keeps \<open>P\<close> and takes at most \<open>k\<close> of them.\<close>

definition returns :: "('s \<Rightarrow> bool) \<Rightarrow> ('s \<Rightarrow> nat) \<Rightarrow> nat \<Rightarrow> ('s, 'e, 'a) prog \<Rightarrow> bool" where
  "returns P left k m \<longleftrightarrow>
     (\<forall>s. P s \<longrightarrow> k \<le> left s \<longrightarrow> (\<exists>a t. m s = (Inr a, t) \<and> P t \<and> left s \<le> left t + k))"

lemma returnsI:
  "(\<And>s. P s \<Longrightarrow> k \<le> left s \<Longrightarrow> \<exists>a t. m s = (Inr a, t) \<and> P t \<and> left s \<le> left t + k) \<Longrightarrow> returns P left k m"
  by (simp add: returns_def)

lemma returnsE:
  "returns P left k m \<Longrightarrow> P s \<Longrightarrow> k \<le> left s \<Longrightarrow>
   (\<And>a t. m s = (Inr a, t) \<Longrightarrow> P t \<Longrightarrow> left s \<le> left t + k \<Longrightarrow> thesis) \<Longrightarrow> thesis"
  unfolding returns_def by blast

lemma returns_weaken: "returns P left j m \<Longrightarrow> j \<le> k \<Longrightarrow> returns P left k m"
  unfolding returns_def by (meson add_left_mono le_trans)

lemma returns_leaf [returns_intros]: "returns P left 0 (ret a)" "returns P left 0 (gets f)"
  by (simp_all add: returns_def ret_def gets_def)

lemma returns_modify: "(\<And>s. P s \<Longrightarrow> P (f s) \<and> left s \<le> left (f s)) \<Longrightarrow> returns P left 0 (modify f)"
  by (simp add: returns_def modify_def)

lemma returns_bnd [returns_intros]:
  assumes "returns P left j m" and "\<And>a. returns P left k (f a)"
  shows "returns P left (j + k) (bnd m f)"
proof (rule returnsI)
  fix s assume s: "P s" "j + k \<le> left s"
  obtain a t where t: "m s = (Inr a, t)" "P t" "left s \<le> left t + j"
    using assms(1) s by (auto elim: returnsE)
  obtain b u where "f a t = (Inr b, u)" "P u" "left t \<le> left u + k"
    using returnsE [OF assms(2) t(2), of a thesis] s t(3) by fastforce
  with t show "\<exists>a t. bnd m f s = (Inr a, t) \<and> P t \<and> left s \<le> left t + (j + k)"
    by (auto simp: bnd_def)
qed

lemma returns_andthen [returns_intros]:
  "returns P left j m \<Longrightarrow> returns P left k n \<Longrightarrow> returns P left (j + k) (andthen m n)"
  unfolding andthen_def by (rule returns_bnd)

lemma returns_branches [returns_intros]:
  "returns P left j m \<Longrightarrow> returns P left k n \<Longrightarrow> returns P left (max j k) (if b then m else n)"
  "returns P left j m \<Longrightarrow> (\<And>a. returns P left k (f a)) \<Longrightarrow>
     returns P left (max j k) (case v of None \<Rightarrow> m | Some a \<Rightarrow> f a)"
  "(\<And>a b. returns P left k (h a b)) \<Longrightarrow> returns P left k (case w of (a, b) \<Rightarrow> h a b)"
  by (auto split: option.splits prod.splits intro: returns_weaken [where j = j] returns_weaken [where j = k])

text \<open>A program that reads only.\<close>

definition reads :: "('s, 'e, 'a) prog \<Rightarrow> bool" where
  "reads m \<longleftrightarrow> (\<forall>s. snd (m s) = s)"

lemma readsD: "reads m \<Longrightarrow> m s = (r, t) \<Longrightarrow> t = s"
  unfolding reads_def by (metis snd_conv)

section \<open>Rows\<close>

text \<open>
  A table is the list of its rows in insertion order.  \<open>find P rows\<close> is
  \<open>session.scalar(select(...).where(P))\<close>, the first row that the query returns.
  \<open>upd P f rows\<close> changes the rows that satisfy \<open>P\<close>; a mutated ORM object is
  \<open>upd\<close> on its primary key.
\<close>

definition upd :: "('r \<Rightarrow> bool) \<Rightarrow> ('r \<Rightarrow> 'r) \<Rightarrow> 'r list \<Rightarrow> 'r list" where
  "upd P f = map (\<lambda>r. if P r then f r else r)"

lemma length_upd [simp]: "length (upd P f rows) = length rows"
  by (simp add: upd_def)

lemma upd_Nil [simp]: "upd P f [] = []"
  by (simp add: upd_def)

lemma upd_Cons [simp]: "upd P f (r # rows) = (if P r then f r else r) # upd P f rows"
  by (simp add: upd_def)

lemma upd_append [simp]: "upd P f (xs @ ys) = upd P f xs @ upd P f ys"
  by (simp add: upd_def)

lemma in_set_upd: "x \<in> set (upd P f rows) \<longleftrightarrow> (\<exists>r \<in> set rows. x = (if P r then f r else r))"
  by (auto simp: upd_def)

lemma upd_none: "(\<And>r. r \<in> set rows \<Longrightarrow> \<not> P r) \<Longrightarrow> upd P f rows = rows"
  by (induction rows) auto

lemma map_key_upd: "(\<And>r. k (f r) = k r) \<Longrightarrow> map k (upd P f rows) = map k rows"
  by (induction rows) auto

lemma find_Some_iff_mem: "find P xs = Some x \<Longrightarrow> x \<in> set xs \<and> P x"
  by (auto simp: find_Some_iff)

lemma find_memD: "find P xs = Some x \<Longrightarrow> x \<in> set xs"
  and find_propD: "find P xs = Some x \<Longrightarrow> P x"
  by (auto simp: find_Some_iff)

lemma find_None_all: "find P xs = None \<longleftrightarrow> (\<forall>x \<in> set xs. \<not> P x)"
  by (auto simp: find_None_iff)

lemma find_exists: "x \<in> set xs \<Longrightarrow> P x \<Longrightarrow> \<exists>y. find P xs = Some y"
  by (cases "find P xs") (auto simp: find_None_all)

lemma find_append: "find P (xs @ ys) = (case find P xs of None \<Rightarrow> find P ys | Some x \<Rightarrow> Some x)"
  by (induction xs) auto

lemma find_key_unique:
  assumes "distinct (map k xs)" and "x \<in> set xs"
  shows "find (\<lambda>r. k r = k x) xs = Some x"
  using assms by (induction xs) (auto simp: image_iff)

lemma find_upd_key:
  assumes "\<And>r. k (f r) = k r"
  shows "find (\<lambda>r. k r = i) (upd (\<lambda>r. k r = i) f xs) = map_option f (find (\<lambda>r. k r = i) xs)"
  using assms by (induction xs) auto

lemma find_upd_same:
  "(\<And>x. P (f x) = P x) \<Longrightarrow> find P (upd Q f xs) = map_option (\<lambda>x. if Q x then f x else x) (find P xs)"
  by (induction xs) auto

lemma find_upd_other:
  assumes "\<And>r. k (f r) = k r" and "i \<noteq> j"
  shows "find (\<lambda>r. k r = i) (upd (\<lambda>r. k r = j) f xs) = find (\<lambda>r. k r = i) xs"
  using assms by (induction xs) auto

lemma distinct_keyD:
  "distinct (map k xs) \<Longrightarrow> x \<in> set xs \<Longrightarrow> y \<in> set xs \<Longrightarrow> k x = k y \<Longrightarrow> x = y"
  by (metis inj_on_def distinct_map)

section \<open>Runs of a component\<close>

text \<open>
  A component that answers calls is a function \<open>step\<close> from a call and a state to an outcome and the next
  state.  \<open>total\<close> adds up what the calls of a run cost; \<open>use_cost\<close> is 1 for a call that succeeds and uses
  the token \<open>k\<close> (a reservation, a code, a refresh token).
\<close>

primrec runs :: "('i \<Rightarrow> 's \<Rightarrow> 'x \<times> 's) \<Rightarrow> 'i list \<Rightarrow> 's \<Rightarrow> 's" where
  "runs step [] s = s"
| "runs step (i # is) s = runs step is (snd (step i s))"

primrec total :: "('i \<Rightarrow> 's \<Rightarrow> 'x \<times> 's) \<Rightarrow> ('i \<Rightarrow> 's \<Rightarrow> nat) \<Rightarrow> 'i list \<Rightarrow> 's \<Rightarrow> nat" where
  "total step cost [] s = 0"
| "total step cost (i # is) s = cost i s + total step cost is (snd (step i s))"

definition use_cost ::
  "('i \<Rightarrow> 's \<Rightarrow> ('e + 'r) \<times> 's) \<Rightarrow> ('i \<Rightarrow> 'r \<Rightarrow> 'k option) \<Rightarrow> 'k \<Rightarrow> 'i \<Rightarrow> 's \<Rightarrow> nat" where
  "use_cost step uses k i s = (case fst (step i s) of Inl _ \<Rightarrow> 0 | Inr r \<Rightarrow> if uses i r = Some k then 1 else 0)"

text \<open>\<open>budget\<close>: every call pays its cost out of what is left.\<close>

locale budget =
  fixes step :: "'i \<Rightarrow> 's \<Rightarrow> 'x \<times> 's" and cost :: "'i \<Rightarrow> 's \<Rightarrow> nat" and left :: "'s \<Rightarrow> nat"
    and ok :: "'s \<Rightarrow> bool"
  assumes pays: "ok s \<Longrightarrow> step i s = (r, t) \<Longrightarrow> ok t \<and> cost i s + left t \<le> left s"
begin

lemma total_left: "ok s \<Longrightarrow> ok (runs step is s) \<and> total step cost is s + left (runs step is s) \<le> left s"
proof (induction "is" arbitrary: s)
  case (Cons i js)
  obtain r t where rt: "step i s = (r, t)" by (cases "step i s")
  with pays [OF Cons.prems rt] Cons.IH [of t] show ?case by simp
qed simp

lemma total_le: "ok s \<Longrightarrow> total step cost is s \<le> left s"
  using total_left [of s "is"] by simp

lemma runs_ok: "ok s \<Longrightarrow> ok (runs step is s)"
  using total_left [of s "is"] by simp

end

text \<open>\<open>single_use\<close>: a token that has been used is spent, and stays so; its budget is one use.\<close>

locale single_use =
  fixes step :: "'i \<Rightarrow> 's \<Rightarrow> ('e + 'r) \<times> 's" and uses :: "'i \<Rightarrow> 'r \<Rightarrow> 'k option"
    and spent :: "'k \<Rightarrow> 's \<Rightarrow> bool" and ok :: "'s \<Rightarrow> bool"
  assumes use_spends: "ok s \<Longrightarrow> step i s = (Inr r, t) \<Longrightarrow> uses i r = Some k \<Longrightarrow> \<not> spent k s \<and> spent k t"
    and step_keeps: "ok s \<Longrightarrow> step i s = (v, t) \<Longrightarrow> ok t \<and> (spent k s \<longrightarrow> spent k t)"

sublocale single_use \<subseteq> once: budget step "use_cost step uses k" "\<lambda>s. if spent k s then 0 else 1" ok for k
proof
  fix s i r t
  assume s: "ok s" "step i s = (r, t)"
  then show "ok t \<and> use_cost step uses k i s + (if spent k t then 0 else 1) \<le> (if spent k s then 0 else 1)"
    using step_keeps [OF s, of k] use_spends [OF s(1), of i _ t k] by (auto simp: use_cost_def split: sum.split)
qed

context single_use begin

lemma used_at_most_once: "ok s \<Longrightarrow> total step (use_cost step uses k) is s \<le> 1"
  using once.total_le [of s k "is"] by (simp split: if_splits)

lemma spent_never_used: "ok s \<Longrightarrow> spent k s \<Longrightarrow> total step (use_cost step uses k) is s = 0"
  using once.total_le [of s k "is"] by simp

end

end
