(* ===== verification/PyText.thy ===== *)
theory PyText
  imports Prelude "HOL-Library.Word"
begin

text \<open>
  The string operations of Python that the backend uses, on ASCII text: trimming, case
  mapping, splitting, decimal and hexadecimal numerals, and the textual form of a UUID.
  A UUID is its 128-bit integer.  The numerals come with their parsers and the round trips
  that the canonical proposal payload relies on.
\<close>

type_synonym uuid = "128 word"

section \<open>Characters and trimming\<close>

definition is_space :: "char \<Rightarrow> bool" where
  "is_space c \<longleftrightarrow> (let n = (of_char c :: nat) in n = 32 \<or> (9 \<le> n \<and> n \<le> 13) \<or> (28 \<le> n \<and> n \<le> 31))"

definition is_digit :: "char \<Rightarrow> bool" where
  "is_digit c \<longleftrightarrow> (let n = (of_char c :: nat) in 48 \<le> n \<and> n \<le> 57)"

definition is_lower :: "char \<Rightarrow> bool" where
  "is_lower c \<longleftrightarrow> (let n = (of_char c :: nat) in 97 \<le> n \<and> n \<le> 122)"

definition is_upper :: "char \<Rightarrow> bool" where
  "is_upper c \<longleftrightarrow> (let n = (of_char c :: nat) in 65 \<le> n \<and> n \<le> 90)"

definition lower :: "string \<Rightarrow> string" where
  "lower = map (\<lambda>c. if is_upper c then char_of ((of_char c :: nat) + 32) else c)"

definition upper :: "string \<Rightarrow> string" where
  "upper = map (\<lambda>c. if is_lower c then char_of ((of_char c :: nat) - 32) else c)"

definition lstrip :: "string \<Rightarrow> string" where
  "lstrip s = dropWhile is_space s"

definition strip :: "string \<Rightarrow> string" where
  "strip s = rev (dropWhile is_space (rev (lstrip s)))"

definition startswith :: "string \<Rightarrow> string \<Rightarrow> bool" where
  "startswith s p \<longleftrightarrow> take (length p) s = p"

definition nonempty :: "string \<Rightarrow> bool" where
  "nonempty s \<longleftrightarrow> s \<noteq> []"

text \<open>Truth of an optional string: \<open>None\<close> and the empty string are false.\<close>

definition truthy :: "string option \<Rightarrow> bool" where
  "truthy v = (case v of None \<Rightarrow> False | Some s \<Rightarrow> s \<noteq> [])"

definition or_else :: "string option \<Rightarrow> string \<Rightarrow> string" where
  "or_else v d = (case v of None \<Rightarrow> d | Some s \<Rightarrow> if s = [] then d else s)"

text \<open>\<open>split_first c s\<close> is \<open>s.split(c, 1)\<close>: the text before the first \<open>c\<close> and what follows it.\<close>

fun split_first :: "char \<Rightarrow> string \<Rightarrow> string \<times> string option" where
  "split_first c [] = ([], None)"
| "split_first c (x # xs) =
     (if x = c then ([], Some xs) else (case split_first c xs of (a, b) \<Rightarrow> (x # a, b)))"

text \<open>\<open>rsplit_head c k s\<close> is \<open>s.rsplit(c, k)[0]\<close>.\<close>

fun drop_last_field :: "char \<Rightarrow> string \<Rightarrow> string option" where
  "drop_last_field c s = (case split_first c (rev s) of (_, None) \<Rightarrow> None | (_, Some r) \<Rightarrow> Some (rev r))"

primrec rsplit_head :: "char \<Rightarrow> nat \<Rightarrow> string \<Rightarrow> string" where
  "rsplit_head c 0 s = s"
| "rsplit_head c (Suc k) s = (case drop_last_field c s of None \<Rightarrow> s | Some r \<Rightarrow> rsplit_head c k r)"

fun join :: "string \<Rightarrow> string list \<Rightarrow> string" where
  "join sep [] = []"
| "join sep [x] = x"
| "join sep (x # xs) = x @ sep @ join sep xs"

text \<open>\<open>s.split(c)\<close>, \<open>s.endswith(p)\<close>, \<open>p in s\<close> and \<open>s.strip(c)\<close> for one character.\<close>

fun split_on :: "char \<Rightarrow> string \<Rightarrow> string list" where
  "split_on c [] = [[]]"
| "split_on c (x # xs) =
     (if x = c then [] # split_on c xs
      else (case split_on c xs of [] \<Rightarrow> [[x]] | f # fs \<Rightarrow> (x # f) # fs))"

definition endswith :: "string \<Rightarrow> string \<Rightarrow> bool" where
  "endswith s p \<longleftrightarrow> startswith (rev s) (rev p)"

fun contains :: "string \<Rightarrow> string \<Rightarrow> bool" where
  "contains [] p \<longleftrightarrow> p = []"
| "contains (x # xs) p \<longleftrightarrow> startswith (x # xs) p \<or> contains xs p"

definition rstrip_char :: "char \<Rightarrow> string \<Rightarrow> string" where
  "rstrip_char c s = rev (dropWhile (\<lambda>x. x = c) (rev s))"

definition strip_char :: "char \<Rightarrow> string \<Rightarrow> string" where
  "strip_char c s = rstrip_char c (dropWhile (\<lambda>x. x = c) s)"

lemma split_on_ne: "split_on c s \<noteq> []"
  by (cases s) (auto split: list.split)

lemma join_split_on: "join [c] (split_on c s) = s"
proof (induction s)
  case (Cons x xs)
  obtain f fs where f: "split_on c xs = f # fs"
    using split_on_ne [of c xs] by (cases "split_on c xs") auto
  with Cons show ?case by (cases fs) auto
qed simp

lemma length_lower [simp]: "length (lower s) = length s"
  by (simp add: lower_def)

lemma length_upper [simp]: "length (upper s) = length s"
  by (simp add: upper_def)

lemma is_upper_lower: "is_upper c \<Longrightarrow> \<not> is_upper (char_of ((of_char c :: nat) + 32))"
  by (auto simp: is_upper_def Let_def)

lemma lower_idem [simp]: "lower (lower s) = lower s"
  by (induction s) (auto simp: lower_def is_upper_lower)

lemma is_lower_upper: "is_lower c \<Longrightarrow> \<not> is_lower (char_of ((of_char c :: nat) - 32))"
  by (auto simp: is_lower_def Let_def)

lemma upper_idem [simp]: "upper (upper s) = upper s"
  by (induction s) (auto simp: upper_def is_lower_upper)

lemma split_first_Some: "split_first c s = (a, Some b) \<Longrightarrow> s = a @ c # b \<and> c \<notin> set a"
  by (induction s arbitrary: a) (auto split: if_splits prod.splits)

lemma split_first_None: "split_first c s = (a, None) \<Longrightarrow> s = a \<and> c \<notin> set a"
  by (induction s arbitrary: a) (auto split: if_splits prod.splits)

lemma split_first_absent: "c \<notin> set a \<Longrightarrow> split_first c (a @ c # b) = (a, Some b)"
  by (induction a) auto

lemma drop_last_field_append: "c \<notin> set b \<Longrightarrow> drop_last_field c (a @ c # b) = Some a"
  using split_first_absent [of c "rev b" "rev a"] by simp

declare drop_last_field.simps [simp del]

lemma dropWhile_id: "xs = [] \<or> \<not> P (hd xs) \<Longrightarrow> dropWhile P xs = xs"
  by (cases xs) auto

lemma dropWhile_hd: "dropWhile P xs = [] \<or> \<not> P (hd (dropWhile P xs))"
  by (induction xs) auto

lemma strip_idem [simp]: "strip (strip s) = strip s"
proof -
  define r where "r = dropWhile is_space (rev (lstrip s))"
  have r: "r = [] \<or> \<not> is_space (hd r)" unfolding r_def by (rule dropWhile_hd)
  have "rev r = [] \<or> \<not> is_space (hd (rev r))"
  proof (cases "r = []")
    case False
    have l: "lstrip s = [] \<or> \<not> is_space (hd (lstrip s))"
      unfolding lstrip_def by (rule dropWhile_hd)
    obtain p where "rev (lstrip s) = p @ r"
      unfolding r_def by (metis takeWhile_dropWhile_id)
    then have "lstrip s = rev r @ rev p" by (metis rev_append rev_rev_ident)
    with False l show ?thesis by (auto simp: hd_append)
  qed simp
  then have "lstrip (rev r) = rev r" unfolding lstrip_def by (rule dropWhile_id)
  then show ?thesis using r by (simp add: strip_def r_def [symmetric] dropWhile_id)
qed

section \<open>Numerals\<close>

text \<open>Fixed-width digits, most significant first, and the value of a digit list.\<close>

primrec digs :: "nat \<Rightarrow> nat \<Rightarrow> nat \<Rightarrow> nat list" where
  "digs b 0 n = []"
| "digs b (Suc k) n = digs b k (n div b) @ [n mod b]"

definition dval :: "nat \<Rightarrow> nat list \<Rightarrow> nat" where
  "dval b = foldl (\<lambda>a d. a * b + d) 0"

lemma length_digs [simp]: "length (digs b k n) = k"
  by (induction k arbitrary: n) auto

lemma digs_ne: "0 < k \<Longrightarrow> digs b k n \<noteq> []"
  by (cases k) auto

lemma digs_less: "0 < b \<Longrightarrow> d \<in> set (digs b k n) \<Longrightarrow> d < b"
  by (induction k arbitrary: n) auto

lemma dval_snoc [simp]: "dval b (ds @ [d]) = dval b ds * b + d"
  by (simp add: dval_def)

lemma dval_Nil [simp]: "dval b [] = 0"
  by (simp add: dval_def)

lemma dval_digs: "0 < b \<Longrightarrow> dval b (digs b k n) = n mod b ^ k"
proof (induction k arbitrary: n)
  case 0
  then show ?case by simp
next
  case (Suc k)
  then have "dval b (digs b (Suc k) n) = (n div b mod b ^ k) * b + n mod b" by simp
  also have "\<dots> = n mod (b * b ^ k)" by (simp add: mod_mult2_eq algebra_simps)
  finally show ?case by simp
qed

text \<open>Decimal digits of a number, without leading zeros.\<close>

fun nat_digs :: "nat \<Rightarrow> nat list" where
  "nat_digs n = (if n < 10 then [n] else nat_digs (n div 10) @ [n mod 10])"

declare nat_digs.simps [simp del]

lemma nat_digs_ne [simp]: "nat_digs n \<noteq> []"
  by (subst nat_digs.simps) simp

lemma nat_digs_less: "d \<in> set (nat_digs n) \<Longrightarrow> d < 10"
proof (induction n rule: nat_digs.induct)
  case (1 n)
  then show ?case by (subst (asm) nat_digs.simps) (auto split: if_splits)
qed

lemma dval_nat_digs: "dval 10 (nat_digs n) = n"
proof (induction n rule: nat_digs.induct)
  case (1 n)
  then show ?case by (subst nat_digs.simps) (auto simp: dval_def)
qed

section \<open>Digit characters\<close>

definition hexdigits :: string where
  "hexdigits = ''0123456789abcdef''"

definition dchar :: "nat \<Rightarrow> char" where
  "dchar d = hexdigits ! d"

definition cval :: "char \<Rightarrow> nat option" where
  "cval c = map_option fst (find (\<lambda>(i, x). x = c) (enumerate 0 hexdigits))"

definition chars_val :: "nat \<Rightarrow> string \<Rightarrow> nat option" where
  "chars_val b s =
     (let ds = map cval s in
      if s \<noteq> [] \<and> list_all (\<lambda>v. case v of None \<Rightarrow> False | Some d \<Rightarrow> d < b) ds
      then Some (dval b (map the ds)) else None)"

lemma less_16: "(d :: nat) < 16 \<longleftrightarrow> d \<in> {0, 1, 2, 3, 4, 5, 6, 7, 8, 9, 10, 11, 12, 13, 14, 15}"
  unfolding insert_iff empty_iff by presburger

lemma cval_dchar [simp]: "d < 16 \<Longrightarrow> cval (dchar d) = Some d"
  by (auto simp: less_16 cval_def dchar_def hexdigits_def)

lemma dchar_neq_punct:
  "d < 16 \<Longrightarrow> dchar d \<noteq> CHR ''-'' \<and> dchar d \<noteq> CHR ''.'' \<and> dchar d \<noteq> CHR ''E'' \<and> dchar d \<noteq> CHR '':''
     \<and> dchar d \<noteq> CHR ''T'' \<and> dchar d \<noteq> CHR ''+''"
  by (auto simp: less_16 dchar_def hexdigits_def)

lemma chars_val_dchar:
  assumes "ds \<noteq> []" and "\<And>d. d \<in> set ds \<Longrightarrow> d < b" and "b \<le> 16"
  shows "chars_val b (map dchar ds) = Some (dval b ds)"
proof -
  have d: "cval (dchar d) = Some d" if "d \<in> set ds" for d
    using assms(2) [OF that] assms(3) by simp
  then have c: "map (cval \<circ> dchar) ds = map Some ds"
    by simp
  have "map (the \<circ> cval \<circ> dchar) ds = ds"
    using d by (simp add: map_idI)
  then show ?thesis
    using assms(1,2) d by (simp add: chars_val_def list_all_iff comp_assoc)
qed

definition nat_str :: "nat \<Rightarrow> string" where
  "nat_str n = map dchar (nat_digs n)"

definition pad_str :: "nat \<Rightarrow> nat \<Rightarrow> string" where
  "pad_str k n = map dchar (digs 10 k n)"

definition int_str :: "int \<Rightarrow> string" where
  "int_str i = (if i < 0 then CHR ''-'' # nat_str (nat (- i)) else nat_str (nat i))"

lemma nat_str_val [simp]: "chars_val 10 (nat_str n) = Some n"
  unfolding nat_str_def
  by (subst chars_val_dchar) (auto simp: dval_nat_digs dest: nat_digs_less)

lemma pad_str_val: "n < 10 ^ k \<Longrightarrow> 0 < k \<Longrightarrow> chars_val 10 (pad_str k n) = Some n"
  unfolding pad_str_def using digs_ne [of k 10 n]
  by (subst chars_val_dchar) (auto simp: dval_digs digs_less)

lemma length_pad_str [simp]: "length (pad_str k n) = k"
  by (simp add: pad_str_def)

lemma nat_str_ne [simp]: "nat_str n \<noteq> []"
  by (simp add: nat_str_def)

lemma nat_str_inject [simp]: "nat_str m = nat_str n \<longleftrightarrow> m = n"
  by (metis nat_str_val option.inject)

lemma numeral_chars:
  "c \<in> set (nat_str n) \<or> c \<in> set (pad_str k n) \<Longrightarrow>
     c \<noteq> CHR ''-'' \<and> c \<noteq> CHR ''.'' \<and> c \<noteq> CHR ''E'' \<and> c \<noteq> CHR '':'' \<and> c \<noteq> CHR ''T'' \<and> c \<noteq> CHR ''+''"
proof -
  assume "c \<in> set (nat_str n) \<or> c \<in> set (pad_str k n)"
  then obtain d where "d \<in> set (nat_digs n) \<or> d \<in> set (digs 10 k n)" and c: "c = dchar d"
    unfolding nat_str_def pad_str_def by auto
  then have "d < 16" using nat_digs_less [of d n] digs_less [of 10 d k n] by fastforce
  then show ?thesis using dchar_neq_punct c by simp
qed

section \<open>UUIDs\<close>

text \<open>\<open>str(uuid)\<close>, the 8-4-4-4-12 form, and \<open>UUID(text)\<close>, which drops hyphens and wants 32
  hexadecimal digits of either case (the \<open>urn:uuid:\<close> and brace forms are not modelled).\<close>

definition str_uuid :: "uuid \<Rightarrow> string" where
  "str_uuid u =
     (let h = map dchar (digs 16 32 (unat u)) in
      take 8 h @ ''-'' @ take 4 (drop 8 h) @ ''-'' @ take 4 (drop 12 h) @ ''-'' @
      take 4 (drop 16 h) @ ''-'' @ drop 20 h)"

definition parse_uuid :: "string \<Rightarrow> uuid option" where
  "parse_uuid s =
     (let h = filter (\<lambda>c. c \<noteq> CHR ''-'') (lower s) in
      if length h = 32 then map_option of_nat (chars_val 16 h) else None)"

lemma filter_dashes:
  assumes "CHR ''-'' \<notin> set h"
  shows "filter (\<lambda>c. c \<noteq> CHR ''-'') (take 8 h @ ''-'' @ take 4 (drop 8 h) @ ''-'' @ take 4 (drop 12 h)
    @ ''-'' @ take 4 (drop 16 h) @ ''-'' @ drop 20 h) = h"
proof -
  have f: "filter (\<lambda>c. c \<noteq> CHR ''-'') xs = xs" if "set xs \<subseteq> set h" for xs
    using that assms by (auto simp: filter_id_conv)
  have sub: "set (take n (drop m h)) \<subseteq> set h" "set (take n h) \<subseteq> set h" "set (drop m h) \<subseteq> set h"
    for n m
    by (auto dest: in_set_takeD in_set_dropD)
  have j: "take 4 (drop m h) @ drop (m + 4) h = drop m h" for m
    by (metis append_take_drop_id drop_drop add.commute)
  have "take 8 h @ take 4 (drop 8 h) @ take 4 (drop 12 h) @ take 4 (drop 16 h) @ drop 20 h = h"
    using j [of 16] j [of 12] j [of 8] by simp
  then show ?thesis by (simp add: f sub)
qed

lemma lower_dchar: "d < 16 \<Longrightarrow> \<not> is_upper (dchar d)"
  by (auto simp: less_16 dchar_def hexdigits_def is_upper_def)

lemma lower_id: "(\<And>c. c \<in> set s \<Longrightarrow> \<not> is_upper c) \<Longrightarrow> lower s = s"
  by (induction s) (auto simp: lower_def)

lemma lower_str_uuid: "lower (str_uuid u) = str_uuid u"
proof (rule lower_id)
  fix c assume c: "c \<in> set (str_uuid u)"
  define h where "h = map dchar (digs 16 32 (unat u))"
  have "set (str_uuid u) \<subseteq> insert (CHR ''-'') (set h)"
    unfolding str_uuid_def h_def [symmetric] Let_def
    by (auto dest: in_set_takeD in_set_dropD)
  with c have "c = CHR ''-'' \<or> c \<in> set h" by auto
  then show "\<not> is_upper c"
  proof
    assume "c \<in> set h"
    then obtain d where "d \<in> set (digs 16 32 (unat u))" "c = dchar d" by (auto simp: h_def)
    then show ?thesis using digs_less [of 16 d] lower_dchar [of d] by simp
  qed (simp add: is_upper_def)
qed

lemma parse_str_uuid [simp]: "parse_uuid (str_uuid u) = Some u"
proof -
  define h where "h = map dchar (digs 16 32 (unat u))"
  have d: "d < 16" if "d \<in> set (digs 16 32 (unat u))" for d
    using digs_less [OF _ that] by simp
  have nd: "CHR ''-'' \<notin> set h"
    using d dchar_neq_punct unfolding h_def by fastforce
  have bound: "unat u < 2 ^ LENGTH(128)" by (rule unsigned_less)
  have ne: "digs 16 32 (unat u) \<noteq> []"
    by (metis length_digs list.size(3) zero_neq_numeral)
  have "chars_val 16 h = Some (dval 16 (digs 16 32 (unat u)))"
    unfolding h_def using ne d by (intro chars_val_dchar) auto
  also have "dval 16 (digs 16 32 (unat u)) = unat u mod 16 ^ 32"
    by (rule dval_digs) simp
  also have "\<dots> = unat u"
    using bound by simp
  finally have "chars_val 16 h = Some (unat u)" .
  moreover have "length h = 32" by (simp add: h_def)
  ultimately show ?thesis
    unfolding parse_uuid_def lower_str_uuid
    unfolding str_uuid_def Let_def h_def [symmetric] filter_dashes [OF nd] by simp
qed

lemma str_uuid_inject [simp]: "str_uuid u = str_uuid v \<longleftrightarrow> u = v"
  by (metis option.inject parse_str_uuid)

end
