(* ===== verification/PyDecimal.thy ===== *)
theory PyDecimal
  imports PyText Complex_Main
begin

text \<open>
  Python's \<open>Decimal\<close>, restricted to finite values with an exponent \<open>\<le> 0\<close>: \<open>Dec c s\<close> is
  \<open>c * 10^-s\<close>.  Every amount of the backend is of this form (\<open>Numeric(14, 2)\<close> and
  \<open>Numeric(14, 3)\<close> columns and their products, at most 28 digits, so the default context
  never rounds).  The scale is part of the value because \<open>str\<close> shows it, and the approval
  hash is computed from that text.
\<close>

datatype dec = Dec (coeff: int) (scale: nat)

definition rat_of :: "dec \<Rightarrow> rat" where
  "rat_of d = of_int (coeff d) / 10 ^ scale d"

definition dle :: "dec \<Rightarrow> dec \<Rightarrow> bool" where
  "dle a b \<longleftrightarrow> coeff a * 10 ^ scale b \<le> coeff b * 10 ^ scale a"

definition dlt :: "dec \<Rightarrow> dec \<Rightarrow> bool" where
  "dlt a b \<longleftrightarrow> coeff a * 10 ^ scale b < coeff b * 10 ^ scale a"

definition deq :: "dec \<Rightarrow> dec \<Rightarrow> bool" where
  "deq a b \<longleftrightarrow> coeff a * 10 ^ scale b = coeff b * 10 ^ scale a"

definition dzero :: dec where "dzero = Dec 0 0"

definition dadd :: "dec \<Rightarrow> dec \<Rightarrow> dec" where
  "dadd a b = (let s = max (scale a) (scale b)
               in Dec (coeff a * 10 ^ (s - scale a) + coeff b * 10 ^ (s - scale b)) s)"

definition dneg :: "dec \<Rightarrow> dec" where "dneg a = Dec (- coeff a) (scale a)"

definition dsub :: "dec \<Rightarrow> dec \<Rightarrow> dec" where "dsub a b = dadd a (dneg b)"

definition dmul :: "dec \<Rightarrow> dec \<Rightarrow> dec" where
  "dmul a b = Dec (coeff a * coeff b) (scale a + scale b)"

text \<open>\<open>a / Decimal("2")\<close> is exact: the coefficient is halved when it is even, otherwise one more
  digit is needed.\<close>

definition dhalf :: "dec \<Rightarrow> dec" where
  "dhalf a = (if even (coeff a) then Dec (coeff a div 2) (scale a)
              else Dec (coeff a * 5) (scale a + 1))"

text \<open>\<open>min(a, b)\<close> returns the first of two equal values.\<close>

definition dmin :: "dec \<Rightarrow> dec \<Rightarrow> dec" where "dmin a b = (if dlt b a then b else a)"

definition dmax :: "dec \<Rightarrow> dec \<Rightarrow> dec" where "dmax a b = (if dlt a b then b else a)"

text \<open>\<open>a.quantize(Decimal(10) ** -n)\<close> with the default rounding, half to even.\<close>

definition quantize :: "nat \<Rightarrow> dec \<Rightarrow> dec" where
  "quantize n a =
     (if scale a \<le> n then Dec (coeff a * 10 ^ (n - scale a)) n
      else let p = 10 ^ (scale a - n); q = coeff a div p; r = coeff a mod p
           in Dec (if 2 * r > p \<or> (2 * r = p \<and> odd q) then q + 1 else q) n)"

text \<open>\<open>Decimal(str(float(d)))\<close>: the shortest text of the float has no trailing zeros after the first
  decimal.  Exact for values of at most 15 significant digits (every amount here); larger ones
  would be rounded to a binary float.\<close>

function py_float :: "dec \<Rightarrow> dec" where
  "py_float (Dec c s) =
     (if s = 0 then Dec (c * 10) 1
      else if 1 < s \<and> c mod 10 = 0 then py_float (Dec (c div 10) (s - 1))
      else Dec c s)"
  by pat_completeness auto
termination by (relation "measure scale") auto

section \<open>The order and the operations are those of the rationals\<close>

lemma ten_pow_pos [simp]: "(0 :: rat) < 10 ^ n" "(0 :: int) < 10 ^ n"
  by simp_all

lemma cross_le: "(rat_of a \<le> rat_of b) = (coeff a * 10 ^ scale b \<le> coeff b * 10 ^ scale a)"
proof -
  have "(rat_of a \<le> rat_of b)
      = ((of_int (coeff a) :: rat) * 10 ^ scale b \<le> of_int (coeff b) * 10 ^ scale a)"
    unfolding rat_of_def by (simp add: field_simps)
  also have "\<dots> = ((of_int (coeff a * 10 ^ scale b) :: rat) \<le> of_int (coeff b * 10 ^ scale a))"
    by simp
  finally show ?thesis by (simp only: of_int_le_iff)
qed

lemma dle_rat: "dle a b \<longleftrightarrow> rat_of a \<le> rat_of b"
  by (simp add: dle_def cross_le)

lemma dlt_rat: "dlt a b \<longleftrightarrow> rat_of a < rat_of b"
  by (simp add: dlt_def cross_le not_le [symmetric])

lemma deq_rat: "deq a b \<longleftrightarrow> rat_of a = rat_of b"
  by (simp add: deq_def order_antisym_conv cross_le order_eq_iff)

lemma dle_refl [simp]: "dle a a" by (simp add: dle_rat)
lemma deq_refl [simp]: "deq a a" by (simp add: deq_rat)
lemma dle_trans: "dle a b \<Longrightarrow> dle b c \<Longrightarrow> dle a c" by (simp add: dle_rat)
lemma not_dle: "\<not> dle a b \<longleftrightarrow> dlt b a" by (simp add: dle_rat dlt_rat not_le)
lemma not_dlt: "\<not> dlt a b \<longleftrightarrow> dle b a" by (simp add: dle_rat dlt_rat not_less)
lemma dlt_imp_dle: "dlt a b \<Longrightarrow> dle a b" by (simp add: dle_rat dlt_rat)

lemma rat_of_zero [simp]: "rat_of dzero = 0" by (simp add: rat_of_def dzero_def)

lemma rat_of_rescale: "s \<le> t \<Longrightarrow> rat_of (Dec (c * 10 ^ (t - s)) t) = rat_of (Dec c s)"
  by (simp add: rat_of_def field_simps power_add [symmetric])

lemma rat_of_add [simp]: "rat_of (dadd a b) = rat_of a + rat_of b"
proof -
  let ?s = "max (scale a) (scale b)"
  have "rat_of (dadd a b) = rat_of (Dec (coeff a * 10 ^ (?s - scale a)) ?s)
                          + rat_of (Dec (coeff b * 10 ^ (?s - scale b)) ?s)"
    by (simp add: dadd_def Let_def rat_of_def add_divide_distrib)
  then show ?thesis by (simp add: rat_of_rescale)
qed

lemma rat_of_neg [simp]: "rat_of (dneg a) = - rat_of a"
  by (simp add: rat_of_def dneg_def)

lemma rat_of_sub [simp]: "rat_of (dsub a b) = rat_of a - rat_of b"
  by (simp add: dsub_def)

lemma rat_of_mul [simp]: "rat_of (dmul a b) = rat_of a * rat_of b"
  by (simp add: rat_of_def dmul_def power_add)

lemma rat_of_half [simp]: "rat_of (dhalf a) = rat_of a / 2"
proof (cases "even (coeff a)")
  case True
  then have "(of_int (coeff a div 2) :: rat) = of_int (coeff a) / 2"
    by (auto elim: evenE)
  with True show ?thesis by (simp add: rat_of_def dhalf_def field_simps)
qed (simp add: rat_of_def dhalf_def)

lemma rat_of_min: "rat_of (dmin a b) = min (rat_of a) (rat_of b)"
  by (auto simp: dmin_def dlt_rat min_def)

lemma rat_of_max: "rat_of (dmax a b) = max (rat_of a) (rat_of b)"
  by (auto simp: dmax_def dlt_rat max_def)

lemma dmin_le: "dle (dmin a b) a" "dle (dmin a b) b"
  by (auto simp: dle_rat rat_of_min)

lemma scale_quantize [simp]: "scale (quantize n a) = n"
  by (simp add: quantize_def Let_def)

text \<open>Rounding moves a value by at most half a unit of the last place.\<close>

lemma quantize_close: "\<bar>rat_of (quantize n a) - rat_of a\<bar> \<le> 1 / (2 * 10 ^ n)"
proof (cases "scale a \<le> n")
  case True
  then show ?thesis by (cases a) (simp add: quantize_def rat_of_rescale)
next
  case False
  define p :: int where "p = 10 ^ (scale a - n)"
  define q where "q = coeff a div p"
  define r where "r = coeff a mod p"
  define v where "v = (if 2 * r > p \<or> (2 * r = p \<and> odd q) then q + 1 else q)"
  have p: "0 < p" by (simp add: p_def)
  have c: "coeff a = q * p + r" by (simp add: q_def r_def)
  have "0 \<le> r" "r < p" using p by (simp_all add: r_def)
  then have bound: "\<bar>2 * (v * p - coeff a)\<bar> \<le> p"
    using p by (auto simp: v_def c algebra_simps)
  have qa: "quantize n a = Dec v n"
    using False by (simp add: quantize_def Let_def v_def q_def r_def p_def)
  have s: "(10 :: rat) ^ scale a = of_int p * 10 ^ n"
    using False by (simp add: p_def power_add [symmetric])
  have pr: "(0 :: rat) < of_int p" using p by simp
  have "rat_of (quantize n a) - rat_of a = of_int (v * p - coeff a) / (of_int p * 10 ^ n)"
    unfolding qa using pr by (simp add: rat_of_def s field_simps)
  also have "\<bar>\<dots>\<bar> = of_int \<bar>v * p - coeff a\<bar> / (of_int p * 10 ^ n)"
    using pr by (simp add: abs_mult)
  also have "\<dots> \<le> 1 / (2 * 10 ^ n)"
  proof -
    have "(of_int (2 * \<bar>v * p - coeff a\<bar>) :: rat) \<le> of_int p"
      using bound by (simp only: of_int_le_iff)
    then show ?thesis using pr by (simp add: field_simps)
  qed
  finally show ?thesis .
qed

declare py_float.simps [simp del]

lemma rat_of_py_float [simp]: "rat_of (py_float d) = rat_of d"
proof (induction d rule: py_float.induct)
  case (1 c s)
  show ?case
  proof (cases "1 < s \<and> c mod 10 = 0")
    case True
    then have "c = (c div 10) * 10" "s = Suc (s - 1)" by presburger+
    then have "(of_int c :: rat) / 10 ^ s = of_int (c div 10) / 10 ^ (s - 1)"
      by (metis (no_types, opaque_lifting) mult_divide_mult_cancel_right of_int_mult of_int_numeral
          power_Suc2 zero_neq_numeral)
    with True 1 show ?thesis by (subst py_float.simps) (simp add: rat_of_def)
  next
    case False
    then show ?thesis by (subst py_float.simps) (auto simp: rat_of_def)
  qed
qed

section \<open>Text form\<close>

definition str_dec :: "dec \<Rightarrow> string" where
  "str_dec d =
     (let ds = nat_str (nat \<bar>coeff d\<bar>); n = length ds; s = scale d;
          sg = (if coeff d < 0 then ''-'' else '''')
      in if s < n + 6
         then (if s = 0 then sg @ ds
               else if s < n then sg @ take (n - s) ds @ ''.'' @ drop (n - s) ds
               else sg @ ''0.'' @ replicate (s - n) (CHR ''0'') @ ds)
         else sg @ take 1 ds @ (if n = 1 then '''' else ''.'' @ drop 1 ds) @ ''E-'' @ nat_str (s - n + 1))"

text \<open>\<open>Decimal(text)\<close>: sign, digits with an optional point, optional exponent.  \<open>None\<close> is
  \<open>InvalidOperation\<close>.\<close>

definition parse_exp :: "string option \<Rightarrow> int option" where
  "parse_exp v =
     (case v of None \<Rightarrow> Some 0
      | Some (c # r) \<Rightarrow> (if c = CHR ''-'' then map_option (\<lambda>n. - int n) (chars_val 10 r)
                         else if c = CHR ''+'' then map_option int (chars_val 10 r)
                         else map_option int (chars_val 10 (c # r)))
      | Some [] \<Rightarrow> None)"

definition parse_dec :: "string \<Rightarrow> dec option" where
  "parse_dec s =
     (let neg = (s \<noteq> [] \<and> hd s = CHR ''-'');
          body = (if s \<noteq> [] \<and> (hd s = CHR ''-'' \<or> hd s = CHR ''+'') then tl s else s)
      in case split_first (CHR ''E'') body of (m, ex) \<Rightarrow>
         case split_first (CHR ''.'') m of (ip, fp) \<Rightarrow>
         (let frac = (case fp of None \<Rightarrow> [] | Some f \<Rightarrow> f)
          in case (chars_val 10 (ip @ frac), parse_exp ex) of
               (Some v, Some e) \<Rightarrow>
                 (let k = int (length frac) - e; w = (if neg then - int v else int v)
                  in Some (if 0 \<le> k then Dec w (nat k) else Dec (w * 10 ^ nat (- k)) 0))
             | _ \<Rightarrow> None))"

lemma chars_val_zeros: "chars_val 10 s = Some v \<Longrightarrow> chars_val 10 (replicate k (CHR ''0'') @ s) = Some v"
proof (induction k)
  case (Suc k)
  have z: "cval (CHR ''0'') = Some 0" using cval_dchar [of 0] by (simp add: dchar_def hexdigits_def)
  have "dval 10 (0 # xs) = dval 10 xs" for xs by (simp add: dval_def)
  with Suc show ?case by (auto simp: chars_val_def z Let_def split: if_splits)
qed simp

lemma split_first_id: "c \<notin> set s \<Longrightarrow> split_first c s = (s, None)"
  by (induction s) auto

lemma nat_str_no [simp]:
  "CHR ''E'' \<notin> set (nat_str n)" "CHR ''.'' \<notin> set (nat_str n)" "CHR ''-'' \<notin> set (nat_str n)"
  "CHR ''+'' \<notin> set (nat_str n)"
  using numeral_chars [of _ n 0] by blast+

lemma nat_str_take_no [simp]:
  "CHR ''E'' \<notin> set (take k (nat_str n))" "CHR ''.'' \<notin> set (take k (nat_str n))"
  "CHR ''E'' \<notin> set (drop k (nat_str n))" "CHR ''.'' \<notin> set (drop k (nat_str n))"
  using nat_str_no by (auto dest: in_set_takeD in_set_dropD)

definition dec_body :: "dec \<Rightarrow> string" where
  "dec_body d = str_dec (Dec \<bar>coeff d\<bar> (scale d))"

lemma str_dec_body: "str_dec d = (if coeff d < 0 then CHR ''-'' # dec_body d else dec_body d)"
  by (auto simp: str_dec_def dec_body_def Let_def)

lemma hd_nat_str: "hd (nat_str n) \<noteq> CHR ''-'' \<and> hd (nat_str n) \<noteq> CHR ''+''"
  using nat_str_no [of n] by (metis hd_in_set nat_str_ne)

lemma dec_body_hd: "dec_body d \<noteq> [] \<and> hd (dec_body d) \<noteq> CHR ''-'' \<and> hd (dec_body d) \<noteq> CHR ''+''"
  using hd_nat_str [of "nat \<bar>coeff d\<bar>"] nat_str_ne [of "nat \<bar>coeff d\<bar>"]
  by (cases "nat_str (nat \<bar>coeff d\<bar>)") (auto simp: dec_body_def str_dec_def Let_def hd_append)

lemma parse_body:
  "parse_dec (dec_body d) = Some (Dec \<bar>coeff d\<bar> (scale d))"
proof -
  define n where "n = nat \<bar>coeff d\<bar>"
  define ds where "ds = nat_str n"
  have v: "chars_val 10 ds = Some n" by (simp add: ds_def)
  have ne: "0 < length ds" by (simp add: ds_def)
  have no: "CHR ''E'' \<notin> set ds" "CHR ''.'' \<notin> set ds" by (simp_all add: ds_def)
  have noE: "CHR ''E'' \<notin> set (take k ds)" "CHR ''E'' \<notin> set (drop k ds)"
    "CHR ''.'' \<notin> set (take k ds)" for k by (simp_all add: ds_def)
  have int: "int n = \<bar>coeff d\<bar>" by (simp add: n_def)
  have body: "dec_body d = (if scale d < length ds + 6
         then (if scale d = 0 then ds
               else if scale d < length ds
                 then take (length ds - scale d) ds @ ''.'' @ drop (length ds - scale d) ds
               else ''0.'' @ replicate (scale d - length ds) (CHR ''0'') @ ds)
         else take 1 ds @ (if length ds = 1 then '''' else ''.'' @ drop 1 ds) @ ''E-''
                @ nat_str (scale d - length ds + 1))"
    by (simp add: dec_body_def str_dec_def Let_def ds_def n_def)
  have pd: "parse_dec (dec_body d) =
     (case split_first (CHR ''E'') (dec_body d) of (m, ex) \<Rightarrow>
         case split_first (CHR ''.'') m of (ip, fp) \<Rightarrow>
         (let frac = (case fp of None \<Rightarrow> [] | Some f \<Rightarrow> f)
          in case (chars_val 10 (ip @ frac), parse_exp ex) of
               (Some v, Some e) \<Rightarrow>
                 (let k = int (length frac) - e
                  in Some (if 0 \<le> k then Dec (int v) (nat k) else Dec (int v * 10 ^ nat (- k)) 0))
             | _ \<Rightarrow> None))"
    using dec_body_hd [of d] unfolding parse_dec_def by (simp only: Let_def if_False simp_thms)
  consider (a) "scale d = 0" | (b) "0 < scale d" "scale d < length ds"
    | (c) "length ds \<le> scale d" "scale d < length ds + 6" | (e) "length ds + 6 \<le> scale d"
    by linarith
  then show ?thesis
  proof cases
    case a
    then show ?thesis
      unfolding pd by (simp add: body split_first_id no v parse_exp_def int)
  next
    case b
    let ?k = "length ds - scale d"
    have e: "split_first (CHR ''E'') (take ?k ds @ CHR ''.'' # drop ?k ds)
        = (take ?k ds @ CHR ''.'' # drop ?k ds, None)"
      by (rule split_first_id) (use noE in auto)
    have d: "split_first (CHR ''.'') (take ?k ds @ CHR ''.'' # drop ?k ds)
        = (take ?k ds, Some (drop ?k ds))"
      by (rule split_first_absent) (use noE in auto)
    from b show ?thesis
      unfolding pd by (simp add: body e d v parse_exp_def int)
  next
    case c
    let ?z = "replicate (scale d - length ds) (CHR ''0'') @ ds"
    have e: "split_first (CHR ''E'') (CHR ''0'' # CHR ''.'' # ?z) = (CHR ''0'' # CHR ''.'' # ?z, None)"
      by (rule split_first_id) (use no in auto)
    have vz: "chars_val 10 (CHR ''0'' # ?z) = Some n"
      using chars_val_zeros [OF v, of "Suc (scale d - length ds)"] by simp
    from c ne have "0 < scale d" by linarith
    with c have bd: "dec_body d = CHR ''0'' # CHR ''.'' # ?z" by (simp add: body)
    have d: "split_first (CHR ''.'') (CHR ''0'' # CHR ''.'' # ?z) = (''0'', Some ?z)" by simp
    from c show ?thesis
      unfolding pd unfolding bd e prod.case d by (simp add: parse_exp_def vz int)
  next
    case e
    let ?x = "nat_str (scale d - length ds + 1)"
    let ?m = "take 1 ds @ (if length ds = 1 then '''' else ''.'' @ drop 1 ds)"
    have se: "split_first (CHR ''E'') (?m @ CHR ''E'' # CHR ''-'' # ?x) = (?m, Some (CHR ''-'' # ?x))"
      by (rule split_first_absent) (use noE in auto)
    have f: "split_first (CHR ''.'') ?m = (if length ds = 1 then (ds, None) else (take 1 ds, Some (drop 1 ds)))"
    proof (cases "length ds = 1")
      case True
      then show ?thesis using no by (simp add: split_first_id)
    next
      case False
      have "split_first (CHR ''.'') (take 1 ds @ CHR ''.'' # drop 1 ds) = (take 1 ds, Some (drop 1 ds))"
        by (rule split_first_absent) (use noE in auto)
      with False show ?thesis by simp
    qed
    have bd: "dec_body d = ?m @ CHR ''E'' # CHR ''-'' # ?x"
      using e by (simp add: body)
    have px: "parse_exp (Some (CHR ''-'' # ?x)) = Some (- int (scale d - length ds + 1))"
      by (simp add: parse_exp_def)
    have td: "take 1 ds @ drop 1 ds = ds" by (rule append_take_drop_id)
    have vt: "chars_val 10 (take 1 ds @ drop 1 ds) = Some n" by (simp only: td v)
    show ?thesis
    proof (cases "length ds = 1")
      case True
      with e show ?thesis
        unfolding pd unfolding bd se prod.case f px by (simp add: v int)
    next
      case False
      then have f': "split_first (CHR ''.'') ?m = (take 1 ds, Some (drop 1 ds))" using f by simp
      from e ne show ?thesis
        unfolding pd unfolding bd se prod.case f' px option.case Let_def vt
          by (cases "length ds") (simp_all add: int)
    qed
  qed
qed

lemma parse_str_dec [simp]: "parse_dec (str_dec d) = Some d"
proof (cases "coeff d < 0")
  case False
  then show ?thesis using parse_body [of d] by (cases d) (simp add: str_dec_body)
next
  case True
  have "parse_dec (CHR ''-'' # dec_body d) =
     map_option dneg (parse_dec (dec_body d))"
    using dec_body_hd [of d]
    by (auto simp: parse_dec_def Let_def dneg_def split: prod.splits option.splits)
  with True parse_body [of d] show ?thesis by (cases d) (simp add: str_dec_body dneg_def)
qed

lemma str_dec_inject [simp]: "str_dec a = str_dec b \<longleftrightarrow> a = b"
  by (metis option.inject parse_str_dec)

end
