(* ===== verification/PyTime.thy ===== *)
theory PyTime
  imports PyText
begin

text \<open>
  Instants.  A \<open>datetime\<close> that the domain entities carry is in UTC and is the number of
  microseconds since 1970-01-01T00:00:00 (an \<open>int\<close>).  A value read from a column may have lost
  its zone (SQLite does that), which \<open>tstamp\<close> keeps visible.  \<open>isoformat\<close> and
  \<open>fromisoformat\<close> are given with the calendar they need: the year is found inside its 400-year
  cycle, the month inside its year.
\<close>

section \<open>Zones\<close>

datatype tstamp = Aware (instant: int) | Naive (instant: int)

definition minutes :: "int \<Rightarrow> int" where "minutes n = n * 60000000"
definition seconds :: "int \<Rightarrow> int" where "seconds n = n * 1000000"
definition hours :: "int \<Rightarrow> int" where "hours n = n * 3600000000"
definition days :: "int \<Rightarrow> int" where "days n = n * 86400000000"

section \<open>Calendar\<close>

definition leap :: "nat \<Rightarrow> bool" where
  "leap y \<longleftrightarrow> y mod 4 = 0 \<and> (y mod 100 \<noteq> 0 \<or> y mod 400 = 0)"

definition ylen :: "nat \<Rightarrow> nat" where "ylen y = (if leap y then 366 else 365)"

definition mlen :: "nat \<Rightarrow> nat \<Rightarrow> nat" where
  "mlen y m = (if m = 2 then (if leap y then 29 else 28)
               else if m \<in> {4, 6, 9, 11} then 30 else 31)"

text \<open>\<open>walk len k i d\<close> finds the block that contains day \<open>d\<close>, counting from block \<open>i\<close>;
  \<open>span len i k\<close> is the length of \<open>k\<close> blocks from \<open>i\<close>.\<close>

fun walk :: "(nat \<Rightarrow> nat) \<Rightarrow> nat \<Rightarrow> nat \<Rightarrow> nat \<Rightarrow> nat \<times> nat" where
  "walk len 0 i d = (i, d)"
| "walk len (Suc k) i d = (if d < len i then (i, d) else walk len k (Suc i) (d - len i))"

fun span :: "(nat \<Rightarrow> nat) \<Rightarrow> nat \<Rightarrow> nat \<Rightarrow> nat" where
  "span len i 0 = 0"
| "span len i (Suc k) = len i + span len (Suc i) k"

lemma walk_span:
  "walk len k i d = (j, r) \<Longrightarrow> d < span len i k \<Longrightarrow>
   i \<le> j \<and> j < i + k \<and> d = span len i (j - i) + r \<and> r < len j"
proof (induction k arbitrary: i d)
  case 0
  then show ?case by simp
next
  case (Suc k)
  show ?case
  proof (cases "d < len i")
    case True
    with Suc.prems show ?thesis by auto
  next
    case False
    with Suc.prems have "walk len k (Suc i) (d - len i) = (j, r)" "d - len i < span len (Suc i) k"
      by auto
    from Suc.IH [OF this] have ih: "Suc i \<le> j" "j < Suc i + k"
      "d - len i = span len (Suc i) (j - Suc i) + r" "r < len j" by auto
    then have "span len i (j - i) = len i + span len (Suc i) (j - Suc i)"
      by (metis Suc_diff_le Suc_le_lessD diff_Suc_Suc le_Suc_eq span.simps(2))
    with ih False show ?thesis by auto
  qed
qed

lemma ylen_cycle: "ylen (400 * q + y) = ylen y"
proof -
  have "400 * q + y = y + 4 * (100 * q)" "400 * q + y = y + 100 * (4 * q)" "400 * q + y = y + 400 * q"
    by simp_all
  then have "(400 * q + y) mod 4 = y mod 4" "(400 * q + y) mod 100 = y mod 100"
    "(400 * q + y) mod 400 = y mod 400"
    by (metis mod_mult_self2)+
  then show ?thesis by (simp add: ylen_def leap_def)
qed

lemma span_cycle: "span ylen (400 * q + y) k = span ylen y k"
proof (induction k arbitrary: y)
  case (Suc k)
  have "Suc (400 * q + y) = 400 * q + Suc y" by simp
  then show ?case by (simp only: span.simps ylen_cycle Suc)
qed simp

lemma span_snoc: "span len i (Suc k) = span len i k + len (i + k)"
  by (induction k arbitrary: i) auto

lemma span_years: "span ylen 1 k + k div 100 = 365 * k + k div 4 + k div 400"
proof (induction k)
  case (Suc k)
  have 4: "Suc k mod 400 = 0 \<Longrightarrow> Suc k mod 100 = 0" "Suc k mod 100 = 0 \<Longrightarrow> Suc k mod 4 = 0"
    using mod_mod_cancel [of 100 400 "Suc k"] mod_mod_cancel [of 4 100 "Suc k"] by simp_all
  define a where "a = span ylen 1 k"
  define b where "b = span ylen 1 (Suc k)"
  have "b = a + ylen (Suc k)" unfolding a_def b_def by (simp only: span_snoc) simp
  also have "ylen (Suc k) + Suc k div 100 + k div 4 + k div 400
      = 365 + k div 100 + Suc k div 4 + Suc k div 400"
    using 4 unfolding ylen_def leap_def div_Suc by auto
  then have "a + ylen (Suc k) + Suc k div 100 = a + k div 100 + 365 + Suc k div 4 + Suc k div 400
      - k div 4 - k div 400"
    by linarith
  finally show ?case using Suc.IH unfolding a_def [symmetric] b_def [symmetric] by simp
qed simp

lemma cycle_length: "span ylen 1 400 = 146097" and cycle_length_399: "span ylen 1 399 = 145731"
  using span_years [of 400] span_years [of 399] by simp_all

lemma year_length: "span (mlen y) 1 12 = ylen y"
  by (simp add: eval_nat_numeral mlen_def ylen_def)

definition civil :: "nat \<Rightarrow> nat \<times> nat \<times> nat" where
  "civil n =
     (case walk ylen 400 (400 * (n div 146097) + 1) (n mod 146097) of
        (y, d) \<Rightarrow> (case walk (mlen y) 12 1 d of (m, k) \<Rightarrow> (y, m, k + 1)))"

definition ordinal :: "nat \<Rightarrow> nat \<Rightarrow> nat \<Rightarrow> nat" where
  "ordinal y m d =
     (let q = (y - 1) div 400
      in q * 146097 + span ylen (400 * q + 1) ((y - 1) mod 400) + span (mlen y) 1 (m - 1) + (d - 1))"

lemma civil_props:
  assumes "civil n = (y, m, d)"
  shows "ordinal y m d = n" and "1 \<le> m" and "m \<le> 12" and "1 \<le> d" and "d \<le> mlen y m"
    and "400 * (n div 146097) < y" and "y \<le> 400 * (n div 146097) + 400"
proof -
  define q where "q = n div 146097"
  obtain r where w: "walk ylen 400 (400 * q + 1) (n mod 146097) = (y, r)"
    and v: "walk (mlen y) 12 1 r = (m, d - 1)" and d1: "1 \<le> d"
    using assms by (auto simp: civil_def q_def split: prod.splits)
  have "n mod 146097 < span ylen (400 * q + 1) 400"
    by (simp only: span_cycle cycle_length)
  from walk_span [OF w this] have y: "400 * q + 1 \<le> y" "y < 400 * q + 1 + 400"
    and n: "n mod 146097 = span ylen (400 * q + 1) (y - (400 * q + 1)) + r" and r: "r < ylen y"
    by auto
  have "r < span (mlen y) 1 12" using r by (simp only: year_length)
  from walk_span [OF v this] have m: "1 \<le> m" "m < 13" and rd: "r = span (mlen y) 1 (m - 1) + (d - 1)"
    and dm: "d - 1 < mlen y m" by auto
  show "1 \<le> m" "m \<le> 12" "1 \<le> d" using m d1 by auto
  show "d \<le> mlen y m" using dm d1 by simp
  show "400 * (n div 146097) < y" "y \<le> 400 * (n div 146097) + 400"
    using y by (simp_all add: q_def)
  define k where "k = y - (400 * q + 1)"
  have k: "k < 400" "y - 1 = 400 * q + k" using y by (simp_all add: k_def)
  have "(y - 1) div 400 = q" "(y - 1) mod 400 = k" using k by simp_all
  then have "ordinal y m d = q * 146097 + span ylen (400 * q + 1) k + r"
    by (simp add: ordinal_def rd)
  also have "\<dots> = q * 146097 + n mod 146097" using n by (simp add: k_def)
  also have "\<dots> = n" by (simp add: q_def)
  finally show "ordinal y m d = n" .
qed

section \<open>ISO 8601 text\<close>

definition day_us :: int where "day_us = 86400000000"
definition epoch_ordinal :: int where "epoch_ordinal = 719162"

text \<open>\<open>datetime.min\<close> and \<open>datetime.max\<close>: the years 1 to 9999.\<close>

definition valid_time :: "int \<Rightarrow> bool" where
  "valid_time t \<longleftrightarrow> - epoch_ordinal * day_us \<le> t \<and> t < (3652059 - epoch_ordinal) * day_us"

definition isoformat :: "int \<Rightarrow> string" where
  "isoformat t =
     (case civil (nat (t div day_us + epoch_ordinal)) of (y, m, d) \<Rightarrow>
      (let us = nat (t mod day_us); sec = us div 1000000; fr = us mod 1000000
       in pad_str 4 y @ ''-'' @ pad_str 2 m @ ''-'' @ pad_str 2 d @ ''T'' @
          pad_str 2 (sec div 3600) @ '':'' @ pad_str 2 (sec div 60 mod 60) @ '':'' @
          pad_str 2 (sec mod 60) @ (if fr = 0 then '''' else ''.'' @ pad_str 6 fr) @ ''+00:00''))"

definition parse_zone :: "string \<Rightarrow> int option" where
  "parse_zone z =
     (if z = ''Z'' then Some 0
      else if length z = 6 \<and> z ! 3 = CHR '':'' \<and> (z ! 0 = CHR ''+'' \<or> z ! 0 = CHR ''-'')
      then (case (chars_val 10 (take 2 (drop 1 z)), chars_val 10 (drop 4 z)) of
              (Some h, Some m) \<Rightarrow>
                (let off = (int h * 60 + int m) * 60000000
                 in Some (if z ! 0 = CHR ''-'' then - off else off))
            | _ \<Rightarrow> None)
      else None)"

definition parse_frac :: "string \<Rightarrow> (nat \<times> string) option" where
  "parse_frac s =
     (if s \<noteq> [] \<and> hd s = CHR ''.''
      then map_option (\<lambda>n. (n, drop 7 s)) (chars_val 10 (take 6 (drop 1 s)))
      else Some (0, s))"

text \<open>\<open>fromisoformat\<close> on the extended format with a zone; a text without one is a naive datetime
  and is outside this model.\<close>

definition parse_iso :: "string \<Rightarrow> int option" where
  "parse_iso s =
     (if 19 \<le> length s \<and> s ! 4 = CHR ''-'' \<and> s ! 7 = CHR ''-'' \<and> s ! 10 = CHR ''T''
         \<and> s ! 13 = CHR '':'' \<and> s ! 16 = CHR '':''
      then (case (chars_val 10 (take 4 s), chars_val 10 (take 2 (drop 5 s)),
                  chars_val 10 (take 2 (drop 8 s))) of
              (Some y, Some m, Some d) \<Rightarrow>
                (case (chars_val 10 (take 2 (drop 11 s)), chars_val 10 (take 2 (drop 14 s)),
                       chars_val 10 (take 2 (drop 17 s))) of
                   (Some h, Some mi, Some sec) \<Rightarrow>
                     (case parse_frac (drop 19 s) of
                        Some (fr, z) \<Rightarrow>
                          (if 1 \<le> y \<and> 1 \<le> m \<and> m \<le> 12 \<and> 1 \<le> d \<and> d \<le> mlen y m \<and> h < 24 \<and> mi < 60 \<and> sec < 60
                           then map_option (\<lambda>off.
                                  (int (ordinal y m d) - epoch_ordinal) * day_us
                                  + (int h * 3600 + int mi * 60 + int sec) * 1000000 + int fr - off)
                                (parse_zone z)
                           else None)
                      | None \<Rightarrow> None)
                 | _ \<Rightarrow> None)
            | _ \<Rightarrow> None)
      else None)"

lemma fields:
  fixes g :: string
  assumes "length a = 4" "length b = 2" "length c = 2" "length d = 2" "length e = 2" "length f = 2"
    and s: "s = a @ ''-'' @ b @ ''-'' @ c @ ''T'' @ d @ '':'' @ e @ '':'' @ f @ g"
  shows "take 4 s = a" "take 2 (drop 5 s) = b" "take 2 (drop 8 s) = c" "take 2 (drop 11 s) = d"
    "take 2 (drop 14 s) = e" "take 2 (drop 17 s) = f" "drop 19 s = g" "19 \<le> length s"
    "s ! 4 = CHR ''-''" "s ! 7 = CHR ''-''" "s ! 10 = CHR ''T''" "s ! 13 = CHR '':''"
    "s ! 16 = CHR '':''"
  using assms(1-6) unfolding s
  by (auto simp: numeral_eq_Suc length_Suc_conv)

lemma parse_frac_none: "parse_frac ''+00:00'' = Some (0, ''+00:00'')"
  by (simp add: parse_frac_def)

lemma parse_frac_some: "n < 1000000 \<Longrightarrow> parse_frac (CHR ''.'' # pad_str 6 n @ z) = Some (n, z)"
  by (simp add: parse_frac_def pad_str_val)

lemma parse_zone_utc: "parse_zone ''+00:00'' = Some 0"
  by (simp add: parse_zone_def chars_val_def cval_def hexdigits_def dval_def)

lemma parse_zone_z: "parse_zone ''Z'' = Some 0"
  by (simp add: parse_zone_def)

lemma mlen_le: "mlen y m \<le> 31"
  by (simp add: mlen_def)

text \<open>An instant in UTC, written with either suffix.\<close>

lemma parse_iso_utc:
  assumes "valid_time t" and sfx: "isoformat t = body @ ''+00:00''" and utc: "suffix = ''+00:00'' \<or> suffix = ''Z''"
  shows "parse_iso (body @ suffix) = Some t"
proof -
  define n where "n = nat (t div day_us + epoch_ordinal)"
  define us where "us = nat (t mod day_us)"
  obtain y m d where ymd: "civil n = (y, m, d)" by (cases "civil n") auto
  define sec where "sec = us div 1000000"
  define fr where "fr = us mod 1000000"
  have lo: "0 \<le> t div day_us + epoch_ordinal" and hi: "t div day_us + epoch_ordinal < 3652059"
    using assms by (auto simp: valid_time_def day_us_def epoch_ordinal_def)
  then have n: "int n = t div day_us + epoch_ordinal" and n_hi: "n < 3652059"
    by (simp_all add: n_def)
  have us: "int us = t mod day_us" by (simp add: us_def day_us_def)
  have "int us < 86400000000" unfolding us by (simp add: day_us_def)
  then have us_hi: "us < 86400000000" by linarith
  have q: "n div 146097 < 25" using n_hi by (simp add: less_mult_imp_div_less)
  note cv = civil_props [OF ymd]
  have y_le: "y \<le> 10000" "1 \<le> y" using cv(6,7) q by simp_all
  have "y \<noteq> 10000"
  proof
    assume "y = 10000"
    moreover have "span ylen (400 * 24 + 1) 399 = 145731" by (simp only: span_cycle cycle_length_399)
    ultimately have "3652059 \<le> n" using cv(1) by (simp add: ordinal_def)
    with n_hi show False by simp
  qed
  with y_le have y: "1 \<le> y" "y < 10 ^ 4" by simp_all
  have d: "d < 10 ^ 2" "m < 10 ^ 2" using cv mlen_le [of y m] by simp_all
  have sec: "sec div 3600 < 24" using us_hi by (simp add: sec_def less_mult_imp_div_less div_mult2_eq [symmetric])
  have fr: "fr < 1000000" by (simp add: fr_def)
  define z where "z = (if fr = 0 then '''' else ''.'' @ pad_str 6 fr) @ suffix"
  have iso: "body @ suffix = pad_str 4 y @ ''-'' @ pad_str 2 m @ ''-'' @ pad_str 2 d @ ''T'' @
     pad_str 2 (sec div 3600) @ '':'' @ pad_str 2 (sec div 60 mod 60) @ '':'' @ pad_str 2 (sec mod 60) @ z"
    using sfx [symmetric] by (simp add: isoformat_def n_def [symmetric] us_def [symmetric] ymd Let_def sec_def fr_def z_def)
  have pf: "parse_frac z = Some (fr, suffix)"
    using parse_frac_some [OF fr] parse_frac_none utc by (auto simp: z_def parse_frac_def)
  have pz: "parse_zone suffix = Some 0" using utc parse_zone_utc parse_zone_z by blast
  have v: "chars_val 10 (pad_str 4 y) = Some y" "chars_val 10 (pad_str 2 m) = Some m"
    "chars_val 10 (pad_str 2 d) = Some d" "chars_val 10 (pad_str 2 (sec div 3600)) = Some (sec div 3600)"
    "chars_val 10 (pad_str 2 (sec div 60 mod 60)) = Some (sec div 60 mod 60)"
    "chars_val 10 (pad_str 2 (sec mod 60)) = Some (sec mod 60)"
    using y d sec by (simp_all add: pad_str_val)
  note f = fields [OF _ _ _ _ _ _ iso, simplified]
  have "parse_iso (body @ suffix) = Some ((int n - epoch_ordinal) * day_us
      + (int (sec div 3600) * 3600 + int (sec div 60 mod 60) * 60 + int (sec mod 60)) * 1000000 + int fr)"
    unfolding parse_iso_def using y cv sec by (simp add: f v pf pz)
  also have "int (sec div 3600) * 3600 + int (sec div 60 mod 60) * 60 + int (sec mod 60) = int sec"
  proof -
    have "sec div 3600 = sec div 60 div 60" by (simp add: div_mult2_eq [symmetric])
    then have "sec div 3600 * 3600 + sec div 60 mod 60 * 60 + sec mod 60
        = (sec div 60 div 60 * 60 + sec div 60 mod 60) * 60 + sec mod 60"
      by (simp only: distrib_right mult.assoc)
    also have "\<dots> = sec" by (simp only: div_mult_mod_eq)
    finally have "sec div 3600 * 3600 + sec div 60 mod 60 * 60 + sec mod 60 = sec" .
    then have "int (sec div 3600 * 3600 + sec div 60 mod 60 * 60 + sec mod 60) = int sec"
      by (rule arg_cong)
    then show ?thesis by (simp only: of_nat_add of_nat_mult of_nat_numeral)
  qed
  also have "(int n - epoch_ordinal) * day_us + int sec * 1000000 + int fr
      = (int n - epoch_ordinal) * day_us + int us"
    unfolding sec_def fr_def zdiv_int zmod_int of_nat_numeral by simp
  also have "\<dots> = t" using n us by simp
  finally show ?thesis .
qed

lemma isoformat_suffix: "isoformat t = take (length (isoformat t) - 6) (isoformat t) @ ''+00:00''"
  by (simp add: isoformat_def Let_def split: prod.split)

lemma parse_isoformat [simp]: "valid_time t \<Longrightarrow> parse_iso (isoformat t) = Some t"
  by (metis isoformat_suffix parse_iso_utc)

text \<open>Pydantic writes an instant in UTC with \<open>Z\<close>.\<close>

definition iso_z :: "int \<Rightarrow> string" where
  "iso_z t = take (length (isoformat t) - 6) (isoformat t) @ ''Z''"

lemma parse_iso_z [simp]: "valid_time t \<Longrightarrow> parse_iso (iso_z t) = Some t"
  unfolding iso_z_def by (rule parse_iso_utc [OF _ isoformat_suffix]) simp_all

end
