(* ===== verification/Errors.thy ===== *)
theory Errors
  imports PyText
begin

text \<open>
  The exceptions of the backend (\<open>app/core/errors.py\<close>) and the few built-in ones that its code
  raises or catches.  An exception value is its class and its message.  \<open>code\<close> and
  \<open>status_code\<close> are class attributes, found along the method resolution order.
\<close>

datatype exc_class =
    PyException | PyValueError | PyLookupError | PyKeyError | PyTypeError | PyAttributeError | PyRuntimeError
  | PyValidationError | SqlIntegrityError
  | VyapaarError | AuthenticationError | AuthorizationError | NotFoundError | ConflictError
  | InvalidRequestError | DuplicateEventError | StaleApprovalError | InvalidSignatureError
  | ProviderError | ProviderAuthenticationError | SarvamAuthenticationError
  | OtpDeliveryUnavailableError | InvalidOtpError | OAuthCredentialError | ProviderTimeoutError
  | RateLimitError | SupplierUnavailableError | AgentFailureError | DatabaseError | RedisError

datatype exc = Exc (cls: exc_class) (msg: string)

definition parent :: "exc_class \<Rightarrow> exc_class option" where
  "parent c = (case c of
     PyException \<Rightarrow> None
   | PyKeyError \<Rightarrow> Some PyLookupError
   | PyValidationError \<Rightarrow> Some PyValueError
   | DuplicateEventError \<Rightarrow> Some ConflictError
   | StaleApprovalError \<Rightarrow> Some ConflictError
   | InvalidSignatureError \<Rightarrow> Some AuthenticationError
   | InvalidOtpError \<Rightarrow> Some AuthenticationError
   | OAuthCredentialError \<Rightarrow> Some AuthenticationError
   | ProviderAuthenticationError \<Rightarrow> Some ProviderError
   | SarvamAuthenticationError \<Rightarrow> Some ProviderAuthenticationError
   | OtpDeliveryUnavailableError \<Rightarrow> Some ProviderError
   | ProviderTimeoutError \<Rightarrow> Some ProviderError
   | RateLimitError \<Rightarrow> Some ProviderError
   | SupplierUnavailableError \<Rightarrow> Some ProviderError
   | AuthenticationError \<Rightarrow> Some VyapaarError
   | AuthorizationError \<Rightarrow> Some VyapaarError
   | NotFoundError \<Rightarrow> Some VyapaarError
   | ConflictError \<Rightarrow> Some VyapaarError
   | InvalidRequestError \<Rightarrow> Some VyapaarError
   | ProviderError \<Rightarrow> Some VyapaarError
   | AgentFailureError \<Rightarrow> Some VyapaarError
   | DatabaseError \<Rightarrow> Some VyapaarError
   | RedisError \<Rightarrow> Some VyapaarError
   | _ \<Rightarrow> Some PyException)"

text \<open>The longest chain, \<open>SarvamAuthenticationError\<close>, has five classes.\<close>

primrec chain :: "nat \<Rightarrow> exc_class \<Rightarrow> exc_class list" where
  "chain 0 c = [c]"
| "chain (Suc n) c = c # (case parent c of None \<Rightarrow> [] | Some p \<Rightarrow> chain n p)"

definition mro :: "exc_class \<Rightarrow> exc_class list" where
  "mro c = chain 4 c"

text \<open>\<open>except d:\<close> catches the exceptions of class \<open>c\<close> when \<open>d\<close> is in its resolution order.\<close>

definition isa :: "exc_class \<Rightarrow> exc_class \<Rightarrow> bool" where
  "isa c d \<longleftrightarrow> d \<in> set (mro c)"

definition own_code :: "exc_class \<Rightarrow> string option" where
  "own_code c = (case c of
     VyapaarError \<Rightarrow> Some ''VYAPAAR_ERROR''
   | AuthenticationError \<Rightarrow> Some ''AUTHENTICATION_FAILED''
   | AuthorizationError \<Rightarrow> Some ''NOT_AUTHORIZED''
   | NotFoundError \<Rightarrow> Some ''NOT_FOUND''
   | ConflictError \<Rightarrow> Some ''CONFLICT''
   | InvalidRequestError \<Rightarrow> Some ''INVALID_REQUEST''
   | DuplicateEventError \<Rightarrow> Some ''DUPLICATE_EVENT''
   | StaleApprovalError \<Rightarrow> Some ''STALE_APPROVAL''
   | InvalidSignatureError \<Rightarrow> Some ''INVALID_SIGNATURE''
   | ProviderError \<Rightarrow> Some ''PROVIDER_ERROR''
   | ProviderAuthenticationError \<Rightarrow> Some ''PROVIDER_AUTHENTICATION_FAILED''
   | SarvamAuthenticationError \<Rightarrow> Some ''SARVAM_AUTHENTICATION_FAILED''
   | OtpDeliveryUnavailableError \<Rightarrow> Some ''OTP_DELIVERY_UNAVAILABLE''
   | InvalidOtpError \<Rightarrow> Some ''OTP_VERIFICATION_FAILED''
   | OAuthCredentialError \<Rightarrow> Some ''OAUTH_CREDENTIAL_INVALID''
   | ProviderTimeoutError \<Rightarrow> Some ''PROVIDER_TIMEOUT''
   | RateLimitError \<Rightarrow> Some ''RATE_LIMITED''
   | SupplierUnavailableError \<Rightarrow> Some ''SUPPLIER_UNAVAILABLE''
   | AgentFailureError \<Rightarrow> Some ''AGENT_FAILURE''
   | DatabaseError \<Rightarrow> Some ''DATABASE_FAILURE''
   | RedisError \<Rightarrow> Some ''REDIS_FAILURE''
   | _ \<Rightarrow> None)"

definition own_status :: "exc_class \<Rightarrow> nat option" where
  "own_status c = (case c of
     VyapaarError \<Rightarrow> Some 400
   | AuthenticationError \<Rightarrow> Some 401
   | AuthorizationError \<Rightarrow> Some 403
   | NotFoundError \<Rightarrow> Some 404
   | ConflictError \<Rightarrow> Some 409
   | InvalidRequestError \<Rightarrow> Some 400
   | ProviderError \<Rightarrow> Some 502
   | OtpDeliveryUnavailableError \<Rightarrow> Some 503
   | ProviderTimeoutError \<Rightarrow> Some 504
   | RateLimitError \<Rightarrow> Some 429
   | AgentFailureError \<Rightarrow> Some 500
   | DatabaseError \<Rightarrow> Some 503
   | RedisError \<Rightarrow> Some 503
   | _ \<Rightarrow> None)"

fun first_attr :: "(exc_class \<Rightarrow> 'a option) \<Rightarrow> exc_class list \<Rightarrow> 'a option" where
  "first_attr f [] = None"
| "first_attr f (c # cs) = (case f c of None \<Rightarrow> first_attr f cs | Some v \<Rightarrow> Some v)"

definition err_code :: "exc_class \<Rightarrow> string option" where
  "err_code c = first_attr own_code (mro c)"

definition status_code :: "exc_class \<Rightarrow> nat option" where
  "status_code c = first_attr own_status (mro c)"

text \<open>\<open>type(exc).__name__\<close>, which the order executor stores as the failure reason.\<close>

definition exc_name :: "exc_class \<Rightarrow> string" where
  "exc_name c = (case c of
     PyException \<Rightarrow> ''Exception'' | PyValueError \<Rightarrow> ''ValueError'' | PyLookupError \<Rightarrow> ''LookupError''
   | PyKeyError \<Rightarrow> ''KeyError'' | PyTypeError \<Rightarrow> ''TypeError''
   | PyAttributeError \<Rightarrow> ''AttributeError'' | PyRuntimeError \<Rightarrow> ''RuntimeError''
   | PyValidationError \<Rightarrow> ''ValidationError'' | SqlIntegrityError \<Rightarrow> ''IntegrityError''
   | VyapaarError \<Rightarrow> ''VyapaarError'' | AuthenticationError \<Rightarrow> ''AuthenticationError''
   | AuthorizationError \<Rightarrow> ''AuthorizationError'' | NotFoundError \<Rightarrow> ''NotFoundError''
   | ConflictError \<Rightarrow> ''ConflictError'' | InvalidRequestError \<Rightarrow> ''InvalidRequestError''
   | DuplicateEventError \<Rightarrow> ''DuplicateEventError'' | StaleApprovalError \<Rightarrow> ''StaleApprovalError''
   | InvalidSignatureError \<Rightarrow> ''InvalidSignatureError'' | ProviderError \<Rightarrow> ''ProviderError''
   | ProviderAuthenticationError \<Rightarrow> ''ProviderAuthenticationError''
   | SarvamAuthenticationError \<Rightarrow> ''SarvamAuthenticationError''
   | OtpDeliveryUnavailableError \<Rightarrow> ''OtpDeliveryUnavailableError''
   | InvalidOtpError \<Rightarrow> ''InvalidOtpError'' | OAuthCredentialError \<Rightarrow> ''OAuthCredentialError''
   | ProviderTimeoutError \<Rightarrow> ''ProviderTimeoutError'' | RateLimitError \<Rightarrow> ''RateLimitError''
   | SupplierUnavailableError \<Rightarrow> ''SupplierUnavailableError''
   | AgentFailureError \<Rightarrow> ''AgentFailureError'' | DatabaseError \<Rightarrow> ''DatabaseError''
   | RedisError \<Rightarrow> ''RedisError'')"

text \<open>\<open>SarvamAuthenticationError()\<close> fixes its message.\<close>

definition sarvam_authentication_error :: exc where
  "sarvam_authentication_error =
     Exc SarvamAuthenticationError ''Voice service is temporarily unavailable.''"

section \<open>The hierarchy\<close>

lemma isa_refl [simp]: "isa c c"
  by (simp add: isa_def mro_def eval_nat_numeral)

lemma mro_closed: "d \<in> set (mro c) \<Longrightarrow> parent d = Some p \<Longrightarrow> p \<in> set (mro c)"
  by (cases c) (auto simp: mro_def parent_def eval_nat_numeral)

lemma isa_VyapaarError:
  "isa c VyapaarError \<longleftrightarrow> c \<notin> {PyException, PyValueError, PyLookupError, PyKeyError, PyTypeError,
     PyAttributeError, PyRuntimeError, PyValidationError, SqlIntegrityError}"
  by (cases c) (simp_all add: isa_def mro_def parent_def eval_nat_numeral)

text \<open>Two different error classes of the application never share a wire code.\<close>

lemma err_code_eq:
  "isa c VyapaarError \<Longrightarrow> err_code c = own_code c \<and> own_code c \<noteq> None"
  by (cases c) (simp_all add: isa_VyapaarError err_code_def mro_def own_code_def eval_nat_numeral)

end
