(* ===== verification/Json.thy ===== *)
theory Json
  imports PyDecimal PyTime Errors "HOL-Library.List_Lexorder" "HOL-Library.Char_ord"
begin

text \<open>
  JSON values as the payload columns hold them, the dictionary access of Python on them, and
  \<open>canonical_json\<close> (\<open>json.dumps(value, sort_keys=True, separators=(",", ":"))\<close>), whose text is
  what order hashes and A2A signatures are computed from.  A dictionary is the list of its
  items in insertion order.
\<close>

datatype json =
    JNull
  | JBool bool
  | JInt int
  | JNum dec
  | JStr string
  | JArr "json list"
  | JObj "(string \<times> json) list"

section \<open>Dictionaries\<close>

type_synonym dict = "(string \<times> json) list"

definition dget :: "dict \<Rightarrow> string \<Rightarrow> json option" where
  "dget d k = map_of d k"

definition opt_json :: "('a \<Rightarrow> json) \<Rightarrow> 'a option \<Rightarrow> json" where
  "opt_json f v = (case v of None \<Rightarrow> JNull | Some a \<Rightarrow> f a)"

text \<open>\<open>payload["k"]\<close> where the code goes on to use a text: a missing key is a \<open>KeyError\<close>, another
  kind of value fails the conversion that follows.\<close>

definition item_str :: "dict \<Rightarrow> string \<Rightarrow> exc + string" where
  "item_str d k = (case map_of d k of
     None \<Rightarrow> Inl (Exc PyKeyError k)
   | Some (JStr s) \<Rightarrow> Inr s
   | Some _ \<Rightarrow> Inl (Exc PyValidationError k))"

text \<open>\<open>{**a, **b}\<close> and \<open>d[k] = v\<close>.\<close>

fun dset :: "dict \<Rightarrow> string \<Rightarrow> json \<Rightarrow> dict" where
  "dset [] k v = [(k, v)]"
| "dset ((k', v') # d) k v = (if k' = k then (k, v) # d else (k', v') # dset d k v)"

definition dmerge :: "dict \<Rightarrow> dict \<Rightarrow> dict" where
  "dmerge a b = foldl (\<lambda>d (k, v). dset d k v) a b"

lemma dget_dset [simp]: "dget (dset d k v) k' = (if k' = k then Some v else dget d k')"
  by (induction d) (auto simp: dget_def)

lemma keys_dset: "fst ` set (dset d k v) = insert k (fst ` set d)"
  by (induction d k v rule: dset.induct) (simp_all add: insert_commute)

section \<open>Text form\<close>

definition esc_char :: "char \<Rightarrow> string" where
  "esc_char c =
     (if c = CHR 0x22 then [CHR 0x5C, CHR 0x22]
      else if c = CHR 0x5C then [CHR 0x5C, CHR 0x5C]
      else if c = CHR 0x0A then [CHR 0x5C, CHR ''n'']
      else if c = CHR 0x0D then [CHR 0x5C, CHR ''r'']
      else if c = CHR 0x09 then [CHR 0x5C, CHR ''t'']
      else if c = CHR 0x08 then [CHR 0x5C, CHR ''b'']
      else if c = CHR 0x0C then [CHR 0x5C, CHR ''f'']
      else let n = (of_char c :: nat) in
        if n < 32 \<or> 127 < n then [CHR 0x5C, CHR ''u''] @ map dchar (digs 16 4 n) else [c])"

definition quote_str :: "string \<Rightarrow> string" where
  "quote_str s = [CHR 0x22] @ concat (map esc_char s) @ [CHR 0x22]"

text \<open>\<open>render\<close> is \<open>json.dumps\<close> with the compact separators on a value whose dictionaries are
  sorted; \<open>sort_keys\<close> sorts every dictionary by key.\<close>

fun render :: "json \<Rightarrow> string" and render_list :: "json list \<Rightarrow> string list"
  and render_items :: "(string \<times> json) list \<Rightarrow> string list" where
  "render JNull = ''null''"
| "render (JBool b) = (if b then ''true'' else ''false'')"
| "render (JInt i) = int_str i"
| "render (JNum d) = str_dec d"
| "render (JStr s) = quote_str s"
| "render (JArr xs) = ''['' @ join '','' (render_list xs) @ '']''"
| "render (JObj d) = ''{'' @ join '','' (render_items d) @ ''}''"
| "render_list [] = []"
| "render_list (x # xs) = render x # render_list xs"
| "render_items [] = []"
| "render_items (kv # d) = (quote_str (fst kv) @ '':'' @ render (snd kv)) # render_items d"

fun sort_keys :: "json \<Rightarrow> json" and sort_keys_list :: "json list \<Rightarrow> json list"
  and sort_keys_items :: "(string \<times> json) list \<Rightarrow> (string \<times> json) list" where
  "sort_keys (JArr xs) = JArr (sort_keys_list xs)"
| "sort_keys (JObj d) = JObj (sort_key fst (sort_keys_items d))"
| "sort_keys v = v"
| "sort_keys_list [] = []"
| "sort_keys_list (x # xs) = sort_keys x # sort_keys_list xs"
| "sort_keys_items [] = []"
| "sort_keys_items (kv # d) = (fst kv, sort_keys (snd kv)) # sort_keys_items d"

definition canonical_json :: "json \<Rightarrow> string" where
  "canonical_json v = render (sort_keys v)"

section \<open>The text of a dictionary of texts determines it\<close>

definition str_obj :: "(string \<times> string) list \<Rightarrow> json" where
  "str_obj kvs = JObj (map (\<lambda>(k, v). (k, JStr v)) kvs)"

definition esc_len :: "string \<Rightarrow> nat" where
  "esc_len w = (if w ! 0 \<noteq> CHR 0x5C then 1 else if w ! 1 = CHR ''u'' then 6 else 2)"

definition unesc :: "string \<Rightarrow> char" where
  "unesc w =
     (if length w = 1 then w ! 0
      else if length w = 2 then
        (if w ! 1 = CHR ''n'' then CHR 0x0A else if w ! 1 = CHR ''r'' then CHR 0x0D
         else if w ! 1 = CHR ''t'' then CHR 0x09 else if w ! 1 = CHR ''b'' then CHR 0x08
         else if w ! 1 = CHR ''f'' then CHR 0x0C else w ! 1)
      else char_of (the (chars_val 16 (drop 2 w))))"

lemma esc_char_ne: "esc_char c \<noteq> []"
  by (simp add: esc_char_def Let_def)

lemma esc_char_hd: "hd (esc_char c) \<noteq> CHR 0x22"
  by (auto simp: esc_char_def Let_def)

lemma unesc_esc: "unesc (esc_char c) = c"
proof -
  let ?n = "of_char c :: nat"
  have n: "?n < 16 ^ 4" using nat_of_char_less_256 [of c] by (simp del: nat_of_char_less_256)
  have "chars_val 16 (map dchar (digs 16 4 ?n)) = Some ?n"
    by (subst chars_val_dchar) (use n in \<open>auto simp: dval_digs digs_ne digs_less\<close>)
  then show ?thesis by (auto simp: esc_char_def unesc_def Let_def)
qed

lemma esc_len_append: "esc_len (esc_char c @ x) = length (esc_char c)"
  by (auto simp: esc_char_def esc_len_def Let_def)

lemma esc_char_prefix:
  assumes "esc_char c @ x = esc_char d @ y"
  shows "c = d \<and> x = y"
proof -
  have "length (esc_char c) = length (esc_char d)"
    using assms by (metis esc_len_append)
  with assms have "esc_char c = esc_char d" "x = y" by simp_all
  then show ?thesis by (metis unesc_esc)
qed

lemma quote_body_prefix:
  "concat (map esc_char v) @ CHR 0x22 # x = concat (map esc_char w) @ CHR 0x22 # y \<Longrightarrow> v = w \<and> x = y"
proof (induction v arbitrary: w)
  case Nil
  show ?case
  proof (cases w)
    case (Cons d w')
    with Nil show ?thesis
      using esc_char_hd [of d] esc_char_ne [of d] by (cases "esc_char d") auto
  qed (use Nil in simp)
next
  case (Cons c v)
  show ?case
  proof (cases w)
    case Nil
    with Cons.prems show ?thesis
      using esc_char_hd [of c] esc_char_ne [of c] by (cases "esc_char c") auto
  next
    case (Cons d w')
    with Cons.prems have "esc_char c @ (concat (map esc_char v) @ CHR 0x22 # x)
        = esc_char d @ (concat (map esc_char w') @ CHR 0x22 # y)" by simp
    from esc_char_prefix [OF this] Cons Cons.IH [of w'] show ?thesis by auto
  qed
qed

text \<open>A quoted string delimits itself.\<close>

lemma quote_prefix: "quote_str v @ x = quote_str w @ y \<Longrightarrow> v = w \<and> x = y"
  by (rule quote_body_prefix) (simp add: quote_str_def)

lemma quote_str_inject [simp]: "quote_str v = quote_str w \<longleftrightarrow> v = w"
  using quote_prefix [of v "[]" w "[]"] by auto

fun item_text :: "(string \<times> string) \<Rightarrow> string" where
  "item_text (k, v) = quote_str k @ CHR '':'' # quote_str v"

lemma item_prefix:
  assumes "item_text p @ x = item_text q @ y"
  shows "p = q \<and> x = y"
proof -
  obtain k v l w where pq: "p = (k, v)" "q = (l, w)" by (cases p; cases q)
  with assms have "quote_str k @ (CHR '':'' # quote_str v @ x) = quote_str l @ (CHR '':'' # quote_str w @ y)"
    by simp
  from quote_prefix [OF this] have "k = l" "quote_str v @ x = quote_str w @ y" by simp_all
  with quote_prefix [of v x w y] pq show ?thesis by simp
qed

lemma join_items_inject:
  "join '','' (map item_text xs) @ ''}'' = join '','' (map item_text ys) @ ''}'' \<Longrightarrow>
   length xs = length ys \<Longrightarrow> xs = ys"
proof (induction xs arbitrary: ys)
  case Nil
  then show ?case by simp
next
  case (Cons p xs)
  obtain q ys' where ys: "ys = q # ys'" using Cons.prems(2) by (cases ys) auto
  show ?case
  proof (cases xs)
    case Nil
    with Cons.prems ys have "item_text p @ ''}'' = item_text q @ ''}''" by simp
    from item_prefix [OF this] Nil Cons.prems ys show ?thesis by simp
  next
    case (Cons p' xs')
    obtain q' ys'' where ys': "ys' = q' # ys''" using Cons.prems(2) Cons ys by (cases ys') auto
    have "item_text p @ ('','' @ join '','' (map item_text xs) @ ''}'')
        = item_text q @ ('','' @ join '','' (map item_text ys') @ ''}'')"
      using Cons.prems(1) ys ys' Cons by simp
    from item_prefix [OF this] have "p = q"
      "join '','' (map item_text xs) @ ''}'' = join '','' (map item_text ys') @ ''}''" by simp_all
    with Cons.IH [of ys'] Cons.prems(2) ys show ?thesis by simp
  qed
qed

lemma render_str_obj: "render (str_obj kvs) = ''{'' @ join '','' (map item_text kvs) @ ''}''"
proof -
  have "render_items (map (\<lambda>(k, v). (k, JStr v)) kvs) = map item_text kvs"
    by (induction kvs) auto
  then show ?thesis by (simp add: str_obj_def)
qed

lemma sort_keys_str_obj: "sort_keys (str_obj kvs) = str_obj (sort_key fst kvs)"
proof -
  have i: "sort_keys_items (map (\<lambda>(k, v). (k, JStr v)) kvs) = map (\<lambda>(k, v). (k, JStr v)) kvs"
    by (induction kvs) auto
  have "sort_key fst (map (\<lambda>(k, v). (k, JStr v)) kvs) = map (\<lambda>(k, v). (k, JStr v)) (sort_key fst kvs)"
  proof (induction kvs)
    case (Cons a kvs)
    have "insort_key fst ((\<lambda>(k, v). (k, JStr v)) a) (map (\<lambda>(k, v). (k, JStr v)) l)
        = map (\<lambda>(k, v). (k, JStr v)) (insort_key fst a l)" for l :: "(string \<times> string) list"
      by (induction l) (auto split: prod.split)
    with Cons show ?case by simp
  qed simp
  then show ?thesis by (simp add: str_obj_def i)
qed

text \<open>Two dictionaries of texts with the same keys have the same canonical text only when they
  have the same values.\<close>

lemma canonical_str_obj_inject:
  assumes eq: "canonical_json (str_obj a) = canonical_json (str_obj b)"
    and keys: "map fst a = map fst b" and dist: "distinct (map fst a)"
  shows "a = b"
proof -
  have len: "length (sort_key fst a) = length (sort_key fst b)"
    using keys by (metis length_map length_sort)
  have "join '','' (map item_text (sort_key fst a)) @ ''}''
      = join '','' (map item_text (sort_key fst b)) @ ''}''"
    using eq by (simp add: canonical_json_def sort_keys_str_obj render_str_obj)
  from join_items_inject [OF this len] have "sort_key fst a = sort_key fst b" .
  then have "set a = set b" by (metis set_sort)
  show "a = b"
  proof (rule nth_equalityI)
    show "length a = length b" using keys by (metis length_map)
    fix i assume i: "i < length a"
    with \<open>set a = set b\<close> obtain j where j: "j < length b" "b ! j = a ! i"
      by (metis in_set_conv_nth)
    with i keys have "map fst a ! i = map fst a ! j" and "j < length a"
      by (metis length_map nth_map)+
    with dist i have "i = j" using nth_eq_iff_index_eq [of "map fst a" i j] by simp
    with j show "a ! i = b ! i" by simp
  qed
qed

end
