(* ===== verification/Domain.thy ===== *)
theory Domain
  imports Json
begin

text \<open>
  \<open>app/domain\<close>: the enumerations, the frozen entities with the checks of their constructors,
  the domain events and the dataclasses of the negotiation service.  A validator that fails
  is the outcome \<open>Inl\<close> of pydantic's \<open>ValidationError\<close>.  The canonical payload of a proposal and
  its reading back (\<open>OrderService._proposal\<close>) are here because both are about the entity only.
\<close>

section \<open>Enumerations\<close>

datatype approval_status = AS_PENDING | AS_APPROVED | AS_MODIFIED | AS_REJECTED | AS_EXPIRED

datatype order_status = OS_PROPOSED | OS_APPROVAL_PENDING | OS_APPROVED | OS_EXECUTING
  | OS_CONFIRMED | OS_FAILED | OS_CANCELLED

datatype execution_status = ES_NOT_STARTED | ES_SUCCEEDED | ES_FAILED

datatype negotiation_status = NS_STARTED | NS_COUNTER_OFFER | NS_ACCEPTED | NS_REJECTED | NS_FAILED

datatype agent_run_status = RS_RUNNING | RS_WAITING_APPROVAL | RS_COMPLETED | RS_FAILED

datatype channel_type = CH_API | CH_FLUTTER | CH_WHATSAPP | CH_TELEGRAM | CH_VOICE

datatype transaction_status = TS_PENDING | TS_SUCCEEDED | TS_FAILED

datatype otp_purpose = OP_LOGIN | OP_REGISTRATION

datatype oauth_provider = GOOGLE | APPLE

datatype notification_type = NT_APPROVAL_REQUIRED | NT_ORDER_UPDATE | NT_INVENTORY_ALERT

datatype event_type = INVENTORY_LOW | DEMAND_SURGE_DETECTED | PURCHASE_PROPOSAL_CREATED
  | NEGOTIATION_STARTED | QUOTE_RECEIVED | NEGOTIATION_COMPLETED | APPROVAL_REQUIRED
  | APPROVAL_GRANTED | APPROVAL_REJECTED | ORDER_EXECUTED | ORDER_FAILED
  | SUPPLIER_CONFIRMATION_RECEIVED | VOICE_SESSION_STARTED | VOICE_TRANSCRIPT_FINAL
  | A2A_MESSAGE_RECEIVED | INVENTORY_UPDATED | NEGOTIATION_UPDATED | NOTIFICATION_CREATED

text \<open>The values of the string enums.\<close>

definition approval_status_str :: "approval_status \<Rightarrow> string" where
  "approval_status_str s = (case s of AS_PENDING \<Rightarrow> ''PENDING'' | AS_APPROVED \<Rightarrow> ''APPROVED''
     | AS_MODIFIED \<Rightarrow> ''MODIFIED'' | AS_REJECTED \<Rightarrow> ''REJECTED'' | AS_EXPIRED \<Rightarrow> ''EXPIRED'')"

definition order_status_str :: "order_status \<Rightarrow> string" where
  "order_status_str s = (case s of OS_PROPOSED \<Rightarrow> ''PROPOSED'' | OS_APPROVAL_PENDING \<Rightarrow> ''APPROVAL_PENDING''
     | OS_APPROVED \<Rightarrow> ''APPROVED'' | OS_EXECUTING \<Rightarrow> ''EXECUTING'' | OS_CONFIRMED \<Rightarrow> ''CONFIRMED''
     | OS_FAILED \<Rightarrow> ''FAILED'' | OS_CANCELLED \<Rightarrow> ''CANCELLED'')"

definition notification_type_str :: "notification_type \<Rightarrow> string" where
  "notification_type_str t = (case t of NT_APPROVAL_REQUIRED \<Rightarrow> ''APPROVAL_REQUIRED''
     | NT_ORDER_UPDATE \<Rightarrow> ''ORDER_UPDATE'' | NT_INVENTORY_ALERT \<Rightarrow> ''INVENTORY_ALERT'')"

definition negotiation_status_str :: "negotiation_status \<Rightarrow> string" where
  "negotiation_status_str s = (case s of NS_STARTED \<Rightarrow> ''STARTED'' | NS_COUNTER_OFFER \<Rightarrow> ''COUNTER_OFFER''
     | NS_ACCEPTED \<Rightarrow> ''ACCEPTED'' | NS_REJECTED \<Rightarrow> ''REJECTED'' | NS_FAILED \<Rightarrow> ''FAILED'')"

definition otp_purpose_str :: "otp_purpose \<Rightarrow> string" where
  "otp_purpose_str p = (case p of OP_LOGIN \<Rightarrow> ''LOGIN'' | OP_REGISTRATION \<Rightarrow> ''REGISTRATION'')"

definition oauth_provider_str :: "oauth_provider \<Rightarrow> string" where
  "oauth_provider_str p = (case p of GOOGLE \<Rightarrow> ''GOOGLE'' | APPLE \<Rightarrow> ''APPLE'')"

section \<open>Entities\<close>

record inventory_snapshot =
  is_product_id :: "uuid option"
  is_sku :: string
  is_quantity_on_hand :: dec
  is_reorder_point :: dec
  is_captured_at :: int

record forecast_result =
  fr_predicted_demand :: dec
  fr_confidence :: dec
  fr_forecast_horizon_days :: int
  fr_model_name :: string
  fr_feature_snapshot :: dict

record purchase_request =
  pr_request_id :: "string option"
  pr_sku :: string
  pr_quantity :: dec
  pr_unit :: string
  pr_target_price :: dec
  pr_max_price :: dec
  pr_delivery_deadline :: int
  pr_merchant_id :: uuid
  pr_store_id :: uuid

record supplier_quote =
  sq_supplier_id :: uuid
  sq_supplier_name :: string
  sq_sku :: string
  sq_available_quantity :: dec
  sq_unit_price :: dec
  sq_currency :: string
  sq_delivery_at :: int
  sq_quote_id :: string
  sq_expires_at :: int

record risk_result =
  rr_passed :: bool
  rr_reasons :: "string list"
  rr_checks :: "(string \<times> bool) list"

record purchase_proposal =
  pp_proposal_id :: uuid
  pp_merchant_id :: uuid
  pp_store_id :: uuid
  pp_supplier_id :: uuid
  pp_sku :: string
  pp_quantity :: dec
  pp_unit :: string
  pp_unit_price :: dec
  pp_currency :: string
  pp_delivery_at :: int
  pp_quote_id :: string

record approval_record =
  ar_approval_id :: uuid
  ar_proposal_id :: uuid
  ar_merchant_id :: uuid
  ar_order_hash :: string
  ar_nonce :: string
  ar_status :: approval_status
  ar_expires_at :: tstamp

record order_result =
  or_order_id :: uuid
  or_status :: order_status
  or_supplier_confirmation :: "string option"
  or_transaction_id :: "uuid option"

record domain_event =
  de_event_id :: uuid
  de_event_type :: event_type
  de_aggregate_type :: string
  de_aggregate_id :: uuid
  de_merchant_id :: "uuid option"
  de_payload :: dict
  de_occurred_at :: int
  de_correlation_id :: "string option"
  de_trace_id :: "string option"
  de_version :: int

subsection \<open>Validation\<close>

definition validation_error :: "string \<Rightarrow> exc" where
  "validation_error m = Exc PyValidationError m"

definition positive :: "dec \<Rightarrow> bool" where "positive d \<longleftrightarrow> dlt dzero d"

definition nonneg :: "dec \<Rightarrow> bool" where "nonneg d \<longleftrightarrow> dle dzero d"

lemma positive_rat: "positive d \<longleftrightarrow> 0 < rat_of d"
  by (simp add: positive_def dlt_rat)

lemma nonneg_rat: "nonneg d \<longleftrightarrow> 0 \<le> rat_of d"
  by (simp add: nonneg_def dle_rat)

definition check_inventory_snapshot :: "inventory_snapshot \<Rightarrow> exc + inventory_snapshot" where
  "check_inventory_snapshot i =
     (if nonneg (is_quantity_on_hand i) \<and> nonneg (is_reorder_point i) then Inr i
      else Inl (validation_error ''InventorySnapshot''))"

definition check_forecast_result :: "forecast_result \<Rightarrow> exc + forecast_result" where
  "check_forecast_result f =
     (if nonneg (fr_predicted_demand f) \<and> nonneg (fr_confidence f) \<and> dle (fr_confidence f) (Dec 1 0)
         \<and> 0 < fr_forecast_horizon_days f then Inr f
      else Inl (validation_error ''ForecastResult''))"

definition check_purchase_request :: "purchase_request \<Rightarrow> exc + purchase_request" where
  "check_purchase_request r =
     (if \<not> (positive (pr_quantity r) \<and> positive (pr_target_price r) \<and> positive (pr_max_price r))
      then Inl (validation_error ''PurchaseRequest'')
      else if dlt (pr_max_price r) (pr_target_price r)
      then Inl (validation_error ''target_price cannot exceed max_price'')
      else Inr r)"

definition check_supplier_quote :: "supplier_quote \<Rightarrow> exc + supplier_quote" where
  "check_supplier_quote q =
     (if nonneg (sq_available_quantity q) \<and> positive (sq_unit_price q) then Inr q
      else Inl (validation_error ''SupplierQuote''))"

definition check_purchase_proposal :: "purchase_proposal \<Rightarrow> exc + purchase_proposal" where
  "check_purchase_proposal p =
     (if positive (pp_quantity p) \<and> positive (pp_unit_price p) then Inr p
      else Inl (validation_error ''PurchaseProposal''))"

lemma check_purchase_request_ok:
  "check_purchase_request r = Inr r' \<longleftrightarrow>
     r' = r \<and> positive (pr_quantity r) \<and> positive (pr_target_price r) \<and> positive (pr_max_price r)
     \<and> dle (pr_target_price r) (pr_max_price r)"
  by (auto simp: check_purchase_request_def not_dlt not_dle [symmetric])

lemma check_purchase_proposal_ok:
  "check_purchase_proposal p = Inr p' \<longleftrightarrow> p' = p \<and> positive (pp_quantity p) \<and> positive (pp_unit_price p)"
  by (auto simp: check_purchase_proposal_def)

section \<open>Proposals and their canonical payload\<close>

definition total_amount :: "purchase_proposal \<Rightarrow> dec" where
  "total_amount p = dmul (pp_quantity p) (pp_unit_price p)"

definition payload_items :: "purchase_proposal \<Rightarrow> (string \<times> string) list" where
  "payload_items p =
     [(''proposal_id'', str_uuid (pp_proposal_id p)),
      (''merchant_id'', str_uuid (pp_merchant_id p)),
      (''store_id'', str_uuid (pp_store_id p)),
      (''supplier_id'', str_uuid (pp_supplier_id p)),
      (''sku'', pp_sku p),
      (''quantity'', str_dec (pp_quantity p)),
      (''unit'', pp_unit p),
      (''unit_price'', str_dec (pp_unit_price p)),
      (''currency'', pp_currency p),
      (''delivery_at'', isoformat (pp_delivery_at p)),
      (''quote_id'', pp_quote_id p)]"

definition str_dict :: "(string \<times> string) list \<Rightarrow> dict" where
  "str_dict kvs = map (\<lambda>(k, v). (k, JStr v)) kvs"

definition canonical_payload :: "purchase_proposal \<Rightarrow> dict" where
  "canonical_payload p = str_dict (payload_items p)"

subsection \<open>Reading a payload\<close>

text \<open>Pydantic parses the texts of the UUID and date fields; \<open>Decimal(text)\<close> and
  \<open>fromisoformat\<close> raise on a malformed text.\<close>

definition or_fail :: "string \<Rightarrow> 'a option \<Rightarrow> exc + 'a" where
  "or_fail m v = (case v of None \<Rightarrow> Inl (validation_error m) | Some a \<Rightarrow> Inr a)"

definition bindE :: "'e + 'a \<Rightarrow> ('a \<Rightarrow> 'e + 'b) \<Rightarrow> 'e + 'b" where
  "bindE r f = (case r of Inl e \<Rightarrow> Inl e | Inr a \<Rightarrow> f a)"

lemma bindE_simps [simp]: "bindE (Inr a) f = f a" "bindE (Inl e) f = Inl e"
  by (simp_all add: bindE_def)

lemma bindE_Inr [run_simps]: "bindE r f = Inr b \<longleftrightarrow> (\<exists>a. r = Inr a \<and> f a = Inr b)"
  by (auto simp: bindE_def split: sum.splits)

lemma bindE_Inl [run_simps]: "bindE r f = Inl e \<longleftrightarrow> r = Inl e \<or> (\<exists>a. r = Inr a \<and> f a = Inl e)"
  by (auto simp: bindE_def split: sum.splits)

definition item_as :: "(string \<Rightarrow> 'a option) \<Rightarrow> dict \<Rightarrow> string \<Rightarrow> exc + 'a" where
  "item_as f d k = bindE (item_str d k) (\<lambda>s. or_fail k (f s))"

definition proposal_of_payload :: "dict \<Rightarrow> exc + purchase_proposal" where
  "proposal_of_payload d =
     bindE (item_as parse_uuid d ''proposal_id'') (\<lambda>pid.
     bindE (item_as parse_uuid d ''merchant_id'') (\<lambda>mid.
     bindE (item_as parse_uuid d ''store_id'') (\<lambda>sid.
     bindE (item_as parse_uuid d ''supplier_id'') (\<lambda>sup.
     bindE (item_str d ''sku'') (\<lambda>sku.
     bindE (item_as parse_dec d ''quantity'') (\<lambda>q.
     bindE (item_str d ''unit'') (\<lambda>un.
     bindE (item_as parse_dec d ''unit_price'') (\<lambda>pr.
     bindE (item_str d ''currency'') (\<lambda>cur.
     bindE (item_as parse_iso d ''delivery_at'') (\<lambda>del.
     bindE (item_str d ''quote_id'') (\<lambda>quo.
       check_purchase_proposal
         \<lparr>pp_proposal_id = pid, pp_merchant_id = mid, pp_store_id = sid, pp_supplier_id = sup,
          pp_sku = sku, pp_quantity = q, pp_unit = un, pp_unit_price = pr, pp_currency = cur,
          pp_delivery_at = del, pp_quote_id = quo\<rparr>)))))))))))"

lemma item_as_payload:
  "item_as f (canonical_payload p) k =
     (case map_of (payload_items p) k of None \<Rightarrow> Inl (Exc PyKeyError k) | Some s \<Rightarrow> or_fail k (f s))"
  by (auto simp: item_as_def item_str_def canonical_payload_def str_dict_def map_of_map
      split: option.splits)

lemma item_str_payload:
  "item_str (canonical_payload p) k =
     (case map_of (payload_items p) k of None \<Rightarrow> Inl (Exc PyKeyError k) | Some s \<Rightarrow> Inr s)"
  by (auto simp: item_str_def canonical_payload_def str_dict_def map_of_map split: option.splits)

lemma payload_lookup:
  "map_of (payload_items p) ''proposal_id'' = Some (str_uuid (pp_proposal_id p))"
  "map_of (payload_items p) ''merchant_id'' = Some (str_uuid (pp_merchant_id p))"
  "map_of (payload_items p) ''store_id'' = Some (str_uuid (pp_store_id p))"
  "map_of (payload_items p) ''supplier_id'' = Some (str_uuid (pp_supplier_id p))"
  "map_of (payload_items p) ''sku'' = Some (pp_sku p)"
  "map_of (payload_items p) ''quantity'' = Some (str_dec (pp_quantity p))"
  "map_of (payload_items p) ''unit'' = Some (pp_unit p)"
  "map_of (payload_items p) ''unit_price'' = Some (str_dec (pp_unit_price p))"
  "map_of (payload_items p) ''currency'' = Some (pp_currency p)"
  "map_of (payload_items p) ''delivery_at'' = Some (isoformat (pp_delivery_at p))"
  "map_of (payload_items p) ''quote_id'' = Some (pp_quote_id p)"
  by (simp_all add: payload_items_def)

lemma proposal_payload_roundtrip:
  assumes "positive (pp_quantity p)" and "positive (pp_unit_price p)" and "valid_time (pp_delivery_at p)"
  shows "proposal_of_payload (canonical_payload p) = Inr p"
  using assms
  by (cases p) (simp add: proposal_of_payload_def item_as_payload item_str_payload payload_lookup
      or_fail_def check_purchase_proposal_def)

lemma payload_items_inject:
  assumes "payload_items p = payload_items q" and "valid_time (pp_delivery_at p)"
    and "valid_time (pp_delivery_at q)"
  shows "p = q"
proof -
  have "isoformat (pp_delivery_at p) = isoformat (pp_delivery_at q)"
    using assms(1) by (simp add: payload_items_def)
  then have "pp_delivery_at p = pp_delivery_at q"
    using assms(2,3) by (metis option.inject parse_isoformat)
  with assms(1) show ?thesis by (cases p; cases q) (simp add: payload_items_def)
qed

lemma payload_keys: "map fst (payload_items p) = map fst (payload_items q)"
  "distinct (map fst (payload_items p))"
  by (simp_all add: payload_items_def)

text \<open>Different proposals have different canonical texts.\<close>

lemma canonical_payload_inject:
  assumes "canonical_json (JObj (canonical_payload p)) = canonical_json (JObj (canonical_payload q))"
    and "valid_time (pp_delivery_at p)" and "valid_time (pp_delivery_at q)"
  shows "p = q"
proof -
  have "payload_items p = payload_items q"
    using assms(1) payload_keys
    by (intro canonical_str_obj_inject) (simp_all add: canonical_payload_def str_dict_def str_obj_def)
  with assms(2,3) show ?thesis by (intro payload_items_inject)
qed

section \<open>Negotiation constraints\<close>

record negotiation_constraints =
  nc_min_quantity :: dec
  nc_max_quantity :: dec
  nc_max_unit_price :: dec
  nc_allowed_supplier_ids :: "string list"
  nc_max_rounds :: int
  nc_timeout_seconds :: int

end
