(* ===== verification/Models.thy ===== *)
theory Models
  imports Domain
begin

text \<open>
  The tables of \<open>app/infrastructure/db/models.py\<close>.  Every table class mixes in a UUID primary
  key and the two timestamps, so every row record extends \<open>row\<close>; a column \<open>c\<close> of a table
  is the field \<open><prefix>_c\<close>.  \<open>db\<close> is what a session sees: the tables (rows in insertion order), the
  time (\<open>utc_now()\<close> and the database's \<open>now()\<close>; one reading per operation) and the number of
  random draws made so far (\<open>uuid4\<close>, \<open>token_urlsafe\<close>).  A rollback restores the tables, never the
  clock or the draws.

  An instant column holds microseconds in UTC.  The expiry columns that the code passes through
  \<open>as_utc\<close> or a \<open>tzinfo is None\<close> test hold a \<open>tstamp\<close>.  A unique constraint is checked when the row
  is added (PostgreSQL raises at the next flush of the same transaction, which then rolls back as a
  whole).  Foreign keys, indexes, string lengths and the rounding of a \<open>Numeric\<close> column to its scale
  are not modelled.
\<close>

section \<open>Rows\<close>

record row =
  row_id :: uuid
  created_at :: int
  updated_at :: int

record user_row = row +
  u_merchant_id :: uuid
  u_email :: string
  u_password_hash :: "string option"
  u_role :: string
  u_is_active :: bool
  u_is_email_verified :: bool
  u_is_phone_verified :: bool

record merchant_row = row +
  m_name :: string
  m_phone_number :: "string option"
  m_currency :: string
  m_spending_limit :: dec
  m_gstin :: "string option"
  m_pan :: "string option"
  m_business_type :: string
  m_settings :: dict

record store_row = row +
  st_merchant_id :: uuid
  st_name :: string
  st_timezone :: string
  st_address :: dict

record product_row = row +
  p_merchant_id :: uuid
  p_sku :: string
  p_name :: string
  p_unit :: string
  p_category :: "string option"
  p_attributes :: dict

record inventory_row = row +
  inv_merchant_id :: uuid
  inv_store_id :: uuid
  inv_product_id :: uuid
  inv_quantity_on_hand :: dec
  inv_reserved_quantity :: dec
  inv_reorder_point :: dec

record inventory_event_row = row +
  ie_merchant_id :: uuid
  ie_store_id :: uuid
  ie_product_id :: uuid
  ie_event_type :: string
  ie_quantity_delta :: dec
  ie_quantity_after :: dec
  ie_source :: string
  ie_idempotency_key :: string
  ie_details :: dict

record sale_row = row +
  sa_merchant_id :: uuid
  sa_store_id :: uuid
  sa_product_id :: uuid
  sa_quantity :: dec
  sa_unit_price :: dec
  sa_sold_at :: int
  sa_signals :: dict

record customer_row = row +
  cu_merchant_id :: uuid
  cu_name :: string
  cu_phone_number :: string
  cu_email :: "string option"
  cu_address :: dict
  cu_total_orders :: int
  cu_total_spent :: dec
  cu_last_visit :: "int option"

record supplier_row = row +
  s_merchant_id :: "uuid option"
  s_name :: string
  s_adapter_type :: string
  s_endpoint :: "string option"
  s_trust_score :: dec
  s_is_active :: bool
  s_phone_number :: "string option"
  s_gstin :: "string option"
  s_pan :: "string option"
  s_city :: "string option"
  s_state :: "string option"
  s_pincode :: "string option"
  s_address :: dict
  s_category :: "string option"
  s_configuration :: dict

record supplier_product_row = row +
  sp_supplier_id :: uuid
  sp_product_id :: uuid
  sp_supplier_sku :: string
  sp_available_quantity :: dec
  sp_unit_price :: dec
  sp_lead_time_days :: int

record order_row = row +
  o_merchant_id :: uuid
  o_store_id :: uuid
  o_supplier_id :: uuid
  o_proposal_id :: uuid
  o_approval_id :: "uuid option"
  o_order_hash :: string
  o_status :: order_status
  o_currency :: string
  o_total_amount :: dec
  o_idempotency_key :: string
  o_supplier_reference :: "string option"
  o_failure_reason :: "string option"

record order_item_row = row +
  oi_order_id :: uuid
  oi_product_id :: "uuid option"
  oi_sku :: string
  oi_quantity :: dec
  oi_unit :: string
  oi_unit_price :: dec

record negotiation_row = row +
  n_merchant_id :: uuid
  n_store_id :: "uuid option"
  n_supplier_id :: uuid
  n_correlation_id :: uuid
  n_workflow_request_id :: "string option"
  n_proposal_id :: "uuid option"
  n_sku :: string
  n_status :: negotiation_status
  n_round_count :: int
  n_constraints :: dict
  n_history :: "json list"
  n_current_quote :: "dict option"

record agent_session_row = row +
  as_merchant_id :: uuid
  as_store_id :: "uuid option"
  as_thread_id :: string
  as_channel :: string
  as_status :: string
  as_context :: dict

record agent_message_row = row +
  am_session_id :: uuid
  am_role :: string
  am_content :: "string option"
  am_structured_content :: "dict option"
  am_provider_message_id :: "string option"

record agent_run_row = row +
  ag_session_id :: uuid
  ag_request_id :: string
  ag_trace_id :: string
  ag_status :: agent_run_status
  ag_current_node :: "string option"
  ag_started_at :: int
  ag_finished_at :: "int option"
  ag_error :: "dict option"

record approval_row = row +
  ap_merchant_id :: uuid
  ap_proposal_id :: uuid
  ap_workflow_request_id :: "string option"
  ap_order_hash :: string
  ap_proposal_payload :: dict
  ap_status :: approval_status
  ap_nonce :: string
  ap_expires_at :: tstamp
  ap_decided_at :: "int option"
  ap_decided_by_user_id :: "uuid option"
  ap_channel :: string
  ap_revision :: int

record transaction_row = row +
  t_merchant_id :: uuid
  t_order_id :: uuid
  t_approval_id :: uuid
  t_amount :: dec
  t_currency :: string
  t_status :: transaction_status
  t_idempotency_key :: string
  t_provider_reference :: "string option"
  t_error :: "dict option"

record settlement_row = row +
  se_merchant_id :: uuid
  se_store_id :: "uuid option"
  se_amount :: dec
  se_currency :: string
  se_status :: string
  se_utr :: "string option"
  se_bank_name :: string
  se_account_ending :: string
  se_settlement_time :: string
  se_settled_at :: "int option"

record audit_row = row +
  au_merchant_id :: "uuid option"
  au_actor_type :: string
  au_actor_id :: string
  au_action :: string
  au_resource_type :: string
  au_resource_id :: string
  au_trace_id :: "string option"
  au_metadata :: dict

record a2a_agent_row = row +
  aa_name :: string
  aa_endpoint :: string
  aa_public_key :: "string option"
  aa_shared_secret_ref :: "string option"
  aa_supplier_id :: "uuid option"
  aa_allowed_intents :: "string list"
  aa_is_active :: bool

record a2a_message_row = row +
  msg_merchant_id :: "uuid option"
  msg_supplier_id :: "uuid option"
  msg_order_id :: "uuid option"
  msg_negotiation_id :: "uuid option"
  msg_message_id :: uuid
  msg_correlation_id :: uuid
  msg_trace_id :: string
  msg_sender_agent_id :: uuid
  msg_receiver_agent_id :: uuid
  msg_intent :: string
  msg_direction :: string
  msg_status :: string
  msg_nonce :: string
  msg_idempotency_key :: string
  msg_envelope :: dict
  msg_expires_at :: int
  msg_processed_at :: "int option"

record voice_session_row = row +
  vs_merchant_id :: uuid
  vs_user_id :: uuid
  vs_agent_session_id :: "uuid option"
  vs_active_proposal_id :: "uuid option"
  vs_language_code :: string
  vs_status :: string
  vs_started_at :: int
  vs_ended_at :: "int option"
  vs_audio_metadata :: dict

record channel_message_row = row +
  cm_merchant_id :: "uuid option"
  cm_channel :: string
  cm_direction :: string
  cm_provider_message_id :: string
  cm_idempotency_key :: "string option"
  cm_message_type :: string
  cm_payload :: dict
  cm_status :: string

record outbox_row = row +
  ob_merchant_id :: "uuid option"
  ob_aggregate_type :: string
  ob_aggregate_id :: uuid
  ob_event_type :: event_type
  ob_payload :: dict
  ob_trace_id :: "string option"
  ob_correlation_id :: "string option"
  ob_event_version :: int
  ob_published_at :: "int option"
  ob_attempts :: int
  ob_last_error :: "string option"

record idempotency_row = row +
  ik_scope :: string
  ik_key :: string
  ik_request_hash :: string
  ik_status :: string
  ik_response :: "dict option"
  ik_expires_at :: "int option"

record refresh_row = row +
  rs_user_id :: uuid
  rs_merchant_id :: uuid
  rs_token_hash :: string
  rs_expires_at :: tstamp
  rs_revoked_at :: "int option"
  rs_replaced_by_id :: "uuid option"
  rs_device_name :: "string option"

record otp_row = row +
  ot_identifier :: string
  ot_identifier_hash :: string
  ot_purpose :: otp_purpose
  ot_otp_hash :: string
  ot_request_ip_hash :: string
  ot_expires_at :: tstamp
  ot_resend_available_at :: tstamp
  ot_attempts :: int
  ot_max_attempts :: int
  ot_resend_count :: int
  ot_max_resends :: int
  ot_verified_at :: "int option"
  ot_consumed_at :: "int option"

record oauth_challenge_row = row +
  oc_provider :: string
  oc_state_hash :: string
  oc_nonce_hash :: string
  oc_expires_at :: tstamp
  oc_verified_at :: "int option"
  oc_consumed_at :: "int option"

record oauth_identity_row = row +
  oid_user_id :: uuid
  oid_provider :: string
  oid_provider_subject :: string
  oid_email :: "string option"

record order_event_row = row +
  oe_merchant_id :: uuid
  oe_order_id :: uuid
  oe_status :: order_status
  oe_details :: dict

record notification_row = row +
  nt_merchant_id :: uuid
  nt_user_id :: "uuid option"
  nt_notification_type :: notification_type
  nt_title :: string
  nt_body :: string
  nt_entity_type :: "string option"
  nt_entity_id :: "uuid option"
  nt_payload :: dict
  nt_is_read :: bool
  nt_read_at :: "int option"

record db =
  clock :: int
  draws :: nat
  t_users :: "user_row list"
  t_merchants :: "merchant_row list"
  t_stores :: "store_row list"
  t_products :: "product_row list"
  t_inventory :: "inventory_row list"
  t_inventory_events :: "inventory_event_row list"
  t_sales :: "sale_row list"
  t_customers :: "customer_row list"
  t_suppliers :: "supplier_row list"
  t_supplier_products :: "supplier_product_row list"
  t_orders :: "order_row list"
  t_order_items :: "order_item_row list"
  t_negotiations :: "negotiation_row list"
  t_agent_sessions :: "agent_session_row list"
  t_agent_messages :: "agent_message_row list"
  t_agent_runs :: "agent_run_row list"
  t_approvals :: "approval_row list"
  t_transactions :: "transaction_row list"
  t_settlements :: "settlement_row list"
  t_audit_logs :: "audit_row list"
  t_a2a_agents :: "a2a_agent_row list"
  t_a2a_messages :: "a2a_message_row list"
  t_voice_sessions :: "voice_session_row list"
  t_channel_messages :: "channel_message_row list"
  t_outbox_events :: "outbox_row list"
  t_idempotency_keys :: "idempotency_row list"
  t_refresh_sessions :: "refresh_row list"
  t_otp_challenges :: "otp_row list"
  t_oauth_challenges :: "oauth_challenge_row list"
  t_oauth_identities :: "oauth_identity_row list"
  t_order_events :: "order_event_row list"
  t_notifications :: "notification_row list"
end
