(* ===== verification/Security.thy ===== *)
theory Security
  imports Config Models
begin

text \<open>
  \<open>app/core/security.py\<close>.  The cryptography that the module takes from elsewhere (SHA-256 and HMAC of
  \<open>hashlib\<close> and \<open>hmac\<close>, JSON web tokens of PyJWT, password hashing of pwdlib, the operating system's
  randomness) is the record \<open>env\<close>, a parameter of every operation that uses it.  \<open>uuid_at n\<close> and
  \<open>text_at n\<close> are what the n-th draw of randomness gives.
\<close>

datatype jwt_outcome = Claims dict | ExpiredSignature | JwtError

record env =
  sha256 :: "string \<Rightarrow> string"
  hmac256 :: "string \<Rightarrow> string \<Rightarrow> string"
  jwt_encode :: "dict \<Rightarrow> string \<Rightarrow> string \<Rightarrow> string"
  jwt_decode :: "string \<Rightarrow> string \<Rightarrow> string \<Rightarrow> string list \<Rightarrow> int \<Rightarrow> jwt_outcome"
  pw_hash :: "nat \<Rightarrow> string \<Rightarrow> string"
  pw_verify :: "string \<Rightarrow> string \<Rightarrow> bool"
  uuid_at :: "nat \<Rightarrow> uuid"
  text_at :: "nat \<Rightarrow> string"
  randbelow_at :: "nat \<Rightarrow> nat \<Rightarrow> nat"

text \<open>\<open>as_utc\<close>: a naive value is read as UTC.\<close>

definition as_utc :: "tstamp \<Rightarrow> int" where
  "as_utc t = (case t of Aware i \<Rightarrow> i | Naive i \<Rightarrow> i)"

section \<open>Hashes and signatures\<close>

definition canonical_order_hash :: "env \<Rightarrow> dict \<Rightarrow> string" where
  "canonical_order_hash e d = sha256 e (canonical_json (JObj d))"

definition token_digest :: "env \<Rightarrow> string \<Rightarrow> string" where
  "token_digest e v = sha256 e v"

definition sign_bytes :: "env \<Rightarrow> string \<Rightarrow> string \<Rightarrow> string" where
  "sign_bytes e payload secret = hmac256 e secret payload"

definition verify_signature :: "env \<Rightarrow> string \<Rightarrow> string \<Rightarrow> string \<Rightarrow> bool" where
  "verify_signature e payload signature secret \<longleftrightarrow> sign_bytes e payload secret = signature"

section \<open>Tokens\<close>

text \<open>PyJWT writes \<open>iat\<close> and \<open>exp\<close> as whole seconds.\<close>

definition epoch_seconds :: "int \<Rightarrow> int" where "epoch_seconds t = t div 1000000"

definition access_claims ::
  "int \<Rightarrow> string \<Rightarrow> string \<Rightarrow> uuid \<Rightarrow> uuid \<Rightarrow> int \<Rightarrow> uuid option \<Rightarrow> dict" where
  "access_claims now jti role subject merchant ttl sid =
     [(''sub'', JStr (str_uuid subject)), (''merchant_id'', JStr (str_uuid merchant)),
      (''role'', JStr role), (''account_type'', JStr role), (''type'', JStr ''access''),
      (''iat'', JInt (epoch_seconds now)), (''exp'', JInt (epoch_seconds (now + minutes ttl))),
      (''jti'', JStr jti)]
     @ (case sid of None \<Rightarrow> [] | Some i \<Rightarrow> [(''sid'', JStr (str_uuid i))])"

definition create_access_token ::
  "env \<Rightarrow> int \<Rightarrow> string \<Rightarrow> uuid \<Rightarrow> uuid \<Rightarrow> string \<Rightarrow> string \<Rightarrow> int \<Rightarrow> uuid option \<Rightarrow> string \<Rightarrow> string" where
  "create_access_token e now jti subject merchant secret alg ttl sid role =
     jwt_encode e (access_claims now jti role subject merchant ttl sid) secret alg"

definition registration_claims ::
  "int \<Rightarrow> string \<Rightarrow> uuid \<Rightarrow> string \<Rightarrow> string \<Rightarrow> int \<Rightarrow> string option \<Rightarrow> dict" where
  "registration_claims now jti challenge subject provider ttl email =
     [(''sub'', JStr subject), (''challenge_id'', JStr (str_uuid challenge)),
      (''provider'', JStr provider), (''type'', JStr ''registration''),
      (''iat'', JInt (epoch_seconds now)), (''exp'', JInt (epoch_seconds (now + minutes ttl))),
      (''jti'', JStr jti)]
     @ (if truthy email then [(''email'', JStr (the email))] else [])"

definition create_registration_token ::
  "env \<Rightarrow> int \<Rightarrow> string \<Rightarrow> uuid \<Rightarrow> string \<Rightarrow> string \<Rightarrow> string \<Rightarrow> int \<Rightarrow> string option \<Rightarrow> string" where
  "create_registration_token e now jti challenge subject secret provider ttl email =
     jwt_encode e (registration_claims now jti challenge subject provider ttl email) secret ''HS256''"

definition approval_claims ::
  "int \<Rightarrow> uuid \<Rightarrow> uuid \<Rightarrow> uuid \<Rightarrow> string \<Rightarrow> string \<Rightarrow> int \<Rightarrow> int option \<Rightarrow> dict" where
  "approval_claims now merchant proposal approval hash nonce ttl expires =
     [(''sub'', JStr (str_uuid merchant)), (''proposal_id'', JStr (str_uuid proposal)),
      (''approval_id'', JStr (str_uuid approval)), (''order_hash'', JStr hash),
      (''nonce'', JStr nonce), (''type'', JStr ''approval''),
      (''iat'', JInt (epoch_seconds now)),
      (''exp'', JInt (epoch_seconds (case expires of None \<Rightarrow> now + minutes ttl | Some t \<Rightarrow> t)))]"

definition create_approval_token ::
  "env \<Rightarrow> int \<Rightarrow> uuid \<Rightarrow> uuid \<Rightarrow> uuid \<Rightarrow> string \<Rightarrow> string \<Rightarrow> string \<Rightarrow> string \<Rightarrow> int \<Rightarrow> int option \<Rightarrow> string" where
  "create_approval_token e now merchant proposal approval hash nonce secret alg ttl expires =
     jwt_encode e (approval_claims now merchant proposal approval hash nonce ttl expires) secret alg"

definition decode_token :: "env \<Rightarrow> int \<Rightarrow> string \<Rightarrow> string \<Rightarrow> string \<Rightarrow> exc + dict" where
  "decode_token e now token secret alg =
     (case jwt_decode e token secret alg [''exp'', ''iat''] now of
        Claims c \<Rightarrow> Inr c
      | ExpiredSignature \<Rightarrow> Inl (Exc StaleApprovalError ''Token has expired'')
      | JwtError \<Rightarrow> Inl (Exc AuthenticationError ''Invalid signed token''))"

lemma decode_token_Inl: "decode_token e now t k a = Inl x \<Longrightarrow> isa (cls x) VyapaarError"
  by (auto simp: decode_token_def isa_VyapaarError split: jwt_outcome.splits)

text \<open>
  What PyJWT documents of a signed token: decoding it with the same secret and algorithm gives its
  claims back until the instant of its \<open>exp\<close> claim (whole seconds), and \<open>ExpiredSignatureError\<close>
  from then on.
\<close>

definition expiry_of :: "dict \<Rightarrow> int" where
  "expiry_of c = (case map_of c ''exp'' of Some (JInt t) \<Rightarrow> t | _ \<Rightarrow> 0)"

definition jwt_roundtrip :: "env \<Rightarrow> dict \<Rightarrow> string \<Rightarrow> string \<Rightarrow> bool" where
  "jwt_roundtrip e c secret alg \<longleftrightarrow>
     (\<forall>now req. jwt_decode e (jwt_encode e c secret alg) secret alg req now =
        (if expiry_of c * 1000000 \<le> now then ExpiredSignature else Claims c))"

lemma decode_signed:
  "jwt_roundtrip e c k a \<Longrightarrow>
   decode_token e now (jwt_encode e c k a) k a =
     (if expiry_of c * 1000000 \<le> now then Inl (Exc StaleApprovalError ''Token has expired'') else Inr c)"
  by (simp add: decode_token_def jwt_roundtrip_def)

lemma expiry_approval_claims:
  "expiry_of (approval_claims now m p a h n ttl (Some t)) = epoch_seconds t"
  by (simp add: expiry_of_def approval_claims_def)

text \<open>Hashes that agree on two texts only when the texts agree: what an order hash relies on.\<close>

definition collision_free :: "env \<Rightarrow> string \<Rightarrow> string \<Rightarrow> bool" where
  "collision_free e a b \<longleftrightarrow> (sha256 e a = sha256 e b \<longrightarrow> a = b)"

lemma order_hash_inject:
  assumes "canonical_order_hash e (canonical_payload p) = canonical_order_hash e (canonical_payload q)"
    and "collision_free e (canonical_json (JObj (canonical_payload p)))
           (canonical_json (JObj (canonical_payload q)))"
    and "valid_time (pp_delivery_at p)" and "valid_time (pp_delivery_at q)"
  shows "p = q"
  using assms by (intro canonical_payload_inject)
    (auto simp: collision_free_def canonical_order_hash_def)

section \<open>The caller of a route\<close>

record principal =
  pl_user_id :: uuid
  pl_merchant_id :: uuid
  pl_role :: string
  pl_session_id :: "uuid option"

text \<open>\<open>UUID(claims[k])\<close>: a missing key or a malformed text is caught by the \<open>except\<close> clause of
  \<open>get_current_principal\<close>; a claim that is not a text raises \<open>AttributeError\<close>, which is not.\<close>

definition uuid_claim :: "dict \<Rightarrow> string \<Rightarrow> exc + uuid" where
  "uuid_claim c k = (case map_of c k of
     None \<Rightarrow> Inl (Exc PyKeyError k)
   | Some (JStr s) \<Rightarrow> (case parse_uuid s of None \<Rightarrow> Inl (Exc PyValueError ''badly formed hexadecimal UUID string'')
                      | Some u \<Rightarrow> Inr u)
   | Some _ \<Rightarrow> Inl (Exc PyAttributeError k))"

definition json_truthy :: "json option \<Rightarrow> bool" where
  "json_truthy v = (case v of None \<Rightarrow> False | Some JNull \<Rightarrow> False | Some (JBool b) \<Rightarrow> b
     | Some (JInt i) \<Rightarrow> i \<noteq> 0 | Some (JNum d) \<Rightarrow> \<not> deq d dzero | Some (JStr s) \<Rightarrow> s \<noteq> []
     | Some (JArr xs) \<Rightarrow> xs \<noteq> [] | Some (JObj d) \<Rightarrow> d \<noteq> [])"

definition sid_claim :: "dict \<Rightarrow> exc + uuid option" where
  "sid_claim c = (if json_truthy (map_of c ''sid'') then bindE (uuid_claim c ''sid'') (\<lambda>i. Inr (Some i))
                  else Inr None)"

definition invalid_access_token :: exc where
  "invalid_access_token = Exc AuthenticationError ''Invalid access token''"

definition token_principal :: "env \<Rightarrow> settings \<Rightarrow> int \<Rightarrow> string \<Rightarrow> exc + (uuid \<times> uuid \<times> uuid option)" where
  "token_principal e cfg now token =
     (case jwt_decode e token (auth_jwt_secret cfg) (auth_jwt_algorithm cfg)
             [''sub'', ''merchant_id'', ''exp'', ''iat''] now of
        Claims c \<Rightarrow>
          (if map_of c ''type'' \<noteq> Some (JStr ''access'')
           then Inl (Exc AuthenticationError ''Wrong token type'')
           else (case bindE (uuid_claim c ''sub'') (\<lambda>u. bindE (uuid_claim c ''merchant_id'') (\<lambda>m.
                        bindE (sid_claim c) (\<lambda>i. Inr (u, m, i)))) of
                   Inr r \<Rightarrow> Inr r
                 | Inl x \<Rightarrow> (if isa (cls x) PyValueError \<or> isa (cls x) PyKeyError
                            then Inl invalid_access_token else Inl x)))
      | _ \<Rightarrow> Inl invalid_access_token)"

definition session_active :: "int \<Rightarrow> uuid \<Rightarrow> refresh_row option \<Rightarrow> bool" where
  "session_active now uid rs = (case rs of None \<Rightarrow> False
     | Some r \<Rightarrow> rs_revoked_at r = None \<and> now < as_utc (rs_expires_at r) \<and> rs_user_id r = uid)"

definition get_current_principal :: "env \<Rightarrow> settings \<Rightarrow> string \<Rightarrow> (db, exc, principal) prog" where
  "get_current_principal e cfg token =
     bnd (gets clock) (\<lambda>now.
     bnd (lift (token_principal e cfg now token)) (\<lambda>(uid, mid, sid).
     bnd (gets (\<lambda>s. find (\<lambda>u. row_id u = uid) (t_users s))) (\<lambda>found.
     bnd (require found (Exc AuthenticationError ''User is inactive or no longer exists'')) (\<lambda>u.
     andthen (guard (u_is_active u \<and> u_merchant_id u = mid)
       (Exc AuthenticationError ''User is inactive or no longer exists''))
     (bnd (gets (\<lambda>s. case sid of None \<Rightarrow> True
            | Some i \<Rightarrow> session_active now (row_id u) (find (\<lambda>r. row_id r = i) (t_refresh_sessions s)))) (\<lambda>live.
      andthen (guard live (Exc AuthenticationError ''Session is no longer active''))
      (ret \<lparr>pl_user_id = row_id u, pl_merchant_id = u_merchant_id u, pl_role = u_role u,
            pl_session_id = sid\<rparr>)))))))"

text \<open>The principal of a request is an active user of the token's merchant, with a live session
  when the token names one.\<close>

lemma get_current_principal_ok:
  assumes "get_current_principal e cfg token s = (Inr p, t)"
  shows "t = s
    \<and> (\<exists>u \<in> set (t_users s). row_id u = pl_user_id p \<and> u_is_active u \<and> u_merchant_id u = pl_merchant_id p
         \<and> u_role u = pl_role p)
    \<and> (\<forall>i. pl_session_id p = Some i \<longrightarrow>
         (\<exists>r \<in> set (t_refresh_sessions s). row_id r = i \<and> rs_revoked_at r = None
            \<and> clock s < as_utc (rs_expires_at r) \<and> rs_user_id r = pl_user_id p))"
proof -
  obtain mid sid u where
    u: "u \<in> set (t_users s)" "u_is_active u"
    and live: "case sid of None \<Rightarrow> True
       | Some i \<Rightarrow> session_active (clock s) (row_id u) (find (\<lambda>r. row_id r = i) (t_refresh_sessions s))"
    and p: "p = \<lparr>pl_user_id = row_id u, pl_merchant_id = u_merchant_id u, pl_role = u_role u,
                 pl_session_id = sid\<rparr>" and t: "t = s"
    using assms unfolding get_current_principal_def
    by (auto simp: run_simps split: option.splits if_splits dest!: find_Some_iff_mem)
  have "\<exists>r \<in> set (t_refresh_sessions s). row_id r = i \<and> rs_revoked_at r = None
      \<and> clock s < as_utc (rs_expires_at r) \<and> rs_user_id r = row_id u" if "sid = Some i" for i
    using live that by (auto simp: session_active_def split: option.splits dest!: find_Some_iff_mem)
  with u p t show ?thesis by auto
qed

end
