(* ===== verification/Store.thy ===== *)
theory Store
  imports Security
begin

text \<open>
  What the services do with a session: draw an id, add a row (its unique constraints are checked),
  change a row that they hold, look a row up by its key, commit or roll back; and the rows that
  almost every service adds beside its own: outbox events, audit entries and notifications.
  \<open>table_ok\<close> is the constraint of one table; \<open>add_row\<close> and \<open>change_row\<close> keep it.
\<close>

type_synonym 'a m = "(db, exc, 'a) prog"

section \<open>Random draws and time\<close>

definition new_uuid :: "env \<Rightarrow> uuid m" where
  "new_uuid e s = (Inr (uuid_at e (draws s)), s\<lparr>draws := draws s + 1\<rparr>)"

definition new_text :: "env \<Rightarrow> string m" where
  "new_text e s = (Inr (text_at e (draws s)), s\<lparr>draws := draws s + 1\<rparr>)"

definition rollback :: "db \<Rightarrow> db \<Rightarrow> db" where
  "rollback old new = old\<lparr>clock := clock new, draws := draws new\<rparr>"

text \<open>A route commits when its handler returns and rolls back when it raises.\<close>

definition request :: "'a m \<Rightarrow> 'a m" where
  "request = atomic rollback"

lemma new_uuid_run [run_simps]:
  "new_uuid e s = (r, t) \<longleftrightarrow> r = Inr (uuid_at e (draws s)) \<and> t = s\<lparr>draws := draws s + 1\<rparr>"
  by (auto simp: new_uuid_def)

lemma new_text_run [run_simps]:
  "new_text e s = (r, t) \<longleftrightarrow> r = Inr (text_at e (draws s)) \<and> t = s\<lparr>draws := draws s + 1\<rparr>"
  by (auto simp: new_text_def)

section \<open>A session and the world outside it\<close>

text \<open>A program may also act on something that the session does not own (a supplier, a channel); a rollback
  does not reach it.\<close>

type_synonym ('w, 'a) wm = "(db \<times> 'w, exc, 'a) prog"

definition on_db :: "'a m \<Rightarrow> ('w, 'a) wm" where
  "on_db prg w = (case prg (fst w) of (r, s) \<Rightarrow> (r, (s, snd w)))"

definition on_world :: "('w, exc, 'a) prog \<Rightarrow> ('w, 'a) wm" where
  "on_world prg w = (case prg (snd w) of (r, a) \<Rightarrow> (r, (fst w, a)))"

definition world_request :: "('w, 'a) wm \<Rightarrow> ('w, 'a) wm" where
  "world_request = atomic (\<lambda>old new. (rollback (fst old) (fst new), snd new))"

lemma on_db_run [run_simps]: "on_db prg w = (r, w') \<longleftrightarrow> prg (fst w) = (r, fst w') \<and> snd w' = snd w"
  by (cases w') (auto simp: on_db_def split: prod.splits)

lemma on_world_run [run_simps]: "on_world prg w = (r, w') \<longleftrightarrow> prg (snd w) = (r, snd w') \<and> fst w' = fst w"
  by (cases w') (auto simp: on_world_def split: prod.splits)

lemma keeps_on_db [keeps_intros]: "keeps P prg \<Longrightarrow> keeps (\<lambda>w. P (fst w)) (on_db prg)"
  by (auto simp: keeps_def run_simps)

lemma keeps_on_world [keeps_intros]: "keeps (\<lambda>w. P (fst w)) (on_world prg)"
  by (auto simp: keeps_def run_simps)

section \<open>Adding and changing rows\<close>

definition integrity_error :: exc where
  "integrity_error = Exc SqlIntegrityError ''duplicate key value violates unique constraint''"

definition table_ok :: "('r row_scheme \<Rightarrow> 'r row_scheme \<Rightarrow> bool) \<Rightarrow> 'r row_scheme list \<Rightarrow> bool" where
  "table_ok clash rows \<longleftrightarrow> sorted_wrt (\<lambda>x y. row_id x \<noteq> row_id y \<and> \<not> clash x y) rows"

definition add_row ::
  "(db \<Rightarrow> 'r row_scheme list) \<Rightarrow> (('r row_scheme list \<Rightarrow> 'r row_scheme list) \<Rightarrow> db \<Rightarrow> db)
   \<Rightarrow> ('r row_scheme \<Rightarrow> 'r row_scheme \<Rightarrow> bool) \<Rightarrow> 'r row_scheme \<Rightarrow> unit m" where
  "add_row tab tab_upd clash r s =
     (if list_ex (\<lambda>x. row_id x = row_id r \<or> clash x r) (tab s) then (Inl integrity_error, s)
      else (Inr (), tab_upd (\<lambda>_. tab s @ [r]) s))"

text \<open>A mutation of a mapped object reaches the database only when it changes a column, and then
  \<open>updated_at\<close> becomes the time of the transaction.\<close>

definition mutate :: "int \<Rightarrow> ('r row_scheme \<Rightarrow> 'r row_scheme) \<Rightarrow> 'r row_scheme \<Rightarrow> 'r row_scheme" where
  "mutate now f r = (f r)\<lparr>updated_at := (if f r = r then updated_at r else now)\<rparr>"

definition change_row ::
  "(db \<Rightarrow> 'r row_scheme list) \<Rightarrow> (('r row_scheme list \<Rightarrow> 'r row_scheme list) \<Rightarrow> db \<Rightarrow> db) \<Rightarrow> uuid
   \<Rightarrow> ('r row_scheme \<Rightarrow> 'r row_scheme) \<Rightarrow> unit m" where
  "change_row tab tab_upd i f s =
     (Inr (), tab_upd (\<lambda>_. upd (\<lambda>r. row_id r = i) (mutate (clock s) f) (tab s)) s)"

definition by_id :: "uuid \<Rightarrow> 'r row_scheme list \<Rightarrow> 'r row_scheme option" where
  "by_id i rows = find (\<lambda>r. row_id r = i) rows"

lemma add_row_Inr [run_simps]:
  "add_row tab tab_upd clash r s = (Inr u, t) \<longleftrightarrow>
     (\<forall>x \<in> set (tab s). row_id x \<noteq> row_id r \<and> \<not> clash x r) \<and> t = tab_upd (\<lambda>_. tab s @ [r]) s"
  by (auto simp: add_row_def list_ex_iff)

lemma add_row_Inl [run_simps]:
  "add_row tab tab_upd clash r s = (Inl x, t) \<longleftrightarrow>
     (\<exists>x \<in> set (tab s). row_id x = row_id r \<or> clash x r) \<and> x = integrity_error \<and> t = s"
  by (auto simp: add_row_def list_ex_iff)

lemma change_row_run [run_simps]:
  "change_row tab tab_upd i f s = (v, t) \<longleftrightarrow>
     v = Inr () \<and> t = tab_upd (\<lambda>_. upd (\<lambda>r. row_id r = i) (mutate (clock s) f) (tab s)) s"
  by (auto simp: change_row_def)

lemma row_id_mutate [simp]: "row_id (mutate now f r) = row_id (f r)"
  by (simp add: mutate_def)

lemma created_at_mutate [simp]: "created_at (mutate now f r) = created_at (f r)"
  by (simp add: mutate_def)

lemma table_ok_add:
  "table_ok clash rows \<Longrightarrow> (\<And>x. x \<in> set rows \<Longrightarrow> row_id x \<noteq> row_id r \<and> \<not> clash x r) \<Longrightarrow>
   table_ok clash (rows @ [r])"
  by (simp add: table_ok_def sorted_wrt_append)

lemma table_ok_upd:
  assumes "table_ok clash rows" and "\<And>r. row_id (f r) = row_id r"
    and "\<And>x y. clash (f x) y = clash x y" and "\<And>x y. clash x (f y) = clash x y"
  shows "table_ok clash (upd P f rows)"
proof -
  let ?g = "\<lambda>r. if P r then f r else r"
  have "row_id (?g x) = row_id x" "clash (?g x) (?g y) = clash x y" for x y
    using assms(2-4) by auto
  then show ?thesis using assms(1) by (simp add: table_ok_def upd_def sorted_wrt_map)
qed

lemma table_ok_distinct: "table_ok clash rows \<Longrightarrow> distinct (map row_id rows)"
  by (induction rows) (auto simp: table_ok_def)

lemma table_ok_no_clash:
  "table_ok clash rows \<Longrightarrow> x \<in> set rows \<Longrightarrow> y \<in> set rows \<Longrightarrow> (\<And>a b. clash a b = clash b a) \<Longrightarrow>
   clash x y \<Longrightarrow> x = y"
  by (induction rows) (auto simp: table_ok_def)

lemma by_id_mem: "by_id i rows = Some r \<Longrightarrow> r \<in> set rows \<and> row_id r = i"
  unfolding by_id_def by (rule find_Some_iff_mem)

lemma by_id_unique:
  "table_ok clash rows \<Longrightarrow> r \<in> set rows \<Longrightarrow> by_id (row_id r) rows = Some r"
  unfolding by_id_def by (rule find_key_unique [OF table_ok_distinct])

text \<open>Lookup after an addition and after a change.\<close>

lemma by_id_add [row_simps]:
  "by_id i (rows @ [r]) = (case by_id i rows of None \<Rightarrow> if row_id r = i then Some r else None | Some x \<Rightarrow> Some x)"
  by (simp add: by_id_def find_append split: option.splits)

lemma by_id_change [row_simps]:
  assumes "\<And>r. row_id (f r) = row_id r"
  shows "by_id i (upd (\<lambda>r. row_id r = j) f rows) = (if i = j then map_option f (by_id i rows) else by_id i rows)"
  using assms find_upd_key [of row_id f i rows] find_upd_other [of row_id f i j rows]
  by (auto simp: by_id_def)

section \<open>Outbox, audit log, notifications\<close>

definition no_clash :: "'r \<Rightarrow> 'r \<Rightarrow> bool" where "no_clash x y = False"

lemma no_clash_simp [simp]: "\<not> no_clash x y" by (simp add: no_clash_def)

definition outbox_event ::
  "uuid \<Rightarrow> int \<Rightarrow> uuid option \<Rightarrow> string \<Rightarrow> uuid \<Rightarrow> event_type \<Rightarrow> string option \<Rightarrow> string option \<Rightarrow> dict \<Rightarrow> outbox_row" where
  "outbox_event i now merchant agg_type agg_id etype correlation trace payload =
     \<lparr>row_id = i, created_at = now, updated_at = now, ob_merchant_id = merchant,
      ob_aggregate_type = agg_type, ob_aggregate_id = agg_id, ob_event_type = etype,
      ob_payload = payload, ob_trace_id = trace, ob_correlation_id = correlation,
      ob_event_version = 1, ob_published_at = None, ob_attempts = 0, ob_last_error = None\<rparr>"

definition add_outbox ::
  "env \<Rightarrow> uuid option \<Rightarrow> string \<Rightarrow> uuid \<Rightarrow> event_type \<Rightarrow> string option \<Rightarrow> string option \<Rightarrow> dict \<Rightarrow> unit m" where
  "add_outbox e merchant agg_type agg_id etype correlation trace payload =
     bnd (new_uuid e) (\<lambda>i. bnd (gets clock) (\<lambda>now.
       add_row t_outbox_events t_outbox_events_update no_clash
         (outbox_event i now merchant agg_type agg_id etype correlation trace payload)))"

definition audit_log ::
  "uuid \<Rightarrow> int \<Rightarrow> uuid option \<Rightarrow> string \<Rightarrow> string \<Rightarrow> string \<Rightarrow> string \<Rightarrow> string \<Rightarrow> string option \<Rightarrow> dict \<Rightarrow> audit_row" where
  "audit_log i now merchant actor_type actor_id action resource_type resource_id trace metadata =
     \<lparr>row_id = i, created_at = now, updated_at = now, au_merchant_id = merchant,
      au_actor_type = actor_type, au_actor_id = actor_id, au_action = action,
      au_resource_type = resource_type, au_resource_id = resource_id, au_trace_id = trace,
      au_metadata = metadata\<rparr>"

definition add_audit ::
  "env \<Rightarrow> uuid option \<Rightarrow> string \<Rightarrow> string \<Rightarrow> string \<Rightarrow> string \<Rightarrow> string \<Rightarrow> string option \<Rightarrow> dict \<Rightarrow> unit m" where
  "add_audit e merchant actor_type actor_id action resource_type resource_id trace metadata =
     bnd (new_uuid e) (\<lambda>i. bnd (gets clock) (\<lambda>now.
       add_row t_audit_logs t_audit_logs_update no_clash
         (audit_log i now merchant actor_type actor_id action resource_type resource_id trace metadata)))"

definition notification ::
  "uuid \<Rightarrow> int \<Rightarrow> uuid \<Rightarrow> notification_type \<Rightarrow> string \<Rightarrow> string \<Rightarrow> string option \<Rightarrow> uuid option \<Rightarrow> dict
   \<Rightarrow> notification_row" where
  "notification i now merchant ntype title body etype eid payload =
     \<lparr>row_id = i, created_at = now, updated_at = now, nt_merchant_id = merchant, nt_user_id = None,
      nt_notification_type = ntype, nt_title = title, nt_body = body, nt_entity_type = etype,
      nt_entity_id = eid, nt_payload = payload, nt_is_read = False, nt_read_at = None\<rparr>"

definition add_notification ::
  "env \<Rightarrow> uuid \<Rightarrow> notification_type \<Rightarrow> string \<Rightarrow> string \<Rightarrow> string option \<Rightarrow> uuid option \<Rightarrow> dict \<Rightarrow> uuid m" where
  "add_notification e merchant ntype title body etype eid payload =
     bnd (new_uuid e) (\<lambda>i. bnd (gets clock) (\<lambda>now.
       andthen (add_row t_notifications t_notifications_update no_clash
                  (notification i now merchant ntype title body etype eid payload))
       (ret i)))"

text \<open>\<open>AuditService.record\<close>.\<close>

definition audit_record ::
  "env \<Rightarrow> string \<Rightarrow> string \<Rightarrow> string \<Rightarrow> string \<Rightarrow> string \<Rightarrow> uuid option \<Rightarrow> string option \<Rightarrow> dict option \<Rightarrow> unit m" where
  "audit_record e action actor_type actor_id resource_type resource_id merchant trace metadata =
     add_audit e merchant actor_type actor_id action resource_type resource_id trace
       (case metadata of None \<Rightarrow> [] | Some d \<Rightarrow> d)"

text \<open>What the three additions leave: one more row, with an unused id, at the end of its table.\<close>

definition unused_id :: "uuid \<Rightarrow> 'r row_scheme list \<Rightarrow> bool" where
  "unused_id i rows \<longleftrightarrow> (\<forall>x \<in> set rows. row_id x \<noteq> i)"

lemma add_outbox_Inr [run_simps]:
  "add_outbox e m aty ai et c tr p s = (Inr u, t) \<longleftrightarrow>
     unused_id (uuid_at e (draws s)) (t_outbox_events s)
   \<and> t = s\<lparr>draws := draws s + 1, t_outbox_events := t_outbox_events s @
            [outbox_event (uuid_at e (draws s)) (clock s) m aty ai et c tr p]\<rparr>"
  by (auto simp: add_outbox_def run_simps unused_id_def outbox_event_def)

lemma add_audit_Inr [run_simps]:
  "add_audit e m aty ai ac rt ri tr md s = (Inr u, t) \<longleftrightarrow>
     unused_id (uuid_at e (draws s)) (t_audit_logs s)
   \<and> t = s\<lparr>draws := draws s + 1, t_audit_logs := t_audit_logs s @
            [audit_log (uuid_at e (draws s)) (clock s) m aty ai ac rt ri tr md]\<rparr>"
  by (auto simp: add_audit_def run_simps unused_id_def audit_log_def)

lemma add_notification_Inr [run_simps]:
  "add_notification e m nt ti bo et ei p s = (Inr i, t) \<longleftrightarrow>
     unused_id (uuid_at e (draws s)) (t_notifications s) \<and> i = uuid_at e (draws s)
   \<and> t = s\<lparr>draws := draws s + 1, t_notifications := t_notifications s @
            [notification (uuid_at e (draws s)) (clock s) m nt ti bo et ei p]\<rparr>"
  by (auto simp: add_notification_def run_simps unused_id_def notification_def)

lemma add_outbox_Inl:
  "add_outbox e m aty ai et c tr p s = (Inl x, t) \<Longrightarrow> x = integrity_error"
  "add_audit e m2 aty ai2 ac rt ri tr md s = (Inl x, t) \<Longrightarrow> x = integrity_error"
  "add_notification e m3 nt ti bo et2 ei p s = (Inl x, t) \<Longrightarrow> x = integrity_error"
  by (auto simp: add_outbox_def add_audit_def add_notification_def run_simps)

section \<open>Frames\<close>

text \<open>A predicate that does not look at a table survives the programs that write only there.\<close>

lemma keeps_new_uuid [keeps_intros]:
  "(\<And>s n. P s \<Longrightarrow> P (s\<lparr>draws := n\<rparr>)) \<Longrightarrow> keeps P (new_uuid e)"
  by (auto simp: keeps_def run_simps)

lemma keeps_new_text [keeps_intros]:
  "(\<And>s n. P s \<Longrightarrow> P (s\<lparr>draws := n\<rparr>)) \<Longrightarrow> keeps P (new_text e)"
  by (auto simp: keeps_def run_simps)

lemma keeps_add_row [keeps_intros]:
  "(\<And>s rows. P s \<Longrightarrow> P (tab_upd (\<lambda>_. rows) s)) \<Longrightarrow> keeps P (add_row tab tab_upd clash r)"
  by (auto simp: keeps_def add_row_def)

lemma keeps_change_row [keeps_intros]:
  "(\<And>s rows. P s \<Longrightarrow> P (tab_upd (\<lambda>_. rows) s)) \<Longrightarrow> keeps P (change_row tab tab_upd i f)"
  by (auto simp: keeps_def change_row_def)

lemma keeps_add_outbox [keeps_intros]:
  "(\<And>s n. P s \<Longrightarrow> P (s\<lparr>draws := n\<rparr>)) \<Longrightarrow> (\<And>s rows. P s \<Longrightarrow> P (s\<lparr>t_outbox_events := rows\<rparr>)) \<Longrightarrow>
   keeps P (add_outbox e m aty ai et c tr p)"
  unfolding add_outbox_def by (intro keeps_intros) auto

lemma keeps_add_audit [keeps_intros]:
  "(\<And>s n. P s \<Longrightarrow> P (s\<lparr>draws := n\<rparr>)) \<Longrightarrow> (\<And>s rows. P s \<Longrightarrow> P (s\<lparr>t_audit_logs := rows\<rparr>)) \<Longrightarrow>
   keeps P (add_audit e m aty ai ac rt ri tr md)"
  unfolding add_audit_def by (intro keeps_intros) auto

lemma keeps_audit_record [keeps_intros]:
  "(\<And>s n. P s \<Longrightarrow> P (s\<lparr>draws := n\<rparr>)) \<Longrightarrow> (\<And>s rows. P s \<Longrightarrow> P (s\<lparr>t_audit_logs := rows\<rparr>)) \<Longrightarrow>
   keeps P (audit_record e ac aty ai rt ri m tr md)"
  unfolding audit_record_def by (intro keeps_intros) auto

lemma keeps_add_notification [keeps_intros]:
  "(\<And>s n. P s \<Longrightarrow> P (s\<lparr>draws := n\<rparr>)) \<Longrightarrow> (\<And>s rows. P s \<Longrightarrow> P (s\<lparr>t_notifications := rows\<rparr>)) \<Longrightarrow>
   keeps P (add_notification e m nt ti bo et ei p)"
  unfolding add_notification_def by (intro keeps_intros) auto

section \<open>Fresh ids\<close>

text \<open>
  The ids that are drawn before the horizon \<open>h\<close> are distinct and in no table, which is what \<open>uuid4\<close>
  promises for practical purposes: under \<open>fresh\<close>, and while ids are left, an addition never fails on
  its id.
\<close>

definition fresh_in :: "env \<Rightarrow> nat \<Rightarrow> nat \<Rightarrow> 'r row_scheme list \<Rightarrow> bool" where
  "fresh_in e h n rows \<longleftrightarrow> (\<forall>k \<in> {n..<h}. unused_id (uuid_at e k) rows)"

definition fresh :: "env \<Rightarrow> nat \<Rightarrow> db \<Rightarrow> bool" where
  "fresh e h s \<longleftrightarrow> inj_on (uuid_at e) {draws s..<h} \<and> fresh_in e h (draws s) (t_outbox_events s)
     \<and> fresh_in e h (draws s) (t_audit_logs s) \<and> fresh_in e h (draws s) (t_notifications s)
     \<and> fresh_in e h (draws s) (t_orders s) \<and> fresh_in e h (draws s) (t_order_items s)
     \<and> fresh_in e h (draws s) (t_order_events s) \<and> fresh_in e h (draws s) (t_transactions s)
     \<and> fresh_in e h (draws s) (t_idempotency_keys s)"

definition ids_left :: "nat \<Rightarrow> db \<Rightarrow> nat" where
  "ids_left h s = h - draws s"

abbreviation draws_fresh :: "env \<Rightarrow> nat \<Rightarrow> nat \<Rightarrow> 'a m \<Rightarrow> bool" where
  "draws_fresh e h k prg \<equiv> returns (fresh e h) (ids_left h) k prg"

lemma fresh_in_empty [simp]: "fresh_in e h n []"
  by (simp add: fresh_in_def unused_id_def)

lemma fresh_in_Suc [simp]: "fresh_in e h n rows \<Longrightarrow> fresh_in e h (Suc n) rows"
  by (simp add: fresh_in_def)

lemma fresh_in_now: "fresh_in e h n rows \<Longrightarrow> n < h \<Longrightarrow> x \<in> set rows \<Longrightarrow> row_id x \<noteq> uuid_at e n"
  by (auto simp: fresh_in_def unused_id_def)

lemma fresh_in_add:
  "inj_on (uuid_at e) {n..<h} \<Longrightarrow> n < h \<Longrightarrow> fresh_in e h n rows \<Longrightarrow> row_id r = uuid_at e n \<Longrightarrow>
   fresh_in e h (Suc n) (rows @ [r])"
  by (fastforce simp: fresh_in_def unused_id_def inj_on_def)

lemma fresh_in_upd: "fresh_in e h n rows \<Longrightarrow> (\<And>r. row_id (f r) = row_id r) \<Longrightarrow> fresh_in e h n (upd P f rows)"
  by (auto simp: fresh_in_def unused_id_def in_set_upd split: if_splits)

lemma inj_on_Suc [simp]: "inj_on f {n..<h} \<Longrightarrow> inj_on f {Suc n..<h}"
  by (rule inj_on_subset) auto

lemma fresh_draw: "fresh e h s \<Longrightarrow> fresh e h (s\<lparr>draws := Suc (draws s)\<rparr>)"
  by (simp add: fresh_def)

lemma returns_add_outbox [returns_intros]: "draws_fresh e h 1 (add_outbox e m aty ai et c tr p)"
proof (rule returnsI)
  fix s assume f: "fresh e h s" and l: "1 \<le> ids_left h s"
  then have "unused_id (uuid_at e (draws s)) (t_outbox_events s)" by (simp add: fresh_def fresh_in_def ids_left_def)
  with f l show "\<exists>a t. add_outbox e m aty ai et c tr p s = (Inr a, t) \<and> fresh e h t \<and> ids_left h s \<le> ids_left h t + 1"
    by (simp add: add_outbox_Inr fresh_def fresh_in_add outbox_event_def ids_left_def)
qed

lemma returns_add_audit [returns_intros]: "draws_fresh e h 1 (add_audit e m aty ai ac rt ri tr md)"
proof (rule returnsI)
  fix s assume f: "fresh e h s" and l: "1 \<le> ids_left h s"
  then have "unused_id (uuid_at e (draws s)) (t_audit_logs s)" by (simp add: fresh_def fresh_in_def ids_left_def)
  with f l show "\<exists>a t. add_audit e m aty ai ac rt ri tr md s = (Inr a, t) \<and> fresh e h t \<and> ids_left h s \<le> ids_left h t + 1"
    by (simp add: add_audit_Inr fresh_def fresh_in_add audit_log_def ids_left_def)
qed

lemma returns_add_notification [returns_intros]: "draws_fresh e h 1 (add_notification e m nt ti bo et ei p)"
proof (rule returnsI)
  fix s assume f: "fresh e h s" and l: "1 \<le> ids_left h s"
  then have "unused_id (uuid_at e (draws s)) (t_notifications s)" by (simp add: fresh_def fresh_in_def ids_left_def)
  with f l show "\<exists>a t. add_notification e m nt ti bo et ei p s = (Inr a, t) \<and> fresh e h t \<and> ids_left h s \<le> ids_left h t + 1"
    by (simp add: add_notification_Inr fresh_def fresh_in_add notification_def ids_left_def)
qed

end
