(* ===== verification/Approvals.thy ===== *)
theory Approvals
  imports Store
begin

text \<open>
  The approval of a purchase: \<open>ApprovalRepository\<close> and \<open>ApprovalService\<close>.  An approval is created
  PENDING for one canonical proposal, with a nonce and an expiry, and is decided once: approved,
  rejected, or superseded by a modified proposal.  The decision needs the owner, an unexpired
  pending row and (approval, modification by token) the signed token of exactly this approval.
  \<open>approval_step\<close> is the relation of everything the service can do to a session.
\<close>

section \<open>Repository\<close>

definition approval_clash :: "approval_row \<Rightarrow> approval_row \<Rightarrow> bool" where
  "approval_clash x y \<longleftrightarrow>
     (ap_proposal_id x = ap_proposal_id y \<and> ap_order_hash x = ap_order_hash y) \<or> ap_nonce x = ap_nonce y"

definition find_approval :: "uuid \<Rightarrow> uuid option \<Rightarrow> db \<Rightarrow> approval_row option" where
  "find_approval i merchant s =
     find (\<lambda>a. (row_id a = i \<or> ap_proposal_id a = i)
               \<and> (case merchant of None \<Rightarrow> True | Some m \<Rightarrow> ap_merchant_id a = m)) (t_approvals s)"

definition approvals_get :: "uuid \<Rightarrow> uuid option \<Rightarrow> approval_row m" where
  "approvals_get i merchant =
     bnd (gets (find_approval i merchant)) (\<lambda>r. require r (Exc NotFoundError ''Approval not found''))"

definition approvals_add :: "approval_row \<Rightarrow> unit m" where
  "approvals_add = add_row t_approvals t_approvals_update approval_clash"

definition change_approval :: "uuid \<Rightarrow> (approval_row \<Rightarrow> approval_row) \<Rightarrow> unit m" where
  "change_approval = change_row t_approvals t_approvals_update"

section \<open>Service\<close>

record approval_service =
  as_secret :: string
  as_algorithm :: string
  as_ttl_minutes :: int

definition approval_service_of :: "settings \<Rightarrow> approval_service" where
  "approval_service_of c =
     \<lparr>as_secret = auth_approval_secret c, as_algorithm = auth_jwt_algorithm c,
      as_ttl_minutes = auth_approval_token_minutes c\<rparr>"

definition approval_token :: "env \<Rightarrow> approval_service \<Rightarrow> int \<Rightarrow> approval_row \<Rightarrow> string" where
  "approval_token e sv now a =
     create_approval_token e now (ap_merchant_id a) (ap_proposal_id a) (row_id a) (ap_order_hash a)
       (ap_nonce a) (as_secret sv) (as_algorithm sv) (as_ttl_minutes sv) (Some (as_utc (ap_expires_at a)))"

definition token_for :: "env \<Rightarrow> approval_service \<Rightarrow> int \<Rightarrow> approval_row \<Rightarrow> uuid \<Rightarrow> exc + string" where
  "token_for e sv now a merchant =
     (if ap_merchant_id a \<noteq> merchant then Inl (Exc AuthorizationError ''Approval belongs to another merchant'')
      else Inr (approval_token e sv now a))"

text \<open>The claims that a token must carry to be the token of this approval.\<close>

definition expected_claims :: "approval_row \<Rightarrow> (string \<times> string) list" where
  "expected_claims a =
     [(''sub'', str_uuid (ap_merchant_id a)), (''proposal_id'', str_uuid (ap_proposal_id a)),
      (''approval_id'', str_uuid (row_id a)), (''order_hash'', ap_order_hash a),
      (''nonce'', ap_nonce a), (''type'', ''approval'')]"

definition verify_token :: "env \<Rightarrow> approval_service \<Rightarrow> int \<Rightarrow> approval_row \<Rightarrow> string \<Rightarrow> exc + unit" where
  "verify_token e sv now a token =
     bindE (decode_token e now token (as_secret sv) (as_algorithm sv)) (\<lambda>claims.
       if list_ex (\<lambda>(k, v). map_of claims k \<noteq> Some (JStr v)) (expected_claims a)
       then Inl (Exc AuthorizationError ''Approval token does not match the approved proposal'')
       else Inr ())"

text \<open>The guard of every decision.  On expiry the row is marked EXPIRED before the raise.\<close>

definition verify_owner_and_state :: "approval_row \<Rightarrow> uuid \<Rightarrow> unit m" where
  "verify_owner_and_state a merchant =
     andthen (guard (ap_merchant_id a = merchant)
                (Exc AuthorizationError ''Approval belongs to another merchant''))
     (andthen (guard (ap_status a = AS_PENDING)
                (Exc ConflictError (''Approval is already '' @ approval_status_str (ap_status a))))
     (bnd (gets clock) (\<lambda>now.
       if as_utc (ap_expires_at a) \<le> now
       then andthen (change_approval (row_id a) (\<lambda>r. r\<lparr>ap_status := AS_EXPIRED\<rparr>))
              (raise (Exc StaleApprovalError ''Approval has expired''))
       else ret ())))"

definition approval_audit :: "env \<Rightarrow> approval_row \<Rightarrow> string \<Rightarrow> string \<Rightarrow> unit m" where
  "approval_audit e a action actor =
     add_audit e (Some (ap_merchant_id a)) ''USER'' actor action ''approval'' (str_uuid (row_id a)) None
       [(''order_hash'', JStr (ap_order_hash a))]"

definition decided :: "approval_status \<Rightarrow> int \<Rightarrow> uuid \<Rightarrow> approval_row \<Rightarrow> approval_row" where
  "decided st now user r =
     r\<lparr>ap_status := st, ap_decided_at := Some now, ap_decided_by_user_id := Some user\<rparr>"

definition new_approval ::
  "env \<Rightarrow> approval_service \<Rightarrow> uuid \<Rightarrow> string \<Rightarrow> int \<Rightarrow> purchase_proposal \<Rightarrow> string \<Rightarrow> int \<Rightarrow> approval_row" where
  "new_approval e sv i nonce now p channel revision =
     \<lparr>row_id = i, created_at = now, updated_at = now, ap_merchant_id = pp_merchant_id p,
      ap_proposal_id = pp_proposal_id p, ap_workflow_request_id = None,
      ap_order_hash = canonical_order_hash e (canonical_payload p),
      ap_proposal_payload = canonical_payload p, ap_status = AS_PENDING, ap_nonce = nonce,
      ap_expires_at = Aware (now + minutes (as_ttl_minutes sv)), ap_decided_at = None,
      ap_decided_by_user_id = None, ap_channel = channel, ap_revision = revision\<rparr>"

definition approval_create ::
  "env \<Rightarrow> approval_service \<Rightarrow> purchase_proposal \<Rightarrow> string \<Rightarrow> int \<Rightarrow> string option \<Rightarrow> (approval_row \<times> string) m" where
  "approval_create e sv p channel revision correlation =
     bnd (gets clock) (\<lambda>now.
     bnd (new_text e) (\<lambda>nonce.
     bnd (new_uuid e) (\<lambda>i.
     (let a = new_approval e sv i nonce now p channel revision in
     andthen (approvals_add a)
     (andthen (add_outbox e (Some (pp_merchant_id p)) ''approval'' (row_id a) APPROVAL_REQUIRED correlation None
        [(''approval_id'', JStr (str_uuid (row_id a))),
         (''proposal_id'', JStr (str_uuid (ap_proposal_id a))),
         (''revision'', JInt (ap_revision a)), (''status'', JStr ''PENDING'')])
     (bnd (add_notification e (pp_merchant_id p) NT_APPROVAL_REQUIRED ''Purchase approval required''
             (''Review the purchase proposal for '' @ pp_sku p @ ''.'') (Some ''approval'') (Some (row_id a))
             [(''proposal_id'', JStr (str_uuid (pp_proposal_id p)))]) (\<lambda>nid.
     andthen (add_outbox e (Some (pp_merchant_id p)) ''notification'' nid NOTIFICATION_CREATED correlation None
        [(''notification_id'', JStr (str_uuid nid)),
         (''notification_type'', JStr (notification_type_str NT_APPROVAL_REQUIRED)),
         (''entity_type'', JStr ''approval''), (''entity_id'', JStr (str_uuid (row_id a)))])
     (andthen (add_audit e (Some (pp_merchant_id p)) ''AGENT'' ''purchase-workflow'' ''approval.requested''
        ''approval'' (str_uuid (row_id a)) correlation [(''order_hash'', JStr (ap_order_hash a))])
     (ret (a, approval_token e sv now a))))))))))"

definition approval_approve ::
  "env \<Rightarrow> approval_service \<Rightarrow> uuid \<Rightarrow> uuid \<Rightarrow> uuid \<Rightarrow> string \<Rightarrow> approval_row m" where
  "approval_approve e sv i merchant user token =
     bnd (approvals_get i None) (\<lambda>a.
     andthen (verify_owner_and_state a merchant)
     (bnd (gets clock) (\<lambda>now.
     andthen (lift (verify_token e sv now a token))
     (andthen (change_approval (row_id a) (decided AS_APPROVED now user))
     (andthen (add_outbox e (Some (ap_merchant_id a)) ''approval'' (row_id a) APPROVAL_GRANTED None None
        [(''approval_id'', JStr (str_uuid (row_id a))), (''order_hash'', JStr (ap_order_hash a))])
     (andthen (approval_audit e a ''approval.granted'' (str_uuid user))
     (ret (decided AS_APPROVED now user a))))))))"

definition approval_reject :: "env \<Rightarrow> uuid \<Rightarrow> uuid \<Rightarrow> uuid \<Rightarrow> approval_row m" where
  "approval_reject e i merchant user =
     bnd (approvals_get i None) (\<lambda>a.
     andthen (verify_owner_and_state a merchant)
     (bnd (gets clock) (\<lambda>now.
     andthen (change_approval (row_id a) (decided AS_REJECTED now user))
     (andthen (add_outbox e (Some (ap_merchant_id a)) ''approval'' (row_id a) APPROVAL_REJECTED None None
        [(''approval_id'', JStr (str_uuid (row_id a)))])
     (andthen (approval_audit e a ''approval.rejected'' (str_uuid user))
     (ret (decided AS_REJECTED now user a)))))))"

text \<open>\<open>x or default\<close> on an optional \<open>Decimal\<close>: zero is false.\<close>

definition dec_or :: "dec option \<Rightarrow> dec \<Rightarrow> dec" where
  "dec_or v d = (case v of None \<Rightarrow> d | Some x \<Rightarrow> if deq x dzero then d else x)"

definition revised_proposal ::
  "uuid \<Rightarrow> uuid \<Rightarrow> dict \<Rightarrow> dec option \<Rightarrow> dec option \<Rightarrow> exc + purchase_proposal" where
  "revised_proposal pid merchant d quantity max_unit_price =
     bindE (item_as parse_uuid d ''store_id'') (\<lambda>sid.
     bindE (item_as parse_uuid d ''supplier_id'') (\<lambda>sup.
     bindE (item_str d ''sku'') (\<lambda>sku.
     bindE (item_as parse_dec d ''quantity'') (\<lambda>q.
     bindE (item_str d ''unit'') (\<lambda>un.
     bindE (item_as parse_dec d ''unit_price'') (\<lambda>pr.
     bindE (item_str d ''currency'') (\<lambda>cur.
     bindE (item_as parse_iso d ''delivery_at'') (\<lambda>del.
     bindE (item_str d ''quote_id'') (\<lambda>quo.
       check_purchase_proposal
         \<lparr>pp_proposal_id = pid, pp_merchant_id = merchant, pp_store_id = sid, pp_supplier_id = sup,
          pp_sku = sku, pp_quantity = dec_or quantity q, pp_unit = un,
          pp_unit_price = dmin pr (dec_or max_unit_price pr), pp_currency = cur,
          pp_delivery_at = del, pp_quote_id = quo\<rparr>)))))))))"

definition approval_modify ::
  "env \<Rightarrow> approval_service \<Rightarrow> uuid \<Rightarrow> uuid \<Rightarrow> uuid \<Rightarrow> dec option \<Rightarrow> dec option \<Rightarrow> (approval_row \<times> string) m" where
  "approval_modify e sv i merchant user quantity max_unit_price =
     bnd (approvals_get i None) (\<lambda>old.
     andthen (verify_owner_and_state old merchant)
     (bnd (gets clock) (\<lambda>now.
     andthen (change_approval (row_id old) (decided AS_MODIFIED now user))
     (andthen (approval_audit e old ''approval.modified'' (str_uuid user))
     (bnd (new_uuid e) (\<lambda>pid.
     bnd (lift (revised_proposal pid merchant (ap_proposal_payload old) quantity max_unit_price)) (\<lambda>p.
       approval_create e sv p (ap_channel old) (ap_revision old + 1) (ap_workflow_request_id old))))))))"

definition approval_mark_modified ::
  "env \<Rightarrow> approval_service \<Rightarrow> uuid \<Rightarrow> uuid \<Rightarrow> uuid \<Rightarrow> string \<Rightarrow> approval_row m" where
  "approval_mark_modified e sv i merchant user token =
     bnd (approvals_get i None) (\<lambda>a.
     andthen (verify_owner_and_state a merchant)
     (bnd (gets clock) (\<lambda>now.
     andthen (lift (verify_token e sv now a token))
     (andthen (change_approval (row_id a) (decided AS_MODIFIED now user))
     (andthen (approval_audit e a ''approval.modified'' (str_uuid user))
     (ret (decided AS_MODIFIED now user a)))))))"

section \<open>What each operation does\<close>

lemma approvals_get_Inr [run_simps]:
  "approvals_get i mo s = (Inr a, t) \<longleftrightarrow> find_approval i mo s = Some a \<and> t = s"
  by (auto simp: approvals_get_def run_simps)

lemma approvals_get_Inl [run_simps]:
  "approvals_get i mo s = (Inl x, t) \<longleftrightarrow>
     find_approval i mo s = None \<and> x = Exc NotFoundError ''Approval not found'' \<and> t = s"
  by (auto simp: approvals_get_def run_simps)

lemma find_approval_mem: "find_approval i mo s = Some a \<Longrightarrow> a \<in> set (t_approvals s) \<and> (row_id a = i \<or> ap_proposal_id a = i)"
  by (auto simp: find_approval_def dest: find_Some_iff_mem)

definition decidable :: "uuid \<Rightarrow> int \<Rightarrow> approval_row \<Rightarrow> bool" where
  "decidable merchant now a \<longleftrightarrow>
     ap_merchant_id a = merchant \<and> ap_status a = AS_PENDING \<and> now < as_utc (ap_expires_at a)"

lemma verify_owner_Inr [run_simps]:
  "verify_owner_and_state a merchant s = (Inr u, t) \<longleftrightarrow> decidable merchant (clock s) a \<and> t = s"
  by (auto simp: verify_owner_and_state_def decidable_def run_simps split: if_splits)

text \<open>When the guard raises, the session is unchanged except that an expired row says so.\<close>

lemma verify_owner_Inl:
  "verify_owner_and_state a merchant s = (Inl x, t) \<Longrightarrow>
   \<not> decidable merchant (clock s) a \<and>
   (t = s \<or> (ap_status a = AS_PENDING \<and> as_utc (ap_expires_at a) \<le> clock s
     \<and> cls x = StaleApprovalError
     \<and> t = s\<lparr>t_approvals := upd (\<lambda>r. row_id r = row_id a)
            (mutate (clock s) (\<lambda>r. r\<lparr>ap_status := AS_EXPIRED\<rparr>)) (t_approvals s)\<rparr>))"
  by (auto simp: verify_owner_and_state_def decidable_def change_approval_def run_simps split: if_splits)

lemma verify_token_ok:
  "verify_token e sv now a tok = Inr u \<longleftrightarrow>
     (\<exists>c. decode_token e now tok (as_secret sv) (as_algorithm sv) = Inr c
        \<and> (\<forall>(k, v) \<in> set (expected_claims a). map_of c k = Some (JStr v)))"
  by (auto simp: verify_token_def run_simps list_ex_iff split: if_splits)

definition decide_rows :: "db \<Rightarrow> approval_row \<Rightarrow> approval_status \<Rightarrow> uuid \<Rightarrow> approval_row list" where
  "decide_rows s a st user =
     upd (\<lambda>r. row_id r = row_id a) (mutate (clock s) (decided st (clock s) user)) (t_approvals s)"

lemma approve_Inr:
  "approval_approve e sv i merchant user tok s = (Inr b, t) \<longleftrightarrow>
   (\<exists>a. find_approval i None s = Some a \<and> decidable merchant (clock s) a
      \<and> verify_token e sv (clock s) a tok = Inr ()
      \<and> b = decided AS_APPROVED (clock s) user a
      \<and> unused_id (uuid_at e (draws s)) (t_outbox_events s)
      \<and> unused_id (uuid_at e (draws s + 1)) (t_audit_logs s)
      \<and> t = s\<lparr>draws := draws s + 2, t_approvals := decide_rows s a AS_APPROVED user,
           t_outbox_events := t_outbox_events s @
             [outbox_event (uuid_at e (draws s)) (clock s) (Some (ap_merchant_id a)) ''approval'' (row_id a)
                APPROVAL_GRANTED None None
                [(''approval_id'', JStr (str_uuid (row_id a))), (''order_hash'', JStr (ap_order_hash a))]],
           t_audit_logs := t_audit_logs s @
             [audit_log (uuid_at e (draws s + 1)) (clock s) (Some (ap_merchant_id a)) ''USER'' (str_uuid user)
                ''approval.granted'' ''approval'' (str_uuid (row_id a)) None
                [(''order_hash'', JStr (ap_order_hash a))]]\<rparr>)"
  by (auto simp: approval_approve_def change_approval_def approval_audit_def run_simps decide_rows_def)

lemma reject_Inr:
  "approval_reject e i merchant user s = (Inr b, t) \<longleftrightarrow>
   (\<exists>a. find_approval i None s = Some a \<and> decidable merchant (clock s) a
      \<and> b = decided AS_REJECTED (clock s) user a
      \<and> unused_id (uuid_at e (draws s)) (t_outbox_events s)
      \<and> unused_id (uuid_at e (draws s + 1)) (t_audit_logs s)
      \<and> t = s\<lparr>draws := draws s + 2, t_approvals := decide_rows s a AS_REJECTED user,
           t_outbox_events := t_outbox_events s @
             [outbox_event (uuid_at e (draws s)) (clock s) (Some (ap_merchant_id a)) ''approval'' (row_id a)
                APPROVAL_REJECTED None None [(''approval_id'', JStr (str_uuid (row_id a)))]],
           t_audit_logs := t_audit_logs s @
             [audit_log (uuid_at e (draws s + 1)) (clock s) (Some (ap_merchant_id a)) ''USER'' (str_uuid user)
                ''approval.rejected'' ''approval'' (str_uuid (row_id a)) None
                [(''order_hash'', JStr (ap_order_hash a))]]\<rparr>)"
  by (auto simp: approval_reject_def change_approval_def approval_audit_def run_simps decide_rows_def)

lemma mark_modified_Inr:
  "approval_mark_modified e sv i merchant user tok s = (Inr b, t) \<longleftrightarrow>
   (\<exists>a. find_approval i None s = Some a \<and> decidable merchant (clock s) a
      \<and> verify_token e sv (clock s) a tok = Inr ()
      \<and> b = decided AS_MODIFIED (clock s) user a
      \<and> unused_id (uuid_at e (draws s)) (t_audit_logs s)
      \<and> t = s\<lparr>draws := draws s + 1, t_approvals := decide_rows s a AS_MODIFIED user,
           t_audit_logs := t_audit_logs s @
             [audit_log (uuid_at e (draws s)) (clock s) (Some (ap_merchant_id a)) ''USER'' (str_uuid user)
                ''approval.modified'' ''approval'' (str_uuid (row_id a)) None
                [(''order_hash'', JStr (ap_order_hash a))]]\<rparr>)"
  by (auto simp: approval_mark_modified_def change_approval_def approval_audit_def run_simps decide_rows_def)

text \<open>The created row, its notification and its events: six draws after the call.\<close>

definition created_row :: "env \<Rightarrow> approval_service \<Rightarrow> db \<Rightarrow> purchase_proposal \<Rightarrow> string \<Rightarrow> int \<Rightarrow> approval_row" where
  "created_row e sv s p channel revision =
     new_approval e sv (uuid_at e (draws s + 1)) (text_at e (draws s)) (clock s) p channel revision"

lemma create_Inr:
  "approval_create e sv p channel revision correlation s = (Inr (a, tok), t) \<Longrightarrow>
     a = created_row e sv s p channel revision
   \<and> tok = approval_token e sv (clock s) a
   \<and> (\<forall>x \<in> set (t_approvals s). row_id x \<noteq> row_id a \<and> \<not> approval_clash x a)
   \<and> t = s\<lparr>draws := draws s + 6, t_approvals := t_approvals s @ [a],
           t_outbox_events := t_outbox_events t, t_notifications := t_notifications t,
           t_audit_logs := t_audit_logs t\<rparr>
   \<and> (\<exists>x y. t_outbox_events t = t_outbox_events s @ [x, y] \<and> ob_event_type x = APPROVAL_REQUIRED
        \<and> ob_aggregate_id x = row_id a \<and> ob_event_type y = NOTIFICATION_CREATED)
   \<and> (\<exists>n. t_notifications t = t_notifications s @ [n] \<and> nt_entity_id n = Some (row_id a))
   \<and> (\<exists>l. t_audit_logs t = t_audit_logs s @ [l] \<and> au_action l = ''approval.requested'')"
  by (auto simp: approval_create_def approvals_add_def run_simps Let_def created_row_def
      outbox_event_def notification_def audit_log_def new_approval_def)

lemma modify_Inr:
  assumes "approval_modify e sv i merchant user quantity max_unit_price s = (Inr (b, tok), t)"
  obtains a p u where
    "find_approval i None s = Some a" "decidable merchant (clock s) a"
    "revised_proposal (uuid_at e (draws s + 1)) merchant (ap_proposal_payload a) quantity max_unit_price = Inr p"
    "u = s\<lparr>t_approvals := decide_rows s a AS_MODIFIED user,
         t_audit_logs := t_audit_logs s @
             [audit_log (uuid_at e (draws s)) (clock s) (Some (ap_merchant_id a)) ''USER'' (str_uuid user)
                ''approval.modified'' ''approval'' (str_uuid (row_id a)) None
                [(''order_hash'', JStr (ap_order_hash a))]], draws := draws s + 2\<rparr>"
    "approval_create e sv p (ap_channel a) (ap_revision a + 1) (ap_workflow_request_id a) u = (Inr (b, tok), t)"
proof -
  from assms obtain a p where "find_approval i None s = Some a" "decidable merchant (clock s) a"
    "revised_proposal (uuid_at e (draws s + 1)) merchant (ap_proposal_payload a) quantity max_unit_price = Inr p"
    "approval_create e sv p (ap_channel a) (ap_revision a + 1) (ap_workflow_request_id a)
       (s\<lparr>t_approvals := decide_rows s a AS_MODIFIED user,
         t_audit_logs := t_audit_logs s @
             [audit_log (uuid_at e (draws s)) (clock s) (Some (ap_merchant_id a)) ''USER'' (str_uuid user)
                ''approval.modified'' ''approval'' (str_uuid (row_id a)) None
                [(''order_hash'', JStr (ap_order_hash a))]], draws := draws s + 2\<rparr>) = (Inr (b, tok), t)"
    unfolding approval_modify_def change_approval_def approval_audit_def decide_rows_def
    by (auto simp: run_simps)
  then show ?thesis by (intro that) (rule refl | assumption)+
qed

section \<open>Tokens and approvals\<close>

text \<open>A token that verifies against an approval carries exactly its merchant, proposal, id, order
  hash and nonce; so one token cannot verify against two different approvals.\<close>

lemma verify_token_binds:
  assumes "verify_token e sv now a tok = Inr ()" and "verify_token e sv now' b tok = Inr ()"
    and "\<And>c c'. decode_token e now tok (as_secret sv) (as_algorithm sv) = Inr c \<Longrightarrow>
                 decode_token e now' tok (as_secret sv) (as_algorithm sv) = Inr c' \<Longrightarrow> c = c'"
  shows "row_id a = row_id b \<and> ap_merchant_id a = ap_merchant_id b \<and> ap_proposal_id a = ap_proposal_id b
    \<and> ap_order_hash a = ap_order_hash b \<and> ap_nonce a = ap_nonce b"
proof -
  obtain c where c: "\<forall>(k, v) \<in> set (expected_claims a). map_of c k = Some (JStr v)"
    "\<forall>(k, v) \<in> set (expected_claims b). map_of c k = Some (JStr v)"
    using assms unfolding verify_token_ok by blast
  then show ?thesis by (auto simp: expected_claims_def)
qed

lemma signed_token_verifies:
  assumes "jwt_roundtrip e (approval_claims now (ap_merchant_id a) (ap_proposal_id a) (row_id a) (ap_order_hash a)
      (ap_nonce a) (as_ttl_minutes sv) (Some (as_utc (ap_expires_at a)))) (as_secret sv) (as_algorithm sv)"
    and "later < epoch_seconds (as_utc (ap_expires_at a)) * 1000000"
  shows "verify_token e sv later a (approval_token e sv now a) = Inr ()"
  unfolding verify_token_ok approval_token_def create_approval_token_def decode_signed [OF assms(1)]
    expiry_approval_claims
  using assms(2) by (simp add: expected_claims_def approval_claims_def)

section \<open>Modification\<close>

lemma revised_proposal_of_canonical:
  assumes "revised_proposal pid m (canonical_payload q) quantity max_price = Inr p"
    and "valid_time (pp_delivery_at q)"
  shows "p = q\<lparr>pp_proposal_id := pid, pp_merchant_id := m, pp_quantity := dec_or quantity (pp_quantity q),
               pp_unit_price := dmin (pp_unit_price q) (dec_or max_price (pp_unit_price q))\<rparr>
     \<and> positive (pp_quantity p) \<and> positive (pp_unit_price p)"
  using assms
  by (cases q) (auto simp: revised_proposal_def item_as_payload item_str_payload payload_lookup or_fail_def
      check_purchase_proposal_ok)

end
