(* ===== verification/ApprovalLifecycle.thy ===== *)
theory ApprovalLifecycle
  imports Approvals
begin

text \<open>
  The life of approvals under any sequence of service calls, each in its own transaction, with time
  passing in between.  The abstract view is the map from approval ids to statuses; a decision moves
  one PENDING entry, and a decided entry never moves again.
\<close>

section \<open>The transition relation\<close>

datatype approval_op =
    OpCreate purchase_proposal string int "string option"
  | OpApprove uuid uuid uuid string
  | OpReject uuid uuid uuid
  | OpModify uuid uuid uuid "dec option" "dec option"
  | OpMarkModified uuid uuid uuid string

definition run_op :: "env \<Rightarrow> approval_service \<Rightarrow> approval_op \<Rightarrow> unit m" where
  "run_op e sv ac = (case ac of
     OpCreate p ch rn corr \<Rightarrow> bnd (approval_create e sv p ch rn corr) (\<lambda>_. ret ())
   | OpApprove i m u tok \<Rightarrow> bnd (approval_approve e sv i m u tok) (\<lambda>_. ret ())
   | OpReject i m u \<Rightarrow> bnd (approval_reject e i m u) (\<lambda>_. ret ())
   | OpModify i m u q p \<Rightarrow> bnd (approval_modify e sv i m u q p) (\<lambda>_. ret ())
   | OpMarkModified i m u tok \<Rightarrow> bnd (approval_mark_modified e sv i m u tok) (\<lambda>_. ret ()))"

inductive approval_step :: "env \<Rightarrow> approval_service \<Rightarrow> db \<Rightarrow> db \<Rightarrow> bool" for e sv where
  act: "request (run_op e sv ac) s = (r, t) \<Longrightarrow> approval_step e sv s t"
| tick: "clock s \<le> n \<Longrightarrow> approval_step e sv s (s\<lparr>clock := n\<rparr>)"

inductive_cases approval_stepE: "approval_step e sv s t"

definition approval_steps :: "env \<Rightarrow> approval_service \<Rightarrow> db \<Rightarrow> db \<Rightarrow> bool" where
  "approval_steps e sv = (approval_step e sv)\<^sup>*\<^sup>*"

section \<open>How the table evolves\<close>

definition same_core :: "approval_row \<Rightarrow> approval_row \<Rightarrow> bool" where
  "same_core a b \<longleftrightarrow> row_id a = row_id b \<and> ap_merchant_id a = ap_merchant_id b
     \<and> ap_proposal_id a = ap_proposal_id b \<and> ap_order_hash a = ap_order_hash b
     \<and> ap_proposal_payload a = ap_proposal_payload b \<and> ap_nonce a = ap_nonce b
     \<and> ap_expires_at a = ap_expires_at b \<and> ap_channel a = ap_channel b \<and> ap_revision a = ap_revision b
     \<and> ap_workflow_request_id a = ap_workflow_request_id b \<and> created_at a = created_at b"

definition approval_next :: "approval_row \<Rightarrow> approval_row \<Rightarrow> bool" where
  "approval_next a b \<longleftrightarrow> b = a \<or>
     (ap_status a = AS_PENDING \<and> ap_status b \<in> {AS_APPROVED, AS_REJECTED, AS_MODIFIED} \<and> same_core a b
      \<and> ap_decided_at b \<noteq> None \<and> ap_decided_by_user_id b \<noteq> None)"

definition evolves :: "approval_row list \<Rightarrow> approval_row list \<Rightarrow> bool" where
  "evolves xs ys \<longleftrightarrow> length xs \<le> length ys \<and> list_all2 approval_next xs (take (length xs) ys)
     \<and> (\<forall>y \<in> set (drop (length xs) ys). ap_status y = AS_PENDING)"

lemma approval_next_refl [simp]: "approval_next a a"
  by (simp add: approval_next_def)

lemma evolves_refl [simp]: "evolves xs xs"
  by (simp add: evolves_def list_all2_refl)

lemma evolves_append: "list_all2 approval_next xs ys \<Longrightarrow> (\<And>y. y \<in> set new \<Longrightarrow> ap_status y = AS_PENDING) \<Longrightarrow>
   evolves xs (ys @ new)"
  by (frule list_all2_lengthD) (simp add: evolves_def)

lemma decide_rows_next:
  assumes ok: "table_ok approval_clash (t_approvals s)" and a: "a \<in> set (t_approvals s)"
    and "ap_status a = AS_PENDING" and "st \<in> {AS_APPROVED, AS_REJECTED, AS_MODIFIED}"
  shows "list_all2 approval_next (t_approvals s) (decide_rows s a st user)"
proof -
  have "approval_next r (if row_id r = row_id a then mutate (clock s) (decided st (clock s) user) r else r)"
    if "r \<in> set (t_approvals s)" for r
  proof (cases "row_id r = row_id a")
    case True
    then have "r = a" using distinct_keyD [OF table_ok_distinct [OF ok]] that a by blast
    with assms(3,4) show ?thesis
      by (auto simp: approval_next_def same_core_def mutate_def decided_def)
  qed simp
  then show ?thesis
    unfolding decide_rows_def upd_def by (simp add: list_all2_map2 list_all2_same)
qed

lemma decide_rows_ok:
  "table_ok approval_clash (t_approvals s) \<Longrightarrow> table_ok approval_clash (decide_rows s a st user)"
  unfolding decide_rows_def
  by (rule table_ok_upd) (simp_all add: mutate_def decided_def approval_clash_def)

text \<open>Every row records the hash of its own payload and is undecided exactly while PENDING.\<close>

definition approval_wf :: "env \<Rightarrow> approval_row \<Rightarrow> bool" where
  "approval_wf e a \<longleftrightarrow> ap_order_hash a = canonical_order_hash e (ap_proposal_payload a)
     \<and> (ap_status a = AS_PENDING \<longleftrightarrow> ap_decided_at a = None)
     \<and> (ap_decided_at a = None \<longleftrightarrow> ap_decided_by_user_id a = None)
     \<and> ap_status a \<noteq> AS_EXPIRED"

definition approvals_ok :: "env \<Rightarrow> db \<Rightarrow> bool" where
  "approvals_ok e s \<longleftrightarrow> table_ok approval_clash (t_approvals s) \<and> list_all (approval_wf e) (t_approvals s)"

lemma decide_rows_wf:
  assumes "list_all (approval_wf e) (t_approvals s)" "st \<in> {AS_APPROVED, AS_REJECTED, AS_MODIFIED}"
  shows "list_all (approval_wf e) (decide_rows s a st user)"
proof -
  have "approval_wf e (mutate (clock s) (decided st (clock s) user) r)" if "approval_wf e r" for r
    using that assms(2) unfolding approval_wf_def mutate_def decided_def by (elim insertE) simp_all
  with assms(1) show ?thesis by (auto simp: decide_rows_def list_all_iff in_set_upd)
qed

lemma created_row_wf: "approval_wf e (created_row e sv s p ch rn)"
  by (simp add: approval_wf_def created_row_def new_approval_def)

lemma run_op_evolves:
  assumes ok: "approvals_ok e s" and run: "run_op e sv ac s = (Inr u, t)"
  shows "evolves (t_approvals s) (t_approvals t) \<and> approvals_ok e t"
proof -
  have tab: "table_ok approval_clash (t_approvals s)" and wf: "list_all (approval_wf e) (t_approvals s)"
    using ok by (simp_all add: approvals_ok_def)
  have dec: "evolves (t_approvals s) (decide_rows s a st user)
      \<and> table_ok approval_clash (decide_rows s a st user) \<and> list_all (approval_wf e) (decide_rows s a st user)"
    if "find_approval i None s = Some a" "decidable m (clock s) a" "st \<in> {AS_APPROVED, AS_REJECTED, AS_MODIFIED}"
    for a i m st user
    using that decide_rows_next [OF tab, of a st user] evolves_append [of _ _ "[]"]
      decide_rows_ok [OF tab] decide_rows_wf [OF wf]
    by (auto simp: decidable_def dest: find_approval_mem)
  show ?thesis
  proof (cases ac)
    case (OpCreate p ch rn corr)
    then obtain a tok where c: "approval_create e sv p ch rn corr s = (Inr (a, tok), t)"
      using run by (auto simp: run_op_def run_simps)
    note cr = create_Inr [OF c]
    then have t: "t_approvals t = t_approvals s @ [created_row e sv s p ch rn]" by auto
    have "evolves (t_approvals s) (t_approvals t)"
      unfolding t by (rule evolves_append) (auto simp: list_all2_refl created_row_def new_approval_def)
    moreover have "table_ok approval_clash (t_approvals t)"
      unfolding t using cr by (intro table_ok_add tab) auto
    ultimately show ?thesis using wf by (simp add: approvals_ok_def t created_row_wf)
  next
    case (OpApprove i m us tok)
    with run dec show ?thesis by (auto simp: run_op_def run_simps approve_Inr approvals_ok_def)
  next
    case (OpReject i m us)
    with run dec show ?thesis by (auto simp: run_op_def run_simps reject_Inr approvals_ok_def)
  next
    case (OpMarkModified i m us tok)
    with run dec show ?thesis by (auto simp: run_op_def run_simps mark_modified_Inr approvals_ok_def)
  next
    case (OpModify i m us q mp)
    then obtain b tok where md: "approval_modify e sv i m us q mp s = (Inr (b, tok), t)"
      using run by (auto simp: run_op_def run_simps)
    obtain a p v where f: "find_approval i None s = Some a" "decidable m (clock s) a"
      and v: "t_approvals v = decide_rows s a AS_MODIFIED us"
      and c: "approval_create e sv p (ap_channel a) (ap_revision a + 1) (ap_workflow_request_id a) v = (Inr (b, tok), t)"
      using md by (rule modify_Inr) (rule that, simp_all)
    note cr = create_Inr [OF c]
    let ?new = "created_row e sv v p (ap_channel a) (ap_revision a + 1)"
    from cr v have t: "t_approvals t = decide_rows s a AS_MODIFIED us @ [?new]" by auto
    have "list_all2 approval_next (t_approvals s) (decide_rows s a AS_MODIFIED us)"
      using f by (intro decide_rows_next tab) (auto simp: decidable_def dest: find_approval_mem)
    then have "evolves (t_approvals s) (t_approvals t)"
      unfolding t by (rule evolves_append) (simp add: created_row_def new_approval_def)
    moreover have "table_ok approval_clash (t_approvals t)"
      unfolding t using cr dec [OF f, of AS_MODIFIED us] v by (intro table_ok_add) auto
    ultimately show ?thesis
      using dec [OF f, of AS_MODIFIED us] by (simp add: approvals_ok_def t created_row_wf)
  qed
qed

lemma approval_step_evolves:
  assumes "approval_step e sv s t" and "approvals_ok e s"
  shows "evolves (t_approvals s) (t_approvals t) \<and> approvals_ok e t"
  using assms(1)
proof (cases rule: approval_step.cases)
  case (act ac r)
  show ?thesis
  proof (cases r)
    case (Inl x)
    with act show ?thesis
      using assms(2) by (auto simp: request_def run_simps rollback_def approvals_ok_def)
  next
    case (Inr u)
    with act show ?thesis
      using run_op_evolves [OF assms(2)] by (auto simp: request_def run_simps)
  qed
next
  case (tick n)
  with assms(2) show ?thesis by (simp add: approvals_ok_def)
qed

lemma evolves_decided:
  assumes "evolves xs ys" and "a \<in> set xs" and "ap_status a \<noteq> AS_PENDING"
  shows "a \<in> set ys"
proof -
  obtain i where i: "i < length xs" "xs ! i = a" using assms(2) by (auto simp: in_set_conv_nth)
  with assms(1) have "approval_next a (ys ! i)" "i < length ys"
    by (auto simp: evolves_def list_all2_conv_all_nth)
  with assms(3) show ?thesis by (auto simp: approval_next_def)
qed

lemma evolves_core:
  assumes "evolves xs ys" and "a \<in> set xs"
  shows "\<exists>b \<in> set ys. same_core a b \<and> approval_next a b"
proof -
  obtain i where i: "i < length xs" "xs ! i = a" using assms(2) by (auto simp: in_set_conv_nth)
  with assms(1) have "approval_next a (ys ! i)" "i < length ys"
    by (auto simp: evolves_def list_all2_conv_all_nth)
  then show ?thesis by (intro bexI [of _ "ys ! i"]) (auto simp: approval_next_def same_core_def)
qed

lemma approval_steps_ok:
  assumes "approval_steps e sv s t" and "approvals_ok e s"
  shows "approvals_ok e t"
  using assms unfolding approval_steps_def
  by (induction rule: rtranclp_induct) (auto dest: approval_step_evolves)

lemma approval_steps_decided:
  assumes "approval_steps e sv s t" and "approvals_ok e s" and "a \<in> set (t_approvals s)"
    and "ap_status a \<noteq> AS_PENDING"
  shows "a \<in> set (t_approvals t)"
  using assms(1) unfolding approval_steps_def
proof (induction rule: rtranclp_induct)
  case (step u v)
  then have "approvals_ok e u" using assms(2) approval_steps_ok unfolding approval_steps_def by blast
  with step have "evolves (t_approvals u) (t_approvals v)" using approval_step_evolves by blast
  then show ?case using step.IH assms(4) by (rule evolves_decided)
qed (rule assms(3))

lemma same_core_trans: "same_core a b \<Longrightarrow> same_core b c \<Longrightarrow> same_core a c"
  by (simp add: same_core_def)

lemma approval_steps_core:
  assumes "approval_steps e sv s t" and "approvals_ok e s" and "a \<in> set (t_approvals s)"
  shows "\<exists>b \<in> set (t_approvals t). same_core a b"
  using assms(1) unfolding approval_steps_def
proof (induction rule: rtranclp_induct)
  case base
  show ?case using assms(3) by (auto simp: same_core_def)
next
  case (step u v)
  then have "approvals_ok e u" using assms(2) approval_steps_ok unfolding approval_steps_def by blast
  with step have "evolves (t_approvals u) (t_approvals v)" using approval_step_evolves by blast
  with step.IH show ?case by (meson evolves_core same_core_trans)
qed

section \<open>The abstract machine\<close>

type_synonym status_map = "uuid \<rightharpoonup> approval_status"

definition abs_approvals :: "db \<Rightarrow> status_map" where
  "abs_approvals s i = map_option ap_status (by_id i (t_approvals s))"

definition abs_decide :: "uuid \<Rightarrow> approval_status \<Rightarrow> status_map \<Rightarrow> status_map option" where
  "abs_decide i st M = (if M i = Some AS_PENDING then Some (M(i \<mapsto> st)) else None)"

lemma abs_decide_rows:
  assumes "table_ok approval_clash (t_approvals s)" and "a \<in> set (t_approvals s)"
    and "ap_status a = AS_PENDING" and "t_approvals t = decide_rows s a st user"
  shows "abs_decide (row_id a) st (abs_approvals s) = Some (abs_approvals t)"
proof -
  have a: "by_id (row_id a) (t_approvals s) = Some a" using assms(1,2) by (rule by_id_unique)
  have "abs_approvals t j = ((abs_approvals s)(row_id a \<mapsto> st)) j" for j
    unfolding abs_approvals_def assms(4) decide_rows_def
    by (subst by_id_change) (auto simp: a mutate_def decided_def)
  then show ?thesis using a assms(3) by (auto simp: abs_decide_def abs_approvals_def)
qed

end
