(* ===== verification/Idempotency.thy ===== *)
theory Idempotency
  imports Store
begin

text \<open>
  Idempotent requests.  \<open>idempotent_gate\<close> is the interface that the approval routes and the
  inventory confirmation share: open the gate for a request hash, run the body once, store its
  response; its lemmas say that a repeated request gets the stored response and changes nothing,
  and that the key cannot be reused for another request.  Both gates of the code are
  interpretations.  \<open>idempotency_store\<close> is the protocol of \<open>app/domain/contracts.py\<close>, with its two
  implementations.
\<close>

section \<open>The key table\<close>

definition idem_clash :: "idempotency_row \<Rightarrow> idempotency_row \<Rightarrow> bool" where
  "idem_clash x y \<longleftrightarrow> ik_scope x = ik_scope y \<and> ik_key x = ik_key y"

definition idem_find :: "string \<Rightarrow> string \<Rightarrow> db \<Rightarrow> idempotency_row option" where
  "idem_find scope key s = find (\<lambda>r. ik_scope r = scope \<and> ik_key r = key) (t_idempotency_keys s)"

definition idem_row :: "uuid \<Rightarrow> int \<Rightarrow> string \<Rightarrow> string \<Rightarrow> string \<Rightarrow> idempotency_row" where
  "idem_row i now scope key h =
     \<lparr>row_id = i, created_at = now, updated_at = now, ik_scope = scope, ik_key = key,
      ik_request_hash = h, ik_status = ''PROCESSING'', ik_response = None, ik_expires_at = None\<rparr>"

definition add_idem :: "env \<Rightarrow> string \<Rightarrow> string \<Rightarrow> string \<Rightarrow> uuid m" where
  "add_idem e scope key h =
     bnd (new_uuid e) (\<lambda>i. bnd (gets clock) (\<lambda>now.
       andthen (add_row t_idempotency_keys t_idempotency_keys_update idem_clash (idem_row i now scope key h))
         (ret i)))"

definition completed :: "dict \<Rightarrow> idempotency_row \<Rightarrow> idempotency_row" where
  "completed d r = r\<lparr>ik_status := ''COMPLETED'', ik_response := Some d\<rparr>"

definition idem_complete :: "uuid \<Rightarrow> dict \<Rightarrow> unit m" where
  "idem_complete i d = change_row t_idempotency_keys t_idempotency_keys_update i (completed d)"

section \<open>The gate of a route\<close>

definition gate_open ::
  "env \<Rightarrow> string \<Rightarrow> string \<Rightarrow> string \<Rightarrow> string \<Rightarrow> string \<Rightarrow> (uuid \<times> dict option) m" where
  "gate_open e reused busy scope key h =
     bnd (gets (idem_find scope key)) (\<lambda>found. case found of
       Some r \<Rightarrow>
         (if ik_request_hash r \<noteq> h then raise (Exc ConflictError reused)
          else if ik_status r = ''COMPLETED'' \<and> ik_response r \<noteq> None then ret (row_id r, ik_response r)
          else raise (Exc ConflictError busy))
     | None \<Rightarrow> bnd (add_idem e scope key h) (\<lambda>i. ret (i, None)))"

lemma add_idem_Inr [run_simps]:
  "add_idem e scope key h s = (Inr i, t) \<longleftrightarrow>
     i = uuid_at e (draws s)
   \<and> (\<forall>x \<in> set (t_idempotency_keys s). row_id x \<noteq> i \<and> \<not> (ik_scope x = scope \<and> ik_key x = key))
   \<and> t = s\<lparr>draws := draws s + 1,
           t_idempotency_keys := t_idempotency_keys s @ [idem_row i (clock s) scope key h]\<rparr>"
  by (auto simp: add_idem_def run_simps idem_row_def idem_clash_def)

text \<open>\<open>_idempotency_begin\<close> and \<open>_idempotency_complete\<close> of the approval routes.\<close>

definition idempotency_begin :: "env \<Rightarrow> string \<Rightarrow> string \<Rightarrow> dict \<Rightarrow> (uuid \<times> dict option) m" where
  "idempotency_begin e scope key request_data =
     gate_open e ''Idempotency key was reused with a different request''
       ''The approval action is already being processed'' scope key (canonical_order_hash e request_data)"

definition idempotency_complete :: "uuid \<Rightarrow> dict \<Rightarrow> dict m" where
  "idempotency_complete i response = andthen (idem_complete i response) (ret response)"

text \<open>\<open>_begin_confirmation\<close> of the inventory service.\<close>

definition begin_confirmation ::
  "env \<Rightarrow> string \<Rightarrow> uuid \<Rightarrow> string \<Rightarrow> dict \<Rightarrow> (uuid \<times> dict option) m" where
  "begin_confirmation e scope_prefix merchant key body =
     gate_open e ''Idempotency key was reused with different receipt data''
       ''This receipt confirmation is already being processed''
       (scope_prefix @ '':'' @ str_uuid merchant) key (canonical_order_hash e body)"

text \<open>A handler behind a gate.\<close>

definition guarded ::
  "('s, exc, 'h \<times> 'r option) prog \<Rightarrow> ('h \<Rightarrow> 'r \<Rightarrow> ('s, exc, unit) prog) \<Rightarrow> ('s, exc, 'r) prog \<Rightarrow> ('s, exc, 'r) prog"
  where
  "guarded gopen gclose body =
     bnd gopen (\<lambda>(h, cached). case cached of
       Some r \<Rightarrow> ret r
     | None \<Rightarrow> bnd body (\<lambda>r. andthen (gclose h r) (ret r)))"

section \<open>The interface\<close>

locale idempotent_gate =
  fixes gopen :: "string \<Rightarrow> 's \<Rightarrow> (exc + 'h \<times> 'r option) \<times> 's"
    and gclose :: "'h \<Rightarrow> 'r \<Rightarrow> 's \<Rightarrow> (exc + unit) \<times> 's"
    and entry :: "'s \<Rightarrow> (string \<times> 'r option) option"
    and ok :: "'s \<Rightarrow> bool"
    and owner :: "'h \<Rightarrow> 's \<Rightarrow> bool"
  assumes open_cached: "ok s \<Longrightarrow> entry s = Some (h, Some r) \<Longrightarrow> \<exists>k. gopen h s = (Inr (k, Some r), s)"
    and open_reused: "ok s \<Longrightarrow> entry s = Some (h', v) \<Longrightarrow> h' \<noteq> h \<Longrightarrow>
      \<exists>x. gopen h s = (Inl x, s) \<and> isa (cls x) ConflictError"
    and open_hit: "ok s \<Longrightarrow> gopen h s = (Inr (k, Some r), t) \<Longrightarrow> t = s \<and> entry s = Some (h, Some r)"
    and open_new: "ok s \<Longrightarrow> gopen h s = (Inr (k, None), t) \<Longrightarrow>
      entry s = None \<and> entry t = Some (h, None) \<and> ok t \<and> owner k t"
    and close_stores: "ok s \<Longrightarrow> owner k s \<Longrightarrow> entry s = Some (h, v) \<Longrightarrow>
      gclose k r s = (w, t) \<Longrightarrow> w = Inr () \<and> entry t = Some (h, Some r) \<and> ok t"
begin

lemma guarded_stores:
  assumes "ok s" and "\<And>k v. keeps (\<lambda>s. ok s \<and> owner k s \<and> entry s = v) body"
    and "guarded (gopen h) gclose body s = (Inr r, t)"
  shows "ok t \<and> entry t = Some (h, Some r)"
proof -
  obtain k c u where o: "gopen h s = (Inr (k, c), u)"
    and rest: "(case c of Some r' \<Rightarrow> ret r' | None \<Rightarrow> bnd body (\<lambda>r. andthen (gclose k r) (ret r))) u = (Inr r, t)"
    using assms(3) unfolding guarded_def by (auto simp: run_simps)
  show ?thesis
  proof (cases c)
    case None
    then have n: "entry u = Some (h, None)" "ok u" "owner k u"
      using open_new [OF assms(1)] o by auto
    from rest None obtain w x where b: "body u = (Inr r, w)" and cl: "gclose k r w = (Inr x, t)"
      by (auto simp: run_simps)
    from keepsD [OF assms(2) [of k "Some (h, None)"] b] n
    have "ok w" "owner k w" "entry w = Some (h, None)" by auto
    from close_stores [OF this cl] show ?thesis by simp
  next
    case (Some r')
    with rest have "u = t" "r' = r" by (auto simp: run_simps)
    with open_hit [OF assms(1)] o Some assms(1) show ?thesis by auto
  qed
qed

lemma guarded_replay:
  assumes "ok s" and "\<And>k v. keeps (\<lambda>s. ok s \<and> owner k s \<and> entry s = v) body"
    and "guarded (gopen h) gclose body s = (Inr r, t)"
  shows "guarded (gopen h) gclose body' t = (Inr r, t)"
proof -
  from guarded_stores [OF assms] have "ok t" "entry t = Some (h, Some r)" by auto
  from open_cached [OF this] obtain k where "gopen h t = (Inr (k, Some r), t)" by blast
  then show ?thesis by (simp add: guarded_def bnd_def ret_def)
qed

lemma guarded_reuse:
  assumes "ok s" and "\<And>k v. keeps (\<lambda>s. ok s \<and> owner k s \<and> entry s = v) body"
    and "guarded (gopen h) gclose body s = (Inr r, t)" and "h' \<noteq> h"
  shows "\<exists>x. guarded (gopen h') gclose body' t = (Inl x, t) \<and> isa (cls x) ConflictError"
proof -
  from guarded_stores [OF assms(1-3)] have "ok t" "entry t = Some (h, Some r)" by auto
  from open_reused [OF this, of h'] assms(4)
  obtain x where "gopen h' t = (Inl x, t)" "isa (cls x) ConflictError" by auto
  then show ?thesis by (auto simp: guarded_def bnd_def)
qed

end

subsection \<open>The gates of the code\<close>

definition idem_ok :: "db \<Rightarrow> bool" where
  "idem_ok s \<longleftrightarrow> table_ok idem_clash (t_idempotency_keys s)"

definition idem_entry :: "string \<Rightarrow> string \<Rightarrow> db \<Rightarrow> (string \<times> dict option) option" where
  "idem_entry scope key s = map_option (\<lambda>r. (ik_request_hash r,
     if ik_status r = ''COMPLETED'' then ik_response r else None)) (idem_find scope key s)"

definition idem_owner :: "string \<Rightarrow> string \<Rightarrow> uuid \<Rightarrow> db \<Rightarrow> bool" where
  "idem_owner scope key i s \<longleftrightarrow> (\<exists>r. idem_find scope key s = Some r \<and> row_id r = i)"

lemma gate_open_hit:
  "gate_open e rm bm scope key h s = (Inr (k, Some d), t) \<Longrightarrow>
   t = s \<and> idem_entry scope key s = Some (h, Some d)"
  by (auto simp: gate_open_def idem_entry_def run_simps split: option.splits if_splits)

lemma gate_open_new:
  assumes "idem_ok s" and "gate_open e rm bm scope key h s = (Inr (k, None), t)"
  shows "idem_find scope key s = None
    \<and> t = s\<lparr>draws := draws s + 1, t_idempotency_keys := t_idempotency_keys s @ [idem_row k (clock s) scope key h]\<rparr>
    \<and> idem_ok t \<and> idem_owner scope key k t \<and> idem_entry scope key t = Some (h, None)"
proof -
  have f: "idem_find scope key s = None"
    and free: "\<forall>x \<in> set (t_idempotency_keys s). row_id x \<noteq> k \<and> \<not> idem_clash x (idem_row k (clock s) scope key h)"
    and t: "t = s\<lparr>draws := draws s + 1,
        t_idempotency_keys := t_idempotency_keys s @ [idem_row k (clock s) scope key h]\<rparr>"
    using assms(2)
    by (auto simp: gate_open_def add_idem_def run_simps idem_row_def split: option.splits if_splits)
  have ft: "idem_find scope key t = Some (idem_row k (clock s) scope key h)"
    using f by (simp add: t idem_find_def find_append idem_row_def)
  have "row_id (idem_row k (clock s) scope key h) = k" by (simp add: idem_row_def)
  then have "idem_ok t"
    using assms(1) free unfolding idem_ok_def t by (simp add: table_ok_add)
  with f t ft show ?thesis by (simp add: idem_owner_def idem_entry_def idem_row_def)
qed

lemma gate_open_cached:
  "idem_entry scope key s = Some (h, Some d) \<Longrightarrow> \<exists>k. gate_open e rm bm scope key h s = (Inr (k, Some d), s)"
  by (auto simp: idem_entry_def gate_open_def bnd_def gets_def ret_def split: if_splits)

lemma gate_open_reused:
  "idem_entry scope key s = Some (h', v) \<Longrightarrow> h' \<noteq> h \<Longrightarrow>
   gate_open e rm bm scope key h s = (Inl (Exc ConflictError rm), s)"
  by (auto simp: idem_entry_def gate_open_def bnd_def gets_def raise_def)

lemma idem_find_change:
  "(\<And>r. ik_scope (f r) = ik_scope r \<and> ik_key (f r) = ik_key r) \<Longrightarrow>
   find (\<lambda>r. ik_scope r = scope \<and> ik_key r = key) (upd P f rows)
     = map_option (\<lambda>r. if P r then f r else r) (find (\<lambda>r. ik_scope r = scope \<and> ik_key r = key) rows)"
  by (induction rows) auto

lemma idem_complete_stores:
  assumes "idem_ok s" and "idem_owner scope key k s" and "idem_entry scope key s = Some (h, v)"
    and "idem_complete k d s = (w, t)"
  shows "w = Inr () \<and> idem_entry scope key t = Some (h, Some d) \<and> idem_ok t"
proof -
  let ?f = "mutate (clock s) (completed d)"
  have f: "ik_scope (?f r) = ik_scope r" "ik_key (?f r) = ik_key r" "row_id (?f r) = row_id r"
    "ik_request_hash (?f r) = ik_request_hash r" "ik_status (?f r) = ''COMPLETED''" "ik_response (?f r) = Some d" for r
    by (simp_all add: mutate_def completed_def)
  obtain r where r: "idem_find scope key s = Some r" "row_id r = k" "ik_request_hash r = h"
    using assms(2,3) by (auto simp: idem_owner_def idem_entry_def)
  have t: "t_idempotency_keys t = upd (\<lambda>r. row_id r = k) ?f (t_idempotency_keys s)" and w: "w = Inr ()"
    using assms(4) by (auto simp: idem_complete_def run_simps)
  have "idem_ok t"
    using assms(1) unfolding idem_ok_def t by (rule table_ok_upd) (simp_all add: f completed_def idem_clash_def)
  moreover have "idem_find scope key t = Some (?f r)"
    unfolding idem_find_def t using r f by (subst idem_find_change) (simp_all add: idem_find_def)
  ultimately show ?thesis using w r by (simp add: idem_entry_def f)
qed

interpretation approval_gate: idempotent_gate
  "\<lambda>h. gate_open e ''Idempotency key was reused with a different request''
       ''The approval action is already being processed'' scope key h"
  idem_complete "idem_entry scope key" idem_ok "idem_owner scope key"
  for e scope key
proof unfold_locales
  fix s h k d t
  assume "idem_ok s" "gate_open e ''Idempotency key was reused with a different request''
       ''The approval action is already being processed'' scope key h s = (Inr (k, None), t)"
  then show "idem_entry scope key s = None \<and> idem_entry scope key t = Some (h, None) \<and> idem_ok t
      \<and> idem_owner scope key k t"
    using gate_open_new by (simp add: idem_entry_def)
qed (auto simp: isa_refl dest: gate_open_cached gate_open_reused gate_open_hit idem_complete_stores)

interpretation receipt_gate: idempotent_gate
  "\<lambda>h. gate_open e ''Idempotency key was reused with different receipt data''
       ''This receipt confirmation is already being processed'' scope key h"
  idem_complete "idem_entry scope key" idem_ok "idem_owner scope key"
  for e scope key
proof unfold_locales
  fix s h k d t
  assume "idem_ok s" "gate_open e ''Idempotency key was reused with different receipt data''
       ''This receipt confirmation is already being processed'' scope key h s = (Inr (k, None), t)"
  then show "idem_entry scope key s = None \<and> idem_entry scope key t = Some (h, None) \<and> idem_ok t
      \<and> idem_owner scope key k t"
    using gate_open_new by (simp add: idem_entry_def)
qed (auto simp: isa_refl dest: gate_open_cached gate_open_reused gate_open_hit idem_complete_stores)

section \<open>The two stores\<close>

definition sql_reserve :: "env \<Rightarrow> string \<Rightarrow> string \<Rightarrow> string \<Rightarrow> bool m" where
  "sql_reserve e scope key h =
     bnd (gets (idem_find scope key)) (\<lambda>found. case found of
       Some _ \<Rightarrow> ret False
     | None \<Rightarrow> andthen (add_idem e scope key h) (ret True))"

definition sql_complete :: "string \<Rightarrow> string \<Rightarrow> dict \<Rightarrow> unit m" where
  "sql_complete scope key d =
     bnd (gets (idem_find scope key)) (\<lambda>found.
     bnd (require found (Exc ConflictError ''Idempotency reservation does not exist'')) (\<lambda>r.
       idem_complete (row_id r) d))"

type_synonym memory_store = "(string \<times> string) \<rightharpoonup> (string \<times> dict option)"

definition mem_reserve :: "string \<Rightarrow> string \<Rightarrow> string \<Rightarrow> (memory_store, exc, bool) prog" where
  "mem_reserve scope key h s =
     (case s (scope, key) of
        Some (h', _) \<Rightarrow>
          (if h' \<noteq> h then (Inl (Exc ConflictError ''Idempotency key was reused with a different request''), s)
           else (Inr False, s))
      | None \<Rightarrow> (Inr True, s((scope, key) \<mapsto> (h, None))))"

definition mem_complete :: "string \<Rightarrow> string \<Rightarrow> dict \<Rightarrow> (memory_store, exc, unit) prog" where
  "mem_complete scope key d s =
     (case s (scope, key) of
        Some (h, _) \<Rightarrow> (Inr (), s((scope, key) \<mapsto> (h, Some d)))
      | None \<Rightarrow> (Inl (Exc PyKeyError key), s))"

locale idempotency_store =
  fixes reserve :: "string \<Rightarrow> string \<Rightarrow> string \<Rightarrow> 's \<Rightarrow> (exc + bool) \<times> 's"
    and complete :: "string \<Rightarrow> string \<Rightarrow> dict \<Rightarrow> 's \<Rightarrow> (exc + unit) \<times> 's"
    and held :: "string \<Rightarrow> string \<Rightarrow> 's \<Rightarrow> bool"
    and ok :: "'s \<Rightarrow> bool"
  assumes reserve_won: "ok s \<Longrightarrow> reserve scope key h s = (Inr True, t) \<Longrightarrow> \<not> held scope key s \<and> held scope key t"
    and reserve_keeps: "ok s \<Longrightarrow> reserve scope key h s = (r, t) \<Longrightarrow> ok t \<and> (held sc k s \<longrightarrow> held sc k t)"
    and complete_keeps: "ok s \<Longrightarrow> complete scope key d s = (w, t) \<Longrightarrow> ok t \<and> held sc k t = held sc k s"
    and complete_needs: "ok s \<Longrightarrow> complete scope key d s = (Inr (), t) \<Longrightarrow> held scope key s"

text \<open>A call reserves a key or completes it; winning a reservation uses the key up, so over any calls in any
  order a key is won at most once (\<open>used_at_most_once\<close>).\<close>

type_synonym store_call = "string \<times> string \<times> (string + dict)"

definition store_step ::
  "(string \<Rightarrow> string \<Rightarrow> string \<Rightarrow> 's \<Rightarrow> (exc + bool) \<times> 's) \<Rightarrow>
   (string \<Rightarrow> string \<Rightarrow> dict \<Rightarrow> 's \<Rightarrow> (exc + unit) \<times> 's) \<Rightarrow> store_call \<Rightarrow> 's \<Rightarrow> (exc + bool) \<times> 's" where
  "store_step rsv cmpl c s = (case c of (scope, key, what) \<Rightarrow>
     (case what of Inl h \<Rightarrow> rsv scope key h s
      | Inr d \<Rightarrow> apfst (map_sum id (\<lambda>_. False)) (cmpl scope key d s)))"

definition wins_key :: "store_call \<Rightarrow> bool \<Rightarrow> (string \<times> string) option" where
  "wins_key c won = (if won then Some (fst c, fst (snd c)) else None)"

sublocale idempotency_store \<subseteq> single_use "store_step reserve complete" wins_key "\<lambda>(scope, key). held scope key" ok
proof
  fix s c won t k
  assume s: "ok s" "store_step reserve complete c s = (Inr won, t)" and k: "wins_key c won = Some k"
  have m: "map_sum id (\<lambda>_. False) w \<noteq> Inr True" for w :: "exc + unit" by (cases w) auto
  from s k obtain h where c: "c = (fst k, snd k, Inl h)" "won = True"
    by (cases c) (auto simp: m wins_key_def store_step_def apfst_def map_prod_def split: sum.splits if_splits prod.splits)
  with s have "reserve (fst k) (snd k) h s = (Inr True, t)" by (simp add: store_step_def)
  from reserve_won [OF s(1) this]
  show "\<not> (case k of (scope, key) \<Rightarrow> held scope key) s \<and> (case k of (scope, key) \<Rightarrow> held scope key) t"
    by (simp add: case_prod_beta)
next
  fix s c v t k
  assume s: "ok s" "store_step reserve complete c s = (v, t)"
  obtain scope key what where c: "c = (scope, key, what)" by (cases c)
  show "ok t \<and> ((case k of (scope, key) \<Rightarrow> held scope key) s \<longrightarrow> (case k of (scope, key) \<Rightarrow> held scope key) t)"
  proof (cases what)
    case (Inl h)
    with s c have "reserve scope key h s = (v, t)" by (simp add: store_step_def)
    from reserve_keeps [OF s(1) this] show ?thesis by (auto simp: case_prod_beta)
  next
    case (Inr d)
    with s c obtain w where "complete scope key d s = (w, t)"
      by (cases "complete scope key d s") (auto simp: store_step_def)
    from complete_keeps [OF s(1) this] show ?thesis by (auto simp: case_prod_beta)
  qed
qed

lemma idem_find_add:
  "idem_find scope key (s\<lparr>draws := n, t_idempotency_keys := t_idempotency_keys s @ [r]\<rparr>) =
     (case idem_find scope key s of None \<Rightarrow> if ik_scope r = scope \<and> ik_key r = key then Some r else None
      | Some x \<Rightarrow> Some x)"
  by (simp add: idem_find_def find_append split: option.splits)

interpretation sql_store: idempotency_store "sql_reserve e" sql_complete
  "\<lambda>scope key s. idem_find scope key s \<noteq> None" idem_ok
  for e
proof unfold_locales
  fix s scope key h t
  assume "idem_ok s" "sql_reserve e scope key h s = (Inr True, t)"
  then show "\<not> idem_find scope key s \<noteq> None \<and> idem_find scope key t \<noteq> None"
    by (auto simp: sql_reserve_def add_idem_def run_simps idem_find_add idem_row_def split: option.splits)
next
  fix s scope key h r t sc k
  assume ok: "idem_ok s" and run: "sql_reserve e scope key h s = (r, t)"
  show "idem_ok t \<and> (idem_find sc k s \<noteq> None \<longrightarrow> idem_find sc k t \<noteq> None)"
  proof (cases "idem_find scope key s")
    case (Some y)
    with run ok show ?thesis by (auto simp: sql_reserve_def bnd_def gets_def ret_def)
  next
    case None
    define row where "row = idem_row (uuid_at e (draws s)) (clock s) scope key h"
    show ?thesis
    proof (cases r)
      case (Inl x)
      with run None have "t = s\<lparr>draws := draws s + 1\<rparr>"
        by (auto simp: sql_reserve_def add_idem_def run_simps)
      with ok show ?thesis by (simp add: idem_ok_def idem_find_def)
    next
      case (Inr b)
      with run None have t: "t = s\<lparr>draws := draws s + 1, t_idempotency_keys := t_idempotency_keys s @ [row]\<rparr>"
        and "\<forall>x \<in> set (t_idempotency_keys s). row_id x \<noteq> row_id row \<and> \<not> idem_clash x row"
        by (auto simp: sql_reserve_def add_idem_def run_simps row_def)
      then have "idem_ok t" using ok by (simp add: idem_ok_def table_ok_add)
      then show ?thesis unfolding t by (auto simp: idem_find_add split: option.splits)
    qed
  qed
next
  fix s scope key d w t sc k
  assume ok: "idem_ok s" and run: "sql_complete scope key d s = (w, t)"
  show "idem_ok t \<and> (idem_find sc k t \<noteq> None) = (idem_find sc k s \<noteq> None)"
  proof (cases "idem_find scope key s")
    case None
    with run ok show ?thesis by (auto simp: sql_complete_def bnd_def gets_def require_def raise_def)
  next
    case (Some r)
    let ?f = "mutate (clock s) (completed d)"
    from run Some have t: "t_idempotency_keys t = upd (\<lambda>x. row_id x = row_id r) ?f (t_idempotency_keys s)"
      by (auto simp: sql_complete_def bnd_def gets_def require_def ret_def idem_complete_def change_row_def)
    have f: "ik_scope (?f r) = ik_scope r" "ik_key (?f r) = ik_key r" "row_id (?f r) = row_id r" for r
      by (simp_all add: mutate_def completed_def)
    have "idem_ok t" using ok unfolding idem_ok_def t by (rule table_ok_upd) (simp_all add: f completed_def idem_clash_def)
    then show ?thesis unfolding idem_find_def t by (subst idem_find_change) (simp_all add: f)
  qed
next
  fix s scope key d t
  assume "idem_ok s" "sql_complete scope key d s = (Inr (), t)"
  then show "idem_find scope key s \<noteq> None" by (auto simp: sql_complete_def run_simps)
qed

interpretation mem_store: idempotency_store mem_reserve mem_complete
  "\<lambda>scope key s. s (scope, key) \<noteq> None" "\<lambda>_. True"
  by unfold_locales (auto simp: mem_reserve_def mem_complete_def split: option.splits prod.splits if_splits)

text \<open>The two implementations of the protocol differ on a reused key: the memory store raises
  \<open>ConflictError\<close> for another request hash, the SQL store answers \<open>False\<close> whatever the hash.\<close>

lemma mem_reserve_conflict:
  "s (scope, key) = Some (h', v) \<Longrightarrow> h' \<noteq> h \<Longrightarrow>
   fst (mem_reserve scope key h s) = Inl (Exc ConflictError ''Idempotency key was reused with a different request'')"
  by (simp add: mem_reserve_def)

lemma sql_reserve_no_conflict:
  "idem_find scope key s = Some r \<Longrightarrow> sql_reserve e scope key h s = (Inr False, s)"
  by (simp add: sql_reserve_def bnd_def gets_def ret_def)

end
