(* ===== verification/A2A.thy ===== *)
theory A2A
  imports Store
begin

text \<open>
  The agent-to-agent protocol (\<open>app/a2a\<close> and the route that receives messages): typed payloads,
  the signed envelope, the agent registry, the receiving service over any message repository, and
  the SQL repository.  \<open>message_repository\<close> is the interface of the service; under its laws a message
  is accepted at most once.
\<close>

section \<open>Payloads\<close>

datatype a2a_intent = INVENTORY_SHORTAGE_ALERT | PURCHASE_REQUEST | QUOTE | COUNTER_OFFER
  | OFFER_ACCEPTED | OFFER_REJECTED | DELIVERY_CONFIRMATION | ORDER_CONFIRMATION | CANCELLATION

definition intent_str :: "a2a_intent \<Rightarrow> string" where
  "intent_str i = (case i of INVENTORY_SHORTAGE_ALERT \<Rightarrow> ''INVENTORY_SHORTAGE_ALERT''
     | PURCHASE_REQUEST \<Rightarrow> ''PURCHASE_REQUEST'' | QUOTE \<Rightarrow> ''QUOTE'' | COUNTER_OFFER \<Rightarrow> ''COUNTER_OFFER''
     | OFFER_ACCEPTED \<Rightarrow> ''OFFER_ACCEPTED'' | OFFER_REJECTED \<Rightarrow> ''OFFER_REJECTED''
     | DELIVERY_CONFIRMATION \<Rightarrow> ''DELIVERY_CONFIRMATION'' | ORDER_CONFIRMATION \<Rightarrow> ''ORDER_CONFIRMATION''
     | CANCELLATION \<Rightarrow> ''CANCELLATION'')"

record shortage_payload =
  shp_merchant_id :: uuid
  shp_store_id :: uuid
  shp_sku :: string
  shp_available_quantity :: dec
  shp_required_quantity :: dec
  shp_unit :: string

record request_payload =
  rqp_merchant_id :: uuid
  rqp_store_id :: uuid
  rqp_sku :: string
  rqp_quantity :: dec
  rqp_unit :: string
  rqp_target_price :: dec
  rqp_max_price :: dec
  rqp_delivery_deadline :: int

record quote_payload =
  qtp_quote_id :: string
  qtp_sku :: string
  qtp_available_quantity :: dec
  qtp_unit_price :: dec
  qtp_currency :: string
  qtp_delivery_at :: int
  qtp_expires_at :: int

record counter_payload =
  cop_quote_id :: string
  cop_quantity :: dec
  cop_unit_price :: dec
  cop_round :: int

record decision_payload =
  dcp_intent :: a2a_intent
  dcp_quote_id :: string
  dcp_reason :: "string option"
  dcp_proposal :: "purchase_proposal option"

record delivery_payload =
  dlp_order_id :: uuid
  dlp_delivered_at :: int
  dlp_quantity :: dec

record confirmation_payload =
  ocp_order_id :: uuid
  ocp_supplier_reference :: string
  ocp_expected_delivery_at :: int

record cancellation_payload =
  cnp_order_id :: "uuid option"
  cnp_quote_id :: "string option"
  cnp_reason :: string

datatype a2a_payload =
    ShortageP shortage_payload
  | RequestP request_payload
  | QuoteP quote_payload
  | CounterP counter_payload
  | DecisionP decision_payload
  | DeliveryP delivery_payload
  | ConfirmationP confirmation_payload
  | CancellationP cancellation_payload

subsection \<open>Field validation\<close>

definition as_str :: "json \<Rightarrow> string option" where
  "as_str v = (case v of JStr s \<Rightarrow> Some s | _ \<Rightarrow> None)"

definition as_uuid :: "json \<Rightarrow> uuid option" where
  "as_uuid v = (case v of JStr s \<Rightarrow> parse_uuid s | _ \<Rightarrow> None)"

definition as_dec :: "json \<Rightarrow> dec option" where
  "as_dec v = (case v of JStr s \<Rightarrow> parse_dec s | JInt i \<Rightarrow> Some (Dec i 0) | JNum d \<Rightarrow> Some d | _ \<Rightarrow> None)"

definition as_int :: "json \<Rightarrow> int option" where
  "as_int v = (case v of JInt i \<Rightarrow> Some i | _ \<Rightarrow> None)"

definition as_time :: "json \<Rightarrow> int option" where
  "as_time v = (case v of JStr s \<Rightarrow> parse_iso s | _ \<Rightarrow> None)"

text \<open>A required field that converts and satisfies its bound; an optional one may be absent or null.\<close>

definition field :: "dict \<Rightarrow> string \<Rightarrow> (json \<Rightarrow> 'a option) \<Rightarrow> ('a \<Rightarrow> bool) \<Rightarrow> exc + 'a" where
  "field d k conv bound = (case map_of d k of
     None \<Rightarrow> Inl (validation_error k)
   | Some v \<Rightarrow> (case conv v of None \<Rightarrow> Inl (validation_error k)
                | Some a \<Rightarrow> if bound a then Inr a else Inl (validation_error k)))"

definition opt_field :: "dict \<Rightarrow> string \<Rightarrow> (json \<Rightarrow> 'a option) \<Rightarrow> exc + 'a option" where
  "opt_field d k conv = (case map_of d k of
     None \<Rightarrow> Inr None
   | Some JNull \<Rightarrow> Inr None
   | Some v \<Rightarrow> (case conv v of None \<Rightarrow> Inl (validation_error k) | Some a \<Rightarrow> Inr (Some a)))"

definition any :: "'a \<Rightarrow> bool" where "any a = True"

definition only_keys :: "dict \<Rightarrow> string list \<Rightarrow> exc + unit" where
  "only_keys d ks = (if list_all (\<lambda>kv. fst kv \<in> set ks) d then Inr ()
                     else Inl (validation_error ''extra fields not permitted''))"

definition parse_shortage :: "dict \<Rightarrow> exc + a2a_payload" where
  "parse_shortage d =
     bindE (only_keys d [''merchant_id'', ''store_id'', ''sku'', ''available_quantity'', ''required_quantity'', ''unit'']) (\<lambda>_.
     bindE (field d ''merchant_id'' as_uuid any) (\<lambda>m. bindE (field d ''store_id'' as_uuid any) (\<lambda>st.
     bindE (field d ''sku'' as_str any) (\<lambda>sku. bindE (field d ''available_quantity'' as_dec nonneg) (\<lambda>a.
     bindE (field d ''required_quantity'' as_dec positive) (\<lambda>r. bindE (field d ''unit'' as_str any) (\<lambda>u.
       Inr (ShortageP \<lparr>shp_merchant_id = m, shp_store_id = st, shp_sku = sku, shp_available_quantity = a,
                       shp_required_quantity = r, shp_unit = u\<rparr>))))))))"

definition parse_request :: "dict \<Rightarrow> exc + a2a_payload" where
  "parse_request d =
     bindE (only_keys d [''merchant_id'', ''store_id'', ''sku'', ''quantity'', ''unit'', ''target_price'',
                         ''max_price'', ''delivery_deadline'']) (\<lambda>_.
     bindE (field d ''merchant_id'' as_uuid any) (\<lambda>m. bindE (field d ''store_id'' as_uuid any) (\<lambda>st.
     bindE (field d ''sku'' as_str any) (\<lambda>sku. bindE (field d ''quantity'' as_dec positive) (\<lambda>q.
     bindE (field d ''unit'' as_str any) (\<lambda>u. bindE (field d ''target_price'' as_dec positive) (\<lambda>tp.
     bindE (field d ''max_price'' as_dec positive) (\<lambda>mp. bindE (field d ''delivery_deadline'' as_time any) (\<lambda>dl.
       if dlt mp tp then Inl (validation_error ''target_price cannot exceed max_price'')
       else Inr (RequestP \<lparr>rqp_merchant_id = m, rqp_store_id = st, rqp_sku = sku, rqp_quantity = q, rqp_unit = u,
                    rqp_target_price = tp, rqp_max_price = mp, rqp_delivery_deadline = dl\<rparr>))))))))))"

definition parse_quote :: "dict \<Rightarrow> exc + a2a_payload" where
  "parse_quote d =
     bindE (only_keys d [''quote_id'', ''sku'', ''available_quantity'', ''unit_price'', ''currency'', ''delivery_at'',
                         ''expires_at'']) (\<lambda>_.
     bindE (field d ''quote_id'' as_str any) (\<lambda>i. bindE (field d ''sku'' as_str any) (\<lambda>sku.
     bindE (field d ''available_quantity'' as_dec nonneg) (\<lambda>a. bindE (field d ''unit_price'' as_dec positive) (\<lambda>p.
     bindE (if map_of d ''currency'' = None then Inr ''INR'' else field d ''currency'' as_str any) (\<lambda>c.
     bindE (field d ''delivery_at'' as_time any) (\<lambda>da. bindE (field d ''expires_at'' as_time any) (\<lambda>ex.
       Inr (QuoteP \<lparr>qtp_quote_id = i, qtp_sku = sku, qtp_available_quantity = a, qtp_unit_price = p,
                    qtp_currency = c, qtp_delivery_at = da, qtp_expires_at = ex\<rparr>)))))))))"

definition parse_counter :: "dict \<Rightarrow> exc + a2a_payload" where
  "parse_counter d =
     bindE (only_keys d [''quote_id'', ''quantity'', ''unit_price'', ''round'']) (\<lambda>_.
     bindE (field d ''quote_id'' as_str any) (\<lambda>i. bindE (field d ''quantity'' as_dec positive) (\<lambda>q.
     bindE (field d ''unit_price'' as_dec positive) (\<lambda>p.
     bindE (field d ''round'' as_int (\<lambda>r. 1 \<le> r \<and> r \<le> 10)) (\<lambda>r.
       Inr (CounterP \<lparr>cop_quote_id = i, cop_quantity = q, cop_unit_price = p, cop_round = r\<rparr>))))))"

definition parse_accepted_proposal :: "dict \<Rightarrow> exc + purchase_proposal" where
  "parse_accepted_proposal d =
     bindE (only_keys d [''proposal_id'', ''merchant_id'', ''store_id'', ''supplier_id'', ''sku'', ''quantity'',
        ''unit'', ''unit_price'', ''currency'', ''delivery_at'', ''quote_id'']) (\<lambda>_.
     bindE (field d ''proposal_id'' as_uuid any) (\<lambda>pid. bindE (field d ''merchant_id'' as_uuid any) (\<lambda>mid.
     bindE (field d ''store_id'' as_uuid any) (\<lambda>sid. bindE (field d ''supplier_id'' as_uuid any) (\<lambda>spl.
     bindE (field d ''sku'' as_str any) (\<lambda>sku. bindE (field d ''quantity'' as_dec positive) (\<lambda>q.
     bindE (field d ''unit'' as_str any) (\<lambda>un. bindE (field d ''unit_price'' as_dec positive) (\<lambda>pr.
     bindE (field d ''currency'' as_str any) (\<lambda>cur. bindE (field d ''delivery_at'' as_time any) (\<lambda>del.
     bindE (field d ''quote_id'' as_str any) (\<lambda>quo.
       Inr \<lparr>pp_proposal_id = pid, pp_merchant_id = mid, pp_store_id = sid, pp_supplier_id = spl, pp_sku = sku,
            pp_quantity = q, pp_unit = un, pp_unit_price = pr, pp_currency = cur, pp_delivery_at = del,
            pp_quote_id = quo\<rparr>))))))))))))"

definition parse_decision :: "a2a_intent \<Rightarrow> dict \<Rightarrow> exc + a2a_payload" where
  "parse_decision i d =
     bindE (only_keys d [''quote_id'', ''reason'', ''proposal'']) (\<lambda>_.
     bindE (field d ''quote_id'' as_str any) (\<lambda>q. bindE (opt_field d ''reason'' as_str) (\<lambda>r.
     bindE (case map_of d ''proposal'' of
              Some (JObj p) \<Rightarrow> bindE (parse_accepted_proposal p) (\<lambda>pp. Inr (Some pp))
            | Some JNull \<Rightarrow> Inr None | None \<Rightarrow> Inr None | _ \<Rightarrow> Inl (validation_error ''proposal'')) (\<lambda>p.
       if i = OFFER_ACCEPTED \<and> p = None
       then Inl (validation_error ''An accepted offer requires the canonical proposal'')
       else Inr (DecisionP \<lparr>dcp_intent = i, dcp_quote_id = q, dcp_reason = r, dcp_proposal = p\<rparr>)))))"

definition parse_delivery :: "dict \<Rightarrow> exc + a2a_payload" where
  "parse_delivery d =
     bindE (only_keys d [''order_id'', ''delivered_at'', ''quantity'']) (\<lambda>_.
     bindE (field d ''order_id'' as_uuid any) (\<lambda>i. bindE (field d ''delivered_at'' as_time any) (\<lambda>t.
     bindE (field d ''quantity'' as_dec positive) (\<lambda>q.
       Inr (DeliveryP \<lparr>dlp_order_id = i, dlp_delivered_at = t, dlp_quantity = q\<rparr>)))))"

definition parse_confirmation :: "dict \<Rightarrow> exc + a2a_payload" where
  "parse_confirmation d =
     bindE (only_keys d [''order_id'', ''supplier_reference'', ''expected_delivery_at'']) (\<lambda>_.
     bindE (field d ''order_id'' as_uuid any) (\<lambda>i. bindE (field d ''supplier_reference'' as_str any) (\<lambda>r.
     bindE (field d ''expected_delivery_at'' as_time any) (\<lambda>t.
       Inr (ConfirmationP \<lparr>ocp_order_id = i, ocp_supplier_reference = r, ocp_expected_delivery_at = t\<rparr>)))))"

definition parse_cancellation :: "dict \<Rightarrow> exc + a2a_payload" where
  "parse_cancellation d =
     bindE (only_keys d [''order_id'', ''quote_id'', ''reason'']) (\<lambda>_.
     bindE (opt_field d ''order_id'' as_uuid) (\<lambda>i. bindE (opt_field d ''quote_id'' as_str) (\<lambda>q.
     bindE (field d ''reason'' as_str any) (\<lambda>r.
       if i = None \<and> \<not> truthy q then Inl (validation_error ''order_id or quote_id is required'')
       else Inr (CancellationP \<lparr>cnp_order_id = i, cnp_quote_id = q, cnp_reason = r\<rparr>)))))"

definition typed_payload :: "a2a_intent \<Rightarrow> dict \<Rightarrow> exc + a2a_payload" where
  "typed_payload i d = (case i of
     INVENTORY_SHORTAGE_ALERT \<Rightarrow> parse_shortage d
   | PURCHASE_REQUEST \<Rightarrow> parse_request d
   | QUOTE \<Rightarrow> parse_quote d
   | COUNTER_OFFER \<Rightarrow> parse_counter d
   | OFFER_ACCEPTED \<Rightarrow> parse_decision OFFER_ACCEPTED d
   | OFFER_REJECTED \<Rightarrow> parse_decision OFFER_REJECTED d
   | DELIVERY_CONFIRMATION \<Rightarrow> parse_delivery d
   | ORDER_CONFIRMATION \<Rightarrow> parse_confirmation d
   | CANCELLATION \<Rightarrow> parse_cancellation d)"

definition payload_intent :: "a2a_payload \<Rightarrow> a2a_intent" where
  "payload_intent p = (case p of ShortageP _ \<Rightarrow> INVENTORY_SHORTAGE_ALERT | RequestP _ \<Rightarrow> PURCHASE_REQUEST
     | QuoteP _ \<Rightarrow> QUOTE | CounterP _ \<Rightarrow> COUNTER_OFFER | DecisionP x \<Rightarrow> dcp_intent x
     | DeliveryP _ \<Rightarrow> DELIVERY_CONFIRMATION | ConfirmationP _ \<Rightarrow> ORDER_CONFIRMATION
     | CancellationP _ \<Rightarrow> CANCELLATION)"

text \<open>\<open>getattr(payload, "merchant_id", None)\<close>\<close>

definition payload_merchant :: "a2a_payload \<Rightarrow> uuid option" where
  "payload_merchant p = (case p of ShortageP x \<Rightarrow> Some (shp_merchant_id x)
     | RequestP x \<Rightarrow> Some (rqp_merchant_id x) | _ \<Rightarrow> None)"

lemma typed_payload_intent: "typed_payload i d = Inr p \<Longrightarrow> payload_intent p = i"
  by (cases i) (auto simp: typed_payload_def parse_shortage_def parse_request_def parse_quote_def
      parse_counter_def parse_decision_def parse_delivery_def parse_confirmation_def parse_cancellation_def
      payload_intent_def run_simps split: if_splits)

section \<open>The envelope and its signature\<close>

record a2a_envelope =
  env_message_id :: uuid
  env_correlation_id :: uuid
  env_trace_id :: string
  env_sender_agent_id :: uuid
  env_receiver_agent_id :: uuid
  env_intent :: a2a_intent
  env_timestamp :: int
  env_expires_at :: int
  env_nonce :: string
  env_payload :: dict
  env_signature :: string
  env_idempotency_key :: string

definition check_envelope :: "a2a_envelope \<Rightarrow> exc + a2a_envelope" where
  "check_envelope v =
     (if \<not> (16 \<le> length (env_nonce v) \<and> length (env_nonce v) \<le> 128
            \<and> 64 \<le> length (env_signature v) \<and> length (env_signature v) \<le> 128
            \<and> 8 \<le> length (env_idempotency_key v) \<and> length (env_idempotency_key v) \<le> 128)
      then Inl (validation_error ''A2AEnvelope'')
      else if env_expires_at v \<le> env_timestamp v
      then Inl (validation_error ''expires_at must be after timestamp'')
      else if map_of (env_payload v) ''intent'' \<noteq> None
      then Inl (validation_error ''payload must not override the envelope intent'')
      else bindE (typed_payload (env_intent v) (env_payload v)) (\<lambda>_. Inr v))"

definition signing_document :: "a2a_envelope \<Rightarrow> dict" where
  "signing_document v =
     [(''protocol_version'', JStr ''vyapaar-a2a-v1''),
      (''message_id'', JStr (str_uuid (env_message_id v))),
      (''correlation_id'', JStr (str_uuid (env_correlation_id v))),
      (''trace_id'', JStr (env_trace_id v)),
      (''sender_agent_id'', JStr (str_uuid (env_sender_agent_id v))),
      (''receiver_agent_id'', JStr (str_uuid (env_receiver_agent_id v))),
      (''intent'', JStr (intent_str (env_intent v))),
      (''timestamp'', JStr (iso_z (env_timestamp v))),
      (''expires_at'', JStr (iso_z (env_expires_at v))),
      (''nonce'', JStr (env_nonce v)),
      (''payload'', JObj (env_payload v)),
      (''idempotency_key'', JStr (env_idempotency_key v))]"

text \<open>\<open>model_dump(mode="json")\<close> also has the signature.\<close>

definition envelope_json :: "a2a_envelope \<Rightarrow> dict" where
  "envelope_json v = signing_document v @ [(''signature'', JStr (env_signature v))]"

definition sign_envelope :: "env \<Rightarrow> a2a_envelope \<Rightarrow> string \<Rightarrow> string" where
  "sign_envelope e v secret = sign_bytes e (canonical_json (JObj (signing_document v))) secret"

definition signed_envelope :: "env \<Rightarrow> a2a_envelope \<Rightarrow> string \<Rightarrow> a2a_envelope" where
  "signed_envelope e v secret = v\<lparr>env_signature := sign_envelope e v secret\<rparr>"

definition verify_envelope :: "env \<Rightarrow> a2a_envelope \<Rightarrow> string \<Rightarrow> string option \<Rightarrow> int \<Rightarrow> int \<Rightarrow> exc + unit" where
  "verify_envelope e v secret receiver skew now =
     (if \<not> verify_signature e (canonical_json (JObj (signing_document v))) (env_signature v) secret
      then Inl (Exc InvalidSignatureError ''A2A signature is invalid'')
      else if truthy receiver \<and> Some (str_uuid (env_receiver_agent_id v)) \<noteq> receiver
      then Inl (Exc InvalidSignatureError ''A2A receiver does not match this agent'')
      else if env_expires_at v \<le> now
      then Inl (Exc InvalidSignatureError ''A2A message has expired'')
      else if skew * 1000000 < \<bar>now - env_timestamp v\<bar>
      then Inl (Exc InvalidSignatureError ''A2A timestamp is outside the allowed clock skew'')
      else Inr ())"

lemma verify_envelope_ok:
  "verify_envelope e v k receiver skew now = Inr u \<longleftrightarrow>
     sign_envelope e v k = env_signature v
   \<and> (truthy receiver \<longrightarrow> receiver = Some (str_uuid (env_receiver_agent_id v)))
   \<and> now < env_expires_at v \<and> \<bar>now - env_timestamp v\<bar> \<le> skew * 1000000"
  by (auto simp: verify_envelope_def sign_envelope_def verify_signature_def)

lemma signing_document_signature [simp]: "signing_document (v\<lparr>env_signature := x\<rparr>) = signing_document v"
  by (simp add: signing_document_def)

lemma signed_envelope_verifies:
  "now < env_expires_at v \<Longrightarrow> \<bar>now - env_timestamp v\<bar> \<le> skew * 1000000 \<Longrightarrow>
   verify_envelope e (signed_envelope e v k) k (Some (str_uuid (env_receiver_agent_id v))) skew now = Inr ()"
  by (simp add: verify_envelope_ok signed_envelope_def sign_envelope_def)

section \<open>Registry\<close>

record registered_agent =
  ra_agent_id :: uuid
  ra_name :: string
  ra_endpoint :: string
  ra_signing_secret :: string
  ra_active :: bool
  ra_allowed_intents :: "string list"

type_synonym agent_registry = "uuid \<rightharpoonup> registered_agent"

definition registry_of :: "registered_agent list \<Rightarrow> agent_registry" where
  "registry_of as = fold (\<lambda>a m. m(ra_agent_id a \<mapsto> a)) as Map.empty"

definition registry_register :: "registered_agent \<Rightarrow> agent_registry \<Rightarrow> agent_registry" where
  "registry_register a m = m(ra_agent_id a \<mapsto> a)"

definition registry_get :: "agent_registry \<Rightarrow> uuid \<Rightarrow> exc + registered_agent" where
  "registry_get m i = (case m i of
     None \<Rightarrow> Inl (Exc NotFoundError ''A2A agent is not registered'')
   | Some a \<Rightarrow> if ra_active a then Inr a else Inl (Exc AuthenticationError ''A2A agent is disabled''))"

definition authorize_intent :: "agent_registry \<Rightarrow> uuid \<Rightarrow> string \<Rightarrow> exc + registered_agent" where
  "authorize_intent m i intent =
     bindE (registry_get m i) (\<lambda>a.
       if ra_allowed_intents a \<noteq> [] \<and> intent \<notin> set (ra_allowed_intents a)
       then Inl (Exc AuthenticationError ''A2A sender is not permitted to use this intent'')
       else Inr a)"

section \<open>The receiving service\<close>

record 's message_repo =
  mr_nonce_seen :: "uuid \<Rightarrow> string \<Rightarrow> 's \<Rightarrow> bool"
  mr_idempotency_seen :: "string \<Rightarrow> 's \<Rightarrow> bool"
  mr_save :: "a2a_envelope \<Rightarrow> string \<Rightarrow> ('s, exc, unit) prog"

definition a2a_receive ::
  "env \<Rightarrow> agent_registry \<Rightarrow> 's message_repo \<Rightarrow> string \<Rightarrow> int \<Rightarrow> int \<Rightarrow> a2a_envelope \<Rightarrow> ('s, exc, a2a_payload) prog" where
  "a2a_receive e reg repo receiver_id skew now v =
     bnd (lift (authorize_intent reg (env_sender_agent_id v) (intent_str (env_intent v)))) (\<lambda>sender.
     andthen (lift (verify_envelope e v (ra_signing_secret sender) (Some receiver_id) skew now))
     (bnd (gets (mr_nonce_seen repo (env_sender_agent_id v) (env_nonce v))) (\<lambda>seen.
     andthen (guard (\<not> seen) (Exc DuplicateEventError ''A2A nonce has already been used''))
     (bnd (gets (mr_idempotency_seen repo (env_idempotency_key v))) (\<lambda>done.
     andthen (guard (\<not> done) (Exc DuplicateEventError ''A2A message has already been processed''))
     (andthen (mr_save repo v ''INBOUND'')
     (lift (typed_payload (env_intent v) (env_payload v)))))))))"

locale message_repository =
  fixes nonce_seen :: "uuid \<Rightarrow> string \<Rightarrow> 's \<Rightarrow> bool"
    and idempotency_seen :: "string \<Rightarrow> 's \<Rightarrow> bool"
    and save :: "a2a_envelope \<Rightarrow> string \<Rightarrow> 's \<Rightarrow> (exc + unit) \<times> 's"
  assumes save_marks: "save v dir s = (Inr (), t) \<Longrightarrow>
      nonce_seen (env_sender_agent_id v) (env_nonce v) t \<and> idempotency_seen (env_idempotency_key v) t"
    and save_keeps: "save v dir s = (r, t) \<Longrightarrow> nonce_seen i n s \<Longrightarrow> nonce_seen i n t"
    and save_keeps_key: "save v dir s = (r, t) \<Longrightarrow> idempotency_seen k s \<Longrightarrow> idempotency_seen k t"
begin

definition repo :: "'s message_repo" where
  "repo = \<lparr>mr_nonce_seen = nonce_seen, mr_idempotency_seen = idempotency_seen, mr_save = save\<rparr>"

lemma receive_marks:
  assumes "a2a_receive e reg repo receiver skew now v s = (Inr p, t)"
  shows "nonce_seen (env_sender_agent_id v) (env_nonce v) t \<and> idempotency_seen (env_idempotency_key v) t
    \<and> \<not> nonce_seen (env_sender_agent_id v) (env_nonce v) s \<and> \<not> idempotency_seen (env_idempotency_key v) s"
  using assms by (auto simp: a2a_receive_def repo_def run_simps dest: save_marks)

lemma receive_seen:
  assumes "nonce_seen (env_sender_agent_id w) (env_nonce w) s \<or> idempotency_seen (env_idempotency_key w) s"
  shows "\<exists>x. a2a_receive e reg repo receiver skew now w s = (Inl x, s)"
  using assms
  by (auto simp: a2a_receive_def repo_def bnd_def andthen_def lift_def gets_def guard_def raise_def ret_def
      split: sum.splits)

text \<open>A message that repeats the nonce of its sender or the idempotency key of an accepted one is
  refused and leaves no trace.\<close>

lemma receive_once:
  assumes "a2a_receive e reg repo receiver skew now v s = (Inr p, t)"
    and "(env_sender_agent_id w = env_sender_agent_id v \<and> env_nonce w = env_nonce v)
       \<or> env_idempotency_key w = env_idempotency_key v"
  shows "\<exists>x. a2a_receive e' reg' repo receiver' skew' now' w t = (Inl x, t)"
  using receive_marks [OF assms(1)] assms(2) by (intro receive_seen) auto

end

section \<open>The SQL repository\<close>

definition message_clash :: "a2a_message_row \<Rightarrow> a2a_message_row \<Rightarrow> bool" where
  "message_clash x y \<longleftrightarrow> msg_message_id x = msg_message_id y
     \<or> (msg_sender_agent_id x = msg_sender_agent_id y \<and> msg_nonce x = msg_nonce y)
     \<or> msg_idempotency_key x = msg_idempotency_key y"

definition sql_nonce_seen :: "uuid \<Rightarrow> string \<Rightarrow> db \<Rightarrow> bool" where
  "sql_nonce_seen i n s \<longleftrightarrow> list_ex (\<lambda>m. msg_sender_agent_id m = i \<and> msg_nonce m = n) (t_a2a_messages s)"

definition sql_idempotency_seen :: "string \<Rightarrow> db \<Rightarrow> bool" where
  "sql_idempotency_seen k s \<longleftrightarrow> list_ex (\<lambda>m. msg_idempotency_key m = k) (t_a2a_messages s)"

definition message_of_envelope :: "uuid \<Rightarrow> int \<Rightarrow> a2a_envelope \<Rightarrow> string \<Rightarrow> a2a_message_row" where
  "message_of_envelope i now v dir =
     \<lparr>row_id = i, created_at = now, updated_at = now, msg_merchant_id = None, msg_supplier_id = None,
      msg_order_id = None, msg_negotiation_id = None, msg_message_id = env_message_id v,
      msg_correlation_id = env_correlation_id v, msg_trace_id = env_trace_id v,
      msg_sender_agent_id = env_sender_agent_id v, msg_receiver_agent_id = env_receiver_agent_id v,
      msg_intent = intent_str (env_intent v), msg_direction = dir, msg_status = ''RECORDED'',
      msg_nonce = env_nonce v, msg_idempotency_key = env_idempotency_key v,
      msg_envelope = envelope_json v, msg_expires_at = env_expires_at v, msg_processed_at = None\<rparr>"

definition sql_save :: "env \<Rightarrow> a2a_envelope \<Rightarrow> string \<Rightarrow> unit m" where
  "sql_save e v dir =
     bnd (new_uuid e) (\<lambda>i. bnd (gets clock) (\<lambda>now.
       add_row t_a2a_messages t_a2a_messages_update message_clash (message_of_envelope i now v dir)))"

definition sql_repo :: "env \<Rightarrow> db message_repo" where
  "sql_repo e = \<lparr>mr_nonce_seen = sql_nonce_seen, mr_idempotency_seen = sql_idempotency_seen, mr_save = sql_save e\<rparr>"

lemma sql_save_Inr:
  "sql_save e v dir s = (Inr u, t) \<Longrightarrow>
   t = s\<lparr>draws := draws s + 1,
         t_a2a_messages := t_a2a_messages s @ [message_of_envelope (uuid_at e (draws s)) (clock s) v dir]\<rparr>
   \<and> (\<forall>x \<in> set (t_a2a_messages s). row_id x \<noteq> uuid_at e (draws s)
        \<and> \<not> message_clash x (message_of_envelope (uuid_at e (draws s)) (clock s) v dir))"
  by (auto simp: sql_save_def run_simps) (simp add: message_of_envelope_def)

lemma sql_save_Inl: "sql_save e v dir s = (Inl x, t) \<Longrightarrow> t = s\<lparr>draws := draws s + 1\<rparr> \<and> x = integrity_error"
  by (auto simp: sql_save_def run_simps)

interpretation sql_messages: message_repository sql_nonce_seen sql_idempotency_seen "sql_save e"
  for e
proof unfold_locales
  fix v dir s t
  assume "sql_save e v dir s = (Inr (), t)"
  then show "sql_nonce_seen (env_sender_agent_id v) (env_nonce v) t \<and> sql_idempotency_seen (env_idempotency_key v) t"
    by (auto simp: sql_nonce_seen_def sql_idempotency_seen_def message_of_envelope_def list_ex_iff dest!: sql_save_Inr)
next
  fix v dir s r t i n
  assume "sql_save e v dir s = (r, t)" "sql_nonce_seen i n s"
  then show "sql_nonce_seen i n t"
    by (cases r) (auto simp: sql_nonce_seen_def list_ex_iff dest!: sql_save_Inr sql_save_Inl)
next
  fix v dir s r t k
  assume "sql_save e v dir s = (r, t)" "sql_idempotency_seen k s"
  then show "sql_idempotency_seen k t"
    by (cases r) (auto simp: sql_idempotency_seen_def list_ex_iff dest!: sql_save_Inr sql_save_Inl)
qed

lemma sql_repo_eq: "sql_messages.repo e = sql_repo e"
  by (simp add: sql_messages.repo_def sql_repo_def)

section \<open>The receiving route\<close>

definition agent_of_row :: "settings \<Rightarrow> a2a_agent_row \<Rightarrow> registered_agent" where
  "agent_of_row cfg r =
     \<lparr>ra_agent_id = row_id r, ra_name = aa_name r, ra_endpoint = aa_endpoint r,
      ra_signing_secret = a2a_signing_secret cfg, ra_active = True, ra_allowed_intents = aa_allowed_intents r\<rparr>"

text \<open>The merchant of a message without one: the first message of the conversation that has one.\<close>

definition conversation_merchant :: "uuid \<Rightarrow> db \<Rightarrow> uuid option" where
  "conversation_merchant c s =
     (case sort_key created_at (filter (\<lambda>m. msg_correlation_id m = c \<and> msg_merchant_id m \<noteq> None) (t_a2a_messages s)) of
        [] \<Rightarrow> None | m # _ \<Rightarrow> msg_merchant_id m)"

text \<open>What the route adds to the stored message: its merchant and supplier, and an event.\<close>

definition note_received :: "env \<Rightarrow> a2a_envelope \<Rightarrow> a2a_agent_row \<Rightarrow> a2a_payload \<Rightarrow> unit m" where
  "note_received e v registered payload =
     bnd (gets (\<lambda>s. find (\<lambda>m. msg_message_id m = env_message_id v) (t_a2a_messages s))) (\<lambda>stored.
     bnd (gets (\<lambda>s. case payload_merchant payload of Some m \<Rightarrow> Some m
                    | None \<Rightarrow> conversation_merchant (env_correlation_id v) s)) (\<lambda>merchant.
       case (stored, merchant) of
          (Some row, Some mid) \<Rightarrow>
            andthen (change_row t_a2a_messages t_a2a_messages_update (row_id row)
                       (\<lambda>r. r\<lparr>msg_merchant_id := Some mid, msg_supplier_id := aa_supplier_id registered\<rparr>))
             (add_outbox e (Some mid) ''a2a_message'' (row_id row) A2A_MESSAGE_RECEIVED
                (Some (str_uuid (env_correlation_id v))) (Some (env_trace_id v))
                [(''activity_id'', JStr (str_uuid (row_id row))), (''intent'', JStr (intent_str (env_intent v))),
                 (''direction'', JStr ''INBOUND'')])
        | _ \<Rightarrow> ret ()))"

definition receive_message :: "env \<Rightarrow> settings \<Rightarrow> a2a_envelope \<Rightarrow> a2a_payload m" where
  "receive_message e cfg v =
     bnd (gets clock) (\<lambda>now.
     bnd (gets (\<lambda>s. find (\<lambda>a. row_id a = env_sender_agent_id v \<and> aa_is_active a) (t_a2a_agents s))) (\<lambda>found.
     bnd (require found (Exc AuthenticationError ''A2A sender is not registered'')) (\<lambda>registered.
     bnd (a2a_receive e (registry_of [agent_of_row cfg registered]) (sql_repo e) (str_uuid (a2a_agent_id cfg))
            (a2a_max_clock_skew_seconds cfg) now v) (\<lambda>payload.
     andthen (note_received e v registered payload) (ret payload)))))"

text \<open>What the route has checked when it accepts a message.\<close>

lemma receive_message_ok:
  assumes "receive_message e cfg v s = (Inr p, t)"
  shows "\<exists>a \<in> set (t_a2a_agents s). row_id a = env_sender_agent_id v \<and> aa_is_active a
      \<and> (aa_allowed_intents a = [] \<or> intent_str (env_intent v) \<in> set (aa_allowed_intents a))
      \<and> sign_envelope e v (a2a_signing_secret cfg) = env_signature v
      \<and> env_receiver_agent_id v = a2a_agent_id cfg
      \<and> clock s < env_expires_at v \<and> \<bar>clock s - env_timestamp v\<bar> \<le> a2a_max_clock_skew_seconds cfg * 1000000
      \<and> \<not> sql_nonce_seen (env_sender_agent_id v) (env_nonce v) s
      \<and> \<not> sql_idempotency_seen (env_idempotency_key v) s
      \<and> typed_payload (env_intent v) (env_payload v) = Inr p"
proof -
  obtain a u where a: "find (\<lambda>a. row_id a = env_sender_agent_id v \<and> aa_is_active a) (t_a2a_agents s) = Some a"
    and r: "a2a_receive e (registry_of [agent_of_row cfg a]) (sql_repo e) (str_uuid (a2a_agent_id cfg))
            (a2a_max_clock_skew_seconds cfg) (clock s) v s = (Inr p, u)"
    using assms unfolding receive_message_def by (auto simp: run_simps)
  have ne: "truthy (Some (str_uuid (a2a_agent_id cfg)))"
    by (simp add: truthy_def str_uuid_def Let_def)
  from r have "aa_allowed_intents a = [] \<or> intent_str (env_intent v) \<in> set (aa_allowed_intents a)"
    "verify_envelope e v (a2a_signing_secret cfg) (Some (str_uuid (a2a_agent_id cfg)))
       (a2a_max_clock_skew_seconds cfg) (clock s) = Inr ()"
    "\<not> sql_nonce_seen (env_sender_agent_id v) (env_nonce v) s"
    "\<not> sql_idempotency_seen (env_idempotency_key v) s" "typed_payload (env_intent v) (env_payload v) = Inr p"
    using find_propD [OF a]
    by (auto simp: a2a_receive_def sql_repo_def run_simps authorize_intent_def registry_get_def registry_of_def
        agent_of_row_def split: if_splits option.splits)
  with a ne show ?thesis
    by (intro bexI [of _ a]) (auto simp: verify_envelope_ok dest: find_propD find_memD)
qed

text \<open>A message that the route has accepted stays marked, and nothing with its nonce or key is accepted
  again.\<close>

definition sql_marked :: "uuid \<Rightarrow> string \<Rightarrow> string \<Rightarrow> db \<Rightarrow> bool" where
  "sql_marked i n k s \<longleftrightarrow> sql_nonce_seen i n s \<and> sql_idempotency_seen k s"

lemma list_ex_upd: "(\<And>x. Q (f x) = Q x) \<Longrightarrow> list_ex Q (upd P f rows) = list_ex Q rows"
  by (induction rows) (auto simp: upd_def)

lemma marked_change:
  fixes f :: "a2a_message_row \<Rightarrow> a2a_message_row"
  assumes "\<And>x. msg_sender_agent_id (f x) = msg_sender_agent_id x \<and> msg_nonce (f x) = msg_nonce x
    \<and> msg_idempotency_key (f x) = msg_idempotency_key x"
  shows "keeps (sql_marked i n k) (change_row t_a2a_messages t_a2a_messages_update j f)"
  using assms by (intro keepsI)
    (auto simp: change_row_def sql_marked_def sql_nonce_seen_def sql_idempotency_seen_def list_ex_upd mutate_def)

lemma marked_note: "keeps (sql_marked i n k) (note_received e v a q)"
  unfolding note_received_def
  by (intro keeps_intros marked_change) (auto simp: sql_marked_def sql_nonce_seen_def sql_idempotency_seen_def)

lemma route_marks:
  assumes "receive_message e cfg v s = (Inr p, t)"
  shows "sql_marked (env_sender_agent_id v) (env_nonce v) (env_idempotency_key v) t"
proof -
  obtain a u x where
    r: "a2a_receive e (registry_of [agent_of_row cfg a]) (sql_repo e) (str_uuid (a2a_agent_id cfg))
            (a2a_max_clock_skew_seconds cfg) (clock s) v s = (Inr p, u)"
    and n: "note_received e v a p u = (Inr x, t)"
    using assms unfolding receive_message_def by (auto simp: run_simps)
  from sql_messages.receive_marks [unfolded sql_repo_eq, OF r]
  have "sql_marked (env_sender_agent_id v) (env_nonce v) (env_idempotency_key v) u"
    unfolding sql_marked_def by blast
  with keepsD [OF marked_note n] show ?thesis .
qed

lemma route_receives_once:
  assumes "receive_message e cfg v s = (Inr p, t)"
    and "(env_sender_agent_id w = env_sender_agent_id v \<and> env_nonce w = env_nonce v)
       \<or> env_idempotency_key w = env_idempotency_key v"
  shows "\<exists>x. receive_message e' cfg' w t = (Inl x, t)"
proof (cases "find (\<lambda>a. row_id a = env_sender_agent_id w \<and> aa_is_active a) (t_a2a_agents t)")
  case None
  then show ?thesis by (simp add: receive_message_def exec_defs require_def)
next
  case (Some a)
  have "sql_nonce_seen (env_sender_agent_id w) (env_nonce w) t \<or> sql_idempotency_seen (env_idempotency_key w) t"
    using route_marks [OF assms(1)] assms(2) by (auto simp: sql_marked_def)
  then obtain x where "a2a_receive e' (registry_of [agent_of_row cfg' a]) (sql_repo e') (str_uuid (a2a_agent_id cfg'))
            (a2a_max_clock_skew_seconds cfg') (clock t) w t = (Inl x, t)"
    using sql_messages.receive_seen [unfolded sql_repo_eq] by blast
  with Some show ?thesis by (simp add: receive_message_def exec_defs require_def)
qed

end
