(* ===== verification/Procurement.thy ===== *)
theory Procurement
  imports Store "HOL-Library.Product_Lexorder" "HOL-Library.Multiset"
begin

text \<open>
  Choosing and negotiating with suppliers: \<open>RiskService\<close>, \<open>NegotiationService\<close>,
  \<open>ProcurementService\<close>, the quote collection of the workflow tools, and the catalog adapter that
  quotes from the supplier accounts' own stock rows.  A supplier adapter is a record of the
  operations of the \<open>SupplierAdapter\<close> protocol; \<open>supplier_adapter\<close> is the contract that the buyers
  rely on.
\<close>

section \<open>Risk\<close>

definition risk_checks ::
  "inventory_snapshot \<Rightarrow> purchase_proposal \<Rightarrow> supplier_quote \<Rightarrow> dec \<Rightarrow> dec \<Rightarrow> bool \<Rightarrow> (string \<times> bool) list" where
  "risk_checks snap p q spending_limit trust duplicate =
     [(''positive_quantity'', dlt dzero (pp_quantity p)),
      (''inventory_consistent'', dle dzero (is_quantity_on_hand snap)),
      (''supplier_inventory'', dle (pp_quantity p) (sq_available_quantity q)),
      (''supplier_trusted'', dle (Dec 6 1) trust),
      (''spending_limit'', dle (total_amount p) spending_limit),
      (''not_duplicate'', \<not> duplicate),
      (''price_consistent'', deq (pp_unit_price p) (sq_unit_price q))]"

definition risk_evaluate ::
  "inventory_snapshot \<Rightarrow> purchase_proposal \<Rightarrow> supplier_quote \<Rightarrow> dec \<Rightarrow> dec \<Rightarrow> bool \<Rightarrow> risk_result" where
  "risk_evaluate snap p q spending_limit trust duplicate =
     (let checks = risk_checks snap p q spending_limit trust duplicate
      in \<lparr>rr_passed = list_all snd checks, rr_reasons = map fst (filter (\<lambda>c. \<not> snd c) checks),
          rr_checks = checks\<rparr>)"

lemma risk_passed_iff:
  "rr_passed (risk_evaluate snap p q limit trust dup) \<longleftrightarrow>
     0 < rat_of (pp_quantity p) \<and> 0 \<le> rat_of (is_quantity_on_hand snap)
   \<and> rat_of (pp_quantity p) \<le> rat_of (sq_available_quantity q) \<and> 3 / 5 \<le> rat_of trust
   \<and> rat_of (pp_quantity p) * rat_of (pp_unit_price p) \<le> rat_of limit \<and> \<not> dup
   \<and> rat_of (pp_unit_price p) = rat_of (sq_unit_price q)"
proof -
  have "rat_of (Dec 6 (Suc 0)) \<le> x \<longleftrightarrow> 3 \<le> x * 5" for x
    by (simp add: rat_of_def field_simps)
  then show ?thesis
    by (simp add: risk_evaluate_def risk_checks_def Let_def dlt_rat dle_rat deq_rat total_amount_def)
qed

lemma risk_reasons_iff:
  "rr_reasons (risk_evaluate snap p q limit trust dup) = [] \<longleftrightarrow> rr_passed (risk_evaluate snap p q limit trust dup)"
  by (simp add: risk_evaluate_def Let_def filter_empty_conv list_all_iff)

section \<open>Offers\<close>

definition offer_failures ::
  "supplier_quote \<Rightarrow> purchase_request \<Rightarrow> negotiation_constraints \<Rightarrow> int \<Rightarrow> string list" where
  "offer_failures q r c round_number =
     (if nc_max_rounds c < round_number then [''round_limit''] else [])
     @ (if str_uuid (sq_supplier_id q) \<notin> set (nc_allowed_supplier_ids c) then [''supplier_not_allowed''] else [])
     @ (if dlt (pr_quantity r) (nc_min_quantity c) \<or> dlt (nc_max_quantity c) (pr_quantity r)
        then [''quantity_out_of_bounds''] else [])
     @ (if dlt (sq_available_quantity q) (pr_quantity r) then [''insufficient_supplier_inventory''] else [])
     @ (if dlt (nc_max_unit_price c) (sq_unit_price q) \<or> dlt (pr_max_price r) (sq_unit_price q)
        then [''price_limit''] else [])
     @ (if pr_delivery_deadline r < sq_delivery_at q then [''delivery_deadline''] else [])"

definition validate_offer ::
  "supplier_quote \<Rightarrow> purchase_request \<Rightarrow> negotiation_constraints \<Rightarrow> int \<Rightarrow> bool \<times> string list" where
  "validate_offer q r c round_number =
     (let failures = offer_failures q r c round_number in (failures = [], failures))"

definition counter_price :: "supplier_quote \<Rightarrow> purchase_request \<Rightarrow> dec" where
  "counter_price q r =
     (if dle (sq_unit_price q) (pr_target_price r) then sq_unit_price q
      else dmin (quantize 2 (dhalf (dadd (sq_unit_price q) (pr_target_price r)))) (pr_max_price r))"

text \<open>What the validated offer promises to the buyer.\<close>

definition acceptable :: "supplier_quote \<Rightarrow> purchase_request \<Rightarrow> negotiation_constraints \<Rightarrow> bool" where
  "acceptable q r c \<longleftrightarrow>
     str_uuid (sq_supplier_id q) \<in> set (nc_allowed_supplier_ids c)
   \<and> rat_of (nc_min_quantity c) \<le> rat_of (pr_quantity r) \<and> rat_of (pr_quantity r) \<le> rat_of (nc_max_quantity c)
   \<and> rat_of (pr_quantity r) \<le> rat_of (sq_available_quantity q)
   \<and> rat_of (sq_unit_price q) \<le> min (rat_of (nc_max_unit_price c)) (rat_of (pr_max_price r))
   \<and> sq_delivery_at q \<le> pr_delivery_deadline r"

lemma validate_offer_iff:
  "fst (validate_offer q r c n) \<longleftrightarrow> acceptable q r c \<and> n \<le> nc_max_rounds c"
  by (auto simp: validate_offer_def offer_failures_def acceptable_def dlt_rat not_less Let_def)

lemma validate_offer_reasons: "fst (validate_offer q r c n) \<longleftrightarrow> snd (validate_offer q r c n) = []"
  by (simp add: validate_offer_def Let_def)

lemma counter_price_low:
  "rat_of (sq_unit_price q) \<le> rat_of (pr_target_price r) \<Longrightarrow> counter_price q r = sq_unit_price q"
  by (simp add: counter_price_def dle_rat)

lemma counter_price_bounds:
  assumes "rat_of (pr_target_price r) \<le> rat_of (pr_max_price r)"
    and "rat_of (pr_target_price r) < rat_of (sq_unit_price q)"
  shows "rat_of (pr_target_price r) - 1 / 200 \<le> rat_of (counter_price q r)"
    and "rat_of (counter_price q r) \<le> rat_of (pr_max_price r)"
    and "rat_of (counter_price q r) \<le> (rat_of (sq_unit_price q) + rat_of (pr_target_price r)) / 2 + 1 / 200"
proof -
  let ?m = "dhalf (dadd (sq_unit_price q) (pr_target_price r))"
  have c: "counter_price q r = dmin (quantize 2 ?m) (pr_max_price r)"
    using assms(2) by (simp add: counter_price_def dle_rat)
  have "\<bar>rat_of (quantize 2 ?m) - rat_of ?m\<bar> \<le> 1 / 200"
    using quantize_close [of 2 ?m] by simp
  then have b: "rat_of ?m - 1 / 200 \<le> rat_of (quantize 2 ?m)" "rat_of (quantize 2 ?m) \<le> rat_of ?m + 1 / 200"
    by linarith+
  have m: "rat_of ?m = (rat_of (sq_unit_price q) + rat_of (pr_target_price r)) / 2" by simp
  show "rat_of (pr_target_price r) - 1 / 200 \<le> rat_of (counter_price q r)"
    using b(1) assms unfolding c rat_of_min m min_def by (simp add: field_simps)
  show "rat_of (counter_price q r) \<le> rat_of (pr_max_price r)"
    unfolding c rat_of_min by simp
  show "rat_of (counter_price q r) \<le> (rat_of (sq_unit_price q) + rat_of (pr_target_price r)) / 2 + 1 / 200"
    using b(2) unfolding c rat_of_min m min_def by (simp add: field_simps)
qed

section \<open>Adapters\<close>

record 's adapter =
  ad_supplier_id :: "uuid option"
  ad_handles_all :: bool
  ad_discover :: "purchase_request \<Rightarrow> ('s, exc, supplier_quote list) prog"
  ad_counter_offer :: "supplier_quote \<Rightarrow> dec \<Rightarrow> dec \<Rightarrow> string \<Rightarrow> ('s, exc, supplier_quote option) prog"
  ad_place_order :: "purchase_proposal \<Rightarrow> string \<Rightarrow> ('s, exc, order_result) prog"

definition quote_key :: "supplier_quote \<Rightarrow> rat \<times> int" where
  "quote_key q = (rat_of (sq_unit_price q), sq_delivery_at q)"

definition sort_quotes :: "supplier_quote list \<Rightarrow> supplier_quote list" where
  "sort_quotes = sort_key quote_key"

text \<open>One pass over the adapters; an adapter whose exception is of one of the caught classes is
  skipped, any other exception ends the pass.\<close>

fun gather_quotes ::
  "exc_class list \<Rightarrow> ('s, 'z) adapter_scheme list \<Rightarrow> purchase_request \<Rightarrow> ('s, exc, supplier_quote list) prog" where
  "gather_quotes caught [] r = ret []"
| "gather_quotes caught (a # as) r =
     bnd (attempt (ad_discover a r)) (\<lambda>res. case res of
       Inl x \<Rightarrow> (if list_ex (isa (cls x)) caught then gather_quotes caught as r else raise x)
     | Inr qs \<Rightarrow> bnd (gather_quotes caught as r) (\<lambda>rest. ret (qs @ rest)))"

definition procurement_discover :: "('s, 'z) adapter_scheme list \<Rightarrow> purchase_request \<Rightarrow> ('s, exc, supplier_quote list) prog" where
  "procurement_discover adapters r =
     bnd (gather_quotes [SupplierUnavailableError] adapters r) (\<lambda>qs.
       andthen (guard (qs \<noteq> []) (Exc SupplierUnavailableError ''No supplier returned a usable quote''))
         (ret (sort_quotes qs)))"

definition collect_quotes :: "('s, 'z) adapter_scheme list \<Rightarrow> purchase_request \<Rightarrow> ('s, exc, supplier_quote list) prog" where
  "collect_quotes adapters r =
     bnd (gather_quotes [ProviderError, SupplierUnavailableError] adapters r) (\<lambda>qs. ret (sort_quotes qs))"

definition procurement_negotiate ::
  "('s, 'z) adapter_scheme \<Rightarrow> supplier_quote \<Rightarrow> purchase_request \<Rightarrow> negotiation_constraints \<Rightarrow> string
   \<Rightarrow> ('s, exc, supplier_quote) prog" where
  "procurement_negotiate a q r c key =
     (if fst (validate_offer q r c 1) then ret q
      else bnd (ad_counter_offer a q (py_float (counter_price q r)) (py_float (pr_quantity r)) key) (\<lambda>revised.
           bnd (require revised (Exc SupplierUnavailableError ''Supplier rejected the constrained counter offer'')) (\<lambda>q'.
           andthen (guard (fst (validate_offer q' r c 2))
             (Exc SupplierUnavailableError
               (''Supplier offer violates constraints: '' @ join '', '' (snd (validate_offer q' r c 2)))))
           (ret q'))))"

lemma sort_quotes_sorted: "sorted (map quote_key (sort_quotes qs))"
  by (simp add: sort_quotes_def)

lemma sort_quotes_mset: "mset (sort_quotes qs) = mset qs"
  by (simp add: sort_quotes_def)

lemma sort_quotes_set [simp]: "set (sort_quotes qs) = set qs"
  by (simp add: sort_quotes_def)

text \<open>Every quote that is gathered was returned by one of the adapters.\<close>

lemma gather_quotes_all:
  assumes "gather_quotes caught adapters r s = (Inr qs, t)" and "q \<in> set qs"
    and "\<And>a u qs' v q'. a \<in> set adapters \<Longrightarrow> ad_discover a r u = (Inr qs', v) \<Longrightarrow> q' \<in> set qs' \<Longrightarrow> P q'"
  shows "P q"
  using assms
proof (induction adapters arbitrary: s qs)
  case Nil
  then show ?case by (simp add: run_simps)
next
  case (Cons a as)
  from Cons.prems(1) obtain res u where d: "ad_discover a r s = (res, u)"
    and rest: "(case res of
       Inl x \<Rightarrow> (if list_ex (isa (cls x)) caught then gather_quotes caught as r else raise x)
     | Inr qs \<Rightarrow> bnd (gather_quotes caught as r) (\<lambda>rest. ret (qs @ rest))) u = (Inr qs, t)"
    by (auto simp: run_simps)
  show ?case
  proof (cases res)
    case (Inl x)
    with rest have "gather_quotes caught as r u = (Inr qs, t)" by (auto simp: run_simps split: if_splits)
    from Cons.IH [OF this Cons.prems(2)] Cons.prems(3) show ?thesis by (meson list.set_intros(2))
  next
    case (Inr qs1)
    with rest obtain qs2 where g: "gather_quotes caught as r u = (Inr qs2, t)" and qs: "qs = qs1 @ qs2"
      by (auto simp: run_simps)
    show ?thesis
    proof (cases "q \<in> set qs1")
      case True
      with d Inr show ?thesis using Cons.prems(3) [of a s qs1 u q] by simp
    next
      case False
      with Cons.prems(2) qs have "q \<in> set qs2" by auto
      from Cons.IH [OF g this] Cons.prems(3) show ?thesis by (meson list.set_intros(2))
    qed
  qed
qed

text \<open>An adapter outage of the protocol's own class never fails the collection.\<close>

lemma gather_quotes_total:
  assumes "\<And>a u x v. a \<in> set adapters \<Longrightarrow> ad_discover a r u = (Inl x, v) \<Longrightarrow> list_ex (isa (cls x)) caught"
  shows "\<exists>qs t. gather_quotes caught adapters r s = (Inr qs, t)"
  using assms
proof (induction adapters arbitrary: s)
  case (Cons a as)
  obtain res u where d: "ad_discover a r s = (res, u)" by (cases "ad_discover a r s")
  have ih: "\<exists>qs t. gather_quotes caught as r u = (Inr qs, t)"
    using Cons.IH Cons.prems by (meson list.set_intros(2))
  then show ?case
    using Cons.prems [of a s] d by (cases res) (auto simp: bnd_def attempt_def ret_def)
qed (simp add: ret_def)

lemma negotiate_acceptable:
  assumes "procurement_negotiate a q r c key s = (Inr q', t)"
  shows "acceptable q' r c"
  using assms unfolding procurement_negotiate_def
  by (auto simp: run_simps validate_offer_iff split: if_splits)

section \<open>The contract of an adapter\<close>

locale supplier_adapter =
  fixes discover :: "purchase_request \<Rightarrow> 's \<Rightarrow> (exc + supplier_quote list) \<times> 's"
    and counter :: "supplier_quote \<Rightarrow> dec \<Rightarrow> dec \<Rightarrow> string \<Rightarrow> 's \<Rightarrow> (exc + supplier_quote option) \<times> 's"
  assumes discover_fits: "discover r s = (Inr qs, t) \<Longrightarrow> q \<in> set qs \<Longrightarrow>
      sq_sku q = pr_sku r \<and> rat_of (pr_quantity r) \<le> rat_of (sq_available_quantity q)"
    and counter_keeps: "counter q price quantity key s = (Inr (Some q'), t) \<Longrightarrow>
      sq_supplier_id q' = sq_supplier_id q \<and> sq_sku q' = sq_sku q
      \<and> sq_available_quantity q' = sq_available_quantity q \<and> sq_delivery_at q' = sq_delivery_at q
      \<and> sq_quote_id q' = sq_quote_id q"
    and counter_stock: "counter q price quantity key s = (Inr (Some q'), t) \<Longrightarrow>
      rat_of quantity \<le> rat_of (sq_available_quantity q)"
    and counter_price_met: "counter q price quantity key s = (Inr (Some q'), t) \<Longrightarrow>
      \<bar>rat_of (sq_unit_price q') - rat_of price\<bar> \<le> 1 / 200"
begin

text \<open>A negotiated quote is for the requested goods, from the quoting supplier, with the stock, in
  time and within the price limits; when it is not the quote itself, its price is the counter price
  to within half a cent.\<close>

lemma negotiated_quote:
  assumes a: "ad_counter_offer a = counter"
    and run: "procurement_negotiate a q r c key s = (Inr q', t)"
  shows "acceptable q' r c \<and> sq_supplier_id q' = sq_supplier_id q \<and> sq_sku q' = sq_sku q
    \<and> (q' = q \<or> \<bar>rat_of (sq_unit_price q') - rat_of (counter_price q r)\<bar> \<le> 1 / 200)"
proof -
  have acc: "acceptable q' r c" using run by (rule negotiate_acceptable)
  show ?thesis
  proof (cases "fst (validate_offer q r c 1)")
    case True
    with run acc show ?thesis by (auto simp: procurement_negotiate_def run_simps)
  next
    case False
    with run a obtain u where
      "counter q (py_float (counter_price q r)) (py_float (pr_quantity r)) key s = (Inr (Some q'), u)"
      by (auto simp: procurement_negotiate_def run_simps)
    from counter_keeps [OF this] counter_price_met [OF this] acc show ?thesis by simp
  qed
qed

end

section \<open>The catalog adapter\<close>

text \<open>Its state is the database and its memory of quotes by id.\<close>

type_synonym catalog_state = "db \<times> (string \<rightharpoonup> supplier_quote)"

definition catalog_rows :: "db \<Rightarrow> purchase_request \<Rightarrow> (supplier_product_row \<times> supplier_row) list" where
  "catalog_rows s r =
     sort_key (\<lambda>(i, sr). (rat_of (sp_unit_price i), - rat_of (s_trust_score sr)))
       (concat (map (\<lambda>i. concat (map (\<lambda>sr. map (\<lambda>p. (i, sr))
            (filter (\<lambda>p. row_id p = sp_product_id i \<and> upper (p_sku p) = upper (strip (pr_sku r))) (t_products s)))
          (filter (\<lambda>sr. row_id sr = sp_supplier_id i \<and> s_is_active sr) (t_suppliers s))))
        (filter (\<lambda>i. dle (pr_quantity r) (sp_available_quantity i)) (t_supplier_products s))))"

definition opt_text :: "string option \<Rightarrow> string" where
  "opt_text v = (case v of None \<Rightarrow> ''None'' | Some x \<Rightarrow> x)"

definition catalog_quote :: "int \<Rightarrow> purchase_request \<Rightarrow> supplier_product_row \<times> supplier_row \<Rightarrow> supplier_quote" where
  "catalog_quote now r row = (case row of (i, sr) \<Rightarrow>
     \<lparr>sq_supplier_id = row_id sr, sq_supplier_name = s_name sr, sq_sku = pr_sku r,
      sq_available_quantity = sp_available_quantity i, sq_unit_price = sp_unit_price i, sq_currency = ''INR'',
      sq_delivery_at = now + days (sp_lead_time_days i),
      sq_quote_id = ''catalog:'' @ str_uuid (row_id sr) @ '':'' @ opt_text (pr_request_id r) @ '':'' @ pr_sku r,
      sq_expires_at = now + minutes 10\<rparr>)"

definition remember :: "supplier_quote \<Rightarrow> (string \<rightharpoonup> supplier_quote) \<Rightarrow> (string \<rightharpoonup> supplier_quote)" where
  "remember q m = m(sq_quote_id q \<mapsto> q)"

definition catalog_discover :: "purchase_request \<Rightarrow> (catalog_state, exc, supplier_quote list) prog" where
  "catalog_discover r st = (case st of (s, m) \<Rightarrow>
     (let qs = map (catalog_quote (clock s) r) (catalog_rows s r)
      in if list_all (\<lambda>q. check_supplier_quote q = Inr q) qs then (Inr qs, (s, fold remember qs m))
         else (Inl (validation_error ''SupplierQuote''), st)))"

definition catalog_first_quote :: "purchase_request \<Rightarrow> (catalog_state, exc, supplier_quote) prog" where
  "catalog_first_quote r =
     bnd (catalog_discover r) (\<lambda>qs. case qs of
       [] \<Rightarrow> raise (Exc PyLookupError ''No supplier catalog stock is available for this SKU'')
     | q # _ \<Rightarrow> ret q)"

definition catalog_counter_offer ::
  "supplier_quote \<Rightarrow> dec \<Rightarrow> dec \<Rightarrow> string \<Rightarrow> (catalog_state, exc, supplier_quote option) prog" where
  "catalog_counter_offer q unit_price quantity key st = (case st of (s, m) \<Rightarrow>
     (if dlt (sq_available_quantity q) quantity then (Inr None, st)
      else let offered = quantize 2 unit_price; lowest = quantize 2 (dmul (sq_unit_price q) (Dec 90 2))
           in if dlt offered lowest then (Inr None, st)
              else let revised = q\<lparr>sq_unit_price := offered\<rparr> in (Inr (Some revised), (s, remember revised m))))"

text \<open>Placing an order reads the memory of quotes only.\<close>

definition catalog_order ::
  "(uuid \<Rightarrow> string \<Rightarrow> uuid) \<Rightarrow> purchase_proposal \<Rightarrow> string \<Rightarrow> (string \<rightharpoonup> supplier_quote) \<Rightarrow> exc + order_result" where
  "catalog_order uuid5 p key m =
     (case m (pp_quote_id p) of
        Some q \<Rightarrow>
          (if sq_supplier_id q = pp_supplier_id p
           then Inr \<lparr>or_order_id = uuid5 (pp_proposal_id p) key, or_status = OS_APPROVAL_PENDING,
                     or_supplier_confirmation = None, or_transaction_id = None\<rparr>
           else Inl (Exc PyLookupError ''Supplier quote is no longer available''))
      | None \<Rightarrow> Inl (Exc PyLookupError ''Supplier quote is no longer available''))"

definition catalog_place_order ::
  "(uuid \<Rightarrow> string \<Rightarrow> uuid) \<Rightarrow> purchase_proposal \<Rightarrow> string \<Rightarrow> (catalog_state, exc, order_result) prog" where
  "catalog_place_order uuid5 p key st = (catalog_order uuid5 p key (snd st), st)"

definition catalog_adapter :: "(uuid \<Rightarrow> string \<Rightarrow> uuid) \<Rightarrow> catalog_state adapter" where
  "catalog_adapter uuid5 =
     \<lparr>ad_supplier_id = None, ad_handles_all = True, ad_discover = catalog_discover,
      ad_counter_offer = catalog_counter_offer, ad_place_order = catalog_place_order uuid5\<rparr>"

lemma catalog_rows_mem:
  "(i, sr) \<in> set (catalog_rows s r) \<Longrightarrow>
     i \<in> set (t_supplier_products s) \<and> dle (pr_quantity r) (sp_available_quantity i)
   \<and> sr \<in> set (t_suppliers s) \<and> row_id sr = sp_supplier_id i \<and> s_is_active sr
   \<and> (\<exists>p \<in> set (t_products s). row_id p = sp_product_id i \<and> upper (p_sku p) = upper (strip (pr_sku r)))"
  by (auto simp: catalog_rows_def)

interpretation catalog: supplier_adapter catalog_discover catalog_counter_offer
proof unfold_locales
  fix r qs t q and s :: catalog_state
  assume "catalog_discover r s = (Inr qs, t)" "q \<in> set qs"
  then show "sq_sku q = pr_sku r \<and> rat_of (pr_quantity r) \<le> rat_of (sq_available_quantity q)"
    by (auto simp: catalog_discover_def catalog_quote_def Let_def dle_rat split: prod.splits if_splits
        dest!: catalog_rows_mem)
next
  fix q price quantity key t q' and s :: catalog_state
  assume run: "catalog_counter_offer q price quantity key s = (Inr (Some q'), t)"
  then have q': "q' = q\<lparr>sq_unit_price := quantize 2 price\<rparr>"
    and stock: "rat_of quantity \<le> rat_of (sq_available_quantity q)"
    by (auto simp: catalog_counter_offer_def Let_def dlt_rat split: prod.splits if_splits)
  show "sq_supplier_id q' = sq_supplier_id q \<and> sq_sku q' = sq_sku q
      \<and> sq_available_quantity q' = sq_available_quantity q \<and> sq_delivery_at q' = sq_delivery_at q
      \<and> sq_quote_id q' = sq_quote_id q"
    by (simp add: q')
  show "rat_of quantity \<le> rat_of (sq_available_quantity q)" by (rule stock)
  show "\<bar>rat_of (sq_unit_price q') - rat_of price\<bar> \<le> 1 / 200"
    using quantize_close [of 2 price] by (simp add: q')
qed

text \<open>The catalog never sells below ninety percent of its list price (rounded to a cent).\<close>

lemma catalog_counter_floor:
  "catalog_counter_offer q price quantity key s = (Inr (Some q'), t) \<Longrightarrow>
   rat_of (quantize 2 (dmul (sq_unit_price q) (Dec 90 2))) \<le> rat_of (sq_unit_price q')"
  by (auto simp: catalog_counter_offer_def Let_def dlt_rat not_less split: prod.splits if_splits)

end
