(* ===== verification/Orders.thy ===== *)
theory Orders
  imports Approvals Idempotency A2A Procurement
begin

text \<open>
  Order execution: \<open>OrderRepository\<close> lookups and \<open>OrderService.execute\<close>, which turns an approved
  proposal into an order, its item, its transaction, events, notifications and an audit entry, and
  calls the supplier adapter once.  The state is the session together with the adapter's own state
  \<open>'a\<close>, which no transaction rolls back.
\<close>

section \<open>Rows and repository\<close>

definition order_clash :: "order_row \<Rightarrow> order_row \<Rightarrow> bool" where
  "order_clash x y \<longleftrightarrow>
     (o_merchant_id x = o_merchant_id y \<and> o_idempotency_key x = o_idempotency_key y)
     \<or> o_proposal_id x = o_proposal_id y \<or> o_order_hash x = o_order_hash y"

definition transaction_clash :: "transaction_row \<Rightarrow> transaction_row \<Rightarrow> bool" where
  "transaction_clash x y \<longleftrightarrow> t_order_id x = t_order_id y
     \<or> (t_merchant_id x = t_merchant_id y \<and> t_idempotency_key x = t_idempotency_key y)"

definition order_get :: "uuid \<Rightarrow> order_row m" where
  "order_get i = bnd (gets (\<lambda>s. by_id i (t_orders s))) (\<lambda>r. require r (Exc NotFoundError ''Order not found''))"

definition order_get_for_merchant :: "uuid \<Rightarrow> uuid \<Rightarrow> order_row m" where
  "order_get_for_merchant i merchant =
     bnd (gets (\<lambda>s. find (\<lambda>x. row_id x = i \<and> o_merchant_id x = merchant) (t_orders s)))
       (\<lambda>r. require r (Exc NotFoundError ''Order not found''))"

definition order_by_key :: "uuid \<Rightarrow> string \<Rightarrow> db \<Rightarrow> order_row option" where
  "order_by_key merchant key s =
     find (\<lambda>x. o_merchant_id x = merchant \<and> o_idempotency_key x = key) (t_orders s)"

definition orders_add :: "order_row \<Rightarrow> unit m" where
  "orders_add = add_row t_orders t_orders_update order_clash"

definition order_supplier_row :: "uuid \<Rightarrow> supplier_row m" where
  "order_supplier_row i =
     bnd (gets (\<lambda>s. by_id i (t_suppliers s))) (\<lambda>r. require r (Exc NotFoundError ''Supplier not found''))"

definition order_items :: "uuid \<Rightarrow> db \<Rightarrow> order_item_row list" where
  "order_items i s = sort_key (\<lambda>x. (created_at x, uint (row_id x))) (filter (\<lambda>x. oi_order_id x = i) (t_order_items s))"

definition order_timeline :: "uuid \<Rightarrow> uuid \<Rightarrow> db \<Rightarrow> order_event_row list" where
  "order_timeline i merchant s = sort_key (\<lambda>x. (created_at x, uint (row_id x)))
     (filter (\<lambda>x. oe_order_id x = i \<and> oe_merchant_id x = merchant) (t_order_events s))"

definition new_order ::
  "uuid \<Rightarrow> int \<Rightarrow> uuid \<Rightarrow> purchase_proposal \<Rightarrow> approval_row \<Rightarrow> string \<Rightarrow> order_row" where
  "new_order i now merchant p a key =
     \<lparr>row_id = i, created_at = now, updated_at = now, o_merchant_id = merchant, o_store_id = pp_store_id p,
      o_supplier_id = pp_supplier_id p, o_proposal_id = pp_proposal_id p, o_approval_id = Some (row_id a),
      o_order_hash = ap_order_hash a, o_status = OS_EXECUTING, o_currency = pp_currency p,
      o_total_amount = total_amount p, o_idempotency_key = key, o_supplier_reference = None,
      o_failure_reason = None\<rparr>"

definition new_item :: "uuid \<Rightarrow> int \<Rightarrow> uuid \<Rightarrow> purchase_proposal \<Rightarrow> order_item_row" where
  "new_item i now order p =
     \<lparr>row_id = i, created_at = now, updated_at = now, oi_order_id = order, oi_product_id = None,
      oi_sku = pp_sku p, oi_quantity = pp_quantity p, oi_unit = pp_unit p, oi_unit_price = pp_unit_price p\<rparr>"

definition new_transaction ::
  "uuid \<Rightarrow> int \<Rightarrow> uuid \<Rightarrow> uuid \<Rightarrow> approval_row \<Rightarrow> purchase_proposal \<Rightarrow> string \<Rightarrow> transaction_row" where
  "new_transaction i now merchant order a p key =
     \<lparr>row_id = i, created_at = now, updated_at = now, t_merchant_id = merchant, t_order_id = order,
      t_approval_id = row_id a, t_amount = total_amount p, t_currency = pp_currency p,
      t_status = TS_PENDING, t_idempotency_key = key, t_provider_reference = None, t_error = None\<rparr>"

definition add_order_event :: "env \<Rightarrow> uuid \<Rightarrow> uuid \<Rightarrow> order_status \<Rightarrow> dict \<Rightarrow> unit m" where
  "add_order_event e merchant order st details =
     bnd (new_uuid e) (\<lambda>i. bnd (gets clock) (\<lambda>now.
       add_row t_order_events t_order_events_update no_clash
         \<lparr>row_id = i, created_at = now, updated_at = now, oe_merchant_id = merchant, oe_order_id = order,
          oe_status = st, oe_details = details\<rparr>))"

section \<open>The supplier\<close>

record 'a order_supplier = "'a adapter" +
  os_pop_pending :: "string \<Rightarrow> 'a \<Rightarrow> (a2a_envelope \<times> string \<times> uuid) list \<times> 'a"
  os_correlation :: "string \<Rightarrow> 'a \<Rightarrow> uuid option"

type_synonym ('a, 'b) om = "(db \<times> 'a, exc, 'b) prog"

definition pop_pending :: "'a order_supplier \<Rightarrow> string \<Rightarrow> ('a, (a2a_envelope \<times> string \<times> uuid) list) om" where
  "pop_pending sp key w = (case os_pop_pending sp key (snd w) of (ms, a) \<Rightarrow> (Inr ms, (fst w, a)))"

lemma pop_pending_run [run_simps]:
  "pop_pending sp key w = (r, w') \<longleftrightarrow>
     (\<exists>ms. os_pop_pending sp key (snd w) = (ms, snd w') \<and> r = Inr ms \<and> fst w' = fst w)"
  by (cases w') (auto simp: pop_pending_def split: prod.splits)

section \<open>Execution\<close>

text \<open>The gate: what has to hold of the approval before anything is written.\<close>

definition order_authorize ::
  "env \<Rightarrow> approval_service \<Rightarrow> uuid \<Rightarrow> uuid \<Rightarrow> string \<Rightarrow> (approval_row \<times> purchase_proposal \<times> merchant_row) m" where
  "order_authorize e sv approval_id merchant token =
     bnd (approvals_get approval_id None) (\<lambda>a.
     andthen (guard (ap_merchant_id a = merchant) (Exc AuthorizationError ''Approval belongs to another merchant''))
     (andthen (guard (ap_status a = AS_APPROVED) (Exc ConflictError ''Order execution requires an approved proposal''))
     (bnd (gets clock) (\<lambda>now.
     andthen (guard (now < as_utc (ap_expires_at a)) (Exc StaleApprovalError ''Approval expired before execution''))
     (andthen (lift (verify_token e sv now a token))
     (andthen (guard (canonical_order_hash e (ap_proposal_payload a) = ap_order_hash a)
                (Exc AuthorizationError ''Approved order payload has changed''))
     (bnd (lift (proposal_of_payload (ap_proposal_payload a))) (\<lambda>p.
     bnd (gets (\<lambda>s. by_id merchant (t_merchants s))) (\<lambda>found.
     bnd (require found (Exc AuthorizationError ''Merchant no longer exists'')) (\<lambda>mr.
     andthen (guard (\<not> dlt (m_spending_limit mr) (total_amount p))
                (Exc AuthorizationError ''Order exceeds the merchant spending limit''))
     (ret (a, p, mr))))))))))))"

text \<open>The rows that exist before the supplier is called.\<close>

definition order_open ::
  "env \<Rightarrow> uuid \<Rightarrow> string \<Rightarrow> approval_row \<Rightarrow> purchase_proposal \<Rightarrow> (uuid \<times> order_row \<times> uuid) m" where
  "order_open e merchant key a p =
     bnd (add_idem e (''order:'' @ str_uuid merchant) key (ap_order_hash a)) (\<lambda>idem.
     bnd (gets clock) (\<lambda>now.
     bnd (new_uuid e) (\<lambda>i.
     (let ord = new_order i now merchant p a key in
     andthen (orders_add ord)
     (andthen (add_order_event e merchant i OS_EXECUTING [(''approval_id'', JStr (str_uuid (row_id a)))])
     (bnd (new_uuid e) (\<lambda>item.
     andthen (add_row t_order_items t_order_items_update no_clash (new_item item now i p))
     (bnd (new_uuid e) (\<lambda>tx.
     andthen (add_row t_transactions t_transactions_update transaction_clash (new_transaction tx now merchant i a p key))
     (ret (idem, ord, tx)))))))))))"

text \<open>What the supplier's answer (or exception) does to the order and its transaction.\<close>

definition settle_order :: "exc + order_result \<Rightarrow> order_row \<Rightarrow> order_row" where
  "settle_order res x = (case res of
     Inl ex \<Rightarrow> x\<lparr>o_status := OS_FAILED, o_failure_reason := Some (exc_name (cls ex))\<rparr>
   | Inr r \<Rightarrow> x\<lparr>o_status := or_status r, o_supplier_reference := or_supplier_confirmation r\<rparr>)"

definition settle_transaction :: "exc + order_result \<Rightarrow> transaction_row \<Rightarrow> transaction_row" where
  "settle_transaction res x = (case res of
     Inl ex \<Rightarrow> x\<lparr>t_status := TS_FAILED, t_error := Some [(''type'', JStr (exc_name (cls ex)))]\<rparr>
   | Inr r \<Rightarrow> if or_status r = OS_APPROVAL_PENDING then x
             else x\<lparr>t_status := TS_SUCCEEDED, t_provider_reference := or_supplier_confirmation r\<rparr>)"

definition settle_event :: "exc + order_result \<Rightarrow> event_type" where
  "settle_event res = (case res of
     Inl ex \<Rightarrow> ORDER_FAILED
   | Inr r \<Rightarrow> if or_status r = OS_APPROVAL_PENDING then APPROVAL_REQUIRED else ORDER_EXECUTED)"

text \<open>The envelopes that the adapter exchanged while placing the order.\<close>

definition order_message ::
  "uuid \<Rightarrow> int \<Rightarrow> uuid option \<Rightarrow> uuid \<Rightarrow> uuid \<Rightarrow> a2a_envelope \<Rightarrow> string \<Rightarrow> uuid \<Rightarrow> a2a_message_row" where
  "order_message i now negotiation supplier order v dir merchant =
     (message_of_envelope i now v dir)\<lparr>msg_merchant_id := Some merchant, msg_supplier_id := Some supplier,
        msg_order_id := Some order, msg_negotiation_id := negotiation,
        msg_status := (if dir = ''OUTBOUND'' then ''SENT'' else ''RECEIVED''),
        msg_processed_at := Some (env_timestamp v)\<rparr>"

definition record_order_message ::
  "env \<Rightarrow> uuid \<Rightarrow> uuid \<Rightarrow> a2a_envelope \<times> string \<times> uuid \<Rightarrow> unit m" where
  "record_order_message e supplier order mv = (case mv of (v, dir, merchant) \<Rightarrow>
     bnd (gets (\<lambda>s. map_option row_id (find (\<lambda>n. n_merchant_id n = merchant
            \<and> n_correlation_id n = env_correlation_id v) (t_negotiations s)))) (\<lambda>negotiation.
     bnd (new_uuid e) (\<lambda>i. bnd (gets clock) (\<lambda>now.
     andthen (add_row t_a2a_messages t_a2a_messages_update message_clash
                (order_message i now negotiation supplier order v dir merchant))
     (add_outbox e (Some merchant) ''a2a_message'' i A2A_MESSAGE_RECEIVED
        (Some (str_uuid (env_correlation_id v))) (Some (env_trace_id v))
        [(''activity_id'', JStr (str_uuid i)), (''intent'', JStr (intent_str (env_intent v))),
         (''direction'', JStr dir), (''supplier_id'', JStr (str_uuid supplier)),
         (''order_id'', JStr (str_uuid order))])))))"

definition order_notice_title :: "order_status \<Rightarrow> string" where
  "order_notice_title st = (if st = OS_APPROVAL_PENDING then ''Order sent to supplier''
     else if st = OS_CONFIRMED then ''Order confirmed'' else ''Order failed'')"

definition order_notice_body :: "order_status \<Rightarrow> string" where
  "order_notice_body st = (if st = OS_APPROVAL_PENDING then ''The supplier has been asked to approve the order.''
     else if st = OS_CONFIRMED then ''Your supplier confirmed the purchase order.''
     else ''The supplier could not complete the purchase order.'')"

definition order_audit_action :: "order_status \<Rightarrow> string" where
  "order_audit_action st = (if st = OS_APPROVAL_PENDING then ''order.awaiting_supplier_approval''
     else if st = OS_CONFIRMED then ''order.executed'' else ''order.failed'')"

definition notify_supplier ::
  "env \<Rightarrow> string \<Rightarrow> merchant_row \<Rightarrow> uuid \<Rightarrow> purchase_proposal \<Rightarrow> order_row \<Rightarrow> unit m" where
  "notify_supplier e correlation mr merchant p ord =
     bnd (gets (\<lambda>s. case by_id (pp_supplier_id p) (t_suppliers s) of None \<Rightarrow> None | Some x \<Rightarrow> s_merchant_id x)) (\<lambda>account.
     case account of
       None \<Rightarrow> ret ()
     | Some acc \<Rightarrow>
         bnd (add_notification e acc NT_APPROVAL_REQUIRED ''New purchase order needs approval''
                (m_name mr @ '' requested '' @ str_dec (pp_quantity p) @ '' '' @ pp_unit p @ '' of '' @ pp_sku p
                 @ ''. Review stock before settlement.'') (Some ''order'') (Some (row_id ord))
                [(''status'', JStr (order_status_str (o_status ord))),
                 (''buyer_merchant_id'', JStr (str_uuid merchant))]) (\<lambda>nid.
           add_outbox e (Some acc) ''notification'' nid NOTIFICATION_CREATED (Some correlation) None
             [(''notification_id'', JStr (str_uuid nid)), (''entity_type'', JStr ''order''),
              (''entity_id'', JStr (str_uuid (row_id ord)))]))"

text \<open>Everything after the messages: the stored response, events, notifications, the link from the
  negotiation's messages to the order, the audit entry.\<close>

definition order_finish ::
  "env \<Rightarrow> string \<Rightarrow> uuid \<Rightarrow> uuid \<Rightarrow> approval_row \<Rightarrow> purchase_proposal \<Rightarrow> merchant_row \<Rightarrow> order_row \<Rightarrow> event_type
   \<Rightarrow> uuid option \<Rightarrow> unit m" where
  "order_finish e correlation merchant idem a p mr ord etype a2a_correlation =
     (let st = order_status_str (o_status ord); oid = row_id ord in
     andthen (idem_complete idem [(''order_id'', JStr (str_uuid oid)), (''status'', JStr st)])
     (andthen (add_outbox e (Some merchant) ''order'' oid etype (Some correlation) None
        [(''order_id'', JStr (str_uuid oid)), (''status'', JStr st)])
     (andthen (add_order_event e merchant oid (o_status ord)
        [(''supplier_reference'', opt_json JStr (o_supplier_reference ord)),
         (''failure_reason'', opt_json JStr (o_failure_reason ord))])
     (bnd (add_notification e merchant NT_ORDER_UPDATE (order_notice_title (o_status ord))
             (order_notice_body (o_status ord)) (Some ''order'') (Some oid) [(''status'', JStr st)]) (\<lambda>nid.
     andthen (if o_status ord = OS_APPROVAL_PENDING then notify_supplier e correlation mr merchant p ord else ret ())
     (andthen (case a2a_correlation of
        None \<Rightarrow> ret ()
      | Some c \<Rightarrow> bnd (gets clock) (\<lambda>now. modify (\<lambda>s. s\<lparr>t_a2a_messages :=
            upd (\<lambda>x. msg_merchant_id x = Some merchant \<and> msg_correlation_id x = c)
              (\<lambda>x. x\<lparr>msg_order_id := Some oid, updated_at := now\<rparr>) (t_a2a_messages s)\<rparr>)))
     (andthen (add_outbox e (Some merchant) ''notification'' nid NOTIFICATION_CREATED (Some correlation) None
        [(''notification_id'', JStr (str_uuid nid)),
         (''notification_type'', JStr (notification_type_str NT_ORDER_UPDATE)),
         (''entity_type'', JStr ''order''), (''entity_id'', JStr (str_uuid oid))])
     (add_audit e (Some merchant) ''TRANSACTION_SERVICE'' ''order-executor'' (order_audit_action (o_status ord))
        ''order'' (str_uuid oid) None
        [(''approval_id'', JStr (str_uuid (row_id a))), (''order_hash'', JStr (ap_order_hash a)),
         (''status'', JStr st)]))))))))"

text \<open>What follows the supplier's answer.\<close>

definition order_settle ::
  "env \<Rightarrow> 'a order_supplier \<Rightarrow> uuid \<Rightarrow> string \<Rightarrow> approval_row \<Rightarrow> purchase_proposal \<Rightarrow> merchant_row
   \<Rightarrow> uuid \<times> order_row \<times> uuid \<Rightarrow> exc + order_result \<Rightarrow> ('a, order_row) om" where
  "order_settle e sp merchant key a p mr opened res = (case opened of (idem, ord0, tx) \<Rightarrow>
     (let ord = settle_order res ord0; correlation = rsplit_head (CHR '':'') 2 key in
     andthen (on_db (change_row t_orders t_orders_update (row_id ord0) (settle_order res)))
     (andthen (on_db (change_row t_transactions t_transactions_update tx (settle_transaction res)))
     (bnd (pop_pending sp key) (\<lambda>msgs.
     andthen (on_db (mapP (record_order_message e (pp_supplier_id p) (row_id ord)) msgs))
     (bnd (gets (\<lambda>w. os_correlation sp (pp_quote_id p) (snd w))) (\<lambda>corr.
     andthen (on_db (order_finish e correlation merchant idem a p mr ord (settle_event res) corr))
     (ret ord))))))))"

definition order_execute ::
  "env \<Rightarrow> approval_service \<Rightarrow> 'a order_supplier \<Rightarrow> uuid \<Rightarrow> uuid \<Rightarrow> string \<Rightarrow> string \<Rightarrow> ('a, order_row) om" where
  "order_execute e sv sp approval_id merchant token key =
     bnd (on_db (gets (order_by_key merchant key))) (\<lambda>existing.
     case existing of
       Some x \<Rightarrow> ret x
     | None \<Rightarrow>
         bnd (on_db (order_authorize e sv approval_id merchant token)) (\<lambda>(a, p, mr).
         bnd (on_db (order_open e merchant key a p)) (\<lambda>opened.
         bnd (attempt (on_world (ad_place_order sp p key)))
           (order_settle e sp merchant key a p mr opened))))"

section \<open>What the steps do\<close>

definition authorized ::
  "env \<Rightarrow> approval_service \<Rightarrow> db \<Rightarrow> uuid \<Rightarrow> uuid \<Rightarrow> string \<Rightarrow> approval_row \<Rightarrow> purchase_proposal \<Rightarrow> merchant_row \<Rightarrow> bool" where
  "authorized e sv s i merchant token a p mr \<longleftrightarrow>
     find_approval i None s = Some a \<and> ap_merchant_id a = merchant \<and> ap_status a = AS_APPROVED
   \<and> clock s < as_utc (ap_expires_at a) \<and> verify_token e sv (clock s) a token = Inr ()
   \<and> canonical_order_hash e (ap_proposal_payload a) = ap_order_hash a
   \<and> proposal_of_payload (ap_proposal_payload a) = Inr p
   \<and> by_id merchant (t_merchants s) = Some mr \<and> rat_of (total_amount p) \<le> rat_of (m_spending_limit mr)"

lemma authorize_Inr [run_simps]:
  "order_authorize e sv i merchant token s = (Inr (a, p, mr), t) \<longleftrightarrow>
     authorized e sv s i merchant token a p mr \<and> t = s"
  by (auto simp: order_authorize_def authorized_def run_simps dlt_rat not_less)

text \<open>The order and the transaction that \<open>order_open\<close> leaves.\<close>

lemma order_open_Inr:
  "order_open e merchant key a p s = (Inr (idem, ord, tx), t) \<Longrightarrow>
     ord = new_order (row_id ord) (clock s) merchant p a key
   \<and> (\<forall>x \<in> set (t_orders s). row_id x \<noteq> row_id ord \<and> \<not> order_clash x ord)
   \<and> t_orders t = t_orders s @ [ord]
   \<and> (\<forall>x \<in> set (t_transactions s). row_id x \<noteq> tx
        \<and> \<not> transaction_clash x (new_transaction tx (clock s) merchant (row_id ord) a p key))
   \<and> t_transactions t = t_transactions s @ [new_transaction tx (clock s) merchant (row_id ord) a p key]
   \<and> clock t = clock s
   \<and> (\<exists>x. t_order_items t = t_order_items s @ [x] \<and> oi_order_id x = row_id ord \<and> oi_quantity x = pp_quantity p)
   \<and> (\<exists>x. t_order_events t = t_order_events s @ [x] \<and> oe_order_id x = row_id ord \<and> oe_status x = OS_EXECUTING)"
  by (auto simp: order_open_def orders_add_def add_order_event_def run_simps Let_def new_order_def new_item_def
      new_transaction_def)

text \<open>After the supplier's answer is settled, only events, messages, notifications, the audit log and
  the idempotency key are written.\<close>

lemma keeps_idem_complete [keeps_intros]:
  "(\<And>s rows. P s \<Longrightarrow> P (s\<lparr>t_idempotency_keys := rows\<rparr>)) \<Longrightarrow> keeps P (idem_complete i d)"
  unfolding idem_complete_def by (intro keeps_intros) auto

lemma order_finish_frame:
  "keeps (\<lambda>s. t_orders s = X \<and> t_transactions s = Y) (order_finish e c m idem a p mr ord et corr)"
  unfolding order_finish_def notify_supplier_def add_order_event_def Let_def
  by (intro keeps_intros keeps_modify) auto

lemma record_messages_frame:
  "keeps (\<lambda>s. t_orders s = X \<and> t_transactions s = Y) (mapP (record_order_message e supplier order) ms)"
  unfolding record_order_message_def by (intro keeps_intros) auto

lemma mutate_now: "updated_at r = now \<Longrightarrow> updated_at (f r) = now \<Longrightarrow> mutate now f r = f r"
  by (cases r; cases "f r") (auto simp: mutate_def)

lemma settled_rows:
  assumes "order_open e merchant key a p s = (Inr (idem, ord, tx), u)"
  shows "upd (\<lambda>x. row_id x = row_id ord) (mutate (clock u) (settle_order res)) (t_orders u)
           = t_orders s @ [settle_order res ord]"
    and "upd (\<lambda>x. row_id x = tx) (mutate (clock u) (settle_transaction res)) (t_transactions u)
           = t_transactions s @ [settle_transaction res (new_transaction tx (clock s) merchant (row_id ord) a p key)]"
proof -
  note o = order_open_Inr [OF assms]
  have now: "updated_at ord = clock s" using o by (metis new_order_def row.select_convs(3))
  have "mutate (clock u) (settle_order res) ord = settle_order res ord"
    using o now by (intro mutate_now) (simp_all add: settle_order_def split: sum.splits)
  then show "upd (\<lambda>x. row_id x = row_id ord) (mutate (clock u) (settle_order res)) (t_orders u)
           = t_orders s @ [settle_order res ord]"
    using o by (simp add: upd_none)
  let ?n = "new_transaction tx (clock s) merchant (row_id ord) a p key"
  have n: "row_id ?n = tx" "updated_at ?n = clock s" by (simp_all add: new_transaction_def)
  have "mutate (clock u) (settle_transaction res) ?n = settle_transaction res ?n"
    using o n by (intro mutate_now) (simp_all add: settle_transaction_def split: sum.splits)
  then show "upd (\<lambda>x. row_id x = tx) (mutate (clock u) (settle_transaction res)) (t_transactions u)
           = t_transactions s @ [settle_transaction res ?n]"
    using o n by (simp add: upd_none)
qed

section \<open>Execution as a whole\<close>

lemma order_replay:
  "order_by_key merchant key (fst w) = Some x \<Longrightarrow> order_execute e sv sp i merchant token key w = (Inr x, w)"
  by (simp add: order_execute_def exec_defs on_db_def)

text \<open>The steps of a first execution.\<close>

lemma keeps_pop_pending: "keeps (\<lambda>w. P (fst w)) (pop_pending sp key)"
  by (auto simp: keeps_def pop_pending_run)

lemma order_settle_rows:
  assumes "order_settle e sp merchant key a p mr (idem, ord, tx) res (u, v) = (r, w')"
  shows "t_orders (fst w') = upd (\<lambda>x. row_id x = row_id ord) (mutate (clock u) (settle_order res)) (t_orders u)
    \<and> t_transactions (fst w') = upd (\<lambda>x. row_id x = tx) (mutate (clock u) (settle_transaction res)) (t_transactions u)
    \<and> (case r of Inl x \<Rightarrow> True | Inr y \<Rightarrow> y = settle_order res ord)"
proof -
  let ?O = "upd (\<lambda>x. row_id x = row_id ord) (mutate (clock u) (settle_order res)) (t_orders u)"
  let ?T = "upd (\<lambda>x. row_id x = tx) (mutate (clock u) (settle_transaction res)) (t_transactions u)"
  let ?P = "\<lambda>s. t_orders s = ?O \<and> t_transactions s = ?T"
  let ?tail = "bnd (pop_pending sp key) (\<lambda>msgs.
     andthen (on_db (mapP (record_order_message e (pp_supplier_id p) (row_id (settle_order res ord))) msgs))
     (bnd (gets (\<lambda>w. os_correlation sp (pp_quote_id p) (snd w))) (\<lambda>corr.
     andthen (on_db (order_finish e (rsplit_head (CHR '':'') 2 key) merchant idem a p mr (settle_order res ord)
       (settle_event res) corr)) (ret (settle_order res ord)))))"
  have tail: "?tail (u\<lparr>t_orders := ?O, t_transactions := ?T\<rparr>, v) = (r, w')"
    using assms by (simp add: order_settle_def Let_def andthen_def bnd_def on_db_def change_row_def)
  have "keeps (\<lambda>w. ?P (fst w)) ?tail"
    by (intro keeps_intros keeps_pop_pending record_messages_frame order_finish_frame)
  from keepsD [OF this tail] have "?P (fst w')" by simp
  moreover have "y = settle_order res ord" if "r = Inr y" for y
    using tail unfolding that by (simp only: run_simps) blast
  ultimately show ?thesis by (auto split: sum.splits)
qed

lemma order_execute_cases:
  assumes "order_execute e sv sp i merchant token key w = (r, w')"
    and "order_by_key merchant key (fst w) = None"
  obtains (refused) x where "r = Inl x" "order_authorize e sv i merchant token (fst w) = (Inl x, fst w')" "snd w' = snd w"
  | (clash) a p mr x where "authorized e sv (fst w) i merchant token a p mr" "r = Inl x"
      "order_open e merchant key a p (fst w) = (Inl x, fst w')" "snd w' = snd w"
  | (called) a p mr idem ord tx u res v where "authorized e sv (fst w) i merchant token a p mr"
      "order_open e merchant key a p (fst w) = (Inr (idem, ord, tx), u)"
      "ad_place_order sp p key (snd w) = (res, v)"
      "order_settle e sp merchant key a p mr (idem, ord, tx) res (u, v) = (r, w')"
proof (cases "order_authorize e sv i merchant token (fst w)")
  case (Pair r1 s1)
  have run: "bnd (on_db (order_authorize e sv i merchant token)) (\<lambda>(a, p, mr).
         bnd (on_db (order_open e merchant key a p)) (\<lambda>opened.
         bnd (attempt (on_world (ad_place_order sp p key)))
           (order_settle e sp merchant key a p mr opened))) w = (r, w')"
    using assms by (simp add: order_execute_def bnd_def gets_def on_db_def)
  show thesis
  proof (cases r1)
    case (Inl x)
    with run Pair show thesis by (intro refused) (auto simp: bnd_def on_db_def)
  next
    case (Inr apm)
    obtain a p mr where apm: "apm = (a, p, mr)" by (cases apm)
    with Pair Inr have au: "authorized e sv (fst w) i merchant token a p mr" and s1: "s1 = fst w"
      by (auto simp: authorize_Inr)
    have run2: "bnd (on_db (order_open e merchant key a p)) (\<lambda>opened.
         bnd (attempt (on_world (ad_place_order sp p key)))
           (order_settle e sp merchant key a p mr opened)) w = (r, w')"
      using run Pair Inr apm s1 by (simp add: bnd_def on_db_def)
    obtain r2 u where op2: "order_open e merchant key a p (fst w) = (r2, u)"
      by (cases "order_open e merchant key a p (fst w)")
    obtain res v where pl: "ad_place_order sp p key (snd w) = (res, v)"
      by (cases "ad_place_order sp p key (snd w)")
    show thesis
    proof (cases r2)
      case (Inl x)
      with run2 op2 au show thesis by (intro clash) (auto simp: bnd_def on_db_def)
    next
      case (Inr z)
      then show thesis using run2 op2 au pl
        by (cases z) (auto simp: bnd_def on_db_def attempt_def on_world_def intro!: called)
    qed
  qed
qed

text \<open>What a successful first execution has checked and what it leaves.\<close>

lemma order_execute_first:
  assumes "order_execute e sv sp i merchant token key w = (Inr y, w')"
    and "order_by_key merchant key (fst w) = None"
  shows "\<exists>a p mr tx res v. authorized e sv (fst w) i merchant token a p mr
    \<and> ad_place_order sp p key (snd w) = (res, v)
    \<and> y = settle_order res (new_order (row_id y) (clock (fst w)) merchant p a key)
    \<and> t_orders (fst w') = t_orders (fst w) @ [y]
    \<and> t_transactions (fst w') = t_transactions (fst w) @
         [settle_transaction res (new_transaction tx (clock (fst w)) merchant (row_id y) a p key)]
    \<and> (\<forall>x \<in> set (t_orders (fst w)). row_id x \<noteq> row_id y \<and> \<not> order_clash x y)
    \<and> (\<forall>x \<in> set (t_transactions (fst w)). row_id x \<noteq> tx
        \<and> \<not> transaction_clash x (new_transaction tx (clock (fst w)) merchant (row_id y) a p key))"
  using assms
proof (cases rule: order_execute_cases)
  case (called a p mr idem ord tx u res v)
  note o = order_open_Inr [OF called(2)]
  from order_settle_rows [OF called(4)] settled_rows [OF called(2), of res]
  have rows: "t_orders (fst w') = t_orders (fst w) @ [settle_order res ord]"
    "t_transactions (fst w') = t_transactions (fst w) @
         [settle_transaction res (new_transaction tx (clock (fst w)) merchant (row_id ord) a p key)]"
    and y: "y = settle_order res ord" by auto
  have same: "row_id y = row_id ord" "order_clash x y = order_clash x ord" for x
    unfolding y by (simp_all add: settle_order_def order_clash_def split: sum.splits)
  from called(1,3) o rows y same show ?thesis
    by (intro exI [of _ a] exI [of _ p] exI [of _ mr] exI [of _ tx] exI [of _ res] exI [of _ v]) (auto simp only:)
qed auto

section \<open>Invariants\<close>

text \<open>No two orders share an id, a proposal, an order hash or a merchant's key, and the transactions
  are one per order, for its amount.\<close>

definition order_paid :: "order_row \<Rightarrow> transaction_row \<Rightarrow> bool" where
  "order_paid x y \<longleftrightarrow> t_order_id y = row_id x \<and> t_merchant_id y = o_merchant_id x
     \<and> t_amount y = o_total_amount x \<and> t_currency y = o_currency x
     \<and> o_approval_id x = Some (t_approval_id y) \<and> t_idempotency_key y = o_idempotency_key x"

definition orders_ok :: "db \<Rightarrow> bool" where
  "orders_ok s \<longleftrightarrow> table_ok order_clash (t_orders s) \<and> table_ok transaction_clash (t_transactions s)
     \<and> list_all2 order_paid (t_orders s) (t_transactions s)"

lemma settle_transaction_fields [simp]:
  "row_id (settle_transaction res x) = row_id x" "t_order_id (settle_transaction res x) = t_order_id x"
  "t_merchant_id (settle_transaction res x) = t_merchant_id x" "t_amount (settle_transaction res x) = t_amount x"
  "t_currency (settle_transaction res x) = t_currency x" "t_approval_id (settle_transaction res x) = t_approval_id x"
  "t_idempotency_key (settle_transaction res x) = t_idempotency_key x"
  "transaction_clash y (settle_transaction res x) = transaction_clash y x"
  by (simp_all add: settle_transaction_def transaction_clash_def split: sum.splits)

lemma settle_order_fields [simp]:
  "row_id (settle_order res x) = row_id x" "o_merchant_id (settle_order res x) = o_merchant_id x"
  "o_total_amount (settle_order res x) = o_total_amount x" "o_currency (settle_order res x) = o_currency x"
  "o_approval_id (settle_order res x) = o_approval_id x" "o_idempotency_key (settle_order res x) = o_idempotency_key x"
  "o_proposal_id (settle_order res x) = o_proposal_id x" "o_order_hash (settle_order res x) = o_order_hash x"
  "order_clash y (settle_order res x) = order_clash y x"
  by (simp_all add: settle_order_def order_clash_def split: sum.splits)

lemma order_execute_ok:
  assumes "order_execute e sv sp i merchant token key w = (Inr y, w')" and "orders_ok (fst w)"
  shows "orders_ok (fst w')"
proof (cases "order_by_key merchant key (fst w)")
  case (Some x)
  from order_replay [OF this] assms show ?thesis by simp
next
  case None
  obtain a p tx res where
      y: "y = settle_order res (new_order (row_id y) (clock (fst w)) merchant p a key)"
    and t: "t_orders (fst w') = t_orders (fst w) @ [y]"
      "t_transactions (fst w') = t_transactions (fst w) @
         [settle_transaction res (new_transaction tx (clock (fst w)) merchant (row_id y) a p key)]"
    and new: "\<forall>x \<in> set (t_orders (fst w)). row_id x \<noteq> row_id y \<and> \<not> order_clash x y"
      "\<forall>x \<in> set (t_transactions (fst w)). row_id x \<noteq> tx
        \<and> \<not> transaction_clash x (new_transaction tx (clock (fst w)) merchant (row_id y) a p key)"
    using order_execute_first [OF assms(1) None] by blast
  let ?n = "new_transaction tx (clock (fst w)) merchant (row_id y) a p key"
  have n: "row_id ?n = tx" "t_order_id ?n = row_id y" "t_merchant_id ?n = merchant" "t_amount ?n = total_amount p"
    "t_currency ?n = pp_currency p" "t_approval_id ?n = row_id a" "t_idempotency_key ?n = key"
    by (simp_all add: new_transaction_def)
  have "o_merchant_id y = merchant" "o_total_amount y = total_amount p" "o_currency y = pp_currency p"
    "o_approval_id y = Some (row_id a)" "o_idempotency_key y = key"
    by (subst y, simp add: new_order_def)+
  then have "order_paid y (settle_transaction res ?n)" by (simp add: order_paid_def n)
  with assms(2) new n show ?thesis
    by (auto simp: orders_ok_def t intro!: table_ok_add list_all2_appendI)
qed

text \<open>Executing again with the same key answers with the stored order and does nothing.\<close>

lemma order_by_key_added:
  assumes "order_by_key m k s = None" and "t_orders t = t_orders s @ [y]" and "o_merchant_id y = m" "o_idempotency_key y = k"
  shows "order_by_key m k t = Some y"
  using assms by (simp add: order_by_key_def find_append)

lemma order_by_key_after:
  assumes "order_execute e sv sp i merchant token key w = (Inr y, w')"
  shows "order_by_key merchant key (fst w') = Some y"
proof (cases "order_by_key merchant key (fst w)")
  case (Some x)
  from order_replay [OF this, of e sv sp i token] assms have "y = x" "w' = w" by simp_all
  with Some show ?thesis by simp
next
  case None
  from order_execute_first [OF assms None] obtain a p res where
      y: "y = settle_order res (new_order (row_id y) (clock (fst w)) merchant p a key)"
    and t: "t_orders (fst w') = t_orders (fst w) @ [y]" by blast
  have "o_merchant_id y = merchant" "o_idempotency_key y = key"
    by (subst y, simp add: new_order_def)+
  with None t show ?thesis by (intro order_by_key_added)
qed

lemma order_execute_idempotent:
  "order_execute e sv sp i merchant token key w = (Inr y, w') \<Longrightarrow>
   order_execute e' sv' sp' i' merchant token' key w' = (Inr y, w')"
  by (rule order_replay) (rule order_by_key_after)

section \<open>Every authorised order is recorded\<close>

lemma fresh_change_row [returns_intros]:
  "draws_fresh e h 0 (change_row t_orders t_orders_update i f)" if "\<And>r. row_id (f r) = row_id r"
  for f :: "order_row \<Rightarrow> order_row"
  using that by (intro returnsI) (simp add: change_row_def fresh_def fresh_in_upd ids_left_def)

lemma fresh_change_transaction [returns_intros]:
  "draws_fresh e h 0 (change_row t_transactions t_transactions_update i f)" if "\<And>r. row_id (f r) = row_id r"
  for f :: "transaction_row \<Rightarrow> transaction_row"
  using that by (intro returnsI) (simp add: change_row_def fresh_def fresh_in_upd ids_left_def)

lemma fresh_idem_complete [returns_intros]: "draws_fresh e h 0 (idem_complete i d)"
  unfolding idem_complete_def
  by (intro returnsI) (simp add: change_row_def fresh_def fresh_in_upd completed_def ids_left_def)

lemma fresh_add_order_event [returns_intros]: "draws_fresh e h 1 (add_order_event e m i st d)"
proof (rule returnsI)
  fix s assume f: "fresh e h s" and l: "1 \<le> ids_left h s"
  then have "\<forall>x \<in> set (t_order_events s). row_id x \<noteq> uuid_at e (draws s)"
    by (auto simp: fresh_def ids_left_def dest: fresh_in_now)
  with f l show "\<exists>a t. add_order_event e m i st d s = (Inr a, t) \<and> fresh e h t \<and> ids_left h s \<le> ids_left h t + 1"
    by (simp add: add_order_event_def run_simps) (simp add: fresh_def fresh_in_add ids_left_def)
qed

lemma fresh_order_finish: "draws_fresh e h 7 (order_finish e c m idem a p mr ord et corr)"
  unfolding order_finish_def notify_supplier_def Let_def
  by (rule returns_weaken, (rule returns_intros returns_modify | simp add: fresh_def ids_left_def)+)

text \<open>The order and its transaction may be opened: the key, the proposal and the hash are new.\<close>

definition order_is_new :: "db \<Rightarrow> uuid \<Rightarrow> string \<Rightarrow> approval_row \<Rightarrow> purchase_proposal \<Rightarrow> bool" where
  "order_is_new s merchant key a p \<longleftrightarrow>
     (\<forall>x \<in> set (t_idempotency_keys s). \<not> (ik_scope x = ''order:'' @ str_uuid merchant \<and> ik_key x = key))
   \<and> (\<forall>x \<in> set (t_orders s). \<not> (o_merchant_id x = merchant \<and> o_idempotency_key x = key)
        \<and> o_proposal_id x \<noteq> pp_proposal_id p \<and> o_order_hash x \<noteq> ap_order_hash a)
   \<and> (\<forall>y \<in> set (t_transactions s). \<not> (t_merchant_id y = merchant \<and> t_idempotency_key y = key)
        \<and> (\<exists>x \<in> set (t_orders s). t_order_id y = row_id x))"

lemma order_open_returns:
  assumes fr: "fresh e h s" "5 \<le> ids_left h s" and new: "order_is_new s merchant key a p"
  shows "\<exists>r t. order_open e merchant key a p s = (Inr r, t) \<and> fresh e h t \<and> ids_left h s \<le> ids_left h t + 5"
proof -
  obtain i1 s1 where s1: "add_idem e (''order:'' @ str_uuid merchant) key (ap_order_hash a) s = (Inr i1, s1)"
    and f1: "fresh e h s1" and c1: "clock s1 = clock s" "t_orders s1 = t_orders s" "t_transactions s1 = t_transactions s"
      "draws s1 = draws s + 1"
  proof
    let ?k = "idem_row (uuid_at e (draws s)) (clock s) (''order:'' @ str_uuid merchant) key (ap_order_hash a)"
    let ?t = "s\<lparr>draws := draws s + 1, t_idempotency_keys := t_idempotency_keys s @ [?k]\<rparr>"
    show "add_idem e (''order:'' @ str_uuid merchant) key (ap_order_hash a) s = (Inr (uuid_at e (draws s)), ?t)"
      using new fr by (auto simp: add_idem_Inr order_is_new_def fresh_def ids_left_def dest: fresh_in_now)
    show "fresh e h ?t" using fr by (simp add: fresh_def fresh_in_add idem_row_def ids_left_def)
  qed simp_all
  have l1: "draws s1 < h" "draws s1 + 4 \<le> h" using fr c1 by (auto simp: ids_left_def)
  let ?i = "uuid_at e (draws s1)" and ?s2 = "s1\<lparr>draws := Suc (draws s1)\<rparr>"
  let ?o = "new_order ?i (clock s) merchant p a key"
  let ?s3 = "?s2\<lparr>t_orders := t_orders s @ [?o]\<rparr>"
  have o_id: "row_id ?o = ?i" by (simp add: new_order_def)
  have o_new: "\<forall>x \<in> set (t_orders s). row_id x \<noteq> ?i \<and> \<not> order_clash x ?o"
    using new f1 c1 l1 by (auto simp: order_is_new_def fresh_def order_clash_def new_order_def dest: fresh_in_now)
  have f3: "fresh e h ?s3"
    using f1 c1 l1 fresh_in_add [of e "draws s1" h "t_orders s1" ?o] o_id by (simp add: fresh_def)
  have l3: "1 \<le> ids_left h ?s3" using l1 by (simp add: ids_left_def)
  obtain s4 where s4: "add_order_event e merchant ?i OS_EXECUTING [(''approval_id'', JStr (str_uuid (row_id a)))] ?s3 = (Inr (), s4)"
    and f4: "fresh e h s4"
    using returnsE [OF fresh_add_order_event f3 l3] by (metis (full_types) old.unit.exhaust)
  have c4: "clock s4 = clock s" "t_transactions s4 = t_transactions s" "draws s4 = draws s1 + 2"
    using s4 c1 by (auto simp: add_order_event_def run_simps)
  have l4: "draws s4 < h" "Suc (draws s4) < h" using l1 c4 by simp_all
  let ?s5 = "s4\<lparr>draws := Suc (draws s4)\<rparr>" and ?it = "new_item (uuid_at e (draws s4)) (clock s) ?i p"
  let ?s6 = "?s5\<lparr>t_order_items := t_order_items s4 @ [?it]\<rparr>"
  have it: "row_id ?it = uuid_at e (draws s4)" by (simp add: new_item_def)
  have it_new: "\<forall>x \<in> set (t_order_items s4). row_id x \<noteq> uuid_at e (draws s4)"
    using f4 l4 by (auto simp: fresh_def dest: fresh_in_now)
  have f6: "fresh e h ?s6" using f4 l4 it by (simp add: fresh_def fresh_in_add)
  let ?s7 = "?s6\<lparr>draws := Suc (draws ?s6)\<rparr>" and ?tx = "new_transaction (uuid_at e (draws ?s6)) (clock s) merchant ?i a p key"
  let ?s8 = "?s7\<lparr>t_transactions := t_transactions s @ [?tx]\<rparr>"
  have tx: "row_id ?tx = uuid_at e (draws ?s6)" by (simp add: new_transaction_def)
  have tx_old: "\<not> transaction_clash y ?tx" if "y \<in> set (t_transactions s)" for y
    using that new o_new by (fastforce simp: order_is_new_def transaction_clash_def new_transaction_def)
  have tx_new: "\<forall>x \<in> set (t_transactions s). row_id x \<noteq> uuid_at e (draws ?s6) \<and> \<not> transaction_clash x ?tx"
    using f6 c4 l4 tx_old by (auto simp: fresh_def dest: fresh_in_now)
  have f8: "fresh e h ?s8" using f6 c4 l4 tx fresh_in_add [of e "draws ?s6" h "t_transactions s" ?tx] by (simp add: fresh_def)
  have "add_row t_orders t_orders_update order_clash ?o ?s2 = (Inr (), ?s3)"
    using o_new o_id c1 by (simp add: add_row_Inr)
  moreover have "add_row t_order_items t_order_items_update no_clash ?it ?s5 = (Inr (), ?s6)"
    using it_new it by (simp add: add_row_Inr)
  moreover have "add_row t_transactions t_transactions_update transaction_clash ?tx ?s7 = (Inr (), ?s8)"
    using tx_new tx c4 by (simp add: add_row_Inr)
  ultimately have "order_open e merchant key a p s = (Inr (i1, ?o, uuid_at e (draws ?s6)), ?s8)"
    using s1 s4 c1 o_id
    by (simp add: order_open_def orders_add_def bnd_def andthen_def gets_def new_uuid_def Let_def ret_def)
  moreover have "ids_left h s \<le> ids_left h ?s8 + 5" using c1 c4 by (simp add: ids_left_def)
  ultimately show ?thesis using f8 by blast
qed

text \<open>With an adapter that keeps no messages of its own (as the catalog), an authorised new order is
  always recorded, whether the supplier answers or raises.\<close>

lemma order_execute_returns:
  assumes "authorized e sv (fst w) i merchant token a p mr" and "fresh e h (fst w)" and "12 \<le> ids_left h (fst w)"
    and "order_is_new (fst w) merchant key a p" and "\<And>k v. os_pop_pending sp k v = ([], v)"
  shows "\<exists>y w'. order_execute e sv sp i merchant token key w = (Inr y, w')
    \<and> snd w' = snd (ad_place_order sp p key (snd w))"
proof -
  have none: "order_by_key merchant key (fst w) = None"
    using assms(4) by (auto simp: order_by_key_def find_None_all order_is_new_def)
  obtain idem ord tx u where opn: "order_open e merchant key a p (fst w) = (Inr (idem, ord, tx), u)" and f: "fresh e h u"
      and l: "7 \<le> ids_left h u"
    using order_open_returns [OF assms(2) _ assms(4)] assms(3) by (force simp: prod_eq_iff)
  obtain res v where pl: "ad_place_order sp p key (snd w) = (res, v)" by (cases "ad_place_order sp p key (snd w)")
  let ?rows = "andthen (change_row t_orders t_orders_update (row_id ord) (settle_order res))
     (change_row t_transactions t_transactions_update tx (settle_transaction res))"
  have "draws_fresh e h 0 ?rows" by (rule returns_weaken, (rule returns_intros | simp)+)
  then obtain u' x where u': "?rows u = (Inr x, u')" "fresh e h u'" "ids_left h u \<le> ids_left h u' + 0"
    using f by (rule returnsE) simp_all
  obtain x2 u2 where fin: "order_finish e (rsplit_head (CHR '':'') 2 key) merchant idem a p mr (settle_order res ord)
      (settle_event res) (os_correlation sp (pp_quote_id p) v) u' = (Inr x2, u2)"
    using returnsE [OF fresh_order_finish u'(2)] u'(3) l by (metis add.right_neutral le_trans)
  have auth: "order_authorize e sv i merchant token (fst w) = (Inr (a, p, mr), fst w)"
    using assms(1) by (simp add: authorize_Inr)
  have "order_execute e sv sp i merchant token key w = order_settle e sp merchant key a p mr (idem, ord, tx) res (u, v)"
    by (simp add: order_execute_def bnd_def on_db_def gets_def none auth opn attempt_def on_world_def pl)
  also have "\<dots> = (Inr (settle_order res ord), (u2, v))"
    using u'(1) fin by (simp add: order_settle_def Let_def andthen_def bnd_def on_db_def gets_def pop_pending_def
        assms(5) ret_def change_row_def)
  finally show ?thesis by (simp add: pl)
qed

end
