(* ===== verification/Authority.thy ===== *)
theory Authority
  imports Orders ApprovalLifecycle
begin

text \<open>
  \<open>app/agents/services.py\<close>: the two approval authorities and the two transaction executors that the
  purchase workflow is built with, in memory and over the database.  \<open>approval_authority\<close> and
  \<open>transaction_executor\<close> are the protocols that the workflow relies on; every implementation is an
  interpretation.
\<close>

section \<open>Choosing an adapter\<close>

definition supplier_for :: "('s, 'z) adapter_scheme list \<Rightarrow> uuid \<Rightarrow> ('s, 'z) adapter_scheme option" where
  "supplier_for adapters i =
     (case find (\<lambda>a. ad_supplier_id a = Some i) adapters of
        Some a \<Rightarrow> Some a
      | None \<Rightarrow> find ad_handles_all adapters)"

definition services_supplier :: "('s, 'z) adapter_scheme list \<Rightarrow> uuid \<Rightarrow> exc + ('s, 'z) adapter_scheme" where
  "services_supplier adapters i =
     (case supplier_for adapters i of
        Some a \<Rightarrow> Inr a
      | None \<Rightarrow> Inl (Exc PyLookupError (''No adapter registered for supplier '' @ str_uuid i)))"

lemma supplier_for_fits:
  "supplier_for adapters i = Some a \<Longrightarrow> a \<in> set adapters \<and> (ad_supplier_id a = Some i \<or> ad_handles_all a)"
  by (auto simp: supplier_for_def dest: find_Some_iff_mem split: option.splits)

section \<open>The authority in memory\<close>

record memory_approvals =
  ma_clock :: int
  ma_draws :: nat
  ma_records :: "uuid \<rightharpoonup> approval_record"
  ma_proposals :: "uuid \<rightharpoonup> purchase_proposal"

definition memory_request ::
  "env \<Rightarrow> string \<Rightarrow> int \<Rightarrow> purchase_proposal \<Rightarrow> (memory_approvals, exc, approval_record \<times> string) prog" where
  "memory_request e secret ttl p s =
     (let i = uuid_at e (ma_draws s); expires = ma_clock s + minutes ttl;
          r = \<lparr>ar_approval_id = i, ar_proposal_id = pp_proposal_id p, ar_merchant_id = pp_merchant_id p,
               ar_order_hash = canonical_order_hash e (canonical_payload p),
               ar_nonce = text_at e (ma_draws s + 1), ar_status = AS_PENDING, ar_expires_at = Aware expires\<rparr>
      in (Inr (r, create_approval_token e (ma_clock s) (ar_merchant_id r) (ar_proposal_id r) i (ar_order_hash r)
                    (ar_nonce r) secret ''HS256'' ttl (Some expires)),
          s\<lparr>ma_draws := ma_draws s + 2, ma_records := (ma_records s)(i \<mapsto> r), ma_proposals := (ma_proposals s)(i \<mapsto> p)\<rparr>))"

definition memory_get :: "uuid \<Rightarrow> (memory_approvals, exc, approval_record) prog" where
  "memory_get i = bnd (gets (\<lambda>s. ma_records s i)) (\<lambda>r. require r (Exc AuthorizationError ''Unknown approval''))"

text \<open>Comparing a naive timestamp with the current time raises.\<close>

definition past :: "tstamp \<Rightarrow> int \<Rightarrow> exc + bool" where
  "past t now = (case t of
     Aware i \<Rightarrow> Inr (i \<le> now)
   | Naive _ \<Rightarrow> Inl (Exc PyTypeError ''can't compare offset-naive and offset-aware datetimes''))"

definition record_claims :: "approval_record \<Rightarrow> (string \<times> string) list" where
  "record_claims r =
     [(''sub'', str_uuid (ar_merchant_id r)), (''proposal_id'', str_uuid (ar_proposal_id r)),
      (''approval_id'', str_uuid (ar_approval_id r)), (''order_hash'', ar_order_hash r),
      (''nonce'', ar_nonce r), (''type'', ''approval'')]"

definition memory_put :: "uuid \<Rightarrow> approval_record \<Rightarrow> (memory_approvals, exc, unit) prog" where
  "memory_put i r = modify (\<lambda>s. s\<lparr>ma_records := (ma_records s)(i \<mapsto> r)\<rparr>)"

definition memory_decide ::
  "env \<Rightarrow> string \<Rightarrow> uuid \<Rightarrow> uuid \<Rightarrow> approval_status \<Rightarrow> string \<Rightarrow> uuid option
   \<Rightarrow> (memory_approvals, exc, approval_record) prog" where
  "memory_decide e secret i merchant action token user =
     bnd (memory_get i) (\<lambda>r.
     andthen (guard (ar_merchant_id r = merchant) (Exc AuthorizationError ''Approval belongs to another merchant''))
     (andthen (guard (ar_status r = AS_PENDING) (Exc ConflictError ''Approval has already been decided''))
     (bnd (gets ma_clock) (\<lambda>now.
     bnd (lift (past (ar_expires_at r) now)) (\<lambda>expired.
     if expired
     then andthen (memory_put i (r\<lparr>ar_status := AS_EXPIRED\<rparr>)) (raise (Exc StaleApprovalError ''Approval expired''))
     else
       bnd (lift (decode_token e now token secret ''HS256'')) (\<lambda>claims.
       andthen (guard (list_all (\<lambda>(k, v). map_of claims k = Some (JStr v)) (record_claims r))
                  (Exc AuthorizationError ''Approval token does not match the proposal''))
       (andthen (memory_put i (r\<lparr>ar_status := action\<rparr>)) (ret (r\<lparr>ar_status := action\<rparr>)))))))))"

section \<open>The authority over the database\<close>

definition approval_record_of :: "approval_row \<Rightarrow> approval_record" where
  "approval_record_of a =
     \<lparr>ar_approval_id = row_id a, ar_proposal_id = ap_proposal_id a, ar_merchant_id = ap_merchant_id a,
      ar_order_hash = ap_order_hash a, ar_nonce = ap_nonce a, ar_status = ap_status a,
      ar_expires_at = ap_expires_at a\<rparr>"

text \<open>The workflow's revision and request id come from context variables.\<close>

definition db_request ::
  "env \<Rightarrow> approval_service \<Rightarrow> int \<Rightarrow> string option \<Rightarrow> purchase_proposal \<Rightarrow> (approval_record \<times> string) m" where
  "db_request e sv revision request_id p =
     request (bnd (approval_create e sv p ''API'' revision request_id) (\<lambda>(a, token).
       andthen (change_approval (row_id a) (\<lambda>r. r\<lparr>ap_workflow_request_id := request_id\<rparr>))
       (ret (approval_record_of (a\<lparr>ap_workflow_request_id := request_id\<rparr>), token))))"

definition db_decide ::
  "env \<Rightarrow> approval_service \<Rightarrow> uuid \<Rightarrow> uuid \<Rightarrow> approval_status \<Rightarrow> string \<Rightarrow> uuid option \<Rightarrow> approval_record m" where
  "db_decide e sv i merchant action token user =
     request (bnd (require user (Exc AuthorizationError ''An authenticated user is required for approval'')) (\<lambda>u.
       bnd (if action = AS_APPROVED then approval_approve e sv i merchant u token
            else if action = AS_MODIFIED then approval_mark_modified e sv i merchant u token
            else if action = AS_REJECTED then approval_reject e i merchant u
            else raise (Exc PyValueError ''Unsupported approval decision''))
         (\<lambda>a. ret (approval_record_of a))))"

definition db_get :: "uuid \<Rightarrow> approval_record m" where
  "db_get i = bnd (approvals_get i None) (\<lambda>a. ret (approval_record_of a))"

section \<open>The contract of an authority\<close>

locale approval_authority =
  fixes ask :: "purchase_proposal \<Rightarrow> 's \<Rightarrow> (exc + approval_record \<times> string) \<times> 's"
    and decide :: "uuid \<Rightarrow> uuid \<Rightarrow> approval_status \<Rightarrow> string \<Rightarrow> uuid option \<Rightarrow> 's \<Rightarrow> (exc + approval_record) \<times> 's"
    and lookup :: "'s \<Rightarrow> uuid \<Rightarrow> approval_record option"
    and hash :: "purchase_proposal \<Rightarrow> string"
    and ok :: "'s \<Rightarrow> bool"
  assumes ask_pending: "ok s \<Longrightarrow> ask p s = (Inr (r, tok), t) \<Longrightarrow>
      ok t \<and> lookup t = (lookup s)(ar_approval_id r \<mapsto> r) \<and> ar_status r = AS_PENDING
    \<and> ar_merchant_id r = pp_merchant_id p \<and> ar_proposal_id r = pp_proposal_id p \<and> ar_order_hash r = hash p"
    and ask_fails: "ok s \<Longrightarrow> ask p s = (Inl x, t) \<Longrightarrow> ok t \<and> lookup t = lookup s"
    and decide_once: "ok s \<Longrightarrow> decide i m ac tok u s = (Inr r, t) \<Longrightarrow>
      ok t \<and> (\<exists>r0. lookup s (ar_approval_id r) = Some r0 \<and> ar_status r0 = AS_PENDING \<and> ar_merchant_id r0 = m
        \<and> r = r0\<lparr>ar_status := ac\<rparr> \<and> lookup t = (lookup s)(ar_approval_id r \<mapsto> r))"
    and decide_names: "ok s \<Longrightarrow> decide i m ac tok u s = (Inr r, t) \<Longrightarrow> ar_approval_id r = i \<or> ar_proposal_id r = i"
    and decide_fails: "ok s \<Longrightarrow> decide i m ac tok u s = (Inl x, t) \<Longrightarrow>
      ok t \<and> (lookup t = lookup s \<or> (\<exists>k r0. lookup s k = Some r0 \<and> ar_status r0 = AS_PENDING
        \<and> lookup t = (lookup s)(k \<mapsto> r0\<lparr>ar_status := AS_EXPIRED\<rparr>)))"
begin

lemma decided_kept:
  assumes "ok s" and "lookup s k = Some r" and "ar_status r \<noteq> AS_PENDING" and "decide i m ac tok u s = (v, t)"
  shows "lookup t k = Some r"
proof (cases v)
  case (Inl x)
  with assms decide_fails [of s i m ac tok u x t] show ?thesis by auto
next
  case (Inr r')
  with assms decide_once [of s i m ac tok u r' t] show ?thesis by auto
qed

text \<open>Deciding twice never succeeds on one approval.\<close>

lemma decide_distinct:
  assumes "ok s" and d: "decide i m ac tok u s = (Inr r, t)" and "ac \<noteq> AS_PENDING"
    and d': "decide i' m' ac' tok' u' t = (Inr r', t')"
  shows "ar_approval_id r' \<noteq> ar_approval_id r"
proof
  assume same: "ar_approval_id r' = ar_approval_id r"
  from decide_once [OF assms(1) d] assms(3) have "ok t" "lookup t (ar_approval_id r) = Some r" "ar_status r \<noteq> AS_PENDING"
    by auto
  with decide_once [OF \<open>ok t\<close> d'] same show False by auto
qed

text \<open>What is approved is the hash of a proposal that was asked for.\<close>

lemma ask_then_decide:
  assumes "ok s" and a: "ask p s = (Inr (r, tok), t)" and d: "decide i m ac tok' u t = (Inr r', t')"
    and "ar_approval_id r' = ar_approval_id r"
  shows "r' = r\<lparr>ar_status := ac\<rparr> \<and> m = pp_merchant_id p \<and> ar_order_hash r' = hash p"
  using ask_pending [OF assms(1) a] decide_once [OF _ d] assms(4) by auto

end

section \<open>Both authorities satisfy it\<close>

definition memory_ok :: "memory_approvals \<Rightarrow> bool" where
  "memory_ok s \<longleftrightarrow> (\<forall>k r. ma_records s k = Some r \<longrightarrow> ar_approval_id r = k)"

lemma memory_decide_Inr:
  "memory_decide e secret i m ac tok u s = (Inr r, t) \<Longrightarrow>
   \<exists>r0 c. ma_records s i = Some r0 \<and> ar_merchant_id r0 = m \<and> ar_status r0 = AS_PENDING
     \<and> past (ar_expires_at r0) (ma_clock s) = Inr False
     \<and> decode_token e (ma_clock s) tok secret ''HS256'' = Inr c
     \<and> list_all (\<lambda>(k, v). map_of c k = Some (JStr v)) (record_claims r0)
     \<and> r = r0\<lparr>ar_status := ac\<rparr> \<and> t = s\<lparr>ma_records := (ma_records s)(i \<mapsto> r)\<rparr>"
  by (auto simp: memory_decide_def memory_get_def memory_put_def run_simps split: if_splits)

lemma memory_decide_Inl:
  "memory_decide e secret i m ac tok u s = (Inl x, t) \<Longrightarrow>
   t = s \<or> (\<exists>r0. ma_records s i = Some r0 \<and> ar_status r0 = AS_PENDING
     \<and> t = s\<lparr>ma_records := (ma_records s)(i \<mapsto> r0\<lparr>ar_status := AS_EXPIRED\<rparr>)\<rparr>)"
  by (auto simp: memory_decide_def memory_get_def memory_put_def run_simps split: if_splits)

interpretation memory_authority: approval_authority
  "memory_request e secret ttl" "memory_decide e secret" ma_records "\<lambda>p. canonical_order_hash e (canonical_payload p)" memory_ok
  for e secret ttl
proof unfold_locales
  fix s p r tok t
  assume "memory_ok s" "memory_request e secret ttl p s = (Inr (r, tok), t)"
  then show "memory_ok t \<and> ma_records t = (ma_records s)(ar_approval_id r \<mapsto> r) \<and> ar_status r = AS_PENDING
    \<and> ar_merchant_id r = pp_merchant_id p \<and> ar_proposal_id r = pp_proposal_id p
    \<and> ar_order_hash r = canonical_order_hash e (canonical_payload p)"
    by (auto simp: memory_request_def memory_ok_def Let_def split: if_splits)
next
  fix s p x t
  assume "memory_request e secret ttl p s = (Inl x, t)"
  then show "memory_ok t \<and> ma_records t = ma_records s" by (simp add: memory_request_def Let_def)
next
  fix s i m ac tok u r t
  assume ok: "memory_ok s" and d: "memory_decide e secret i m ac tok u s = (Inr r, t)"
  from memory_decide_Inr [OF d] obtain r0 where "ma_records s i = Some r0" "ar_merchant_id r0 = m"
    "ar_status r0 = AS_PENDING" "r = r0\<lparr>ar_status := ac\<rparr>" "t = s\<lparr>ma_records := (ma_records s)(i \<mapsto> r)\<rparr>" by blast
  with ok show "memory_ok t \<and> (\<exists>r0. ma_records s (ar_approval_id r) = Some r0 \<and> ar_status r0 = AS_PENDING
      \<and> ar_merchant_id r0 = m \<and> r = r0\<lparr>ar_status := ac\<rparr> \<and> ma_records t = (ma_records s)(ar_approval_id r \<mapsto> r))"
    by (auto simp: memory_ok_def)
next
  fix s i m ac tok u r t
  assume "memory_ok s" "memory_decide e secret i m ac tok u s = (Inr r, t)"
  then show "ar_approval_id r = i \<or> ar_proposal_id r = i"
    by (auto simp: memory_ok_def dest!: memory_decide_Inr)
next
  fix s i m ac tok u x t
  assume ok: "memory_ok s" and d: "memory_decide e secret i m ac tok u s = (Inl x, t)"
  from memory_decide_Inl [OF d] consider "t = s"
    | r0 where "ma_records s i = Some r0" "ar_status r0 = AS_PENDING"
        "t = s\<lparr>ma_records := (ma_records s)(i \<mapsto> r0\<lparr>ar_status := AS_EXPIRED\<rparr>)\<rparr>" by blast
  then show "memory_ok t \<and> (ma_records t = ma_records s \<or> (\<exists>k r0. ma_records s k = Some r0 \<and> ar_status r0 = AS_PENDING
        \<and> ma_records t = (ma_records s)(k \<mapsto> r0\<lparr>ar_status := AS_EXPIRED\<rparr>)))"
  proof cases
    case 1
    with ok show ?thesis by simp
  next
    case (2 r0)
    with ok have "memory_ok t" by (auto simp: memory_ok_def)
    with 2 show ?thesis by auto
  qed
qed

definition db_lookup :: "db \<Rightarrow> uuid \<Rightarrow> approval_record option" where
  "db_lookup s i = map_option approval_record_of (by_id i (t_approvals s))"

lemma approval_record_of_decided:
  "approval_record_of (decided st now u a) = (approval_record_of a)\<lparr>ar_status := st\<rparr>"
  by (simp add: approval_record_of_def decided_def)

lemma db_lookup_decide:
  assumes "approvals_ok e s" and "a \<in> set (t_approvals s)" and "t_approvals t = decide_rows s a st user"
  shows "db_lookup s (row_id a) = Some (approval_record_of a)"
    and "db_lookup t = (db_lookup s)(row_id a \<mapsto> (approval_record_of a)\<lparr>ar_status := st\<rparr>)"
proof -
  have a: "by_id (row_id a) (t_approvals s) = Some a"
    using assms(1,2) by (auto simp: approvals_ok_def intro: by_id_unique)
  then show "db_lookup s (row_id a) = Some (approval_record_of a)" by (simp add: db_lookup_def)
  have "db_lookup t k = ((db_lookup s)(row_id a \<mapsto> (approval_record_of a)\<lparr>ar_status := st\<rparr>)) k" for k
    unfolding db_lookup_def assms(3) decide_rows_def
    by (subst by_id_change) (auto simp: a mutate_def decided_def approval_record_of_def)
  then show "db_lookup t = (db_lookup s)(row_id a \<mapsto> (approval_record_of a)\<lparr>ar_status := st\<rparr>)" by blast
qed

text \<open>A decision through the authority is one of the three service operations.\<close>

definition decision_op :: "uuid \<Rightarrow> uuid \<Rightarrow> approval_status \<Rightarrow> string \<Rightarrow> uuid \<Rightarrow> approval_op" where
  "decision_op i m ac tok u =
     (if ac = AS_APPROVED then OpApprove i m u tok
      else if ac = AS_MODIFIED then OpMarkModified i m u tok else OpReject i m u)"

lemma db_decide_Inr:
  assumes "db_decide e sv i m ac tok user s = (Inr r, t)"
  obtains u a where "user = Some u" "ac \<in> {AS_APPROVED, AS_MODIFIED, AS_REJECTED}"
    "find_approval i None s = Some a" "decidable m (clock s) a"
    "ac \<noteq> AS_REJECTED \<Longrightarrow> verify_token e sv (clock s) a tok = Inr ()"
    "r = (approval_record_of a)\<lparr>ar_status := ac\<rparr>" "t_approvals t = decide_rows s a ac u"
    "run_op e sv (decision_op i m ac tok u) s = (Inr (), t)"
proof -
  obtain u b where u: "user = Some u" and r: "r = approval_record_of b" and
    b: "(if ac = AS_APPROVED then approval_approve e sv i m u tok
            else if ac = AS_MODIFIED then approval_mark_modified e sv i m u tok
            else if ac = AS_REJECTED then approval_reject e i m u
            else raise (Exc PyValueError ''Unsupported approval decision'')) s = (Inr b, t)"
    using assms by (auto simp: db_decide_def request_def run_simps)
  consider (appr) "ac = AS_APPROVED" | (modi) "ac = AS_MODIFIED" | (reje) "ac = AS_REJECTED"
    | (other) "ac \<in> {AS_PENDING, AS_EXPIRED}" by (cases ac) auto
  then show thesis
  proof cases
    case appr
    with b have "approval_approve e sv i m u tok s = (Inr b, t)" by simp
    with appr u r show thesis
      by (auto simp: approve_Inr decision_op_def run_op_def run_simps approval_record_of_decided intro!: that)
  next
    case modi
    with b have "approval_mark_modified e sv i m u tok s = (Inr b, t)" by simp
    with modi u r show thesis
      by (auto simp: mark_modified_Inr decision_op_def run_op_def run_simps approval_record_of_decided intro!: that)
  next
    case reje
    with b have "approval_reject e i m u s = (Inr b, t)" by simp
    with reje u r show thesis
      by (auto simp: reject_Inr decision_op_def run_op_def run_simps approval_record_of_decided intro!: that)
  next
    case other
    with b show thesis by (auto simp: run_simps)
  qed
qed

lemma db_fails:
  "db_decide e sv i m ac tok user s = (Inl x, t) \<Longrightarrow> t_approvals t = t_approvals s"
  "db_request e sv rn rid p s = (Inl x, t) \<Longrightarrow> t_approvals t = t_approvals s"
  by (auto simp: db_decide_def db_request_def request_def run_simps rollback_def)

lemma db_request_Inr:
  assumes "approvals_ok e s" and "db_request e sv rn rid p s = (Inr (r, tok), t)"
  shows "approvals_ok e t \<and> db_lookup t = (db_lookup s)(ar_approval_id r \<mapsto> r)
    \<and> r = approval_record_of (created_row e sv s p ''API'' rn)
    \<and> tok = approval_token e sv (clock s) (created_row e sv s p ''API'' rn)"
proof -
  let ?a = "created_row e sv s p ''API'' rn"
  let ?f = "mutate (clock s) (\<lambda>r. r\<lparr>ap_workflow_request_id := rid\<rparr>)"
  obtain a u where c: "approval_create e sv p ''API'' rn rid s = (Inr (a, tok), u)"
    and r: "r = approval_record_of (a\<lparr>ap_workflow_request_id := rid\<rparr>)"
    and t: "t = u\<lparr>t_approvals := upd (\<lambda>x. row_id x = row_id a)
        (mutate (clock u) (\<lambda>r. r\<lparr>ap_workflow_request_id := rid\<rparr>)) (t_approvals u)\<rparr>"
    using assms(2) by (auto simp: db_request_def request_def change_approval_def run_simps)
  note cr = create_Inr [OF c]
  have a: "a = ?a" and u: "t_approvals u = t_approvals s @ [?a]" "clock u = clock s" using cr by auto
  have r': "r = approval_record_of ?a" by (simp add: r a approval_record_of_def)
  have tt: "t_approvals t = t_approvals s @ [?f ?a]"
    using cr by (simp add: t u a upd_none)
  have f: "row_id (?f x) = row_id x" "approval_clash y (?f x) = approval_clash y x"
    "approval_record_of (?f x) = approval_record_of x" "approval_wf e (?f x) = approval_wf e x" for x y
    by (simp_all add: mutate_def approval_clash_def approval_record_of_def approval_wf_def)
  have fresh: "by_id (row_id ?a) (t_approvals s) = None"
    using cr a by (auto simp: by_id_def find_None_all)
  have "table_ok approval_clash (t_approvals t)"
    unfolding tt using assms(1) cr a by (intro table_ok_add) (auto simp: approvals_ok_def f)
  then have "approvals_ok e t"
    using assms(1) by (simp add: approvals_ok_def tt f created_row_wf)
  moreover have "db_lookup t k = ((db_lookup s)(ar_approval_id r \<mapsto> r)) k" for k
    unfolding db_lookup_def tt by_id_add using fresh
    by (auto simp: f r' split: option.splits) (auto simp: approval_record_of_def)
  ultimately show ?thesis using r' cr a by auto
qed

interpretation db_authority: approval_authority
  "db_request e sv rn rid" "db_decide e sv" db_lookup "\<lambda>p. canonical_order_hash e (canonical_payload p)" "approvals_ok e"
  for e sv rn rid
proof unfold_locales
  fix s p r tok t
  assume "approvals_ok e s" "db_request e sv rn rid p s = (Inr (r, tok), t)"
  from db_request_Inr [OF this]
  show "approvals_ok e t \<and> db_lookup t = (db_lookup s)(ar_approval_id r \<mapsto> r) \<and> ar_status r = AS_PENDING
    \<and> ar_merchant_id r = pp_merchant_id p \<and> ar_proposal_id r = pp_proposal_id p
    \<and> ar_order_hash r = canonical_order_hash e (canonical_payload p)"
    by (simp add: approval_record_of_def created_row_def new_approval_def)
next
  fix s p x t
  assume "approvals_ok e s" "db_request e sv rn rid p s = (Inl x, t)"
  then show "approvals_ok e t \<and> db_lookup t = db_lookup s"
    using db_fails by (auto simp: approvals_ok_def db_lookup_def)
next
  fix s i m ac tok user r t
  assume ok: "approvals_ok e s" and d: "db_decide e sv i m ac tok user s = (Inr r, t)"
  from d obtain u a where a: "find_approval i None s = Some a" "decidable m (clock s) a"
    and r: "r = (approval_record_of a)\<lparr>ar_status := ac\<rparr>" and t: "t_approvals t = decide_rows s a ac u"
    and run: "run_op e sv (decision_op i m ac tok u) s = (Inr (), t)"
    by (rule db_decide_Inr)
  have mem: "a \<in> set (t_approvals s)" using a(1) by (auto dest: find_approval_mem)
  have "ar_approval_id r = row_id a" by (simp add: r approval_record_of_def)
  with run_op_evolves [OF ok run] db_lookup_decide [OF ok mem t] a(2) r
  show "approvals_ok e t \<and> (\<exists>r0. db_lookup s (ar_approval_id r) = Some r0 \<and> ar_status r0 = AS_PENDING
      \<and> ar_merchant_id r0 = m \<and> r = r0\<lparr>ar_status := ac\<rparr> \<and> db_lookup t = (db_lookup s)(ar_approval_id r \<mapsto> r))"
    by (auto simp: decidable_def approval_record_of_def)
next
  fix s i m ac tok user r t
  assume "db_decide e sv i m ac tok user s = (Inr r, t)"
  then obtain a where "find_approval i None s = Some a" "r = (approval_record_of a)\<lparr>ar_status := ac\<rparr>"
    by (rule db_decide_Inr)
  then show "ar_approval_id r = i \<or> ar_proposal_id r = i"
    by (auto simp: approval_record_of_def dest: find_approval_mem)
next
  fix s i m ac tok user x t
  assume "approvals_ok e s" "db_decide e sv i m ac tok user s = (Inl x, t)"
  then show "approvals_ok e t \<and> (db_lookup t = db_lookup s \<or> (\<exists>k r0. db_lookup s k = Some r0 \<and> ar_status r0 = AS_PENDING
        \<and> db_lookup t = (db_lookup s)(k \<mapsto> r0\<lparr>ar_status := AS_EXPIRED\<rparr>)))"
    using db_fails by (auto simp: approvals_ok_def db_lookup_def)
qed

section \<open>Executors\<close>

text \<open>In memory: the results by key, beside the authority and the adapters' state.\<close>

type_synonym 'a memory_executor = "memory_approvals \<times> (string \<rightharpoonup> order_result) \<times> 'a"

definition memory_authorize ::
  "env \<Rightarrow> string \<Rightarrow> ('a, 'z) adapter_scheme list \<Rightarrow> purchase_proposal \<Rightarrow> uuid \<Rightarrow> string
   \<Rightarrow> (memory_approvals, exc, ('a, 'z) adapter_scheme) prog" where
  "memory_authorize e secret adapters p i token =
     bnd (memory_get i) (\<lambda>r.
     andthen (guard (ar_status r = AS_APPROVED) (Exc AuthorizationError ''Order execution requires explicit approval''))
     (bnd (gets ma_clock) (\<lambda>now.
     bnd (lift (past (ar_expires_at r) now)) (\<lambda>expired.
     andthen (guard (\<not> expired) (Exc StaleApprovalError ''Approval expired''))
     (andthen (guard (ar_order_hash r = canonical_order_hash e (canonical_payload p))
                (Exc AuthorizationError ''Proposal differs from the approved payload''))
     (bnd (lift (decode_token e now token secret ''HS256'')) (\<lambda>claims.
     andthen (guard (map_of claims ''approval_id'' = Some (JStr (str_uuid i))
                     \<and> map_of claims ''order_hash'' = Some (JStr (ar_order_hash r)))
                (Exc AuthorizationError ''Approval token does not authorize this proposal''))
     (require (supplier_for adapters (pp_supplier_id p))
        (Exc AuthorizationError ''No supplier adapter is registered for the approved supplier'')))))))))"

definition memory_execute ::
  "env \<Rightarrow> string \<Rightarrow> ('a, 'z) adapter_scheme list \<Rightarrow> purchase_proposal \<Rightarrow> uuid \<Rightarrow> string \<Rightarrow> string
   \<Rightarrow> ('a memory_executor, exc, order_result) prog" where
  "memory_execute e secret adapters p i token key w = (case w of (m, results, a) \<Rightarrow>
     (case results key of
        Some r \<Rightarrow> (Inr r, w)
      | None \<Rightarrow>
          (case memory_authorize e secret adapters p i token m of
             (Inl x, m') \<Rightarrow> (Inl x, (m', results, a))
           | (Inr ad, m') \<Rightarrow>
               (case ad_place_order ad p key a of
                  (Inl x, a') \<Rightarrow> (Inl x, (m', results, a'))
                | (Inr r, a') \<Rightarrow> (Inr r, (m', results(key \<mapsto> r), a'))))))"

text \<open>Over the database: one transaction per execution; the adapter's own state is not rolled back.\<close>

definition order_result_of :: "order_row \<Rightarrow> order_result" where
  "order_result_of x = \<lparr>or_order_id = row_id x, or_status = o_status x,
     or_supplier_confirmation = o_supplier_reference x, or_transaction_id = None\<rparr>"

definition rollback_db :: "db \<times> 'a \<Rightarrow> db \<times> 'a \<Rightarrow> db \<times> 'a" where
  "rollback_db old new = (rollback (fst old) (fst new), snd new)"

definition db_execute ::
  "env \<Rightarrow> approval_service \<Rightarrow> 'a order_supplier list \<Rightarrow> purchase_proposal \<Rightarrow> uuid \<Rightarrow> string \<Rightarrow> string
   \<Rightarrow> ('a, order_result) om" where
  "db_execute e sv adapters p i token key =
     bnd (require (supplier_for adapters (pp_supplier_id p))
            (Exc AuthorizationError ''No supplier adapter is registered for the approved supplier'')) (\<lambda>sp.
     atomic rollback_db
       (bnd (order_execute e sv sp i (pp_merchant_id p) token key) (\<lambda>x. ret (order_result_of x))))"

section \<open>The contract of an executor\<close>

locale transaction_executor =
  fixes exec :: "purchase_proposal \<Rightarrow> uuid \<Rightarrow> string \<Rightarrow> string \<Rightarrow> 's \<Rightarrow> (exc + order_result) \<times> 's"
    and settled :: "'s \<Rightarrow> uuid \<Rightarrow> string \<Rightarrow> order_result option"
    and approved :: "'s \<Rightarrow> uuid \<Rightarrow> bool"
  assumes exec_stored: "settled s (pp_merchant_id p) key = Some r \<Longrightarrow> exec p i tok key s = (v, t) \<Longrightarrow>
      t = s \<and> (\<forall>r'. v = Inr r' \<longrightarrow> r' = r)"
    and exec_first: "settled s (pp_merchant_id p) key = None \<Longrightarrow> exec p i tok key s = (Inr r, t) \<Longrightarrow>
      settled t (pp_merchant_id p) key = Some r \<and> approved s i"
begin

text \<open>A key is used once: whatever is asked for under it later gets the first result and changes
  nothing.\<close>

lemma exec_once:
  assumes "exec p i tok key s = (Inr r, t)" and "pp_merchant_id p' = pp_merchant_id p"
    and "exec p' i' tok' key t = (v, u)"
  shows "u = t \<and> (\<forall>r'. v = Inr r' \<longrightarrow> r' = r)"
proof (cases "settled s (pp_merchant_id p) key")
  case None
  from exec_first [OF None assms(1)] assms(2) exec_stored [OF _ assms(3)] show ?thesis by simp
next
  case (Some r0)
  from exec_stored [OF Some assms(1)] have "t = s" "r = r0" by simp_all
  with Some assms(2) exec_stored [OF _ assms(3), of r0] show ?thesis by simp
qed

lemma no_execution_without_approval:
  "settled s (pp_merchant_id p) key = None \<Longrightarrow> \<not> approved s i \<Longrightarrow>
   exec p i tok key s = (v, t) \<Longrightarrow> \<exists>x. v = Inl x"
  using exec_first by (cases v) blast+

end

section \<open>Both executors satisfy it\<close>

lemma memory_authorize_Inr:
  "memory_authorize e secret adapters p i token m = (Inr ad, m') \<longleftrightarrow>
     m' = m \<and> supplier_for adapters (pp_supplier_id p) = Some ad \<and>
     (\<exists>r c. ma_records m i = Some r \<and> ar_status r = AS_APPROVED \<and> past (ar_expires_at r) (ma_clock m) = Inr False
       \<and> ar_order_hash r = canonical_order_hash e (canonical_payload p)
       \<and> decode_token e (ma_clock m) token secret ''HS256'' = Inr c
       \<and> map_of c ''approval_id'' = Some (JStr (str_uuid i)) \<and> map_of c ''order_hash'' = Some (JStr (ar_order_hash r)))"
  by (auto simp: memory_authorize_def memory_get_def run_simps)

definition memory_approved :: "'a memory_executor \<Rightarrow> uuid \<Rightarrow> bool" where
  "memory_approved w i \<longleftrightarrow> (\<exists>r. ma_records (fst w) i = Some r \<and> ar_status r = AS_APPROVED)"

interpretation memory_exec: transaction_executor
  "memory_execute e secret adapters" "\<lambda>w m. fst (snd w)" memory_approved
  for e secret adapters
proof unfold_locales
  fix s p key r i tok v t
  assume "fst (snd s) key = Some r" "memory_execute e secret adapters p i tok key s = (v, t)"
  then show "t = s \<and> (\<forall>r'. v = Inr r' \<longrightarrow> r' = r)"
    by (cases s) (auto simp: memory_execute_def)
next
  fix s p key i tok r t
  assume n: "fst (snd s) key = None" and run: "memory_execute e secret adapters p i tok key s = (Inr r, t)"
  obtain m results a where s: "s = (m, results, a)" by (cases s)
  obtain ad where au: "memory_authorize e secret adapters p i tok m = (Inr ad, m)"
    and t: "fst (snd t) key = Some r"
    using n run unfolding s memory_execute_def
    by (auto simp: memory_authorize_Inr split: prod.splits sum.splits)
  from au have "memory_approved s i" by (auto simp: memory_authorize_Inr memory_approved_def s)
  with t show "fst (snd t) key = Some r \<and> memory_approved s i" by simp
qed

definition db_settled :: "db \<times> 'a \<Rightarrow> uuid \<Rightarrow> string \<Rightarrow> order_result option" where
  "db_settled w merchant key = map_option order_result_of (order_by_key merchant key (fst w))"

definition db_approved :: "db \<times> 'a \<Rightarrow> uuid \<Rightarrow> bool" where
  "db_approved w i \<longleftrightarrow> (\<exists>a. find_approval i None (fst w) = Some a \<and> ap_status a = AS_APPROVED)"

lemma db_execute_Inr:
  "db_execute e sv adapters p i token key w = (Inr r, w') \<longleftrightarrow>
     (\<exists>sp x. supplier_for adapters (pp_supplier_id p) = Some sp
        \<and> order_execute e sv sp i (pp_merchant_id p) token key w = (Inr x, w') \<and> r = order_result_of x)"
  by (auto simp: db_execute_def run_simps)

interpretation db_exec: transaction_executor
  "db_execute e sv adapters" db_settled db_approved
  for e sv adapters
proof unfold_locales
  fix s p key r i tok v t
  assume st: "db_settled s (pp_merchant_id p) key = Some r" and run: "db_execute e sv adapters p i tok key s = (v, t)"
  from st obtain x where x: "order_by_key (pp_merchant_id p) key (fst s) = Some x" "r = order_result_of x"
    by (auto simp: db_settled_def)
  show "t = s \<and> (\<forall>r'. v = Inr r' \<longrightarrow> r' = r)"
  proof (cases "supplier_for adapters (pp_supplier_id p)")
    case None
    with run show ?thesis by (auto simp: db_execute_def bnd_def require_def raise_def)
  next
    case (Some sp)
    with run x show ?thesis
      by (auto simp: db_execute_def bnd_def require_def ret_def atomic_def order_replay)
  qed
next
  fix s p key i tok r t
  assume n: "db_settled s (pp_merchant_id p) key = None" and run: "db_execute e sv adapters p i tok key s = (Inr r, t)"
  from run obtain sp x where ex: "order_execute e sv sp i (pp_merchant_id p) tok key s = (Inr x, t)"
    and r: "r = order_result_of x" by (auto simp: db_execute_Inr)
  from n have n: "order_by_key (pp_merchant_id p) key (fst s) = None" by (simp add: db_settled_def)
  obtain a q mr where au: "authorized e sv (fst s) i (pp_merchant_id p) tok a q mr"
    using order_execute_first [OF ex n] by blast
  have "db_settled t (pp_merchant_id p) key = Some r"
    using order_by_key_after [OF ex] r by (simp add: db_settled_def)
  with au show "db_settled t (pp_merchant_id p) key = Some r \<and> db_approved s i"
    by (auto simp: db_approved_def authorized_def)
qed

end
