(* ===== verification/Workflow.thy ===== *)
theory Workflow
  imports Authority
begin

text \<open>
  The purchase workflow of \<open>app/agents\<close>: the state, the nine nodes, the routing of
  \<open>build_purchase_graph\<close> and \<open>WorkflowRuntime\<close>.  The graph engine (langgraph) is modelled by what the
  code relies on: it runs one node after another, keeps the values and the next node of a thread
  after each completed node, stops before a node that interrupts, and limits the nodes of one
  invocation to 25.  The services that the nodes call are a record; \<open>'s\<close> is the state behind them.
\<close>

section \<open>State\<close>

record wf_inventory =
  wi_quantity_on_hand :: dec
  wi_reorder_point :: dec
  wi_captured_at :: string
  wi_safety_stock :: "dec option"

text \<open>An absent key is \<open>None\<close>.  Floats are decimals in the text form of \<open>str(float)\<close>.\<close>

record wf_state =
  ws_merchant_id :: string
  ws_store_id :: string
  ws_request_id :: string
  ws_sku :: string
  ws_required_quantity :: "dec option"
  ws_unit :: string
  ws_target_price :: dec
  ws_max_price :: dec
  ws_spending_limit :: dec
  ws_delivery_requirement :: string
  ws_inventory :: wf_inventory
  ws_sales_history :: "dict list"
  ws_forecast :: "forecast_result option"
  ws_candidates :: "supplier_quote list"
  ws_selected :: "supplier_quote option"
  ws_history :: "dict list"
  ws_correlation :: "string option"
  ws_price :: "dec option"
  ws_risk :: "risk_result option"
  ws_proposal :: "dict option"
  ws_revision :: "int option"
  ws_order_hash :: "string option"
  ws_approval_status :: "string option"
  ws_approval_id :: "string option"
  ws_approval_token :: "string option"
  ws_execution_status :: "string option"
  ws_result :: "order_result option"
  ws_failure :: "string option"
  ws_attempted :: "string list"
  ws_preferred :: "string option"
  ws_override :: bool

record 's wf_services =
  sv_now :: "'s \<Rightarrow> int"
  sv_forecast :: "dict list \<Rightarrow> int \<Rightarrow> ('s, exc, forecast_result) prog"
  sv_adapters :: "'s order_supplier list"
  sv_ask :: "int \<Rightarrow> string \<Rightarrow> purchase_proposal \<Rightarrow> ('s, exc, approval_record \<times> string) prog"
  sv_decide :: "uuid \<Rightarrow> uuid \<Rightarrow> approval_status \<Rightarrow> string \<Rightarrow> uuid option \<Rightarrow> ('s, exc, approval_record) prog"
  sv_execute :: "purchase_proposal \<Rightarrow> uuid \<Rightarrow> string \<Rightarrow> string \<Rightarrow> ('s, exc, order_result) prog"
  sv_record :: "wf_state \<Rightarrow> ('s, exc, unit) prog"

definition revision_of :: "wf_state \<Rightarrow> int" where
  "revision_of v = (case ws_revision v of None \<Rightarrow> 1 | Some n \<Rightarrow> n)"

definition failing :: "wf_state \<Rightarrow> bool" where
  "failing v \<longleftrightarrow> (case ws_failure v of None \<Rightarrow> False | Some r \<Rightarrow> r \<noteq> '''')"

definition uuid_item :: "string \<Rightarrow> exc + uuid" where
  "uuid_item x = (case parse_uuid x of None \<Rightarrow> Inl (Exc PyValueError ''badly formed hexadecimal UUID string'') | Some i \<Rightarrow> Inr i)"

definition iso_item :: "string \<Rightarrow> exc + int" where
  "iso_item x = (case parse_iso x of None \<Rightarrow> Inl (Exc PyValueError ''Invalid isoformat string'') | Some t \<Rightarrow> Inr t)"

definition key_item :: "string \<Rightarrow> 'a option \<Rightarrow> exc + 'a" where
  "key_item k x = (case x of None \<Rightarrow> Inl (Exc PyKeyError k) | Some a \<Rightarrow> Inr a)"

section \<open>Nodes\<close>

definition detect_need :: "wf_state \<Rightarrow> wf_state" where
  "detect_need v =
     (if dlt (wi_reorder_point (ws_inventory v)) (wi_quantity_on_hand (ws_inventory v))
      then v\<lparr>ws_failure := Some ''inventory_above_reorder_point''\<rparr>
      else v\<lparr>ws_failure := Some '''', ws_revision := Some (revision_of v)\<rparr>)"

text \<open>\<open>rnd\<close> is the rounding of a binary float operation.\<close>

definition calculate_shortage :: "(rat \<Rightarrow> rat) \<Rightarrow> dec \<Rightarrow> dec \<Rightarrow> dec \<Rightarrow> dec" where
  "calculate_shortage rnd on_hand predicted safety =
     (let n = \<lceil>rnd (rnd (rat_of predicted + rat_of safety) - rat_of on_hand)\<rceil>
      in if 0 < n then Dec n 0 else Dec 0 1)"

definition forecast_demand ::
  "(rat \<Rightarrow> rat) \<Rightarrow> 's wf_services \<Rightarrow> wf_state \<Rightarrow> ('s, exc, wf_state) prog" where
  "forecast_demand rnd sv v =
     bnd (gets (sv_now sv)) (\<lambda>now.
     bnd (lift (iso_item (ws_delivery_requirement v))) (\<lambda>deadline.
     bnd (sv_forecast sv (ws_sales_history v) (max 1 ((deadline - now) div day_us))) (\<lambda>f.
     (let shortage = calculate_shortage rnd (wi_quantity_on_hand (ws_inventory v)) (fr_predicted_demand f)
            (case wi_safety_stock (ws_inventory v) of None \<Rightarrow> dzero | Some x \<Rightarrow> x);
          requested = (case ws_required_quantity v of None \<Rightarrow> dzero | Some q \<Rightarrow> q)
      in ret (v\<lparr>ws_required_quantity := Some (if ws_override v then requested else dmax shortage requested),
                ws_forecast := Some f\<rparr>)))))"

definition purchase_request_of :: "wf_state \<Rightarrow> exc + purchase_request" where
  "purchase_request_of v =
     bindE (key_item ''required_quantity'' (ws_required_quantity v)) (\<lambda>q.
     bindE (iso_item (ws_delivery_requirement v)) (\<lambda>deadline.
     bindE (uuid_item (ws_merchant_id v)) (\<lambda>m.
     bindE (uuid_item (ws_store_id v)) (\<lambda>st.
       check_purchase_request
         \<lparr>pr_request_id = Some (ws_request_id v), pr_sku = ws_sku v, pr_quantity = q, pr_unit = ws_unit v,
          pr_target_price = ws_target_price v, pr_max_price = ws_max_price v, pr_delivery_deadline = deadline,
          pr_merchant_id = m, pr_store_id = st\<rparr>))))"

definition eligible :: "wf_state \<Rightarrow> supplier_quote \<Rightarrow> bool" where
  "eligible v q \<longleftrightarrow> str_uuid (sq_supplier_id q) \<notin> set (ws_attempted v)
     \<and> (case ws_preferred v of None \<Rightarrow> True | Some i \<Rightarrow> str_uuid (sq_supplier_id q) = i)"

definition find_supplier :: "'s wf_services \<Rightarrow> wf_state \<Rightarrow> ('s, exc, wf_state) prog" where
  "find_supplier sv v =
     bnd (lift (purchase_request_of v)) (\<lambda>r.
     bnd (collect_quotes (sv_adapters sv) r) (\<lambda>qs.
     (let quotes = filter (eligible v) qs
      in ret (v\<lparr>ws_candidates := quotes,
                ws_failure := Some (if quotes = [] then ''supplier_unavailable'' else '''')\<rparr>))))"

subsection \<open>Negotiation\<close>

definition received_entry :: "supplier_quote \<Rightarrow> dict" where
  "received_entry q =
     [(''round'', JInt 1), (''supplier_id'', JStr (str_uuid (sq_supplier_id q))), (''quote_id'', JStr (sq_quote_id q)),
      (''action'', JStr ''QUOTE_RECEIVED''), (''status'', JStr ''INITIAL_QUOTE''),
      (''unit_price'', JStr (str_dec (sq_unit_price q))),
      (''available_quantity'', JStr (str_dec (sq_available_quantity q))),
      (''delivery_at'', JStr (isoformat (sq_delivery_at q)))]"

definition counter_entry :: "supplier_quote \<Rightarrow> dec \<Rightarrow> dec \<Rightarrow> dict" where
  "counter_entry q price quantity =
     [(''round'', JInt 2), (''supplier_id'', JStr (str_uuid (sq_supplier_id q))), (''action'', JStr ''COUNTER_OFFER_SENT''),
      (''status'', JStr ''COUNTER_OFFER''), (''unit_price'', JStr (str_dec price)), (''quantity'', JStr (str_dec quantity))]"

definition rejected_entry :: "supplier_quote \<Rightarrow> dict" where
  "rejected_entry q =
     [(''round'', JInt 2), (''supplier_id'', JStr (str_uuid (sq_supplier_id q))), (''action'', JStr ''OFFER_REJECTED''),
      (''status'', JStr ''REJECTED'')]"

definition accepted_entry :: "bool \<Rightarrow> supplier_quote \<Rightarrow> dict" where
  "accepted_entry countered q =
     [(''round'', JInt (if countered then 2 else 1)), (''supplier_id'', JStr (str_uuid (sq_supplier_id q))),
      (''quote_id'', JStr (sq_quote_id q)), (''action'', JStr ''OFFER_ACCEPTED''),
      (''unit_price'', JStr (str_dec (sq_unit_price q))), (''status'', JStr ''ACCEPTED'')]"

definition invalid_entry :: "supplier_quote \<Rightarrow> string list \<Rightarrow> dict" where
  "invalid_entry q failures =
     [(''supplier_id'', JStr (str_uuid (sq_supplier_id q))), (''status'', JStr ''INVALID''),
      (''reasons'', JArr (map JStr failures))]"

definition quote_constraints :: "supplier_quote \<Rightarrow> purchase_request \<Rightarrow> negotiation_constraints" where
  "quote_constraints q r =
     \<lparr>nc_min_quantity = Dec 1 0, nc_max_quantity = pr_quantity r, nc_max_unit_price = pr_max_price r,
      nc_allowed_supplier_ids = [str_uuid (sq_supplier_id q)], nc_max_rounds = 3, nc_timeout_seconds = 20\<rparr>"

text \<open>One candidate: what is chosen (\<open>None\<close> when the counter offer is rejected), whether it is valid and
  why not, and the history.\<close>

definition needs_counter :: "supplier_quote \<Rightarrow> purchase_request \<Rightarrow> bool" where
  "needs_counter q r \<longleftrightarrow> dlt (pr_target_price r) (sq_unit_price q)"

definition negotiate_one ::
  "'s wf_services \<Rightarrow> wf_state \<Rightarrow> purchase_request \<Rightarrow> supplier_quote \<Rightarrow> dict list
   \<Rightarrow> ('s, exc, (supplier_quote \<times> bool \<times> string list) option \<times> dict list) prog" where
  "negotiate_one sv v r q history =
     (let c = quote_constraints q r; (valid, failures) = validate_offer q r c 1; h1 = history @ [received_entry q] in
      if (\<not> valid \<and> set failures \<subseteq> {''price_limit''}) \<or> (valid \<and> needs_counter q r)
      then
        bnd (lift (services_supplier (sv_adapters sv) (sq_supplier_id q))) (\<lambda>ad.
        (let price = counter_price q r; h2 = h1 @ [counter_entry q price (pr_quantity r)] in
         bnd (ad_counter_offer ad q (py_float price) (py_float (pr_quantity r))
                (ws_request_id v @ '':counter:'' @ str_uuid (sq_supplier_id q))) (\<lambda>chosen.
         case chosen of
           None \<Rightarrow> ret (None, h2 @ [rejected_entry q])
         | Some q' \<Rightarrow> (let (valid', failures') = validate_offer q' r c 2 in ret (Some (q', valid', failures'), h2)))))
      else ret (Some (q, valid, failures), h1))"

fun negotiate_all ::
  "'s wf_services \<Rightarrow> wf_state \<Rightarrow> purchase_request \<Rightarrow> supplier_quote list \<Rightarrow> dict list \<Rightarrow> ('s, exc, wf_state) prog" where
  "negotiate_all sv v r [] history =
     (let v' = v\<lparr>ws_history := history, ws_failure := Some ''negotiation_failed''\<rparr>
      in andthen (sv_record sv v') (ret v'))"
| "negotiate_all sv v r (q # qs) history =
     bnd (negotiate_one sv v r q history) (\<lambda>(chosen, h).
     case chosen of
       None \<Rightarrow> negotiate_all sv v r qs h
     | Some (q', valid, failures) \<Rightarrow>
         if valid
         then
           (let h' = h @ [accepted_entry (needs_counter q r) q'];
                v1 = v\<lparr>ws_selected := Some q', ws_price := Some (py_float (sq_unit_price q')), ws_history := h',
                        ws_failure := Some ''''\<rparr> in
            bnd (lift (services_supplier (sv_adapters sv) (sq_supplier_id q'))) (\<lambda>ad.
            bnd (gets (os_correlation ad (sq_quote_id q'))) (\<lambda>corr.
            (let v2 = (case corr of None \<Rightarrow> v1 | Some i \<Rightarrow> v1\<lparr>ws_correlation := Some (str_uuid i)\<rparr>)
             in andthen (sv_record sv v2) (ret v2)))))
         else negotiate_all sv v r qs (h @ [invalid_entry q failures]))"

definition negotiate :: "'s wf_services \<Rightarrow> wf_state \<Rightarrow> ('s, exc, wf_state) prog" where
  "negotiate sv v = bnd (lift (purchase_request_of v)) (\<lambda>r. negotiate_all sv v r (ws_candidates v) (ws_history v))"

subsection \<open>Risk, proposal, execution\<close>

text \<open>\<open>uuid5\<close> is the name-based UUID (SHA-1) of the standard library.\<close>

definition proposal_namespace :: uuid where
  "proposal_namespace = 0xc0ffee00000040008000000000000002"

definition workflow_proposal ::
  "(uuid \<Rightarrow> string \<Rightarrow> uuid) \<Rightarrow> wf_state \<Rightarrow> supplier_quote \<Rightarrow> exc + purchase_proposal" where
  "workflow_proposal uuid5 v q =
     bindE (uuid_item (ws_merchant_id v)) (\<lambda>m.
     bindE (uuid_item (ws_store_id v)) (\<lambda>st.
     bindE (key_item ''required_quantity'' (ws_required_quantity v)) (\<lambda>n.
       check_purchase_proposal
         \<lparr>pp_proposal_id = uuid5 proposal_namespace (ws_request_id v @ '':'' @ int_str (revision_of v)),
          pp_merchant_id = m, pp_store_id = st, pp_supplier_id = sq_supplier_id q, pp_sku = ws_sku v,
          pp_quantity = n, pp_unit = ws_unit v, pp_unit_price = sq_unit_price q, pp_currency = ''INR'',
          pp_delivery_at = sq_delivery_at q, pp_quote_id = sq_quote_id q\<rparr>)))"

definition risk_check :: "(uuid \<Rightarrow> string \<Rightarrow> uuid) \<Rightarrow> wf_state \<Rightarrow> exc + wf_state" where
  "risk_check uuid5 v =
     bindE (key_item ''selected_supplier'' (ws_selected v)) (\<lambda>q.
     bindE (workflow_proposal uuid5 v q) (\<lambda>p.
     bindE (iso_item (wi_captured_at (ws_inventory v))) (\<lambda>captured.
     bindE (check_inventory_snapshot
              \<lparr>is_product_id = None, is_sku = ws_sku v, is_quantity_on_hand = wi_quantity_on_hand (ws_inventory v),
               is_reorder_point = wi_reorder_point (ws_inventory v), is_captured_at = captured\<rparr>) (\<lambda>snap.
     (let r = risk_evaluate snap p q (ws_spending_limit v) (Dec 1 0) False
      in Inr (v\<lparr>ws_risk := Some r,
                ws_failure := Some (if rr_passed r then '''' else ''risk_failed:'' @ join '','' (rr_reasons r))\<rparr>))))))"

definition create_proposal ::
  "env \<Rightarrow> (uuid \<Rightarrow> string \<Rightarrow> uuid) \<Rightarrow> 's wf_services \<Rightarrow> wf_state \<Rightarrow> ('s, exc, wf_state) prog" where
  "create_proposal e uuid5 sv v =
     bnd (lift (key_item ''selected_supplier'' (ws_selected v))) (\<lambda>q.
     bnd (lift (workflow_proposal uuid5 v q)) (\<lambda>p.
     bnd (sv_ask sv (revision_of v) (ws_request_id v) p) (\<lambda>(a, token).
     (let d = canonical_payload p; i = str_uuid (ar_approval_id a) in
      andthen (sv_record sv (v\<lparr>ws_proposal := Some d, ws_approval_id := Some i\<rparr>))
        (ret (v\<lparr>ws_proposal := Some d, ws_order_hash := Some (canonical_order_hash e d),
                ws_approval_status := Some ''PENDING'', ws_approval_id := Some i, ws_approval_token := Some token\<rparr>))))))"

definition validate_proposal :: "dict \<Rightarrow> exc + purchase_proposal" where
  "validate_proposal d = (case proposal_of_payload d of
     Inr p \<Rightarrow> Inr p | Inl _ \<Rightarrow> Inl (validation_error ''PurchaseProposal''))"

definition execution_key :: "wf_state \<Rightarrow> string" where
  "execution_key v = ws_request_id v @ '':'' @ int_str (revision_of v) @ '':execute''"

text \<open>How the outcome of the executor (or its exception) enters the state.\<close>

definition execution_outcome :: "wf_state \<Rightarrow> purchase_proposal \<Rightarrow> exc + order_result \<Rightarrow> wf_state" where
  "execution_outcome v p res =
     (let attempted = ws_attempted v @ [str_uuid (pp_supplier_id p)] in
      case res of
        Inl x \<Rightarrow> v\<lparr>ws_execution_status := Some ''FAILED'', ws_failure := Some (''execution_failed:'' @ exc_name (cls x)),
                   ws_attempted := attempted\<rparr>
      | Inr r \<Rightarrow>
          if or_status r = OS_APPROVAL_PENDING
          then v\<lparr>ws_execution_status := Some ''WAITING_SUPPLIER_APPROVAL'', ws_result := Some r, ws_failure := Some ''''\<rparr>
          else if or_status r \<noteq> OS_CONFIRMED
          then v\<lparr>ws_execution_status := Some ''FAILED'', ws_result := Some r,
                 ws_failure := Some ''execution_failed:supplier_rejected'', ws_attempted := attempted\<rparr>
          else v\<lparr>ws_execution_status := Some ''SUCCEEDED'', ws_result := Some r, ws_failure := Some ''''\<rparr>)"

definition execute_order :: "'s wf_services \<Rightarrow> wf_state \<Rightarrow> ('s, exc, wf_state) prog" where
  "execute_order sv v =
     bnd (lift (bindE (key_item ''proposal'' (ws_proposal v)) validate_proposal)) (\<lambda>p.
     bnd (attempt
            (bnd (lift (bindE (key_item ''approval_id'' (ws_approval_id v)) uuid_item)) (\<lambda>i.
             bnd (lift (key_item ''approval_token'' (ws_approval_token v))) (\<lambda>token.
               sv_execute sv p i token (execution_key v))))) (\<lambda>res.
       ret (execution_outcome v p res)))"

definition verify_result :: "wf_state \<Rightarrow> wf_state" where
  "verify_result v =
     (let unconfirmed = v\<lparr>ws_failure := (case ws_failure v of None \<Rightarrow> Some ''order_not_confirmed'' | Some f \<Rightarrow> Some f)\<rparr> in
      if ws_execution_status v = Some ''WAITING_SUPPLIER_APPROVAL'' then v\<lparr>ws_failure := Some ''''\<rparr>
      else case ws_result v of
        None \<Rightarrow> unconfirmed
      | Some r \<Rightarrow>
          if ws_execution_status v \<noteq> Some ''SUCCEEDED'' then unconfirmed
          else if or_status r \<noteq> OS_CONFIRMED \<or> or_supplier_confirmation r = None \<or> or_supplier_confirmation r = Some ''''
          then v\<lparr>ws_execution_status := Some ''FAILED'', ws_failure := Some ''supplier_confirmation_missing''\<rparr>
          else v\<lparr>ws_execution_status := Some ''VERIFIED'', ws_failure := Some ''''\<rparr>)"

text \<open>The decision that a resume hands to the interrupted node.\<close>

datatype decision = Approve | Reject | Modify "dec option" "dec option"

definition approval_gate :: "decision \<Rightarrow> wf_state \<Rightarrow> wf_state" where
  "approval_gate d v = (case d of
     Approve \<Rightarrow> v\<lparr>ws_approval_status := Some ''APPROVED''\<rparr>
   | Reject \<Rightarrow> v\<lparr>ws_approval_status := Some ''REJECTED'', ws_failure := Some ''merchant_rejected''\<rparr>
   | Modify quantity max_price \<Rightarrow>
       v\<lparr>ws_approval_status := Some ''MODIFIED'', ws_revision := Some (revision_of v + 1), ws_attempted := [],
         ws_override := True, ws_failure := Some '''',
         ws_required_quantity := (case quantity of None \<Rightarrow> ws_required_quantity v | Some q \<Rightarrow> Some q),
         ws_max_price := (case max_price of None \<Rightarrow> ws_max_price v | Some q \<Rightarrow> q)\<rparr>)"

section \<open>The graph\<close>

datatype wf_node = DetectNeed | ForecastDemand | FindSupplier | Negotiate | RiskCheck | CreateProposal
  | HumanApproval | ExecuteOrder | VerifyResult

record workflow =
  wf_env :: env
  wf_uuid5 :: "uuid \<Rightarrow> string \<Rightarrow> uuid"
  wf_round :: "rat \<Rightarrow> rat"

text \<open>\<open>HumanApproval\<close> is not run by \<open>run_node\<close>: it interrupts.\<close>

definition run_node :: "workflow \<Rightarrow> 's wf_services \<Rightarrow> wf_node \<Rightarrow> wf_state \<Rightarrow> ('s, exc, wf_state) prog" where
  "run_node g sv nd v = (case nd of
     DetectNeed \<Rightarrow> ret (detect_need v)
   | ForecastDemand \<Rightarrow> forecast_demand (wf_round g) sv v
   | FindSupplier \<Rightarrow> find_supplier sv v
   | Negotiate \<Rightarrow> negotiate sv v
   | RiskCheck \<Rightarrow> lift (risk_check (wf_uuid5 g) v)
   | CreateProposal \<Rightarrow> create_proposal (wf_env g) (wf_uuid5 g) sv v
   | HumanApproval \<Rightarrow> ret v
   | ExecuteOrder \<Rightarrow> execute_order sv v
   | VerifyResult \<Rightarrow> ret (verify_result v))"

definition next_node :: "wf_node \<Rightarrow> wf_state \<Rightarrow> wf_node option" where
  "next_node nd v = (case nd of
     DetectNeed \<Rightarrow> if failing v then None else Some ForecastDemand
   | ForecastDemand \<Rightarrow> Some FindSupplier
   | FindSupplier \<Rightarrow> if failing v then None else Some Negotiate
   | Negotiate \<Rightarrow> if failing v then None else Some RiskCheck
   | RiskCheck \<Rightarrow> if failing v then None else Some CreateProposal
   | CreateProposal \<Rightarrow> Some HumanApproval
   | HumanApproval \<Rightarrow>
       if ws_approval_status v = Some ''APPROVED'' then Some ExecuteOrder
       else if ws_approval_status v = Some ''MODIFIED'' then Some ForecastDemand else None
   | ExecuteOrder \<Rightarrow> Some VerifyResult
   | VerifyResult \<Rightarrow> if ws_execution_status v = Some ''FAILED'' then Some FindSupplier else None)"

record wf_thread =
  th_values :: wf_state
  th_next :: "wf_node option"

definition recursion_error :: exc where
  "recursion_error = Exc PyRuntimeError ''GraphRecursionError''"

text \<open>One invocation: nodes until the end of the graph, an interrupt or an exception; the thread keeps
  what the completed nodes left.\<close>

fun invoke :: "nat \<Rightarrow> workflow \<Rightarrow> 's wf_services \<Rightarrow> ('s \<times> wf_thread, exc, unit) prog" where
  "invoke n g sv (s, th) = (case th_next th of
     None \<Rightarrow> (Inr (), (s, th))
   | Some nd \<Rightarrow>
       if nd = HumanApproval then (Inr (), (s, th))
       else case n of
         0 \<Rightarrow> (Inl recursion_error, (s, th))
       | Suc k \<Rightarrow>
           (case run_node g sv nd (th_values th) s of
              (Inl x, s') \<Rightarrow> (Inl x, (s', th))
            | (Inr v, s') \<Rightarrow> invoke k g sv (s', \<lparr>th_values = v, th_next = next_node nd v\<rparr>)))"

definition recursion_limit :: nat where "recursion_limit = 25"

section \<open>Runtime\<close>

definition runtime_start :: "workflow \<Rightarrow> 's wf_services \<Rightarrow> wf_state \<Rightarrow> ('s \<times> wf_thread, exc, unit) prog" where
  "runtime_start g sv v w = invoke recursion_limit g sv (fst w, \<lparr>th_values = v, th_next = Some DetectNeed\<rparr>)"

definition decision_of :: "approval_status \<Rightarrow> dec option \<Rightarrow> dec option \<Rightarrow> exc + decision" where
  "decision_of ac quantity max_price =
     (if ac = AS_APPROVED then Inr Approve
      else if ac = AS_REJECTED then Inr Reject
      else if ac = AS_MODIFIED
      then (if quantity = None \<and> max_price = None
            then Inl (Exc PyValueError ''A quantity or price limit is required for modification'')
            else if (case quantity of None \<Rightarrow> False | Some q \<Rightarrow> dle q dzero)
            then Inl (Exc PyValueError ''A positive quantity is required for modification'')
            else if (case max_price of None \<Rightarrow> False | Some q \<Rightarrow> dle q dzero)
            then Inl (Exc PyValueError ''A positive maximum price is required for modification'')
            else Inr (Modify quantity max_price))
      else Inl (Exc PyKeyError (approval_status_str ac)))"

definition on_services :: "('s, exc, 'a) prog \<Rightarrow> ('s \<times> wf_thread, exc, 'a) prog" where
  "on_services m w = (case m (fst w) of (r, s) \<Rightarrow> (r, (s, snd w)))"

definition expect_proposal :: "uuid option \<Rightarrow> wf_state \<Rightarrow> exc + unit" where
  "expect_proposal expected v = (case expected of
     None \<Rightarrow> Inr ()
   | Some i \<Rightarrow>
       bindE (key_item ''proposal'' (ws_proposal v)) (\<lambda>d.
       bindE (bindE (item_str d ''proposal_id'') uuid_item) (\<lambda>j.
         if j \<noteq> i then Inl (Exc ConflictError ''Proposal does not match the active voice context'') else Inr ())))"

definition runtime_resume ::
  "workflow \<Rightarrow> 's wf_services \<Rightarrow> uuid \<Rightarrow> approval_status \<Rightarrow> string \<Rightarrow> dec option \<Rightarrow> dec option \<Rightarrow> uuid option
   \<Rightarrow> uuid option \<Rightarrow> uuid option \<Rightarrow> ('s \<times> wf_thread, exc, unit) prog" where
  "runtime_resume g sv merchant ac token quantity max_price user expected_approval expected_proposal =
     bnd (gets snd) (\<lambda>th.
     andthen (guard (th_next th = Some HumanApproval) (Exc PyValueError ''Workflow is not waiting for approval''))
     (bnd (lift (bindE (key_item ''approval_id'' (ws_approval_id (th_values th))) uuid_item)) (\<lambda>i.
     andthen (guard (expected_approval = None \<or> expected_approval = Some i)
                (Exc ConflictError ''Approval does not belong to the active workflow revision''))
     (andthen (lift (expect_proposal expected_proposal (th_values th)))
     (andthen (on_services (sv_decide sv i merchant ac token user))
     (bnd (lift (decision_of ac quantity max_price)) (\<lambda>d.
     (let v = approval_gate d (th_values th) in
      andthen (modify (\<lambda>w. (fst w, \<lparr>th_values = v, th_next = next_node HumanApproval v\<rparr>)))
        (invoke (recursion_limit - 1) g sv)))))))))"

declare invoke.simps [simp del]

section \<open>An invocation is short\<close>

text \<open>The nodes that can still run before the graph ends or interrupts: at most six.\<close>

definition remaining :: "wf_node option \<Rightarrow> nat" where
  "remaining nd = (case nd of
     None \<Rightarrow> 0
   | Some d \<Rightarrow> (case d of HumanApproval \<Rightarrow> 0 | CreateProposal \<Rightarrow> 1 | RiskCheck \<Rightarrow> 2 | Negotiate \<Rightarrow> 3
       | FindSupplier \<Rightarrow> 4 | ForecastDemand \<Rightarrow> 5 | VerifyResult \<Rightarrow> 5 | DetectNeed \<Rightarrow> 6 | ExecuteOrder \<Rightarrow> 6))"

lemma remaining_next: "nd \<noteq> HumanApproval \<Longrightarrow> remaining (next_node nd v) < remaining (Some nd)"
  by (cases nd) (simp_all add: remaining_def next_node_def)

lemma remaining_six: "remaining nd \<le> 6"
  by (cases nd) (auto simp: remaining_def split: wf_node.splits)

lemma invoke_done [simp]:
  "th_next th = None \<Longrightarrow> invoke n g sv (s, th) = (Inr (), (s, th))"
  "th_next th = Some HumanApproval \<Longrightarrow> invoke n g sv (s, th) = (Inr (), (s, th))"
  by (subst invoke.simps, simp)+

lemma invoke_Suc:
  "th_next th = Some nd \<Longrightarrow> nd \<noteq> HumanApproval \<Longrightarrow>
   invoke (Suc k) g sv (s, th) = (case run_node g sv nd (th_values th) s of
       (Inl x, s') \<Rightarrow> (Inl x, (s', th))
     | (Inr v, s') \<Rightarrow> invoke k g sv (s', \<lparr>th_values = v, th_next = next_node nd v\<rparr>))"
  by (subst invoke.simps) simp

lemma invoke_enough:
  "remaining (th_next th) \<le> n \<Longrightarrow> remaining (th_next th) \<le> m \<Longrightarrow> invoke n g sv (s, th) = invoke m g sv (s, th)"
proof (induction n arbitrary: m s th)
  case 0
  then have "th_next th = None \<or> th_next th = Some HumanApproval"
    by (auto simp: remaining_def split: option.splits wf_node.splits)
  then show ?case by auto
next
  case (Suc n)
  show ?case
  proof (cases "th_next th = None \<or> th_next th = Some HumanApproval")
    case False
    then obtain nd where nd: "th_next th = Some nd" "nd \<noteq> HumanApproval" by auto
    have less: "remaining (next_node nd v) < remaining (Some nd)" for v using nd(2) by (rule remaining_next)
    then obtain k where m: "m = Suc k" using Suc.prems(2) nd(1) by (cases m) auto
    have "invoke n g sv (s', \<lparr>th_values = v, th_next = next_node nd v\<rparr>)
        = invoke k g sv (s', \<lparr>th_values = v, th_next = next_node nd v\<rparr>)" for s' v
      using less [of v] Suc.prems nd(1) m by (intro Suc.IH) simp_all
    then show ?thesis by (simp add: m invoke_Suc [OF nd] split: prod.splits sum.splits)
  qed auto
qed

lemma invoke_within_limit: "6 \<le> n \<Longrightarrow> invoke n g sv w = invoke 6 g sv w"
  using remaining_six [of "th_next (snd w)"] by (cases w) (auto intro: invoke_enough)

text \<open>Within the limit an invocation ends at the gate, at the end of the graph, or with an exception of
  one of its nodes; never for lack of steps.\<close>

lemma invoke_outcome:
  "remaining (th_next th) \<le> n \<Longrightarrow> invoke n g sv (s, th) = (r, (s', th')) \<Longrightarrow>
     (r = Inr () \<and> (th_next th' = None \<or> th_next th' = Some HumanApproval))
   \<or> (\<exists>nd u x. th_next th' = Some nd \<and> run_node g sv nd (th_values th') u = (Inl x, s') \<and> r = Inl x)"
proof (induction n arbitrary: s th)
  case 0
  then have "th_next th = None \<or> th_next th = Some HumanApproval"
    by (auto simp: remaining_def split: option.splits wf_node.splits)
  with 0 show ?case by auto
next
  case (Suc n)
  show ?case
  proof (cases "th_next th = None \<or> th_next th = Some HumanApproval")
    case True
    with Suc.prems show ?thesis by auto
  next
    case False
    then obtain nd where nd: "th_next th = Some nd" "nd \<noteq> HumanApproval" by auto
    obtain v u where n: "run_node g sv nd (th_values th) s = (v, u)" by (cases "run_node g sv nd (th_values th) s")
    show ?thesis
    proof (cases v)
      case (Inl x)
      with Suc.prems n nd show ?thesis by (auto simp: invoke_Suc [OF nd])
    next
      case (Inr v')
      have "remaining (next_node nd v') \<le> n"
        using remaining_next [OF nd(2), of v'] Suc.prems(1) nd(1) by simp
      with Suc.IH [of "\<lparr>th_values = v', th_next = next_node nd v'\<rparr>" u] Suc.prems(2) n Inr show ?thesis
        by (simp add: invoke_Suc [OF nd])
    qed
  qed
qed

section \<open>Every proposal at the gate is within the limits\<close>

definition offer_ok :: "wf_state \<Rightarrow> supplier_quote \<Rightarrow> bool" where
  "offer_ok v q \<longleftrightarrow> eligible v q \<and> (\<exists>r. purchase_request_of v = Inr r \<and> acceptable q r (quote_constraints q r))"

definition proposal_ok :: "workflow \<Rightarrow> wf_state \<Rightarrow> supplier_quote \<Rightarrow> purchase_proposal \<Rightarrow> bool" where
  "proposal_ok g v q p \<longleftrightarrow> workflow_proposal (wf_uuid5 g) v q = Inr p \<and> offer_ok v q
     \<and> rat_of (total_amount p) \<le> rat_of (ws_spending_limit v)"

definition thread_ok :: "workflow \<Rightarrow> wf_thread \<Rightarrow> bool" where
  "thread_ok g th = (let v = th_values th in case th_next th of
     Some Negotiate \<Rightarrow> list_all (eligible v) (ws_candidates v)
   | Some RiskCheck \<Rightarrow> (\<exists>q. ws_selected v = Some q \<and> offer_ok v q)
   | Some CreateProposal \<Rightarrow> (\<exists>q p. ws_selected v = Some q \<and> proposal_ok g v q p)
   | Some HumanApproval \<Rightarrow> (\<exists>q p. proposal_ok g v q p \<and> ws_proposal v = Some (canonical_payload p))
   | _ \<Rightarrow> True)"

lemma acceptable_same_supplier:
  "acceptable q' r (quote_constraints q r) \<Longrightarrow>
   str_uuid (sq_supplier_id q') = str_uuid (sq_supplier_id q) \<and> acceptable q' r (quote_constraints q' r)"
  by (simp add: acceptable_def quote_constraints_def)

lemma validate_fst: "validate_offer q r c n = (True, fs) \<Longrightarrow> acceptable q r c"
  using validate_offer_iff [of q r c n] by simp

lemma negotiate_one_valid:
  assumes "negotiate_one sv v r q h s = (Inr (Some (q', True, fs), h'), t)"
  shows "acceptable q' r (quote_constraints q r)"
proof -
  obtain b ff where vo: "validate_offer q r (quote_constraints q r) 1 = (b, ff)"
    by (cases "validate_offer q r (quote_constraints q r) 1")
  show ?thesis
  proof (cases "(\<not> b \<and> set ff \<subseteq> {''price_limit''}) \<or> (b \<and> needs_counter q r)")
    case True
    with assms vo obtain q2 where "validate_offer q2 r (quote_constraints q r) 2 = (True, fs)" "q2 = q'"
      by (auto simp: negotiate_one_def Let_def run_simps split: prod.splits option.splits)
    then show ?thesis by (auto dest: validate_fst)
  next
    case False
    with assms vo have "q' = q" "b" by (auto simp: negotiate_one_def Let_def run_simps)
    with vo show ?thesis by (auto dest: validate_fst)
  qed
qed

lemma negotiate_all_ok:
  assumes "negotiate_all sv v r qs h s = (Inr v', t)" and "purchase_request_of v = Inr r"
    and "list_all (eligible v) qs" and "\<not> failing v'"
  shows "\<exists>q. ws_selected v' = Some q \<and> offer_ok v' q"
  using assms(1,3)
proof (induction qs arbitrary: h s)
  case Nil
  then have "failing v'" by (auto simp: run_simps Let_def failing_def)
  with assms(4) show ?case by simp
next
  case (Cons q qs)
  from Cons.prems(1) obtain ch h1 u where one: "negotiate_one sv v r q h s = (Inr (ch, h1), u)"
    and rest: "(case ch of None \<Rightarrow> negotiate_all sv v r qs h1 | Some (q', valid, failures) \<Rightarrow>
         if valid
         then
           (let h' = h1 @ [accepted_entry (needs_counter q r) q'];
                v1 = v\<lparr>ws_selected := Some q', ws_price := Some (py_float (sq_unit_price q')), ws_history := h',
                        ws_failure := Some ''''\<rparr> in
            bnd (lift (services_supplier (sv_adapters sv) (sq_supplier_id q'))) (\<lambda>ad.
            bnd (gets (os_correlation ad (sq_quote_id q'))) (\<lambda>corr.
            (let v2 = (case corr of None \<Rightarrow> v1 | Some i \<Rightarrow> v1\<lparr>ws_correlation := Some (str_uuid i)\<rparr>)
             in andthen (sv_record sv v2) (ret v2)))))
         else negotiate_all sv v r qs (h1 @ [invalid_entry q failures])) u = (Inr v', t)"
    by (auto simp: run_simps)
  show ?case
  proof (cases "\<exists>q' fs. ch = Some (q', True, fs)")
    case True
    then obtain q' fs where ch: "ch = Some (q', True, fs)" by blast
    have acc: "acceptable q' r (quote_constraints q r)" using one unfolding ch by (rule negotiate_one_valid)
    note acc' = acceptable_same_supplier [OF this]
    have el: "eligible v q'" using Cons.prems(2) acc' by (auto simp: eligible_def split: option.splits)
    obtain c where v': "v' = v\<lparr>ws_selected := Some q', ws_price := Some (py_float (sq_unit_price q')),
        ws_history := h1 @ [accepted_entry (needs_counter q r) q'], ws_failure := Some ''''\<rparr>
      \<or> v' = v\<lparr>ws_selected := Some q', ws_price := Some (py_float (sq_unit_price q')),
        ws_history := h1 @ [accepted_entry (needs_counter q r) q'], ws_failure := Some '''', ws_correlation := c\<rparr>"
      using rest unfolding ch by (auto simp: run_simps Let_def split: option.splits)
    have "ws_selected v' = Some q'" "eligible v' = eligible v" "purchase_request_of v' = purchase_request_of v"
      using v' by (auto simp: eligible_def fun_eq_iff purchase_request_of_def)
    with el acc' assms(2) show ?thesis by (auto simp: offer_ok_def)
  next
    case False
    with rest obtain h2 where "negotiate_all sv v r qs h2 u = (Inr v', t)"
      by (auto split: option.splits if_splits)
    from Cons.IH [OF this] Cons.prems(2) show ?thesis by simp
  qed
qed

lemma risk_limit: "rr_passed (risk_evaluate snap p q limit tr d) \<Longrightarrow> rat_of (total_amount p) \<le> rat_of limit"
  by (simp add: risk_evaluate_def risk_checks_def Let_def dle_rat)

lemma run_node_ok:
  assumes "thread_ok g th" and "th_next th = Some nd" and "nd \<noteq> HumanApproval"
    and "run_node g sv nd (th_values th) s = (Inr v, t)"
  shows "thread_ok g \<lparr>th_values = v, th_next = next_node nd v\<rparr>"
proof (cases nd)
  case FindSupplier
  with assms(4) show ?thesis
    by (auto simp: run_node_def find_supplier_def run_simps Let_def thread_ok_def next_node_def failing_def
        list_all_iff eligible_def)
next
  case Negotiate
  obtain r where r: "purchase_request_of (th_values th) = Inr r"
    and n: "negotiate_all sv (th_values th) r (ws_candidates (th_values th)) (ws_history (th_values th)) s = (Inr v, t)"
    using assms(4) Negotiate by (auto simp: run_node_def negotiate_def run_simps)
  have el: "list_all (eligible (th_values th)) (ws_candidates (th_values th))"
    using assms(1,2) Negotiate by (simp add: thread_ok_def Let_def)
  from negotiate_all_ok [OF n r el] Negotiate show ?thesis by (auto simp: thread_ok_def next_node_def Let_def)
next
  case RiskCheck
  from assms(1,2) RiskCheck obtain q where q: "ws_selected (th_values th) = Some q" "offer_ok (th_values th) q"
    by (auto simp: thread_ok_def Let_def)
  from assms(4) RiskCheck q obtain p snap where p: "workflow_proposal (wf_uuid5 g) (th_values th) q = Inr p"
    and v: "v = (let rs = risk_evaluate snap p q (ws_spending_limit (th_values th)) (Dec 1 0) False
      in (th_values th)\<lparr>ws_risk := Some rs,
                ws_failure := Some (if rr_passed rs then '''' else ''risk_failed:'' @ join '','' (rr_reasons rs))\<rparr>)"
    by (auto simp: run_node_def risk_check_def key_item_def run_simps Let_def)
  have same: "ws_selected v = Some q" "offer_ok v q" "workflow_proposal (wf_uuid5 g) v q = Inr p"
    "ws_spending_limit v = ws_spending_limit (th_values th)"
    using q p by (auto simp: v Let_def offer_ok_def eligible_def purchase_request_of_def workflow_proposal_def revision_of_def)
  show ?thesis
  proof (cases "failing v")
    case True
    with RiskCheck show ?thesis by (simp add: thread_ok_def next_node_def)
  next
    case False
    then have "rr_passed (risk_evaluate snap p q (ws_spending_limit (th_values th)) (Dec 1 0) False)"
      by (auto simp: v Let_def failing_def split: if_splits)
    then have "rat_of (total_amount p) \<le> rat_of (ws_spending_limit v)"
      using same(4) by (simp add: risk_limit)
    with same RiskCheck False show ?thesis by (auto simp: thread_ok_def next_node_def proposal_ok_def Let_def)
  qed
next
  case CreateProposal
  from assms(1,2) CreateProposal obtain q p where q: "ws_selected (th_values th) = Some q" "proposal_ok g (th_values th) q p"
    by (auto simp: thread_ok_def Let_def)
  from assms(4) CreateProposal q obtain h i tok where
      v: "v = (th_values th)\<lparr>ws_proposal := Some (canonical_payload p), ws_order_hash := h,
          ws_approval_status := Some ''PENDING'', ws_approval_id := i, ws_approval_token := tok\<rparr>"
    by (auto simp: run_node_def create_proposal_def key_item_def run_simps Let_def proposal_ok_def)
  have "proposal_ok g v q p"
    using q by (simp add: v proposal_ok_def offer_ok_def eligible_def purchase_request_of_def workflow_proposal_def
        revision_of_def)
  then show ?thesis using CreateProposal by (auto simp: v thread_ok_def next_node_def Let_def)
qed (use assms(3) in \<open>auto simp: thread_ok_def next_node_def Let_def split: if_splits\<close>)

lemma invoke_ok: "invoke n g sv (s, th) = (r, (s', th')) \<Longrightarrow> thread_ok g th \<Longrightarrow> thread_ok g th'"
proof (induction n arbitrary: s th)
  case 0
  then show ?case by (subst (asm) invoke.simps) (auto split: option.splits if_splits)
next
  case (Suc n)
  show ?case
  proof (cases "th_next th = None \<or> th_next th = Some HumanApproval")
    case True
    with Suc.prems show ?thesis by auto
  next
    case False
    then obtain nd where nd: "th_next th = Some nd" "nd \<noteq> HumanApproval" by auto
    obtain v u where n: "run_node g sv nd (th_values th) s = (v, u)" by (cases "run_node g sv nd (th_values th) s")
    show ?thesis
    proof (cases v)
      case (Inl x)
      with Suc.prems n show ?thesis by (simp add: invoke_Suc [OF nd])
    next
      case (Inr v')
      with run_node_ok [OF Suc.prems(2) nd] n have "thread_ok g \<lparr>th_values = v', th_next = next_node nd v'\<rparr>" by simp
      with Suc.IH Suc.prems(1) n Inr show ?thesis by (simp add: invoke_Suc [OF nd])
    qed
  qed
qed

text \<open>The threads that starts and resumes can produce, whatever happens to the services' state in
  between.\<close>

inductive reachable :: "workflow \<Rightarrow> 's wf_services \<Rightarrow> 's \<times> wf_thread \<Rightarrow> bool" for g sv where
  started: "runtime_start g sv v w = (r, w') \<Longrightarrow> reachable g sv w'"
| resumed: "reachable g sv w \<Longrightarrow> runtime_resume g sv m ac tok q mp u ea ep w = (r, w') \<Longrightarrow> reachable g sv w'"
| elsewhere: "reachable g sv (s, th) \<Longrightarrow> reachable g sv (s', th)"

lemma resume_cases:
  assumes "runtime_resume g sv m ac tok q mp u ea ep (s, th) = (r, (s', th'))"
  obtains (refused) x where "r = Inl x" "th' = th" "s' = s"
  | (undecided) x where "r = Inl x" "th' = th" "th_next th = Some HumanApproval"
      "\<exists>i. sv_decide sv i m ac tok u s = (Inl x, s')"
  | (stuck) i rec x where "r = Inl x" "th' = th" "th_next th = Some HumanApproval"
      "sv_decide sv i m ac tok u s = (Inr rec, s')" "decision_of ac q mp = Inl x"
  | (decided) i rec d s1 where "th_next th = Some HumanApproval" "sv_decide sv i m ac tok u s = (Inr rec, s1)"
      "bindE (key_item ''approval_id'' (ws_approval_id (th_values th))) uuid_item = Inr i"
      "decision_of ac q mp = Inr d"
      "invoke (recursion_limit - 1) g sv (s1, \<lparr>th_values = approval_gate d (th_values th),
         th_next = next_node HumanApproval (approval_gate d (th_values th))\<rparr>) = (r, (s', th'))"
proof (cases "th_next th = Some HumanApproval")
  case False
  with assms refused show thesis
    by (auto simp: runtime_resume_def bnd_def andthen_def gets_def guard_def raise_def)
next
  case True
  let ?i = "bindE (key_item ''approval_id'' (ws_approval_id (th_values th))) uuid_item"
  show thesis
  proof (cases ?i)
    case (Inl x)
    with assms True refused show thesis
      by (auto simp: runtime_resume_def bnd_def andthen_def gets_def guard_def ret_def lift_def)
  next
    case (Inr i)
    note i = this
    show thesis
    proof (cases "(ea = None \<or> ea = Some i) \<and> expect_proposal ep (th_values th) = Inr ()")
      case False
      then consider "\<not> (ea = None \<or> ea = Some i)"
        | x where "ea = None \<or> ea = Some i" "expect_proposal ep (th_values th) = Inl x"
        by (cases "ea = None \<or> ea = Some i"; cases "expect_proposal ep (th_values th)") auto
      then have "\<exists>x. r = Inl x \<and> th' = th \<and> s' = s"
        using assms True i
        by cases (simp_all add: runtime_resume_def bnd_def andthen_def gets_def guard_def ret_def raise_def lift_def,
            metis+)
      then show thesis using refused by blast
    next
      case True2: True
      obtain dr s1 where dec: "sv_decide sv i m ac tok u s = (dr, s1)" by (cases "sv_decide sv i m ac tok u s")
      have run: "(case dr of Inl x \<Rightarrow> (Inl x, (s1, th)) | Inr rec \<Rightarrow>
          (case decision_of ac q mp of Inl x \<Rightarrow> (Inl x, (s1, th))
           | Inr d \<Rightarrow> invoke (recursion_limit - 1) g sv (s1, \<lparr>th_values = approval_gate d (th_values th),
               th_next = next_node HumanApproval (approval_gate d (th_values th))\<rparr>))) = (r, (s', th'))"
        using assms True True2 i dec
        by (auto simp: runtime_resume_def bnd_def andthen_def gets_def guard_def ret_def lift_def on_services_def
            modify_def Let_def split: sum.splits)
      show thesis
      proof (cases dr)
        case (Inl x)
        with run dec True undecided show thesis by auto
      next
        case (Inr rec)
        with run dec True i stuck decided show thesis by (cases "decision_of ac q mp") auto
      qed
    qed
  qed
qed

lemma gate_routes:
  "next_node HumanApproval (approval_gate d v) = (case d of Approve \<Rightarrow> Some ExecuteOrder | Reject \<Rightarrow> None
     | Modify _ _ \<Rightarrow> Some ForecastDemand)"
  by (cases d) (simp_all add: next_node_def approval_gate_def)

lemma thread_ok_gate: "thread_ok g \<lparr>th_values = v, th_next = next_node HumanApproval (approval_gate d v')\<rparr>"
  by (cases d) (simp_all add: thread_ok_def gate_routes)

lemma reachable_ok: "reachable g sv w \<Longrightarrow> thread_ok g (snd w)"
proof (induction rule: reachable.induct)
  case (started v w r w')
  then show ?case
    by (cases w') (auto simp: runtime_start_def thread_ok_def dest!: invoke_ok)
next
  case (resumed w m ac tok q mp u ea ep r w')
  obtain s th where w: "w = (s, th)" by (cases w)
  obtain s' th' where w': "w' = (s', th')" by (cases w')
  have ok: "thread_ok g th" using resumed.IH w by simp
  from resumed.hyps(2)[unfolded w w'] show ?case
    by (cases rule: resume_cases) (auto simp: w' ok intro: invoke_ok thread_ok_gate)
qed simp

section \<open>Nothing is executed without an approval\<close>

text \<open>Only the node behind an APPROVED decision uses the executor: with any other executor the other
  invocations are the same.\<close>

lemma negotiate_all_executor: "negotiate_all (sv\<lparr>sv_execute := f\<rparr>) v r qs h = negotiate_all sv v r qs h"
proof (induction qs arbitrary: h)
  case (Cons q qs)
  have "negotiate_one (sv\<lparr>sv_execute := f\<rparr>) v r q h = negotiate_one sv v r q h"
    by (simp add: negotiate_one_def Let_def cong: if_cong)
  with Cons show ?case by (simp add: Let_def cong: option.case_cong if_cong)
qed simp

lemma run_node_executor:
  "nd \<noteq> ExecuteOrder \<Longrightarrow> run_node g (sv\<lparr>sv_execute := f\<rparr>) nd v = run_node g sv nd v"
  by (cases nd) (simp_all add: run_node_def forecast_demand_def find_supplier_def negotiate_def
      create_proposal_def negotiate_all_executor)

definition before_gate :: "wf_node option \<Rightarrow> bool" where
  "before_gate nd \<longleftrightarrow> nd \<notin> {Some ExecuteOrder, Some VerifyResult}"

lemma before_gate_next: "before_gate (Some nd) \<Longrightarrow> nd \<noteq> HumanApproval \<Longrightarrow> before_gate (next_node nd v)"
  by (cases nd) (simp_all add: before_gate_def next_node_def)

lemma invoke_executor:
  "before_gate (th_next th) \<Longrightarrow> invoke n g (sv\<lparr>sv_execute := f\<rparr>) (s, th) = invoke n g sv (s, th)"
proof (induction n arbitrary: s th)
  case 0
  show ?case by (subst (1 2) invoke.simps) (simp split: option.splits)
next
  case (Suc n)
  show ?case
  proof (cases "th_next th = None \<or> th_next th = Some HumanApproval")
    case False
    then obtain nd where nd: "th_next th = Some nd" "nd \<noteq> HumanApproval" by auto
    with Suc.prems have "nd \<noteq> ExecuteOrder" by (auto simp: before_gate_def)
    moreover have "before_gate (next_node nd v)" for v
      using before_gate_next [OF _ nd(2)] Suc.prems nd(1) by simp
    ultimately show ?thesis
      using Suc.IH by (simp add: invoke_Suc [OF nd] run_node_executor split: prod.splits sum.splits)
  qed auto
qed

lemma start_executor: "runtime_start g (sv\<lparr>sv_execute := f\<rparr>) v w = runtime_start g sv v w"
  by (simp add: runtime_start_def invoke_executor before_gate_def)

lemma resume_executor:
  assumes "ac \<noteq> AS_APPROVED"
  shows "runtime_resume g (sv\<lparr>sv_execute := f\<rparr>) m ac tok q mp u ea ep w = runtime_resume g sv m ac tok q mp u ea ep w"
proof -
  have "invoke n g (sv\<lparr>sv_execute := f\<rparr>) (s, \<lparr>th_values = v, th_next = next_node HumanApproval v\<rparr>)
      = invoke n g sv (s, \<lparr>th_values = v, th_next = next_node HumanApproval v\<rparr>)"
    if "decision_of ac q mp = Inr d" "v = approval_gate d v'" for n s v d v'
  proof (rule invoke_executor)
    have "d \<noteq> Approve" using that(1) assms by (auto simp: decision_of_def split: if_splits)
    then show "before_gate (th_next \<lparr>th_values = v, th_next = next_node HumanApproval v\<rparr>)"
      unfolding that(2) by (cases d) (auto simp: before_gate_def gate_routes)
  qed
  then show ?thesis
    unfolding runtime_resume_def
    by (auto simp: bnd_def andthen_def gets_def lift_def on_services_def modify_def Let_def fun_eq_iff
        split: prod.splits sum.splits)
qed

section \<open>Resuming against a contract\<close>

text \<open>With an authority that satisfies its contract.  A modification without quantity and price is
  committed by the authority and then refused by the runtime: the thread stays at the gate of an
  approval that can never be decided again.\<close>

context approval_authority
begin

lemma resume_refused_stuck:
  assumes sv: "sv_decide sv = decide" and "ok s"
    and run: "runtime_resume g sv m AS_MODIFIED tok None None u ea ep (s, th) = (r, (s', th'))"
  shows "\<exists>x. r = Inl x \<and> th' = th \<and> ok s'"
  using run
proof (cases rule: resume_cases)
  case (undecided x)
  with sv assms(2) decide_fails show ?thesis by auto
next
  case (stuck i rec x)
  with sv assms(2) decide_once [of s i] show ?thesis by auto
next
  case (decided i rec d s1)
  then show ?thesis by (simp add: decision_of_def)
qed (use assms(2) in auto)

lemma resume_decided_fails:
  assumes sv: "sv_decide sv = decide" and "ok s"
    and i: "bindE (key_item ''approval_id'' (ws_approval_id (th_values th))) uuid_item = Inr i"
    and rec: "lookup s i = Some rec" "ar_status rec \<noteq> AS_PENDING"
    and others: "\<And>k r. lookup s k = Some r \<Longrightarrow> ar_proposal_id r \<noteq> i"
    and run: "runtime_resume g sv m ac tok q mp u ea ep (s, th) = (r, (s', th'))"
  shows "\<exists>x. r = Inl x \<and> th' = th"
proof -
  have no: "decide i m ac tok u s \<noteq> (Inr r1, s1)" for r1 s1
  proof
    assume d: "decide i m ac tok u s = (Inr r1, s1)"
    from decide_once [OF assms(2) d] obtain r0 where r0: "lookup s (ar_approval_id r1) = Some r0"
      "ar_status r0 = AS_PENDING" "ar_proposal_id r0 = ar_proposal_id r1" by auto
    from decide_names [OF assms(2) d] others [OF r0(1)] r0 rec show False by auto
  qed
  from run show ?thesis
  proof (cases rule: resume_cases)
    case (decided j rec' d s1)
    with no i sv show ?thesis by auto
  qed auto
qed

end

text \<open>With an executor that satisfies its contract: executing again for the same request and revision,
  as after a failed order, gives the result of the first execution, whatever is proposed and approved
  now.\<close>

context transaction_executor
begin

lemma execute_node_again:
  assumes sv: "sv_execute sv = exec"
    and p2: "ws_proposal v2 = Some d2" "validate_proposal d2 = Inr p2"
    and same: "pp_merchant_id p2 = pp_merchant_id p1" "execution_key v2 = execution_key v1"
    and ran: "exec p1 j1 k1 (execution_key v1) s = (Inr r, t)"
    and again: "execute_order sv v2 t = (Inr w2, u)"
  shows "u = t \<and> (\<exists>res. w2 = execution_outcome v2 p2 res \<and> (\<forall>r'. res = Inr r' \<longrightarrow> r' = r))"
proof -
  from again p2 obtain res where w2: "w2 = execution_outcome v2 p2 res"
    and res: "(bnd (lift (bindE (key_item ''approval_id'' (ws_approval_id v2)) uuid_item)) (\<lambda>i.
             bnd (lift (key_item ''approval_token'' (ws_approval_token v2))) (\<lambda>token.
               sv_execute sv p2 i token (execution_key v2)))) t = (res, u)"
    by (auto simp: execute_order_def key_item_def run_simps)
  show ?thesis
  proof (cases "\<exists>i token. bindE (key_item ''approval_id'' (ws_approval_id v2)) uuid_item = Inr i
      \<and> key_item ''approval_token'' (ws_approval_token v2) = Inr token")
    case True
    then obtain i token where "exec p2 i token (execution_key v1) t = (res, u)"
      using res same sv by (auto simp: bnd_def lift_def)
    from exec_once [OF ran same(1) this] w2 show ?thesis by auto
  next
    case False
    then have "u = t \<and> (\<exists>x. res = Inl x)"
      using res by (cases res) (auto simp: run_simps)
    with w2 show ?thesis by auto
  qed
qed

end

end
