(* ===== verification/Activity.thy ===== *)
theory Activity
  imports Workflow
begin

text \<open>
  \<open>app/application/services/activity_service.py\<close>: the recorders that keep the negotiation rows, the
  A2A messages and their events beside the workflow, each in its own transaction.
\<close>

section \<open>Negotiations\<close>

definition negotiation_clash :: "negotiation_row \<Rightarrow> negotiation_row \<Rightarrow> bool" where
  "negotiation_clash x y \<longleftrightarrow> n_correlation_id x = n_correlation_id y"

definition negotiation_namespace :: uuid where
  "negotiation_namespace = 0xc0ffee00000040008000000000000003"

text \<open>\<open>model_dump(mode="json")\<close> of a quote.\<close>

definition quote_json :: "supplier_quote \<Rightarrow> dict" where
  "quote_json q =
     [(''supplier_id'', JStr (str_uuid (sq_supplier_id q))), (''supplier_name'', JStr (sq_supplier_name q)),
      (''sku'', JStr (sq_sku q)), (''available_quantity'', JStr (str_dec (sq_available_quantity q))),
      (''unit_price'', JStr (str_dec (sq_unit_price q))), (''currency'', JStr (sq_currency q)),
      (''delivery_at'', JStr (iso_z (sq_delivery_at q))), (''quote_id'', JStr (sq_quote_id q)),
      (''expires_at'', JStr (iso_z (sq_expires_at q)))]"

definition negotiation_correlation :: "(uuid \<Rightarrow> string \<Rightarrow> uuid) \<Rightarrow> wf_state \<Rightarrow> exc + uuid" where
  "negotiation_correlation uuid5 v =
     (case ws_correlation v of
        Some c \<Rightarrow> if c = '''' then Inr (uuid5 negotiation_namespace (ws_request_id v)) else uuid_item c
      | None \<Rightarrow> Inr (uuid5 negotiation_namespace (ws_request_id v)))"

definition state_proposal_id :: "wf_state \<Rightarrow> exc + uuid option" where
  "state_proposal_id v = (case ws_proposal v of
     None \<Rightarrow> Inr None
   | Some d \<Rightarrow> (case map_of d ''proposal_id'' of
       Some (JStr x) \<Rightarrow> if x = '''' then Inr None else bindE (uuid_item x) (\<lambda>i. Inr (Some i))
     | _ \<Rightarrow> Inr None))"

definition new_negotiation ::
  "uuid \<Rightarrow> int \<Rightarrow> uuid \<Rightarrow> uuid \<Rightarrow> supplier_quote \<Rightarrow> uuid \<Rightarrow> uuid option \<Rightarrow> wf_state \<Rightarrow> negotiation_row" where
  "new_negotiation i now merchant store q correlation proposal v =
     \<lparr>row_id = i, created_at = now, updated_at = now, n_merchant_id = merchant, n_store_id = Some store,
      n_supplier_id = sq_supplier_id q, n_correlation_id = correlation,
      n_workflow_request_id = Some (ws_request_id v), n_proposal_id = proposal, n_sku = ws_sku v,
      n_status = NS_ACCEPTED, n_round_count = int (length (ws_history v)),
      n_constraints = [(''target_price'', JStr (str_dec (ws_target_price v))),
        (''max_price'', JStr (str_dec (ws_max_price v))),
        (''quantity'', JStr (case ws_required_quantity v of None \<Rightarrow> '''' | Some n \<Rightarrow> str_dec n)),
        (''unit'', JStr (ws_unit v))],
      n_history = map JObj (ws_history v), n_current_quote = Some (quote_json q)\<rparr>"

text \<open>An existing row keeps its supplier, correlation and constraints.\<close>

definition updated_negotiation :: "supplier_quote \<Rightarrow> uuid option \<Rightarrow> wf_state \<Rightarrow> negotiation_row \<Rightarrow> negotiation_row" where
  "updated_negotiation q proposal v r =
     r\<lparr>n_status := NS_ACCEPTED, n_round_count := int (length (ws_history v)), n_history := map JObj (ws_history v),
       n_current_quote := Some (quote_json q),
       n_proposal_id := (case proposal of None \<Rightarrow> n_proposal_id r | Some i \<Rightarrow> Some i)\<rparr>"

text \<open>The row of the request, added or updated: its id and supplier.\<close>

definition put_negotiation ::
  "env \<Rightarrow> uuid \<Rightarrow> supplier_quote \<Rightarrow> uuid \<Rightarrow> wf_state \<Rightarrow> (uuid \<times> uuid) m" where
  "put_negotiation e merchant q correlation v =
     bnd (gets (\<lambda>s. find (\<lambda>n. n_merchant_id n = merchant \<and> n_workflow_request_id n = Some (ws_request_id v))
             (t_negotiations s))) (\<lambda>found.
     case found of
       None \<Rightarrow>
         bnd (lift (uuid_item (ws_store_id v))) (\<lambda>store.
         bnd (lift (key_item ''required_quantity'' (ws_required_quantity v))) (\<lambda>_.
         bnd (lift (state_proposal_id v)) (\<lambda>proposal.
         bnd (new_uuid e) (\<lambda>i. bnd (gets clock) (\<lambda>now.
         andthen (add_row t_negotiations t_negotiations_update negotiation_clash
                    (new_negotiation i now merchant store q correlation proposal v))
           (ret (i, sq_supplier_id q)))))))
     | Some r \<Rightarrow>
         bnd (lift (state_proposal_id v)) (\<lambda>proposal.
         andthen (change_row t_negotiations t_negotiations_update (row_id r) (updated_negotiation q proposal v))
           (ret (row_id r, n_supplier_id r))))"

definition record_negotiation :: "env \<Rightarrow> (uuid \<Rightarrow> string \<Rightarrow> uuid) \<Rightarrow> wf_state \<Rightarrow> unit m" where
  "record_negotiation e uuid5 v =
     bnd (lift (uuid_item (ws_merchant_id v))) (\<lambda>merchant.
     case ws_selected v of
       None \<Rightarrow> ret ()
     | Some q \<Rightarrow>
         bnd (lift (negotiation_correlation uuid5 v)) (\<lambda>correlation.
         request
           (bnd (put_negotiation e merchant q correlation v) (\<lambda>(i, supplier).
            bnd (gets clock) (\<lambda>now.
            andthen (modify (\<lambda>s. s\<lparr>t_a2a_messages :=
                upd (\<lambda>x. msg_merchant_id x = Some merchant \<and> msg_correlation_id x = correlation)
                  (\<lambda>x. x\<lparr>msg_negotiation_id := Some i, updated_at := now\<rparr>) (t_a2a_messages s)\<rparr>))
            (add_outbox e (Some merchant) ''negotiation'' i NEGOTIATION_UPDATED (Some (str_uuid correlation)) None
               [(''negotiation_id'', JStr (str_uuid i)), (''status'', JStr ''ACCEPTED''),
                (''supplier_id'', JStr (str_uuid supplier))]))))))"

section \<open>Messages\<close>

definition record_message ::
  "env \<Rightarrow> a2a_envelope \<Rightarrow> string \<Rightarrow> uuid \<Rightarrow> uuid \<Rightarrow> unit m" where
  "record_message e v dir merchant supplier =
     request
       (bnd (gets (\<lambda>s. list_ex (\<lambda>x. msg_message_id x = env_message_id v
               \<or> msg_idempotency_key x = env_idempotency_key v) (t_a2a_messages s))) (\<lambda>seen.
        if seen then ret ()
        else
          bnd (gets (\<lambda>s. map_option row_id (find (\<lambda>n. n_merchant_id n = merchant
                 \<and> n_correlation_id n = env_correlation_id v) (t_negotiations s)))) (\<lambda>negotiation.
          bnd (new_uuid e) (\<lambda>i. bnd (gets clock) (\<lambda>now.
          andthen (add_row t_a2a_messages t_a2a_messages_update message_clash
             ((message_of_envelope i now v dir)\<lparr>msg_merchant_id := Some merchant, msg_supplier_id := Some supplier,
                msg_negotiation_id := negotiation, msg_status := (if dir = ''OUTBOUND'' then ''SENT'' else ''RECEIVED''),
                msg_processed_at := Some (env_timestamp v)\<rparr>))
          (add_outbox e (Some merchant) ''a2a_message'' i A2A_MESSAGE_RECEIVED
             (Some (str_uuid (env_correlation_id v))) (Some (env_trace_id v))
             [(''activity_id'', JStr (str_uuid i)), (''intent'', JStr (intent_str (env_intent v))),
              (''direction'', JStr dir), (''supplier_id'', JStr (str_uuid supplier))]))))))"

section \<open>One negotiation per request\<close>

definition request_rows :: "uuid \<Rightarrow> string \<Rightarrow> db \<Rightarrow> negotiation_row list" where
  "request_rows merchant rid s =
     filter (\<lambda>n. n_merchant_id n = merchant \<and> n_workflow_request_id n = Some rid) (t_negotiations s)"

lemma filter_upd_same:
  "(\<And>r. P (f r) = P r) \<Longrightarrow> filter P (upd Q f rows) = upd Q f (filter P rows)"
  by (induction rows) auto

text \<open>Recording never adds a second negotiation for a request; what it adds or updates has the current
  quote.\<close>

lemma put_negotiation_once:
  assumes "put_negotiation e merchant q c v s = (Inr (i, sup'), t)"
    and "length (request_rows merchant (ws_request_id v) s) \<le> 1"
  shows "length (request_rows merchant (ws_request_id v) t) \<le> 1"
proof (cases "find (\<lambda>n. n_merchant_id n = merchant \<and> n_workflow_request_id n = Some (ws_request_id v)) (t_negotiations s)")
  case None
  then have "request_rows merchant (ws_request_id v) s = []"
    by (auto simp: request_rows_def find_None_all filter_empty_conv)
  with assms(1) None show ?thesis
    by (auto simp: put_negotiation_def run_simps request_rows_def)
next
  case (Some r)
  then obtain p where t: "t_negotiations t = upd (\<lambda>x. row_id x = row_id r)
      (mutate (clock s) (updated_negotiation q p v)) (t_negotiations s)"
    using assms(1) by (auto simp: put_negotiation_def run_simps)
  have "request_rows merchant (ws_request_id v) t = upd (\<lambda>x. row_id x = row_id r)
      (mutate (clock s) (updated_negotiation q p v)) (request_rows merchant (ws_request_id v) s)"
    unfolding request_rows_def t by (rule filter_upd_same) (simp add: mutate_def updated_negotiation_def)
  with assms(2) show ?thesis by simp
qed

lemma record_negotiation_once:
  assumes "record_negotiation e uuid5 v s = (r, t)" and "uuid_item (ws_merchant_id v) = Inr merchant"
    and "length (request_rows merchant (ws_request_id v) s) \<le> 1"
  shows "length (request_rows merchant (ws_request_id v) t) \<le> 1"
proof (cases r)
  case (Inl x)
  with assms show ?thesis
    by (auto simp: record_negotiation_def run_simps request_def rollback_def request_rows_def split: option.splits)
next
  case (Inr u)
  show ?thesis
  proof (cases "ws_selected v")
    case None
    with assms Inr show ?thesis by (simp add: record_negotiation_def run_simps)
  next
    case (Some q)
    with assms(1,2) Inr obtain c i k w where p: "put_negotiation e merchant q c v s = (Inr (i, k), w)"
      and t: "t_negotiations t = t_negotiations w"
      by (auto simp: record_negotiation_def run_simps request_def)
    from put_negotiation_once [OF p assms(3)] show ?thesis by (simp add: request_rows_def t)
  qed
qed

text \<open>Recording a message twice keeps the first record.\<close>

definition message_seen :: "a2a_envelope \<Rightarrow> db \<Rightarrow> bool" where
  "message_seen v s \<longleftrightarrow> list_ex (\<lambda>x. msg_message_id x = env_message_id v
     \<or> msg_idempotency_key x = env_idempotency_key v) (t_a2a_messages s)"

lemma record_message_stored: "record_message e v dir merchant supplier s = (Inr u, t) \<Longrightarrow> message_seen v t"
  by (cases "message_seen v s")
    (auto simp: record_message_def message_seen_def request_def run_simps message_of_envelope_def)

lemma record_message_again: "message_seen v s \<Longrightarrow> record_message e v dir merchant supplier s = (Inr (), s)"
  by (simp add: record_message_def message_seen_def request_def exec_defs)

end
