(* ===== verification/Inventory.thy ===== *)
theory Inventory
  imports Idempotency
begin

text \<open>
  Stock: \<open>InventoryRepository\<close> and \<open>InventoryService\<close>.  Every change of a quantity goes through
  \<open>apply_event\<close>, which refuses a negative result and appends the event to the ledger; a confirmed
  receipt or manual batch matches its lines to products by SKU and barcode, creates what is missing
  and receives the stock, once per idempotency key.
\<close>

section \<open>Repository\<close>

definition product_clash :: "product_row \<Rightarrow> product_row \<Rightarrow> bool" where
  "product_clash x y \<longleftrightarrow> p_merchant_id x = p_merchant_id y \<and> p_sku x = p_sku y"

definition inventory_clash :: "inventory_row \<Rightarrow> inventory_row \<Rightarrow> bool" where
  "inventory_clash x y \<longleftrightarrow> inv_store_id x = inv_store_id y \<and> inv_product_id x = inv_product_id y"

definition inventory_event_clash :: "inventory_event_row \<Rightarrow> inventory_event_row \<Rightarrow> bool" where
  "inventory_event_clash x y \<longleftrightarrow> ie_merchant_id x = ie_merchant_id y \<and> ie_idempotency_key x = ie_idempotency_key y"

definition inventory_list :: "uuid \<Rightarrow> uuid option \<Rightarrow> db \<Rightarrow> (inventory_row \<times> product_row) list" where
  "inventory_list merchant store s =
     concat (map (\<lambda>i. map (\<lambda>p. (i, p)) (filter (\<lambda>p. row_id p = inv_product_id i) (t_products s)))
       (filter (\<lambda>i. inv_merchant_id i = merchant
          \<and> (case store of None \<Rightarrow> True | Some x \<Rightarrow> inv_store_id i = x)) (t_inventory s)))"

definition get_store :: "uuid \<Rightarrow> uuid \<Rightarrow> store_row m" where
  "get_store merchant i =
     bnd (gets (\<lambda>s. find (\<lambda>x. row_id x = i \<and> st_merchant_id x = merchant) (t_stores s)))
       (\<lambda>r. require r (Exc NotFoundError ''Store not found''))"

definition merchant_products :: "uuid \<Rightarrow> db \<Rightarrow> product_row list" where
  "merchant_products merchant s = filter (\<lambda>p. p_merchant_id p = merchant) (t_products s)"

definition add_product ::
  "env \<Rightarrow> uuid \<Rightarrow> string \<Rightarrow> string \<Rightarrow> string \<Rightarrow> string option \<Rightarrow> dict \<Rightarrow> product_row m" where
  "add_product e merchant sku name un category attributes =
     bnd (new_uuid e) (\<lambda>i. bnd (gets clock) (\<lambda>now.
     (let p = \<lparr>row_id = i, created_at = now, updated_at = now, p_merchant_id = merchant, p_sku = sku, p_name = name,
               p_unit = un, p_category = category, p_attributes = attributes\<rparr> in
      andthen (add_row t_products t_products_update product_clash p) (ret p))))"

definition find_inventory :: "uuid \<Rightarrow> uuid \<Rightarrow> uuid \<Rightarrow> db \<Rightarrow> inventory_row option" where
  "find_inventory merchant store product s =
     find (\<lambda>i. inv_merchant_id i = merchant \<and> inv_store_id i = store \<and> inv_product_id i = product) (t_inventory s)"

definition ensure_inventory :: "env \<Rightarrow> uuid \<Rightarrow> uuid \<Rightarrow> uuid \<Rightarrow> inventory_row m" where
  "ensure_inventory e merchant store product =
     bnd (gets (find_inventory merchant store product)) (\<lambda>found. case found of
       Some r \<Rightarrow> ret r
     | None \<Rightarrow>
         bnd (new_uuid e) (\<lambda>i. bnd (gets clock) (\<lambda>now.
         (let r = \<lparr>row_id = i, created_at = now, updated_at = now, inv_merchant_id = merchant, inv_store_id = store,
                   inv_product_id = product, inv_quantity_on_hand = dzero, inv_reserved_quantity = dzero,
                   inv_reorder_point = dzero\<rparr> in
          andthen (add_row t_inventory t_inventory_update inventory_clash r) (ret r)))))"

definition apply_event ::
  "env \<Rightarrow> uuid \<Rightarrow> uuid \<Rightarrow> uuid \<Rightarrow> dec \<Rightarrow> string \<Rightarrow> string \<Rightarrow> string \<Rightarrow> dict \<Rightarrow> inventory_row m" where
  "apply_event e merchant store product delta etype source key details =
     bnd (gets (find_inventory merchant store product)) (\<lambda>found.
     bnd (require found (Exc NotFoundError ''Inventory record not found'')) (\<lambda>r.
     (let updated = dadd (inv_quantity_on_hand r) delta in
      andthen (guard (\<not> dlt updated dzero) (Exc PyValueError ''Inventory cannot become negative''))
      (andthen (change_row t_inventory t_inventory_update (row_id r) (\<lambda>x. x\<lparr>inv_quantity_on_hand := updated\<rparr>))
      (bnd (new_uuid e) (\<lambda>i. bnd (gets clock) (\<lambda>now.
      andthen (add_row t_inventory_events t_inventory_events_update inventory_event_clash
        \<lparr>row_id = i, created_at = now, updated_at = now, ie_merchant_id = merchant, ie_store_id = store,
         ie_product_id = product, ie_event_type = etype, ie_quantity_delta = delta, ie_quantity_after = updated,
         ie_source = source, ie_idempotency_key = key, ie_details = details\<rparr>)
      (ret (r\<lparr>inv_quantity_on_hand := updated\<rparr>)))))))))"

section \<open>Recording one event\<close>

definition is_low :: "inventory_row \<Rightarrow> bool" where
  "is_low r \<longleftrightarrow> dle (inv_quantity_on_hand r) (inv_reorder_point r)"

definition alert_low ::
  "env \<Rightarrow> uuid \<Rightarrow> uuid \<Rightarrow> uuid \<Rightarrow> inventory_row \<Rightarrow> unit m" where
  "alert_low e merchant store product r =
     bnd (add_notification e merchant NT_INVENTORY_ALERT ''Inventory needs attention''
            ''Stock is at or below its reorder point.'' (Some ''inventory'') (Some (row_id r))
            [(''store_id'', JStr (str_uuid store)), (''product_id'', JStr (str_uuid product))]) (\<lambda>nid.
       add_outbox e (Some merchant) ''notification'' nid NOTIFICATION_CREATED None None
         [(''notification_id'', JStr (str_uuid nid)),
          (''notification_type'', JStr (notification_type_str NT_INVENTORY_ALERT)),
          (''entity_type'', JStr ''inventory''), (''entity_id'', JStr (str_uuid (row_id r)))])"

definition record_event ::
  "env \<Rightarrow> uuid \<Rightarrow> uuid \<Rightarrow> uuid \<Rightarrow> dec \<Rightarrow> string \<Rightarrow> string \<Rightarrow> string \<Rightarrow> dict \<Rightarrow> (uuid \<times> dec) m" where
  "record_event e merchant store product delta etype source key details =
     bnd (apply_event e merchant store product delta etype source key details) (\<lambda>r.
     andthen (add_outbox e (Some merchant) ''inventory'' (row_id r) INVENTORY_UPDATED None None
       [(''inventory_id'', JStr (str_uuid (row_id r))), (''store_id'', JStr (str_uuid store)),
        (''product_id'', JStr (str_uuid product)), (''quantity_on_hand'', JStr (str_dec (inv_quantity_on_hand r)))])
     (andthen (if is_low r then alert_low e merchant store product r else ret ())
     (ret (row_id r, inv_quantity_on_hand r))))"

section \<open>Stock and ledger\<close>

definition stock_ok :: "db \<Rightarrow> bool" where
  "stock_ok s \<longleftrightarrow> table_ok inventory_clash (t_inventory s)
     \<and> list_all (\<lambda>r. 0 \<le> rat_of (inv_quantity_on_hand r)) (t_inventory s)"

text \<open>Quantity on hand of a product in a store, and what the ledger says has moved.\<close>

definition on_hand :: "uuid \<Rightarrow> uuid \<Rightarrow> db \<Rightarrow> rat" where
  "on_hand store product s = sum_list (map (\<lambda>r. rat_of (inv_quantity_on_hand r))
     (filter (\<lambda>r. inv_store_id r = store \<and> inv_product_id r = product) (t_inventory s)))"

definition moved :: "uuid \<Rightarrow> uuid \<Rightarrow> db \<Rightarrow> rat" where
  "moved store product s = sum_list (map (\<lambda>r. rat_of (ie_quantity_delta r))
     (filter (\<lambda>r. ie_store_id r = store \<and> ie_product_id r = product) (t_inventory_events s)))"

text \<open>The part of the stock that the ledger does not explain: what a row was created with.\<close>

definition unexplained :: "uuid \<Rightarrow> uuid \<Rightarrow> db \<Rightarrow> rat" where
  "unexplained store product s = on_hand store product s - moved store product s"

lemma filter_upd_outside:
  "(\<And>x. x \<in> set rows \<Longrightarrow> P x \<Longrightarrow> \<not> Q x) \<Longrightarrow> (\<And>x. Q (f x) = Q x) \<Longrightarrow> filter Q (upd P f rows) = filter Q rows"
  by (induction rows) auto

lemma list_all_upd: "list_all Q rows \<Longrightarrow> (\<And>r. Q r \<Longrightarrow> Q (f r)) \<Longrightarrow> list_all Q (upd P f rows)"
  by (induction rows) auto

lemma find_inventory_mem:
  "find_inventory m st p s = Some r \<Longrightarrow>
   r \<in> set (t_inventory s) \<and> inv_merchant_id r = m \<and> inv_store_id r = st \<and> inv_product_id r = p"
  unfolding find_inventory_def by (drule find_Some_iff_mem) simp

lemma sum_upd_row:
  assumes "table_ok c rows" and "r \<in> set rows" and "P r" and "\<And>x. P (f x) = P x" and "\<And>x. row_id (f x) = row_id x"
  shows "sum_list (map g (filter P (upd (\<lambda>x. row_id x = row_id r) f rows)))
       = sum_list (map g (filter P rows)) - g r + (g (f r) :: rat)"
  using table_ok_distinct [OF assms(1)] assms(2)
proof (induction rows)
  case (Cons y ys)
  show ?case
  proof (cases "row_id y = row_id r")
    case True
    then have y: "y = r" using Cons.prems distinct_keyD [of row_id "y # ys" y r] by auto
    have "upd (\<lambda>x. row_id x = row_id r) f ys = ys"
      using Cons.prems(1) True by (intro upd_none) (auto simp: image_iff)
    with y assms(3,4) show ?thesis by simp
  next
    case False
    with Cons.prems have "r \<in> set ys" by auto
    with Cons False show ?thesis by auto
  qed
qed simp

lemma apply_event_Inr:
  assumes "apply_event e m st p delta ty src key d s = (Inr r', t)"
  obtains r ev where "find_inventory m st p s = Some r" "0 \<le> rat_of (inv_quantity_on_hand r) + rat_of delta"
    "r' = r\<lparr>inv_quantity_on_hand := dadd (inv_quantity_on_hand r) delta\<rparr>"
    "t_inventory t = upd (\<lambda>x. row_id x = row_id r)
       (mutate (clock s) (\<lambda>x. x\<lparr>inv_quantity_on_hand := dadd (inv_quantity_on_hand r) delta\<rparr>)) (t_inventory s)"
    "t_inventory_events t = t_inventory_events s @ [ev]" "ie_store_id ev = st" "ie_product_id ev = p"
    "ie_quantity_delta ev = delta" "ie_quantity_after ev = dadd (inv_quantity_on_hand r) delta"
    "t_products t = t_products s" "t_idempotency_keys t = t_idempotency_keys s"
  using assms by (auto simp: apply_event_def run_simps Let_def dlt_rat not_less)

lemma apply_event_ledger:
  assumes "stock_ok s" and "apply_event e m st p delta ty src key d s = (Inr r', t)"
  shows "stock_ok t" and "on_hand st p t = on_hand st p s + rat_of delta"
    and "unexplained st' p' t = unexplained st' p' s"
proof -
  obtain r ev where f: "find_inventory m st p s = Some r" and nn: "0 \<le> rat_of (inv_quantity_on_hand r) + rat_of delta"
    and ti: "t_inventory t = upd (\<lambda>x. row_id x = row_id r)
       (mutate (clock s) (\<lambda>x. x\<lparr>inv_quantity_on_hand := dadd (inv_quantity_on_hand r) delta\<rparr>)) (t_inventory s)"
    and te: "t_inventory_events t = t_inventory_events s @ [ev]" "ie_store_id ev = st" "ie_product_id ev = p"
      "ie_quantity_delta ev = delta"
    using assms(2) by (rule apply_event_Inr)
  let ?f = "mutate (clock s) (\<lambda>x. x\<lparr>inv_quantity_on_hand := dadd (inv_quantity_on_hand r) delta\<rparr>)"
  have r: "r \<in> set (t_inventory s)" "inv_store_id r = st" "inv_product_id r = p"
    using find_inventory_mem [OF f] by auto
  have ff: "inv_store_id (?f x) = inv_store_id x" "inv_product_id (?f x) = inv_product_id x" "row_id (?f x) = row_id x"
    "rat_of (inv_quantity_on_hand (?f x)) = rat_of (inv_quantity_on_hand r) + rat_of delta" for x
    by (simp_all add: mutate_def)
  have tab: "table_ok inventory_clash (t_inventory s)" using assms(1) by (simp add: stock_ok_def)
  have "table_ok inventory_clash (t_inventory t)"
    unfolding ti using tab by (rule table_ok_upd) (simp_all add: ff inventory_clash_def)
  moreover have "list_all (\<lambda>r. 0 \<le> rat_of (inv_quantity_on_hand r)) (t_inventory t)"
    unfolding ti using assms(1) nn by (intro list_all_upd) (simp_all add: stock_ok_def mutate_def)
  ultimately show "stock_ok t" by (simp add: stock_ok_def)
  have oh: "on_hand st' p' t = on_hand st' p' s + (if st' = st \<and> p' = p then rat_of delta else 0)" for st' p'
  proof (cases "st' = st \<and> p' = p")
    case True
    have "on_hand st p t = on_hand st p s - rat_of (inv_quantity_on_hand r) + rat_of (inv_quantity_on_hand (?f r))"
      unfolding on_hand_def ti by (rule sum_upd_row [OF tab r(1)]) (simp_all add: r(2,3) ff)
    also have "\<dots> = on_hand st p s + rat_of delta" unfolding ff(4) by simp
    finally show ?thesis using True by simp
  next
    case False
    have "filter (\<lambda>r. inv_store_id r = st' \<and> inv_product_id r = p') (upd (\<lambda>x. row_id x = row_id r) ?f (t_inventory s))
        = filter (\<lambda>r. inv_store_id r = st' \<and> inv_product_id r = p') (t_inventory s)"
    proof (rule filter_upd_outside)
      fix x assume "x \<in> set (t_inventory s)" "row_id x = row_id r"
      then have "x = r" using r(1) distinct_keyD [OF table_ok_distinct [OF tab]] by blast
      then show "\<not> (inv_store_id x = st' \<and> inv_product_id x = p')" using r False by auto
    qed (simp add: ff)
    with False show ?thesis by (auto simp add: on_hand_def ti)
  qed
  then show "on_hand st p t = on_hand st p s + rat_of delta" by simp
  have "moved st' p' t = moved st' p' s + (if st' = st \<and> p' = p then rat_of delta else 0)"
    by (auto simp: moved_def te)
  with oh show "unexplained st' p' t = unexplained st' p' s" by (simp add: unexplained_def)
qed

section \<open>Receipts\<close>

text \<open>A reviewed line.  Dates are their ISO text, the per-field confidences a JSON object.\<close>

record confirm_item =
  ci_line_id :: uuid
  ci_name :: string
  ci_sku :: string
  ci_barcode :: "string option"
  ci_category :: "string option"
  ci_brand :: "string option"
  ci_description :: "string option"
  ci_quantity :: dec
  ci_unit :: string
  ci_unit_price :: "dec option"
  ci_purchase_price :: "dec option"
  ci_selling_price :: "dec option"
  ci_mrp :: "dec option"
  ci_gst_rate :: "dec option"
  ci_tax_amount :: "dec option"
  ci_discount :: "dec option"
  ci_total_amount :: "dec option"
  ci_expiry_date :: "string option"
  ci_batch_number :: "string option"
  ci_confidence :: dec
  ci_field_confidence :: dict
  ci_source_text :: "string option"
  ci_edited_fields :: "string list"

record confirm_request =
  cr_scan_id :: uuid
  cr_store_id :: uuid
  cr_idempotency_key :: string
  cr_receipt :: dict
  cr_items :: "confirm_item list"

text \<open>\<open>ManualInventoryRequest\<close> has no receipt; its empty metadata is filled in.\<close>

record manual_request =
  mn_batch_id :: uuid
  mn_store_id :: uuid
  mn_idempotency_key :: string
  mn_items :: "confirm_item list"

definition empty_receipt :: dict where
  "empty_receipt =
     map (\<lambda>k. (k, JNull)) [''supplier_name'', ''invoice_number'', ''invoice_date'', ''currency'', ''subtotal'', ''tax'', ''total'']
     @ [(''field_confidence'', JObj (map (\<lambda>k. (k, JNum (Dec 0 1)))
          [''supplier_name'', ''invoice_number'', ''invoice_date'', ''currency'', ''subtotal'', ''tax'', ''total''])),
        (''source_text'', JNull)]"

definition receipt_of_manual :: "manual_request \<Rightarrow> confirm_request" where
  "receipt_of_manual r =
     \<lparr>cr_scan_id = mn_batch_id r, cr_store_id = mn_store_id r, cr_idempotency_key = mn_idempotency_key r,
      cr_receipt = empty_receipt, cr_items = mn_items r\<rparr>"

definition dec_json :: "dec option \<Rightarrow> json" where "dec_json = opt_json (\<lambda>d. JStr (str_dec d))"

definition confirm_item_json :: "confirm_item \<Rightarrow> dict" where
  "confirm_item_json i =
     [(''line_id'', JStr (str_uuid (ci_line_id i))), (''name'', JStr (ci_name i)), (''sku'', JStr (ci_sku i)),
      (''barcode'', opt_json JStr (ci_barcode i)), (''category'', opt_json JStr (ci_category i)),
      (''brand'', opt_json JStr (ci_brand i)), (''description'', opt_json JStr (ci_description i)),
      (''quantity'', JStr (str_dec (ci_quantity i))), (''unit'', JStr (ci_unit i)),
      (''unit_price'', dec_json (ci_unit_price i)), (''purchase_price'', dec_json (ci_purchase_price i)),
      (''selling_price'', dec_json (ci_selling_price i)), (''mrp'', dec_json (ci_mrp i)),
      (''gst_rate'', dec_json (ci_gst_rate i)), (''tax_amount'', dec_json (ci_tax_amount i)),
      (''discount'', dec_json (ci_discount i)), (''total_amount'', dec_json (ci_total_amount i)),
      (''expiry_date'', opt_json JStr (ci_expiry_date i)), (''batch_number'', opt_json JStr (ci_batch_number i)),
      (''confidence'', JNum (ci_confidence i)), (''field_confidence'', JObj (ci_field_confidence i)),
      (''source_text'', opt_json JStr (ci_source_text i)),
      (''edited_fields'', JArr (map JStr (ci_edited_fields i)))]"

definition confirm_request_json :: "confirm_request \<Rightarrow> dict" where
  "confirm_request_json r =
     [(''scan_id'', JStr (str_uuid (cr_scan_id r))), (''store_id'', JStr (str_uuid (cr_store_id r))),
      (''idempotency_key'', JStr (cr_idempotency_key r)), (''receipt'', JObj (cr_receipt r)),
      (''items'', JArr (map (\<lambda>i. JObj (confirm_item_json i)) (cr_items r)))]"

subsection \<open>The answer\<close>

record confirmed_item =
  cf_line_id :: uuid
  cf_created :: bool
  cf_inventory_id :: uuid
  cf_product_id :: uuid
  cf_sku :: string
  cf_name :: string
  cf_unit :: string
  cf_quantity_added :: dec
  cf_quantity_on_hand :: dec

record confirm_response =
  co_scan_id :: uuid
  co_created_count :: int
  co_updated_count :: int
  co_items :: "confirmed_item list"

definition confirmed_item_json :: "confirmed_item \<Rightarrow> dict" where
  "confirmed_item_json i =
     [(''line_id'', JStr (str_uuid (cf_line_id i))), (''action'', JStr (if cf_created i then ''created'' else ''updated'')),
      (''inventory_id'', JStr (str_uuid (cf_inventory_id i))), (''product_id'', JStr (str_uuid (cf_product_id i))),
      (''sku'', JStr (cf_sku i)), (''name'', JStr (cf_name i)), (''unit'', JStr (cf_unit i)),
      (''quantity_added'', JStr (str_dec (cf_quantity_added i))),
      (''quantity_on_hand'', JStr (str_dec (cf_quantity_on_hand i)))]"

definition response_json :: "confirm_response \<Rightarrow> dict" where
  "response_json r =
     [(''scan_id'', JStr (str_uuid (co_scan_id r))), (''status'', JStr ''confirmed''),
      (''created_count'', JInt (co_created_count r)), (''updated_count'', JInt (co_updated_count r)),
      (''items'', JArr (map (\<lambda>i. JObj (confirmed_item_json i)) (co_items r)))]"

text \<open>\<open>ReceiptConfirmResponse.model_validate\<close> of a stored answer.\<close>

fun mapE :: "('a \<Rightarrow> 'e + 'b) \<Rightarrow> 'a list \<Rightarrow> 'e + 'b list" where
  "mapE f [] = Inr []"
| "mapE f (x # xs) = bindE (f x) (\<lambda>y. bindE (mapE f xs) (\<lambda>ys. Inr (y # ys)))"

definition item_int :: "dict \<Rightarrow> string \<Rightarrow> exc + int" where
  "item_int d k = (case map_of d k of Some (JInt i) \<Rightarrow> Inr i | _ \<Rightarrow> Inl (validation_error k))"

definition action_of :: "string \<Rightarrow> exc + bool" where
  "action_of x = (if x = ''created'' then Inr True else if x = ''updated'' then Inr False
     else Inl (validation_error ''action''))"

definition confirmed_item_of :: "json \<Rightarrow> exc + confirmed_item" where
  "confirmed_item_of j = (case j of
     JObj d \<Rightarrow>
       bindE (item_as parse_uuid d ''line_id'') (\<lambda>line.
       bindE (bindE (item_str d ''action'') action_of) (\<lambda>created.
       bindE (item_as parse_uuid d ''inventory_id'') (\<lambda>inventory.
       bindE (item_as parse_uuid d ''product_id'') (\<lambda>product.
       bindE (item_str d ''sku'') (\<lambda>sku.
       bindE (item_str d ''name'') (\<lambda>name.
       bindE (item_str d ''unit'') (\<lambda>un.
       bindE (item_as parse_dec d ''quantity_added'') (\<lambda>added.
       bindE (item_as parse_dec d ''quantity_on_hand'') (\<lambda>total.
         Inr \<lparr>cf_line_id = line, cf_created = created, cf_inventory_id = inventory, cf_product_id = product,
              cf_sku = sku, cf_name = name, cf_unit = un, cf_quantity_added = added,
              cf_quantity_on_hand = total\<rparr>)))))))))
   | _ \<Rightarrow> Inl (validation_error ''items''))"

definition response_of_json :: "dict \<Rightarrow> exc + confirm_response" where
  "response_of_json d =
     bindE (item_as parse_uuid d ''scan_id'') (\<lambda>scan.
     bindE (item_int d ''created_count'') (\<lambda>created.
     bindE (item_int d ''updated_count'') (\<lambda>updated.
     bindE (case map_of d ''items'' of Some (JArr js) \<Rightarrow> mapE confirmed_item_of js
            | _ \<Rightarrow> Inl (validation_error ''items'')) (\<lambda>items.
       Inr \<lparr>co_scan_id = scan, co_created_count = created, co_updated_count = updated, co_items = items\<rparr>))))"

lemma confirmed_item_roundtrip: "confirmed_item_of (JObj (confirmed_item_json i)) = Inr i"
  by (simp add: confirmed_item_of_def confirmed_item_json_def item_as_def item_str_def or_fail_def action_of_def)

lemma mapE_map: "(\<And>x. f (g x) = Inr x) \<Longrightarrow> mapE f (map g xs) = Inr xs"
  by (induction xs) simp_all

lemma response_roundtrip: "response_of_json (response_json r) = Inr r"
  by (simp add: response_of_json_def response_json_def item_as_def item_str_def or_fail_def item_int_def
      mapE_map confirmed_item_roundtrip)

subsection \<open>Matching\<close>

text \<open>\<open>casefold\<close> on the ASCII characters of SKUs.\<close>

definition casefold :: "string \<Rightarrow> string" where "casefold = lower"

type_synonym index = "(string \<times> uuid) list"

definition ix_get :: "string \<Rightarrow> index \<Rightarrow> uuid list" where
  "ix_get k ix = map snd (filter (\<lambda>e. fst e = k) ix)"

definition clean_optional :: "string option \<Rightarrow> string option" where
  "clean_optional v = (case v of None \<Rightarrow> None | Some x \<Rightarrow> if strip x = '''' then None else Some (strip x))"

text \<open>\<open>str(value)\<close> of an attribute; nothing stores a list or a dictionary there.\<close>

definition attribute_text :: "json \<Rightarrow> string option" where
  "attribute_text j = (case j of
     JNull \<Rightarrow> None
   | JStr x \<Rightarrow> Some x
   | JInt i \<Rightarrow> Some (int_str i)
   | JNum d \<Rightarrow> Some (str_dec d)
   | JBool b \<Rightarrow> Some (if b then ''True'' else ''False'')
   | _ \<Rightarrow> Some (canonical_json j))"

definition product_barcode :: "product_row \<Rightarrow> string option" where
  "product_barcode p = (case map_of (p_attributes p) ''barcode'' of
     None \<Rightarrow> None
   | Some j \<Rightarrow> clean_optional (attribute_text j))"

definition sku_index :: "product_row list \<Rightarrow> index" where
  "sku_index ps = map (\<lambda>p. (casefold (p_sku p), row_id p)) ps"

definition barcode_index :: "product_row list \<Rightarrow> index" where
  "barcode_index ps = concat (map (\<lambda>p. case product_barcode p of None \<Rightarrow> [] | Some b \<Rightarrow> [(b, row_id p)]) ps)"

text \<open>\<open>match_receipt_products\<close> on one extracted line: by SKU, else by barcode, when exactly one product
  has it.\<close>

definition the_only :: "uuid list \<Rightarrow> uuid option" where
  "the_only ids = (case ids of [i] \<Rightarrow> Some i | _ \<Rightarrow> None)"

definition match_line :: "index \<Rightarrow> index \<Rightarrow> string option \<Rightarrow> string option \<Rightarrow> (uuid \<times> string) option" where
  "match_line skus barcodes sku barcode =
     (case (if truthy sku then the_only (ix_get (casefold (the sku)) skus) else None) of
        Some i \<Rightarrow> Some (i, ''sku'')
      | None \<Rightarrow>
          (case (if truthy barcode then the_only (ix_get (strip (the barcode)) barcodes) else None) of
             Some i \<Rightarrow> Some (i, ''barcode'')
           | None \<Rightarrow> None))"

definition match_receipt_products ::
  "uuid \<Rightarrow> (string option \<times> string option) list \<Rightarrow> db \<Rightarrow> (uuid \<times> string) option list" where
  "match_receipt_products merchant items s =
     (let ps = merchant_products merchant s
      in map (\<lambda>(sku, barcode). match_line (sku_index ps) (barcode_index ps) sku barcode) items)"

subsection \<open>Confirmation\<close>

definition stable_attributes :: "confirm_item \<Rightarrow> dict" where
  "stable_attributes i =
     filter (\<lambda>e. snd e \<noteq> JNull)
       [(''barcode'', opt_json JStr (clean_optional (ci_barcode i))),
        (''brand'', opt_json JStr (clean_optional (ci_brand i))),
        (''description'', opt_json JStr (clean_optional (ci_description i))),
        (''selling_price'', dec_json (ci_selling_price i)), (''mrp'', dec_json (ci_mrp i)),
        (''gst_rate'', dec_json (ci_gst_rate i)), (''last_purchase_price'', dec_json (ci_purchase_price i)),
        (''last_unit_price'', dec_json (ci_unit_price i)), (''expiry_date'', opt_json JStr (ci_expiry_date i)),
        (''batch_number'', opt_json JStr (clean_optional (ci_batch_number i)))]"

definition event_key :: "env \<Rightarrow> string \<Rightarrow> uuid \<Rightarrow> nat \<Rightarrow> string" where
  "event_key e key line n = ''receipt:'' @ sha256 e (key @ '':'' @ str_uuid line @ '':'' @ nat_str n)"

definition renamed_product :: "confirm_item \<Rightarrow> product_row \<Rightarrow> product_row" where
  "renamed_product i p =
     p\<lparr>p_name := strip (ci_name i), p_unit := strip (ci_unit i),
       p_category := (case clean_optional (ci_category i) of None \<Rightarrow> p_category p | Some c \<Rightarrow> Some c),
       p_attributes := dmerge (p_attributes p) (stable_attributes i)\<rparr>"

definition normalized_sku :: "confirm_item \<Rightarrow> string" where
  "normalized_sku i = upper (strip (ci_sku i))"

definition normalized_barcode :: "confirm_item \<Rightarrow> string" where
  "normalized_barcode i = (case ci_barcode i of None \<Rightarrow> '''' | Some b \<Rightarrow> strip b)"

text \<open>The product of a line, created when neither identifier is known, and the indexes after it.\<close>

definition line_matches :: "index \<Rightarrow> index \<Rightarrow> confirm_item \<Rightarrow> exc + uuid option \<times> uuid option" where
  "line_matches skus barcodes i =
     (let sm = ix_get (casefold (normalized_sku i)) skus;
          bm = (if normalized_barcode i = '''' then [] else ix_get (normalized_barcode i) barcodes);
          first = (\<lambda>ids. case ids of [] \<Rightarrow> None | x # _ \<Rightarrow> Some x)
      in if 1 < length sm \<or> 1 < length bm
         then Inl (Exc InvalidRequestError ''Multiple existing products match the reviewed identifiers'')
         else if sm \<noteq> [] \<and> bm \<noteq> [] \<and> hd sm \<noteq> hd bm
         then Inl (Exc InvalidRequestError ''The reviewed SKU and barcode identify different existing products'')
         else Inr (first sm, first bm))"

definition line_product ::
  "env \<Rightarrow> uuid \<Rightarrow> confirm_item \<Rightarrow> uuid option \<Rightarrow> index \<Rightarrow> index \<Rightarrow> (product_row \<times> index \<times> index) m" where
  "line_product e merchant i found skus barcodes = (case found of
     None \<Rightarrow>
       bnd (add_product e merchant (normalized_sku i) (strip (ci_name i)) (strip (ci_unit i))
              (clean_optional (ci_category i)) (stable_attributes i)) (\<lambda>p.
         ret (p, skus @ [(casefold (p_sku p), row_id p)],
              if normalized_barcode i = '''' then barcodes else barcodes @ [(normalized_barcode i, row_id p)]))
   | Some pid \<Rightarrow>
       andthen (change_row t_products t_products_update pid (renamed_product i))
       (bnd (gets (\<lambda>s. by_id pid (t_products s))) (\<lambda>q.
        bnd (require q (Exc NotFoundError ''Product not found'')) (\<lambda>p. ret (p, skus, barcodes)))))"

definition line_details ::
  "confirm_request \<Rightarrow> string \<Rightarrow> confirm_item \<Rightarrow> uuid option \<Rightarrow> uuid option \<Rightarrow> dict" where
  "line_details r source i sku_match barcode_match =
     [(''scan_id'', JStr (str_uuid (cr_scan_id r))), (''line_id'', JStr (str_uuid (ci_line_id i))),
      (''receipt'', if source = ''RECEIPT_SCAN'' then JObj (cr_receipt r) else JNull),
      (''reviewed_item'', JObj (confirm_item_json i)),
      (''matched_by'', if sku_match \<noteq> None then JStr ''sku'' else if barcode_match \<noteq> None then JStr ''barcode''
                       else JNull)]"

definition receive_line ::
  "env \<Rightarrow> uuid \<Rightarrow> confirm_request \<Rightarrow> string \<Rightarrow> nat \<Rightarrow> confirm_item \<Rightarrow> index \<times> index
   \<Rightarrow> (confirmed_item \<times> index \<times> index) m" where
  "receive_line e merchant r source n i ixs = (case ixs of (skus, barcodes) \<Rightarrow>
     bnd (lift (line_matches skus barcodes i)) (\<lambda>(sm, bm).
     (let found = (case sm of Some x \<Rightarrow> Some x | None \<Rightarrow> bm) in
     bnd (line_product e merchant i found skus barcodes) (\<lambda>(p, skus', barcodes').
     bnd (ensure_inventory e merchant (cr_store_id r) (row_id p)) (\<lambda>_.
     bnd (record_event e merchant (cr_store_id r) (row_id p) (ci_quantity i) ''STOCK_RECEIVED'' source
            (event_key e (cr_idempotency_key r) (ci_line_id i) n) (line_details r source i sm bm)) (\<lambda>(iid, total).
       ret (\<lparr>cf_line_id = ci_line_id i, cf_created = (found = None), cf_inventory_id = iid,
             cf_product_id = row_id p, cf_sku = p_sku p, cf_name = p_name p, cf_unit = p_unit p,
             cf_quantity_added = ci_quantity i, cf_quantity_on_hand = total\<rparr>, skus', barcodes')))))))"

fun receive_lines ::
  "env \<Rightarrow> uuid \<Rightarrow> confirm_request \<Rightarrow> string \<Rightarrow> nat \<Rightarrow> confirm_item list \<Rightarrow> index \<times> index \<Rightarrow> confirmed_item list m" where
  "receive_lines e merchant r source n [] ixs = ret []"
| "receive_lines e merchant r source n (i # is) ixs =
     bnd (receive_line e merchant r source n i ixs) (\<lambda>(c, ixs').
     bnd (receive_lines e merchant r source (Suc n) is ixs') (\<lambda>cs. ret (c # cs)))"

definition receipt_body ::
  "env \<Rightarrow> uuid \<Rightarrow> uuid \<Rightarrow> confirm_request \<Rightarrow> string option \<Rightarrow> string \<Rightarrow> string \<Rightarrow> confirm_response m" where
  "receipt_body e merchant user r trace source action =
     bnd (get_store merchant (cr_store_id r)) (\<lambda>_.
     bnd (gets (merchant_products merchant)) (\<lambda>ps.
     bnd (receive_lines e merchant r source 0 (cr_items r) (sku_index ps, barcode_index ps)) (\<lambda>items.
     (let resp = \<lparr>co_scan_id = cr_scan_id r, co_created_count = int (length (filter cf_created items)),
                  co_updated_count = int (length (filter (\<lambda>c. \<not> cf_created c) items)), co_items = items\<rparr> in
     andthen (audit_record e action ''USER'' (str_uuid user) ''receipt_scan'' (str_uuid (cr_scan_id r))
        (Some merchant) trace
        (Some [(''store_id'', JStr (str_uuid (cr_store_id r))), (''created_count'', JInt (co_created_count resp)),
          (''updated_count'', JInt (co_updated_count resp)), (''item_count'', JInt (int (length items)))]))
     (ret resp)))))"

definition confirm_receipt ::
  "env \<Rightarrow> uuid \<Rightarrow> uuid \<Rightarrow> confirm_request \<Rightarrow> string option \<Rightarrow> string \<Rightarrow> string \<Rightarrow> string \<Rightarrow> confirm_response m" where
  "confirm_receipt e merchant user r trace source action scope =
     bnd (begin_confirmation e scope merchant (cr_idempotency_key r) (confirm_request_json r)) (\<lambda>(h, cached).
     case cached of
       Some d \<Rightarrow> lift (response_of_json d)
     | None \<Rightarrow>
         bnd (receipt_body e merchant user r trace source action) (\<lambda>resp.
         andthen (idem_complete h (response_json resp)) (ret resp)))"

definition confirm_scanned :: "env \<Rightarrow> uuid \<Rightarrow> uuid \<Rightarrow> confirm_request \<Rightarrow> string option \<Rightarrow> confirm_response m" where
  "confirm_scanned e merchant user r trace =
     confirm_receipt e merchant user r trace ''RECEIPT_SCAN'' ''inventory.receipt_confirmed'' ''inventory-receipt''"

definition confirm_manual_inventory ::
  "env \<Rightarrow> uuid \<Rightarrow> uuid \<Rightarrow> manual_request \<Rightarrow> string option \<Rightarrow> confirm_response m" where
  "confirm_manual_inventory e merchant user r trace =
     confirm_receipt e merchant user (receipt_of_manual r) trace ''MANUAL'' ''inventory.manual_confirmed'' ''inventory-manual''"

section \<open>What a confirmation does\<close>

text \<open>It writes nothing but its own gate into the key table.\<close>

lemma keeps_apply_event [keeps_intros]:
  "(\<And>s n. P s \<Longrightarrow> P (s\<lparr>draws := n\<rparr>)) \<Longrightarrow> (\<And>s rows. P s \<Longrightarrow> P (s\<lparr>t_inventory := rows\<rparr>)) \<Longrightarrow>
   (\<And>s rows. P s \<Longrightarrow> P (s\<lparr>t_inventory_events := rows\<rparr>)) \<Longrightarrow> keeps P (apply_event e m st p q ty src k d)"
  unfolding apply_event_def Let_def by (intro keeps_intros) auto

lemma receipt_body_frame:
  assumes "\<And>s n. P s \<Longrightarrow> P (s\<lparr>draws := n\<rparr>)" "\<And>s rows. P s \<Longrightarrow> P (s\<lparr>t_inventory := rows\<rparr>)"
    "\<And>s rows. P s \<Longrightarrow> P (s\<lparr>t_inventory_events := rows\<rparr>)" "\<And>s rows. P s \<Longrightarrow> P (s\<lparr>t_products := rows\<rparr>)"
    "\<And>s rows. P s \<Longrightarrow> P (s\<lparr>t_outbox_events := rows\<rparr>)" "\<And>s rows. P s \<Longrightarrow> P (s\<lparr>t_notifications := rows\<rparr>)"
    "\<And>s rows. P s \<Longrightarrow> P (s\<lparr>t_audit_logs := rows\<rparr>)"
  shows "keeps P (receipt_body e merchant user r trace source action)"
proof -
  have line: "keeps P (receive_line e merchant r source n i ixs)" for n i ixs
    unfolding receive_line_def line_product_def add_product_def ensure_inventory_def record_event_def alert_low_def Let_def
    by (intro keeps_intros assms)
  have "keeps P (receive_lines e merchant r source n is ixs)" for n "is" ixs
    by (induction "is" arbitrary: n ixs) (auto intro!: keeps_intros line)
  then show ?thesis
    unfolding receipt_body_def get_store_def Let_def by (intro keeps_intros assms)
qed

text \<open>The ledger explains every change of stock, and a confirmation receives exactly its lines.\<close>

definition ledger_at :: "(uuid \<Rightarrow> uuid \<Rightarrow> rat) \<Rightarrow> db \<Rightarrow> bool" where
  "ledger_at u s \<longleftrightarrow> stock_ok s \<and> (\<forall>st p. unexplained st p s = u st p)"

lemma ledger_at_frame:
  "ledger_at u s \<Longrightarrow> ledger_at u (s\<lparr>draws := n\<rparr>)" "ledger_at u s \<Longrightarrow> ledger_at u (s\<lparr>t_products := ps\<rparr>)"
  "ledger_at u s \<Longrightarrow> ledger_at u (s\<lparr>t_outbox_events := xs\<rparr>)" "ledger_at u s \<Longrightarrow> ledger_at u (s\<lparr>t_notifications := ys\<rparr>)"
  "ledger_at u s \<Longrightarrow> ledger_at u (s\<lparr>t_audit_logs := zs\<rparr>)"
  by (simp_all add: ledger_at_def stock_ok_def unexplained_def on_hand_def moved_def)

lemma apply_event_succeeds [succeeds_intros]: "succeeds (ledger_at u) (apply_event e m st p q ty src k d)"
  by (rule succeedsI) (auto simp: ledger_at_def dest: apply_event_ledger)

lemma ensure_inventory_succeeds [succeeds_intros]: "succeeds (ledger_at u) (ensure_inventory e m st p)"
proof (rule succeedsI)
  fix s a t
  assume l: "ledger_at u s" and run: "ensure_inventory e m st p s = (Inr a, t)"
  show "ledger_at u t"
  proof (cases "find_inventory m st p s")
    case None
    let ?r = "\<lparr>row_id = uuid_at e (draws s), created_at = clock s, updated_at = clock s, inv_merchant_id = m,
      inv_store_id = st, inv_product_id = p, inv_quantity_on_hand = dzero, inv_reserved_quantity = dzero,
      inv_reorder_point = dzero\<rparr>"
    have t: "t = s\<lparr>draws := draws s + 1, t_inventory := t_inventory s @ [?r]\<rparr>"
      and new: "\<forall>x \<in> set (t_inventory s). row_id x \<noteq> row_id ?r \<and> \<not> inventory_clash x ?r"
      using run None by (auto simp: ensure_inventory_def run_simps Let_def)
    have "table_ok inventory_clash (t_inventory t)"
      using l new by (auto simp: t ledger_at_def stock_ok_def intro!: table_ok_add)
    moreover have "rat_of dzero = 0" by (simp add: dzero_def rat_of_def)
    ultimately show ?thesis
      using l by (simp add: ledger_at_def stock_ok_def unexplained_def on_hand_def moved_def t)
  next
    case (Some r)
    with run l show ?thesis by (auto simp: ensure_inventory_def run_simps)
  qed
qed

lemma ledger_kept_by [succeeds_intros]:
  "succeeds (ledger_at u) (new_uuid e)" "succeeds (ledger_at u) (change_row t_products t_products_update i f)"
  "succeeds (ledger_at u) (add_row t_products t_products_update c r)"
  "succeeds (ledger_at u) (add_outbox e m' aty ai et cc tr pl)"
  "succeeds (ledger_at u) (add_notification e m'' nt ti bo ety ei pl')"
  "succeeds (ledger_at u) (audit_record e ac aty' ai' rt ri mo tro md)"
  by (auto intro!: keeps_succeeds keeps_intros ledger_at_frame)

lemma receive_line_succeeds: "succeeds (ledger_at u) (receive_line e m r src n i ixs)"
  unfolding receive_line_def line_product_def add_product_def record_event_def alert_low_def Let_def
  by (intro succeeds_intros)

lemma receive_lines_succeeds: "succeeds (ledger_at u) (receive_lines e m r src n is ixs)"
  by (induction "is" arbitrary: n ixs) (auto intro!: succeeds_intros receive_line_succeeds)

lemma receipt_body_succeeds: "succeeds (ledger_at u) (receipt_body e m user r tr src ac)"
  unfolding receipt_body_def get_store_def Let_def
  by (intro succeeds_intros receive_lines_succeeds)

text \<open>Everything that is received in one store.\<close>

definition store_moved :: "uuid \<Rightarrow> db \<Rightarrow> rat" where
  "store_moved store s = sum_list (map (\<lambda>x. rat_of (ie_quantity_delta x))
     (filter (\<lambda>x. ie_store_id x = store) (t_inventory_events s)))"

definition no_events :: "inventory_event_row list \<Rightarrow> db \<Rightarrow> bool" where
  "no_events xs s \<longleftrightarrow> t_inventory_events s = xs"

lemma line_product_events: "keeps (no_events xs) (line_product e m i f sk bc)"
  "keeps (no_events xs) (ensure_inventory e m st p)"
  "keeps (no_events xs) (add_outbox e mo aty ai et cc tr pl)" "keeps (no_events xs) (alert_low e m st p r)"
  unfolding line_product_def add_product_def ensure_inventory_def alert_low_def Let_def
  by (intro keeps_intros; simp add: no_events_def)+

lemma record_event_events:
  assumes "record_event e m st p q ty src k d s = (Inr a, t)"
  shows "\<exists>ev. t_inventory_events t = t_inventory_events s @ [ev] \<and> ie_store_id ev = st \<and> ie_quantity_delta ev = q"
proof -
  obtain r u v w z v2 where ap: "apply_event e m st p q ty src k d s = (Inr r, u)"
    and ob: "add_outbox e (Some m) ''inventory'' (row_id r) INVENTORY_UPDATED None None
       [(''inventory_id'', JStr (str_uuid (row_id r))), (''store_id'', JStr (str_uuid st)),
        (''product_id'', JStr (str_uuid p)), (''quantity_on_hand'', JStr (str_dec (inv_quantity_on_hand r)))] u = (Inr w, v)"
    and al: "(if is_low r then alert_low e m st p r else ret ()) v = (Inr z, v2)" and t: "v2 = t"
    using assms unfolding record_event_def bnd_Inr andthen_Inr ret_run by blast
  from ap obtain ev where ev: "t_inventory_events u = t_inventory_events s @ [ev]" "ie_store_id ev = st" "ie_quantity_delta ev = q"
    by (rule apply_event_Inr)
  have "no_events (t_inventory_events u) v"
    using keepsD [OF line_product_events(3) ob] by (simp add: no_events_def)
  then have "no_events (t_inventory_events u) t"
    using al t keepsD [OF line_product_events(4)] by (cases "is_low r") (auto simp: run_simps)
  with ev show ?thesis by (auto simp: no_events_def)
qed

lemma receive_line_moved:
  assumes "receive_line e m r src n i ixs s = (Inr (c, ixs'), t)"
  shows "store_moved (cr_store_id r) t = store_moved (cr_store_id r) s + rat_of (ci_quantity i)
    \<and> cf_quantity_added c = ci_quantity i \<and> cf_line_id c = ci_line_id i"
proof -
  obtain skus barcodes where ixs: "ixs = (skus, barcodes)" by (cases ixs)
  from assms obtain sm bm p sk bc u v x iid total where
      lp: "line_product e m i (case sm of Some x \<Rightarrow> Some x | None \<Rightarrow> bm) skus barcodes s = (Inr (p, sk, bc), u)"
    and en: "ensure_inventory e m (cr_store_id r) (row_id p) u = (Inr x, v)"
    and re: "record_event e m (cr_store_id r) (row_id p) (ci_quantity i) ''STOCK_RECEIVED'' src
            (event_key e (cr_idempotency_key r) (ci_line_id i) n) (line_details r src i sm bm) v = (Inr (iid, total), t)"
    and c: "cf_quantity_added c = ci_quantity i" "cf_line_id c = ci_line_id i"
    unfolding receive_line_def ixs Let_def by (auto simp add: run_simps)
  have "no_events (t_inventory_events s) v"
    using keepsD [OF line_product_events(2) en] keepsD [OF line_product_events(1) lp] by (auto simp: no_events_def)
  with record_event_events [OF re] c show ?thesis by (auto simp: no_events_def store_moved_def)
qed

lemma receive_lines_moved:
  "receive_lines e m r src n is ixs s = (Inr cs, t) \<Longrightarrow>
   store_moved (cr_store_id r) t = store_moved (cr_store_id r) s + sum_list (map (\<lambda>i. rat_of (ci_quantity i)) is)
   \<and> map cf_line_id cs = map ci_line_id is"
proof (induction "is" arbitrary: n ixs s cs)
  case (Cons i "is")
  then obtain c ixs' u cs' where l: "receive_line e m r src n i ixs s = (Inr (c, ixs'), u)"
    and ls: "receive_lines e m r src (Suc n) is ixs' u = (Inr cs', t)" and cs: "cs = c # cs'"
    by (auto simp: run_simps)
  from receive_line_moved [OF l] Cons.IH [OF ls] cs show ?case by simp
qed (simp add: run_simps)

lemma receipt_body_moved:
  assumes "receipt_body e m user r tr src ac s = (Inr resp, t)"
  shows "store_moved (cr_store_id r) t = store_moved (cr_store_id r) s + sum_list (map (\<lambda>i. rat_of (ci_quantity i)) (cr_items r))"
    and "map cf_line_id (co_items resp) = map ci_line_id (cr_items r)"
    and "co_created_count resp + co_updated_count resp = int (length (cr_items r))"
proof -
  obtain cs u where ls: "receive_lines e m r src 0 (cr_items r)
        (sku_index (merchant_products m s), barcode_index (merchant_products m s)) s = (Inr cs, u)"
    and t: "t_inventory_events t = t_inventory_events u"
    and resp: "co_items resp = cs" "co_created_count resp = int (length (filter cf_created cs))"
      "co_updated_count resp = int (length (filter (\<lambda>c. \<not> cf_created c) cs))"
    using assms unfolding receipt_body_def get_store_def Let_def audit_record_def
    by (auto simp: run_simps)
  note mv = receive_lines_moved [OF ls]
  then show "store_moved (cr_store_id r) t = store_moved (cr_store_id r) s + sum_list (map (\<lambda>i. rat_of (ci_quantity i)) (cr_items r))"
    by (simp add: store_moved_def t)
  show "map cf_line_id (co_items resp) = map ci_line_id (cr_items r)" using mv resp by simp
  have "length cs = length (cr_items r)" using mv by (metis length_map)
  then show "co_created_count resp + co_updated_count resp = int (length (cr_items r))"
    using sum_length_filter_compl [of cf_created cs] resp by simp
qed

section \<open>Confirmed once\<close>

definition stored_body :: "confirm_response m \<Rightarrow> dict m" where
  "stored_body body = bnd body (\<lambda>resp. ret (response_json resp))"

lemma confirm_guarded:
  assumes "confirm_receipt e m user r tr src ac scope s = (Inr resp, t)"
  shows "\<exists>d. guarded (begin_confirmation e scope m (cr_idempotency_key r) (confirm_request_json r)) idem_complete
      (stored_body (receipt_body e m user r tr src ac)) s = (Inr d, t) \<and> response_of_json d = Inr resp"
proof -
  obtain h c u where b: "begin_confirmation e scope m (cr_idempotency_key r) (confirm_request_json r) s = (Inr (h, c), u)"
    and rest: "(case c of Some d \<Rightarrow> lift (response_of_json d)
      | None \<Rightarrow> bnd (receipt_body e m user r tr src ac) (\<lambda>resp. andthen (idem_complete h (response_json resp)) (ret resp))) u
      = (Inr resp, t)"
    using assms unfolding confirm_receipt_def by (auto simp: bnd_Inr)
  show ?thesis
  proof (cases c)
    case None
    with b rest show ?thesis
      by (intro exI [of _ "response_json resp"])
        (auto simp: guarded_def stored_body_def response_roundtrip bnd_def andthen_def ret_def split: prod.splits sum.splits)
  next
    case (Some d)
    with b rest show ?thesis
      by (intro exI [of _ d]) (auto simp: guarded_def bnd_def ret_def lift_def)
  qed
qed

lemma stored_body_frame:
  "keeps (\<lambda>s. idem_ok s \<and> idem_owner scope key k s \<and> idem_entry scope key s = v)
     (stored_body (receipt_body e m user r tr src ac))"
  unfolding stored_body_def
  by (intro keeps_intros receipt_body_frame) (auto simp: idem_ok_def idem_owner_def idem_entry_def idem_find_def)

lemma confirm_stores:
  assumes "idem_ok s" and "confirm_receipt e m user r tr src ac scope s = (Inr resp, t)"
  shows "idem_ok t" and "\<exists>d. idem_entry (scope @ '':'' @ str_uuid m) (cr_idempotency_key r) t
      = Some (canonical_order_hash e (confirm_request_json r), Some d) \<and> response_of_json d = Inr resp"
proof -
  from confirm_guarded [OF assms(2)] obtain d where
      g: "guarded (begin_confirmation e scope m (cr_idempotency_key r) (confirm_request_json r)) idem_complete
        (stored_body (receipt_body e m user r tr src ac)) s = (Inr d, t)" and d: "response_of_json d = Inr resp" by blast
  from receipt_gate.guarded_stores [OF assms(1) stored_body_frame g [unfolded begin_confirmation_def]] d
  show "idem_ok t" "\<exists>d. idem_entry (scope @ '':'' @ str_uuid m) (cr_idempotency_key r) t
      = Some (canonical_order_hash e (confirm_request_json r), Some d) \<and> response_of_json d = Inr resp" by auto
qed

lemma confirm_replay:
  assumes "idem_ok s" and "confirm_receipt e m user r tr src ac scope s = (Inr resp, t)"
  shows "confirm_receipt e m user' r tr' src' ac' scope t = (Inr resp, t)"
proof -
  from confirm_stores [OF assms] obtain d where ok: "idem_ok t"
    and ent: "idem_entry (scope @ '':'' @ str_uuid m) (cr_idempotency_key r) t
      = Some (canonical_order_hash e (confirm_request_json r), Some d)" and d: "response_of_json d = Inr resp" by blast
  from receipt_gate.open_cached [OF ok ent] obtain h where
    "begin_confirmation e scope m (cr_idempotency_key r) (confirm_request_json r) t = (Inr (h, Some d), t)"
    unfolding begin_confirmation_def by blast
  with d show ?thesis unfolding confirm_receipt_def by (simp add: bnd_def lift_def)
qed

lemma confirm_reuse:
  assumes "idem_ok s" and "confirm_receipt e m user r tr src ac scope s = (Inr resp, t)"
    and "cr_idempotency_key r' = cr_idempotency_key r"
    and "canonical_order_hash e (confirm_request_json r') \<noteq> canonical_order_hash e (confirm_request_json r)"
  shows "\<exists>x. confirm_receipt e m user' r' tr' src' ac' scope t = (Inl x, t) \<and> isa (cls x) ConflictError"
proof -
  from confirm_stores [OF assms(1,2)] obtain d where ok: "idem_ok t"
    and ent: "idem_entry (scope @ '':'' @ str_uuid m) (cr_idempotency_key r) t
      = Some (canonical_order_hash e (confirm_request_json r), Some d)" by blast
  from receipt_gate.open_reused [OF ok ent, of "canonical_order_hash e (confirm_request_json r')"] assms(3,4)
  obtain x where "begin_confirmation e scope m (cr_idempotency_key r') (confirm_request_json r') t = (Inl x, t)"
    "isa (cls x) ConflictError"
    unfolding begin_confirmation_def by metis
  then show ?thesis unfolding confirm_receipt_def by (auto simp: bnd_def)
qed

section \<open>Whole operations\<close>

lemma confirm_first:
  assumes "confirm_receipt e m user r tr src ac scope s = (Inr resp, t)"
    and "idem_find (scope @ '':'' @ str_uuid m) (cr_idempotency_key r) s = None"
  obtains u v where "receipt_body e m user r tr src ac u = (Inr resp, v)"
    "t_inventory u = t_inventory s" "t_inventory_events u = t_inventory_events s"
    "t_inventory t = t_inventory v" "t_inventory_events t = t_inventory_events v"
  using assms by (auto simp: confirm_receipt_def begin_confirmation_def gate_open_def idem_complete_def add_idem_Inr run_simps)

lemma ledger_at_same:
  "t_inventory t = t_inventory s \<Longrightarrow> t_inventory_events t = t_inventory_events s \<Longrightarrow> ledger_at u t = ledger_at u s"
  by (simp add: ledger_at_def stock_ok_def unexplained_def on_hand_def moved_def)

lemma confirm_ledger:
  assumes "confirm_receipt e m user r tr src ac scope s = (Inr resp, t)"
    and "idem_find (scope @ '':'' @ str_uuid m) (cr_idempotency_key r) s = None" and "stock_ok s"
  shows "stock_ok t" and "unexplained st p t = unexplained st p s"
    and "store_moved (cr_store_id r) t = store_moved (cr_store_id r) s + sum_list (map (\<lambda>i. rat_of (ci_quantity i)) (cr_items r))"
    and "map cf_line_id (co_items resp) = map ci_line_id (cr_items r)"
proof -
  obtain u v where b: "receipt_body e m user r tr src ac u = (Inr resp, v)"
    and f: "t_inventory u = t_inventory s" "t_inventory_events u = t_inventory_events s"
      "t_inventory t = t_inventory v" "t_inventory_events t = t_inventory_events v"
    using assms(1,2) by (rule confirm_first)
  let ?u = "\<lambda>st p. unexplained st p s"
  have "ledger_at ?u u" unfolding ledger_at_same [OF f(1,2)] using assms(3) by (simp add: ledger_at_def)
  then have "ledger_at ?u v" using receipt_body_succeeds b unfolding succeeds_def by blast
  then have "ledger_at ?u t" unfolding ledger_at_same [OF f(3,4)] .
  then show "stock_ok t" "unexplained st p t = unexplained st p s" by (simp_all add: ledger_at_def)
  show "store_moved (cr_store_id r) t = store_moved (cr_store_id r) s + sum_list (map (\<lambda>i. rat_of (ci_quantity i)) (cr_items r))"
    using receipt_body_moved(1) [OF b] f by (simp add: store_moved_def)
  show "map cf_line_id (co_items resp) = map ci_line_id (cr_items r)" using receipt_body_moved(2) [OF b] .
qed

lemma record_event_ledger:
  assumes "stock_ok s" and "record_event e m st p delta ty src key d s = (Inr (i, n), t)"
  shows "stock_ok t" and "on_hand st p t = on_hand st p s + rat_of delta" and "0 \<le> rat_of n"
    and "unexplained st' p' t = unexplained st' p' s"
proof -
  obtain r u where ap: "apply_event e m st p delta ty src key d s = (Inr r, u)" and n: "n = inv_quantity_on_hand r"
    and k: "t_inventory t = t_inventory u" "t_inventory_events t = t_inventory_events u"
    using assms(2) by (auto simp: record_event_def alert_low_def run_simps split: if_splits)
  have nn: "0 \<le> rat_of (inv_quantity_on_hand r)" using ap by (rule apply_event_Inr) simp
  note l = apply_event_ledger [OF assms(1) ap]
  show "stock_ok t" using l(1) k by (simp add: stock_ok_def)
  show "on_hand st p t = on_hand st p s + rat_of delta" using l(2) k by (simp add: on_hand_def)
  show "0 \<le> rat_of n" using nn n by simp
  show "unexplained st' p' t = unexplained st' p' s" using l(3) k by (simp add: unexplained_def on_hand_def moved_def)
qed

lemma record_event_refuses:
  assumes "find_inventory m st p s = Some r" and "rat_of (inv_quantity_on_hand r) + rat_of delta < 0"
  shows "record_event e m st p delta ty src key d s = (Inl (Exc PyValueError ''Inventory cannot become negative''), s)"
  using assms by (simp add: record_event_def apply_event_def exec_defs require_def Let_def dlt_rat)

end
