(* ===== verification/Contacts.thy ===== *)
theory Contacts
  imports Store "HOL-Library.AList"
begin

text \<open>
  How a person is addressed.  The identifiers of \<open>auth_service.py\<close> (a normalised e-mail address or the
  digits of a phone number), the process-wide registry of \<open>channels/telegram/registry.py\<close> (phone number to
  chat, and the codes that \<open>/otp\<close> shows), and the delivery of a one-time code over several channels.
  The channels themselves are parameters; \<open>world\<close> is what they and the registry change, and it is
  not rolled back with the session.
\<close>

section \<open>Identifiers\<close>

definition digits_of :: "string \<Rightarrow> string" where
  "digits_of = filter is_digit"

definition normalize_phone :: "string \<Rightarrow> exc + string" where
  "normalize_phone v =
     (let digits = digits_of v;
          digits = (if length digits = 10 then ''91'' @ digits else digits)
      in if 10 \<le> length digits \<and> length digits \<le> 15 then Inr digits
         else Inl (Exc PyValueError ''Enter a valid phone number''))"

text \<open>The pattern \<open>^[^@\s]+@[^@\s]+\.[^@\s]+$\<close> on a text without surrounding space.\<close>

definition email_shape :: "string \<Rightarrow> bool" where
  "email_shape s = (case split_on CHR ''@'' s of
     [a, b] \<Rightarrow> a \<noteq> [] \<and> list_all (\<lambda>c. \<not> is_space c) (a @ b) \<and> CHR ''.'' \<in> set (butlast (tl b))
   | _ \<Rightarrow> False)"

definition has_at :: "string \<Rightarrow> bool" where
  "has_at s \<longleftrightarrow> CHR ''@'' \<in> set s"

definition normalize_identifier :: "string \<Rightarrow> exc + string" where
  "normalize_identifier v =
     (let val = strip v in
      if has_at val then
        (let email = lower val in
         if email_shape email then Inr email else Inl (Exc PyValueError ''Enter a valid email address''))
      else normalize_phone val)"

text \<open>\<open>list(dict.fromkeys(xs))\<close>: the first occurrence of each element.\<close>

definition dict_keys :: "string list \<Rightarrow> string list" where
  "dict_keys xs = rev (remdups (rev xs))"

definition phone_candidates :: "string \<Rightarrow> string list" where
  "phone_candidates identifier =
     (let clean = filter (\<lambda>c. is_digit c \<or> c = CHR ''+'') identifier;
          digits = digits_of clean
      in dict_keys (clean #
        (if startswith clean ''+91'' then [drop 3 clean, drop 1 clean, ''91'' @ drop 3 clean]
         else if startswith clean ''91'' \<and> 12 \<le> length clean
           then [drop 2 clean, ''+'' @ clean, ''+91'' @ drop 2 clean]
         else if length digits = 10 then [''91'' @ digits, ''+91'' @ digits]
         else [])))"

text \<open>The bullet of a masked identifier is U+2022, here its UTF-8 bytes.\<close>

definition bullets :: "nat \<Rightarrow> string" where
  "bullets n = concat (replicate n [CHR 0xE2, CHR 0x80, CHR 0xA2])"

definition mask_phone :: "string \<Rightarrow> string" where
  "mask_phone v =
     (case split_first CHR ''@'' v of
        (name, Some domain) \<Rightarrow>
          (if 2 < length name then take 2 name @ bullets 3 else take 1 name @ bullets 3) @ ''@'' @ domain
      | (_, None) \<Rightarrow> bullets 6 @ drop (length v - 4) v)"

subsection \<open>What a normalised identifier is\<close>

lemma digits_of_digits [simp]: "digits_of (digits_of v) = digits_of v"
  by (simp add: digits_of_def)

lemma digits_of_append [simp]: "digits_of (a @ b) = digits_of a @ digits_of b"
  by (simp add: digits_of_def)

lemma digits_of_Cons: "digits_of (c # s) = (if is_digit c then c # digits_of s else digits_of s)"
  by (simp add: digits_of_def)

lemma digit_91 [simp]: "is_digit CHR ''9''" "is_digit CHR ''1''"
  by (simp_all add: is_digit_def)

lemma at_not_digit [simp]: "\<not> is_digit CHR ''@''"
  by (simp add: is_digit_def)

lemma digits_no_at: "digits_of v = v \<Longrightarrow> \<not> has_at v"
  unfolding has_at_def digits_of_def by (metis at_not_digit filter_id_conv)

lemma normalize_phone_Inr:
  "normalize_phone v = Inr p \<Longrightarrow> digits_of p = p \<and> 10 < length p \<and> length p \<le> 15"
  by (auto simp: normalize_phone_def Let_def digits_of_Cons split: if_splits)

lemma normalize_phone_fix:
  assumes "normalize_phone v = Inr p"
  shows "normalize_phone p = Inr p"
  using normalize_phone_Inr [OF assms] by (simp add: normalize_phone_def)

lemma normalize_phone_Inl:
  "normalize_phone v = Inl x \<longleftrightarrow> x = Exc PyValueError ''Enter a valid phone number'' \<and>
     (length (digits_of v) < 10 \<or> 15 < length (digits_of v))"
  by (auto simp: normalize_phone_def Let_def split: if_splits)

lemma lower_char_at: "is_upper c \<Longrightarrow> char_of ((of_char c :: nat) + 32) \<noteq> CHR ''@''"
proof
  assume u: "is_upper c" and h: "char_of ((of_char c :: nat) + 32) = CHR ''@''"
  from h have "(of_char (char_of ((of_char c :: nat) + 32) :: char) :: nat) = of_char CHR ''@''" by (rule arg_cong)
  then have "((of_char c :: nat) + 32) mod 256 = 64" by simp
  with u show False by (auto simp: is_upper_def Let_def)
qed

lemma lower_at: "has_at (lower v) \<longleftrightarrow> has_at v"
proof (induction v)
  case (Cons c v)
  have "\<not> is_upper CHR ''@''" by (simp add: is_upper_def)
  with Cons lower_char_at [of c] show ?case by (auto simp: has_at_def lower_def)
qed (simp add: has_at_def lower_def)

text \<open>Normalising is idempotent, and it tells the two kinds of identifier apart.\<close>

lemma email_shape_nonspace: "email_shape s \<Longrightarrow> list_all (\<lambda>c. \<not> is_space c) s"
proof -
  assume h: "email_shape s"
  then obtain a b where ab: "split_on CHR ''@'' s = [a, b]" "list_all (\<lambda>c. \<not> is_space c) (a @ b)"
    by (auto simp: email_shape_def split: list.splits)
  from join_split_on [of "CHR ''@''" s] ab(1) have "s = a @ ''@'' @ b" by simp
  with ab(2) show ?thesis by (simp add: is_space_def)
qed

lemma strip_nonspace: "list_all (\<lambda>c. \<not> is_space c) s \<Longrightarrow> strip s = s"
proof -
  assume h: "list_all (\<lambda>c. \<not> is_space c) s"
  then have "dropWhile is_space s = s" "dropWhile is_space (rev s) = rev s"
    by (metis (no_types) dropWhile_id hd_in_set list_all_iff, metis (no_types) dropWhile_id hd_in_set list_all_iff set_rev)
  then show ?thesis by (simp add: strip_def lstrip_def)
qed

lemma normalize_identifier_fix:
  assumes "normalize_identifier v = Inr i"
  shows "normalize_identifier i = Inr i"
proof (cases "has_at (strip v)")
  case True
  with assms have i: "i = lower (strip v)" "email_shape i"
    by (auto simp: normalize_identifier_def Let_def split: if_splits)
  then have "strip i = i" using strip_nonspace email_shape_nonspace by blast
  with i True show ?thesis by (simp add: normalize_identifier_def lower_at)
next
  case False
  with assms have p: "normalize_phone (strip v) = Inr i" by (simp add: normalize_identifier_def)
  then have d: "digits_of i = i" using normalize_phone_Inr by blast
  then have "list_all (\<lambda>c. \<not> is_space c) i"
    by (auto simp: list_all_iff digits_of_def filter_id_conv is_digit_def is_space_def Let_def)
  then have "strip i = i" by (rule strip_nonspace)
  with digits_no_at [OF d] normalize_phone_fix [OF p] show ?thesis by (simp add: normalize_identifier_def)
qed

section \<open>The Telegram registry\<close>

record 'w world =
  wd_chats :: "(string \<times> string) list"
  wd_otps :: "(string \<times> string \<times> int) list"
  wd_out :: 'w

definition clean_phone_digits :: "string \<Rightarrow> string" where
  "clean_phone_digits phone =
     (let digits = digits_of phone in if length digits = 10 then ''91'' @ digits else digits)"

text \<open>The national number of a cleaned Indian number.\<close>

definition indian :: "string \<Rightarrow> bool" where
  "indian clean \<longleftrightarrow> startswith clean ''91'' \<and> length clean = 12"

definition register_phone_telegram :: "string \<Rightarrow> string \<Rightarrow> 'w world \<Rightarrow> 'w world" where
  "register_phone_telegram phone cid w =
     (let clean = clean_phone_digits phone;
          chats = AList.update clean cid (wd_chats w)
      in w\<lparr>wd_chats := (if indian clean
            then AList.update (''+'' @ clean) cid (AList.update (drop 2 clean) cid chats) else chats)\<rparr>)"

definition get_telegram_chat_for_phone :: "string \<Rightarrow> 'w world \<Rightarrow> string option" where
  "get_telegram_chat_for_phone phone w =
     (let clean = clean_phone_digits phone in
      case map_of (wd_chats w) clean of
        Some cid \<Rightarrow> Some cid
      | None \<Rightarrow> (if indian clean then map_of (wd_chats w) (drop 2 clean) else None))"

definition store_active_otp :: "int \<Rightarrow> string \<Rightarrow> string \<Rightarrow> 'w world \<Rightarrow> 'w world" where
  "store_active_otp now identifier otp w =
     (let clean = clean_phone_digits identifier;
          item = (otp, now + minutes 5);
          otps = AList.update clean item (wd_otps w)
      in w\<lparr>wd_otps := (if indian clean then AList.update (drop 2 clean) item otps else otps)\<rparr>)"

definition get_active_otp :: "int \<Rightarrow> string \<Rightarrow> 'w world \<Rightarrow> string option \<times> 'w world" where
  "get_active_otp now identifier w =
     (let clean = clean_phone_digits identifier;
          item = (case map_of (wd_otps w) clean of
                    None \<Rightarrow> (if indian clean then map_of (wd_otps w) (drop 2 clean) else None)
                  | Some x \<Rightarrow> Some x)
      in case item of
           None \<Rightarrow> (None, w)
         | Some (otp, expires) \<Rightarrow>
             (if now < expires then (Some otp, w) else (None, w\<lparr>wd_otps := AList.delete clean (wd_otps w)\<rparr>)))"

text \<open>A cleaned number never has ten digits, so the alias of one number is the key of no other.\<close>

lemma clean_phone_digits_length: "length (clean_phone_digits p) \<noteq> 10"
  by (simp add: clean_phone_digits_def Let_def)

lemma clean_no_plus: "CHR ''+'' \<notin> set (clean_phone_digits p)"
  by (auto simp: clean_phone_digits_def Let_def digits_of_def is_digit_def)

lemma indian_drop: assumes "indian a" shows "length (drop 2 a) = 10" and "a = ''91'' @ drop 2 a"
  using assms append_take_drop_id [of 2 a] unfolding indian_def startswith_def by (simp_all add: numeral_2_eq_2)

lemma indian_drop_inject: "indian a \<Longrightarrow> indian b \<Longrightarrow> drop 2 a = drop 2 b \<longleftrightarrow> a = b"
  using indian_drop(2) by metis

lemma clean_not_alias: "indian a \<Longrightarrow> clean_phone_digits p \<noteq> drop 2 a"
  using indian_drop(1) clean_phone_digits_length by metis

lemma plus_not_key: "CHR ''+'' # s \<noteq> clean_phone_digits q" "CHR ''+'' # s \<noteq> drop 2 (clean_phone_digits q)"
  using clean_no_plus [of q] by (metis list.set_intros(1), metis in_set_dropD list.set_intros(1))

lemma chats_register:
  "map_of (wd_chats (register_phone_telegram p c w)) k =
     (if k = clean_phone_digits p \<or> indian (clean_phone_digits p) \<and>
           (k = drop 2 (clean_phone_digits p) \<or> k = CHR ''+'' # clean_phone_digits p)
      then Some c else map_of (wd_chats w) k)"
  by (simp add: register_phone_telegram_def Let_def update_conv')

lemma otps_store:
  "map_of (wd_otps (store_active_otp now p c w)) k =
     (if k = clean_phone_digits p \<or> indian (clean_phone_digits p) \<and> k = drop 2 (clean_phone_digits p)
      then Some (c, now + minutes 5) else map_of (wd_otps w) k)"
  by (simp add: store_active_otp_def Let_def update_conv')

lemma fst_get_active_otp:
  "fst (get_active_otp now q w) =
     (case (case map_of (wd_otps w) (clean_phone_digits q) of
              None \<Rightarrow> (if indian (clean_phone_digits q) then map_of (wd_otps w) (drop 2 (clean_phone_digits q)) else None)
            | Some x \<Rightarrow> Some x) of
        None \<Rightarrow> None | Some (otp, expires) \<Rightarrow> if now < expires then Some otp else None)"
  by (simp add: get_active_otp_def Let_def split: option.split)

text \<open>A directory: what was put under a number is found under every spelling of it, and under no other.\<close>

locale directory =
  fixes norm :: "'k \<Rightarrow> 'k" and put :: "'k \<Rightarrow> 'v \<Rightarrow> 's \<Rightarrow> 's" and look :: "'k \<Rightarrow> 's \<Rightarrow> 'v option"
  assumes look_same: "norm p = norm q \<Longrightarrow> look q (put p v s) = Some v"
    and look_other: "norm p \<noteq> norm q \<Longrightarrow> look q (put p v s) = look q s"
begin

lemma last_put_wins:
  "look q (fold (\<lambda>(p, v). put p v) puts s) =
     (case find (\<lambda>(p, v). norm p = norm q) (rev puts) of None \<Rightarrow> look q s | Some (p, v) \<Rightarrow> Some v)"
proof (induction puts rule: rev_induct)
  case (snoc x xs)
  then show ?case by (cases x) (simp add: look_same look_other)
qed simp

lemma put_takes_over: "norm p = norm q \<Longrightarrow> look q (put p v s) = Some v"
  by (rule look_same)

end

lemma other_number:
  assumes "clean_phone_digits p \<noteq> clean_phone_digits q"
  shows "indian (clean_phone_digits p) \<Longrightarrow> clean_phone_digits q \<noteq> drop 2 (clean_phone_digits p)"
    and "indian (clean_phone_digits q) \<Longrightarrow> drop 2 (clean_phone_digits q) \<noteq> clean_phone_digits p"
    and "indian (clean_phone_digits p) \<Longrightarrow> indian (clean_phone_digits q) \<Longrightarrow>
      drop 2 (clean_phone_digits q) \<noteq> drop 2 (clean_phone_digits p)"
    and "clean_phone_digits q \<noteq> CHR ''+'' # s" and "drop 2 (clean_phone_digits q) \<noteq> CHR ''+'' # s"
  using assms clean_not_alias [of "clean_phone_digits p" q] clean_not_alias [of "clean_phone_digits q" p]
    indian_drop_inject plus_not_key by metis+

lemma chats_other:
  assumes "clean_phone_digits p \<noteq> clean_phone_digits q"
  shows "map_of (wd_chats (register_phone_telegram p c w)) (clean_phone_digits q) = map_of (wd_chats w) (clean_phone_digits q)"
    and "indian (clean_phone_digits q) \<Longrightarrow>
      map_of (wd_chats (register_phone_telegram p c w)) (drop 2 (clean_phone_digits q)) = map_of (wd_chats w) (drop 2 (clean_phone_digits q))"
  using other_number [OF assms] assms by (auto simp: chats_register)

lemma otps_other:
  assumes "clean_phone_digits p \<noteq> clean_phone_digits q"
  shows "map_of (wd_otps (store_active_otp now p c w)) (clean_phone_digits q) = map_of (wd_otps w) (clean_phone_digits q)"
    and "indian (clean_phone_digits q) \<Longrightarrow>
      map_of (wd_otps (store_active_otp now p c w)) (drop 2 (clean_phone_digits q)) = map_of (wd_otps w) (drop 2 (clean_phone_digits q))"
  using other_number [OF assms] assms by (auto simp: otps_store)

interpretation chats: directory clean_phone_digits register_phone_telegram get_telegram_chat_for_phone
proof unfold_locales
  fix p q and v :: string and s :: "'w world"
  assume ne: "clean_phone_digits p \<noteq> clean_phone_digits q"
  show "get_telegram_chat_for_phone q (register_phone_telegram p v s) = get_telegram_chat_for_phone q s"
    by (cases "indian (clean_phone_digits q)") (simp_all add: get_telegram_chat_for_phone_def Let_def chats_other [OF ne] cong: option.case_cong)
next
  fix p q and v :: string and s :: "'w world"
  assume "clean_phone_digits p = clean_phone_digits q"
  then show "get_telegram_chat_for_phone q (register_phone_telegram p v s) = Some v"
    by (simp add: get_telegram_chat_for_phone_def Let_def chats_register)
qed

interpretation codes: directory clean_phone_digits "store_active_otp now" "\<lambda>q w. fst (get_active_otp now q w)"
  for now
proof unfold_locales
  fix p q and v :: string and s :: "'w world"
  assume ne: "clean_phone_digits p \<noteq> clean_phone_digits q"
  show "fst (get_active_otp now q (store_active_otp now p v s)) = fst (get_active_otp now q s)"
    by (cases "indian (clean_phone_digits q)") (simp_all add: fst_get_active_otp otps_other [OF ne] cong: option.case_cong)
next
  fix p q and v :: string and s :: "'w world"
  assume "clean_phone_digits p = clean_phone_digits q"
  then show "fst (get_active_otp now q (store_active_otp now p v s)) = Some v"
    by (simp add: fst_get_active_otp otps_store minutes_def)
qed

section \<open>Delivery of a code\<close>

text \<open>A channel sends the text of a code to a recipient under an idempotency key; it may raise.\<close>

type_synonym 'w sender = "string \<Rightarrow> string \<Rightarrow> string \<Rightarrow> ('w world, exc, unit) prog"

text \<open>The emoji and rules of the Telegram text are their UTF-8 bytes.\<close>

definition telegram_otp_text :: "string \<Rightarrow> string" where
  "telegram_otp_text otp =
     [CHR 0xF0, CHR 0x9F, CHR 0x94, CHR 0x90] @ '' <b>Paytm ONE Vyapar Verification Code</b>'' @ [CHR 0x0A]
     @ concat (replicate 20 [CHR 0xE2, CHR 0x94, CHR 0x81]) @ [CHR 0x0A]
     @ ''Your one-time security code is:'' @ [CHR 0x0A, CHR 0x0A]
     @ [CHR 0xF0, CHR 0x9F, CHR 0x91, CHR 0x89] @ '' <code>'' @ otp @ ''</code> ''
     @ [CHR 0xF0, CHR 0x9F, CHR 0x91, CHR 0x88, CHR 0x0A, CHR 0x0A]
     @ ''<i>This code expires in 5 minutes. Do not share it with anyone.</i>''"

definition telegram_delivery :: "'w sender \<Rightarrow> 'w sender" where
  "telegram_delivery send_text identifier otp key = send_text identifier (telegram_otp_text otp) key"

definition whatsapp_delivery :: "'w sender \<Rightarrow> 'w sender" where
  "whatsapp_delivery send_text identifier otp key =
     send_text identifier (''Your Paytm ONE Vyapar verification code is '' @ otp
       @ ''. It expires shortly. Do not share it.'') key"

definition email_delivery :: "'w sender \<Rightarrow> 'w sender" where
  "email_delivery send_otp identifier otp key = send_otp identifier otp key"

record 'w multi_delivery =
  md_telegram :: "'w sender option"
  md_whatsapp :: "'w sender option"
  md_email :: "'w sender option"
  md_app_env :: string

text \<open>The two places that fall back to the e-mail address; the result says whether it was sent.\<close>

definition try_email :: "'w sender option \<Rightarrow> string option \<Rightarrow> string \<Rightarrow> string \<Rightarrow> ('w world, exc, bool) prog" where
  "try_email em fallback otp key = (case em of
     None \<Rightarrow> ret False
   | Some send \<Rightarrow>
       (if truthy fallback then bnd (attempt (send (the fallback) otp key)) (\<lambda>r. ret (\<not> isl r)) else ret False))"

definition development :: "string \<Rightarrow> bool" where
  "development mode \<longleftrightarrow> mode \<in> {''development'', ''test''}"

definition not_connected :: exc where
  "not_connected = Exc OtpDeliveryUnavailableError
     (''This mobile number is not yet connected to Telegram bot. ''
      @ ''Please open Telegram, start @PaytmOneVyapar_bot, send /connect <mobile>, ''
      @ ''or sign in with your email or Google account.'')"

definition multi_send ::
  "'w multi_delivery \<Rightarrow> string \<Rightarrow> string \<Rightarrow> string \<Rightarrow> string option \<Rightarrow> ('w world, exc, unit) prog" where
  "multi_send d identifier otp key fallback =
     (if has_at identifier then
        (case md_email d of
           Some send \<Rightarrow> send identifier otp key
         | None \<Rightarrow> guard (development (md_app_env d))
                    (Exc OtpDeliveryUnavailableError ''Email OTP delivery is not configured''))
      else
        bnd (case md_telegram d of
               None \<Rightarrow> ret False
             | Some send \<Rightarrow> bnd (attempt (send identifier otp key)) (\<lambda>r.
                 if isl r then try_email (md_email d) fallback otp key else ret True)) (\<lambda>sent.
        if sent then ret ()
        else (case md_whatsapp d of
                Some send \<Rightarrow> send identifier otp key
              | None \<Rightarrow> bnd (try_email (md_email d) fallback otp key) (\<lambda>mailed.
                  if mailed then ret () else guard (development (md_app_env d)) not_connected))))"

text \<open>A delivery is the multi-channel one, or one that takes no fallback address.\<close>

type_synonym 'w delivery = "'w multi_delivery + 'w sender"

definition deliver :: "'w delivery \<Rightarrow> string \<Rightarrow> string \<Rightarrow> string \<Rightarrow> string option \<Rightarrow> ('w world, exc, unit) prog" where
  "deliver d target otp key fallback = (case d of
     Inl m \<Rightarrow> multi_send m target otp key fallback
   | Inr send \<Rightarrow> send target otp key)"

text \<open>A delivery leaves a predicate alone when its channels do on the addresses it was given.\<close>

lemma keeps_try_email:
  "(\<And>send. em = Some send \<Longrightarrow> truthy fb \<Longrightarrow> keeps P (send (the fb) otp key)) \<Longrightarrow> keeps P (try_email em fb otp key)"
  by (auto simp: try_email_def intro!: keeps_intros split: option.split)

lemma keeps_multi_send:
  assumes "\<And>send t. send \<in> set_option (md_telegram d) \<union> set_option (md_whatsapp d) \<union> set_option (md_email d) \<Longrightarrow>
      t = identifier \<or> fb = Some t \<and> t \<noteq> [] \<Longrightarrow> keeps P (send t otp key)"
  shows "keeps P (multi_send d identifier otp key fb)"
proof -
  have m: "keeps P (try_email (md_email d) fb otp key)"
    by (rule keeps_try_email, rule assms) (auto simp: truthy_def split: option.splits)
  show ?thesis
    unfolding multi_send_def using assms
    by (auto intro!: keeps_intros m split: option.split)
qed

text \<open>When the last resort is the server log (development), a phone number is never refused unless WhatsApp
  raises; in production the refusal is \<open>OtpDeliveryUnavailableError\<close>.\<close>

lemma try_email_Inr: "\<exists>b t. try_email em fb otp key w = (Inr b, t)"
  by (auto simp: try_email_def ret_def bnd_def attempt_def split: option.split prod.split)

lemma multi_send_refused:
  assumes "multi_send d identifier otp key fb w = (Inl x, w')" and "\<not> has_at identifier" and "md_whatsapp d = None"
  shows "\<not> development (md_app_env d) \<and> x = not_connected"
  using assms try_email_Inr [of "md_email d" fb otp key]
  by (auto simp: multi_send_def run_simps split: option.splits if_splits) (metis Inl_Inr_False prod.inject)+

end
