(* ===== verification/Sessions.thy ===== *)
theory Sessions
  imports Contacts
begin

text \<open>
  \<open>SessionService\<close> of \<open>auth_service.py\<close> and the routes \<open>/auth/token\<close>, \<open>/auth/refresh\<close> and
  \<open>/auth/logout\<close>.  A refresh session keeps the digest of its token; refreshing revokes the session and
  issues a replacement, so a refresh token works once.
\<close>

section \<open>Issuing\<close>

record token_set =
  tk_access_token :: string
  tk_refresh_token :: string
  tk_token_type :: string
  tk_expires_in :: int
  tk_role :: string
  tk_account_type :: string
  tk_user_id :: string
  tk_merchant_id :: string
  tk_business_name :: "string option"

definition refresh_clash :: "refresh_row \<Rightarrow> refresh_row \<Rightarrow> bool" where
  "refresh_clash x y \<longleftrightarrow> rs_token_hash x = rs_token_hash y"

definition new_session :: "uuid \<Rightarrow> int \<Rightarrow> settings \<Rightarrow> user_row \<Rightarrow> string \<Rightarrow> string option \<Rightarrow> refresh_row" where
  "new_session i now cfg u digest device =
     \<lparr>row_id = i, created_at = now, updated_at = now, rs_user_id = row_id u,
      rs_merchant_id = u_merchant_id u, rs_token_hash = digest,
      rs_expires_at = Aware (now + days (auth_refresh_token_days cfg)), rs_revoked_at = None,
      rs_replaced_by_id = None, rs_device_name = device\<rparr>"

definition session_issue :: "env \<Rightarrow> settings \<Rightarrow> user_row \<Rightarrow> string option \<Rightarrow> token_set m" where
  "session_issue e cfg u device =
     bnd (new_text e) (\<lambda>token. bnd (new_uuid e) (\<lambda>i. bnd (gets clock) (\<lambda>now.
     andthen (add_row t_refresh_sessions t_refresh_sessions_update refresh_clash
       (new_session i now cfg u (token_digest e token) device))
     (bnd (new_text e) (\<lambda>jti.
      bnd (gets (\<lambda>s. by_id (u_merchant_id u) (t_merchants s))) (\<lambda>merchant.
      ret \<lparr>tk_access_token = create_access_token e now jti (row_id u) (u_merchant_id u)
             (auth_jwt_secret cfg) (auth_jwt_algorithm cfg) (auth_access_token_minutes cfg) (Some i) (u_role u),
           tk_refresh_token = token, tk_token_type = ''bearer'',
           tk_expires_in = auth_access_token_minutes cfg * 60, tk_role = u_role u,
           tk_account_type = u_role u, tk_user_id = str_uuid (row_id u),
           tk_merchant_id = str_uuid (u_merchant_id u), tk_business_name = map_option m_name merchant\<rparr>))))))"

section \<open>Refreshing and revoking\<close>

definition session_by_token :: "env \<Rightarrow> string \<Rightarrow> db \<Rightarrow> refresh_row option" where
  "session_by_token e token s = find (\<lambda>r. rs_token_hash r = token_digest e token) (t_refresh_sessions s)"

definition session_dead :: "int \<Rightarrow> refresh_row \<Rightarrow> bool" where
  "session_dead now r \<longleftrightarrow> rs_revoked_at r \<noteq> None \<or> as_utc (rs_expires_at r) \<le> now"

definition change_session :: "uuid \<Rightarrow> (refresh_row \<Rightarrow> refresh_row) \<Rightarrow> unit m" where
  "change_session = change_row t_refresh_sessions t_refresh_sessions_update"

definition revoked :: "int \<Rightarrow> refresh_row \<Rightarrow> refresh_row" where
  "revoked now r = r\<lparr>rs_revoked_at := Some now\<rparr>"

definition session_refresh :: "env \<Rightarrow> settings \<Rightarrow> string \<Rightarrow> string option \<Rightarrow> token_set m" where
  "session_refresh e cfg token device =
     bnd (gets (session_by_token e token)) (\<lambda>found. bnd (gets clock) (\<lambda>now.
     bnd (require found (Exc AuthenticationError ''Refresh session is invalid or expired'')) (\<lambda>r.
     andthen (guard (\<not> session_dead now r) (Exc AuthenticationError ''Refresh session is invalid or expired''))
     (bnd (gets (\<lambda>s. by_id (rs_user_id r) (t_users s))) (\<lambda>user.
     bnd (require user (Exc AuthenticationError ''Refresh session is no longer valid'')) (\<lambda>u.
     andthen (guard (u_is_active u \<and> u_merchant_id u = rs_merchant_id r)
       (Exc AuthenticationError ''Refresh session is no longer valid''))
     (andthen (change_session (row_id r) (revoked now))
     (bnd (session_issue e cfg u (if truthy device then device else rs_device_name r)) (\<lambda>result.
     bnd (gets (session_by_token e (tk_refresh_token result))) (\<lambda>replacement.
     andthen (change_session (row_id r) (\<lambda>x. x\<lparr>rs_replaced_by_id := map_option row_id replacement\<rparr>))
     (ret result)))))))))))"

definition revoke_found :: "(db \<Rightarrow> refresh_row option) \<Rightarrow> unit m" where
  "revoke_found look =
     bnd (gets look) (\<lambda>found. case found of
       Some r \<Rightarrow> (if rs_revoked_at r = None
                  then bnd (gets clock) (\<lambda>now. change_session (row_id r) (revoked now)) else ret ())
     | None \<Rightarrow> ret ())"

definition session_revoke :: "uuid option \<Rightarrow> unit m" where
  "session_revoke sid = (case sid of None \<Rightarrow> ret ()
     | Some i \<Rightarrow> revoke_found (\<lambda>s. by_id i (t_refresh_sessions s)))"

definition session_revoke_token :: "env \<Rightarrow> string \<Rightarrow> unit m" where
  "session_revoke_token e token = revoke_found (session_by_token e token)"

section \<open>The routes\<close>

definition user_by_email :: "string \<Rightarrow> db \<Rightarrow> user_row option" where
  "user_by_email email s = find (\<lambda>u. lower (u_email u) = lower email) (t_users s)"

definition password_ok :: "env \<Rightarrow> string \<Rightarrow> user_row \<Rightarrow> bool" where
  "password_ok e password u = (case u_password_hash u of None \<Rightarrow> False | Some h \<Rightarrow> pw_verify e password h)"

definition route_token :: "env \<Rightarrow> settings \<Rightarrow> string \<Rightarrow> string \<Rightarrow> string option \<Rightarrow> token_set m" where
  "route_token e cfg username password client_id = request (
     bnd (gets (user_by_email (lower username))) (\<lambda>found.
     bnd (require found (Exc AuthenticationError ''Invalid email or password'')) (\<lambda>u.
     andthen (guard (u_is_active u \<and> password_ok e password u)
       (Exc AuthenticationError ''Invalid email or password''))
     (session_issue e cfg u client_id))))"

definition route_refresh :: "env \<Rightarrow> settings \<Rightarrow> string \<Rightarrow> string option \<Rightarrow> token_set m" where
  "route_refresh e cfg token device = request (session_refresh e cfg token device)"

definition route_logout :: "env \<Rightarrow> principal \<Rightarrow> string option \<Rightarrow> unit m" where
  "route_logout e p token = request (
     andthen (session_revoke (pl_session_id p))
       (if truthy token then session_revoke_token e (the token) else ret ()))"

section \<open>What the service does to the sessions\<close>

text \<open>Every program here only touches the refresh sessions and the random draws; they get a new row at the end,
  or a row is revoked.\<close>

lemma session_issue_Inr:
  assumes "session_issue e cfg u device s = (Inr tk, t)"
  defines "r \<equiv> new_session (uuid_at e (draws s + 1)) (clock s) cfg u (token_digest e (tk_refresh_token tk)) device"
  shows "t = s\<lparr>draws := draws s + 3, t_refresh_sessions := t_refresh_sessions s @ [r]\<rparr>"
    and "\<And>x. x \<in> set (t_refresh_sessions s) \<Longrightarrow> row_id x \<noteq> row_id r \<and> rs_token_hash x \<noteq> rs_token_hash r"
    and "tk_refresh_token tk = text_at e (draws s)"
    and "tk_access_token tk = create_access_token e (clock s) (text_at e (draws s + 2)) (row_id u) (u_merchant_id u)
           (auth_jwt_secret cfg) (auth_jwt_algorithm cfg) (auth_access_token_minutes cfg) (Some (row_id r)) (u_role u)"
  using assms by (auto simp: session_issue_def run_simps new_session_def refresh_clash_def)

lemma session_issue_draws:
  "session_issue e cfg u device s = (Inl x, t) \<Longrightarrow> x = integrity_error \<and> t = s\<lparr>draws := draws s + 2\<rparr>"
  by (auto simp: session_issue_def run_simps)

text \<open>The sessions table: unique token digests.\<close>

definition sessions_ok :: "db \<Rightarrow> bool" where
  "sessions_ok s \<longleftrightarrow> table_ok refresh_clash (t_refresh_sessions s)"

text \<open>A digest that belongs to a revoked session.\<close>

definition token_spent :: "env \<Rightarrow> string \<Rightarrow> db \<Rightarrow> bool" where
  "token_spent e token s \<longleftrightarrow>
     (\<exists>r \<in> set (t_refresh_sessions s). rs_token_hash r = token_digest e token \<and> rs_revoked_at r \<noteq> None)"

lemma session_by_token_mem:
  "session_by_token e token s = Some r \<Longrightarrow>
   r \<in> set (t_refresh_sessions s) \<and> rs_token_hash r = token_digest e token"
  unfolding session_by_token_def by (rule find_Some_iff_mem)

lemma session_by_token_unique:
  assumes "sessions_ok s" and "r \<in> set (t_refresh_sessions s)" and "rs_token_hash r = token_digest e token"
  shows "session_by_token e token s = Some r"
proof -
  obtain x where x: "session_by_token e token s = Some x"
    using find_exists [OF assms(2), of "\<lambda>r. rs_token_hash r = token_digest e token"] assms(3)
    by (auto simp: session_by_token_def)
  from session_by_token_mem [OF x] assms(3)
  have m: "x \<in> set (t_refresh_sessions s)" and c: "refresh_clash x r" by (simp_all add: refresh_clash_def)
  have "x = r"
    by (rule table_ok_no_clash [OF assms(1) [unfolded sessions_ok_def] m assms(2) _ c]) (auto simp: refresh_clash_def)
  with x show ?thesis by simp
qed

lemma spent_not_live:
  "sessions_ok s \<Longrightarrow> token_spent e token s \<Longrightarrow> session_by_token e token s = Some r \<Longrightarrow> rs_revoked_at r \<noteq> None"
  by (auto simp: token_spent_def dest: session_by_token_unique)

section \<open>The sessions table under every operation\<close>

text \<open>\<open>sessions_inv e k\<close>: the table is well formed, and the token \<open>k\<close> (when one is named) is spent.\<close>

definition sessions_inv :: "env \<Rightarrow> string option \<Rightarrow> db \<Rightarrow> bool" where
  "sessions_inv e k s \<longleftrightarrow> sessions_ok s \<and> (case k of None \<Rightarrow> True | Some token \<Rightarrow> token_spent e token s)"

lemma sessions_inv_cong: "t_refresh_sessions s = t_refresh_sessions t \<Longrightarrow> sessions_inv e k s = sessions_inv e k t"
  by (cases k) (simp_all add: sessions_inv_def sessions_ok_def token_spent_def)

definition session_edit :: "(refresh_row \<Rightarrow> refresh_row) \<Rightarrow> bool" where
  "session_edit f \<longleftrightarrow> (\<forall>r. row_id (f r) = row_id r \<and> rs_token_hash (f r) = rs_token_hash r
     \<and> (rs_revoked_at r \<noteq> None \<longrightarrow> rs_revoked_at (f r) \<noteq> None))"

lemma session_edits [simp]:
  "session_edit (revoked now)" "session_edit (\<lambda>x. x\<lparr>rs_replaced_by_id := i\<rparr>)"
  "session_edit f \<Longrightarrow> session_edit (mutate now f)"
  by (simp_all add: session_edit_def revoked_def mutate_def)

lemma sessions_ok_edit:
  assumes "sessions_ok s" and "session_edit f"
  shows "table_ok refresh_clash (upd P f (t_refresh_sessions s))"
  using assms(1) unfolding sessions_ok_def
  by (rule table_ok_upd) (use assms(2) in \<open>simp_all add: session_edit_def refresh_clash_def\<close>)

lemma keeps_change_session [keeps_intros]:
  assumes "session_edit f"
  shows "keeps (sessions_inv e k) (change_session i f)"
proof (rule keepsI)
  fix s r t
  assume s: "sessions_inv e k s" and run: "change_session i f s = (r, t)"
  let ?g = "mutate (clock s) f"
  have g: "session_edit ?g" using assms by simp
  have t: "t_refresh_sessions t = upd (\<lambda>r. row_id r = i) ?g (t_refresh_sessions s)"
    using run by (simp add: change_session_def run_simps)
  have "sessions_ok t"
    using s sessions_ok_edit [OF _ g] by (simp add: sessions_inv_def sessions_ok_def [of t] t)
  moreover have "token_spent e token t" if spent: "token_spent e token s" for token
  proof -
    from spent obtain x where x: "x \<in> set (t_refresh_sessions s)" "rs_token_hash x = token_digest e token"
      "rs_revoked_at x \<noteq> None" by (auto simp: token_spent_def)
    let ?y = "if row_id x = i then ?g x else x"
    have "?y \<in> set (t_refresh_sessions t)" using x(1) by (auto simp: t in_set_upd)
    moreover have "rs_token_hash ?y = token_digest e token" "rs_revoked_at ?y \<noteq> None"
      using x g by (simp_all add: session_edit_def)
    ultimately show ?thesis unfolding token_spent_def by blast
  qed
  ultimately show "sessions_inv e k t" using s by (simp add: sessions_inv_def split: option.splits)
qed

lemma keeps_session_issue [keeps_intros]: "keeps (sessions_inv e k) (session_issue e cfg u device)"
proof (rule keepsI)
  fix s v t
  assume s: "sessions_inv e k s" and run: "session_issue e cfg u device s = (v, t)"
  show "sessions_inv e k t"
  proof (cases v)
    case (Inl x)
    with run have "t_refresh_sessions t = t_refresh_sessions s" by (auto dest!: session_issue_draws)
    with s show ?thesis using sessions_inv_cong by blast
  next
    case (Inr tk)
    with run have i: "session_issue e cfg u device s = (Inr tk, t)" by simp
    show ?thesis
      using s session_issue_Inr(1,2) [OF i]
      by (auto simp: sessions_inv_def sessions_ok_def token_spent_def table_ok_add refresh_clash_def split: option.splits)
  qed
qed

lemma sessions_inv_draws [simp]: "sessions_inv e k (s\<lparr>draws := n\<rparr>) = sessions_inv e k s"
  by (rule sessions_inv_cong) simp

lemma keeps_session_refresh [keeps_intros]: "keeps (sessions_inv e k) (session_refresh e cfg token device)"
  unfolding session_refresh_def by (intro keeps_intros) simp_all

lemma keeps_revoke_found [keeps_intros]: "keeps (sessions_inv e k) (revoke_found look)"
  unfolding revoke_found_def by (intro keeps_intros) simp_all

lemma keeps_session_revoke [keeps_intros]: "keeps (sessions_inv e k) (session_revoke sid)"
  unfolding session_revoke_def by (intro keeps_intros)

lemma keeps_session_revoke_token [keeps_intros]: "keeps (sessions_inv e k) (session_revoke_token e token)"
  unfolding session_revoke_token_def by (intro keeps_intros)

lemma sessions_inv_rollback [simp]: "sessions_inv e k (rollback old new) = sessions_inv e k old"
  by (rule sessions_inv_cong) (simp add: rollback_def)

lemma keeps_request_sessions [keeps_intros]:
  "keeps (sessions_inv e k) m \<Longrightarrow> keeps (sessions_inv e k) (request m)"
  unfolding request_def by (rule keeps_atomic) simp_all

lemma keeps_session_routes [keeps_intros]:
  "keeps (sessions_inv e k) (route_token e cfg name pw cid)"
  "keeps (sessions_inv e k) (route_refresh e cfg token device)"
  "keeps (sessions_inv e k) (route_logout e p tok)"
  unfolding route_token_def route_refresh_def route_logout_def by (intro keeps_intros)+

section \<open>Rotation\<close>

definition rotated :: "int \<Rightarrow> uuid \<Rightarrow> refresh_row \<Rightarrow> refresh_row" where
  "rotated now replacement x =
     mutate now (\<lambda>x. x\<lparr>rs_replaced_by_id := Some replacement\<rparr>) (mutate now (revoked now) x)"

lemma rotated_simps [simp]:
  "row_id (rotated now i x) = row_id x" "rs_token_hash (rotated now i x) = rs_token_hash x"
  "rs_revoked_at (rotated now i x) = Some now" "rs_replaced_by_id (rotated now i x) = Some i"
  "rs_user_id (rotated now i x) = rs_user_id x"
  by (simp_all add: rotated_def mutate_def revoked_def)

lemma upd_upd_same: "(\<And>r. row_id (f r) = row_id r) \<Longrightarrow>
   upd (\<lambda>r. row_id r = i) g (upd (\<lambda>r. row_id r = i) f rows) = upd (\<lambda>r. row_id r = i) (\<lambda>r. g (f r)) rows"
  by (induction rows) auto

lemma session_refresh_Inr:
  assumes "session_refresh e cfg token device s = (Inr tk, t)"
  obtains r u new where "session_by_token e token s = Some r" and "\<not> session_dead (clock s) r"
    and "by_id (rs_user_id r) (t_users s) = Some u" and "u_is_active u" and "u_merchant_id u = rs_merchant_id r"
    and "new = new_session (uuid_at e (draws s + 1)) (clock s) cfg u (token_digest e (tk_refresh_token tk))
               (if truthy device then device else rs_device_name r)"
    and "\<And>x. x \<in> set (t_refresh_sessions s) \<Longrightarrow> row_id x \<noteq> row_id new \<and> rs_token_hash x \<noteq> rs_token_hash new"
    and "t = s\<lparr>draws := draws s + 3, t_refresh_sessions :=
           upd (\<lambda>x. row_id x = row_id r) (rotated (clock s) (row_id new)) (t_refresh_sessions s) @ [new]\<rparr>"
proof -
  obtain r u w a where
    r: "session_by_token e token s = Some r" "\<not> session_dead (clock s) r"
    and u: "by_id (rs_user_id r) (t_users s) = Some u" "u_is_active u" "u_merchant_id u = rs_merchant_id r"
    and a: "a = s\<lparr>t_refresh_sessions :=
        upd (\<lambda>x. row_id x = row_id r) (mutate (clock s) (revoked (clock s))) (t_refresh_sessions s)\<rparr>"
    and i: "session_issue e cfg u (if truthy device then device else rs_device_name r) a = (Inr tk, w)"
    and t: "t = w\<lparr>t_refresh_sessions := upd (\<lambda>x. row_id x = row_id r)
        (mutate (clock w) (\<lambda>x. x\<lparr>rs_replaced_by_id := map_option row_id (session_by_token e (tk_refresh_token tk) w)\<rparr>))
        (t_refresh_sessions w)\<rparr>"
    using assms unfolding session_refresh_def change_session_def by (auto simp: run_simps)
  define new where "new = new_session (uuid_at e (draws s + 1)) (clock s) cfg u (token_digest e (tk_refresh_token tk))
               (if truthy device then device else rs_device_name r)"
  have w: "w = a\<lparr>draws := draws s + 3, t_refresh_sessions := t_refresh_sessions a @ [new]\<rparr>"
    and fr: "\<And>x. x \<in> set (t_refresh_sessions a) \<Longrightarrow> row_id x \<noteq> row_id new \<and> rs_token_hash x \<noteq> rs_token_hash new"
    using session_issue_Inr(1,2) [OF i] by (simp_all add: a new_def)
  have f: "row_id x \<noteq> row_id new \<and> rs_token_hash x \<noteq> rs_token_hash new" if "x \<in> set (t_refresh_sessions s)" for x
  proof -
    let ?y = "if row_id x = row_id r then mutate (clock s) (revoked (clock s)) x else x"
    have "?y \<in> set (t_refresh_sessions a)" using that by (auto simp: a in_set_upd)
    moreover have "row_id ?y = row_id x" "rs_token_hash ?y = rs_token_hash x"
      by (simp_all add: mutate_def revoked_def)
    ultimately show ?thesis using fr [of ?y] by simp
  qed
  have "session_by_token e (tk_refresh_token tk) w = Some new"
    using fr unfolding session_by_token_def w
    by (auto simp: find_append find_None_all new_def new_session_def split: option.splits dest!: find_Some_iff_mem)
  moreover have "row_id new \<noteq> row_id r" using f [of r] session_by_token_mem [OF r(1)] by metis
  ultimately have "t = s\<lparr>draws := draws s + 3, t_refresh_sessions :=
           upd (\<lambda>x. row_id x = row_id r) (rotated (clock s) (row_id new)) (t_refresh_sessions s) @ [new]\<rparr>"
    by (simp add: t w a upd_upd_same rotated_def [abs_def] revoked_def)
  with r u f show thesis by (intro that [OF r u new_def]) auto
qed

text \<open>A token that was refreshed is spent; the token that replaces it is live and belongs to the same user.\<close>

lemma refresh_uses_up:
  assumes "sessions_ok s" and "route_refresh e cfg token device s = (Inr tk, t)"
  shows "\<not> token_spent e token s \<and> token_spent e token t"
proof -
  from assms(2) have "session_refresh e cfg token device s = (Inr tk, t)"
    by (simp add: route_refresh_def request_def run_simps)
  then show ?thesis
  proof (cases rule: session_refresh_Inr)
    case (1 r u new)
    then have "rs_revoked_at r = None" by (simp add: session_dead_def)
    with 1(1) assms(1) have "\<not> token_spent e token s" using spent_not_live by blast
    moreover have "rotated (clock s) (row_id new) r \<in> set (t_refresh_sessions t)"
      using 1 session_by_token_mem [OF 1(1)] by (auto simp: in_set_upd)
    then have "token_spent e token t"
      using session_by_token_mem [OF 1(1)] by (auto simp: token_spent_def intro!: bexI [where x = "rotated (clock s) (row_id new) r"])
    ultimately show ?thesis by blast
  qed
qed

lemma refresh_replaces:
  assumes "sessions_ok s" and "route_refresh e cfg token device s = (Inr tk, t)"
  shows "\<exists>old new u. session_by_token e token s = Some old \<and> \<not> session_dead (clock s) old
    \<and> u \<in> set (t_users s) \<and> u_is_active u \<and> row_id u = rs_user_id old
    \<and> session_by_token e (tk_refresh_token tk) t = Some new \<and> rs_user_id new = rs_user_id old
    \<and> rs_revoked_at new = None \<and> rs_expires_at new = Aware (clock s + days (auth_refresh_token_days cfg))
    \<and> session_by_token e token t = Some (rotated (clock s) (row_id new) old)
    \<and> (\<forall>x \<in> set (t_refresh_sessions s). row_id x \<noteq> row_id old \<longrightarrow> x \<in> set (t_refresh_sessions t))"
proof -
  from assms(2) have run: "session_refresh e cfg token device s = (Inr tk, t)"
    by (simp add: route_refresh_def request_def run_simps)
  have ok: "sessions_ok t"
    using keepsD [OF keeps_session_refresh [where k = None] run] assms(1) by (simp add: sessions_inv_def)
  from run show ?thesis
  proof (cases rule: session_refresh_Inr)
    case (1 r u new)
    from session_by_token_mem [OF 1(1)] have r: "r \<in> set (t_refresh_sessions s)" "rs_token_hash r = token_digest e token" by auto
    have "rotated (clock s) (row_id new) r \<in> set (t_refresh_sessions t)" "new \<in> set (t_refresh_sessions t)"
      using 1 r by (auto simp: in_set_upd)
    then have "session_by_token e token t = Some (rotated (clock s) (row_id new) r)"
      "session_by_token e (tk_refresh_token tk) t = Some new"
      using ok r 1(6) by (auto intro!: session_by_token_unique simp: new_session_def)
    with 1 show ?thesis
      by (auto simp: new_session_def in_set_upd dest!: by_id_mem)
  qed
qed

lemma refresh_refused:
  assumes "case session_by_token e token s of None \<Rightarrow> True | Some r \<Rightarrow> session_dead (clock s) r"
  shows "route_refresh e cfg token device s =
    (Inl (Exc AuthenticationError ''Refresh session is invalid or expired''), rollback s s)"
  using assms by (auto simp: route_refresh_def request_def session_refresh_def exec_defs split: option.splits)

section \<open>Logging out\<close>

lemma revoke_found_run:
  "revoke_found look s = (v, t) \<Longrightarrow> v = Inr () \<and>
     t_refresh_sessions t = (case look s of None \<Rightarrow> t_refresh_sessions s
       | Some r \<Rightarrow> if rs_revoked_at r = None
           then upd (\<lambda>x. row_id x = row_id r) (mutate (clock s) (revoked (clock s))) (t_refresh_sessions s)
           else t_refresh_sessions s)
     \<and> clock t = clock s"
  by (cases v) (auto simp: revoke_found_def change_session_def run_simps split: option.splits if_splits)

definition session_ended :: "uuid \<Rightarrow> db \<Rightarrow> bool" where
  "session_ended i s \<longleftrightarrow> (\<forall>r \<in> set (t_refresh_sessions s). row_id r = i \<longrightarrow> rs_revoked_at r \<noteq> None)"

lemma ended_edit:
  "session_ended i s \<Longrightarrow> session_edit f \<Longrightarrow> t_refresh_sessions t = upd P f (t_refresh_sessions s) \<Longrightarrow> session_ended i t"
  by (auto simp: session_ended_def session_edit_def in_set_upd split: if_splits)

lemma revoke_found_ended: "revoke_found look s = (v, t) \<Longrightarrow> session_ended i s \<Longrightarrow> session_ended i t"
  using ended_edit [of i s "mutate (clock s) (revoked (clock s))" t]
  by (auto dest!: revoke_found_run split: option.splits if_splits simp: session_ended_def)

lemma session_revoke_ends:
  assumes "sessions_ok s" and "session_revoke (Some i) s = (v, t)"
  shows "session_ended i t"
proof -
  from assms(2) have run: "revoke_found (\<lambda>s. by_id i (t_refresh_sessions s)) s = (v, t)" by (simp add: session_revoke_def)
  have u: "by_id i (t_refresh_sessions s) = Some x" if "x \<in> set (t_refresh_sessions s)" "row_id x = i" for x
    using that assms(1) by_id_unique unfolding sessions_ok_def by blast
  show ?thesis unfolding session_ended_def
  proof (intro ballI impI)
    fix x assume x: "x \<in> set (t_refresh_sessions t)" "row_id x = i"
    show "rs_revoked_at x \<noteq> None"
    proof (cases "by_id i (t_refresh_sessions s)")
      case None
      with revoke_found_run [OF run] x u [of x] show ?thesis by simp
    next
      case (Some r)
      then have r: "row_id r = i" using by_id_mem by blast
      show ?thesis
      proof (cases "rs_revoked_at r")
        case None
        with revoke_found_run [OF run] Some obtain y
          where y: "x = (if row_id y = row_id r then mutate (clock s) (revoked (clock s)) y else y)"
          using x(1) by (auto simp: in_set_upd)
        with x(2) r show ?thesis by (cases "row_id y = row_id r") (simp_all add: mutate_def revoked_def)
      next
        case (Some y)
        with revoke_found_run [OF run] \<open>by_id i (t_refresh_sessions s) = Some r\<close> x u [of x] show ?thesis by simp
      qed
    qed
  qed
qed

lemma logout_run:
  assumes "route_logout e p token s = (v, t)"
  obtains a where "session_revoke (pl_session_id p) s = (Inr (), a)" and "v = Inr ()"
    and "(if truthy token then session_revoke_token e (the token) else ret ()) a = (Inr (), t)"
proof -
  obtain w a where a: "session_revoke (pl_session_id p) s = (w, a)" by (cases "session_revoke (pl_session_id p) s")
  then have w: "w = Inr ()"
    by (auto simp: session_revoke_def ret_def split: option.splits dest: revoke_found_run)
  obtain w' b where b: "(if truthy token then session_revoke_token e (the token) else ret ()) a = (w', b)"
    by (cases "(if truthy token then session_revoke_token e (the token) else ret ()) a")
  then have w': "w' = Inr ()"
    by (auto simp: session_revoke_token_def ret_def split: if_splits dest: revoke_found_run)
  from assms a b w w' have "v = Inr ()" "b = t"
    by (simp_all add: route_logout_def request_def atomic_def andthen_def bnd_def)
  with a b w w' show thesis by (intro that) simp_all
qed

text \<open>After a logout no access token of the session is accepted.\<close>

lemma logout_ends_session:
  assumes "sessions_ok s" and "route_logout e p token s = (v, t)" and "pl_session_id p = Some i"
    and "get_current_principal e cfg access t = (Inr q, t')"
  shows "v = Inr () \<and> pl_session_id q \<noteq> Some i"
proof -
  obtain a where a: "session_revoke (Some i) s = (Inr (), a)" and v: "v = Inr ()"
    and b: "(if truthy token then session_revoke_token e (the token) else ret ()) a = (Inr (), t)"
    using logout_run [OF assms(2)] assms(3) by metis
  from session_revoke_ends [OF assms(1) a] b have "session_ended i t"
    by (auto simp: run_simps session_revoke_token_def split: if_splits intro: revoke_found_ended)
  with v get_current_principal_ok [OF assms(4)] show ?thesis
    unfolding session_ended_def by (metis option.distinct(1))
qed

end
