(* ===== verification/Otp.thy ===== *)
theory Otp
  imports Sessions
begin

text \<open>
  \<open>OtpService\<close> of \<open>auth_service.py\<close> and the routes \<open>/auth/otp/*\<close>: a code is requested for an
  identifier (at most five an hour, twenty per address), resent, and checked; a failed check is
  committed, so that the attempts count.  The service acts on the session and on the world of
  \<open>Contacts\<close>; logging and the \<open>details\<close> of an error are left out.
\<close>

section \<open>Draws and texts\<close>

definition new_below :: "env \<Rightarrow> nat \<Rightarrow> nat m" where
  "new_below e k s = (Inr (randbelow_at e (draws s) k), s\<lparr>draws := draws s + 1\<rparr>)"

definition hash_password :: "env \<Rightarrow> string \<Rightarrow> string m" where
  "hash_password e password s = (Inr (pw_hash e (draws s) password), s\<lparr>draws := draws s + 1\<rparr>)"

lemma new_below_run [run_simps]:
  "new_below e k s = (r, t) \<longleftrightarrow> r = Inr (randbelow_at e (draws s) k) \<and> t = s\<lparr>draws := draws s + 1\<rparr>"
  by (auto simp: new_below_def)

lemma hash_password_run [run_simps]:
  "hash_password e pw s = (r, t) \<longleftrightarrow> r = Inr (pw_hash e (draws s) pw) \<and> t = s\<lparr>draws := draws s + 1\<rparr>"
  by (auto simp: hash_password_def)

definition new_code :: "env \<Rightarrow> string m" where
  "new_code e = bnd (new_below e 1000000) (\<lambda>n. ret (pad_str 6 n))"

text \<open>\<open>str(v)\<close> of a JSON value: the text of a text, \<open>repr\<close> of anything else.\<close>

definition repr_char :: "char \<Rightarrow> char \<Rightarrow> string" where
  "repr_char q c =
     (if c = q \<or> c = CHR 0x5C then [CHR 0x5C, c]
      else if c = CHR 0x0A then [CHR 0x5C, CHR ''n'']
      else if c = CHR 0x0D then [CHR 0x5C, CHR ''r'']
      else if c = CHR 0x09 then [CHR 0x5C, CHR ''t'']
      else let n = (of_char c :: nat) in
        if n < 32 \<or> n = 127 then [CHR 0x5C, CHR ''x''] @ map dchar (digs 16 2 n) else [c])"

definition repr_str :: "string \<Rightarrow> string" where
  "repr_str s =
     (let q = (if CHR 0x27 \<in> set s \<and> CHR 0x22 \<notin> set s then CHR 0x22 else CHR 0x27)
      in [q] @ concat (map (repr_char q) s) @ [q])"

fun py_repr :: "json \<Rightarrow> string" and py_repr_list :: "json list \<Rightarrow> string list"
  and py_repr_items :: "(string \<times> json) list \<Rightarrow> string list" where
  "py_repr JNull = ''None''"
| "py_repr (JBool b) = (if b then ''True'' else ''False'')"
| "py_repr (JInt i) = int_str i"
| "py_repr (JNum d) = str_dec d"
| "py_repr (JStr s) = repr_str s"
| "py_repr (JArr xs) = ''['' @ join '', '' (py_repr_list xs) @ '']''"
| "py_repr (JObj d) = ''{'' @ join '', '' (py_repr_items d) @ ''}''"
| "py_repr_list [] = []"
| "py_repr_list (x # xs) = py_repr x # py_repr_list xs"
| "py_repr_items [] = []"
| "py_repr_items (kv # d) = (repr_str (fst kv) @ '': '' @ py_repr (snd kv)) # py_repr_items d"

definition py_str :: "json \<Rightarrow> string" where
  "py_str v = (case v of JStr s \<Rightarrow> s | _ \<Rightarrow> py_repr v)"

section \<open>Whom an identifier names\<close>

definition merchant_for_phone :: "string \<Rightarrow> db \<Rightarrow> merchant_row option" where
  "merchant_for_phone identifier s =
     find (\<lambda>m. case m_phone_number m of None \<Rightarrow> False | Some p \<Rightarrow> p \<in> set (phone_candidates identifier))
       (t_merchants s)"

definition active_user_of :: "merchant_row \<Rightarrow> db \<Rightarrow> user_row option" where
  "active_user_of m s = find (\<lambda>u. u_merchant_id u = row_id m \<and> u_is_active u) (t_users s)"

definition user_for_identifier :: "string \<Rightarrow> db \<Rightarrow> user_row option" where
  "user_for_identifier identifier s =
     (if has_at identifier
      then find (\<lambda>u. lower (u_email u) = lower identifier \<and> u_is_active u) (t_users s)
      else (case merchant_for_phone identifier s of None \<Rightarrow> None | Some m \<Rightarrow> active_user_of m s))"

text \<open>\<open>_resolve_delivery_info\<close>: where the code goes, and the fallback address.\<close>

definition resolve_delivery_info :: "string \<Rightarrow> db \<times> 'w world \<Rightarrow> string \<times> string option" where
  "resolve_delivery_info identifier w =
     (if has_at identifier then (identifier, None)
      else
        (let reg_chat = get_telegram_chat_for_phone identifier (snd w);
             target = (if truthy reg_chat then the reg_chat else identifier)
         in case merchant_for_phone identifier (fst w) of
              None \<Rightarrow> (target, None)
            | Some m \<Rightarrow>
                (let fallback = (case active_user_of m (fst w) of
                       Some u \<Rightarrow> if u_email u \<noteq> [] then Some (u_email u) else None
                     | None \<Rightarrow> None);
                     chat = map_of (m_settings m) ''telegram_chat_id''
                 in (if json_truthy chat then py_str (the chat)
                     else if truthy fallback \<and> \<not> truthy reg_chat then the fallback
                     else target, fallback))))"

section \<open>Requesting a code\<close>

definition issued_since :: "(otp_row \<Rightarrow> string) \<Rightarrow> string \<Rightarrow> int \<Rightarrow> db \<Rightarrow> nat" where
  "issued_since key v window s = length (filter (\<lambda>r. key r = v \<and> window \<le> created_at r) (t_otp_challenges s))"

definition otp_ip_hash :: "env \<Rightarrow> settings \<Rightarrow> string \<Rightarrow> string" where
  "otp_ip_hash e cfg ip = token_digest e (ip @ '':'' @ auth_otp_secret cfg)"

definition rate_limited :: "env \<Rightarrow> settings \<Rightarrow> string \<Rightarrow> string \<Rightarrow> db \<Rightarrow> bool" where
  "rate_limited e cfg normalized ip s \<longleftrightarrow>
     5 \<le> issued_since ot_identifier_hash (token_digest e normalized) (clock s - hours 1) s
   \<or> 20 \<le> issued_since ot_request_ip_hash (otp_ip_hash e cfg ip) (clock s - hours 1) s"

definition new_challenge ::
  "env \<Rightarrow> settings \<Rightarrow> uuid \<Rightarrow> int \<Rightarrow> string \<Rightarrow> otp_purpose \<Rightarrow> string \<Rightarrow> string \<Rightarrow> otp_row" where
  "new_challenge e cfg i now normalized purpose ip hash =
     \<lparr>row_id = i, created_at = now, updated_at = now, ot_identifier = normalized,
      ot_identifier_hash = token_digest e normalized, ot_purpose = purpose, ot_otp_hash = hash,
      ot_request_ip_hash = otp_ip_hash e cfg ip,
      ot_expires_at = Aware (now + minutes (auth_otp_expiry_minutes cfg)),
      ot_resend_available_at = Aware (now + seconds (auth_otp_resend_seconds cfg)),
      ot_attempts = 0, ot_max_attempts = auth_otp_max_attempts cfg, ot_resend_count = 0,
      ot_max_resends = auth_otp_max_resends cfg, ot_verified_at = None, ot_consumed_at = None\<rparr>"

definition otp_key :: "uuid \<Rightarrow> int \<Rightarrow> string" where
  "otp_key i n = ''otp:'' @ str_uuid i @ '':'' @ int_str n"

text \<open>The code is remembered for \<open>/otp\<close> under the identifier and the target, and sent.\<close>

definition announce ::
  "'w delivery \<Rightarrow> string \<Rightarrow> string \<Rightarrow> string \<Rightarrow> ('w world, unit) wm" where
  "announce d identifier otp key =
     bnd (gets (resolve_delivery_info identifier)) (\<lambda>(target, fallback).
     bnd (on_db (gets clock)) (\<lambda>now.
     andthen (on_world (modify (store_active_otp now identifier otp)))
     (andthen (if target \<noteq> identifier then on_world (modify (store_active_otp now target otp)) else ret ())
     (on_world (deliver d target otp key fallback)))))"

definition otp_unavailable :: exc where
  "otp_unavailable = Exc OtpDeliveryUnavailableError ''OTP delivery is temporarily unavailable''"

definition please_wait :: exc where
  "please_wait = Exc RateLimitError ''Please wait before requesting another code''"

definition otp_request ::
  "env \<Rightarrow> settings \<Rightarrow> 'w delivery option \<Rightarrow> string \<Rightarrow> otp_purpose \<Rightarrow> string \<Rightarrow> ('w world, otp_row) wm" where
  "otp_request e cfg delivery identifier purpose ip =
     bnd (lift (normalize_identifier identifier)) (\<lambda>normalized.
     bnd (on_db (gets (rate_limited e cfg normalized ip))) (\<lambda>limited.
     andthen (guard (\<not> limited) please_wait)
     (bnd (require delivery otp_unavailable) (\<lambda>d.
      bnd (on_db (new_code e)) (\<lambda>otp.
      bnd (on_db (gets clock)) (\<lambda>now.
      bnd (on_db (hash_password e otp)) (\<lambda>hash.
      bnd (on_db (new_uuid e)) (\<lambda>i.
      let challenge = new_challenge e cfg i now normalized purpose ip hash in
      andthen (on_db (add_row t_otp_challenges t_otp_challenges_update no_clash challenge))
      (andthen (announce d normalized otp (otp_key i 0))
      (ret challenge))))))))))"

section \<open>Resending\<close>

definition invalid_otp :: exc where
  "invalid_otp = Exc InvalidOtpError ''The verification code is invalid or expired''"

definition challenge_closed :: "int \<Rightarrow> otp_row \<Rightarrow> bool" where
  "challenge_closed now r \<longleftrightarrow>
     ot_consumed_at r \<noteq> None \<or> ot_verified_at r \<noteq> None \<or> as_utc (ot_expires_at r) \<le> now"

definition find_challenge :: "uuid \<Rightarrow> otp_row m" where
  "find_challenge i = bnd (gets (\<lambda>s. by_id i (t_otp_challenges s))) (\<lambda>found. require found invalid_otp)"

definition change_otp :: "uuid \<Rightarrow> (otp_row \<Rightarrow> otp_row) \<Rightarrow> unit m" where
  "change_otp = change_row t_otp_challenges t_otp_challenges_update"

definition resent :: "settings \<Rightarrow> int \<Rightarrow> string \<Rightarrow> otp_row \<Rightarrow> otp_row" where
  "resent cfg now hash r = r\<lparr>ot_otp_hash := hash,
     ot_expires_at := Aware (now + minutes (auth_otp_expiry_minutes cfg)),
     ot_resend_available_at := Aware (now + seconds (auth_otp_resend_seconds cfg)),
     ot_resend_count := ot_resend_count r + 1, ot_attempts := 0\<rparr>"

definition otp_resend :: "env \<Rightarrow> settings \<Rightarrow> 'w delivery option \<Rightarrow> uuid \<Rightarrow> ('w world, otp_row) wm" where
  "otp_resend e cfg delivery i =
     bnd (on_db (find_challenge i)) (\<lambda>r.
     bnd (on_db (gets clock)) (\<lambda>now.
     andthen (guard (\<not> challenge_closed now r)
       (Exc InvalidOtpError ''Verification challenge is no longer valid''))
     (andthen (guard (ot_resend_count r < ot_max_resends r) (Exc RateLimitError ''OTP resend limit reached''))
     (andthen (guard (as_utc (ot_resend_available_at r) \<le> now) please_wait)
     (bnd (require delivery otp_unavailable) (\<lambda>d.
      bnd (on_db (new_code e)) (\<lambda>otp.
      bnd (on_db (hash_password e otp)) (\<lambda>hash.
      andthen (on_db (change_otp i (resent cfg now hash)))
      (andthen (announce d (ot_identifier r) otp (otp_key i (ot_resend_count r + 1)))
      (ret (resent cfg now hash r)))))))))))"

section \<open>Checking\<close>

datatype auth_result =
    SignedIn token_set
  | MustRegister (reg_token: string) (reg_email: "string option")

definition consume :: "int \<Rightarrow> otp_row \<Rightarrow> otp_row" where
  "consume now r = r\<lparr>ot_consumed_at := Some now\<rparr>"

definition otp_verify :: "env \<Rightarrow> settings \<Rightarrow> uuid \<Rightarrow> string \<Rightarrow> string option \<Rightarrow> auth_result m" where
  "otp_verify e cfg i otp device =
     bnd (find_challenge i) (\<lambda>r.
     bnd (gets clock) (\<lambda>now.
     andthen (guard (\<not> challenge_closed now r) invalid_otp)
     (if ot_max_attempts r \<le> ot_attempts r then andthen (change_otp i (consume now)) (raise invalid_otp)
      else
        andthen (change_otp i (\<lambda>x. x\<lparr>ot_attempts := ot_attempts x + 1\<rparr>))
        (if \<not> pw_verify e otp (ot_otp_hash r) then
           andthen (if ot_max_attempts r \<le> ot_attempts r + 1 then change_otp i (consume now) else ret ())
             (raise invalid_otp)
         else
           andthen (change_otp i (\<lambda>x. x\<lparr>ot_verified_at := Some now\<rparr>))
           (bnd (gets (user_for_identifier (ot_identifier r))) (\<lambda>user. case user of
              Some u \<Rightarrow>
                andthen (change_otp i (consume now))
                (bnd (session_issue e cfg u device) (\<lambda>tk. ret (SignedIn tk)))
            | None \<Rightarrow>
                (if ot_purpose r \<noteq> OP_REGISTRATION then andthen (change_otp i (consume now)) (raise invalid_otp)
                 else
                   (let email = (if has_at (ot_identifier r) then Some (ot_identifier r) else None) in
                    bnd (new_text e) (\<lambda>jti. ret (MustRegister
                      (create_registration_token e now jti (row_id r) (ot_identifier r) (auth_otp_secret cfg)
                         ''OTP'' 15 email) email))))))))))"

section \<open>The routes\<close>

text \<open>\<open>_request_ip\<close>: the first address of \<open>X-Forwarded-For\<close>, else the peer.\<close>

definition request_ip :: "string option \<Rightarrow> string option \<Rightarrow> string" where
  "request_ip forwarded host =
     (if truthy forwarded then strip (fst (split_first CHR '','' (the forwarded)))
      else (case host of None \<Rightarrow> ''unknown'' | Some h \<Rightarrow> h))"

record otp_response =
  or_challenge_id :: uuid
  or_destination :: string
  or_expires_at :: tstamp
  or_resend_available_at :: tstamp

definition challenge_response :: "otp_row \<Rightarrow> otp_response" where
  "challenge_response r =
     \<lparr>or_challenge_id = row_id r, or_destination = mask_phone (ot_identifier r),
      or_expires_at = ot_expires_at r, or_resend_available_at = ot_resend_available_at r\<rparr>"

text \<open>\<open>except ValueError as exc: raise InvalidRequestError(str(exc))\<close>.\<close>

definition value_errors_invalid :: "('s, exc, 'a) prog \<Rightarrow> ('s, exc, 'a) prog" where
  "value_errors_invalid prg s = (case prg s of
     (Inl x, t) \<Rightarrow> (Inl (if isa (cls x) PyValueError then Exc InvalidRequestError (msg x) else x), t)
   | (Inr a, t) \<Rightarrow> (Inr a, t))"

definition route_otp_request ::
  "env \<Rightarrow> settings \<Rightarrow> 'w delivery option \<Rightarrow> string \<Rightarrow> otp_purpose \<Rightarrow> string option \<Rightarrow> string option
   \<Rightarrow> ('w world, otp_response) wm" where
  "route_otp_request e cfg delivery identifier purpose forwarded host = world_request (
     bnd (value_errors_invalid (otp_request e cfg delivery identifier purpose (request_ip forwarded host)))
       (\<lambda>r. ret (challenge_response r)))"

definition route_otp_resend :: "env \<Rightarrow> settings \<Rightarrow> 'w delivery option \<Rightarrow> uuid \<Rightarrow> ('w world, otp_response) wm" where
  "route_otp_resend e cfg delivery i = world_request (
     bnd (otp_resend e cfg delivery i) (\<lambda>r. ret (challenge_response r)))"

text \<open>\<open>verify_otp\<close> commits also when the check fails with \<open>InvalidOtpError\<close>.\<close>

definition route_otp_verify :: "env \<Rightarrow> settings \<Rightarrow> uuid \<Rightarrow> string \<Rightarrow> string option \<Rightarrow> auth_result m" where
  "route_otp_verify e cfg i otp device s = (case otp_verify e cfg i otp device s of
     (Inl x, t) \<Rightarrow> (Inl x, if isa (cls x) InvalidOtpError then t else rollback s t)
   | (Inr r, t) \<Rightarrow> (Inr r, t))"

section \<open>The life of a challenge\<close>

text \<open>
  A challenge is spent once it is verified or consumed.  \<open>otp_row_left\<close> is how many more times a code of the
  challenge can be checked: the attempts that are left, and for every resend that is left one attempt less
  than the maximum, because a challenge whose attempts run out is consumed and cannot be resent.
\<close>

definition otp_spent :: "otp_row \<Rightarrow> bool" where
  "otp_spent r \<longleftrightarrow> ot_verified_at r \<noteq> None \<or> ot_consumed_at r \<noteq> None"

definition otp_row_ok :: "otp_row \<Rightarrow> bool" where
  "otp_row_ok r \<longleftrightarrow> 0 \<le> ot_attempts r \<and> ot_resend_count r \<le> ot_max_resends r \<and> 1 \<le> ot_max_attempts r
     \<and> (\<not> otp_spent r \<longrightarrow> ot_attempts r < ot_max_attempts r)"

definition checks_bound :: "int \<Rightarrow> int \<Rightarrow> int \<Rightarrow> nat" where
  "checks_bound resends max_attempts attempts = nat (resends * (max_attempts - 1) + (max_attempts - attempts))"

definition otp_row_left :: "otp_row \<Rightarrow> nat" where
  "otp_row_left r = (if otp_spent r then 0
     else checks_bound (ot_max_resends r - ot_resend_count r) (ot_max_attempts r) (ot_attempts r))"

definition otp_budget :: "settings \<Rightarrow> nat" where
  "otp_budget cfg = checks_bound (auth_otp_max_resends cfg) (auth_otp_max_attempts cfg) 0"

definition checks_left :: "settings \<Rightarrow> uuid \<Rightarrow> db \<Rightarrow> nat" where
  "checks_left cfg i s = (case by_id i (t_otp_challenges s) of None \<Rightarrow> otp_budget cfg | Some r \<Rightarrow> otp_row_left r)"

text \<open>A later version of a row.\<close>

definition otp_later :: "otp_row \<Rightarrow> otp_row \<Rightarrow> bool" where
  "otp_later r' r \<longleftrightarrow> row_id r' = row_id r \<and> created_at r' = created_at r
     \<and> ot_identifier_hash r' = ot_identifier_hash r \<and> ot_request_ip_hash r' = ot_request_ip_hash r
     \<and> (ot_consumed_at r \<noteq> None \<longrightarrow> ot_consumed_at r' \<noteq> None)
     \<and> (otp_row_ok r \<longrightarrow> otp_row_ok r' \<and> otp_row_left r' \<le> otp_row_left r)"

text \<open>How many rows with a given key fall into the hour that starts at \<open>w\<close>.\<close>

definition in_hour :: "(otp_row \<Rightarrow> string) \<Rightarrow> string \<Rightarrow> int \<Rightarrow> otp_row list \<Rightarrow> nat" where
  "in_hour key v w rows = length (filter (\<lambda>r. key r = v \<and> w \<le> created_at r \<and> created_at r \<le> w + hours 1) rows)"

text \<open>The invariant of the table.  \<open>n\<close> bounds the checks that are left for the challenge \<open>i\<close>, and the challenges
  in \<open>C\<close> are consumed.\<close>

definition otps_inv :: "settings \<Rightarrow> uuid \<Rightarrow> nat \<Rightarrow> uuid set \<Rightarrow> db \<Rightarrow> bool" where
  "otps_inv cfg i n C s \<longleftrightarrow>
     table_ok no_clash (t_otp_challenges s) \<and> (\<forall>r \<in> set (t_otp_challenges s). otp_row_ok r)
   \<and> (\<forall>v w. in_hour ot_identifier_hash v w (t_otp_challenges s) \<le> 5)
   \<and> (\<forall>v w. in_hour ot_request_ip_hash v w (t_otp_challenges s) \<le> 20)
   \<and> checks_left cfg i s \<le> n
   \<and> (\<forall>c \<in> C. \<exists>r \<in> set (t_otp_challenges s). row_id r = c \<and> ot_consumed_at r \<noteq> None)"

lemma otps_inv_cong:
  "t_otp_challenges s = t_otp_challenges t \<Longrightarrow> otps_inv cfg i n C s = otps_inv cfg i n C t"
  by (simp add: otps_inv_def checks_left_def)

lemma otps_inv_frame [simp]:
  "otps_inv cfg i n C (s\<lparr>draws := k\<rparr>) = otps_inv cfg i n C s"
  "otps_inv cfg i n C (s\<lparr>t_refresh_sessions := rs\<rparr>) = otps_inv cfg i n C s"
  "otps_inv cfg i n C (rollback s t) = otps_inv cfg i n C s"
  by (rule otps_inv_cong; simp add: rollback_def)+

lemma otp_later_refl [simp]: "otp_later r r"
  by (simp add: otp_later_def)

lemma otp_later_mutate [simp]: "otp_later (mutate now f r) r' = otp_later (f r) r'"
  by (simp add: otp_later_def mutate_def otp_row_ok_def otp_row_left_def otp_spent_def)

lemma in_hour_upd:
  assumes "\<And>r. r \<in> set rows \<Longrightarrow> P r \<Longrightarrow> key (f r) = key r \<and> created_at (f r) = created_at r"
  shows "in_hour key v w (upd P f rows) = in_hour key v w rows"
  using assms by (induction rows) (auto simp: in_hour_def)

lemma otps_inv_change:
  assumes inv: "otps_inv cfg i n C s" and r: "by_id c (t_otp_challenges s) = Some r"
    and later: "otp_later (g r) r" and t: "t_otp_challenges t = upd (\<lambda>x. row_id x = c) g (t_otp_challenges s)"
  shows "otps_inv cfg i n C t"
    and "by_id c (t_otp_challenges t) = Some (g r)"
proof -
  let ?rows = "t_otp_challenges s" and ?P = "\<lambda>x. row_id x = c"
  have ok: "table_ok no_clash ?rows" using inv by (simp add: otps_inv_def)
  have mem: "r \<in> set ?rows" "row_id r = c" using by_id_mem [OF r] by auto
  have u: "x = r" if "x \<in> set ?rows" "row_id x = c" for x
    using that by_id_unique [OF ok] r by (metis option.inject)
  define h where "h x = (if x = r then g r else x)" for x
  have uh: "upd ?P g ?rows = upd ?P h ?rows" unfolding upd_def by (rule map_cong) (auto simp: h_def dest: u)
  have hl: "otp_later (h x) x" for x using later by (simp add: h_def)
  have t': "t_otp_challenges t = upd ?P h ?rows" using t uh by simp
  have ids: "\<And>x. row_id (h x) = row_id x" using hl by (simp add: otp_later_def)
  show b: "by_id c (t_otp_challenges t) = Some (g r)"
    unfolding by_id_def t' using r find_upd_key [of row_id h c ?rows] ids by (simp add: by_id_def h_def)
  have "table_ok no_clash (t_otp_challenges t)" unfolding t' using ok by (rule table_ok_upd) (simp_all add: ids no_clash_def)
  moreover have "\<forall>x \<in> set (t_otp_challenges t). otp_row_ok x"
    using inv hl unfolding otps_inv_def otp_later_def t' by (auto simp: in_set_upd)
  moreover have "in_hour ot_identifier_hash v w (t_otp_challenges t) = in_hour ot_identifier_hash v w ?rows"
    "in_hour ot_request_ip_hash v w (t_otp_challenges t) = in_hour ot_request_ip_hash v w ?rows" for v w
    unfolding t' using hl by (auto intro!: in_hour_upd simp: otp_later_def)
  moreover have "checks_left cfg i t \<le> checks_left cfg i s"
  proof (cases "i = c")
    case True
    have "otp_row_ok r" using inv mem(1) by (simp add: otps_inv_def)
    with True b r later show ?thesis by (simp add: checks_left_def otp_later_def)
  next
    case False
    then have "by_id i (t_otp_challenges t) = by_id i ?rows"
      unfolding by_id_def t' using find_upd_other [of row_id h i c ?rows] ids by simp
    then show ?thesis by (simp add: checks_left_def)
  qed
  moreover have "\<exists>x \<in> set (t_otp_challenges t). row_id x = k \<and> ot_consumed_at x \<noteq> None" if k: "k \<in> C" for k
  proof -
    from inv k obtain x where x: "x \<in> set ?rows" "row_id x = k" "ot_consumed_at x \<noteq> None"
      unfolding otps_inv_def by blast
    have "(if ?P x then h x else x) \<in> set (t_otp_challenges t)" using x(1) unfolding t' by (auto simp: in_set_upd)
    with x hl [of x] ids show ?thesis by (fastforce simp: otp_later_def split: if_splits)
  qed
  ultimately show "otps_inv cfg i n C t" using inv by (auto simp: otps_inv_def)
qed

text \<open>The versions that the service makes.\<close>

lemma later_consume: "otp_later (consume now r) r"
  by (auto simp: otp_later_def consume_def otp_row_ok_def otp_row_left_def otp_spent_def)

lemma later_resent:
  assumes "otp_row_ok r" "\<not> otp_spent r" "ot_resend_count r < ot_max_resends r"
  shows "otp_later (resent cfg now hash r) r"
proof -
  define k a m where "k = ot_max_resends r - ot_resend_count r" and "a = ot_attempts r" and "m = ot_max_attempts r"
  have "0 \<le> a" "a < m" "1 \<le> k" using assms by (auto simp: otp_row_ok_def k_def a_def m_def)
  then have "(k - 1) * (m - 1) + (m - 0) \<le> k * (m - 1) + (m - a)" by (simp add: algebra_simps)
  then have "checks_bound (k - 1) m 0 \<le> checks_bound k m a" by (simp add: checks_bound_def nat_mono)
  moreover have "otp_row_left (resent cfg now hash r) = checks_bound (k - 1) m 0" "otp_row_left r = checks_bound k m a"
    using assms(2) by (simp_all add: otp_row_left_def resent_def otp_spent_def k_def a_def m_def algebra_simps)
  ultimately show ?thesis
    using assms by (auto simp: otp_later_def resent_def otp_row_ok_def otp_spent_def)
qed

lemma checks_bound_Suc:
  assumes "0 \<le> k" "0 \<le> a" "a < m"
  shows "checks_bound k m (a + 1) + 1 = checks_bound k m a"
proof -
  define x where "x = k * (m - 1)"
  have "0 \<le> x" using assms by (simp add: x_def)
  with assms show ?thesis unfolding checks_bound_def x_def [symmetric] by linarith
qed

lemma later_tried:
  assumes "otp_row_ok r" "\<not> otp_spent r" "ot_attempts r + 1 < ot_max_attempts r"
  shows "otp_later (r\<lparr>ot_attempts := ot_attempts r + 1\<rparr>) r"
    and "otp_row_left (r\<lparr>ot_attempts := ot_attempts r + 1\<rparr>) + 1 = otp_row_left r"
proof -
  have b: "checks_bound (ot_max_resends r - ot_resend_count r) (ot_max_attempts r) (ot_attempts r + 1) + 1
    = checks_bound (ot_max_resends r - ot_resend_count r) (ot_max_attempts r) (ot_attempts r)"
    using assms by (intro checks_bound_Suc) (auto simp: otp_row_ok_def)
  with assms show "otp_row_left (r\<lparr>ot_attempts := ot_attempts r + 1\<rparr>) + 1 = otp_row_left r"
    by (simp add: otp_row_left_def otp_spent_def)
  with assms show "otp_later (r\<lparr>ot_attempts := ot_attempts r + 1\<rparr>) r"
    by (auto simp: otp_later_def otp_row_ok_def otp_spent_def)
qed

lemma left_pos: "otp_row_ok r \<Longrightarrow> \<not> otp_spent r \<Longrightarrow> 0 < otp_row_left r"
  by (auto simp: otp_row_left_def otp_row_ok_def checks_bound_def zero_less_mult_iff intro!: add_nonneg_pos)

lemma later_closed:
  "otp_row_ok r \<Longrightarrow> otp_spent r' \<Longrightarrow> row_id r' = row_id r \<Longrightarrow> created_at r' = created_at r \<Longrightarrow>
   ot_identifier_hash r' = ot_identifier_hash r \<Longrightarrow> ot_request_ip_hash r' = ot_request_ip_hash r \<Longrightarrow>
   ot_attempts r' \<in> {ot_attempts r, ot_attempts r + 1} \<Longrightarrow> ot_max_attempts r' = ot_max_attempts r \<Longrightarrow>
   ot_resend_count r' = ot_resend_count r \<Longrightarrow> ot_max_resends r' = ot_max_resends r \<Longrightarrow>
   (ot_consumed_at r \<noteq> None \<Longrightarrow> ot_consumed_at r' \<noteq> None) \<Longrightarrow> otp_later r' r"
  by (auto simp: otp_later_def otp_row_left_def otp_row_ok_def)

section \<open>What a check does\<close>

text \<open>A check of the code happens only for an open challenge with attempts left; it takes one of the checks that
  are left, and a check that succeeds takes all of them.\<close>

definition check_happens :: "uuid \<Rightarrow> db \<Rightarrow> bool" where
  "check_happens i s = (case by_id i (t_otp_challenges s) of None \<Rightarrow> False
     | Some r \<Rightarrow> \<not> challenge_closed (clock s) r \<and> ot_attempts r < ot_max_attempts r)"

lemma issue_keeps_otps:
  "session_issue e cfg u device s = (v, t) \<Longrightarrow> t_otp_challenges t = t_otp_challenges s"
  by (cases v) (auto dest: session_issue_draws session_issue_Inr(1))

lemma row_id_consume [simp]: "row_id (consume now r) = row_id r"
  by (simp add: consume_def)

text \<open>The row that a check of an open challenge leaves.\<close>

definition checked_row :: "env \<Rightarrow> int \<Rightarrow> user_row option \<Rightarrow> string \<Rightarrow> otp_row \<Rightarrow> otp_row" where
  "checked_row e now user otp r =
     (if ot_max_attempts r \<le> ot_attempts r then consume now r
      else
        (let x = r\<lparr>ot_attempts := ot_attempts r + 1\<rparr> in
         if \<not> pw_verify e otp (ot_otp_hash r) then (if ot_max_attempts r \<le> ot_attempts r + 1 then consume now x else x)
         else
           (let y = x\<lparr>ot_verified_at := Some now\<rparr> in
            if user \<noteq> None \<or> ot_purpose r \<noteq> OP_REGISTRATION then consume now y else y)))"

lemma user_for_identifier_frame [simp]:
  "user_for_identifier x (s\<lparr>t_otp_challenges := rs\<rparr>) = user_for_identifier x s"
  by (simp add: user_for_identifier_def merchant_for_phone_def active_user_of_def cong: option.case_cong)

lemma mutate_consume:
  "ot_consumed_at r = None \<Longrightarrow> mutate now (consume now) r = r\<lparr>ot_consumed_at := Some now, updated_at := now\<rparr>"
proof -
  assume n: "ot_consumed_at r = None"
  have "consume now r \<noteq> r"
  proof
    assume "consume now r = r"
    from arg_cong [OF this, of ot_consumed_at] n show False by (simp add: consume_def)
  qed
  then show ?thesis by (simp add: mutate_def consume_def)
qed

lemma mutate_try:
  "mutate now (\<lambda>x. x\<lparr>ot_attempts := ot_attempts x + 1\<rparr>) r = r\<lparr>ot_attempts := ot_attempts r + 1, updated_at := now\<rparr>"
proof -
  have "r\<lparr>ot_attempts := ot_attempts r + 1\<rparr> \<noteq> r"
  proof
    assume "r\<lparr>ot_attempts := ot_attempts r + 1\<rparr> = r"
    from arg_cong [OF this, of ot_attempts] show False by simp
  qed
  then show ?thesis by (simp add: mutate_def)
qed

lemma mutate_seen:
  "updated_at r = now \<Longrightarrow> mutate now (\<lambda>x. x\<lparr>ot_verified_at := v\<rparr>) r = r\<lparr>ot_verified_at := v, updated_at := now\<rparr>"
  by (simp add: mutate_def)

lemma otp_verify_row:
  assumes run: "otp_verify e cfg i otp device s = (v, t)" and r: "by_id i (t_otp_challenges s) = Some r"
    and c: "\<not> challenge_closed (clock s) r"
  shows "\<exists>g. t_otp_challenges t = upd (\<lambda>x. row_id x = i) g (t_otp_challenges s)
     \<and> g r = (checked_row e (clock s) (user_for_identifier (ot_identifier r) s) otp r)\<lparr>updated_at := clock s\<rparr>"
    (is "\<exists>g. ?upd g \<and> g r = ?final")
proof -
  have n: "ot_consumed_at r = None" using c by (simp add: challenge_closed_def)
  let ?now = "clock s"
  let ?tried = "mutate ?now (\<lambda>x. x\<lparr>ot_attempts := ot_attempts x + 1\<rparr>)"
  let ?seen = "\<lambda>x. mutate ?now (\<lambda>x. x\<lparr>ot_verified_at := Some ?now\<rparr>) (?tried x)"
  let ?user = "user_for_identifier (ot_identifier r) s"
  note eval = otp_verify_def find_challenge_def change_otp_def exec_defs change_row_def upd_upd_same Let_def
  show ?thesis
  proof (cases "ot_max_attempts r \<le> ot_attempts r")
    case True
    with run r c have "?upd (mutate ?now (consume ?now))" by (auto simp: eval)
    moreover have "mutate ?now (consume ?now) r = ?final"
      using True n by (simp add: checked_row_def mutate_consume consume_def)
    ultimately show ?thesis by blast
  next
    case tries: False
    show ?thesis
    proof (cases "pw_verify e otp (ot_otp_hash r)")
      case False
      show ?thesis
      proof (cases "ot_max_attempts r \<le> ot_attempts r + 1")
        case True
        with run r c tries False have "?upd (\<lambda>x. mutate ?now (consume ?now) (?tried x))" by (auto simp: eval)
        moreover have "mutate ?now (consume ?now) (?tried r) = ?final"
          using True tries False n by (simp add: checked_row_def mutate_consume mutate_try consume_def Let_def)
        ultimately show ?thesis by blast
      next
        case more: False
        with run r c tries False have "?upd ?tried" by (auto simp: eval)
        moreover have "?tried r = ?final" using more tries False by (simp add: checked_row_def mutate_try Let_def)
        ultimately show ?thesis by blast
      qed
    next
      case match: True
      show ?thesis
      proof (cases "?user \<noteq> None \<or> ot_purpose r \<noteq> OP_REGISTRATION")
        case True
        with run r c tries match have "?upd (\<lambda>x. mutate ?now (consume ?now) (?seen x))"
          by (auto simp: eval split: prod.splits sum.splits option.splits dest!: issue_keeps_otps)
        moreover have "mutate ?now (consume ?now) (?seen r) = ?final"
          using True tries match n by (simp add: checked_row_def mutate_seen mutate_consume mutate_try consume_def Let_def)
        ultimately show ?thesis by blast
      next
        case False
        with run r c tries match have "?upd ?seen" by (auto simp: eval new_text_def)
        moreover have "?seen r = ?final" using False tries match by (simp add: checked_row_def mutate_seen mutate_try Let_def)
        ultimately show ?thesis by blast
      qed
    qed
  qed
qed

lemma checked_row_same [simp]:
  "row_id (checked_row e now u otp r) = row_id r" "created_at (checked_row e now u otp r) = created_at r"
  "ot_identifier_hash (checked_row e now u otp r) = ot_identifier_hash r"
  "ot_request_ip_hash (checked_row e now u otp r) = ot_request_ip_hash r"
  by (simp_all add: checked_row_def consume_def Let_def)

lemma checked_row_later:
  assumes "otp_row_ok r" and "\<not> otp_spent r"
  shows "otp_later (checked_row e now u otp r) r"
    and "otp_row_left (checked_row e now u otp r) + 1 \<le> otp_row_left r"
    and "pw_verify e otp (ot_otp_hash r) \<Longrightarrow> otp_spent (checked_row e now u otp r)"
proof -
  have a: "ot_attempts r < ot_max_attempts r" using assms by (simp add: otp_row_ok_def)
  show sp: "otp_spent (checked_row e now u otp r)" if "pw_verify e otp (ot_otp_hash r)"
    using that a by (simp add: checked_row_def otp_spent_def consume_def Let_def)
  have "otp_later (checked_row e now u otp r) r \<and> otp_row_left (checked_row e now u otp r) + 1 \<le> otp_row_left r"
  proof (cases "otp_spent (checked_row e now u otp r)")
    case True
    then have "otp_later (checked_row e now u otp r) r"
      by (rule later_closed [OF assms(1)]) (auto simp: checked_row_def consume_def Let_def)
    with True left_pos [OF assms] show ?thesis by (simp add: otp_row_left_def)
  next
    case False
    with sp have w: "\<not> pw_verify e otp (ot_otp_hash r)" by blast
    have m: "ot_attempts r + 1 < ot_max_attempts r"
      using False a w by (cases "ot_max_attempts r \<le> ot_attempts r + 1") (simp_all add: checked_row_def otp_spent_def consume_def Let_def)
    with w have "checked_row e now u otp r = r\<lparr>ot_attempts := ot_attempts r + 1\<rparr>" by (simp add: checked_row_def Let_def)
    with later_tried [OF assms m] show ?thesis by simp
  qed
  then show "otp_later (checked_row e now u otp r) r"
    and "otp_row_left (checked_row e now u otp r) + 1 \<le> otp_row_left r" by auto
qed

lemma open_not_spent: "\<not> challenge_closed now r \<Longrightarrow> \<not> otp_spent r"
  by (simp add: challenge_closed_def otp_spent_def)

lemma otp_later_updated [simp]: "otp_later (x\<lparr>updated_at := now\<rparr>) r = otp_later x r"
  by (simp add: otp_later_def otp_row_ok_def otp_row_left_def otp_spent_def)

lemma otp_row_updated [simp]:
  "otp_row_left (x\<lparr>updated_at := now\<rparr>) = otp_row_left x" "otp_spent (x\<lparr>updated_at := now\<rparr>) = otp_spent x"
  by (simp_all add: otp_row_left_def otp_spent_def)

text \<open>A check on anything but an open challenge fails and changes nothing.\<close>

lemma otp_verify_closed:
  assumes "otp_verify e cfg i otp device s = (v, t)"
    and "case by_id i (t_otp_challenges s) of None \<Rightarrow> True | Some r \<Rightarrow> challenge_closed (clock s) r"
  shows "v = Inl invalid_otp \<and> t = s"
  using assms by (auto simp: otp_verify_def find_challenge_def exec_defs split: option.splits)

lemma otp_verify_inv:
  assumes inv: "otps_inv cfg i n C s" and run: "otp_verify e cfg' j otp device s = (v, t)"
  shows "otps_inv cfg i n C t"
    and "check_happens j s \<Longrightarrow> checks_left cfg j t + 1 \<le> checks_left cfg j s"
    and "v = Inr a \<Longrightarrow> checks_left cfg j t = 0 \<and> check_happens j s"
proof -
  have "otps_inv cfg i n C t \<and> (check_happens j s \<longrightarrow> checks_left cfg j t + 1 \<le> checks_left cfg j s)
    \<and> (v = Inr a \<longrightarrow> checks_left cfg j t = 0 \<and> check_happens j s)"
  proof (cases "case by_id j (t_otp_challenges s) of None \<Rightarrow> True | Some r \<Rightarrow> challenge_closed (clock s) r")
    case True
    with otp_verify_closed [OF run] inv show ?thesis by (auto simp: check_happens_def split: option.splits)
  next
    case False
    then obtain r where r: "by_id j (t_otp_challenges s) = Some r" "\<not> challenge_closed (clock s) r"
      by (auto split: option.splits)
    let ?c = "checked_row e (clock s) (user_for_identifier (ot_identifier r) s) otp r"
    obtain g where g: "t_otp_challenges t = upd (\<lambda>x. row_id x = j) g (t_otp_challenges s)"
      "g r = ?c\<lparr>updated_at := clock s\<rparr>" using otp_verify_row [OF run r] by blast
    have ok: "otp_row_ok r" using inv by_id_mem [OF r(1)] by (simp add: otps_inv_def)
    note sp = open_not_spent [OF r(2)] and later = checked_row_later [OF ok open_not_spent [OF r(2)]]
    have lg: "otp_later (g r) r" using later(1) g(2) by simp
    note ch = otps_inv_change [OF inv r(1) lg g(1)]
    have l: "checks_left cfg j t = otp_row_left ?c" "checks_left cfg j s = otp_row_left r"
      using ch(2) r(1) g(2) by (simp_all add: checks_left_def)
    have "pw_verify e otp (ot_otp_hash r) \<and> check_happens j s" if "v = Inr a"
      using run r that ok sp
      by (auto simp: otp_verify_def find_challenge_def run_simps check_happens_def otp_row_ok_def split: if_splits)
    with ch(1) l later(2,3) show ?thesis by (auto simp: otp_row_left_def)
  qed
  then show "otps_inv cfg i n C t" "check_happens j s \<Longrightarrow> checks_left cfg j t + 1 \<le> checks_left cfg j s"
    "v = Inr a \<Longrightarrow> checks_left cfg j t = 0 \<and> check_happens j s" by auto
qed

lemma route_otp_verify_run:
  assumes "route_otp_verify e cfg i otp device s = (v, t)"
  obtains u where "otp_verify e cfg i otp device s = (v, u)" and "t = u \<or> t = rollback s u \<and> (\<exists>x. v = Inl x)"
  using assms by (auto simp: route_otp_verify_def split: prod.splits sum.splits)

text \<open>The only failure of a check that is rolled back is an id that cannot be stored; every failure with
  \<open>InvalidOtpError\<close>, in particular every wrong code, is committed.\<close>

lemma otp_verify_Inl:
  "otp_verify e cfg i otp device s = (Inl x, t) \<Longrightarrow> x = invalid_otp \<or> x = integrity_error
     \<and> (\<exists>r. by_id i (t_otp_challenges s) = Some r \<and> pw_verify e otp (ot_otp_hash r))"
  by (auto simp: otp_verify_def find_challenge_def change_otp_def Let_def run_simps split: if_splits option.splits dest!: session_issue_draws)

section \<open>What a request and a resend do\<close>

lemma announce_fst:
  assumes "announce d identifier otp key w = (v, w')"
  shows "fst w' = fst w"
proof -
  have "keeps (\<lambda>x. fst x = fst w) (announce d identifier otp key)"
    unfolding announce_def by (intro keeps_intros keeps_on_db [where P = "\<lambda>s. s = fst w"] keeps_on_world [where P = "\<lambda>s. s = fst w"])
  from keepsD [OF this assms] show ?thesis by simp
qed

lemma new_code_run [run_simps]:
  "new_code e s = (r, t) \<longleftrightarrow> r = Inr (pad_str 6 (randbelow_at e (draws s) 1000000)) \<and> t = s\<lparr>draws := draws s + 1\<rparr>"
  by (auto simp: new_code_def bnd_def new_below_def ret_def)

lemma otp_request_effect:
  assumes "otp_request e cfg d identifier purpose ip w = (v, w')"
  shows "(\<exists>x. v = Inl x) \<and> (\<exists>k. fst w' = fst w\<lparr>draws := k\<rparr>)
    \<or> (\<exists>normalized i hash k. normalize_identifier identifier = Inr normalized
         \<and> \<not> rate_limited e cfg normalized ip (fst w) \<and> unused_id i (t_otp_challenges (fst w))
         \<and> fst w' = fst w\<lparr>draws := k, t_otp_challenges := t_otp_challenges (fst w)
              @ [new_challenge e cfg i (clock (fst w)) normalized purpose ip hash]\<rparr>
         \<and> (\<forall>r. v = Inr r \<longrightarrow> r = new_challenge e cfg i (clock (fst w)) normalized purpose ip hash))"
    (is "?fail \<or> ?made")
proof -
  obtain s x where w: "w = (s, x)" by (cases w)
  show ?thesis
  proof (cases "normalize_identifier identifier")
    case (Inl y)
    with assms have "v = Inl y" "fst w' = fst w" by (auto simp: otp_request_def bnd_def lift_def)
    then show ?thesis by (intro disjI1) (auto intro: exI [where x = "draws (fst w)"])
  next
    case (Inr normalized)
    show ?thesis
    proof (cases "rate_limited e cfg normalized ip s \<or> d = None")
      case True
      with assms Inr w have "\<exists>y. v = Inl y" "fst w' = fst w"
        by (auto simp: otp_request_def exec_defs on_db_def split: if_splits)
      then show ?thesis by (intro disjI1) (auto intro: exI [where x = "draws (fst w)"])
    next
      case False
      then obtain d' where d: "d = Some d'" by auto
      define otp i hash where "otp = pad_str 6 (randbelow_at e (draws s) 1000000)" and
        "i = uuid_at e (Suc (Suc (draws s)))" and "hash = pw_hash e (Suc (draws s)) otp"
      define r where "r = new_challenge e cfg i (clock s) normalized purpose ip hash"
      define t where "t = s\<lparr>draws := Suc (Suc (Suc (draws s)))\<rparr>"
      have run: "(v, w') = (case add_row t_otp_challenges t_otp_challenges_update no_clash r t of
          (Inl y, u) \<Rightarrow> (Inl y, (u, x))
        | (Inr z, u) \<Rightarrow> (case announce d' normalized otp (otp_key i 0) (u, x) of (Inl y, w2) \<Rightarrow> (Inl y, w2) | (Inr z, w2) \<Rightarrow> (Inr r, w2)))"
        using assms Inr False
        by (simp add: otp_request_def exec_defs on_db_def w d new_code_def new_below_def hash_password_def new_uuid_def
          otp_def i_def hash_def r_def t_def Let_def split: prod.splits sum.splits)
      have rid: "row_id r = i" by (simp add: r_def new_challenge_def)
      show ?thesis
      proof (cases "unused_id i (t_otp_challenges s)")
        case True
        then have "add_row t_otp_challenges t_otp_challenges_update no_clash r t
            = (Inr (), t\<lparr>t_otp_challenges := t_otp_challenges s @ [r]\<rparr>)"
          by (simp add: add_row_Inr rid unused_id_def t_def)
        with run have "(v = Inr r \<or> (\<exists>y. v = Inl y)) \<and> fst w' = t\<lparr>t_otp_challenges := t_otp_challenges s @ [r]\<rparr>"
          by (auto split: prod.splits sum.splits dest!: announce_fst)
        with True False Inr show ?thesis by (intro disjI2) (auto simp: w t_def r_def)
      next
        case False
        then have "add_row t_otp_challenges t_otp_challenges_update no_clash r t = (Inl integrity_error, t)"
          by (auto simp: add_row_Inl rid unused_id_def t_def)
        with run show ?thesis by (intro disjI1) (auto simp: w t_def)
      qed
    qed
  qed
qed

lemma in_hour_snoc:
  "in_hour key v w (rows @ [r]) =
     in_hour key v w rows + (if key r = v \<and> w \<le> created_at r \<and> created_at r \<le> w + hours 1 then 1 else 0)"
  by (simp add: in_hour_def)

lemma length_filter_imp: "(\<And>x. P x \<Longrightarrow> Q x) \<Longrightarrow> length (filter P xs) \<le> length (filter Q xs)"
  by (induction xs) auto

lemma in_hour_issued:
  "now \<le> w + hours 1 \<Longrightarrow> in_hour key v w (t_otp_challenges s) \<le> issued_since key v (now - hours 1) s"
  unfolding in_hour_def issued_since_def by (rule length_filter_imp) auto

lemma otps_inv_add:
  assumes inv: "otps_inv cfg i n C s" and cfg: "fields_ok cfg" and free: "\<not> rate_limited e cfg normalized ip s"
    and new: "r = new_challenge e cfg k (clock s) normalized purpose ip hash" and k: "unused_id k (t_otp_challenges s)"
    and t: "t_otp_challenges t = t_otp_challenges s @ [r]"
  shows "otps_inv cfg i n C t"
proof -
  let ?rows = "t_otp_challenges s"
  have r: "row_id r = k" "created_at r = clock s" "ot_identifier_hash r = token_digest e normalized"
    "ot_request_ip_hash r = otp_ip_hash e cfg ip" "otp_row_left r = otp_budget cfg"
    by (simp_all add: new new_challenge_def otp_row_left_def otp_spent_def otp_budget_def)
  have "otp_row_ok r" using cfg by (simp add: new new_challenge_def otp_row_ok_def fields_ok_def)
  moreover have "table_ok no_clash (?rows @ [r])"
    using inv k r(1) by (intro table_ok_add) (auto simp: otps_inv_def unused_id_def)
  moreover have "in_hour ot_identifier_hash v w (?rows @ [r]) \<le> 5" for v w
    using inv free in_hour_issued [of "clock s" w ot_identifier_hash v s]
    by (auto simp: in_hour_snoc r otps_inv_def rate_limited_def)
  moreover have "in_hour ot_request_ip_hash v w (?rows @ [r]) \<le> 20" for v w
    using inv free in_hour_issued [of "clock s" w ot_request_ip_hash v s]
    by (auto simp: in_hour_snoc r otps_inv_def rate_limited_def)
  moreover have "checks_left cfg i t \<le> n"
    using inv by (auto simp: checks_left_def t by_id_add otps_inv_def r split: option.splits)
  ultimately show ?thesis using inv by (auto simp: otps_inv_def t)
qed

lemma keeps_otp_request:
  assumes "fields_ok cfg"
  shows "keeps (\<lambda>w. otps_inv cfg i n C (fst w)) (otp_request e cfg d identifier purpose ip)"
proof (rule keepsI)
  fix w v w'
  assume inv: "otps_inv cfg i n C (fst w)" and run: "otp_request e cfg d identifier purpose ip w = (v, w')"
  from otp_request_effect [OF run] show "otps_inv cfg i n C (fst w')"
  proof (elim disjE conjE exE)
    fix x k assume "fst w' = fst w\<lparr>draws := k\<rparr>"
    with inv show ?thesis by simp
  next
    fix normalized j hash k
    assume free: "\<not> rate_limited e cfg normalized ip (fst w)" and j: "unused_id j (t_otp_challenges (fst w))"
      and t: "fst w' = fst w\<lparr>draws := k, t_otp_challenges := t_otp_challenges (fst w)
              @ [new_challenge e cfg j (clock (fst w)) normalized purpose ip hash]\<rparr>"
    show ?thesis by (rule otps_inv_add [OF inv assms free refl j]) (simp add: t)
  qed
qed

lemma otp_resend_effect:
  assumes "otp_resend e cfg d i w = (v, w')"
  shows "(\<exists>x. v = Inl x) \<and> fst w' = fst w
    \<or> (\<exists>r hash k. by_id i (t_otp_challenges (fst w)) = Some r \<and> \<not> challenge_closed (clock (fst w)) r
         \<and> ot_resend_count r < ot_max_resends r \<and> as_utc (ot_resend_available_at r) \<le> clock (fst w)
         \<and> fst w' = fst w\<lparr>draws := k, t_otp_challenges := upd (\<lambda>x. row_id x = i)
             (mutate (clock (fst w)) (resent cfg (clock (fst w)) hash)) (t_otp_challenges (fst w))\<rparr>
         \<and> (\<forall>x. v = Inr x \<longrightarrow> x = resent cfg (clock (fst w)) hash r))"
proof -
  obtain s x where w: "w = (s, x)" by (cases w)
  show ?thesis
  proof (cases "\<exists>r d'. by_id i (t_otp_challenges s) = Some r \<and> \<not> challenge_closed (clock s) r
      \<and> ot_resend_count r < ot_max_resends r \<and> as_utc (ot_resend_available_at r) \<le> clock s \<and> d = Some d'")
    case True
    then obtain r d' where c: "by_id i (t_otp_challenges s) = Some r" "\<not> challenge_closed (clock s) r"
      "ot_resend_count r < ot_max_resends r" "as_utc (ot_resend_available_at r) \<le> clock s" and d: "d = Some d'" by blast
    define otp hash where "otp = pad_str 6 (randbelow_at e (draws s) 1000000)" and "hash = pw_hash e (Suc (draws s)) otp"
    define t where "t = s\<lparr>draws := Suc (Suc (draws s)), t_otp_challenges := upd (\<lambda>x. row_id x = i)
             (mutate (clock s) (resent cfg (clock s) hash)) (t_otp_challenges s)\<rparr>"
    have "(v, w') = (case announce d' (ot_identifier r) otp (otp_key i (ot_resend_count r + 1)) (t, x) of
        (Inl y, w2) \<Rightarrow> (Inl y, w2) | (Inr z, w2) \<Rightarrow> (Inr (resent cfg (clock s) hash r), w2))"
      using assms c
      by (simp add: otp_resend_def find_challenge_def change_otp_def change_row_def exec_defs on_db_def w d new_code_def
        new_below_def hash_password_def otp_def hash_def t_def split: prod.splits sum.splits)
    then have "fst w' = t" "\<forall>x. v = Inr x \<longrightarrow> x = resent cfg (clock s) hash r"
      by (auto split: prod.splits sum.splits dest!: announce_fst)
    with c show ?thesis by (intro disjI2 exI [where x = r] exI [where x = hash]) (auto simp: w t_def)
  next
    case False
    with assms have "(\<exists>x. v = Inl x) \<and> fst w' = fst w"
      by (cases "by_id i (t_otp_challenges s)"; cases d)
        (auto simp: otp_resend_def find_challenge_def exec_defs on_db_def w split: if_splits)
    then show ?thesis by blast
  qed
qed

lemma keeps_otp_resend: "keeps (\<lambda>w. otps_inv cfg i n C (fst w)) (otp_resend e cfg' d j)"
proof (rule keepsI)
  fix w v w'
  assume inv: "otps_inv cfg i n C (fst w)" and run: "otp_resend e cfg' d j w = (v, w')"
  from otp_resend_effect [OF run] show "otps_inv cfg i n C (fst w')"
  proof (elim disjE conjE exE)
    fix r hash k
    assume r: "by_id j (t_otp_challenges (fst w)) = Some r" and c: "\<not> challenge_closed (clock (fst w)) r"
      and m: "ot_resend_count r < ot_max_resends r"
      and t: "fst w' = fst w\<lparr>draws := k, t_otp_challenges := upd (\<lambda>x. row_id x = j)
             (mutate (clock (fst w)) (resent cfg' (clock (fst w)) hash)) (t_otp_challenges (fst w))\<rparr>"
    have "otp_row_ok r" using inv by_id_mem [OF r] by (simp add: otps_inv_def)
    then have later: "otp_later (mutate (clock (fst w)) (resent cfg' (clock (fst w)) hash) r) r"
      using later_resent open_not_spent [OF c] m by simp
    show ?thesis
      by (rule otps_inv_change(1) [where g = "mutate (clock (fst w)) (resent cfg' (clock (fst w)) hash)", OF inv r later])
        (simp add: t)
  qed (use inv in simp)
qed

end
