(* ===== verification/OAuth.thy ===== *)
theory OAuth
  imports Otp
begin

text \<open>
  \<open>OAuthTokenVerifier\<close>, \<open>OAuthService\<close> and \<open>RegistrationService\<close> of \<open>auth_service.py\<close>, the request
  schemas that guard them, and the routes \<open>/auth/oauth/*\<close> and \<open>/auth/register\<close>.  The provider's key
  set and token endpoint are the record \<open>oauth_provider_api\<close>, a parameter: \<open>op_decode\<close> is the claims
  of an identity token whose signature, audience, issuer and expiry PyJWT accepts, \<open>op_token\<close> the
  answer of the token endpoint.
\<close>

section \<open>The provider\<close>

record oauth_provider_api =
  op_decode :: "oauth_provider \<Rightarrow> string \<Rightarrow> string \<Rightarrow> int \<Rightarrow> dict option"
  op_token :: "string \<Rightarrow> string \<Rightarrow> string \<Rightarrow> string \<Rightarrow> int \<times> dict"

definition oauth_error :: "string \<Rightarrow> exc" where
  "oauth_error m = Exc OAuthCredentialError m"

definition verifier_verify ::
  "env \<Rightarrow> oauth_provider_api \<Rightarrow> int \<Rightarrow> oauth_provider \<Rightarrow> string \<Rightarrow> string \<Rightarrow> string \<Rightarrow> exc + dict" where
  "verifier_verify e api now provider id_token client_id nonce =
     (case op_decode api provider id_token client_id now of
        None \<Rightarrow> Inl (oauth_error ''OAuth credential is invalid or expired'')
      | Some claims \<Rightarrow>
          (if map_of claims ''nonce'' \<notin> {Some (JStr nonce), Some (JStr (token_digest e nonce))}
           then Inl (oauth_error ''OAuth credential nonce is invalid'')
           else if provider = GOOGLE \<and> map_of claims ''email_verified'' \<noteq> Some (JBool True)
           then Inl (oauth_error ''Google email is not verified'')
           else Inr claims))"

definition exchange_google_code ::
  "oauth_provider_api \<Rightarrow> string \<Rightarrow> string \<Rightarrow> string \<Rightarrow> string \<Rightarrow> exc + dict" where
  "exchange_google_code api code client_id client_secret redirect_uri =
     (case op_token api code client_id client_secret redirect_uri of (status, body) \<Rightarrow>
        if status \<noteq> 200 then Inl (oauth_error ''Failed to exchange Google authorization code'') else Inr body)"

section \<open>Starting\<close>

definition provider_title :: "oauth_provider \<Rightarrow> string" where
  "provider_title p = (case p of GOOGLE \<Rightarrow> ''Google'' | APPLE \<Rightarrow> ''Apple'')"

definition oauth_client_id :: "settings \<Rightarrow> oauth_provider \<Rightarrow> exc + string" where
  "oauth_client_id cfg p =
     (let c = (case p of GOOGLE \<Rightarrow> google_oauth_client_id cfg | APPLE \<Rightarrow> apple_oauth_client_id cfg)
      in if truthy c then Inr (the c) else Inl (Exc ProviderError (provider_title p @ '' OAuth is not configured'')))"

definition oauth_client_secret :: "settings \<Rightarrow> oauth_provider \<Rightarrow> string option" where
  "oauth_client_secret cfg p = (if p = GOOGLE then google_oauth_client_secret cfg else None)"

definition oauth_challenge_clash :: "oauth_challenge_row \<Rightarrow> oauth_challenge_row \<Rightarrow> bool" where
  "oauth_challenge_clash x y \<longleftrightarrow> oc_state_hash x = oc_state_hash y"

definition new_oauth_challenge ::
  "env \<Rightarrow> uuid \<Rightarrow> int \<Rightarrow> oauth_provider \<Rightarrow> string \<Rightarrow> string \<Rightarrow> oauth_challenge_row" where
  "new_oauth_challenge e i now provider state nonce =
     \<lparr>row_id = i, created_at = now, updated_at = now, oc_provider = oauth_provider_str provider,
      oc_state_hash = token_digest e state, oc_nonce_hash = token_digest e nonce,
      oc_expires_at = Aware (now + minutes 10), oc_verified_at = None, oc_consumed_at = None\<rparr>"

definition oauth_start ::
  "env \<Rightarrow> settings \<Rightarrow> oauth_provider \<Rightarrow> (oauth_challenge_row \<times> string \<times> string \<times> string) m" where
  "oauth_start e cfg provider =
     bnd (lift (oauth_client_id cfg provider)) (\<lambda>client.
     bnd (new_text e) (\<lambda>state. bnd (new_text e) (\<lambda>nonce. bnd (new_uuid e) (\<lambda>i. bnd (gets clock) (\<lambda>now.
     let c = new_oauth_challenge e i now provider state nonce in
     andthen (add_row t_oauth_challenges t_oauth_challenges_update oauth_challenge_clash c)
       (ret (c, state, nonce, client)))))))"

section \<open>Exchanging\<close>

definition identity_clash :: "oauth_identity_row \<Rightarrow> oauth_identity_row \<Rightarrow> bool" where
  "identity_clash x y \<longleftrightarrow>
     oid_provider x = oid_provider y \<and> (oid_provider_subject x = oid_provider_subject y \<or> oid_user_id x = oid_user_id y)"

definition add_identity :: "env \<Rightarrow> uuid \<Rightarrow> string \<Rightarrow> string \<Rightarrow> string option \<Rightarrow> unit m" where
  "add_identity e user provider subject email =
     bnd (new_uuid e) (\<lambda>i. bnd (gets clock) (\<lambda>now.
       add_row t_oauth_identities t_oauth_identities_update identity_clash
         \<lparr>row_id = i, created_at = now, updated_at = now, oid_user_id = user, oid_provider = provider,
          oid_provider_subject = subject, oid_email = email\<rparr>))"

definition identity_of :: "string \<Rightarrow> string \<Rightarrow> db \<Rightarrow> oauth_identity_row option" where
  "identity_of provider subject s =
     find (\<lambda>r. oid_provider r = provider \<and> oid_provider_subject r = subject) (t_oauth_identities s)"

definition change_oauth :: "uuid \<Rightarrow> (oauth_challenge_row \<Rightarrow> oauth_challenge_row) \<Rightarrow> unit m" where
  "change_oauth = change_row t_oauth_challenges t_oauth_challenges_update"

definition oauth_consume :: "int \<Rightarrow> oauth_challenge_row \<Rightarrow> oauth_challenge_row" where
  "oauth_consume now r = r\<lparr>oc_consumed_at := Some now\<rparr>"

text \<open>The state of an authorisation that the caller has to present.\<close>

definition state_matches :: "env \<Rightarrow> int \<Rightarrow> string \<Rightarrow> string \<Rightarrow> oauth_challenge_row \<Rightarrow> bool" where
  "state_matches e now state nonce c \<longleftrightarrow>
     oc_consumed_at c = None \<and> now < as_utc (oc_expires_at c)
   \<and> oc_state_hash c = token_digest e state \<and> oc_nonce_hash c = token_digest e nonce"

record oauth_exchange_request =
  ox_challenge_id :: uuid
  ox_state :: string
  ox_nonce :: string
  ox_id_token :: "string option"
  ox_code :: "string option"
  ox_redirect_uri :: "string option"
  ox_device_name :: "string option"

definition default_redirect :: string where
  "default_redirect = ''http://localhost:8000/api/v1/auth/oauth/google/callback''"

definition effective_redirect :: "settings \<Rightarrow> string option \<Rightarrow> string" where
  "effective_redirect cfg uri = or_else uri (or_else (google_oauth_redirect_uri cfg) default_redirect)"

text \<open>The identity token of the request, or the one that the code is exchanged for.\<close>

definition oauth_id_token :: "settings \<Rightarrow> oauth_provider_api \<Rightarrow> oauth_provider \<Rightarrow> oauth_exchange_request \<Rightarrow> exc + string" where
  "oauth_id_token cfg api provider b =
     (let missing = oauth_error ''Missing OAuth id_token or valid authorization code'' in
      if truthy (ox_id_token b) then Inr (the (ox_id_token b))
      else if truthy (ox_code b) then
        (if \<not> truthy (oauth_client_secret cfg provider)
         then Inl (Exc ProviderError (provider_title provider @ '' OAuth client secret is not configured''))
         else bindE (oauth_client_id cfg provider) (\<lambda>client.
              bindE (exchange_google_code api (the (ox_code b)) client (the (oauth_client_secret cfg provider))
                       (effective_redirect cfg (ox_redirect_uri b))) (\<lambda>body.
              if json_truthy (map_of body ''id_token'') then Inr (py_str (the (map_of body ''id_token'')))
              else Inl missing)))
      else Inl missing)"

definition claims_email :: "dict \<Rightarrow> string option" where
  "claims_email c = (if json_truthy (map_of c ''email'') then Some (lower (py_str (the (map_of c ''email'')))) else None)"

datatype oauth_result = Linked oauth_provider | Authenticated auth_result

definition sign_in :: "env \<Rightarrow> settings \<Rightarrow> user_row \<Rightarrow> string option \<Rightarrow> oauth_result m" where
  "sign_in e cfg u device = bnd (session_issue e cfg u device) (\<lambda>tk. ret (Authenticated (SignedIn tk)))"

definition oauth_link ::
  "env \<Rightarrow> oauth_provider \<Rightarrow> oauth_challenge_row \<Rightarrow> string \<Rightarrow> string option \<Rightarrow> uuid \<Rightarrow> oauth_result m" where
  "oauth_link e provider c subject email uid =
     bnd (gets (identity_of (oauth_provider_str provider) subject)) (\<lambda>identity.
     andthen (guard (case identity of None \<Rightarrow> True | Some r \<Rightarrow> oid_user_id r = uid)
       (Exc ConflictError ''This OAuth identity is linked to another account''))
     (bnd (gets (\<lambda>s. by_id uid (t_users s))) (\<lambda>user.
      bnd (require user (Exc AuthenticationError ''User no longer exists'')) (\<lambda>u.
      andthen (if identity = None then add_identity e (row_id u) (oauth_provider_str provider) subject email else ret ())
      (bnd (gets clock) (\<lambda>now. andthen (change_oauth (row_id c) (oauth_consume now))
      (ret (Linked provider))))))))"

definition oauth_login ::
  "env \<Rightarrow> settings \<Rightarrow> oauth_provider \<Rightarrow> oauth_challenge_row \<Rightarrow> string \<Rightarrow> string option \<Rightarrow> string option \<Rightarrow> oauth_result m" where
  "oauth_login e cfg provider c subject email device =
     bnd (gets clock) (\<lambda>now.
     bnd (gets (identity_of (oauth_provider_str provider) subject)) (\<lambda>identity. case identity of
       Some r \<Rightarrow>
         bnd (gets (\<lambda>s. by_id (oid_user_id r) (t_users s))) (\<lambda>user.
         andthen (guard (case user of None \<Rightarrow> False | Some u \<Rightarrow> u_is_active u)
           (Exc AuthenticationError ''OAuth account is inactive''))
         (andthen (change_oauth (row_id c) (oauth_consume now)) (sign_in e cfg (the user) device)))
     | None \<Rightarrow>
         bnd (gets (\<lambda>s. case email of None \<Rightarrow> None | Some m \<Rightarrow> find (\<lambda>u. lower (u_email u) = m) (t_users s))) (\<lambda>user.
         case user of
           Some u \<Rightarrow>
             andthen (add_identity e (row_id u) (oauth_provider_str provider) subject email)
             (andthen (change_row t_users t_users_update (row_id u) (\<lambda>x. x\<lparr>u_is_email_verified := True\<rparr>))
             (andthen (change_oauth (row_id c) (oauth_consume now)) (sign_in e cfg u device)))
         | None \<Rightarrow>
             bnd (require email (oauth_error ''OAuth provider did not supply a verified email'')) (\<lambda>m.
             andthen (change_oauth (row_id c) (\<lambda>x. x\<lparr>oc_verified_at := Some now\<rparr>))
             (bnd (new_text e) (\<lambda>jti. ret (Authenticated (MustRegister
               (create_registration_token e now jti (row_id c) subject (auth_otp_secret cfg)
                  (oauth_provider_str provider) 15 (Some m)) (Some m)))))))))"

definition oauth_exchange ::
  "env \<Rightarrow> settings \<Rightarrow> oauth_provider_api \<Rightarrow> oauth_provider \<Rightarrow> oauth_exchange_request \<Rightarrow> uuid option \<Rightarrow> oauth_result m" where
  "oauth_exchange e cfg api provider b link_user_id =
     bnd (gets (\<lambda>s. find (\<lambda>r. row_id r = ox_challenge_id b \<and> oc_provider r = oauth_provider_str provider)
                      (t_oauth_challenges s))) (\<lambda>found.
     bnd (gets clock) (\<lambda>now.
     andthen (guard (case found of None \<Rightarrow> False | Some c \<Rightarrow> state_matches e now (ox_state b) (ox_nonce b) c)
       (oauth_error ''OAuth authorization state is invalid or expired''))
     (bnd (lift (oauth_id_token cfg api provider b)) (\<lambda>id_token.
      bnd (lift (oauth_client_id cfg provider)) (\<lambda>client.
      bnd (lift (verifier_verify e api now provider id_token client (ox_nonce b))) (\<lambda>claims.
      bnd (require (map_of claims ''sub'') (Exc PyKeyError ''sub'')) (\<lambda>sub.
      case link_user_id of
        Some uid \<Rightarrow> oauth_link e provider (the found) (py_str sub) (claims_email claims) uid
      | None \<Rightarrow> oauth_login e cfg provider (the found) (py_str sub) (claims_email claims) (ox_device_name b))))))))"

section \<open>Registration\<close>

record registration_request =
  rg_email :: string
  rg_role :: string
  rg_business_name :: string
  rg_store_name :: string
  rg_registration_token :: string
  rg_password :: "string option"
  rg_phone_number :: "string option"
  rg_gstin :: "string option"
  rg_pan :: "string option"
  rg_category :: "string option"
  rg_address :: dict
  rg_device_name :: "string option"

text \<open>The validators of the request schema; a pattern is the list of the character classes it matches.\<close>

definition matches_classes :: "(char \<Rightarrow> bool) list \<Rightarrow> string \<Rightarrow> bool" where
  "matches_classes cs s \<longleftrightarrow> list_all2 (\<lambda>c x. c x) cs s"

definition gstin_classes :: "(char \<Rightarrow> bool) list" where
  "gstin_classes = replicate 2 is_digit @ replicate 5 is_upper @ replicate 4 is_digit @ [is_upper,
     \<lambda>c. is_upper c \<or> (is_digit c \<and> c \<noteq> CHR ''0''), \<lambda>c. c = CHR ''Z'', \<lambda>c. is_upper c \<or> is_digit c]"

definition pan_classes :: "(char \<Rightarrow> bool) list" where
  "pan_classes = replicate 5 is_upper @ replicate 4 is_digit @ [is_upper]"

definition validate_role :: "string \<Rightarrow> exc + string" where
  "validate_role v =
     (let norm = lower (strip v) in
      if norm \<notin> {''merchant'', ''supplier'', ''owner''}
      then Inl (validation_error (''Role must be '' @ [CHR 0x27] @ ''merchant'' @ [CHR 0x27] @ '' or '' @ [CHR 0x27] @ ''supplier'' @ [CHR 0x27]))
      else Inr (if norm = ''owner'' then ''merchant'' else norm))"

definition validate_tax_id :: "(char \<Rightarrow> bool) list \<Rightarrow> string \<Rightarrow> string option \<Rightarrow> exc + string option" where
  "validate_tax_id classes m v =
     (case v of None \<Rightarrow> Inr None
      | Some t \<Rightarrow> (if strip t = [] then Inr v
                  else if matches_classes classes (upper (strip t)) then Inr (Some (upper (strip t)))
                  else Inl (validation_error m)))"

definition validate_password_strength :: "string option \<Rightarrow> exc + unit" where
  "validate_password_strength p =
     (if truthy p \<and> \<not> (list_ex is_lower (the p) \<and> list_ex is_upper (the p) \<and> list_ex is_digit (the p))
      then Inl (validation_error ''Password must contain upper-case, lower-case, and numeric characters'')
      else Inr ())"

definition length_in :: "nat \<Rightarrow> nat \<Rightarrow> string \<Rightarrow> bool" where
  "length_in a b s \<longleftrightarrow> a \<le> length s \<and> length s \<le> b"

definition opt_length_in :: "nat \<Rightarrow> nat \<Rightarrow> string option \<Rightarrow> bool" where
  "opt_length_in a b v \<longleftrightarrow> (case v of None \<Rightarrow> True | Some s \<Rightarrow> length_in a b s)"

text \<open>The shape of \<open>EmailStr\<close> is the email-validator package's and left to the caller.\<close>

definition check_registration :: "registration_request \<Rightarrow> exc + registration_request" where
  "check_registration b =
     (if \<not> (length_in 2 200 (rg_business_name b) \<and> length_in 2 200 (rg_store_name b)
           \<and> 20 \<le> length (rg_registration_token b) \<and> opt_length_in 12 128 (rg_password b)
           \<and> opt_length_in 10 30 (rg_phone_number b) \<and> opt_length_in 0 100 (rg_category b)
           \<and> opt_length_in 0 120 (rg_device_name b))
      then Inl (validation_error ''field length'')
      else bindE (validate_role (rg_role b)) (\<lambda>role.
           bindE (validate_tax_id gstin_classes ''Invalid GSTIN format. Example: 29AABCU9603R1ZM'' (rg_gstin b)) (\<lambda>gstin.
           bindE (validate_tax_id pan_classes ''Invalid PAN format. Example: AABCU9603R'' (rg_pan b)) (\<lambda>pan.
           bindE (validate_password_strength (rg_password b)) (\<lambda>_.
           Inr (b\<lparr>rg_role := role, rg_gstin := gstin, rg_pan := pan\<rparr>))))))"

subsection \<open>The service\<close>

definition registration_error :: "string \<Rightarrow> exc" where
  "registration_error m = Exc AuthenticationError m"

definition registration_token_claims :: "env \<Rightarrow> settings \<Rightarrow> int \<Rightarrow> string \<Rightarrow> exc + dict" where
  "registration_token_claims e cfg now token =
     (case jwt_decode e token (auth_otp_secret cfg) ''HS256'' [''sub'', ''challenge_id'', ''provider'', ''exp'', ''iat''] now of
        Claims c \<Rightarrow>
          (if map_of c ''type'' \<noteq> Some (JStr ''registration'')
           then Inl (registration_error ''Registration authorization is invalid'') else Inr c)
      | _ \<Rightarrow> Inl (registration_error ''Registration authorization is invalid or expired''))"

definition claim_text :: "dict \<Rightarrow> string \<Rightarrow> exc + string" where
  "claim_text c k = (case map_of c k of None \<Rightarrow> Inl (Exc PyKeyError k) | Some v \<Rightarrow> Inr (py_str v))"

definition registration_challenge_id :: "dict \<Rightarrow> exc + uuid" where
  "registration_challenge_id c = bindE (claim_text c ''challenge_id'') (\<lambda>t. case parse_uuid t of
     None \<Rightarrow> Inl (Exc PyValueError ''badly formed hexadecimal UUID string'') | Some u \<Rightarrow> Inr u)"

text \<open>What the proof of an identifier gives: the phone number, the OAuth subject, and which of the
  two addresses is verified.\<close>

record verified =
  vf_phone :: "string option"
  vf_subject :: "string option"
  vf_email_verified :: bool
  vf_phone_verified :: bool

definition verify_by_otp :: "registration_request \<Rightarrow> uuid \<Rightarrow> dict \<Rightarrow> verified m" where
  "verify_by_otp b i claims =
     bnd (gets (\<lambda>s. by_id i (t_otp_challenges s))) (\<lambda>found.
     andthen (guard (case found of None \<Rightarrow> False | Some c \<Rightarrow> ot_verified_at c \<noteq> None \<and> ot_consumed_at c = None
         \<and> ot_purpose c = OP_REGISTRATION \<and> Some (JStr (ot_identifier c)) = map_of claims ''sub'')
       (registration_error ''Registration verification is invalid''))
     (bnd (lift (normalize_phone (or_else (rg_phone_number b) []))) (\<lambda>phone.
      andthen (guard (phone = ot_identifier (the found))
        (registration_error ''Verified phone does not match registration''))
      (andthen (guard (truthy (rg_password b)) (Exc PyValueError ''Password is required for phone registration''))
      (bnd (gets clock) (\<lambda>now. andthen (change_otp i (consume now))
      (ret \<lparr>vf_phone = Some phone, vf_subject = None, vf_email_verified = False, vf_phone_verified = True\<rparr>)))))))"

definition verify_by_oauth :: "registration_request \<Rightarrow> uuid \<Rightarrow> dict \<Rightarrow> string \<Rightarrow> verified m" where
  "verify_by_oauth b i claims email =
     bnd (gets (\<lambda>s. by_id i (t_oauth_challenges s))) (\<lambda>found.
     andthen (guard (case found of None \<Rightarrow> False | Some c \<Rightarrow> oc_verified_at c \<noteq> None \<and> oc_consumed_at c = None)
       (registration_error ''OAuth registration authorization is invalid''))
     (andthen (guard (map_of claims ''email'' = Some (JStr email))
       (registration_error ''OAuth email does not match registration''))
     (bnd (gets clock) (\<lambda>now. andthen (change_oauth i (oauth_consume now))
     (bnd (if truthy (rg_phone_number b)
           then bnd (lift (normalize_phone (the (rg_phone_number b)))) (\<lambda>p. ret (Some p)) else ret None) (\<lambda>phone.
      bnd (lift (claim_text claims ''sub'')) (\<lambda>subject.
      ret \<lparr>vf_phone = phone, vf_subject = Some subject, vf_email_verified = True, vf_phone_verified = False\<rparr>)))))))"

definition tax_id :: "string option \<Rightarrow> string option" where
  "tax_id v = (case v of None \<Rightarrow> None | Some t \<Rightarrow> if strip t = [] then None else Some (upper (strip t)))"

definition phone_taken :: "string option \<Rightarrow> db \<Rightarrow> bool" where
  "phone_taken phone s = (case phone of None \<Rightarrow> False
     | Some p \<Rightarrow> list_ex (\<lambda>m. m_phone_number m \<in> {Some p, Some (CHR ''+'' # p)}) (t_merchants s))"

definition gstin_taken :: "string option \<Rightarrow> db \<Rightarrow> bool" where
  "gstin_taken gstin s = (case gstin of None \<Rightarrow> False
     | Some g \<Rightarrow> list_ex (\<lambda>m. map_option upper (m_gstin m) = Some g) (t_merchants s))"

definition merchant_clash :: "merchant_row \<Rightarrow> merchant_row \<Rightarrow> bool" where
  "merchant_clash x y \<longleftrightarrow> m_phone_number x \<noteq> None \<and> m_phone_number x = m_phone_number y"

definition user_clash :: "user_row \<Rightarrow> user_row \<Rightarrow> bool" where
  "user_clash x y \<longleftrightarrow> u_email x = u_email y"

definition store_clash :: "store_row \<Rightarrow> store_row \<Rightarrow> bool" where
  "store_clash x y \<longleftrightarrow> st_merchant_id x = st_merchant_id y \<and> st_name x = st_name y"

text \<open>A text column takes a text or null.\<close>

definition text_column :: "json option \<Rightarrow> exc + string option" where
  "text_column v = (case v of None \<Rightarrow> Inr None | Some JNull \<Rightarrow> Inr None | Some (JStr s) \<Rightarrow> Inr (Some s)
     | Some _ \<Rightarrow> Inl (Exc PyException ''invalid input for query argument''))"

definition supplier_category :: "registration_request \<Rightarrow> exc + string option" where
  "supplier_category b =
     (if truthy (rg_category b) then Inr (rg_category b)
      else text_column (Some (case map_of (rg_address b) ''category'' of None \<Rightarrow> JStr ''General Supplies'' | Some v \<Rightarrow> v)))"

text \<open>The configuration of the supplier is written before the user has been flushed, when \<open>user.id\<close> is still
  \<open>None\<close>.\<close>

definition add_own_supplier ::
  "env \<Rightarrow> registration_request \<Rightarrow> uuid \<Rightarrow> string option \<Rightarrow> string option \<Rightarrow> string option \<Rightarrow> unit m" where
  "add_own_supplier e b merchant phone gstin pan =
     bnd (lift (text_column (map_of (rg_address b) ''city''))) (\<lambda>city.
     bnd (lift (text_column (map_of (rg_address b) ''state''))) (\<lambda>state.
     bnd (lift (text_column (map_of (rg_address b) ''pincode''))) (\<lambda>pincode.
     bnd (lift (supplier_category b)) (\<lambda>category.
     bnd (new_uuid e) (\<lambda>i. bnd (gets clock) (\<lambda>now.
       add_row t_suppliers t_suppliers_update no_clash
         \<lparr>row_id = i, created_at = now, updated_at = now, s_merchant_id = Some merchant,
          s_name = rg_business_name b, s_adapter_type = ''rest'', s_endpoint = None, s_trust_score = Dec 1 0,
          s_is_active = True, s_phone_number = phone, s_gstin = gstin, s_pan = pan, s_city = city,
          s_state = state, s_pincode = pincode, s_address = rg_address b, s_category = category,
          s_configuration = [(''role'', JStr ''supplier''), (''user_id'', JStr ''None'')]\<rparr>))))))"

definition add_account ::
  "env \<Rightarrow> settings \<Rightarrow> registration_request \<Rightarrow> string \<Rightarrow> verified \<Rightarrow> user_row m" where
  "add_account e cfg b email vf =
     (let gstin = tax_id (rg_gstin b); pan = tax_id (rg_pan b);
          role = (if lower (strip (rg_role b)) = ''supplier'' then ''supplier'' else ''merchant'') in
      bnd (new_uuid e) (\<lambda>mid. bnd (gets clock) (\<lambda>now.
      andthen (add_row t_merchants t_merchants_update merchant_clash
        \<lparr>row_id = mid, created_at = now, updated_at = now, m_name = rg_business_name b,
         m_phone_number = vf_phone vf, m_currency = ''INR'', m_spending_limit = dzero, m_gstin = gstin,
         m_pan = pan, m_business_type = (if role = ''supplier'' then ''supplier'' else ''retail''), m_settings = []\<rparr>)
      (bnd (if truthy (rg_password b) then bnd (hash_password e (the (rg_password b))) (\<lambda>h. ret (Some h)) else ret None)
         (\<lambda>hash. bnd (new_uuid e) (\<lambda>uid.
      let u = \<lparr>row_id = uid, created_at = now, updated_at = now, u_merchant_id = mid, u_email = email,
               u_password_hash = hash, u_role = role, u_is_active = True,
               u_is_email_verified = vf_email_verified vf, u_is_phone_verified = vf_phone_verified vf\<rparr> in
      andthen (add_row t_users t_users_update user_clash u)
      (bnd (new_uuid e) (\<lambda>sid.
      andthen (add_row t_stores t_stores_update store_clash
        \<lparr>row_id = sid, created_at = now, updated_at = now, st_merchant_id = mid, st_name = rg_store_name b,
         st_timezone = ''Asia/Kolkata'', st_address = rg_address b\<rparr>)
      (andthen (if role = ''supplier'' then add_own_supplier e b mid (vf_phone vf) gstin pan else ret ())
      (ret u))))))))))"

text \<open>What follows the proof: the duplicate checks, the account, and the first session.\<close>

definition finish_registration ::
  "env \<Rightarrow> settings \<Rightarrow> registration_request \<Rightarrow> string \<Rightarrow> string \<Rightarrow> verified \<Rightarrow> token_set m" where
  "finish_registration e cfg b provider email vf =
     bnd (gets (phone_taken (vf_phone vf))) (\<lambda>dup_phone.
     andthen (guard (\<not> dup_phone) (Exc ConflictError ''An account already exists for this phone number''))
     (bnd (gets (gstin_taken (tax_id (rg_gstin b)))) (\<lambda>dup_gstin.
      andthen (guard (\<not> dup_gstin) (Exc ConflictError ''An account already exists for this GSTIN''))
      (bnd (add_account e cfg b email vf) (\<lambda>u.
       andthen (case vf_subject vf of None \<Rightarrow> ret ()
                | Some subject \<Rightarrow> add_identity e (row_id u) provider subject (Some email))
       (session_issue e cfg u (rg_device_name b)))))))"

definition register_account :: "env \<Rightarrow> settings \<Rightarrow> registration_request \<Rightarrow> token_set m" where
  "register_account e cfg b =
     bnd (gets clock) (\<lambda>now.
     bnd (lift (registration_token_claims e cfg now (rg_registration_token b))) (\<lambda>claims.
     bnd (lift (claim_text claims ''provider'')) (\<lambda>provider.
     bnd (lift (registration_challenge_id claims)) (\<lambda>i.
     let email = lower (strip (rg_email b)) in
     bnd (gets (\<lambda>s. find (\<lambda>u. lower (u_email u) = email) (t_users s))) (\<lambda>existing.
     andthen (guard (existing = None) (Exc ConflictError ''An account already exists for this email''))
     (bnd (if provider = ''OTP'' then verify_by_otp b i claims else verify_by_oauth b i claims email)
       (finish_registration e cfg b provider email)))))))"

section \<open>The routes\<close>

definition parse_provider :: "string \<Rightarrow> exc + oauth_provider" where
  "parse_provider p =
     (if upper p = ''GOOGLE'' then Inr GOOGLE else if upper p = ''APPLE'' then Inr APPLE
      else Inl (Exc InvalidRequestError ''Unsupported OAuth provider''))"

definition route_register :: "env \<Rightarrow> settings \<Rightarrow> registration_request \<Rightarrow> token_set m" where
  "route_register e cfg b = request (
     bnd (lift (check_registration b)) (\<lambda>b. value_errors_invalid (register_account e cfg b)))"

record oauth_started =
  os_challenge_id :: uuid
  os_provider :: oauth_provider
  os_state :: string
  os_nonce :: string
  os_client_id :: string
  os_expires_at :: tstamp

definition route_oauth_start :: "env \<Rightarrow> settings \<Rightarrow> string \<Rightarrow> oauth_started m" where
  "route_oauth_start e cfg provider = request (
     bnd (lift (parse_provider provider)) (\<lambda>p.
     bnd (oauth_start e cfg p) (\<lambda>(c, state, nonce, client).
     ret \<lparr>os_challenge_id = row_id c, os_provider = p, os_state = state, os_nonce = nonce,
          os_client_id = client, os_expires_at = oc_expires_at c\<rparr>)))"

definition check_exchange :: "oauth_exchange_request \<Rightarrow> exc + oauth_exchange_request" where
  "check_exchange b =
     (if \<not> (length_in 20 256 (ox_state b) \<and> length_in 20 256 (ox_nonce b) \<and> opt_length_in 20 10000 (ox_id_token b)
           \<and> opt_length_in 0 2048 (ox_code b) \<and> opt_length_in 0 120 (ox_device_name b))
      then Inl (validation_error ''field length'')
      else if \<not> truthy (ox_id_token b) \<and> \<not> truthy (ox_code b)
      then Inl (validation_error ''Either id_token or code must be provided'')
      else Inr b)"

definition route_oauth_exchange ::
  "env \<Rightarrow> settings \<Rightarrow> oauth_provider_api \<Rightarrow> string \<Rightarrow> oauth_exchange_request \<Rightarrow> uuid option \<Rightarrow> oauth_result m" where
  "route_oauth_exchange e cfg api provider b link_user_id = request (
     bnd (lift (check_exchange b)) (\<lambda>b.
     bnd (lift (parse_provider provider)) (\<lambda>p. oauth_exchange e cfg api p b link_user_id)))"

text \<open>The parameters of the authorisation URL (before URL encoding) and the state that packs the challenge.\<close>

definition packed_state :: "uuid \<Rightarrow> string \<Rightarrow> string \<Rightarrow> string" where
  "packed_state i state nonce = str_uuid i @ '':'' @ state @ '':'' @ nonce"

definition route_oauth_authorize ::
  "env \<Rightarrow> settings \<Rightarrow> string \<Rightarrow> string option \<Rightarrow> ((string \<times> string) list \<times> string) m" where
  "route_oauth_authorize e cfg provider redirect_uri =
     bnd (request (bnd (lift (parse_provider provider)) (\<lambda>p. bnd (oauth_start e cfg p) (\<lambda>r. ret (p, r)))))
       (\<lambda>(p, c, state, nonce, client).
     let payload = packed_state (row_id c) state nonce in
     if p = GOOGLE then
       ret ([(''client_id'', client), (''redirect_uri'', effective_redirect cfg redirect_uri),
             (''response_type'', ''code''), (''scope'', ''openid email profile''), (''state'', payload),
             (''nonce'', nonce), (''access_type'', ''offline''), (''prompt'', ''consent'')], payload)
     else raise (Exc InvalidRequestError (''Direct authorize not implemented for '' @ oauth_provider_str p)))"

datatype callback_result =
    CallbackError string "string option"
  | CallbackReady string
  | CallbackAuthenticated oauth_result
  | CallbackReceived string "string option"

text \<open>\<open>state.split(":", 2)\<close> in three parts.\<close>

definition unpack_state :: "string \<Rightarrow> (string \<times> string \<times> string) option" where
  "unpack_state st = (case split_first CHR '':'' st of
     (a, Some rest) \<Rightarrow> (case split_first CHR '':'' rest of (b, Some c) \<Rightarrow> Some (a, b, c) | _ \<Rightarrow> None)
   | _ \<Rightarrow> None)"

definition callback_exchange ::
  "env \<Rightarrow> settings \<Rightarrow> oauth_provider_api \<Rightarrow> oauth_provider \<Rightarrow> string \<Rightarrow> string \<Rightarrow> oauth_result m" where
  "callback_exchange e cfg api p code st =
     bnd (require (unpack_state st) (Exc PyValueError ''state'')) (\<lambda>(i, state, nonce).
     bnd (require (parse_uuid i) (Exc PyValueError ''badly formed hexadecimal UUID string'')) (\<lambda>cid.
     oauth_exchange e cfg api p
       \<lparr>ox_challenge_id = cid, ox_state = state, ox_nonce = nonce, ox_id_token = None, ox_code = Some code,
        ox_redirect_uri = Some (effective_redirect cfg None), ox_device_name = None\<rparr> None))"

definition route_oauth_callback ::
  "env \<Rightarrow> settings \<Rightarrow> oauth_provider_api \<Rightarrow> string \<Rightarrow> string option \<Rightarrow> string option \<Rightarrow> string option \<Rightarrow> string option
   \<Rightarrow> callback_result m" where
  "route_oauth_callback e cfg api provider code st error description =
     bnd (lift (parse_provider provider)) (\<lambda>p.
     if truthy error then ret (CallbackError (the error) description)
     else if \<not> truthy code then ret (CallbackReady (provider_title p
       @ '' OAuth callback endpoint is active. Awaiting authorization code.''))
     else if truthy st \<and> CHR '':'' \<in> set (the st) then
       bnd (attempt (request (callback_exchange e cfg api p (the code) (the st)))) (\<lambda>r.
       ret (case r of Inl _ \<Rightarrow> CallbackReceived (the code) st | Inr a \<Rightarrow> CallbackAuthenticated a))
     else ret (CallbackReceived (the code) st))"

definition shown_locality :: "dict \<Rightarrow> json" where
  "shown_locality a = (case map_of a ''area_locality'' of Some v \<Rightarrow> v | None \<Rightarrow>
     (case map_of a ''locality'' of Some v \<Rightarrow> v | None \<Rightarrow>
     (case map_of a ''city'' of Some v \<Rightarrow> v | None \<Rightarrow> JStr ''Karol Bagh, New Delhi'')))"

record me_response =
  me_user :: user_row
  me_business_name :: string
  me_merchant :: "merchant_row option"
  me_stores :: "(string \<times> string \<times> dict \<times> json) list"

definition route_me :: "principal \<Rightarrow> me_response m" where
  "route_me p =
     bnd (gets (\<lambda>s. by_id (pl_user_id p) (t_users s))) (\<lambda>found.
     bnd (require found (Exc AuthenticationError ''User not found'')) (\<lambda>u.
     bnd (gets (\<lambda>s. by_id (pl_merchant_id p) (t_merchants s))) (\<lambda>merchant.
     bnd (gets (\<lambda>s. filter (\<lambda>x. st_merchant_id x = pl_merchant_id p) (t_stores s))) (\<lambda>stores.
     ret \<lparr>me_user = u, me_business_name = (case merchant of None \<Rightarrow> ''My Business'' | Some m \<Rightarrow> m_name m),
          me_merchant = merchant,
          me_stores = map (\<lambda>x. (str_uuid (row_id x), st_name x, st_address x, shown_locality (st_address x))) stores\<rparr>))))"

section \<open>Signing in and linking\<close>

lemma has_at_phone: "normalize_phone v = Inr p \<Longrightarrow> \<not> has_at p"
  using normalize_phone_Inr digits_no_at by blast

text \<open>A code that was sent to an e-mail address proves an identifier with \<open>@\<close>; registration compares it with a
  normalised phone number, so no registration goes through on it.\<close>

lemma verify_by_otp_phone:
  "verify_by_otp b i claims s = (Inr vf, t) \<Longrightarrow>
   \<exists>p. normalize_phone (or_else (rg_phone_number b) []) = Inr p \<and> map_of claims ''sub'' = Some (JStr p)"
  by (fastforce simp: verify_by_otp_def run_simps split: option.splits)

lemma register_otp_sub:
  assumes "register_account e cfg b s = (Inr tk, t)"
    and "registration_token_claims e cfg (clock s) (rg_registration_token b) = Inr claims"
    and "claim_text claims ''provider'' = Inr ''OTP''"
  shows "\<exists>p. normalize_phone (or_else (rg_phone_number b) []) = Inr p \<and> map_of claims ''sub'' = Some (JStr p)"
proof -
  from assms obtain i vf u where "verify_by_otp b i claims s = (Inr vf, u)"
    unfolding register_account_def Let_def by (auto simp: run_simps)
  then show ?thesis by (rule verify_by_otp_phone)
qed

text \<open>What an exchange that signs somebody in has checked.\<close>

definition authorised :: "env \<Rightarrow> settings \<Rightarrow> oauth_provider_api \<Rightarrow> oauth_provider \<Rightarrow> oauth_exchange_request \<Rightarrow> db
    \<Rightarrow> oauth_challenge_row \<Rightarrow> string \<Rightarrow> string option \<Rightarrow> bool" where
  "authorised e cfg api p b s c subject email \<longleftrightarrow>
     c \<in> set (t_oauth_challenges s) \<and> row_id c = ox_challenge_id b \<and> oc_provider c = oauth_provider_str p
   \<and> state_matches e (clock s) (ox_state b) (ox_nonce b) c
   \<and> (\<exists>tok client claims sub. oauth_id_token cfg api p b = Inr tok \<and> oauth_client_id cfg p = Inr client
        \<and> verifier_verify e api (clock s) p tok client (ox_nonce b) = Inr claims
        \<and> map_of claims ''sub'' = Some sub \<and> subject = py_str sub \<and> email = claims_email claims)"

lemma oauth_exchange_Inr:
  assumes "oauth_exchange e cfg api p b link_id s = (Inr r, t)"
  obtains c subject email where "authorised e cfg api p b s c subject email"
    and "(case link_id of Some uid \<Rightarrow> oauth_link e p c subject email uid
          | None \<Rightarrow> oauth_login e cfg p c subject email (ox_device_name b)) s = (Inr r, t)"
proof -
  obtain c tok client claims sub where
    "find (\<lambda>r. row_id r = ox_challenge_id b \<and> oc_provider r = oauth_provider_str p) (t_oauth_challenges s) = Some c"
    "state_matches e (clock s) (ox_state b) (ox_nonce b) c" "oauth_id_token cfg api p b = Inr tok"
    "oauth_client_id cfg p = Inr client" "verifier_verify e api (clock s) p tok client (ox_nonce b) = Inr claims"
    "map_of claims ''sub'' = Some sub"
    and fin: "(case link_id of Some uid \<Rightarrow> oauth_link e p c (py_str sub) (claims_email claims) uid
          | None \<Rightarrow> oauth_login e cfg p c (py_str sub) (claims_email claims) (ox_device_name b)) s = (Inr r, t)"
    using assms unfolding oauth_exchange_def by (auto simp: run_simps split: option.splits)
  then have "authorised e cfg api p b s c (py_str sub) (claims_email claims)"
    using find_Some_iff_mem [of _ "t_oauth_challenges s" c] unfolding authorised_def by blast
  then show thesis using fin that by blast
qed

text \<open>Linking: the identity ends up with the caller, and nobody else's identity moves.\<close>

lemma oauth_link_Inr:
  assumes "oauth_link e p c subject email uid s = (Inr r, t)"
  shows "r = Linked p \<and> (\<exists>i \<in> set (t_oauth_identities t). oid_provider i = oauth_provider_str p
        \<and> oid_provider_subject i = subject \<and> oid_user_id i = uid)
    \<and> (\<forall>i \<in> set (t_oauth_identities s). i \<in> set (t_oauth_identities t))
    \<and> (\<forall>i \<in> set (t_oauth_identities t). i \<in> set (t_oauth_identities s) \<or> oid_user_id i = uid)
    \<and> t_refresh_sessions t = t_refresh_sessions s
    \<and> t_oauth_challenges t = upd (\<lambda>x. row_id x = row_id c) (mutate (clock s) (oauth_consume (clock s))) (t_oauth_challenges s)"
  using assms
  by (fastforce simp: oauth_link_def add_identity_def change_oauth_def identity_of_def run_simps
    split: option.splits if_splits dest!: find_Some_iff_mem by_id_mem)

text \<open>Signing in: through an identity, the user has to be active; through the e-mail address, the code asks only
  that the user exists.\<close>

lemma oauth_login_Inr:
  assumes "oauth_login e cfg p c subject email device s = (Inr (Authenticated (SignedIn tk)), t)"
  shows "\<exists>u \<in> set (t_users s). tk_user_id tk = str_uuid (row_id u)
    \<and> ((\<exists>i \<in> set (t_oauth_identities s). oid_provider i = oauth_provider_str p \<and> oid_provider_subject i = subject
          \<and> oid_user_id i = row_id u) \<and> u_is_active u
       \<or> identity_of (oauth_provider_str p) subject s = None \<and> email = Some (lower (u_email u)))"
    and "t_oauth_challenges t = upd (\<lambda>x. row_id x = row_id c) (mutate (clock s) (oauth_consume (clock s))) (t_oauth_challenges s)"
proof -
  have tk: "tk_user_id tk = str_uuid (row_id u) \<and> t_oauth_challenges t = t_oauth_challenges a"
    if "sign_in e cfg u device a = (Inr (Authenticated (SignedIn tk)), t)" for u a
    using that by (auto simp: sign_in_def session_issue_def run_simps)
  show "t_oauth_challenges t = upd (\<lambda>x. row_id x = row_id c) (mutate (clock s) (oauth_consume (clock s))) (t_oauth_challenges s)"
    using assms unfolding oauth_login_def add_identity_def change_oauth_def
    by (auto simp: run_simps split: option.splits dest!: tk)
  show "\<exists>u \<in> set (t_users s). tk_user_id tk = str_uuid (row_id u)
    \<and> ((\<exists>i \<in> set (t_oauth_identities s). oid_provider i = oauth_provider_str p \<and> oid_provider_subject i = subject
          \<and> oid_user_id i = row_id u) \<and> u_is_active u
       \<or> identity_of (oauth_provider_str p) subject s = None \<and> email = Some (lower (u_email u)))"
  proof (cases "identity_of (oauth_provider_str p) subject s")
    case (Some i)
    with assms obtain u a where u: "by_id (oid_user_id i) (t_users s) = Some u" "u_is_active u"
      "sign_in e cfg u device a = (Inr (Authenticated (SignedIn tk)), t)"
      unfolding oauth_login_def by (auto simp: run_simps split: option.splits)
    with tk [OF u(3)] find_Some_iff_mem [OF Some [unfolded identity_of_def]] by_id_mem [OF u(1)]
    show ?thesis by (intro bexI [where x = u]) auto
  next
    case None
    with assms obtain m u a where m: "email = Some m" "find (\<lambda>u. lower (u_email u) = m) (t_users s) = Some u"
      "sign_in e cfg u device a = (Inr (Authenticated (SignedIn tk)), t)"
      unfolding oauth_login_def by (auto simp: run_simps split: option.splits)
    with tk [OF m(3)] find_Some_iff_mem [OF m(2)] None show ?thesis by auto
  qed
qed

end
