(* ===== verification/AuthApi.thy ===== *)
theory AuthApi
  imports OAuth
begin

text \<open>
  The routes of \<open>api/v1/auth.py\<close> as one component: a call, the reply, and the state that the next call
  finds.  \<open>auth_step\<close> answers any call (\<open>Wait\<close> lets time pass), so a list of calls is an interleaving of
  clients.  Three invariants survive every call; with them the interfaces \<open>budget\<close> and \<open>single_use\<close>
  give the bounds on refresh tokens, one-time codes and registrations over whole runs.
\<close>

datatype auth_call =
    Wait nat
  | Login string string "string option"
  | Refresh string "string option"
  | Logout string "string option"
  | RequestOtp string otp_purpose "string option" "string option"
  | ResendOtp uuid
  | VerifyOtp uuid string "string option"
  | Register registration_request
  | StartOAuth string
  | ExchangeOAuth string oauth_exchange_request
  | LinkOAuth string string oauth_exchange_request
  | AuthorizeOAuth string "string option"
  | CallbackOAuth string "string option" "string option" "string option" "string option"

datatype auth_reply =
    NoReply
  | Tokens token_set
  | Challenge otp_response
  | Checked auth_result
  | OAuthStarted oauth_started
  | OAuthResult oauth_result
  | AuthorizeUrl "(string \<times> string) list" string
  | CallbackReply callback_result

definition fmapP :: "('a \<Rightarrow> 'b) \<Rightarrow> ('s, 'e, 'a) prog \<Rightarrow> ('s, 'e, 'b) prog" where
  "fmapP f m = bnd m (\<lambda>a. ret (f a))"

text \<open>The caller of a protected route is the principal of its access token.\<close>

definition with_principal :: "env \<Rightarrow> settings \<Rightarrow> string \<Rightarrow> (principal \<Rightarrow> 'a m) \<Rightarrow> 'a m" where
  "with_principal e cfg access k = bnd (get_current_principal e cfg access) k"

fun db_call :: "env \<Rightarrow> settings \<Rightarrow> oauth_provider_api \<Rightarrow> auth_call \<Rightarrow> auth_reply m" where
  "db_call e cfg api (Wait n) = bnd (modify (\<lambda>s. s\<lparr>clock := clock s + int n\<rparr>)) (\<lambda>_. ret NoReply)"
| "db_call e cfg api (Login name pw cid) = fmapP Tokens (route_token e cfg name pw cid)"
| "db_call e cfg api (Refresh token device) = fmapP Tokens (route_refresh e cfg token device)"
| "db_call e cfg api (Logout access token) =
     fmapP (\<lambda>_. NoReply) (with_principal e cfg access (\<lambda>p. route_logout e p token))"
| "db_call e cfg api (VerifyOtp i otp device) = fmapP Checked (route_otp_verify e cfg i otp device)"
| "db_call e cfg api (Register b) = fmapP Tokens (route_register e cfg b)"
| "db_call e cfg api (StartOAuth p) = fmapP OAuthStarted (route_oauth_start e cfg p)"
| "db_call e cfg api (ExchangeOAuth p b) = fmapP OAuthResult (route_oauth_exchange e cfg api p b None)"
| "db_call e cfg api (LinkOAuth access p b) = fmapP OAuthResult
     (with_principal e cfg access (\<lambda>q. route_oauth_exchange e cfg api p b (Some (pl_user_id q))))"
| "db_call e cfg api (AuthorizeOAuth p uri) =
     fmapP (\<lambda>(ps, st). AuthorizeUrl ps st) (route_oauth_authorize e cfg p uri)"
| "db_call e cfg api (CallbackOAuth p code st err desc) =
     fmapP CallbackReply (route_oauth_callback e cfg api p code st err desc)"
| "db_call e cfg api _ = ret NoReply"

definition auth_step ::
  "env \<Rightarrow> settings \<Rightarrow> 'w delivery option \<Rightarrow> oauth_provider_api \<Rightarrow> auth_call \<Rightarrow> ('w world, auth_reply) wm" where
  "auth_step e cfg d api call = (case call of
     RequestOtp identifier purpose forwarded host \<Rightarrow>
       fmapP Challenge (route_otp_request e cfg d identifier purpose forwarded host)
   | ResendOtp i \<Rightarrow> fmapP Challenge (route_otp_resend e cfg d i)
   | _ \<Rightarrow> on_db (db_call e cfg api call))"

declare db_call.simps [simp del]

section \<open>Frames\<close>

lemma keeps_fmapP [keeps_intros]: "keeps P m \<Longrightarrow> keeps P (fmapP f m)"
  unfolding fmapP_def by (intro keeps_intros)

lemma keeps_request: "keeps P m \<Longrightarrow> (\<And>s t. P s \<Longrightarrow> P t \<Longrightarrow> P (rollback s t)) \<Longrightarrow> keeps P (request m)"
  unfolding request_def by (rule keeps_atomic)

lemma keeps_world_request:
  "keeps (\<lambda>w. P (fst w)) m \<Longrightarrow> (\<And>s t. P s \<Longrightarrow> P (rollback s t)) \<Longrightarrow> keeps (\<lambda>w. P (fst w)) (world_request m)"
  unfolding world_request_def by (rule keeps_atomic) auto

lemma keeps_value_errors [keeps_intros]: "keeps P m \<Longrightarrow> keeps P (value_errors_invalid m)"
  unfolding keeps_def value_errors_invalid_def by (auto split: prod.splits sum.splits)

lemma keeps_principal [keeps_intros]: "keeps P (get_current_principal e cfg access)"
  unfolding get_current_principal_def by (intro keeps_intros)

lemma keeps_with_principal [keeps_intros]: "(\<And>p. keeps P (k p)) \<Longrightarrow> keeps P (with_principal e cfg access k)"
  unfolding with_principal_def by (intro keeps_intros)

lemma keeps_hash_password [keeps_intros]: "(\<And>s n. P s \<Longrightarrow> P (s\<lparr>draws := n\<rparr>)) \<Longrightarrow> keeps P (hash_password e pw)"
  by (auto simp: keeps_def run_simps)

lemma keeps_new_code [keeps_intros]: "(\<And>s n. P s \<Longrightarrow> P (s\<lparr>draws := n\<rparr>)) \<Longrightarrow> keeps P (new_code e)"
  by (auto simp: keeps_def run_simps)

text \<open>The tables that an invariant does not look at.\<close>

definition blind_to_auth :: "(db \<Rightarrow> bool) \<Rightarrow> bool" where
  "blind_to_auth P \<longleftrightarrow> (\<forall>s n. P (s\<lparr>draws := n\<rparr>) = P s) \<and> (\<forall>s n. P (s\<lparr>clock := n\<rparr>) = P s)
     \<and> (\<forall>s rs. P (s\<lparr>t_users := rs\<rparr>) = P s) \<and> (\<forall>s rs. P (s\<lparr>t_merchants := rs\<rparr>) = P s)
     \<and> (\<forall>s rs. P (s\<lparr>t_stores := rs\<rparr>) = P s) \<and> (\<forall>s rs. P (s\<lparr>t_suppliers := rs\<rparr>) = P s)
     \<and> (\<forall>s rs. P (s\<lparr>t_oauth_identities := rs\<rparr>) = P s)"

lemma blindD [simp]:
  assumes "blind_to_auth P"
  shows "P (s\<lparr>draws := n\<rparr>) = P s" "P (s\<lparr>clock := k\<rparr>) = P s" "P (s\<lparr>t_users := us\<rparr>) = P s"
    "P (s\<lparr>t_merchants := ms\<rparr>) = P s" "P (s\<lparr>t_stores := ss\<rparr>) = P s" "P (s\<lparr>t_suppliers := ps\<rparr>) = P s"
    "P (s\<lparr>t_oauth_identities := is\<rparr>) = P s" "P (rollback s t) = P s"
  using assms unfolding blind_to_auth_def rollback_def by auto

text \<open>A change of an OAuth challenge that the service makes: it never undoes a consumption.\<close>

definition oauth_edit :: "(oauth_challenge_row \<Rightarrow> oauth_challenge_row) \<Rightarrow> bool" where
  "oauth_edit f \<longleftrightarrow> (\<forall>r. row_id (f r) = row_id r \<and> oc_state_hash (f r) = oc_state_hash r
     \<and> (oc_consumed_at r \<noteq> None \<longrightarrow> oc_consumed_at (f r) \<noteq> None))"

lemma oauth_edits [simp]:
  "oauth_edit (oauth_consume now)" "oauth_edit (\<lambda>x. x\<lparr>oc_verified_at := v\<rparr>)" "oauth_edit f \<Longrightarrow> oauth_edit (mutate now f)"
  by (simp_all add: oauth_edit_def oauth_consume_def mutate_def)

text \<open>What an invariant has to show: it survives an issue, the changes of sessions and challenges, and the three
  operations on codes.  It then survives every call.\<close>

locale auth_invariant =
  fixes P :: "db \<Rightarrow> bool" and e :: env and cfg :: settings
  assumes blind: "blind_to_auth P"
    and issue: "keeps P (session_issue e cfg u device)"
    and edit_sessions: "session_edit f \<Longrightarrow> keeps P (change_session i f)"
    and edit_oauth: "oauth_edit g \<Longrightarrow> keeps P (change_oauth i g)"
    and new_oauth: "keeps P (add_row t_oauth_challenges t_oauth_challenges_update oauth_challenge_clash c)"
    and consume_otp: "keeps P (change_otp i (consume now))"
    and verify: "keeps P (otp_verify e cfg i otp device)"
    and request_otp: "keeps (\<lambda>w. P (fst w)) (otp_request e cfg (d :: 'w delivery option) identifier purpose ip)"
    and resend_otp: "keeps (\<lambda>w. P (fst w)) (otp_resend e cfg (d :: 'w delivery option) i)"
begin

lemmas blindness = blindD [OF blind]

lemma sign: "keeps P (sign_in e cfg u device)"
  unfolding sign_in_def by (intro keeps_intros issue)

lemma refresh: "keeps P (session_refresh e cfg token device)"
  unfolding session_refresh_def by (intro keeps_intros issue edit_sessions) simp_all

lemma revoke: "keeps P (revoke_found look)"
  unfolding revoke_found_def by (intro keeps_intros edit_sessions) simp_all

lemma identity: "keeps P (add_identity e u p sub email)"
  unfolding add_identity_def by (intro keeps_intros) (simp_all add: blindness)

lemma exchange: "keeps P (oauth_exchange e cfg api p b link_id)"
  unfolding oauth_exchange_def oauth_link_def oauth_login_def
  by (intro keeps_intros identity edit_oauth sign) (simp_all add: blindness)

lemma start: "keeps P (oauth_start e cfg p)"
  unfolding oauth_start_def Let_def
  by (rule keeps_bnd keeps_lift keeps_new_text keeps_new_uuid keeps_gets keeps_andthen keeps_ret new_oauth | simp add: blindness)+

lemma finish: "keeps P (finish_registration e cfg b provider email vf)"
  unfolding finish_registration_def add_account_def add_own_supplier_def Let_def
  by (intro keeps_intros identity issue) (simp_all add: blindness)

lemma account: "keeps P (register_account e cfg b)"
  unfolding register_account_def verify_by_otp_def verify_by_oauth_def Let_def
  by (intro keeps_intros finish edit_oauth consume_otp) (simp_all add: blindness)

lemma rolled_back: "keeps P m \<Longrightarrow> keeps P (request m)"
  by (rule keeps_request) (simp_all add: blindness)

lemma rolled_back_world: "keeps (\<lambda>w. P (fst w)) (m :: ('w world, 'a) wm) \<Longrightarrow> keeps (\<lambda>w. P (fst w)) (world_request m)"
  by (rule keeps_world_request) (simp_all add: blindness)

lemma verify_route: "keeps P (route_otp_verify e cfg i otp device)"
proof (rule keepsI)
  fix s r t
  assume "P s" "route_otp_verify e cfg i otp device s = (r, t)"
  then show "P t" using keepsD [OF verify] blindness(8) by (metis route_otp_verify_run)
qed

lemma db_call_keeps: "keeps P (db_call e cfg api call)"
  by (cases call)
    (auto intro!: keeps_intros rolled_back verify_route refresh revoke exchange start account issue
       keeps_modify simp: db_call.simps blindness route_token_def route_refresh_def route_logout_def session_revoke_def
       session_revoke_token_def route_register_def route_oauth_start_def route_oauth_exchange_def
       route_oauth_authorize_def route_oauth_callback_def callback_exchange_def Let_def)

lemma step_keeps: "keeps (\<lambda>w. P (fst w)) (auth_step e cfg (d :: 'w delivery option) api call)"
  unfolding auth_step_def route_otp_request_def route_otp_resend_def
  by (cases call) (auto intro!: keeps_intros keeps_on_db db_call_keeps rolled_back_world request_otp resend_otp)

lemma runs_keep: "P (fst w) \<Longrightarrow> P (fst (runs (auth_step e cfg (d :: 'w delivery option) api) calls w))"
proof (induction calls arbitrary: w)
  case (Cons c cs)
  obtain r v where "auth_step e cfg d api c w = (r, v)" by (cases "auth_step e cfg d api c w")
  with keepsD [OF step_keeps this Cons.prems] Cons.IH show ?case by simp
qed simp

end

section \<open>The three invariants\<close>

text \<open>An invariant of a table that a program leaves alone.\<close>

lemma keeps_by_frame:
  assumes "\<And>s t. f s = f t \<Longrightarrow> P s = P t" and "\<And>w r w'. m w = (r, w') \<Longrightarrow> f (fst w') = f (fst w)"
  shows "keeps (\<lambda>w. P (fst w)) m"
  using assms by (metis (mono_tags, lifting) keepsI)

lemma keeps_by_db_frame:
  assumes "\<And>s t. f s = f t \<Longrightarrow> P s = P t" and "\<And>s r t. m s = (r, t) \<Longrightarrow> f t = f s"
  shows "keeps P m"
  using assms by (metis (mono_tags, lifting) keepsI)

lemma otp_request_frame:
  assumes "otp_request e cfg d ident purpose ip w = (r, w')"
  shows "t_refresh_sessions (fst w') = t_refresh_sessions (fst w)"
    and "t_oauth_challenges (fst w') = t_oauth_challenges (fst w)"
  using otp_request_effect [OF assms] by auto

lemma otp_resend_frame:
  assumes "otp_resend e cfg d i w = (r, w')"
  shows "t_refresh_sessions (fst w') = t_refresh_sessions (fst w)"
    and "t_oauth_challenges (fst w') = t_oauth_challenges (fst w)"
  using otp_resend_effect [OF assms] by auto

subsection \<open>Refresh sessions\<close>

lemma sessions_inv_tables [simp]:
  "sessions_inv e k (s\<lparr>t_otp_challenges := os\<rparr>) = sessions_inv e k s"
  "sessions_inv e k (s\<lparr>t_oauth_challenges := cs\<rparr>) = sessions_inv e k s"
  by (rule sessions_inv_cong; simp)+

lemma blind_sessions: "blind_to_auth (sessions_inv e k)"
  unfolding blind_to_auth_def by (intro conjI allI; rule sessions_inv_cong; simp)

interpretation sessions: auth_invariant "sessions_inv e k" e cfg
  for e k cfg
proof
  fix d :: "'w delivery option" and ident purpose ip
  show "keeps (\<lambda>w. sessions_inv e k (fst w)) (otp_request e cfg d ident purpose ip)"
    by (rule keeps_by_frame [where f = t_refresh_sessions, OF sessions_inv_cong otp_request_frame(1)])
next
  fix d :: "'w delivery option" and i
  show "keeps (\<lambda>w. sessions_inv e k (fst w)) (otp_resend e cfg d i)"
    by (rule keeps_by_frame [where f = t_refresh_sessions, OF sessions_inv_cong otp_resend_frame(1)])
next
  fix i otp device
  show "keeps (sessions_inv e k) (otp_verify e cfg i otp device)"
    unfolding otp_verify_def find_challenge_def change_otp_def Let_def
    by (intro keeps_intros) simp_all
qed (auto intro: keeps_intros simp: blind_sessions change_oauth_def change_otp_def intro!: keeps_change_row keeps_add_row)

subsection \<open>One-time codes\<close>

definition otps_inv' :: "settings \<Rightarrow> uuid \<Rightarrow> nat \<Rightarrow> uuid set \<Rightarrow> db \<Rightarrow> bool" where
  "otps_inv' cfg i n C s \<longleftrightarrow> fields_ok cfg \<and> otps_inv cfg i n C s"

lemma otps_inv'_cong: "t_otp_challenges s = t_otp_challenges t \<Longrightarrow> otps_inv' cfg i n C s = otps_inv' cfg i n C t"
  using otps_inv_cong [of s t cfg i n C] by (simp add: otps_inv'_def)

lemma blind_otps: "blind_to_auth (otps_inv' cfg i n C)"
  unfolding blind_to_auth_def by (intro conjI allI; rule otps_inv'_cong; simp)

lemma keeps_consume_otp: "keeps (otps_inv' cfg i n C) (change_otp j (consume now))"
proof (rule keepsI)
  fix s r t
  assume s: "otps_inv' cfg i n C s" and run: "change_otp j (consume now) s = (r, t)"
  then have t: "t_otp_challenges t = upd (\<lambda>x. row_id x = j) (mutate (clock s) (consume now)) (t_otp_challenges s)"
    by (simp add: change_otp_def run_simps)
  show "otps_inv' cfg i n C t"
  proof (cases "by_id j (t_otp_challenges s)")
    case None
    then have "t_otp_challenges t = t_otp_challenges s"
      unfolding t by (intro upd_none) (simp add: by_id_def find_None_all)
    with s show ?thesis using otps_inv'_cong by blast
  next
    case (Some x)
    have later: "otp_later (mutate (clock s) (consume now) x) x" by (simp add: later_consume)
    have inv: "otps_inv cfg i n C s" using s by (simp add: otps_inv'_def)
    have "otps_inv cfg i n C t"
      by (rule otps_inv_change(1) [where g = "mutate (clock s) (consume now)", OF inv Some later t])
    with s show ?thesis by (simp add: otps_inv'_def)
  qed
qed

interpretation otps: auth_invariant "otps_inv' cfg i n C" e cfg
  for e cfg i n C
proof
  fix d :: "'w delivery option" and ident purpose ip
  show "keeps (\<lambda>w. otps_inv' cfg i n C (fst w)) (otp_request e cfg d ident purpose ip)"
    unfolding otps_inv'_def using keepsD [OF keeps_otp_request] by (blast intro: keepsI)
next
  fix d :: "'w delivery option" and j
  show "keeps (\<lambda>w. otps_inv' cfg i n C (fst w)) (otp_resend e cfg d j)"
    unfolding otps_inv'_def using keepsD [OF keeps_otp_resend] by (blast intro: keepsI)
next
  fix j otp device
  show "keeps (otps_inv' cfg i n C) (otp_verify e cfg j otp device)"
    unfolding otps_inv'_def using otp_verify_inv(1) by (blast intro: keepsI)
next
  fix u device
  show "keeps (otps_inv' cfg i n C) (session_issue e cfg u device)"
    by (rule keeps_by_db_frame [where f = t_otp_challenges, OF otps_inv'_cong issue_keeps_otps])
next
  fix f j
  show "keeps (otps_inv' cfg i n C) (change_session j f)"
    by (rule keeps_by_db_frame [where f = t_otp_challenges, OF otps_inv'_cong]) (auto simp: change_session_def run_simps)
next
  fix g j
  show "keeps (otps_inv' cfg i n C) (change_oauth j g)"
    by (rule keeps_by_db_frame [where f = t_otp_challenges, OF otps_inv'_cong]) (auto simp: change_oauth_def run_simps)
next
  fix c
  show "keeps (otps_inv' cfg i n C) (add_row t_oauth_challenges t_oauth_challenges_update oauth_challenge_clash c)"
    by (rule keeps_by_db_frame [where f = t_otp_challenges, OF otps_inv'_cong]) (auto simp: add_row_def split: if_splits)
qed (rule blind_otps keeps_consume_otp)+

subsection \<open>OAuth challenges\<close>

definition oauth_inv :: "uuid set \<Rightarrow> db \<Rightarrow> bool" where
  "oauth_inv C s \<longleftrightarrow> table_ok oauth_challenge_clash (t_oauth_challenges s)
     \<and> (\<forall>c \<in> C. \<exists>r \<in> set (t_oauth_challenges s). row_id r = c \<and> oc_consumed_at r \<noteq> None)"

lemma oauth_inv_cong: "t_oauth_challenges s = t_oauth_challenges t \<Longrightarrow> oauth_inv C s = oauth_inv C t"
  by (simp add: oauth_inv_def)

lemma oauth_inv_edit:
  assumes s: "oauth_inv C s" and f: "oauth_edit f" and t: "t_oauth_challenges t = upd P f (t_oauth_challenges s)"
  shows "oauth_inv C t"
proof -
  have "table_ok oauth_challenge_clash (upd P f (t_oauth_challenges s))"
    by (rule table_ok_upd) (use s f in \<open>simp_all add: oauth_inv_def oauth_edit_def oauth_challenge_clash_def\<close>)
  moreover have "\<exists>r \<in> set (t_oauth_challenges t). row_id r = c \<and> oc_consumed_at r \<noteq> None" if c: "c \<in> C" for c
  proof -
    from s c obtain r where r: "r \<in> set (t_oauth_challenges s)" "row_id r = c" "oc_consumed_at r \<noteq> None"
      unfolding oauth_inv_def by blast
    let ?r = "if P r then f r else r"
    have "?r \<in> set (t_oauth_challenges t)" "row_id ?r = c" "oc_consumed_at ?r \<noteq> None"
      using r f by (auto simp: t in_set_upd oauth_edit_def)
    then show ?thesis by blast
  qed
  ultimately show ?thesis by (simp add: oauth_inv_def t)
qed

lemma blind_oauth: "blind_to_auth (oauth_inv C)"
  unfolding blind_to_auth_def by (intro conjI allI; rule oauth_inv_cong; simp)

interpretation oauths: auth_invariant "oauth_inv C" e cfg
  for e cfg C
proof
  fix d :: "'w delivery option" and ident purpose ip
  show "keeps (\<lambda>w. oauth_inv C (fst w)) (otp_request e cfg d ident purpose ip)"
    by (rule keeps_by_frame [where f = t_oauth_challenges, OF oauth_inv_cong otp_request_frame(2)])
next
  fix d :: "'w delivery option" and i
  show "keeps (\<lambda>w. oauth_inv C (fst w)) (otp_resend e cfg d i)"
    by (rule keeps_by_frame [where f = t_oauth_challenges, OF oauth_inv_cong otp_resend_frame(2)])
next
  fix g i assume "oauth_edit g"
  then show "keeps (oauth_inv C) (change_oauth i g)"
    unfolding change_oauth_def by (intro keepsI) (auto simp: run_simps intro: oauth_inv_edit [where f = "mutate n g" for n])
next
  fix c
  show "keeps (oauth_inv C) (add_row t_oauth_challenges t_oauth_challenges_update oauth_challenge_clash c)"
    by (auto simp: keeps_def add_row_def list_ex_iff oauth_inv_def intro!: table_ok_add)
next
  fix u device
  show "keeps (oauth_inv C) (session_issue e cfg u device)"
    unfolding session_issue_def by (intro keeps_intros) (simp_all add: oauth_inv_def)
next
  fix i otp device
  show "keeps (oauth_inv C) (otp_verify e cfg i otp device)"
    unfolding otp_verify_def find_challenge_def change_otp_def Let_def session_issue_def
    by (intro keeps_intros) (simp_all add: oauth_inv_def)
qed (auto simp: blind_oauth change_session_def change_otp_def oauth_inv_def intro!: keeps_change_row)

section \<open>Runs of the API\<close>

subsection \<open>A refresh token is exchanged once\<close>

fun refresh_use :: "auth_call \<Rightarrow> auth_reply \<Rightarrow> string option" where
  "refresh_use (Refresh token device) (Tokens tk) = Some token"
| "refresh_use c r = None"

lemma refresh_use_Some: "refresh_use c r = Some token \<Longrightarrow> \<exists>device tk. c = Refresh token device \<and> r = Tokens tk"
  by (cases "(c, r)" rule: refresh_use.cases) auto

lemma fmapP_Inr: "fmapP f m s = (Inr r, t) \<longleftrightarrow> (\<exists>a. m s = (Inr a, t) \<and> r = f a)"
  by (auto simp: fmapP_def run_simps)

interpretation refresh_tokens: single_use "auth_step e cfg d api" refresh_use
  "\<lambda>token w. token_spent e token (fst w)" "\<lambda>w. sessions_ok (fst w)"
  for e cfg api and d :: "'w delivery option"
proof
  fix w w' :: "db \<times> 'w world" and c r token
  assume ok: "sessions_ok (fst w)" and run: "auth_step e cfg d api c w = (Inr r, w')" and use: "refresh_use c r = Some token"
  from refresh_use_Some [OF use] run obtain device tk
    where "route_refresh e cfg token device (fst w) = (Inr tk, fst w')"
    by (auto simp: auth_step_def db_call.simps fmapP_Inr run_simps)
  from refresh_uses_up [OF ok this] show "\<not> token_spent e token (fst w) \<and> token_spent e token (fst w')" .
next
  fix w w' :: "db \<times> 'w world" and c v token
  assume ok: "sessions_ok (fst w)" and run: "auth_step e cfg d api c w = (v, w')"
  show "sessions_ok (fst w') \<and> (token_spent e token (fst w) \<longrightarrow> token_spent e token (fst w'))"
    using keepsD [OF sessions.step_keeps [where k = None] run] keepsD [OF sessions.step_keeps [where k = "Some token"] run] ok
    by (simp add: sessions_inv_def)
qed

subsection \<open>A code is checked a bounded number of times\<close>

definition otps_ok :: "settings \<Rightarrow> db \<Rightarrow> bool" where
  "otps_ok cfg s \<longleftrightarrow> fields_ok cfg \<and> (\<forall>i. otps_inv cfg i (checks_left cfg i s) {} s)"

lemma otps_ok_step:
  assumes "otps_ok cfg (fst w)" and "auth_step e cfg d api c w = (v, w')"
  shows "otps_ok cfg (fst w')" and "checks_left cfg i (fst w') \<le> checks_left cfg i (fst w)"
proof -
  have "otps_inv' cfg j (checks_left cfg j (fst w)) {} (fst w')" for j
    using keepsD [OF otps.step_keeps assms(2)] assms(1) by (simp add: otps_inv'_def otps_ok_def)
  then show "otps_ok cfg (fst w')" "checks_left cfg i (fst w') \<le> checks_left cfg i (fst w)"
    by (auto simp: otps_inv'_def otps_inv_def otps_ok_def)
qed

fun otp_use :: "auth_call \<Rightarrow> auth_reply \<Rightarrow> uuid option" where
  "otp_use (VerifyOtp i otp device) (Checked a) = Some i"
| "otp_use c r = None"

lemma otp_use_Some: "otp_use c r = Some i \<Longrightarrow> \<exists>otp device a. c = VerifyOtp i otp device \<and> r = Checked a"
  by (cases "(c, r)" rule: otp_use.cases) auto

lemma route_verify_Inr: "route_otp_verify e cfg i otp device s = (Inr a, t) \<Longrightarrow> otp_verify e cfg i otp device s = (Inr a, t)"
  by (auto simp: route_otp_verify_def split: prod.splits sum.splits)

interpretation codes_used: single_use "auth_step e cfg d api" otp_use
  "\<lambda>i w. checks_left cfg i (fst w) = 0" "\<lambda>w. otps_ok cfg (fst w)"
  for e cfg api and d :: "'w delivery option"
proof
  fix w w' :: "db \<times> 'w world" and c r i
  assume ok: "otps_ok cfg (fst w)" and run: "auth_step e cfg d api c w = (Inr r, w')" and use: "otp_use c r = Some i"
  from otp_use_Some [OF use] run obtain otp device a
    where "route_otp_verify e cfg i otp device (fst w) = (Inr a, fst w')"
    by (auto simp: auth_step_def db_call.simps fmapP_Inr run_simps)
  then have v: "otp_verify e cfg i otp device (fst w) = (Inr a, fst w')" by (rule route_verify_Inr)
  have inv: "otps_inv cfg i (checks_left cfg i (fst w)) {} (fst w)" using ok by (simp add: otps_ok_def)
  from otp_verify_inv(2,3) [OF inv v] show "checks_left cfg i (fst w) \<noteq> 0 \<and> checks_left cfg i (fst w') = 0" by auto
next
  fix w w' :: "db \<times> 'w world" and c v i
  assume ok: "otps_ok cfg (fst w)" and run: "auth_step e cfg d api c w = (v, w')"
  show "otps_ok cfg (fst w') \<and> (checks_left cfg i (fst w) = 0 \<longrightarrow> checks_left cfg i (fst w') = 0)"
    using otps_ok_step(1) [OF ok run] otps_ok_step(2) [OF ok run, of i] by auto
qed

text \<open>A wrong guess: a code that is checked against the challenge and does not match.\<close>

definition wrong_guess :: "env \<Rightarrow> uuid \<Rightarrow> auth_call \<Rightarrow> db \<times> 'w world \<Rightarrow> nat" where
  "wrong_guess e i c w = (case c of
     VerifyOtp j otp device \<Rightarrow>
       (if j = i \<and> check_happens i (fst w)
           \<and> (case by_id i (t_otp_challenges (fst w)) of None \<Rightarrow> False | Some r \<Rightarrow> \<not> pw_verify e otp (ot_otp_hash r))
        then 1 else 0)
   | _ \<Rightarrow> 0)"

lemma wrong_guess_pays:
  assumes ok: "otps_ok cfg s" and h: "check_happens i s" and r: "by_id i (t_otp_challenges s) = Some r"
    and w: "\<not> pw_verify e otp (ot_otp_hash r)" and run: "route_otp_verify e cfg i otp device s = (v, t)"
  shows "checks_left cfg i t + 1 \<le> checks_left cfg i s"
proof -
  obtain u where u: "otp_verify e cfg i otp device s = (v, u)" and t: "t = u \<or> t = rollback s u \<and> (\<exists>x. v = Inl x)"
    using run by (rule route_otp_verify_run)
  have inv: "otps_inv cfg i (checks_left cfg i s) {} s" using ok by (simp add: otps_ok_def)
  have "t = u"
  proof (cases v)
    case (Inl x)
    with otp_verify_Inl [of e cfg i otp device s x u] u r w have "x = invalid_otp" by auto
    with run u Inl show ?thesis by (simp add: route_otp_verify_def invalid_otp_def isa_refl)
  qed (use t in auto)
  with otp_verify_inv(2) [OF inv u h] show ?thesis by simp
qed

interpretation guesses: budget "auth_step e cfg d api" "wrong_guess e i" "\<lambda>w. checks_left cfg i (fst w)"
  "\<lambda>w. otps_ok cfg (fst w)"
  for e cfg api i and d :: "'w delivery option"
proof
  fix w w' :: "db \<times> 'w world" and c v
  assume ok: "otps_ok cfg (fst w)" and run: "auth_step e cfg d api c w = (v, w')"
  note keep = otps_ok_step [OF ok run]
  show "otps_ok cfg (fst w') \<and> wrong_guess e i c w + checks_left cfg i (fst w') \<le> checks_left cfg i (fst w)"
  proof (cases "wrong_guess e i c w = 0")
    case True
    with keep(1) keep(2) [of i] show ?thesis by simp
  next
    case False
    then obtain otp device r where c: "c = VerifyOtp i otp device" and h: "check_happens i (fst w)"
      and r: "by_id i (t_otp_challenges (fst w)) = Some r" "\<not> pw_verify e otp (ot_otp_hash r)"
      by (auto simp: wrong_guess_def split: auth_call.splits if_splits option.splits)
    obtain v' where "route_otp_verify e cfg i otp device (fst w) = (v', fst w')"
      using run c by (cases "route_otp_verify e cfg i otp device (fst w)")
        (auto simp: auth_step_def db_call.simps fmapP_def on_db_def bnd_def ret_def split: prod.splits sum.splits)
    from wrong_guess_pays [OF ok h r this] keep(1) show ?thesis by (simp add: wrong_guess_def c h r)
  qed
qed

subsection \<open>An authorisation signs in or links once\<close>

fun oauth_use :: "auth_call \<Rightarrow> auth_reply \<Rightarrow> uuid option" where
  "oauth_use (ExchangeOAuth p b) (OAuthResult (Authenticated (SignedIn tk))) = Some (ox_challenge_id b)"
| "oauth_use (LinkOAuth access p b) (OAuthResult (Linked q)) = Some (ox_challenge_id b)"
| "oauth_use (CallbackOAuth p code (Some st) err desc) (CallbackReply (CallbackAuthenticated (Authenticated (SignedIn tk)))) =
     (case unpack_state st of None \<Rightarrow> None | Some (i, _, _) \<Rightarrow> parse_uuid i)"
| "oauth_use c r = None"

definition oauth_consumed :: "uuid \<Rightarrow> db \<Rightarrow> bool" where
  "oauth_consumed i s \<longleftrightarrow> (\<exists>r \<in> set (t_oauth_challenges s). row_id r = i \<and> oc_consumed_at r \<noteq> None)"

lemma authorised_uses:
  assumes inv: "oauth_inv {} s" and a: "authorised e cfg api p b s c subject email"
    and t: "t_oauth_challenges t = upd (\<lambda>x. row_id x = row_id c) (mutate n (oauth_consume n)) (t_oauth_challenges s)"
  shows "\<not> oauth_consumed (ox_challenge_id b) s \<and> oauth_consumed (ox_challenge_id b) t"
proof -
  have c: "c \<in> set (t_oauth_challenges s)" "row_id c = ox_challenge_id b" "oc_consumed_at c = None"
    using a by (auto simp: authorised_def state_matches_def)
  have "r = c" if "r \<in> set (t_oauth_challenges s)" "row_id r = ox_challenge_id b" for r
    using distinct_keyD [OF table_ok_distinct c(1), of oauth_challenge_clash] that inv c
    by (metis distinct_keyD oauth_inv_def table_ok_distinct)
  then have "\<not> oauth_consumed (ox_challenge_id b) s" using c(3) by (auto simp: oauth_consumed_def)
  moreover have "mutate n (oauth_consume n) c \<in> set (t_oauth_challenges t)" using c(1) by (auto simp: t in_set_upd)
  then have "oauth_consumed (ox_challenge_id b) t"
    unfolding oauth_consumed_def by (rule bexI [rotated]) (simp add: c mutate_def oauth_consume_def)
  ultimately show ?thesis by blast
qed

text \<open>A sign-in or a link uses the challenge up.\<close>

lemma exchange_uses:
  assumes inv: "oauth_inv {} s" and run: "oauth_exchange e cfg api p b link_id s = (Inr r, t)"
    and r: "(\<exists>q. r = Linked q) \<or> (\<exists>tk. r = Authenticated (SignedIn tk))"
  shows "\<not> oauth_consumed (ox_challenge_id b) s \<and> oauth_consumed (ox_challenge_id b) t"
proof -
  from run show ?thesis
  proof (cases rule: oauth_exchange_Inr)
    case (1 c subject email)
    show ?thesis
    proof (cases link_id)
      case None
      with 1(2) have l: "oauth_login e cfg p c subject email (ox_device_name b) s = (Inr r, t)" by simp
      have "r \<noteq> Linked q" for q
        using l by (auto simp: oauth_login_def sign_in_def run_simps split: option.splits)
      with r obtain tk where "r = Authenticated (SignedIn tk)" by blast
      with oauth_login_Inr(2) l show ?thesis by (intro authorised_uses [OF inv 1(1)]) blast
    next
      case (Some uid)
      with 1(2) have l: "oauth_link e p c subject email uid s = (Inr r, t)" by simp
      show ?thesis using oauth_link_Inr [OF l] by (intro authorised_uses [OF inv 1(1)]) blast
    qed
  qed
qed

lemma request_Inr: "request m s = (Inr a, t) \<longleftrightarrow> m s = (Inr a, t)"
  by (simp add: request_def atomic_Inr)

lemma route_exchange_Inr:
  assumes "route_oauth_exchange e cfg api provider b link_id s = (Inr r, t)"
  shows "\<exists>p. oauth_exchange e cfg api p b link_id s = (Inr r, t)"
  using assms by (auto simp: route_oauth_exchange_def request_Inr run_simps check_exchange_def split: if_splits)

lemma callback_authenticated:
  "CallbackAuthenticated b = (case r of Inl x \<Rightarrow> CallbackReceived c st | Inr a \<Rightarrow> CallbackAuthenticated a) \<longleftrightarrow> r = Inr b"
  by (cases r) auto

lemma oauth_use_exchange:
  assumes "oauth_use c r = Some i" and "db_call e cfg api c s = (Inr r, t)"
  shows "\<exists>p b link_id a. oauth_exchange e cfg api p b link_id s = (Inr a, t) \<and> ox_challenge_id b = i
     \<and> ((\<exists>q. a = Linked q) \<or> (\<exists>tk. a = Authenticated (SignedIn tk)))"
  using assms
proof (induction c r rule: oauth_use.induct)
  case (1 p b tk)
  then have "route_oauth_exchange e cfg api p b None s = (Inr (Authenticated (SignedIn tk)), t)" "ox_challenge_id b = i"
    by (auto simp: db_call.simps fmapP_Inr)
  with route_exchange_Inr show ?case by blast
next
  case (2 access p b q)
  then obtain pr :: principal where "route_oauth_exchange e cfg api p b (Some (pl_user_id pr)) s = (Inr (Linked q), t)"
    by (auto simp: db_call.simps fmapP_Inr with_principal_def run_simps dest!: get_current_principal_ok)
  with 2(1) route_exchange_Inr show ?case by (metis oauth_use.simps(2) option.inject)
next
  case (3 p code st err desc tk)
  then obtain q where "callback_exchange e cfg api q (the code) st s = (Inr (Authenticated (SignedIn tk)), t)"
    by (auto simp: db_call.simps fmapP_Inr route_oauth_callback_def run_simps request_Inr callback_authenticated split: if_splits)
  with 3(1) show ?case by (fastforce simp: callback_exchange_def run_simps split: prod.splits)
qed simp_all

interpretation authorisations: single_use "auth_step e cfg d api" oauth_use
  "\<lambda>i w. oauth_consumed i (fst w)" "\<lambda>w. oauth_inv {} (fst w)"
  for e cfg api and d :: "'w delivery option"
proof
  fix w w' :: "db \<times> 'w world" and c r i
  assume ok: "oauth_inv {} (fst w)" and run: "auth_step e cfg d api c w = (Inr r, w')" and use: "oauth_use c r = Some i"
  have "db_call e cfg api c (fst w) = (Inr r, fst w')"
    using run use by (cases c) (auto simp: auth_step_def run_simps)
  from oauth_use_exchange [OF use this] show "\<not> oauth_consumed i (fst w) \<and> oauth_consumed i (fst w')"
    using exchange_uses [OF ok] by blast
next
  fix w w' :: "db \<times> 'w world" and c v i
  assume ok: "oauth_inv {} (fst w)" and run: "auth_step e cfg d api c w = (v, w')"
  have "oauth_inv {} (fst w')" "oauth_inv {i} (fst w) \<longrightarrow> oauth_inv {i} (fst w')"
    using keepsD [OF oauths.step_keeps run] ok by blast+
  with ok show "oauth_inv {} (fst w') \<and> (oauth_consumed i (fst w) \<longrightarrow> oauth_consumed i (fst w'))"
    by (simp add: oauth_inv_def oauth_consumed_def)
qed

subsection \<open>A proof of identity registers one account\<close>

text \<open>The challenge behind a registration is consumed; no later registration gets through on it.\<close>

definition registration_used :: "bool \<Rightarrow> uuid \<Rightarrow> db \<Rightarrow> bool" where
  "registration_used otp i s \<longleftrightarrow> (if otp then \<exists>r \<in> set (t_otp_challenges s). row_id r = i \<and> ot_consumed_at r \<noteq> None
     else oauth_consumed i s)"

definition token_challenge :: "env \<Rightarrow> settings \<Rightarrow> int \<Rightarrow> string \<Rightarrow> (bool \<times> uuid) option" where
  "token_challenge e cfg now token = (case registration_token_claims e cfg now token of
     Inl _ \<Rightarrow> None
   | Inr claims \<Rightarrow> (case (claim_text claims ''provider'', registration_challenge_id claims) of
        (Inr p, Inr i) \<Rightarrow> Some (p = ''OTP'', i) | _ \<Rightarrow> None))"

lemma verify_by_otp_uses:
  assumes inv: "table_ok no_clash (t_otp_challenges s)" and run: "verify_by_otp b i claims s = (Inr vf, u)"
  shows "\<not> registration_used True i s \<and> registration_used True i u"
proof -
  obtain c where c: "by_id i (t_otp_challenges s) = Some c" "ot_consumed_at c = None"
    and u: "t_otp_challenges u = upd (\<lambda>x. row_id x = i) (mutate (clock s) (consume (clock s))) (t_otp_challenges s)"
    using run by (auto simp: verify_by_otp_def change_otp_def run_simps split: option.splits)
  note m = by_id_mem [OF c(1)]
  have "\<not> registration_used True i s"
    using c by_id_unique [OF inv] by (auto simp: registration_used_def)
  moreover have "mutate (clock s) (consume (clock s)) c \<in> set (t_otp_challenges u)" using m by (auto simp: u in_set_upd)
  then have "registration_used True i u"
    unfolding registration_used_def if_True by (rule bexI [rotated]) (simp add: m consume_def mutate_def)
  ultimately show ?thesis by blast
qed

lemma verify_by_oauth_uses:
  assumes inv: "oauth_inv {} s" and run: "verify_by_oauth b i claims email s = (Inr vf, u)"
  shows "\<not> registration_used False i s \<and> registration_used False i u"
proof -
  have tab: "table_ok oauth_challenge_clash (t_oauth_challenges s)" using inv by (simp add: oauth_inv_def)
  obtain c where c: "by_id i (t_oauth_challenges s) = Some c" "oc_consumed_at c = None"
    and u: "t_oauth_challenges u = upd (\<lambda>x. row_id x = i) (mutate (clock s) (oauth_consume (clock s))) (t_oauth_challenges s)"
    using run by (auto simp: verify_by_oauth_def change_oauth_def run_simps split: option.splits if_splits)
  note m = by_id_mem [OF c(1)]
  have "\<not> registration_used False i s"
    using c by_id_unique [OF tab] by (auto simp: registration_used_def oauth_consumed_def)
  moreover have "mutate (clock s) (oauth_consume (clock s)) c \<in> set (t_oauth_challenges u)" using m by (auto simp: u in_set_upd)
  then have "registration_used False i u"
    unfolding registration_used_def oauth_consumed_def by simp (rule bexI [rotated], assumption, simp add: m oauth_consume_def mutate_def)
  ultimately show ?thesis by blast
qed

lemma register_uses:
  assumes otps: "otps_ok cfg s" and oauths: "oauth_inv {} s" and run: "register_account e cfg b s = (Inr tk, t)"
    and k: "token_challenge e cfg (clock s) (rg_registration_token b) = Some (otp, i)"
  shows "\<not> registration_used otp i s \<and> registration_used otp i t"
proof -
  obtain claims p vf u email where
    v: "(if otp then verify_by_otp b i claims else verify_by_oauth b i claims email) s = (Inr vf, u)"
    and f: "finish_registration e cfg b p email vf u = (Inr tk, t)"
    using run k unfolding register_account_def Let_def
    by (auto simp: run_simps token_challenge_def split: sum.splits if_splits)
  show ?thesis
  proof (cases otp)
    case True
    have inv: "otps_inv cfg j (checks_left cfg j s) {} s" for j using otps by (simp add: otps_ok_def)
    have tab: "table_ok no_clash (t_otp_challenges s)" using inv by (simp add: otps_inv_def)
    from True v have v': "verify_by_otp b i claims s = (Inr vf, u)" by simp
    note used = verify_by_otp_uses [OF tab v']
    have "otps_inv' cfg i (checks_left cfg i s) {} u"
      using v' inv [of i] otps keepsD [OF keeps_consume_otp, of i "clock s" s _ _ cfg i "checks_left cfg i s" "{}"]
      by (auto simp: verify_by_otp_def run_simps otps_inv'_def otps_ok_def split: option.splits)
    then have "otps_inv' cfg i (checks_left cfg i s) {i} u"
      using used by (simp add: otps_inv'_def otps_inv_def registration_used_def)
    from keepsD [OF otps.finish f this] have "registration_used True i t"
      by (simp add: otps_inv'_def otps_inv_def registration_used_def)
    with used True show ?thesis by simp
  next
    case False
    with v have v': "verify_by_oauth b i claims email s = (Inr vf, u)" by simp
    note used = verify_by_oauth_uses [OF oauths v']
    have "keeps (oauth_inv {}) (verify_by_oauth b i claims email)"
      unfolding verify_by_oauth_def by (intro keeps_intros oauths.edit_oauth) simp_all
    from keepsD [OF this v' oauths] used have "oauth_inv {i} u"
      by (simp add: oauth_inv_def registration_used_def oauth_consumed_def)
    from keepsD [OF oauths.finish f this] have "registration_used False i t"
      by (simp add: oauth_inv_def registration_used_def oauth_consumed_def)
    with used False show ?thesis by simp
  qed
qed

end
