(* ===== verification/Registration.thy ===== *)
theory Registration
  imports AuthApi
begin

text \<open>
  What a registration leaves behind: the rows of a well-formed account, and a challenge that is used up
  for good.
\<close>

lemma value_errors_Inr: "value_errors_invalid m s = (Inr a, t) \<longleftrightarrow> m s = (Inr a, t)"
  by (auto simp: value_errors_invalid_def split: prod.split sum.split)

section \<open>The shape of a registered account\<close>

definition plain_code :: "string \<Rightarrow> bool" where
  "plain_code s \<longleftrightarrow> (\<forall>c \<in> set s. is_upper c \<or> is_digit c)"

lemma plain_code_fix:
  assumes "plain_code s"
  shows "strip s = s" and "upper s = s"
proof -
  have sp: "\<not> is_space c" "\<not> is_lower c" if "is_upper c \<or> is_digit c" for c
    using that by (auto simp: is_upper_def is_digit_def is_space_def is_lower_def Let_def)
  have d: "dropWhile is_space r = r" if "set r \<subseteq> set s" for r
    using that assms sp by (cases r) (auto simp: plain_code_def)
  show "strip s = s" by (simp add: strip_def lstrip_def d)
  show "upper s = s"
    unfolding upper_def by (rule map_idI) (use assms sp in \<open>auto simp: plain_code_def\<close>)
qed

lemma classes_plain:
  assumes "matches_classes cs s" and "\<And>f c. f \<in> set cs \<Longrightarrow> f c \<Longrightarrow> is_upper c \<or> is_digit c"
  shows "plain_code s"
  unfolding plain_code_def
proof
  fix c assume "c \<in> set s"
  then obtain k where "k < length s" "s ! k = c" by (auto simp: in_set_conv_nth)
  with assms show "is_upper c \<or> is_digit c"
    unfolding matches_classes_def by (metis list_all2_conv_all_nth nth_mem)
qed

lemma tax_classes:
  "f \<in> set gstin_classes \<Longrightarrow> f c \<Longrightarrow> is_upper c \<or> is_digit c"
  "f \<in> set pan_classes \<Longrightarrow> f c \<Longrightarrow> is_upper c \<or> is_digit c"
  by (auto simp: gstin_classes_def pan_classes_def is_upper_def)

lemma checked_tax_id:
  assumes v: "validate_tax_id cs txt v = Inr v'" and cs: "\<And>f c. f \<in> set cs \<Longrightarrow> f c \<Longrightarrow> is_upper c \<or> is_digit c"
  shows "tax_id v' = None \<or> (\<exists>g. tax_id v' = Some g \<and> matches_classes cs g)"
proof (cases v')
  case (Some g)
  then have "strip g = [] \<or> matches_classes cs g" using v by (auto simp: validate_tax_id_def split: option.splits if_splits)
  then show ?thesis
  proof
    assume m: "matches_classes cs g"
    from plain_code_fix [OF classes_plain [OF m cs]] m show ?thesis by (simp add: tax_id_def Some)
  qed (simp add: tax_id_def Some)
qed (simp add: tax_id_def)

lemma check_registration_Inr:
  assumes "check_registration b = Inr b'"
  shows "rg_role b' \<in> {''merchant'', ''supplier''} \<and> rg_business_name b' = rg_business_name b \<and> rg_store_name b' = rg_store_name b
    \<and> (tax_id (rg_gstin b') = None \<or> (\<exists>g. tax_id (rg_gstin b') = Some g \<and> matches_classes gstin_classes g))
    \<and> (tax_id (rg_pan b') = None \<or> (\<exists>g. tax_id (rg_pan b') = Some g \<and> matches_classes pan_classes g))"
proof -
  obtain role gstin pan where r: "validate_role (rg_role b) = Inr role" "b' = b\<lparr>rg_role := role, rg_gstin := gstin, rg_pan := pan\<rparr>"
    and g: "validate_tax_id gstin_classes ''Invalid GSTIN format. Example: 29AABCU9603R1ZM'' (rg_gstin b) = Inr gstin"
    and p: "validate_tax_id pan_classes ''Invalid PAN format. Example: AABCU9603R'' (rg_pan b) = Inr pan"
    using assms by (auto simp: check_registration_def bindE_def split: if_splits sum.splits)
  show ?thesis
    using r checked_tax_id [OF g tax_classes(1)] checked_tax_id [OF p tax_classes(2)]
    by (auto simp: validate_role_def Let_def split: if_splits)
qed

definition phone_shape :: "string option \<Rightarrow> bool" where
  "phone_shape v = (case v of None \<Rightarrow> True | Some p \<Rightarrow> digits_of p = p \<and> 10 < length p \<and> length p \<le> 15)"

lemma phone_shape_simps [simp]: "phone_shape None" "normalize_phone v = Inr p \<Longrightarrow> phone_shape (Some p)"
  by (auto simp: phone_shape_def normalize_phone_Inr)

lemma verified_shape:
  "verify_by_otp b i claims s = (Inr vf, t) \<Longrightarrow> phone_shape (vf_phone vf) \<and> t_users t = t_users s
     \<and> t_merchants t = t_merchants s \<and> t_stores t = t_stores s"
  "verify_by_oauth b i claims email s = (Inr vf, t) \<Longrightarrow> phone_shape (vf_phone vf) \<and> t_users t = t_users s
     \<and> t_merchants t = t_merchants s \<and> t_stores t = t_stores s"
  by (auto simp: verify_by_otp_def verify_by_oauth_def change_otp_def change_oauth_def run_simps split: if_splits option.splits)

lemma add_own_supplier_shape:
  "add_own_supplier e b mid phone gstin pan s = (r, t) \<Longrightarrow> t_users t = t_users s
     \<and> t_merchants t = t_merchants s \<and> t_stores t = t_stores s \<and> clock t = clock s"
  by (auto simp: add_own_supplier_def run_simps add_row_def bnd_def lift_def split: prod.splits sum.splits if_splits)

lemma add_account_shape:
  assumes "add_account e cfg b email vf s = (Inr u, t)"
  shows "\<exists>m st. t_merchants t = t_merchants s @ [m] \<and> t_users t = t_users s @ [u] \<and> t_stores t = t_stores s @ [st]
    \<and> u_merchant_id u = row_id m \<and> st_merchant_id st = row_id m \<and> u_email u = email \<and> u_is_active u
    \<and> u_role u \<in> {''merchant'', ''supplier''} \<and> m_gstin m = tax_id (rg_gstin b) \<and> m_pan m = tax_id (rg_pan b)
    \<and> m_phone_number m = vf_phone vf \<and> m_name m = rg_business_name b \<and> st_name st = rg_store_name b"
  using assms unfolding add_account_def Let_def
  by (auto simp: run_simps hash_password_def new_uuid_def dest!: add_own_supplier_shape split: if_splits)

definition account_shape :: "registration_request \<Rightarrow> db \<Rightarrow> token_set \<Rightarrow> db \<Rightarrow> bool" where
  "account_shape b s tk t \<longleftrightarrow> (\<exists>m u st.
     t_merchants t = t_merchants s @ [m] \<and> t_users t = t_users s @ [u] \<and> t_stores t = t_stores s @ [st]
   \<and> u_merchant_id u = row_id m \<and> st_merchant_id st = row_id m \<and> tk_user_id tk = str_uuid (row_id u) \<and> u_is_active u
   \<and> u_role u \<in> {''merchant'', ''supplier''} \<and> u_email u = lower (strip (rg_email b))
   \<and> (\<forall>x \<in> set (t_users s). lower (u_email x) \<noteq> u_email u)
   \<and> m_name m = rg_business_name b \<and> st_name st = rg_store_name b \<and> phone_shape (m_phone_number m)
   \<and> (case m_gstin m of None \<Rightarrow> True | Some g \<Rightarrow> matches_classes gstin_classes g)
   \<and> (case m_pan m of None \<Rightarrow> True | Some g \<Rightarrow> matches_classes pan_classes g))"

lemma add_identity_shape:
  "add_identity e u p sub email s = (r, t) \<Longrightarrow> t_users t = t_users s \<and> t_merchants t = t_merchants s \<and> t_stores t = t_stores s"
  by (auto simp: add_identity_def run_simps add_row_def bnd_def split: prod.splits sum.splits if_splits)

lemma finish_registration_shape:
  assumes "finish_registration e cfg b provider email vf s = (Inr tk, t)"
  shows "\<exists>u s'. add_account e cfg b email vf s = (Inr u, s') \<and> t_users t = t_users s' \<and> t_merchants t = t_merchants s'
    \<and> t_stores t = t_stores s' \<and> tk_user_id tk = str_uuid (row_id u)"
  using assms unfolding finish_registration_def
  by (fastforce simp: run_simps session_issue_def dest!: add_identity_shape split: option.splits)

lemma route_register_shape:
  assumes "route_register e cfg b s = (Inr tk, t)"
  shows "account_shape b s tk t"
proof -
  obtain b' where b': "check_registration b = Inr b'" and run: "register_account e cfg b' s = (Inr tk, t)"
    using assms by (auto simp: route_register_def request_Inr run_simps value_errors_Inr)
  have em: "rg_email b' = rg_email b" using b' by (auto simp: check_registration_def bindE_def split: if_splits sum.splits)
  let ?email = "lower (strip (rg_email b))"
  obtain claims provider i vf v where new: "find (\<lambda>u. lower (u_email u) = ?email) (t_users s) = None"
    and vf: "(if provider = ''OTP'' then verify_by_otp b' i claims else verify_by_oauth b' i claims ?email) s = (Inr vf, v)"
    and fin: "finish_registration e cfg b' provider ?email vf v = (Inr tk, t)"
    using run unfolding register_account_def Let_def em by (auto simp: run_simps)
  have v: "phone_shape (vf_phone vf) \<and> t_users v = t_users s \<and> t_merchants v = t_merchants s \<and> t_stores v = t_stores s"
    using vf by (auto dest: verified_shape split: if_splits)
  from finish_registration_shape [OF fin] obtain u s' where
    acc: "add_account e cfg b' ?email vf v = (Inr u, s')" and t: "t_users t = t_users s'" "t_merchants t = t_merchants s'"
      "t_stores t = t_stores s'" "tk_user_id tk = str_uuid (row_id u)" by blast
  from add_account_shape [OF acc] v t check_registration_Inr [OF b'] new show ?thesis
    unfolding account_shape_def by (auto simp: find_None_iff split: option.split)
qed

section \<open>Proofs of identity\<close>

text \<open>The registration token that a checked e-mail code answers with.\<close>

lemma email_registration_token:
  assumes "otp_verify e cfg i otp device s = (Inr (MustRegister tok em), t)"
    and "by_id i (t_otp_challenges s) = Some r" and "has_at (ot_identifier r)"
  shows "tok = create_registration_token e (clock s) (text_at e (draws s)) i (ot_identifier r) (auth_otp_secret cfg)
    ''OTP'' 15 (Some (ot_identifier r))"
  using assms by_id_mem [OF assms(2)]
  by (auto simp: otp_verify_def find_challenge_def change_otp_def session_issue_def Let_def run_simps split: option.splits if_splits)

lemma otps_ok_after:
  assumes "otps_ok cfg s" and "\<And>i n. keeps (otps_inv' cfg i n {}) m" and "m s = (r, t)"
  shows "otps_ok cfg t"
proof -
  have "otps_inv' cfg j (checks_left cfg j s) {} t" for j
    using keepsD [OF assms(2,3)] assms(1) by (simp add: otps_inv'_def otps_ok_def)
  then show ?thesis by (auto simp: otps_inv'_def otps_inv_def otps_ok_def)
qed

text \<open>What a registration has used stays used, so no later registration gets through.\<close>

lemma registration_stays_used:
  assumes otps: "otps_ok cfg s" and oauths: "oauth_inv {} s" and used: "registration_used otp i s"
  shows "registration_used otp i (fst (runs (auth_step e cfg d api) calls (s, x)))"
proof (cases otp)
  case True
  have "otps_inv cfg i (checks_left cfg i s) {} s" using otps by (simp add: otps_ok_def)
  with otps used True have "otps_inv' cfg i (checks_left cfg i s) {i} (fst (s, x))"
    by (simp add: otps_inv'_def otps_inv_def registration_used_def otps_ok_def)
  from otps.runs_keep [OF this, of e d api calls] True show ?thesis
    by (simp add: otps_inv'_def otps_inv_def registration_used_def)
next
  case False
  with oauths used have "oauth_inv {i} (fst (s, x))" by (simp add: oauth_inv_def registration_used_def oauth_consumed_def)
  from oauths.runs_keep [OF this, of e cfg d api calls] False show ?thesis
    by (simp add: oauth_inv_def registration_used_def oauth_consumed_def)
qed

lemma used_registration_refused:
  assumes otps: "otps_ok cfg s" and oauths: "oauth_inv {} s" and run: "register_account e cfg b s = (Inr tk, t)"
    and k: "token_challenge e cfg (clock s) (rg_registration_token b) = Some (otp, i)"
    and u: "u = fst (runs (auth_step e cfg d api) calls (t, x))"
    and k': "token_challenge e cfg (clock u) (rg_registration_token b') = Some (otp, i)"
  shows "\<exists>err. fst (register_account e cfg b' u) = Inl err"
proof -
  have t: "otps_ok cfg t" "oauth_inv {} t"
    by (rule otps_ok_after [OF otps otps.account run], rule keepsD [OF oauths.account run oauths])
  have used: "registration_used otp i u"
    unfolding u using register_uses [OF otps oauths run k] t by (blast intro: registration_stays_used)
  have "otps_ok cfg u" "oauth_inv {} u"
    unfolding u using guesses.runs_ok [of cfg "(t, x)" e d api calls] oauths.runs_keep [of "{}" "(t, x)" e cfg d api calls] t by simp_all
  from register_uses [OF this _ k'] used show ?thesis
    by (cases "register_account e cfg b' u"; cases "fst (register_account e cfg b' u)") auto
qed

end
