(* ===== verification/Outbound.thy ===== *)
theory Outbound
  imports OAuth Approvals
begin

text \<open>
  Sending over the chat channels: \<open>integrations/telegram/client.py\<close>, \<open>integrations/whatsapp/meta.py\<close>, the
  formatters and callback parsers of \<open>channels/telegram\<close> and \<open>channels/whatsapp\<close>, and the two channel
  adapters that record what they send.  The HTTP client is a parameter, a function from a request and the state
  of the network to an outcome; waiting between attempts is the passage of time and is left out.  Texts are their UTF-8
  bytes.
\<close>

section \<open>Values of untyped JSON\<close>

text \<open>\<open>d.get(k, default)\<close>, \<open>d[k]\<close> and \<open>xs[0]\<close> on a value that need not be what the code expects.\<close>

definition no_attribute :: exc where
  "no_attribute = Exc PyAttributeError ''object has no such attribute''"

definition obj_get :: "json \<Rightarrow> string \<Rightarrow> json \<Rightarrow> exc + json" where
  "obj_get v k d = (case v of
     JObj kvs \<Rightarrow> Inr (case map_of kvs k of None \<Rightarrow> d | Some x \<Rightarrow> x)
   | _ \<Rightarrow> Inl no_attribute)"

definition json_item :: "json \<Rightarrow> string \<Rightarrow> exc + json" where
  "json_item v k = (case v of
     JObj kvs \<Rightarrow> (case map_of kvs k of None \<Rightarrow> Inl (Exc PyKeyError k) | Some x \<Rightarrow> Inr x)
   | _ \<Rightarrow> Inl (Exc PyTypeError ''indices must be integers''))"

definition json_first :: "json \<Rightarrow> exc + json" where
  "json_first v = (case v of
     JArr (x # xs) \<Rightarrow> Inr x
   | JArr [] \<Rightarrow> Inl (Exc PyLookupError ''list index out of range'')
   | JStr (c # cs) \<Rightarrow> Inr (JStr [c])
   | JStr [] \<Rightarrow> Inl (Exc PyLookupError ''string index out of range'')
   | JObj kvs \<Rightarrow> Inl (Exc PyKeyError ''0'')
   | _ \<Rightarrow> Inl (Exc PyTypeError ''object is not subscriptable''))"

text \<open>\<open>int(v)\<close>: whitespace, a sign and digits; the underscores that Python also allows are not recognised.\<close>

definition int_text :: "string \<Rightarrow> int option" where
  "int_text t =
     (let s = strip t;
          neg = startswith s ''-'';
          body = (if neg \<or> startswith s ''+'' then drop 1 s else s)
      in if body \<noteq> [] \<and> list_all is_digit body
         then map_option (\<lambda>n. if neg then - int n else int n) (chars_val 10 body) else None)"

definition bad_int :: exc where
  "bad_int = Exc PyValueError ''invalid literal for int() with base 10''"

definition json_int :: "json \<Rightarrow> exc + int" where
  "json_int v = (case v of
     JInt i \<Rightarrow> Inr i
   | JBool b \<Rightarrow> Inr (if b then 1 else 0)
   | JNum d \<Rightarrow> Inr (if coeff d < 0 then - ((- coeff d) div 10 ^ scale d) else coeff d div 10 ^ scale d)
   | JStr s \<Rightarrow> (case int_text s of None \<Rightarrow> Inl bad_int | Some i \<Rightarrow> Inr i)
   | _ \<Rightarrow> Inl (Exc PyTypeError ''int() argument must be a string or a number''))"

text \<open>\<open>html.escape\<close>.\<close>

definition html_char :: "char \<Rightarrow> string" where
  "html_char c =
     (if c = CHR ''&'' then ''&amp;'' else if c = CHR ''<'' then ''&lt;'' else if c = CHR ''>'' then ''&gt;''
      else if c = CHR 0x22 then ''&quot;'' else if c = CHR 0x27 then ''&#x27;'' else [c])"

definition html_escape :: "string \<Rightarrow> string" where
  "html_escape s = concat (map html_char s)"

lemma html_escape_safe:
  "CHR ''<'' \<notin> set (html_escape s)" "CHR ''>'' \<notin> set (html_escape s)" "CHR 0x22 \<notin> set (html_escape s)"
  by (induction s) (auto simp: html_escape_def html_char_def)

section \<open>Requests that are tried again\<close>

datatype http_outcome =
    HttpTimeout
  | HttpFailed string
  | HttpReply (hr_status: int) (hr_retry_after: "string option") (hr_text: string) (hr_json: "string + json")

type_synonym 's http_post = "string \<Rightarrow> dict \<Rightarrow> string option \<Rightarrow> 's \<Rightarrow> http_outcome \<times> 's"

text \<open>The loop of both clients: an outcome settles the call or, unless it came on the last attempt, starts the
  next one.\<close>

fun retrying ::
  "('s \<Rightarrow> http_outcome \<times> 's) \<Rightarrow> (bool \<Rightarrow> http_outcome \<Rightarrow> (exc + 'a) option) \<Rightarrow> exc \<Rightarrow> nat \<Rightarrow> ('s, exc, 'a) prog" where
  "retrying send judge exhausted 0 s = (Inl exhausted, s)"
| "retrying send judge exhausted (Suc n) s =
     (case send s of (out, t) \<Rightarrow>
        (case judge (n = 0) out of Some r \<Rightarrow> (r, t) | None \<Rightarrow> retrying send judge exhausted n t))"

text \<open>A call makes between one and \<open>n\<close> requests, and what it returns was read from the last answer.\<close>

definition counting :: "('s \<Rightarrow> 'o \<times> 's) \<Rightarrow> nat \<times> 's \<Rightarrow> 'o \<times> (nat \<times> 's)" where
  "counting send w = (case send (snd w) of (out, t) \<Rightarrow> (out, (Suc (fst w), t)))"

lemma counting_run: "send s = (out, t) \<Longrightarrow> counting send (c, s) = (out, (Suc c, t))"
  by (simp add: counting_def)

lemma retrying_counts:
  "\<exists>k. k \<le> n \<and> (0 < n \<longrightarrow> 0 < k) \<and> retrying (counting send) judge exhausted n (c, s) =
     (fst (retrying send judge exhausted n s), (c + k, snd (retrying send judge exhausted n s)))"
proof (induction n arbitrary: c s)
  case (Suc n)
  obtain out t where o': "send s = (out, t)" by (cases "send s")
  from Suc.IH [of "Suc c" t] obtain k where k: "k \<le> n" "retrying (counting send) judge exhausted n (Suc c, t) =
     (fst (retrying send judge exhausted n t), (Suc c + k, snd (retrying send judge exhausted n t)))" by blast
  show ?case
  proof (cases "judge (n = 0) out")
    case None
    with k show ?thesis by (intro exI [where x = "Suc k"]) (simp add: counting_run [of send s out t, OF o'] o')
  qed (auto simp: counting_run [of send s out t, OF o'] o' intro!: exI [where x = 1])
qed simp

lemma retrying_settled:
  assumes "retrying send judge exhausted n s = (r, t)"
  obtains "r = Inl exhausted" | final out u where "judge final out = Some r" "send u = (out, t)"
  using assms
proof (induction n arbitrary: s)
  case (Suc n)
  then show ?case by (auto split: prod.splits option.splits)
qed simp

section \<open>The Telegram client\<close>

definition telegram_failed :: "bool \<Rightarrow> string \<Rightarrow> (exc + json) option" where
  "telegram_failed final m = (if final then Some (Inl (Exc ProviderError (''Telegram client error: '' @ m))) else None)"

definition telegram_judge :: "bool \<Rightarrow> http_outcome \<Rightarrow> (exc + json) option" where
  "telegram_judge final out = (case out of
     HttpTimeout \<Rightarrow> (if final then Some (Inl (Exc ProviderTimeoutError ''Telegram API request timed out'')) else None)
   | HttpFailed m \<Rightarrow> telegram_failed final m
   | HttpReply status retry words body \<Rightarrow>
       (if status \<in> {401, 403}
        then Some (Inl (Exc ProviderAuthenticationError (''Telegram bot authentication failed: '' @ words)))
        else if status = 429 then
          (if int_text (case retry of None \<Rightarrow> ''1'' | Some v \<Rightarrow> v) = None then telegram_failed final (msg bad_int) else None)
        else if status < 200 \<or> 300 \<le> status then
          (if status < 500 \<or> final then Some (Inl (Exc ProviderError ''Telegram API request failed'')) else None)
        else (case body of
            Inl m \<Rightarrow> telegram_failed final m
          | Inr (JObj d) \<Rightarrow>
              (if json_truthy (map_of d ''ok'') then Some (Inr (case map_of d ''result'' of None \<Rightarrow> JNull | Some v \<Rightarrow> v))
               else Some (Inl (Exc ProviderError (''Telegram API error: ''
                 @ (case map_of d ''description'' of None \<Rightarrow> ''Unknown Telegram API error'' | Some v \<Rightarrow> py_str v)))))
          | Inr v \<Rightarrow> telegram_failed final (msg no_attribute))))"

definition telegram_call :: "'s http_post \<Rightarrow> string \<Rightarrow> dict \<Rightarrow> string option \<Rightarrow> ('s, exc, json) prog" where
  "telegram_call post meth payload key =
     retrying (post meth payload key) telegram_judge
       (Exc ProviderError ''Telegram API request failed after retries'') 3"

definition telegram_send_text :: "'s http_post \<Rightarrow> string \<Rightarrow> string \<Rightarrow> string option \<Rightarrow> ('s, exc, string) prog" where
  "telegram_send_text post recipient body key =
     bnd (telegram_call post ''sendMessage''
            [(''chat_id'', JStr recipient), (''text'', JStr body), (''parse_mode'', JStr ''HTML'')] key) (\<lambda>r.
     bnd (lift (json_item r ''message_id'')) (\<lambda>i. ret (py_str i)))"

text \<open>The card of a proposal and its three buttons.\<close>

definition button_data :: "json \<Rightarrow> string \<Rightarrow> string" where
  "button_data i ac = ''approval:'' @ py_str i @ '':'' @ ac"

definition proposal_field :: "dict \<Rightarrow> string \<Rightarrow> string \<Rightarrow> string" where
  "proposal_field p k d = (case map_of p k of None \<Rightarrow> d | Some v \<Rightarrow> py_str v)"

definition heavy_rule :: string where
  "heavy_rule = concat (replicate 20 [CHR 0xE2, CHR 0x94, CHR 0x81])"

definition approval_card :: "dict \<Rightarrow> string" where
  "approval_card p =
     (let unit = html_escape (proposal_field p ''unit'' ''units'');
          currency = html_escape (proposal_field p ''currency'' ''INR'')
      in ([CHR 0xF0, CHR 0x9F, CHR 0x93, CHR 0xA6] @ '' <b>PURCHASE APPROVAL REQUIRED</b>'' @ [CHR 0x0A]) @ heavy_rule @ ([CHR 0x0A] @ ''<b>Item:</b> '')
         @ html_escape (proposal_field p ''sku'' ''Unknown SKU'')
         @ ([CHR 0x0A] @ ''<b>Quantity:</b> '') @ proposal_field p ''quantity'' ''0'' @ '' '' @ unit
         @ ([CHR 0x0A] @ ''<b>Supplier:</b> '') @ html_escape (proposal_field p ''supplier_name'' ''Preferred Supplier'')
         @ ([CHR 0x0A] @ ''<b>Rate:</b> '') @ currency @ '' '' @ proposal_field p ''unit_price'' ''0'' @ '' / '' @ unit
         @ ([CHR 0x0A] @ ''<b>Total:</b> <b>'') @ currency @ '' '' @ proposal_field p ''total_amount'' ''0'' @ ''</b>''
         @ (if json_truthy (map_of p ''delivery_at'')
            then ([CHR 0x0A, CHR 0xF0, CHR 0x9F, CHR 0x93, CHR 0x85] @ '' <b>Delivery by:</b> '') @ html_escape (py_str (the (map_of p ''delivery_at''))) else [])
         @ [CHR 0x0A] @ heavy_rule @ ([CHR 0x0A] @ ''<i>Decision required. Tap an action below:</i>''))"

definition approval_buttons :: "json \<Rightarrow> json" where
  "approval_buttons i =
     (let b = (\<lambda>words ac. JObj [(''text'', JStr words), (''callback_data'', JStr (button_data i ac))])
      in JObj [(''inline_keyboard'', JArr
           [JArr [b ([CHR 0xE2, CHR 0x9C, CHR 0x85] @ '' Approve Order'') ''APPROVE'', b ([CHR 0xE2, CHR 0x9C, CHR 0x8F, CHR 0xEF, CHR 0xB8, CHR 0x8F] @ '' Modify'') ''MODIFY''],
            JArr [b ([CHR 0xE2, CHR 0x9D, CHR 0x8C] @ '' Decline'') ''REJECT'']])])"

definition telegram_send_approval :: "'s http_post \<Rightarrow> string \<Rightarrow> dict \<Rightarrow> string option \<Rightarrow> ('s, exc, string) prog" where
  "telegram_send_approval post recipient p key =
     bnd (require (map_of p ''approval_id'') (Exc PyKeyError ''approval_id'')) (\<lambda>i.
     bnd (telegram_call post ''sendMessage''
            [(''chat_id'', JStr recipient), (''text'', JStr (approval_card p)), (''parse_mode'', JStr ''HTML''),
             (''reply_markup'', approval_buttons i)] key) (\<lambda>r.
     bnd (lift (json_item r ''message_id'')) (\<lambda>m. ret (py_str m))))"

text \<open>Two calls whose failures are only logged.\<close>

definition telegram_answer :: "'s http_post \<Rightarrow> string \<Rightarrow> string option \<Rightarrow> ('s, exc, bool) prog" where
  "telegram_answer post i words =
     bnd (attempt (telegram_call post ''answerCallbackQuery''
            ([(''callback_query_id'', JStr i)]
             @ (if truthy words then [(''text'', JStr (the words)), (''show_alert'', JBool False)] else [])) None)) (\<lambda>r.
     ret (case r of Inl _ \<Rightarrow> False | Inr v \<Rightarrow> json_truthy (Some v)))"

definition telegram_edit :: "'s http_post \<Rightarrow> string \<Rightarrow> json \<Rightarrow> string \<Rightarrow> json option \<Rightarrow> ('s, exc, bool) prog" where
  "telegram_edit post chat i words markup =
     bnd (lift (json_int i)) (\<lambda>n.
     bnd (attempt (telegram_call post ''editMessageText''
            ([(''chat_id'', JStr chat), (''message_id'', JInt n), (''text'', JStr words), (''parse_mode'', JStr ''HTML'')]
             @ (case markup of None \<Rightarrow> [] | Some v \<Rightarrow> [(''reply_markup'', v)])) None)) (\<lambda>r.
     ret (case r of Inl _ \<Rightarrow> False | Inr v \<Rightarrow> json_truthy (Some v))))"

definition telegram_set_webhook :: "'s http_post \<Rightarrow> string \<Rightarrow> string option \<Rightarrow> ('s, exc, bool) prog" where
  "telegram_set_webhook post url secret =
     bnd (telegram_call post ''setWebhook''
       ([(''url'', JStr url)] @ (if truthy secret then [(''secret_token'', JStr (the secret))] else [])) None)
       (\<lambda>r. ret (json_truthy (Some r)))"

definition telegram_delete_webhook :: "'s http_post \<Rightarrow> bool \<Rightarrow> ('s, exc, bool) prog" where
  "telegram_delete_webhook post pending =
     bnd (telegram_call post ''deleteWebhook'' [(''drop_pending_updates'', JBool pending)] None)
       (\<lambda>r. ret (json_truthy (Some r)))"

text \<open>\<open>list(result or [])\<close>: a list, the characters of a text, the keys of a dictionary.\<close>

definition json_list :: "json \<Rightarrow> exc + json list" where
  "json_list v = (case v of
     JArr xs \<Rightarrow> Inr xs
   | JStr s \<Rightarrow> Inr (map (\<lambda>c. JStr [c]) s)
   | JObj d \<Rightarrow> Inr (map (\<lambda>kv. JStr (fst kv)) d)
   | _ \<Rightarrow> Inl (Exc PyTypeError ''object is not iterable''))"

definition telegram_get_updates ::
  "'s http_post \<Rightarrow> int option \<Rightarrow> int \<Rightarrow> int \<Rightarrow> string list option \<Rightarrow> ('s, exc, json list) prog" where
  "telegram_get_updates post offset limit timeout allowed =
     bnd (telegram_call post ''getUpdates''
       ([(''limit'', JInt limit), (''timeout'', JInt timeout)]
        @ (case offset of None \<Rightarrow> [] | Some o' \<Rightarrow> [(''offset'', JInt o')])
        @ (case allowed of None \<Rightarrow> [] | Some us \<Rightarrow> [(''allowed_updates'', JArr (map JStr us))])) None)
       (\<lambda>r. if json_truthy (Some r) then lift (json_list r) else ret [])"

definition verify_telegram_secret :: "string option \<Rightarrow> string option \<Rightarrow> bool" where
  "verify_telegram_secret received expected \<longleftrightarrow> \<not> truthy expected \<or> (truthy received \<and> received = expected)"

section \<open>The WhatsApp client\<close>

definition whatsapp_judge :: "bool \<Rightarrow> http_outcome \<Rightarrow> (exc + json) option" where
  "whatsapp_judge final out = (case out of
     HttpTimeout \<Rightarrow> (if final then Some (Inl (Exc ProviderTimeoutError ''Meta WhatsApp request timed out'')) else None)
   | HttpFailed m \<Rightarrow> Some (Inl (Exc PyException m))
   | HttpReply status retry words body \<Rightarrow>
       (if status \<in> {401, 403} then Some (Inl (Exc ProviderAuthenticationError ''Meta WhatsApp authentication failed''))
        else if status < 200 \<or> 300 \<le> status then
          (if status < 500 \<or> final then Some (Inl (Exc ProviderError ''Meta WhatsApp request failed'')) else None)
        else Some (case body of
            Inl m \<Rightarrow> Inl (Exc PyValueError m)
          | Inr v \<Rightarrow> bindE (json_item v ''messages'') (\<lambda>ms. bindE (json_first ms) (\<lambda>m. json_item m ''id'')))))"

definition whatsapp_send :: "'s http_post \<Rightarrow> dict \<Rightarrow> string \<Rightarrow> ('s, exc, json) prog" where
  "whatsapp_send post payload key =
     retrying (post ''messages'' payload (Some key)) whatsapp_judge (Exc ProviderError ''Meta WhatsApp request failed'') 3"

definition whatsapp_envelope :: "string \<Rightarrow> string \<Rightarrow> string \<Rightarrow> json \<Rightarrow> dict" where
  "whatsapp_envelope recipient kind field body =
     [(''messaging_product'', JStr ''whatsapp''), (''recipient_type'', JStr ''individual''), (''to'', JStr recipient),
      (''type'', JStr kind), (field, body)]"

definition whatsapp_send_text :: "'s http_post \<Rightarrow> string \<Rightarrow> string \<Rightarrow> string \<Rightarrow> ('s, exc, json) prog" where
  "whatsapp_send_text post recipient body key =
     whatsapp_send post (whatsapp_envelope recipient ''text'' ''text''
       (JObj [(''preview_url'', JBool False), (''body'', JStr body)])) key"

definition whatsapp_buttons :: "json \<Rightarrow> json" where
  "whatsapp_buttons i =
     (let b = (\<lambda>ac title. JObj [(''type'', JStr ''reply''),
            (''reply'', JObj [(''id'', JStr (button_data i ac)), (''title'', JStr title)])])
      in JArr [b ''APPROVE'' ''Approve'', b ''MODIFY'' ''Modify'', b ''REJECT'' ''Reject''])"

definition key_text :: "dict \<Rightarrow> string \<Rightarrow> exc + string" where
  "key_text p k = (case map_of p k of None \<Rightarrow> Inl (Exc PyKeyError k) | Some v \<Rightarrow> Inr (py_str v))"

definition whatsapp_send_approval :: "'s http_post \<Rightarrow> string \<Rightarrow> dict \<Rightarrow> string \<Rightarrow> ('s, exc, json) prog" where
  "whatsapp_send_approval post recipient p key =
     bnd (require (map_of p ''approval_id'') (Exc PyKeyError ''approval_id'')) (\<lambda>i.
     bnd (lift (key_text p ''quantity'')) (\<lambda>quantity.
     bnd (lift (key_text p ''unit'')) (\<lambda>unit.
     bnd (lift (key_text p ''sku'')) (\<lambda>sku.
     bnd (lift (key_text p ''unit_price'')) (\<lambda>price.
     bnd (lift (key_text p ''total_amount'')) (\<lambda>amount.
     whatsapp_send post (whatsapp_envelope recipient ''interactive'' ''interactive''
       (JObj [(''type'', JStr ''button''),
              (''body'', JObj [(''text'', JStr (''Purchase '' @ quantity @ '' '' @ unit @ '' of '' @ sku @ '' at INR '' @ price
                 @ '' each? Total INR '' @ amount @ ''.''))]),
              (''action'', JObj [(''buttons'', whatsapp_buttons i)])])) key))))))"

definition verify_webhook_signature :: "env \<Rightarrow> string \<Rightarrow> string option \<Rightarrow> string \<Rightarrow> bool" where
  "verify_webhook_signature e raw header secret \<longleftrightarrow>
     truthy header \<and> startswith (the header) ''sha256='' \<and> drop 7 (the header) = hmac256 e secret raw"

section \<open>Messages and callbacks\<close>

definition approval_message :: "purchase_proposal \<Rightarrow> string \<Rightarrow> dict" where
  "approval_message p i =
     [(''approval_id'', JStr i), (''sku'', JStr (pp_sku p)), (''quantity'', JStr (str_dec (pp_quantity p))),
      (''unit'', JStr (pp_unit p)), (''unit_price'', JStr (str_dec (pp_unit_price p))),
      (''total_amount'', JStr (str_dec (quantize 2 (total_amount p)))), (''currency'', JStr (pp_currency p)),
      (''delivery_at'', JStr (isoformat (pp_delivery_at p)))]"

definition format_decision_confirmation :: "string \<Rightarrow> string \<Rightarrow> string option \<Rightarrow> string option \<Rightarrow> string \<Rightarrow> string" where
  "format_decision_confirmation sku ac quantity amount currency =
     (let safe = html_escape sku in
      if ac = ''APPROVE'' then
        ([CHR 0xE2, CHR 0x9C, CHR 0x85] @ '' <b>PURCHASE ORDER APPROVED</b>'' @ [CHR 0x0A]) @ heavy_rule @ ([CHR 0x0A] @ ''<b>Item:</b> '') @ safe
        @ ([CHR 0x0A] @ ''Order has been confirmed and placed with supplier'')
        @ (if truthy amount then '' for <b>'' @ currency @ '' '' @ the amount @ ''</b>'' else []) @ ''.''
      else if ac = ''REJECT'' then
        ([CHR 0xE2, CHR 0x9D, CHR 0x8C] @ '' <b>PURCHASE ORDER DECLINED</b>'' @ [CHR 0x0A]) @ heavy_rule @ ([CHR 0x0A] @ ''<b>Item:</b> '') @ safe
        @ ([CHR 0x0A] @ ''Proposal was rejected. No order will be placed.'')
      else if ac = ''MODIFY'' then
        ([CHR 0xE2, CHR 0x9C, CHR 0x8F, CHR 0xEF, CHR 0xB8, CHR 0x8F] @ '' <b>PURCHASE ORDER MODIFICATION REQUESTED</b>'' @ [CHR 0x0A]) @ heavy_rule @ ([CHR 0x0A] @ ''<b>Item:</b> '') @ safe
        @ (if truthy quantity then '' (target quantity: '' @ the quantity @ '')'' else [])
        @ ([CHR 0x0A] @ ''A revised proposal is being prepared.'')
      else ([CHR 0xE2, CHR 0x84, CHR 0xB9, CHR 0xEF, CHR 0xB8, CHR 0x8F] @ '' Order status updated: '') @ ac)"

datatype channel_action = CA_APPROVE | CA_MODIFY | CA_REJECT

definition channel_action_str :: "channel_action \<Rightarrow> string" where
  "channel_action_str a = (case a of CA_APPROVE \<Rightarrow> ''APPROVE'' | CA_MODIFY \<Rightarrow> ''MODIFY'' | CA_REJECT \<Rightarrow> ''REJECT'')"

definition parse_channel_action :: "string \<Rightarrow> channel_action option" where
  "parse_channel_action s = find (\<lambda>a. channel_action_str a = s) [CA_APPROVE, CA_MODIFY, CA_REJECT]"

definition parse_callback :: "string \<Rightarrow> string \<Rightarrow> exc + uuid \<times> channel_action" where
  "parse_callback problem words = (case split_on CHR '':'' words of
     [tag, i, ac] \<Rightarrow>
       (if tag \<noteq> ''approval'' then Inl (Exc PyValueError problem)
        else (case parse_uuid i of
            None \<Rightarrow> Inl (Exc PyValueError ''badly formed hexadecimal UUID string'')
          | Some u \<Rightarrow> (case parse_channel_action ac of
                None \<Rightarrow> Inl (Exc PyValueError ''not a valid approval action'')
              | Some a \<Rightarrow> Inr (u, a))))
   | _ \<Rightarrow> Inl (Exc PyValueError problem))"

definition parse_telegram_callback :: "string \<Rightarrow> exc + uuid \<times> channel_action" where
  "parse_telegram_callback words = parse_callback (''Invalid Telegram approval callback format: '' @ words) words"

definition parse_whatsapp_callback :: "string \<Rightarrow> exc + uuid \<times> channel_action" where
  "parse_whatsapp_callback words = parse_callback ''Unknown WhatsApp interaction'' words"

text \<open>The buttons that a card carries come back as the decision they name.\<close>

lemma split_on_field: "c \<notin> set a \<Longrightarrow> split_on c (a @ c # b) = a # split_on c b"
  by (induction a) auto

lemma split_on_last: "c \<notin> set a \<Longrightarrow> split_on c a = [a]"
  by (induction a) auto

lemma str_uuid_no_colon: "CHR '':'' \<notin> set (str_uuid u)"
proof -
  have "CHR '':'' \<notin> set (map dchar (digs 16 32 (unat u)))"
    using dchar_neq_punct digs_less [of 16] by fastforce
  then show ?thesis by (auto simp: str_uuid_def Let_def take_map drop_map dest!: in_set_takeD in_set_dropD)
qed

lemma parse_channel_action_str [simp]: "parse_channel_action (channel_action_str a) = Some a"
  by (cases a) (simp_all add: parse_channel_action_def channel_action_str_def)

lemma parse_button: "parse_callback m (button_data (JStr (str_uuid i)) (channel_action_str a)) = Inr (i, a)"
proof -
  have b: "button_data (JStr (str_uuid i)) (channel_action_str a) =
      ''approval'' @ CHR '':'' # (str_uuid i @ CHR '':'' # channel_action_str a)"
    by (simp add: button_data_def py_str_def)
  have n: "CHR '':'' \<notin> set (channel_action_str a)" by (cases a) (simp_all add: channel_action_str_def)
  have "split_on CHR '':'' (button_data (JStr (str_uuid i)) (channel_action_str a)) =
      [''approval'', str_uuid i, channel_action_str a]"
    unfolding b by (simp add: split_on_field split_on_last str_uuid_no_colon n)
  then show ?thesis by (simp add: parse_callback_def)
qed

lemma parse_callback_Inr:
  assumes "parse_callback m words = Inr (i, a)"
  shows "\<exists>t. parse_uuid t = Some i \<and> words = ''approval:'' @ t @ '':'' @ channel_action_str a"
proof -
  obtain t ac where s: "split_on CHR '':'' words = [''approval'', t, ac]" and i: "parse_uuid t = Some i"
    and a: "parse_channel_action ac = Some a"
    using assms by (auto simp: parse_callback_def split: list.splits if_splits option.splits)
  have "ac = channel_action_str a"
    using a by (auto simp: parse_channel_action_def split: if_splits)
  with join_split_on [of "CHR '':''" words] s i show ?thesis by auto
qed

section \<open>The channel adapters\<close>

text \<open>What is sent is recorded first; \<open>UNIQUE (channel, provider_message_id)\<close> holds when the row is inserted and
  again when the provider's id replaces the pending one.\<close>

definition channel_message_clash :: "channel_message_row \<Rightarrow> channel_message_row \<Rightarrow> bool" where
  "channel_message_clash x y \<longleftrightarrow>
     cm_channel x = cm_channel y \<and> cm_provider_message_id x = cm_provider_message_id y"

definition outbound_message ::
  "uuid \<Rightarrow> int \<Rightarrow> uuid \<Rightarrow> string \<Rightarrow> string \<Rightarrow> string \<Rightarrow> dict \<Rightarrow> channel_message_row" where
  "outbound_message i now merchant channel key kind payload =
     \<lparr>row_id = i, created_at = now, updated_at = now, cm_merchant_id = Some merchant, cm_channel = channel,
      cm_direction = ''OUTBOUND'', cm_provider_message_id = ''pending:'' @ key, cm_idempotency_key = Some key,
      cm_message_type = kind, cm_payload = payload, cm_status = ''SENDING''\<rparr>"

definition change_message :: "uuid \<Rightarrow> (channel_message_row \<Rightarrow> channel_message_row) \<Rightarrow> unit m" where
  "change_message i f s =
     (case by_id i (t_channel_messages s) of
        None \<Rightarrow> (Inr (), s)
      | Some r \<Rightarrow>
          (if list_ex (\<lambda>x. row_id x \<noteq> i \<and> channel_message_clash x (f r)) (t_channel_messages s) then (Inl integrity_error, s)
           else change_row t_channel_messages t_channel_messages_update i f s))"

definition send_recorded ::
  "env \<Rightarrow> string \<Rightarrow> string \<Rightarrow> uuid \<Rightarrow> dict \<Rightarrow> string \<Rightarrow> ('w, string) wm \<Rightarrow> ('w, string) wm" where
  "send_recorded e channel kind merchant payload key send =
     bnd (on_db (new_uuid e)) (\<lambda>i. bnd (on_db (gets clock)) (\<lambda>now.
     andthen (on_db (add_row t_channel_messages t_channel_messages_update channel_message_clash
        (outbound_message i now merchant channel key kind payload)))
     (bnd (attempt send) (\<lambda>r. case r of
        Inl x \<Rightarrow> andthen (on_db (change_message i (\<lambda>m. m\<lparr>cm_status := ''FAILED''\<rparr>))) (raise x)
      | Inr provider_id \<Rightarrow>
          andthen (on_db (change_message i (\<lambda>m. m\<lparr>cm_provider_message_id := provider_id, cm_status := ''SENT''\<rparr>)))
            (ret provider_id)))))"

definition telegram_channel_approval ::
  "env \<Rightarrow> 'w http_post \<Rightarrow> uuid \<Rightarrow> string \<Rightarrow> dict \<Rightarrow> string \<Rightarrow> ('w, string) wm" where
  "telegram_channel_approval e post merchant recipient p key =
     send_recorded e ''TELEGRAM'' ''interactive_approval'' merchant p key
       (on_world (telegram_send_approval post recipient p (Some key)))"

definition telegram_channel_text ::
  "env \<Rightarrow> 'w http_post \<Rightarrow> uuid \<Rightarrow> string \<Rightarrow> string \<Rightarrow> string \<Rightarrow> ('w, string) wm" where
  "telegram_channel_text e post merchant recipient body key =
     send_recorded e ''TELEGRAM'' ''text'' merchant [(''recipient'', JStr recipient), (''body'', JStr body)] key
       (on_world (telegram_send_text post recipient body (Some key)))"

text \<open>A text column takes only a text.\<close>

definition as_text :: "json \<Rightarrow> exc + string" where
  "as_text v = (case v of JStr s \<Rightarrow> Inr s | _ \<Rightarrow> Inl (Exc PyException ''invalid input for query argument''))"

definition whatsapp_channel_approval ::
  "env \<Rightarrow> 'w http_post \<Rightarrow> uuid \<Rightarrow> string \<Rightarrow> dict \<Rightarrow> string \<Rightarrow> ('w, json) wm" where
  "whatsapp_channel_approval e post merchant recipient p key =
     bnd (on_db (new_uuid e)) (\<lambda>i. bnd (on_db (gets clock)) (\<lambda>now.
     andthen (on_db (add_row t_channel_messages t_channel_messages_update channel_message_clash
        (outbound_message i now merchant ''WHATSAPP'' key ''interactive_approval'' p)))
     (bnd (attempt (on_world (whatsapp_send_approval post recipient p key))) (\<lambda>r. case r of
        Inl x \<Rightarrow> andthen (on_db (change_message i (\<lambda>m. m\<lparr>cm_status := ''FAILED''\<rparr>))) (raise x)
      | Inr v \<Rightarrow>
          bnd (lift (as_text v)) (\<lambda>provider_id.
          andthen (on_db (change_message i (\<lambda>m. m\<lparr>cm_provider_message_id := provider_id, cm_status := ''SENT''\<rparr>)))
            (ret v))))))"

text \<open>Every failure of the Telegram client is a \<open>ProviderError\<close>; the WhatsApp client lets the errors of a malformed
  answer and of a broken connection through.\<close>

lemma telegram_judge_cls: "telegram_judge final out = Some (Inl x) \<Longrightarrow>
   cls x \<in> {ProviderError, ProviderTimeoutError, ProviderAuthenticationError}"
  by (auto simp: telegram_judge_def telegram_failed_def split: http_outcome.splits if_splits option.splits sum.splits json.splits)

lemma provider_errors: "c \<in> {ProviderError, ProviderTimeoutError, ProviderAuthenticationError} \<Longrightarrow> isa c ProviderError"
  by (auto simp: isa_def mro_def parent_def numeral_eq_Suc)

lemma telegram_call_error: "telegram_call post meth p key s = (Inl x, t) \<Longrightarrow> isa (cls x) ProviderError"
  unfolding telegram_call_def
  by (erule retrying_settled; intro provider_errors) (simp, blast dest: telegram_judge_cls)

lemma telegram_call_result:
  assumes "telegram_call post meth p key s = (Inr v, t)"
  obtains u status retry words d where "post meth p key u = (HttpReply status retry words (Inr (JObj d)), t)"
    "200 \<le> status" "status < 300" "json_truthy (map_of d ''ok'')" "v = (case map_of d ''result'' of None \<Rightarrow> JNull | Some r \<Rightarrow> r)"
proof -
  from assms obtain final out u where j: "telegram_judge final out = Some (Inr v)" and u: "post meth p key u = (out, t)"
    unfolding telegram_call_def by (rule retrying_settled) auto
  from j obtain status retry words d where "out = HttpReply status retry words (Inr (JObj d))" "200 \<le> status" "status < 300"
      "json_truthy (map_of d ''ok'')" "v = (case map_of d ''result'' of None \<Rightarrow> JNull | Some r \<Rightarrow> r)"
    by (auto simp: telegram_judge_def telegram_failed_def split: http_outcome.splits if_splits option.splits sum.splits json.splits)
  with u that show thesis by blast
qed

end
