(* ===== verification/Webhooks.thy ===== *)
theory Webhooks
  imports Outbound
begin

text \<open>
  What arrives over the chat channels: \<open>channels/telegram/webhook.py\<close> and \<open>channels/whatsapp/webhook.py\<close> turn the
  payload of a webhook, which may be any JSON, into inbound messages, or raise.
\<close>

section \<open>Validation of the inbound models\<close>

definition str_field :: "json \<Rightarrow> exc + string" where
  "str_field v = (case v of JStr s \<Rightarrow> Inr s | _ \<Rightarrow> Inl (Exc PyValidationError ''Input should be a valid string''))"

definition opt_str_field :: "json \<Rightarrow> exc + string option" where
  "opt_str_field v = (case v of JStr s \<Rightarrow> Inr (Some s) | JNull \<Rightarrow> Inr None
     | _ \<Rightarrow> Inl (Exc PyValidationError ''Input should be a valid string''))"

text \<open>An integer field takes integers, booleans, integral numbers and texts of integers.\<close>

definition int_field :: "json \<Rightarrow> exc + int" where
  "int_field v = (case v of
     JInt i \<Rightarrow> Inr i
   | JBool b \<Rightarrow> Inr (if b then 1 else 0)
   | JNum d \<Rightarrow> (if coeff d mod 10 ^ scale d = 0 then Inr (coeff d div 10 ^ scale d)
               else Inl (Exc PyValidationError ''Input should be a valid integer''))
   | JStr s \<Rightarrow> (case int_text s of Some i \<Rightarrow> Inr i | None \<Rightarrow> Inl (Exc PyValidationError ''Input should be a valid integer''))
   | _ \<Rightarrow> Inl (Exc PyValidationError ''Input should be a valid integer''))"

section \<open>Telegram\<close>

record telegram_inbound =
  ti_update_id :: int
  ti_message_id :: string
  ti_chat_id :: string
  ti_sender_id :: string
  ti_sender_name :: string
  ti_username :: "string option"
  ti_kind :: string
  ti_text :: "string option"
  ti_callback_data :: "string option"
  ti_callback_query_id :: "string option"
  ti_raw :: json

definition full_name :: "json \<Rightarrow> exc + string" where
  "full_name user =
     bindE (obj_get user ''first_name'' (JStr [])) (\<lambda>a.
     bindE (obj_get user ''last_name'' (JStr [])) (\<lambda>b. Inr (strip (py_str a @ '' '' @ py_str b))))"

definition inbound_callback :: "json \<Rightarrow> json \<Rightarrow> exc + telegram_inbound" where
  "inbound_callback update_id cb =
     bindE (obj_get cb ''id'' (JStr [])) (\<lambda>i.
     bindE (obj_get cb ''from'' (JObj [])) (\<lambda>user.
     bindE (obj_get user ''id'' (JStr [])) (\<lambda>sender.
     bindE (full_name user) (\<lambda>name.
     bindE (obj_get user ''username'' JNull) (\<lambda>username.
     bindE (obj_get cb ''message'' (JObj [])) (\<lambda>m.
     bindE (obj_get m ''message_id'' JNull) (\<lambda>_.
     bindE (obj_get m ''chat'' (JObj [])) (\<lambda>chat.
     bindE (obj_get chat ''id'' JNull) (\<lambda>c.
     bindE (obj_get cb ''data'' JNull) (\<lambda>data.
     bindE (int_field update_id) (\<lambda>u.
     bindE (opt_str_field username) (\<lambda>username.
     bindE (opt_str_field data) (\<lambda>data.
     Inr \<lparr>ti_update_id = u, ti_message_id = ''cb:'' @ py_str i,
          ti_chat_id = (if json_truthy (Some c) then py_str c else py_str sender),
          ti_sender_id = py_str sender, ti_sender_name = name, ti_username = username, ti_kind = ''callback_query'',
          ti_text = data, ti_callback_data = data, ti_callback_query_id = Some (py_str i), ti_raw = cb\<rparr>)))))))))))))"

definition inbound_kind :: "json \<Rightarrow> exc + string" where
  "inbound_kind words = (case words of
     JStr s \<Rightarrow> Inr (if startswith s ''/'' then ''command'' else ''message'')
   | v \<Rightarrow> (if json_truthy (Some v) then Inl no_attribute else Inr ''message''))"

definition inbound_text :: "json \<Rightarrow> json \<Rightarrow> exc + telegram_inbound" where
  "inbound_text update_id m =
     bindE (obj_get m ''message_id'' (JStr [])) (\<lambda>i.
     bindE (obj_get m ''from'' (JObj [])) (\<lambda>user.
     bindE (obj_get user ''id'' (JStr [])) (\<lambda>sender.
     bindE (full_name user) (\<lambda>name.
     bindE (obj_get user ''username'' JNull) (\<lambda>username.
     bindE (obj_get m ''chat'' (JObj [])) (\<lambda>chat.
     bindE (obj_get chat ''id'' (JStr (py_str sender))) (\<lambda>c.
     bindE (obj_get m ''text'' (JStr [])) (\<lambda>words.
     bindE (inbound_kind words) (\<lambda>kind.
     bindE (int_field update_id) (\<lambda>u.
     bindE (opt_str_field username) (\<lambda>username.
     bindE (opt_str_field words) (\<lambda>words.
     Inr \<lparr>ti_update_id = u, ti_message_id = ''msg:'' @ py_str i, ti_chat_id = py_str c, ti_sender_id = py_str sender,
          ti_sender_name = name, ti_username = username, ti_kind = kind, ti_text = words,
          ti_callback_data = None, ti_callback_query_id = None, ti_raw = m\<rparr>))))))))))))"

definition inbound_update :: "json \<Rightarrow> exc + telegram_inbound list" where
  "inbound_update update = (case update of
     JObj d \<Rightarrow>
       (let u = (case map_of d ''update_id'' of None \<Rightarrow> JInt 0 | Some v \<Rightarrow> v) in
        case map_of d ''callback_query'' of
          Some cb \<Rightarrow> bindE (inbound_callback u cb) (\<lambda>i. Inr [i])
        | None \<Rightarrow> (case map_of d ''message'' of
              Some m \<Rightarrow> bindE (inbound_text u m) (\<lambda>i. Inr [i])
            | None \<Rightarrow> Inr []))
   | _ \<Rightarrow> Inr [])"

fun inbound_updates :: "json list \<Rightarrow> exc + telegram_inbound list" where
  "inbound_updates [] = Inr []"
| "inbound_updates (u # us) = bindE (inbound_update u) (\<lambda>a. bindE (inbound_updates us) (\<lambda>b. Inr (a @ b)))"

definition parse_telegram_webhook :: "json \<Rightarrow> exc + telegram_inbound list" where
  "parse_telegram_webhook payload = inbound_updates (case payload of JArr us \<Rightarrow> us | _ \<Rightarrow> [payload])"

text \<open>What a parsed message says: its kind, and that a decision can only come from a button.\<close>

definition inbound_shape :: "telegram_inbound \<Rightarrow> bool" where
  "inbound_shape i \<longleftrightarrow>
     ti_kind i = ''callback_query'' \<and> startswith (ti_message_id i) ''cb:''
   \<or> ti_kind i \<in> {''command'', ''message''} \<and> ti_callback_data i = None \<and> startswith (ti_message_id i) ''msg:''"

lemma inbound_callback_shape: "inbound_callback u cb = Inr i \<Longrightarrow> inbound_shape i"
  unfolding inbound_callback_def by (auto simp: bindE_Inr inbound_shape_def startswith_def)

lemma inbound_kind_Inr: "inbound_kind v = Inr k \<Longrightarrow> k \<in> {''command'', ''message''}"
  by (auto simp: inbound_kind_def split: json.splits if_splits)

lemma inbound_text_shape: "inbound_text u m = Inr i \<Longrightarrow> inbound_shape i"
  unfolding inbound_text_def by (auto simp: bindE_Inr inbound_shape_def startswith_def dest!: inbound_kind_Inr)

lemma inbound_update_shape: "inbound_update u = Inr is \<Longrightarrow> i \<in> set is \<Longrightarrow> inbound_shape i"
  unfolding inbound_update_def
  by (auto simp: bindE_Inr Let_def dest: inbound_callback_shape inbound_text_shape split: json.splits option.splits)

lemma parse_telegram_shape:
  assumes "parse_telegram_webhook p = Inr is" and "i \<in> set is"
  shows "inbound_shape i"
proof -
  have "\<exists>u js. inbound_update u = Inr js \<and> i \<in> set js" if "inbound_updates us = Inr is" for us
    using that assms(2)
  proof (induction us arbitrary: "is")
    case (Cons u us)
    from Cons.prems obtain a b where "inbound_update u = Inr a" "inbound_updates us = Inr b" "is = a @ b"
      by (auto simp: bindE_Inr)
    with Cons show ?case by auto
  qed simp
  with assms(1) inbound_update_shape show ?thesis unfolding parse_telegram_webhook_def by blast
qed

section \<open>WhatsApp\<close>

record whatsapp_inbound =
  wi_message_id :: string
  wi_sender :: string
  wi_kind :: string
  wi_text :: "string option"
  wi_reply_id :: "string option"

definition or_json :: "json \<Rightarrow> json \<Rightarrow> json" where
  "or_json a b = (if json_truthy (Some a) then a else b)"

definition whatsapp_reply_id :: "json \<Rightarrow> exc + json" where
  "whatsapp_reply_id m =
     bindE (obj_get m ''interactive'' (JObj [])) (\<lambda>x.
     bindE (obj_get x ''button_reply'' JNull) (\<lambda>a.
     bindE (if json_truthy (Some a) then Inr a else bindE (obj_get x ''list_reply'' JNull) (\<lambda>b. Inr (or_json b (JObj [])))) (\<lambda>r.
     obj_get r ''id'' JNull)))"

definition whatsapp_message :: "json \<Rightarrow> exc + whatsapp_inbound" where
  "whatsapp_message m =
     bindE (obj_get m ''type'' (JStr ''unknown'')) (\<lambda>kind.
     bindE (if kind = JStr ''text'' then bindE (obj_get m ''text'' (JObj [])) (\<lambda>x. obj_get x ''body'' JNull) else Inr JNull) (\<lambda>words.
     bindE (if kind = JStr ''interactive'' then whatsapp_reply_id m else Inr JNull) (\<lambda>reply.
     bindE (json_item m ''id'') (\<lambda>i. bindE (json_item m ''from'') (\<lambda>sender.
     bindE (str_field i) (\<lambda>i. bindE (str_field sender) (\<lambda>sender. bindE (str_field kind) (\<lambda>kind.
     bindE (opt_str_field words) (\<lambda>words. bindE (opt_str_field reply) (\<lambda>reply.
     Inr \<lparr>wi_message_id = i, wi_sender = sender, wi_kind = kind, wi_text = words, wi_reply_id = reply\<rparr>))))))))))"

fun mapE_all :: "('a \<Rightarrow> exc + 'b) \<Rightarrow> 'a list \<Rightarrow> exc + 'b list" where
  "mapE_all f [] = Inr []"
| "mapE_all f (x # xs) = bindE (f x) (\<lambda>y. bindE (mapE_all f xs) (\<lambda>ys. Inr (y # ys)))"

text \<open>The three nested loops; iterating something that is no collection is a \<open>TypeError\<close>.\<close>

definition whatsapp_change :: "json \<Rightarrow> exc + whatsapp_inbound list" where
  "whatsapp_change c =
     bindE (obj_get c ''value'' (JObj [])) (\<lambda>v.
     bindE (obj_get v ''messages'' (JArr [])) (\<lambda>ms. bindE (json_list ms) (mapE_all whatsapp_message)))"

definition whatsapp_entry :: "json \<Rightarrow> exc + whatsapp_inbound list" where
  "whatsapp_entry x =
     bindE (obj_get x ''changes'' (JArr [])) (\<lambda>cs. bindE (json_list cs) (\<lambda>cs.
     bindE (mapE_all whatsapp_change cs) (\<lambda>ms. Inr (concat ms))))"

definition parse_whatsapp_webhook :: "json \<Rightarrow> exc + whatsapp_inbound list" where
  "parse_whatsapp_webhook payload =
     bindE (obj_get payload ''object'' JNull) (\<lambda>k.
     if k \<noteq> JStr ''whatsapp_business_account'' then Inr []
     else bindE (obj_get payload ''entry'' (JArr [])) (\<lambda>es. bindE (json_list es) (\<lambda>es.
          bindE (mapE_all whatsapp_entry es) (\<lambda>ms. Inr (concat ms)))))"

end
