(* ===== verification/TelegramApi.thy ===== *)
theory TelegramApi
  imports Webhooks
begin

text \<open>
  \<open>api/v1/telegram.py\<close>: what an inbound message does.  The message is recorded and committed first, so a second
  delivery of it stops at the unique constraint; a button press then decides its approval, a command is answered.
  Every \<open>await session.commit()\<close> ends an atomic block here.  The bot is the HTTP client of \<open>Outbound\<close>, absent when no token is
  configured, and the workflow runtime is an argument, as it is for the handler: a function that resumes the thread of
  a request.
\<close>

type_synonym 'w telegram = "'w world http_post option"

type_synonym 'w resumer =
  "(uuid \<Rightarrow> string \<Rightarrow> approval_status \<Rightarrow> string \<Rightarrow> uuid \<Rightarrow> uuid \<Rightarrow> ('w world, unit) wm) option"

section \<open>Recording an inbound message\<close>

definition inbound_message ::
  "uuid \<Rightarrow> int \<Rightarrow> string \<Rightarrow> string \<Rightarrow> string \<Rightarrow> dict \<Rightarrow> channel_message_row" where
  "inbound_message i now channel message kind payload =
     \<lparr>row_id = i, created_at = now, updated_at = now, cm_merchant_id = None, cm_channel = channel,
      cm_direction = ''INBOUND'', cm_provider_message_id = message, cm_idempotency_key = None,
      cm_message_type = kind, cm_payload = payload, cm_status = ''RECEIVED''\<rparr>"

definition record_inbound :: "env \<Rightarrow> string \<Rightarrow> string \<Rightarrow> string \<Rightarrow> dict \<Rightarrow> uuid m" where
  "record_inbound e channel message kind payload = request (
     bnd (new_uuid e) (\<lambda>i. bnd (gets clock) (\<lambda>now.
     andthen (add_row t_channel_messages t_channel_messages_update channel_message_clash
        (inbound_message i now channel message kind payload))
     (ret i))))"

text \<open>\<open>except IntegrityError: rollback; continue\<close>: \<open>None\<close> for a message that is already there.\<close>

definition accept_inbound :: "env \<Rightarrow> string \<Rightarrow> string \<Rightarrow> string \<Rightarrow> dict \<Rightarrow> uuid option m" where
  "accept_inbound e channel message kind payload =
     bnd (attempt (record_inbound e channel message kind payload)) (\<lambda>r. case r of
       Inr i \<Rightarrow> ret (Some i)
     | Inl x \<Rightarrow> (if isa (cls x) SqlIntegrityError then ret None else raise x))"

definition telegram_payload :: "telegram_inbound \<Rightarrow> dict" where
  "telegram_payload i =
     [(''chat_id'', JStr (ti_chat_id i)), (''sender_id'', JStr (ti_sender_id i)),
      (''sender_name'', JStr (ti_sender_name i)), (''username'', opt_json JStr (ti_username i)),
      (''text'', opt_json JStr (ti_text i)), (''callback_data'', opt_json JStr (ti_callback_data i))]"

section \<open>Button presses\<close>

definition bot_answer :: "'w telegram \<Rightarrow> telegram_inbound \<Rightarrow> string option \<Rightarrow> ('w world, unit) wm" where
  "bot_answer tg i words =
     (if tg \<noteq> None \<and> truthy (ti_callback_query_id i)
      then bnd (on_world (telegram_answer (the tg) (the (ti_callback_query_id i)) words)) (\<lambda>_. ret ()) else ret ())"

definition action_label :: "channel_action \<Rightarrow> string" where
  "action_label a = (case a of
     CA_APPROVE \<Rightarrow> ''Approving order...''
   | CA_MODIFY \<Rightarrow> ''Requesting modification...''
   | CA_REJECT \<Rightarrow> ''Declining order...'')"

definition chat_settings :: "telegram_inbound \<Rightarrow> dict \<Rightarrow> dict" where
  "chat_settings i d =
     (let d' = dset d ''telegram_chat_id'' (JStr (ti_chat_id i))
      in if truthy (ti_username i) then dset d' ''telegram_username'' (JStr (the (ti_username i))) else d')"

definition change_merchant :: "uuid \<Rightarrow> (merchant_row \<Rightarrow> merchant_row) \<Rightarrow> unit m" where
  "change_merchant = change_row t_merchants t_merchants_update"

text \<open>The chat that presses a button becomes the merchant's chat.\<close>

definition auto_link :: "telegram_inbound \<Rightarrow> uuid \<Rightarrow> merchant_row \<Rightarrow> unit m" where
  "auto_link i row m =
     (if map_of (m_settings m) ''telegram_chat_id'' \<noteq> Some (JStr (ti_chat_id i))
      then request (andthen (change_merchant (row_id m) (\<lambda>x. x\<lparr>m_settings := chat_settings i (m_settings m)\<rparr>))
             (change_message row (\<lambda>x. x\<lparr>cm_merchant_id := Some (row_id m)\<rparr>)))
      else ret ())"

definition payload_sku :: "dict \<Rightarrow> exc + string" where
  "payload_sku p = (case map_of p ''sku'' of None \<Rightarrow> Inr ''item'' | Some (JStr s) \<Rightarrow> Inr s | _ \<Rightarrow> Inl no_attribute)"

definition no_buttons :: json where
  "no_buttons = JObj [(''inline_keyboard'', JArr [])]"

text \<open>The message the button belonged to loses its buttons and says what was decided.\<close>

definition close_card :: "'w telegram \<Rightarrow> telegram_inbound \<Rightarrow> approval_row \<Rightarrow> string \<Rightarrow> string option \<Rightarrow> ('w world, unit) wm" where
  "close_card tg i a ac amount = (case tg of
     None \<Rightarrow> ret ()
   | Some post \<Rightarrow>
       bnd (lift (bindE (obj_get (ti_raw i) ''message'' (JObj [])) (\<lambda>m. obj_get m ''message_id'' JNull))) (\<lambda>mid.
       if json_truthy (Some mid) then
         bnd (lift (payload_sku (ap_proposal_payload a))) (\<lambda>sku.
         bnd (on_world (telegram_edit post (ti_chat_id i) mid
                (format_decision_confirmation sku ac None amount ''INR'') (Some no_buttons))) (\<lambda>_. ret ()))
       else ret ()))"

definition payload_amount :: "dict \<Rightarrow> string option" where
  "payload_amount p =
     (let v = map_of p ''total_amount'' in if json_truthy v then Some (py_str (the v)) else None)"

definition decided_status :: "channel_action \<Rightarrow> approval_status" where
  "decided_status a = (if a = CA_APPROVE then AS_APPROVED else AS_REJECTED)"

text \<open>The decision itself, the same on both channels: through the waiting workflow or directly, each committed.  The
  server signs the approval token that the service then checks.\<close>

definition channel_decide ::
  "env \<Rightarrow> settings \<Rightarrow> 'w resumer \<Rightarrow> approval_row \<Rightarrow> uuid \<Rightarrow> uuid \<Rightarrow> channel_action \<Rightarrow> ('w world, unit) wm" where
  "channel_decide e cfg rs a merchant user ac =
     bnd (on_db (gets clock)) (\<lambda>now.
     (if truthy (ap_workflow_request_id a) \<and> rs \<noteq> None then
        bnd (lift (token_for e (approval_service_of cfg) now a merchant)) (\<lambda>tok.
        the rs merchant (the (ap_workflow_request_id a)) (decided_status ac) tok user (row_id a))
      else if ac = CA_APPROVE then
        bnd (lift (token_for e (approval_service_of cfg) now a merchant)) (\<lambda>tok.
        on_db (request (bnd (approval_approve e (approval_service_of cfg) (row_id a) merchant user tok) (\<lambda>_. ret ()))))
      else on_db (request (bnd (approval_reject e (row_id a) merchant user) (\<lambda>_. ret ())))))"

definition needs_details :: "uuid \<Rightarrow> unit m" where
  "needs_details row = request (change_message row (\<lambda>x. x\<lparr>cm_status := ''NEEDS_MODIFICATION_DETAILS''\<rparr>))"

definition press_button ::
  "env \<Rightarrow> settings \<Rightarrow> 'w telegram \<Rightarrow> 'w resumer \<Rightarrow> telegram_inbound \<Rightarrow> uuid \<Rightarrow> uuid \<Rightarrow> channel_action \<Rightarrow> ('w world, unit) wm" where
  "press_button e cfg tg rs i row appr ac =
     bnd (attempt (on_db (approvals_get appr None))) (\<lambda>found. case found of
       Inl x \<Rightarrow> ret ()
     | Inr a \<Rightarrow>
         bnd (on_db (gets (\<lambda>s. by_id (ap_merchant_id a) (t_merchants s)))) (\<lambda>merchant. case merchant of
           None \<Rightarrow> ret ()
         | Some m \<Rightarrow>
             andthen (on_db (auto_link i row m))
             (bnd (on_db (gets (active_user_of m))) (\<lambda>user. case user of
                None \<Rightarrow> ret ()
              | Some u \<Rightarrow>
                  (if ac = CA_MODIFY then
                     andthen (on_db (needs_details row)) (close_card tg i a ''MODIFY'' None)
                   else
                     andthen (channel_decide e cfg rs a (row_id m) (row_id u) ac)
                       (close_card tg i a (channel_action_str ac) (payload_amount (ap_proposal_payload a))))))))"

definition handle_callback ::
  "env \<Rightarrow> settings \<Rightarrow> 'w telegram \<Rightarrow> 'w resumer \<Rightarrow> telegram_inbound \<Rightarrow> uuid \<Rightarrow> string \<Rightarrow> ('w world, unit) wm" where
  "handle_callback e cfg tg rs i row data =
     (if \<not> startswith data ''approval:'' then bot_answer tg i None
      else (case parse_telegram_callback data of
          Inl x \<Rightarrow> bot_answer tg i (Some ''Invalid approval action'')
        | Inr (appr, ac) \<Rightarrow>
            andthen (bot_answer tg i (Some (action_label ac))) (press_button e cfg tg rs i row appr ac)))"

section \<open>Commands\<close>

definition first_word :: "string \<Rightarrow> string" where
  "first_word s = takeWhile (\<lambda>c. \<not> is_space c) s"

text \<open>\<open>text.split(maxsplit=1)[1].strip()\<close> of a stripped text.\<close>

definition rest_words :: "string \<Rightarrow> string" where
  "rest_words s = strip (dropWhile is_space (dropWhile (\<lambda>c. \<not> is_space c) s))"

definition say :: "'w world http_post \<Rightarrow> telegram_inbound \<Rightarrow> string \<Rightarrow> ('w world, unit) wm" where
  "say post i words = bnd (on_world (telegram_send_text post (ti_chat_id i) words None)) (\<lambda>_. ret ())"

definition welcome_text :: "string \<Rightarrow> string" where
  "welcome_text chat =
     ([CHR 0xF0, CHR 0x9F, CHR 0x91, CHR 0x8B] @ '' <b>Welcome to Paytm ONE Vyapar!</b>'' @ [CHR 0x0A]) @ heavy_rule
     @ ([CHR 0x0A] @ ''I am your autonomous <b>Vyapar Commander</b> bot.'' @ [CHR 0x0A, CHR 0x0A] @ ''I monitor your inventory, forecast demand, negotiate with suppliers, and bring purchase proposals right here for your one-tap approval.'' @ [CHR 0x0A, CHR 0x0A])
     @ ([CHR 0xF0, CHR 0x9F, CHR 0x86, CHR 0x94] @ '' <b>Your Telegram Chat ID:</b> <code>'') @ chat @ (''</code>'' @ [CHR 0x0A, CHR 0x0A] @ ''<b>Quick Commands:</b>'' @ [CHR 0x0A])
     @ ([CHR 0xE2, CHR 0x80, CHR 0xA2] @ '' <code>/connect &lt;phone&gt;</code> - Link your mobile number to receive OTPs & alerts'' @ [CHR 0x0A])
     @ ([CHR 0xE2, CHR 0x80, CHR 0xA2] @ '' <code>/otp</code> - View your active login/registration code'' @ [CHR 0x0A])
     @ ([CHR 0xE2, CHR 0x80, CHR 0xA2] @ '' <code>/status</code> - View pending purchase approvals'' @ [CHR 0x0A])
     @ ([CHR 0xE2, CHR 0x80, CHR 0xA2] @ '' <code>/help</code> - Show commands and assistance'')"

definition help_text :: string where
  "help_text =
     ([CHR 0xF0, CHR 0x9F, CHR 0x93, CHR 0x96] @ '' <b>Paytm ONE Vyapar Bot Guide</b>'' @ [CHR 0x0A]) @ heavy_rule
     @ ([CHR 0x0A, CHR 0xE2, CHR 0x80, CHR 0xA2] @ '' <code>/start</code> - Bot introduction and Chat ID'' @ [CHR 0x0A])
     @ ([CHR 0xE2, CHR 0x80, CHR 0xA2] @ '' <code>/connect &lt;phone&gt;</code> - Link your mobile number to receive OTPs & alerts'' @ [CHR 0x0A])
     @ ([CHR 0xE2, CHR 0x80, CHR 0xA2] @ '' <code>/otp</code> - View your active login/registration code'' @ [CHR 0x0A])
     @ ([CHR 0xE2, CHR 0x80, CHR 0xA2] @ '' <code>/status</code> - View pending purchase approvals'' @ [CHR 0x0A])
     @ ([CHR 0xE2, CHR 0x80, CHR 0xA2] @ '' <code>/help</code> - Show this assistance message'' @ [CHR 0x0A, CHR 0x0A])
     @ ''When an automated reorder recommendation is ready, you will receive an interactive card with <b>[Approve]</b>, <b>[Modify]</b>, and <b>[Decline]</b> buttons.''"

subsection \<open>Connecting a chat\<close>

definition connect_usage :: string where
  "connect_usage =
     ([CHR 0xE2, CHR 0x84, CHR 0xB9, CHR 0xEF, CHR 0xB8, CHR 0x8F] @ '' Please supply your mobile number or registered email:'' @ [CHR 0x0A] @ ''Example: <code>/connect 9546730793</code> or <code>/connect merchant@example.com</code>'')"

definition linked_text :: "merchant_row \<Rightarrow> string" where
  "linked_text m =
     ([CHR 0xE2, CHR 0x9C, CHR 0x85] @ '' <b>Merchant Account Linked!</b>'' @ [CHR 0x0A]) @ heavy_rule @ ([CHR 0x0A] @ ''<b>Business:</b> '') @ html_escape (m_name m)
     @ ([CHR 0x0A] @ ''<b>Currency:</b> '') @ m_currency m
     @ ([CHR 0x0A, CHR 0x0A] @ ''You will now receive replenishment recommendations and instant approval prompts here!'')"

definition connected_text :: "string \<Rightarrow> string \<Rightarrow> string" where
  "connected_text phone chat =
     ([CHR 0xE2, CHR 0x9C, CHR 0x85] @ '' <b>Mobile Number Connected!</b>'' @ [CHR 0x0A]) @ heavy_rule @ ([CHR 0x0A] @ ''<b>Phone:</b> <code>'') @ phone
     @ (''</code>'' @ [CHR 0x0A] @ ''<b>Telegram Chat ID:</b> <code>'') @ chat
     @ (''</code>'' @ [CHR 0x0A, CHR 0x0A] @ ''Your phone is now linked to this Telegram chat! Tap <b>Send OTP</b> in the Vyapar app and your verification code will arrive directly right here.'' @ [CHR 0x0A, CHR 0x0A])
     @ ([CHR 0xF0, CHR 0x9F, CHR 0x92, CHR 0xA1] @ '' <i>Tip: You can also type <code>/otp</code> here to check your code anytime.</i>'')"

text \<open>The merchant that an address names: of the user with the e-mail address, or with one of the forms of the number.\<close>

definition connect_merchant :: "string \<Rightarrow> db \<Rightarrow> merchant_row option" where
  "connect_merchant address s =
     (if has_at address then
        (case find (\<lambda>u. lower (u_email u) = lower address) (t_users s) of
           None \<Rightarrow> None | Some u \<Rightarrow> by_id (u_merchant_id u) (t_merchants s))
      else merchant_for_phone (filter (\<lambda>c. is_digit c \<or> c = CHR ''+'') address) s)"

definition handle_connect :: "'w world http_post \<Rightarrow> telegram_inbound \<Rightarrow> string \<Rightarrow> ('w world, unit) wm" where
  "handle_connect post i words =
     (let address = rest_words words;
          clean = filter (\<lambda>c. is_digit c \<or> c = CHR ''+'') address
      in if dropWhile (\<lambda>c. \<not> is_space c) words = [] then say post i connect_usage
         else bnd (on_db (gets (connect_merchant address))) (\<lambda>found. case found of
           Some m \<Rightarrow>
             andthen (on_db (request (change_merchant (row_id m) (\<lambda>x. x\<lparr>m_settings := chat_settings i (m_settings m)\<rparr>))))
             (bnd (require (m_phone_number m) (Exc PyTypeError ([CHR 0x27] @ ''NoneType'' @ [CHR 0x27] @ '' object is not iterable''))) (\<lambda>phone.
              andthen (on_world (modify (register_phone_telegram phone (ti_chat_id i)))) (say post i (linked_text m))))
         | None \<Rightarrow>
             andthen (on_world (modify (register_phone_telegram clean (ti_chat_id i))))
               (say post i (connected_text clean (ti_chat_id i)))))"

subsection \<open>Showing a code\<close>

text \<open>The chat's own id is looked up first, as if it were a phone number; then the numbers that are linked to the chat.\<close>

fun code_of_linked :: "int \<Rightarrow> string \<Rightarrow> (string \<times> string) list \<Rightarrow> 'w world \<Rightarrow> string option \<times> 'w world" where
  "code_of_linked now chat [] w = (None, w)"
| "code_of_linked now chat ((phone, cid) # rest) w =
     (if cid = chat then
        (case get_active_otp now phone w of (r, w') \<Rightarrow>
           if truthy r then (r, w') else code_of_linked now chat rest w')
      else code_of_linked now chat rest w)"

definition active_code :: "int \<Rightarrow> string \<Rightarrow> 'w world \<Rightarrow> string option \<times> 'w world" where
  "active_code now chat w =
     (case get_active_otp now chat w of (r, w') \<Rightarrow>
        if truthy r then (r, w') else code_of_linked now chat (wd_chats w') w')"

definition code_text :: "string \<Rightarrow> string" where
  "code_text c =
     ([CHR 0xF0, CHR 0x9F, CHR 0x94, CHR 0x90] @ '' <b>Your Active Verification Code</b>'' @ [CHR 0x0A]) @ heavy_rule @ ([CHR 0x0A, CHR 0xF0, CHR 0x9F, CHR 0x91, CHR 0x89] @ '' <code>'') @ c
     @ (''</code> '' @ [CHR 0xF0, CHR 0x9F, CHR 0x91, CHR 0x88, CHR 0x0A, CHR 0x0A] @ ''Enter this 6-digit code in the Vyapar app to complete verification.'')"

definition no_code_text :: string where
  "no_code_text =
     ([CHR 0xE2, CHR 0x84, CHR 0xB9, CHR 0xEF, CHR 0xB8, CHR 0x8F] @ '' No active verification code found for this chat.'' @ [CHR 0x0A] @ ''Tap <b>Send OTP</b> in the Vyapar app, or use <code>/connect &lt;phone&gt;</code> first.'')"

definition handle_otp :: "'w world http_post \<Rightarrow> telegram_inbound \<Rightarrow> ('w world, unit) wm" where
  "handle_otp post i =
     bnd (on_db (gets clock)) (\<lambda>now.
     bnd (on_world (\<lambda>w. case active_code now (ti_chat_id i) w of (r, w') \<Rightarrow> (Inr r, w'))) (\<lambda>r.
     say post i (if truthy r then code_text (the r) else no_code_text)))"

subsection \<open>Pending approvals\<close>

definition pending_approvals :: "uuid \<Rightarrow> db \<Rightarrow> approval_row list" where
  "pending_approvals merchant s =
     take 5 (sort_key (\<lambda>a. - created_at a)
       (filter (\<lambda>a. ap_merchant_id a = merchant \<and> ap_status a = AS_PENDING) (t_approvals s)))"

definition linked_merchant :: "string \<Rightarrow> db \<Rightarrow> merchant_row option" where
  "linked_merchant chat s =
     find (\<lambda>m. map_of (m_settings m) ''telegram_chat_id'' = Some (JStr chat)) (t_merchants s)"

definition handle_status :: "'w world http_post \<Rightarrow> telegram_inbound \<Rightarrow> ('w world, unit) wm" where
  "handle_status post i =
     bnd (on_db (gets (linked_merchant (ti_chat_id i)))) (\<lambda>linked. case linked of
       None \<Rightarrow> say post i ([CHR 0xE2, CHR 0x84, CHR 0xB9, CHR 0xEF, CHR 0xB8, CHR 0x8F] @ '' Your Telegram account is not yet linked to a merchant.'' @ [CHR 0x0A] @ ''Use <code>/connect &lt;phone&gt;</code> to link your account.'')
     | Some m \<Rightarrow>
         bnd (on_db (gets (pending_approvals (row_id m)))) (\<lambda>as.
         if as = [] then
           say post i (([CHR 0xE2, CHR 0x9C, CHR 0x85] @ '' <b>All caught up!</b>'' @ [CHR 0x0A, CHR 0x0A] @ ''No pending approvals for <b>'') @ html_escape (m_name m) @ ''</b>.'')
         else
           andthen (say post i (([CHR 0xF0, CHR 0x9F, CHR 0x93, CHR 0x8B] @ '' Found <b>'') @ nat_str (length as) @ ''</b> pending approval(s) for <b>''
                     @ html_escape (m_name m) @ ''</b>:''))
           (bnd (mapP (\<lambda>a. on_world (telegram_send_approval post (ti_chat_id i)
                   (dset (ap_proposal_payload a) ''approval_id'' (JStr (str_uuid (row_id a)))) None)) as) (\<lambda>_. ret ()))))"

definition handle_text :: "'w world http_post \<Rightarrow> telegram_inbound \<Rightarrow> ('w world, unit) wm" where
  "handle_text post i =
     (let words = strip (the (ti_text i)); cmd = lower (first_word words) in
      if cmd = ''/start'' then say post i (welcome_text (ti_chat_id i))
      else if cmd = ''/connect'' then handle_connect post i words
      else if cmd \<in> {''/otp'', ''/code''} then handle_otp post i
      else if cmd = ''/status'' then handle_status post i
      else if cmd = ''/help'' then say post i help_text
      else ret ())"

section \<open>The webhook\<close>

definition handle_inbound ::
  "env \<Rightarrow> settings \<Rightarrow> 'w telegram \<Rightarrow> 'w resumer \<Rightarrow> telegram_inbound \<Rightarrow> uuid \<Rightarrow> ('w world, unit) wm" where
  "handle_inbound e cfg tg rs i row =
     (if ti_kind i = ''callback_query'' \<and> truthy (ti_callback_data i)
      then handle_callback e cfg tg rs i row (the (ti_callback_data i))
      else if ti_kind i \<in> {''command'', ''message''} \<and> truthy (ti_text i) \<and> tg \<noteq> None
      then handle_text (the tg) i
      else ret ())"

definition process_item ::
  "env \<Rightarrow> settings \<Rightarrow> 'w telegram \<Rightarrow> 'w resumer \<Rightarrow> telegram_inbound \<Rightarrow> ('w world, bool) wm" where
  "process_item e cfg tg rs i =
     bnd (on_db (accept_inbound e ''TELEGRAM'' (ti_message_id i) (ti_kind i) (telegram_payload i))) (\<lambda>r. case r of
       None \<Rightarrow> ret False
     | Some row \<Rightarrow> andthen (handle_inbound e cfg tg rs i row) (ret True))"

fun process_items ::
  "env \<Rightarrow> settings \<Rightarrow> 'w telegram \<Rightarrow> 'w resumer \<Rightarrow> telegram_inbound list \<Rightarrow> ('w world, nat) wm" where
  "process_items e cfg tg rs [] = ret 0"
| "process_items e cfg tg rs (i # is) =
     bnd (process_item e cfg tg rs i) (\<lambda>a. bnd (process_items e cfg tg rs is) (\<lambda>n. ret (n + (if a then 1 else 0))))"

definition process_telegram_update ::
  "env \<Rightarrow> settings \<Rightarrow> 'w telegram \<Rightarrow> 'w resumer \<Rightarrow> json \<Rightarrow> ('w world, nat) wm" where
  "process_telegram_update e cfg tg rs payload =
     bnd (lift (parse_telegram_webhook payload)) (process_items e cfg tg rs)"

datatype webhook_reply = Refused int string | Processed nat

definition telegram_webhook ::
  "env \<Rightarrow> settings \<Rightarrow> 'w telegram \<Rightarrow> 'w resumer \<Rightarrow> string option \<Rightarrow> json \<Rightarrow> ('w world, webhook_reply) wm" where
  "telegram_webhook e cfg tg rs secret payload =
     (if telegram_bot_token cfg = None then ret (Refused 503 ''Telegram bot channel is not configured'')
      else if truthy (telegram_webhook_secret cfg) \<and> \<not> verify_telegram_secret secret (telegram_webhook_secret cfg)
      then ret (Refused 401 ''Invalid Telegram webhook secret token'')
      else bnd (process_telegram_update e cfg tg rs payload) (\<lambda>n. ret (Processed n)))"

end
