(* ===== verification/WhatsAppApi.thy ===== *)
theory WhatsAppApi
  imports TelegramApi
begin

text \<open>
  \<open>api/v1/whatsapp.py\<close>: the challenge that Meta verifies the webhook with, and the webhook itself.  Deliveries
  are signed; the sender's number names the merchant, and the approval service checks that the approval is the
  merchant's own.
\<close>

datatype verify_reply = ComingSoon | EchoChallenge string | VerifyRefused

definition whatsapp_verify :: "settings \<Rightarrow> string option \<Rightarrow> string option \<Rightarrow> string option \<Rightarrow> verify_reply" where
  "whatsapp_verify cfg mode token challenge =
     (if mode = None then ComingSoon
      else if mode = Some ''subscribe'' \<and> truthy (whatsapp_verify_token cfg) \<and> token = whatsapp_verify_token cfg
      then EchoChallenge (or_else challenge [])
      else VerifyRefused)"

definition whatsapp_payload :: "whatsapp_inbound \<Rightarrow> dict" where
  "whatsapp_payload i =
     [(''sender'', JStr (wi_sender i)), (''text'', opt_json JStr (wi_text i)), (''reply_id'', opt_json JStr (wi_reply_id i))]"

definition sender_merchant :: "string \<Rightarrow> db \<Rightarrow> merchant_row option" where
  "sender_merchant sender s = find (\<lambda>m. m_phone_number m = Some sender) (t_merchants s)"

definition stored_message :: "string \<Rightarrow> db \<Rightarrow> channel_message_row option" where
  "stored_message i s = find (\<lambda>r. cm_provider_message_id r = i) (t_channel_messages s)"

definition whatsapp_decide ::
  "env \<Rightarrow> settings \<Rightarrow> 'w resumer \<Rightarrow> approval_row \<Rightarrow> uuid \<Rightarrow> uuid \<Rightarrow> channel_action \<Rightarrow> ('w world, unit) wm" where
  "whatsapp_decide e cfg rs a merchant user ac =
     (if truthy (ap_workflow_request_id a) \<and> rs = None then raise no_attribute
      else channel_decide e cfg rs a merchant user ac)"

definition whatsapp_press ::
  "env \<Rightarrow> settings \<Rightarrow> 'w resumer \<Rightarrow> whatsapp_inbound \<Rightarrow> uuid \<Rightarrow> channel_action \<Rightarrow> ('w world, unit) wm" where
  "whatsapp_press e cfg rs i appr ac =
     bnd (on_db (gets (sender_merchant (wi_sender i)))) (\<lambda>merchant. case merchant of
       None \<Rightarrow> ret ()
     | Some m \<Rightarrow>
         bnd (on_db (gets (active_user_of m))) (\<lambda>user. case user of
           None \<Rightarrow> ret ()
         | Some u \<Rightarrow>
             bnd (on_db (approvals_get appr None)) (\<lambda>a.
             if ac = CA_MODIFY then
               bnd (on_db (gets (stored_message (wi_message_id i)))) (\<lambda>stored. case stored of
                 None \<Rightarrow> ret () | Some r \<Rightarrow> on_db (needs_details (row_id r)))
             else whatsapp_decide e cfg rs a (row_id m) (row_id u) ac)))"

definition handle_reply :: "env \<Rightarrow> settings \<Rightarrow> 'w resumer \<Rightarrow> whatsapp_inbound \<Rightarrow> ('w world, unit) wm" where
  "handle_reply e cfg rs i =
     (if truthy (wi_reply_id i) \<and> startswith (the (wi_reply_id i)) ''approval:''
      then (case parse_whatsapp_callback (the (wi_reply_id i)) of
              Inl x \<Rightarrow> ret ()
            | Inr (appr, ac) \<Rightarrow> whatsapp_press e cfg rs i appr ac)
      else ret ())"

definition whatsapp_item :: "env \<Rightarrow> settings \<Rightarrow> 'w resumer \<Rightarrow> whatsapp_inbound \<Rightarrow> ('w world, bool) wm" where
  "whatsapp_item e cfg rs i =
     bnd (on_db (accept_inbound e ''WHATSAPP'' (wi_message_id i) (wi_kind i) (whatsapp_payload i))) (\<lambda>r. case r of
       None \<Rightarrow> ret False
     | Some row \<Rightarrow> andthen (handle_reply e cfg rs i) (ret True))"

fun whatsapp_items :: "env \<Rightarrow> settings \<Rightarrow> 'w resumer \<Rightarrow> whatsapp_inbound list \<Rightarrow> ('w world, nat) wm" where
  "whatsapp_items e cfg rs [] = ret 0"
| "whatsapp_items e cfg rs (i # is) =
     bnd (whatsapp_item e cfg rs i) (\<lambda>a. bnd (whatsapp_items e cfg rs is) (\<lambda>n. ret (n + (if a then 1 else 0))))"

text \<open>\<open>raw\<close> is the body, \<open>parsed\<close> what \<open>request.json()\<close> makes of it.\<close>

definition whatsapp_webhook ::
  "env \<Rightarrow> settings \<Rightarrow> 'w resumer \<Rightarrow> string option \<Rightarrow> string \<Rightarrow> string + json \<Rightarrow> ('w world, webhook_reply) wm" where
  "whatsapp_webhook e cfg rs signature raw parsed =
     (case whatsapp_app_secret cfg of
        None \<Rightarrow> ret (Refused 503 ''WhatsApp webhook is not configured'')
      | Some secret \<Rightarrow>
          (if \<not> verify_webhook_signature e raw signature secret then ret (Refused 401 ''Invalid webhook signature'')
           else (case parsed of
               Inl problem \<Rightarrow> raise (Exc PyValueError problem)
             | Inr payload \<Rightarrow>
                 bnd (lift (parse_whatsapp_webhook payload)) (\<lambda>ms.
                 bnd (whatsapp_items e cfg rs ms) (\<lambda>n. ret (Processed n))))))"

end
