(* ===== verification/Inbox.thy ===== *)
theory Inbox
  imports WhatsAppApi ApprovalLifecycle
begin

text \<open>
  The two webhooks as consumers of a stream of messages.  The unique constraint on channel messages makes each message
  count once; which decisions a button press can make is stated for both channels.
\<close>

section \<open>The channel messages\<close>

definition inbox_seen :: "string \<Rightarrow> string \<Rightarrow> db \<Rightarrow> bool" where
  "inbox_seen ch k s \<longleftrightarrow> (\<exists>r \<in> set (t_channel_messages s). cm_channel r = ch \<and> cm_provider_message_id r = k)"

text \<open>The invariant: the constraint holds, and the messages of \<open>K\<close> stay recorded.\<close>

definition messages_inv :: "(string \<times> string) set \<Rightarrow> db \<Rightarrow> bool" where
  "messages_inv K s \<longleftrightarrow> table_ok channel_message_clash (t_channel_messages s) \<and> (\<forall>(ch, k) \<in> K. inbox_seen ch k s)"

lemma messages_inv_cong: "t_channel_messages s = t_channel_messages t \<Longrightarrow> messages_inv K s = messages_inv K t"
  by (simp add: messages_inv_def inbox_seen_def)

lemma messages_inv_frame [simp]:
  "messages_inv K (s\<lparr>draws := n\<rparr>) = messages_inv K s" "messages_inv K (s\<lparr>clock := c\<rparr>) = messages_inv K s"
  "messages_inv K (s\<lparr>t_approvals := aps\<rparr>) = messages_inv K s" "messages_inv K (s\<lparr>t_outbox_events := os\<rparr>) = messages_inv K s"
  "messages_inv K (s\<lparr>t_audit_logs := ls\<rparr>) = messages_inv K s" "messages_inv K (s\<lparr>t_merchants := ms\<rparr>) = messages_inv K s"
  "messages_inv K (s\<lparr>t_notifications := ns\<rparr>) = messages_inv K s"
  by (rule messages_inv_cong; simp)+

lemma messages_inv_rollback [simp]: "messages_inv K (rollback s t) = messages_inv K s"
  by (simp add: rollback_def)

definition message_edit :: "(channel_message_row \<Rightarrow> channel_message_row) \<Rightarrow> bool" where
  "message_edit f \<longleftrightarrow> (\<forall>r. row_id (f r) = row_id r \<and> cm_channel (f r) = cm_channel r
     \<and> cm_provider_message_id (f r) = cm_provider_message_id r)"

lemma message_edits [simp]:
  "message_edit (\<lambda>x. x\<lparr>cm_merchant_id := m\<rparr>)" "message_edit (\<lambda>x. x\<lparr>cm_status := st\<rparr>)"
  "message_edit f \<Longrightarrow> message_edit (mutate now f)"
  by (simp_all add: message_edit_def mutate_def)

lemma messages_inv_upd:
  assumes s: "messages_inv K s" and f: "message_edit f" and t: "t_channel_messages t = upd P f (t_channel_messages s)"
  shows "messages_inv K t"
proof -
  have "table_ok channel_message_clash (upd P f (t_channel_messages s))"
    by (rule table_ok_upd) (use s f in \<open>simp_all add: messages_inv_def message_edit_def channel_message_clash_def\<close>)
  moreover have "inbox_seen ch k t" if k: "(ch, k) \<in> K" for ch k
  proof -
    from s k obtain r where "r \<in> set (t_channel_messages s)" "cm_channel r = ch" "cm_provider_message_id r = k"
      by (auto simp: messages_inv_def inbox_seen_def)
    with f show ?thesis
      unfolding inbox_seen_def t by (intro bexI [where x = "if P r then f r else r"]) (auto simp: in_set_upd message_edit_def)
  qed
  ultimately show ?thesis by (auto simp: messages_inv_def t)
qed

lemma keeps_change_message [keeps_intros]:
  assumes "message_edit f" shows "keeps (messages_inv K) (change_message i f)"
proof (rule keepsI)
  fix s r t
  assume s: "messages_inv K s" and run: "change_message i f s = (r, t)"
  from run have "t = s \<or> t_channel_messages t = upd (\<lambda>x. row_id x = i) (mutate (clock s) f) (t_channel_messages s)"
    by (auto simp: change_message_def change_row_def split: option.splits if_splits)
  with s assms show "messages_inv K t" by (auto intro: messages_inv_upd [where f = "mutate (clock s) f"])
qed

lemma keeps_request_messages [keeps_intros]: "keeps (messages_inv K) m \<Longrightarrow> keeps (messages_inv K) (request m)"
  unfolding request_def by (rule keeps_atomic) simp_all

lemma keeps_record_inbound: "keeps (messages_inv K) (record_inbound e ch k kind p)"
proof -
  have "messages_inv K (s\<lparr>t_channel_messages := t_channel_messages s @ [r]\<rparr>)"
    if "messages_inv K s" "\<forall>x \<in> set (t_channel_messages s). row_id x \<noteq> row_id r \<and> \<not> channel_message_clash x r" for s r
    using that by (auto simp: messages_inv_def inbox_seen_def intro!: table_ok_add)
  then have add: "keeps (messages_inv K) (add_row t_channel_messages t_channel_messages_update channel_message_clash r)" for r
    by (auto simp: keeps_def add_row_def list_ex_iff)
  show ?thesis unfolding record_inbound_def
    by (rule keeps_request_messages keeps_bnd keeps_andthen keeps_new_uuid keeps_gets keeps_ret add | simp)+
qed

lemma keeps_accept_inbound [keeps_intros]: "keeps (messages_inv K) (accept_inbound e ch k kind p)"
  unfolding accept_inbound_def by (intro keeps_intros keeps_record_inbound)

lemma keeps_approval_calls [keeps_intros]:
  "keeps (messages_inv K) (approval_approve e sv i m u tok)" "keeps (messages_inv K) (approval_reject e i m u)"
  unfolding approval_approve_def approval_reject_def approvals_get_def verify_owner_and_state_def change_approval_def
    approval_audit_def add_audit_def add_outbox_def
  by (intro keeps_intros; simp)+

lemma keeps_change_merchant [keeps_intros]: "keeps (messages_inv K) (change_merchant i f)"
  unfolding change_merchant_def by (intro keeps_intros) simp

lemma keeps_auto_link [keeps_intros]: "keeps (messages_inv K) (auto_link i row m)"
  unfolding auto_link_def by (intro keeps_intros) simp

lemma keeps_needs_details [keeps_intros]: "keeps (messages_inv K) (needs_details row)"
  unfolding needs_details_def by (intro keeps_intros) simp

lemma keeps_approvals_get [keeps_intros]: "keeps P (approvals_get i m)"
  unfolding approvals_get_def by (intro keeps_intros)

section \<open>What the handlers keep\<close>

text \<open>A property of the database that recording a message, linking a chat and deciding an approval keep, the last one
  through the workflow runtime or directly: every handler of both webhooks keeps it.\<close>

locale channel_invariant =
  fixes rs :: "'w resumer" and e :: env and cfg :: settings and P :: "db \<Rightarrow> bool"
  assumes resumed: "rs = Some f \<Longrightarrow> keeps (\<lambda>w. P (fst w)) (f m q ac tok u a)"
    and approved: "keeps P (request (bnd (approval_approve e (approval_service_of cfg) i m u tok) (\<lambda>_. ret ())))"
    and rejected: "keeps P (request (bnd (approval_reject e i m u) (\<lambda>_. ret ())))"
    and merchant_changed: "keeps P (change_merchant i g)"
    and message_changed: "message_edit h \<Longrightarrow> keeps P (change_message i h)"
    and accepted: "keeps P (accept_inbound e ch k kind p)"
    and rolled_back: "P s \<Longrightarrow> P (rollback s t)"
begin

lemma decide_keeps: "keeps (\<lambda>w. P (fst w)) (channel_decide e cfg rs a m u ac)"
proof (cases rs)
  case None
  show ?thesis unfolding channel_decide_def None by simp (intro keeps_intros approved rejected)
next
  case (Some f)
  show ?thesis unfolding channel_decide_def Some option.sel
    by (intro keeps_intros resumed [OF Some] approved rejected)
qed

lemma requested: "keeps P m \<Longrightarrow> keeps P (request m)"
  unfolding request_def by (rule keeps_atomic) (simp_all add: rolled_back)

lemma press_keeps: "keeps (\<lambda>w. P (fst w)) (press_button e cfg tg rs i row a ac)"
  unfolding press_button_def close_card_def auto_link_def needs_details_def
  by (intro keeps_intros decide_keeps requested merchant_changed message_changed keeps_approvals_get) simp_all

lemma callback_keeps: "keeps (\<lambda>w. P (fst w)) (handle_callback e cfg tg rs i row data)"
  unfolding handle_callback_def bot_answer_def by (intro keeps_intros press_keeps)

lemma text_keeps: "keeps (\<lambda>w. P (fst w)) (handle_text post i)"
  unfolding handle_text_def handle_connect_def handle_otp_def handle_status_def say_def Let_def
  by (intro keeps_intros requested merchant_changed)

lemma inbound_keeps: "keeps (\<lambda>w. P (fst w)) (handle_inbound e cfg tg rs i row)"
  unfolding handle_inbound_def by (intro keeps_intros callback_keeps text_keeps)

lemma reply_keeps: "keeps (\<lambda>w. P (fst w)) (handle_reply e cfg rs i)"
  unfolding handle_reply_def whatsapp_press_def whatsapp_decide_def needs_details_def
  by (intro keeps_intros decide_keeps requested message_changed keeps_approvals_get) simp_all

lemma items_keep:
  "keeps (\<lambda>w. P (fst w)) (process_item e cfg tg rs i)" "keeps (\<lambda>w. P (fst w)) (process_items e cfg tg rs is)"
  "keeps (\<lambda>w. P (fst w)) (whatsapp_item e cfg rs j)" "keeps (\<lambda>w. P (fst w)) (whatsapp_items e cfg rs js)"
proof -
  show item: "keeps (\<lambda>w. P (fst w)) (process_item e cfg tg rs i)" for i
    unfolding process_item_def by (intro keeps_intros accepted inbound_keeps)
  show "keeps (\<lambda>w. P (fst w)) (process_items e cfg tg rs is)"
    by (induction "is") (auto intro!: keeps_intros item)
  show item: "keeps (\<lambda>w. P (fst w)) (whatsapp_item e cfg rs j)" for j
    unfolding whatsapp_item_def by (intro keeps_intros accepted reply_keeps)
  show "keeps (\<lambda>w. P (fst w)) (whatsapp_items e cfg rs js)"
    by (induction js) (auto intro!: keeps_intros item)
qed

lemma webhook_keeps:
  "keeps (\<lambda>w. P (fst w)) (telegram_webhook e cfg tg rs secret payload)"
  "keeps (\<lambda>w. P (fst w)) (whatsapp_webhook e cfg rs signature raw parsed)"
  unfolding telegram_webhook_def process_telegram_update_def whatsapp_webhook_def
  by (intro keeps_intros items_keep)+

end

text \<open>What the webhooks rely on of the workflow runtime: resuming a thread leaves the channel messages as they are.\<close>

locale decision_runtime =
  fixes rs :: "'w resumer"
  assumes leaves_messages: "rs = Some f \<Longrightarrow> keeps (\<lambda>w. messages_inv K (fst w)) (f m q ac tok u a)"

sublocale decision_runtime \<subseteq> keep: channel_invariant rs e cfg "messages_inv K" for e cfg K
  by unfold_locales (auto intro!: keeps_intros intro: leaves_messages)

section \<open>Each message counts once\<close>

text \<open>The step consumes a message; accepting it uses the message up.\<close>

definition telegram_use :: "telegram_inbound \<Rightarrow> bool \<Rightarrow> string option" where
  "telegram_use i accepted = (if accepted then Some (ti_message_id i) else None)"

definition whatsapp_use :: "whatsapp_inbound \<Rightarrow> bool \<Rightarrow> string option" where
  "whatsapp_use i accepted = (if accepted then Some (wi_message_id i) else None)"

lemma record_inbound_cases:
  "record_inbound e ch k kind p s = (r, t) \<Longrightarrow>
     (\<exists>i. r = Inr i \<and> t = s\<lparr>draws := draws s + 1, t_channel_messages := t_channel_messages s @
            [inbound_message i (clock s) ch k kind p]\<rparr>
        \<and> (\<forall>x \<in> set (t_channel_messages s). row_id x \<noteq> i \<and> (cm_channel x \<noteq> ch \<or> cm_provider_message_id x \<noteq> k)))
   \<or> r = Inl integrity_error \<and> t = s\<lparr>draws := draws s + 1\<rparr>
        \<and> (\<exists>x \<in> set (t_channel_messages s). row_id x = uuid_at e (draws s) \<or> cm_channel x = ch \<and> cm_provider_message_id x = k)"
  by (cases r) (auto simp: record_inbound_def request_def run_simps inbound_message_def channel_message_clash_def rollback_def)

lemma accept_inbound_cases:
  assumes "accept_inbound e ch k kind p s = (r, t)"
  shows "(\<exists>i. r = Inr (Some i) \<and> \<not> inbox_seen ch k s \<and> inbox_seen ch k t
        \<and> t = s\<lparr>draws := draws s + 1, t_channel_messages := t_channel_messages s @ [inbound_message i (clock s) ch k kind p]\<rparr>)
    \<or> r = Inr None \<and> t = s\<lparr>draws := draws s + 1\<rparr>"
proof -
  obtain r' u where run: "record_inbound e ch k kind p s = (r', u)" by (cases "record_inbound e ch k kind p s")
  have ie: "isa SqlIntegrityError SqlIntegrityError" by (rule isa_refl)
  from record_inbound_cases [OF run] assms run show ?thesis
    by (elim disjE exE conjE) (auto simp: accept_inbound_def exec_defs integrity_error_def ie inbox_seen_def inbound_message_def)
qed

text \<open>A consumer: it accepts the message and then handles it, in any way that keeps the messages.\<close>

definition consume_message ::
  "env \<Rightarrow> string \<Rightarrow> string \<Rightarrow> string \<Rightarrow> dict \<Rightarrow> (uuid \<Rightarrow> ('w, unit) wm) \<Rightarrow> ('w, bool) wm" where
  "consume_message e ch k kind p handle =
     bnd (on_db (accept_inbound e ch k kind p)) (\<lambda>r. case r of
       None \<Rightarrow> ret False | Some row \<Rightarrow> andthen (handle row) (ret True))"

lemma consume_message_items:
  "process_item e cfg tg rs i = consume_message e ''TELEGRAM'' (ti_message_id i) (ti_kind i) (telegram_payload i)
     (handle_inbound e cfg tg rs i)"
  "whatsapp_item e cfg rs j = consume_message e ''WHATSAPP'' (wi_message_id j) (wi_kind j) (whatsapp_payload j)
     (\<lambda>row. handle_reply e cfg rs j)"
  by (simp_all add: process_item_def whatsapp_item_def consume_message_def)

lemma consume_message_cases:
  assumes "consume_message e ch k kind p handle w = (v, w')"
  obtains (ignored) "v = Inr False" "w' = ((fst w)\<lparr>draws := draws (fst w) + 1\<rparr>, snd w)"
  | (handled) i s r where "\<not> inbox_seen ch k (fst w)" "inbox_seen ch k s"
      "accept_inbound e ch k kind p (fst w) = (Inr (Some i), s)"
      "handle i (s, snd w) = (r, w')" "v = (case r of Inl x \<Rightarrow> Inl x | Inr u \<Rightarrow> Inr True)"
proof -
  obtain r t where acc: "accept_inbound e ch k kind p (fst w) = (r, t)" by (cases "accept_inbound e ch k kind p (fst w)")
  have on: "on_db (accept_inbound e ch k kind p) w = (r, (t, snd w))" using acc by (simp add: on_db_def)
  from accept_inbound_cases [OF acc] show thesis
  proof (elim disjE exE conjE)
    fix i assume r: "r = Inr (Some i)" and s: "\<not> inbox_seen ch k (fst w)" "inbox_seen ch k t"
    obtain h u where h: "handle i (t, snd w) = (h, u)" by (cases "handle i (t, snd w)")
    have "w' = u \<and> v = (case h of Inl x \<Rightarrow> Inl x | Inr u \<Rightarrow> Inr True)"
      using assms by (auto simp: consume_message_def bnd_def andthen_def ret_def on r h split: sum.splits)
    with s acc r h show thesis by (intro handled [of t i h]) simp_all
  next
    assume "r = Inr None" "t = (fst w)\<lparr>draws := draws (fst w) + 1\<rparr>"
    with assms show thesis by (intro ignored) (auto simp: consume_message_def bnd_def ret_def on)
  qed
qed

lemma consume_message_keeps:
  assumes "\<And>row. keeps (\<lambda>w. messages_inv K (fst w)) (handle row)"
  shows "keeps (\<lambda>w. messages_inv K (fst w)) (consume_message e ch k kind p handle)"
  unfolding consume_message_def by (intro keeps_intros assms)

lemma consume_message_uses:
  assumes ok: "messages_inv {} (fst w)" and run: "consume_message e ch k kind p handle w = (Inr True, w')"
    and h: "\<And>row. keeps (\<lambda>w. messages_inv {(ch, k)} (fst w)) (handle row)"
  shows "\<not> inbox_seen ch k (fst w) \<and> inbox_seen ch k (fst w')"
proof (rule consume_message_cases [OF run])
  fix i s r
  assume s: "\<not> inbox_seen ch k (fst w)" "inbox_seen ch k s"
    and acc: "accept_inbound e ch k kind p (fst w) = (Inr (Some i), s)" and hr: "handle i (s, snd w) = (r, w')"
  have "messages_inv {(ch, k)} (fst (s, snd w))"
    using keepsD [OF keeps_accept_inbound acc ok] s by (simp add: messages_inv_def)
  from keepsD [OF h hr this] s show ?thesis by (simp add: messages_inv_def)
qed simp

text \<open>What has been seen stays seen.\<close>

lemma messages_inv_seen: "messages_inv {(ch, k)} s \<longleftrightarrow> messages_inv {} s \<and> inbox_seen ch k s"
  by (auto simp: messages_inv_def)

lemma consume_message_step:
  assumes ok: "messages_inv {} (fst w)" and run: "consume_message e ch k kind p handle w = (v, w')"
    and h: "\<And>K row. keeps (\<lambda>w. messages_inv K (fst w)) (handle row)"
  shows "messages_inv {} (fst w') \<and> (inbox_seen ch' k' (fst w) \<longrightarrow> inbox_seen ch' k' (fst w'))"
proof -
  have "messages_inv K (fst w')" if "messages_inv K (fst w)" for K
    using keepsD [OF consume_message_keeps [OF h] run, of K] that .
  then show ?thesis using ok messages_inv_seen by blast
qed

sublocale decision_runtime \<subseteq> telegram: single_use "process_item e cfg tg rs" telegram_use
  "\<lambda>k w. inbox_seen ''TELEGRAM'' k (fst w)" "\<lambda>w. messages_inv {} (fst w)"
  for e cfg tg
proof
  fix w w' :: "db \<times> 'w world" and i b k
  assume "messages_inv {} (fst w)" "process_item e cfg tg rs i w = (Inr b, w')" "telegram_use i b = Some k"
  then show "\<not> inbox_seen ''TELEGRAM'' k (fst w) \<and> inbox_seen ''TELEGRAM'' k (fst w')"
    by (cases b) (auto simp: telegram_use_def consume_message_items dest: consume_message_uses [OF _ _ keep.inbound_keeps])
next
  fix w w' :: "db \<times> 'w world" and i v k
  assume "messages_inv {} (fst w)" "process_item e cfg tg rs i w = (v, w')"
  then show "messages_inv {} (fst w') \<and> (inbox_seen ''TELEGRAM'' k (fst w) \<longrightarrow> inbox_seen ''TELEGRAM'' k (fst w'))"
    unfolding consume_message_items by (rule consume_message_step) (rule keep.inbound_keeps)
qed

sublocale decision_runtime \<subseteq> whatsapp: single_use "whatsapp_item e cfg rs" whatsapp_use
  "\<lambda>k w. inbox_seen ''WHATSAPP'' k (fst w)" "\<lambda>w. messages_inv {} (fst w)"
  for e cfg
proof
  fix w w' :: "db \<times> 'w world" and i b k
  assume "messages_inv {} (fst w)" "whatsapp_item e cfg rs i w = (Inr b, w')" "whatsapp_use i b = Some k"
  then show "\<not> inbox_seen ''WHATSAPP'' k (fst w) \<and> inbox_seen ''WHATSAPP'' k (fst w')"
    by (cases b) (auto simp: whatsapp_use_def consume_message_items dest: consume_message_uses [OF _ _ keep.reply_keeps])
next
  fix w w' :: "db \<times> 'w world" and i v k
  assume "messages_inv {} (fst w)" "whatsapp_item e cfg rs i w = (v, w')"
  then show "messages_inv {} (fst w') \<and> (inbox_seen ''WHATSAPP'' k (fst w) \<longrightarrow> inbox_seen ''WHATSAPP'' k (fst w'))"
    unfolding consume_message_items by (rule consume_message_step) (rule keep.reply_keeps)
qed

interpretation direct: decision_runtime None
  by unfold_locales simp

text \<open>A message that has been seen is ignored, whoever sends it.\<close>

lemma seen_message_ignored:
  assumes "inbox_seen ''TELEGRAM'' (ti_message_id i) (fst w)"
  shows "process_item e cfg tg rs i w = (Inr False, ((fst w)\<lparr>draws := draws (fst w) + 1\<rparr>, snd w))"
proof -
  obtain v w' where run: "process_item e cfg tg rs i w = (v, w')" by (cases "process_item e cfg tg rs i w")
  from run [unfolded consume_message_items(1)] show ?thesis
    by (rule consume_message_cases) (use run assms in simp_all)
qed

section \<open>What a button press decides\<close>

lemma channel_decide_direct:
  assumes run: "channel_decide e cfg rs a m u ac w = (Inr (), w')"
    and direct: "rs = None \<or> \<not> truthy (ap_workflow_request_id a)"
  shows "\<exists>a'. find_approval (row_id a) None (fst w) = Some a' \<and> decidable m (clock (fst w)) a'
    \<and> t_approvals (fst w') = decide_rows (fst w) a' (decided_status ac) u \<and> t_merchants (fst w') = t_merchants (fst w)
    \<and> clock (fst w') = clock (fst w) \<and> snd w' = snd w"
proof (cases "ac = CA_APPROVE")
  case True
  with run direct show ?thesis
    by (auto simp: channel_decide_def request_def run_simps decided_status_def approve_Inr)
next
  case False
  with run direct show ?thesis
    by (auto simp: channel_decide_def request_def run_simps decided_status_def reject_Inr)
qed

text \<open>Sending and answering do not touch the database.\<close>

lemma bot_answer_fst: "bot_answer tg i words w = (r, w') \<Longrightarrow> fst w' = fst w"
proof -
  have "keeps (\<lambda>v. fst v = fst w) (bot_answer tg i words)"
    unfolding bot_answer_def by (intro keeps_intros keeps_on_world [where P = "\<lambda>s. s = fst w"])
  then show "bot_answer tg i words w = (r, w') \<Longrightarrow> fst w' = fst w" by (auto dest: keepsD)
qed

lemma close_card_fst: "close_card tg i a ac amount w = (r, w') \<Longrightarrow> fst w' = fst w"
proof -
  have "keeps (\<lambda>v. fst v = fst w) (close_card tg i a ac amount)"
    unfolding close_card_def by (intro keeps_intros keeps_on_world [where P = "\<lambda>s. s = fst w"])
  then show "close_card tg i a ac amount w = (r, w') \<Longrightarrow> fst w' = fst w" by (auto dest: keepsD)
qed

definition chat_of :: "merchant_row \<Rightarrow> json option" where
  "chat_of m = map_of (m_settings m) ''telegram_chat_id''"

lemma chat_settings_chat: "map_of (chat_settings i d) ''telegram_chat_id'' = Some (JStr (ti_chat_id i))"
  using dget_dset by (simp add: chat_settings_def Let_def dget_def)

lemma change_message_frame:
  "change_message i f s = (r, t) \<Longrightarrow> t_approvals t = t_approvals s \<and> clock t = clock s \<and> t_users t = t_users s
     \<and> t_merchants t = t_merchants s"
  by (auto simp: change_message_def change_row_def split: option.splits if_splits)

lemma auto_link_effect:
  assumes run: "auto_link i row m s = (r, t)" and m: "by_id (row_id m) (t_merchants s) = Some m"
  shows "t_approvals t = t_approvals s \<and> clock t = clock s \<and> t_users t = t_users s
    \<and> (r = Inr () \<longrightarrow> (\<exists>m'. by_id (row_id m) (t_merchants t) = Some m' \<and> chat_of m' = Some (JStr (ti_chat_id i))))"
proof (cases "chat_of m = Some (JStr (ti_chat_id i))")
  case True
  with run m show ?thesis by (auto simp: auto_link_def chat_of_def ret_def)
next
  case False
  let ?f = "\<lambda>x. x\<lparr>m_settings := chat_settings i (m_settings m)\<rparr>"
  obtain u where u: "change_merchant (row_id m) ?f s = (Inr (), u)"
    and cm: "t_merchants u = upd (\<lambda>r. row_id r = row_id m) (mutate (clock s) ?f) (t_merchants s)"
      "t_approvals u = t_approvals s" "clock u = clock s" "t_users u = t_users s"
    by (simp add: change_merchant_def change_row_def)
  obtain r' v where v: "change_message row (\<lambda>x. x\<lparr>cm_merchant_id := Some (row_id m)\<rparr>) u = (r', v)"
    by (cases "change_message row (\<lambda>x. x\<lparr>cm_merchant_id := Some (row_id m)\<rparr>) u")
  have run': "atomic rollback (andthen (change_merchant (row_id m) ?f) (change_message row (\<lambda>x. x\<lparr>cm_merchant_id := Some (row_id m)\<rparr>))) s = (r, t)"
    using run False by (simp add: auto_link_def chat_of_def request_def)
  have rt: "r = r' \<and> (t = v \<or> t = rollback s v \<and> r' \<noteq> Inr ())"
    using run' by (cases r') (auto simp: atomic_def andthen_def bnd_def u v)
  have "by_id (row_id m) (t_merchants u) = Some (mutate (clock s) ?f m)"
    using m find_upd_key [of row_id "mutate (clock s) ?f" "row_id m" "t_merchants s"] by (simp add: cm by_id_def)
  moreover have "chat_of (mutate (clock s) ?f m) = Some (JStr (ti_chat_id i))"
    by (simp add: chat_of_def mutate_def chat_settings_chat)
  ultimately show ?thesis
    using rt cm change_message_frame [OF v] by (auto simp: rollback_def)
qed

lemma press_button_effect:
  assumes run: "press_button e cfg tg rs i row appr ac w = (Inr (), w')"
    and a: "find_approval appr None (fst w) = Some a" and m: "by_id (ap_merchant_id a) (t_merchants (fst w)) = Some m"
    and u: "active_user_of m (fst w) = Some u" and ac: "ac \<noteq> CA_MODIFY"
    and direct: "rs = None \<or> \<not> truthy (ap_workflow_request_id a)"
  shows "\<exists>a'. find_approval (row_id a) None (fst w) = Some a' \<and> decidable (row_id m) (clock (fst w)) a'
    \<and> t_approvals (fst w') = decide_rows (fst w) a' (decided_status ac) (row_id u)
    \<and> (\<exists>m'. by_id (row_id m) (t_merchants (fst w')) = Some m' \<and> chat_of m' = Some (JStr (ti_chat_id i)))"
proof -
  have mid: "by_id (row_id m) (t_merchants (fst w)) = Some m" using m by_id_mem [OF m] by simp
  have get: "approvals_get appr None (fst w) = (Inr a, fst w)" by (simp add: approvals_get_def exec_defs require_def a)
  obtain r t where link: "auto_link i row m (fst w) = (r, t)" by (cases "auto_link i row m (fst w)")
  note eff = auto_link_effect [OF link mid]
  from eff have u': "active_user_of m t = Some u" using u by (simp add: active_user_of_def)
  from run have r: "r = Inr ()"
    by (cases r) (auto simp: press_button_def bnd_def andthen_def attempt_def on_db_def gets_def get m link)
  with run ac u' obtain w1 where dec: "channel_decide e cfg rs a (row_id m) (row_id u) ac (t, snd w) = (Inr (), w1)"
    and close: "close_card tg i a (channel_action_str ac) (payload_amount (ap_proposal_payload a)) w1 = (Inr (), w')"
    by (auto simp: press_button_def bnd_def andthen_def attempt_def on_db_def gets_def get m link split: prod.splits sum.splits)
  from channel_decide_direct [OF dec direct] obtain a' where a': "find_approval (row_id a) None t = Some a'"
    "decidable (row_id m) (clock t) a'" "t_approvals (fst w1) = decide_rows t a' (decided_status ac) (row_id u)"
    "t_merchants (fst w1) = t_merchants t" by auto
  from a' eff r close_card_fst [OF close] show ?thesis
    by (intro exI [of _ a']) (auto simp: find_approval_def decide_rows_def)
qed

text \<open>On WhatsApp the approval has to belong to the merchant whose number sent the reply: whatever the reply asks and
  however it ends, the approvals of every other merchant stay as they are.\<close>

lemma decide_rows_others:
  assumes "approvals_ok e s" and "find_approval i None s = Some a" and "ap_merchant_id a = m"
    and "x \<in> set (t_approvals s)" and "ap_merchant_id x \<noteq> m"
  shows "x \<in> set (decide_rows s a st u)"
proof -
  have "a \<in> set (t_approvals s)" using find_approval_mem [OF assms(2)] by simp
  with assms(1,4) have "row_id x = row_id a \<Longrightarrow> x = a"
    by (metis approvals_ok_def distinct_keyD table_ok_distinct)
  with assms show ?thesis by (auto simp: decide_rows_def in_set_upd)
qed

lemma request_outcome: "request p s = (r, t) \<Longrightarrow> (\<exists>a. r = Inr a \<and> p s = (Inr a, t)) \<or> (\<exists>u. t = rollback s u)"
  by (auto simp: request_def atomic_def split: prod.splits sum.splits)

lemma channel_decide_others:
  assumes run: "channel_decide e cfg rs a m u ac w = (r, w')" and ok: "approvals_ok e (fst w)"
    and direct: "rs = None \<or> \<not> truthy (ap_workflow_request_id a)"
    and x: "x \<in> set (t_approvals (fst w))" "ap_merchant_id x \<noteq> m"
  shows "x \<in> set (t_approvals (fst w'))"
proof -
  have n: "\<not> (truthy (ap_workflow_request_id a) \<and> rs \<noteq> None)" using direct by blast
  have dec: "x \<in> set (t_approvals t)"
    if "request (bnd p (\<lambda>_. ret ())) (fst w) = (v, t)" and
       "\<And>b t. p (fst w) = (Inr b, t) \<Longrightarrow> \<exists>a' st. find_approval (row_id a) None (fst w) = Some a' \<and> decidable m (clock (fst w)) a'
          \<and> t_approvals t = decide_rows (fst w) a' st u" for p :: "approval_row m" and v t
  proof -
    from request_outcome [OF that(1)] show ?thesis
    proof
      assume "\<exists>b. v = Inr b \<and> bnd p (\<lambda>_. ret ()) (fst w) = (Inr b, t)"
      then obtain b where "p (fst w) = (Inr b, t)" by (auto simp: run_simps)
      from that(2) [OF this] x show ?thesis
        by (auto simp: decidable_def intro: decide_rows_others [OF ok])
    next
      assume "\<exists>q. t = rollback (fst w) q"
      with x show ?thesis by (auto simp: rollback_def)
    qed
  qed
  show ?thesis
  proof (cases "ac = CA_APPROVE")
    case True
    show ?thesis
    proof (cases "token_for e (approval_service_of cfg) (clock (fst w)) a m")
      case (Inl y)
      with run n True x show ?thesis by (auto simp: channel_decide_def exec_defs on_db_def)
    next
      case (Inr tok)
      with run n True have "request (bnd (approval_approve e (approval_service_of cfg) (row_id a) m u tok) (\<lambda>_. ret ())) (fst w) = (r, fst w')"
        by (auto simp: channel_decide_def bnd_def on_db_def gets_def lift_def split: prod.splits sum.splits)
      then show ?thesis by (rule dec) (auto simp: approve_Inr)
    qed
  next
    case False
    with run n have "request (bnd (approval_reject e (row_id a) m u) (\<lambda>_. ret ())) (fst w) = (r, fst w')"
      by (auto simp: channel_decide_def bnd_def on_db_def gets_def split: prod.splits sum.splits)
    then show ?thesis by (rule dec) (auto simp: reject_Inr)
  qed
qed

lemma needs_details_frame: "needs_details row s = (r, t) \<Longrightarrow> t_approvals t = t_approvals s"
  by (auto simp: needs_details_def dest!: request_outcome change_message_frame simp: rollback_def)

lemma whatsapp_press_others:
  assumes run: "whatsapp_press e cfg None i appr ac w = (r, w')" and ok: "approvals_ok e (fst w)"
    and x: "x \<in> set (t_approvals (fst w))"
    and other: "\<And>m. sender_merchant (wi_sender i) (fst w) = Some m \<Longrightarrow> ap_merchant_id x \<noteq> row_id m"
  shows "x \<in> set (t_approvals (fst w'))"
proof (cases "sender_merchant (wi_sender i) (fst w)")
  case None
  with run x show ?thesis by (auto simp: whatsapp_press_def bnd_def on_db_def gets_def ret_def)
next
  case (Some m)
  show ?thesis
  proof (cases "active_user_of m (fst w)")
    case None
    with run Some x show ?thesis by (auto simp: whatsapp_press_def bnd_def on_db_def gets_def ret_def)
  next
    case (Some u)
    show ?thesis
    proof (cases "find_approval appr None (fst w)")
      case None
      with run \<open>sender_merchant _ _ = Some m\<close> Some x show ?thesis
        by (auto simp: whatsapp_press_def bnd_def on_db_def gets_def approvals_get_def require_def ret_def raise_def)
    next
      fix a assume a: "find_approval appr None (fst w) = Some a"
      note evals = whatsapp_press_def bnd_def on_db_def gets_def approvals_get_def require_def ret_def raise_def
      show ?thesis
      proof (cases "ac = CA_MODIFY")
        case True
        with run \<open>sender_merchant _ _ = Some m\<close> Some a x show ?thesis
          by (auto simp: evals split: option.splits prod.splits dest: needs_details_frame)
      next
        case False
        with run \<open>sender_merchant _ _ = Some m\<close> Some a have "whatsapp_decide e cfg None a (row_id m) (row_id u) ac w = (r, w')"
          by (auto simp: evals)
        then have "channel_decide e cfg None a (row_id m) (row_id u) ac w = (r, w') \<or> w' = w"
          by (auto simp: whatsapp_decide_def raise_def split: if_splits)
        then show ?thesis
        proof
          assume "channel_decide e cfg None a (row_id m) (row_id u) ac w = (r, w')"
          then show ?thesis by (rule channel_decide_others [OF _ ok _ x other [OF \<open>sender_merchant _ _ = Some m\<close>]]) simp
        qed (simp add: x)
      qed
    qed
  qed
qed

section \<open>Connecting a chat\<close>

lemma say_fst: "say post i words w = (r, w') \<Longrightarrow> fst w' = fst w"
  by (auto simp: say_def bnd_def on_world_def ret_def split: prod.splits sum.splits)

lemma handle_connect_links:
  assumes run: "handle_connect post i words w = (r, w')" and arg: "dropWhile (\<lambda>c. \<not> is_space c) words \<noteq> []"
    and m: "connect_merchant (rest_words words) (fst w) = Some m"
  shows "t_merchants (fst w') = upd (\<lambda>x. row_id x = row_id m)
      (mutate (clock (fst w)) (\<lambda>x. x\<lparr>m_settings := chat_settings i (m_settings m)\<rparr>)) (t_merchants (fst w))
    \<and> t_users (fst w') = t_users (fst w)"
proof -
  have db: "bnd (require (m_phone_number m) x) (\<lambda>phone. andthen (on_world (g phone)) (say post i h)) v = (r', v') \<Longrightarrow> fst v' = fst v"
    for x g h v r' v'
    by (cases "m_phone_number m")
      (auto simp: require_def ret_def raise_def bnd_def andthen_def on_world_def split: prod.splits sum.splits dest: say_fst)
  let ?f = "\<lambda>x. x\<lparr>m_settings := chat_settings i (m_settings m)\<rparr>"
  let ?next = "bnd (require (m_phone_number m) (Exc PyTypeError ([CHR 0x27] @ ''NoneType'' @ [CHR 0x27] @ '' object is not iterable''))) (\<lambda>phone.
      andthen (on_world (modify (register_phone_telegram phone (ti_chat_id i)))) (say post i (linked_text m)))"
  have "handle_connect post i words w = andthen (on_db (request (change_merchant (row_id m) ?f))) ?next w"
    using m by (simp add: handle_connect_def Let_def bnd_def [of "on_db (gets _)"] on_db_def gets_def arg
      del: dropWhile_eq_Nil_conv)
  moreover have "on_db (request (change_merchant (row_id m) ?f)) w = (Inr (), ((fst w)\<lparr>t_merchants := upd (\<lambda>x. row_id x = row_id m)
      (mutate (clock (fst w)) ?f) (t_merchants (fst w))\<rparr>, snd w))"
    by (simp add: on_db_def request_def atomic_def change_merchant_def change_row_def)
  ultimately have "?next ((fst w)\<lparr>t_merchants := upd (\<lambda>x. row_id x = row_id m)
      (mutate (clock (fst w)) ?f) (t_merchants (fst w))\<rparr>, snd w) = (r, w')"
    using run by (simp add: andthen_def bnd_def)
  from db [OF this] show ?thesis by simp
qed

lemma connect_redirects:
  assumes run: "handle_connect post i words w = (r, w')" and arg: "dropWhile (\<lambda>c. \<not> is_space c) words \<noteq> []"
    and m: "connect_merchant (rest_words words) (fst w) = Some m" and chat: "ti_chat_id i \<noteq> []"
    and ident: "merchant_for_phone ident (fst w) = Some m" "\<not> has_at ident"
  shows "fst (resolve_delivery_info ident w') = ti_chat_id i"
proof -
  let ?f = "mutate (clock (fst w)) (\<lambda>x. x\<lparr>m_settings := chat_settings i (m_settings m)\<rparr>)"
  have "merchant_for_phone ident (fst w') = Some (?f m)"
    using handle_connect_links [OF run arg m] ident(1) unfolding merchant_for_phone_def
    by (simp add: find_upd_same mutate_def)
  moreover have "map_of (m_settings (?f m)) ''telegram_chat_id'' = Some (JStr (ti_chat_id i))"
    by (simp add: mutate_def chat_settings_chat)
  ultimately show ?thesis
    using ident(2) chat by (simp add: resolve_delivery_info_def Let_def json_truthy_def py_str_def)
qed

text \<open>The code of a phone number is shown to the chat whose id has the same digits.\<close>

lemma code_shown_to_chat:
  assumes "clean_phone_digits (ti_chat_id i) = clean_phone_digits phone"
    and "get_active_otp (clock (fst w)) phone (snd w) = (Some c, v)" and "c \<noteq> []"
  shows "handle_otp post i w = say post i (code_text c) (fst w, v)"
  using assms by (simp add: handle_otp_def active_code_def get_active_otp_def Let_def bnd_def on_db_def on_world_def gets_def truthy_def)

end
