(* ===== verification/Samples.thy ===== *)
theory Samples
  imports ApprovalLifecycle Activity Inventory Registration Inbox
begin

text \<open>
  Concrete data on which the witnesses evaluate the properties: a cryptography whose hash is the
  identity (hence collision free) and whose tokens all decode to given claims until they expire,
  a merchant, a purchase proposal, its approval, and a session that holds them.
\<close>

definition sample_env :: "dict \<Rightarrow> env" where
  "sample_env c =
     \<lparr>sha256 = (\<lambda>x. x), hmac256 = (\<lambda>k x. k @ x), jwt_encode = (\<lambda>c k a. ''token''),
      jwt_decode = (\<lambda>t k a req now. if expiry_of c * 1000000 \<le> now then ExpiredSignature else Claims c),
      pw_hash = (\<lambda>n p. p), pw_verify = (\<lambda>p h. p = h), uuid_at = (\<lambda>n. of_nat (1000 + n)),
      text_at = (\<lambda>n. ''nonce-'' @ nat_str n), randbelow_at = (\<lambda>n k. n mod k)\<rparr>"

definition sample_service :: approval_service where
  "sample_service = \<lparr>as_secret = ''secret'', as_algorithm = ''HS256'', as_ttl_minutes = 10\<rparr>"

definition sample_now :: int where "sample_now = 1767225600000000"

definition sample_proposal :: purchase_proposal where
  "sample_proposal =
     \<lparr>pp_proposal_id = 5, pp_merchant_id = 1, pp_store_id = 2, pp_supplier_id = 3, pp_sku = ''RICE-25'',
      pp_quantity = Dec 10000 3, pp_unit = ''bag'', pp_unit_price = Dec 95050 2, pp_currency = ''INR'',
      pp_delivery_at = sample_now + days 2, pp_quote_id = ''Q-1''\<rparr>"

definition sample_approval :: approval_row where
  "sample_approval = new_approval (sample_env []) sample_service 6 ''nonce'' sample_now sample_proposal ''API'' 1"

definition sample_claims :: dict where
  "sample_claims = approval_claims sample_now 1 5 6 (ap_order_hash sample_approval) ''nonce'' 10
     (Some (as_utc (ap_expires_at sample_approval)))"

definition empty_db :: db where
  "empty_db = \<lparr>clock = sample_now, draws = 0, t_users = [], t_merchants = [], t_stores = [],
     t_products = [], t_inventory = [], t_inventory_events = [], t_sales = [], t_customers = [],
     t_suppliers = [], t_supplier_products = [], t_orders = [], t_order_items = [], t_negotiations = [],
     t_agent_sessions = [], t_agent_messages = [], t_agent_runs = [], t_approvals = [],
     t_transactions = [], t_settlements = [], t_audit_logs = [], t_a2a_agents = [], t_a2a_messages = [],
     t_voice_sessions = [], t_channel_messages = [], t_outbox_events = [], t_idempotency_keys = [],
     t_refresh_sessions = [], t_otp_challenges = [], t_oauth_challenges = [], t_oauth_identities = [],
     t_order_events = [], t_notifications = []\<rparr>"

definition sample_db :: db where
  "sample_db = empty_db\<lparr>t_approvals := [sample_approval]\<rparr>"

lemmas sample_defs = sample_env_def sample_service_def sample_now_def sample_proposal_def empty_db_def sample_db_def

lemma sample_valid_time [simp]: "valid_time (pp_delivery_at sample_proposal)"
  by (simp add: sample_proposal_def valid_time_def sample_now_def days_def epoch_ordinal_def day_us_def)

lemma sample_fields [simp]:
  "ap_merchant_id sample_approval = 1" "ap_proposal_id sample_approval = 5" "row_id sample_approval = 6"
  "ap_status sample_approval = AS_PENDING" "ap_nonce sample_approval = ''nonce''"
  "as_utc (ap_expires_at sample_approval) = sample_now + 600000000"
  "ap_proposal_payload sample_approval = canonical_payload sample_proposal"
  "ap_channel sample_approval = ''API''" "ap_revision sample_approval = 1"
  "ap_decided_at sample_approval = None" "ap_decided_by_user_id sample_approval = None"
  "ap_workflow_request_id sample_approval = None"
  by (simp_all add: sample_approval_def new_approval_def sample_proposal_def as_utc_def minutes_def
      sample_service_def)

lemma sample_db_fields [simp]:
  "clock sample_db = sample_now" "draws sample_db = 0" "t_approvals sample_db = [sample_approval]"
  "t_outbox_events sample_db = []" "t_audit_logs sample_db = []" "t_notifications sample_db = []"
  by (simp_all add: sample_db_def empty_db_def)

lemma sample_ops [simp]:
  "uuid_at (sample_env c) n = of_nat (1000 + n)" "text_at (sample_env c) n = ''nonce-'' @ nat_str n"
  "sha256 (sample_env c) x = x"
  by (simp_all add: sample_env_def)

lemma sample_find [simp]: "find_approval 6 None sample_db = Some sample_approval"
  by (simp add: find_approval_def)

lemma sample_decidable [simp]: "decidable 1 sample_now sample_approval"
  by (simp add: decidable_def)

lemma sample_verify [simp]:
  "verify_token (sample_env sample_claims) sample_service sample_now sample_approval tok = Inr ()"
  by (simp add: verify_token_ok decode_token_def sample_env_def expected_claims_def sample_claims_def
      expiry_of_def approval_claims_def epoch_seconds_def sample_now_def)

lemma sample_ok: "approvals_ok (sample_env c) sample_db"
  by (simp add: approvals_ok_def table_ok_def approval_wf_def sample_approval_def new_approval_def
      canonical_order_hash_def sample_env_def)

section \<open>An approved order\<close>

definition sample_merchant :: merchant_row where
  "sample_merchant = \<lparr>row_id = 1, created_at = sample_now, updated_at = sample_now, m_name = ''Asha Stores'',
     m_phone_number = None, m_currency = ''INR'', m_spending_limit = Dec 1000000 2, m_gstin = None, m_pan = None,
     m_business_type = ''KIRANA'', m_settings = []\<rparr>"

definition approved_approval :: approval_row where
  "approved_approval = sample_approval\<lparr>ap_status := AS_APPROVED, ap_decided_at := Some sample_now,
     ap_decided_by_user_id := Some 9\<rparr>"

definition order_db :: db where
  "order_db = empty_db\<lparr>t_approvals := [approved_approval], t_merchants := [sample_merchant]\<rparr>"

text \<open>A supplier that answers every order with \<open>res\<close> and counts its calls.\<close>

definition sample_supplier :: "exc + order_result \<Rightarrow> nat order_supplier" where
  "sample_supplier res =
     \<lparr>ad_supplier_id = Some 3, ad_handles_all = False, ad_discover = (\<lambda>r n. (Inr [], n)),
      ad_counter_offer = (\<lambda>q p k i n. (Inr None, n)), ad_place_order = (\<lambda>p k n. (res, Suc n)),
      os_pop_pending = (\<lambda>k n. ([], n)), os_correlation = (\<lambda>q n. None)\<rparr>"

lemma order_db_fields [simp]:
  "clock order_db = sample_now" "draws order_db = 0" "t_approvals order_db = [approved_approval]"
  "t_merchants order_db = [sample_merchant]" "t_orders order_db = []" "t_transactions order_db = []"
  by (simp_all add: order_db_def empty_db_def)

lemma sample_authorized:
  "authorized (sample_env sample_claims) sample_service order_db 6 1 ''token'' approved_approval sample_proposal sample_merchant"
proof -
  have "proposal_of_payload (canonical_payload sample_proposal) = Inr sample_proposal"
    by (rule proposal_payload_roundtrip) (simp_all add: sample_proposal_def positive_def dlt_def dzero_def
        valid_time_def sample_now_def days_def epoch_ordinal_def day_us_def)
  moreover have "verify_token (sample_env sample_claims) sample_service sample_now approved_approval ''token'' = Inr ()"
    using sample_verify [of "''token''"] unfolding verify_token_ok
    by (simp add: approved_approval_def expected_claims_def del: sample_verify)
  moreover have "rat_of (total_amount sample_proposal) \<le> rat_of (m_spending_limit sample_merchant)"
    by (simp add: total_amount_def sample_proposal_def sample_merchant_def rat_of_def dmul_def)
  ultimately show ?thesis
    by (simp add: authorized_def find_approval_def approved_approval_def by_id_def sample_merchant_def)
      (simp add: sample_approval_def new_approval_def canonical_order_hash_def sample_env_def)
qed

lemma sample_uuid_inj: "inj_on (\<lambda>n. of_nat (1000 + n) :: uuid) {i..<1000}"
proof (rule inj_onI)
  fix a b assume "a \<in> {i..<1000}" "b \<in> {i..<1000}" "(of_nat (1000 + a) :: uuid) = of_nat (1000 + b)"
  then have "take_bit 128 (1000 + a) = take_bit 128 (1000 + b)" "a < 1000" "b < 1000"
    by (auto simp: word_of_nat_eq_iff simp del: of_nat_add)
  then show "a = b" by (simp add: take_bit_nat_eq_self)
qed

lemma sample_fresh: "fresh (sample_env c) 1000 order_db"
  using sample_uuid_inj by (simp add: fresh_def order_db_def empty_db_def sample_env_def)

lemma sample_ids_left: "ids_left 1000 order_db = 1000"
  by (simp add: ids_left_def)

lemma sample_is_new: "order_is_new order_db merchant key a p"
  by (simp add: order_is_new_def order_db_def empty_db_def)

text \<open>The execution of that order: it returns, whatever the supplier says, after one call.\<close>

definition sample_key :: string where "sample_key = ''R-1:1:execute''"

abbreviation sample_execution :: "exc + order_result \<Rightarrow> (exc + order_row) \<times> (db \<times> nat)" where
  "sample_execution res \<equiv> order_execute (sample_env sample_claims) sample_service (sample_supplier res) 6 1 ''token''
     sample_key (order_db, 0)"

lemma sample_supplier_ops [simp]:
  "os_pop_pending (sample_supplier res) k v = ([], v)" "ad_place_order (sample_supplier res) p k n = (res, Suc n)"
  "os_correlation (sample_supplier res) q n = None" "ad_supplier_id (sample_supplier res) = Some 3"
  "ad_discover (sample_supplier res) r n = (Inr [], n)"
  by (simp_all add: sample_supplier_def)

lemma sample_executes: obtains y w' where "sample_execution res = (Inr y, w')" and "snd w' = 1"
  using order_execute_returns [of "sample_env sample_claims" sample_service "(order_db, 0)" 6 1 "''token''"
      approved_approval sample_proposal sample_merchant 1000 sample_key "sample_supplier res"]
  by (auto simp: sample_authorized sample_fresh sample_ids_left sample_is_new)

lemma sample_no_order: "order_by_key m k order_db = None"
  by (simp add: order_by_key_def)

lemma sample_orders_ok: "orders_ok order_db"
  by (simp add: orders_ok_def table_ok_def)

section \<open>A run of the workflow\<close>

text \<open>One supplier that quotes 94.00 for what is asked, an authority that answers every request with
  approval 6, an executor that confirms.\<close>

definition sample_quote :: supplier_quote where
  "sample_quote =
     \<lparr>sq_supplier_id = 3, sq_supplier_name = ''Mill'', sq_sku = ''RICE-25'', sq_available_quantity = Dec 500 0,
      sq_unit_price = Dec 9400 2, sq_currency = ''INR'', sq_delivery_at = sample_now + days 2, sq_quote_id = ''Q-1'',
      sq_expires_at = sample_now + days 1\<rparr>"

definition quoting_supplier :: "nat order_supplier" where
  "quoting_supplier = (sample_supplier (Inl (Exc ProviderError ''down'')))
     \<lparr>ad_discover := (\<lambda>r n. (Inr [sample_quote], n))\<rparr>"

definition sample_record :: approval_record where
  "sample_record =
     \<lparr>ar_approval_id = 6, ar_proposal_id = 5, ar_merchant_id = 1, ar_order_hash = ''h'', ar_nonce = ''n'',
      ar_status = AS_PENDING, ar_expires_at = Aware (sample_now + minutes 10)\<rparr>"

definition sample_services :: "nat wf_services" where
  "sample_services =
     \<lparr>sv_now = (\<lambda>n. sample_now),
      sv_forecast = (\<lambda>h d n. (Inr \<lparr>fr_predicted_demand = Dec 12 0, fr_confidence = Dec 5 1,
         fr_forecast_horizon_days = 3, fr_model_name = ''m'', fr_feature_snapshot = []\<rparr>, n)),
      sv_adapters = [quoting_supplier], sv_ask = (\<lambda>rn rid p n. (Inr (sample_record, ''token''), n)),
      sv_decide = (\<lambda>i m ac tok u n. (Inr (sample_record\<lparr>ar_status := ac\<rparr>), n)),
      sv_execute = (\<lambda>p i tok key n. (Inr \<lparr>or_order_id = 7, or_status = OS_CONFIRMED,
         or_supplier_confirmation = Some ''S-1'', or_transaction_id = None\<rparr>, Suc n)),
      sv_record = (\<lambda>v n. (Inr (), n))\<rparr>"

definition sample_workflow :: workflow where
  "sample_workflow = \<lparr>wf_env = sample_env [], wf_uuid5 = (\<lambda>ns x. 5), wf_round = (\<lambda>x. x)\<rparr>"

definition sample_state :: wf_state where
  "sample_state =
     \<lparr>ws_merchant_id = str_uuid 1, ws_store_id = str_uuid 2, ws_request_id = ''R-1'', ws_sku = ''RICE-25'',
      ws_required_quantity = None, ws_unit = ''bag'', ws_target_price = Dec 95 0, ws_max_price = Dec 100 0,
      ws_spending_limit = Dec 5000 0, ws_delivery_requirement = isoformat (sample_now + days 3),
      ws_inventory = \<lparr>wi_quantity_on_hand = Dec 2 0, wi_reorder_point = Dec 5 0,
        wi_captured_at = isoformat sample_now, wi_safety_stock = None\<rparr>,
      ws_sales_history = [], ws_forecast = None, ws_candidates = [], ws_selected = None, ws_history = [],
      ws_correlation = None, ws_price = None, ws_risk = None, ws_proposal = None, ws_revision = None,
      ws_order_hash = None, ws_approval_status = None, ws_approval_id = None, ws_approval_token = None,
      ws_execution_status = None, ws_result = None, ws_failure = None, ws_attempted = [], ws_preferred = None,
      ws_override = False\<rparr>"

lemma sample_times [simp]:
  "parse_iso (isoformat sample_now) = Some sample_now"
  "parse_iso (isoformat (sample_now + days 3)) = Some (sample_now + days 3)"
  by (simp_all add: parse_isoformat valid_time_def sample_now_def days_def epoch_ordinal_def day_us_def)

lemma sample_services_ops [simp]:
  "sv_now sample_services n = sample_now" "sv_adapters sample_services = [quoting_supplier]"
  "sv_record sample_services v n = (Inr (), n)" "sv_ask sample_services rn rid p n = (Inr (sample_record, ''token''), n)"
  "os_correlation quoting_supplier q n = None" "ad_discover quoting_supplier r n = (Inr [sample_quote], n)"
  "ad_supplier_id quoting_supplier = Some 3" "sq_supplier_id sample_quote = 3" "sq_quote_id sample_quote = ''Q-1''"
  "sq_unit_price sample_quote = Dec 9400 2"
  by (simp_all add: sample_services_def quoting_supplier_def sample_quote_def)

definition sample_forecast_result :: forecast_result where
  "sample_forecast_result = \<lparr>fr_predicted_demand = Dec 12 0, fr_confidence = Dec 5 1, fr_forecast_horizon_days = 3,
      fr_model_name = ''m'', fr_feature_snapshot = []\<rparr>"

definition sample_v1 :: wf_state where
  "sample_v1 = sample_state\<lparr>ws_failure := Some '''', ws_revision := Some 1\<rparr>"

definition sample_v2 :: wf_state where
  "sample_v2 = sample_v1\<lparr>ws_required_quantity := Some (Dec 10 0), ws_forecast := Some sample_forecast_result\<rparr>"

definition sample_v3 :: wf_state where
  "sample_v3 = sample_v2\<lparr>ws_candidates := [sample_quote], ws_failure := Some ''''\<rparr>"

definition sample_v4 :: wf_state where
  "sample_v4 = sample_v3\<lparr>ws_selected := Some sample_quote, ws_price := Some (py_float (Dec 9400 2)),
     ws_history := [received_entry sample_quote, accepted_entry False sample_quote], ws_failure := Some ''''\<rparr>"

lemmas sample_v_defs = sample_v4_def sample_v3_def sample_v2_def sample_v1_def sample_state_def

definition sample_request :: purchase_request where
  "sample_request = \<lparr>pr_request_id = Some ''R-1'', pr_sku = ''RICE-25'', pr_quantity = Dec 10 0, pr_unit = ''bag'',
     pr_target_price = Dec 95 0, pr_max_price = Dec 100 0, pr_delivery_deadline = sample_now + days 3,
     pr_merchant_id = 1, pr_store_id = 2\<rparr>"

lemma sample_detect: "run_node sample_workflow sample_services DetectNeed sample_state n = (Inr sample_v1, n)"
  by (simp add: run_node_def detect_need_def sample_v1_def sample_state_def dlt_rat rat_of_def revision_of_def ret_def)

lemma sample_forecast: "run_node sample_workflow sample_services ForecastDemand sample_v1 n = (Inr sample_v2, n)"
  by (simp add: run_node_def forecast_demand_def sample_v2_def sample_v1_def sample_state_def sample_services_def
      sample_workflow_def exec_defs iso_item_def calculate_shortage_def rat_of_def dzero_def dmax_def dlt_rat Let_def
      sample_forecast_result_def)

lemma sample_purchase_request:
  "purchase_request_of sample_v2 = Inr sample_request" "purchase_request_of sample_v3 = Inr sample_request"
  by (simp_all add: purchase_request_of_def sample_v_defs key_item_def iso_item_def uuid_item_def
      check_purchase_request_def positive_def dlt_rat rat_of_def dzero_def sample_request_def)

lemma sample_find_supplier: "run_node sample_workflow sample_services FindSupplier sample_v2 n = (Inr sample_v3, n)"
proof -
  have "eligible sample_v2 sample_quote" by (simp add: eligible_def sample_v_defs)
  then show ?thesis
    by (simp add: run_node_def find_supplier_def sample_purchase_request exec_defs collect_quotes_def
        attempt_def sort_quotes_def sample_v3_def)
qed

lemma sample_acceptable: "validate_offer sample_quote sample_request (quote_constraints sample_quote sample_request) 1 = (True, [])"
  by (simp add: validate_offer_def offer_failures_def sample_quote_def sample_request_def quote_constraints_def
      dlt_rat rat_of_def days_def)

lemma sample_no_counter: "\<not> needs_counter sample_quote sample_request"
  by (simp add: needs_counter_def sample_request_def dlt_rat rat_of_def)

lemma sample_supplier_found: "services_supplier [quoting_supplier] 3 = Inr quoting_supplier"
  by (simp add: services_supplier_def supplier_for_def)

lemma sample_negotiate: "run_node sample_workflow sample_services Negotiate sample_v3 n = (Inr sample_v4, n)"
proof -
  have "ws_candidates sample_v3 = [sample_quote]" "ws_history sample_v3 = []" by (simp_all add: sample_v_defs)
  then show ?thesis
    by (simp add: run_node_def negotiate_def sample_purchase_request exec_defs negotiate_one_def sample_acceptable
        sample_no_counter sample_supplier_found Let_def sample_v4_def del: py_float.simps)
qed

text \<open>The proposal that reaches the gate.\<close>

definition gate_proposal :: purchase_proposal where
  "gate_proposal = \<lparr>pp_proposal_id = 5, pp_merchant_id = 1, pp_store_id = 2, pp_supplier_id = 3, pp_sku = ''RICE-25'',
     pp_quantity = Dec 10 0, pp_unit = ''bag'', pp_unit_price = Dec 9400 2, pp_currency = ''INR'',
     pp_delivery_at = sample_now + days 2, pp_quote_id = ''Q-1''\<rparr>"

definition sample_snapshot :: inventory_snapshot where
  "sample_snapshot = \<lparr>is_product_id = None, is_sku = ''RICE-25'', is_quantity_on_hand = Dec 2 0,
     is_reorder_point = Dec 5 0, is_captured_at = sample_now\<rparr>"

definition sample_v5 :: wf_state where
  "sample_v5 = sample_v4\<lparr>ws_risk := Some (risk_evaluate sample_snapshot gate_proposal sample_quote (Dec 5000 0) (Dec 1 0) False),
     ws_failure := Some ''''\<rparr>"

definition sample_v6 :: wf_state where
  "sample_v6 = sample_v5\<lparr>ws_proposal := Some (canonical_payload gate_proposal),
     ws_order_hash := Some (canonical_order_hash (sample_env []) (canonical_payload gate_proposal)),
     ws_approval_status := Some ''PENDING'', ws_approval_id := Some (str_uuid 6), ws_approval_token := Some ''token''\<rparr>"

lemma sample_workflow_proposal:
  "workflow_proposal (wf_uuid5 sample_workflow) sample_v4 sample_quote = Inr gate_proposal"
  "workflow_proposal (wf_uuid5 sample_workflow) sample_v5 sample_quote = Inr gate_proposal"
  by (simp_all add: workflow_proposal_def sample_workflow_def sample_v5_def sample_v_defs key_item_def uuid_item_def
      check_purchase_proposal_def positive_def dlt_rat rat_of_def dzero_def gate_proposal_def sample_quote_def)

lemma sample_risk: "run_node sample_workflow sample_services RiskCheck sample_v4 n = (Inr sample_v5, n)"
proof -
  have "rr_passed (risk_evaluate sample_snapshot gate_proposal sample_quote (Dec 5000 0) (Dec 1 0) False)"
    by (simp add: risk_passed_iff sample_snapshot_def gate_proposal_def sample_quote_def rat_of_def)
  then show ?thesis
    using sample_workflow_proposal(1)
    by (simp add: run_node_def risk_check_def lift_def key_item_def iso_item_def check_inventory_snapshot_def
        sample_v5_def nonneg_def dle_rat)
      (simp add: sample_v_defs sample_snapshot_def rat_of_def Let_def)
qed

lemma sample_create: "run_node sample_workflow sample_services CreateProposal sample_v5 n = (Inr sample_v6, n)"
proof -
  have "ws_selected sample_v5 = Some sample_quote" by (simp add: sample_v5_def sample_v_defs)
  moreover have "ar_approval_id sample_record = 6" "wf_env sample_workflow = sample_env []"
    by (simp_all add: sample_record_def sample_workflow_def)
  ultimately show ?thesis
    using sample_workflow_proposal(2)
    by (simp add: run_node_def create_proposal_def exec_defs key_item_def Let_def sample_v6_def)
qed

lemma sample_reaches_gate:
  "runtime_start sample_workflow sample_services sample_state (0, th)
     = (Inr (), (0, \<lparr>th_values = sample_v6, th_next = Some HumanApproval\<rparr>))"
proof -
  have f: "\<not> failing sample_v1" "\<not> failing sample_v3" "\<not> failing sample_v4" "\<not> failing sample_v5"
    by (simp_all add: failing_def sample_v5_def sample_v4_def sample_v3_def sample_v1_def)
  show ?thesis
    by (simp add: runtime_start_def recursion_limit_def numeral_eq_Suc invoke_Suc sample_detect sample_forecast
        sample_find_supplier sample_negotiate sample_risk sample_create next_node_def f)
qed

definition refusal :: order_result where
  "refusal = \<lparr>or_order_id = 7, or_status = OS_CANCELLED, or_supplier_confirmation = None, or_transaction_id = None\<rparr>"

section \<open>The workflow over the database\<close>

definition local_services :: "db wf_services" where
  "local_services =
     \<lparr>sv_now = clock, sv_forecast = (\<lambda>h d. raise (Exc PyRuntimeError ''no model'')), sv_adapters = [],
      sv_ask = (\<lambda>rn rid. db_request (sample_env sample_claims) sample_service rn (Some rid)),
      sv_decide = db_decide (sample_env sample_claims) sample_service,
      sv_execute = (\<lambda>p i tok key. raise (Exc PyRuntimeError ''no executor'')), sv_record = (\<lambda>v. ret ())\<rparr>"

definition gate_thread :: wf_thread where
  "gate_thread = \<lparr>th_values = sample_v6, th_next = Some HumanApproval\<rparr>"

lemma gate_thread_simps [simp]:
  "th_next gate_thread = Some HumanApproval"
  "bindE (key_item ''approval_id'' (ws_approval_id (th_values gate_thread))) uuid_item = Inr 6"
  "sv_decide local_services = db_decide (sample_env sample_claims) sample_service"
  by (simp_all add: gate_thread_def sample_v6_def key_item_def uuid_item_def local_services_def)

lemma sample_decides:
  obtains rec s1 where "db_decide (sample_env sample_claims) sample_service 6 1 AS_MODIFIED ''token'' (Some 9) sample_db
    = (Inr rec, s1)"
proof -
  obtain b t where "approval_mark_modified (sample_env sample_claims) sample_service 6 1 9 ''token'' sample_db = (Inr b, t)"
    unfolding mark_modified_Inr by (simp add: unused_id_def)
  then have "db_decide (sample_env sample_claims) sample_service 6 1 AS_MODIFIED ''token'' (Some 9) sample_db
    = (Inr (approval_record_of b), t)"
    by (simp add: db_decide_def request_def atomic_def exec_defs require_def)
  then show thesis by (rule that)
qed

text \<open>A second approval, and two decisions in a row.\<close>

definition other_approval :: approval_row where
  "other_approval = sample_approval\<lparr>row_id := 7, ap_proposal_id := 8, ap_nonce := ''other''\<rparr>"

definition two_db :: db where
  "two_db = empty_db\<lparr>t_approvals := [sample_approval, other_approval]\<rparr>"

lemma two_db_ok: "approvals_ok (sample_env c) two_db"
  using sample_ok [of c]
  by (simp add: approvals_ok_def table_ok_def two_db_def approval_wf_def other_approval_def approval_clash_def empty_db_def)

lemma two_decisions:
  obtains r t r' t' where
    "db_decide (sample_env sample_claims) sample_service 6 1 AS_APPROVED ''token'' (Some 9) two_db = (Inr r, t)"
    "db_decide (sample_env sample_claims) sample_service 7 1 AS_REJECTED ''x'' (Some 9) t = (Inr r', t')"
proof -
  have f: "find_approval 6 None two_db = Some sample_approval" "clock two_db = sample_now" "draws two_db = 0"
    "t_outbox_events two_db = []" "t_audit_logs two_db = []"
    by (simp_all add: find_approval_def two_db_def empty_db_def)
  obtain b t where a: "approval_approve (sample_env sample_claims) sample_service 6 1 9 ''token'' two_db = (Inr b, t)"
    unfolding approve_Inr by (simp add: f unused_id_def)
  then have t: "t_approvals t = decide_rows two_db sample_approval AS_APPROVED 9" "clock t = sample_now" "draws t = 2"
    "(\<forall>x \<in> set (t_outbox_events t). row_id x = 1000)" "(\<forall>x \<in> set (t_audit_logs t). row_id x = 1001)"
    unfolding approve_Inr by (auto simp: f outbox_event_def audit_log_def)
  then have g: "find_approval 7 None t = Some other_approval"
    by (simp add: find_approval_def decide_rows_def two_db_def other_approval_def mutate_def decided_def)
  have "decidable 1 sample_now other_approval" by (simp add: decidable_def other_approval_def)
  then obtain b' t' where r: "approval_reject (sample_env sample_claims) 7 1 9 t = (Inr b', t')"
    unfolding reject_Inr using g t by (fastforce simp: unused_id_def)
  have "db_decide (sample_env sample_claims) sample_service 6 1 AS_APPROVED ''token'' (Some 9) two_db
      = (Inr (approval_record_of b), t)"
    using a by (simp add: db_decide_def request_def atomic_def exec_defs require_def)
  moreover have "db_decide (sample_env sample_claims) sample_service 7 1 AS_REJECTED ''x'' (Some 9) t
      = (Inr (approval_record_of b'), t')"
    using r by (simp add: db_decide_def request_def atomic_def exec_defs require_def)
  ultimately show thesis by (rule that)
qed

text \<open>The execute node over the database.\<close>

definition exec_services :: "exc + order_result \<Rightarrow> (db \<times> nat) wf_services" where
  "exec_services res =
     \<lparr>sv_now = (\<lambda>w. clock (fst w)), sv_forecast = (\<lambda>h d. raise (Exc PyRuntimeError ''no model'')), sv_adapters = [],
      sv_ask = (\<lambda>rn rid p. raise (Exc PyRuntimeError ''no authority'')),
      sv_decide = (\<lambda>i m ac tok u. raise (Exc PyRuntimeError ''no authority'')),
      sv_execute = db_execute (sample_env sample_claims) sample_service [sample_supplier res], sv_record = (\<lambda>v. ret ())\<rparr>"

lemma gate_proposal_valid: "validate_proposal (canonical_payload gate_proposal) = Inr gate_proposal"
proof -
  have "proposal_of_payload (canonical_payload gate_proposal) = Inr gate_proposal"
    by (rule proposal_payload_roundtrip) (simp_all add: gate_proposal_def positive_def dlt_def dzero_def
        valid_time_def sample_now_def days_def epoch_ordinal_def day_us_def)
  then show ?thesis by (simp add: validate_proposal_def)
qed

lemma sample_key_v6: "execution_key sample_v6 = sample_key"
  by (simp add: execution_key_def sample_v6_def sample_v5_def sample_v_defs revision_of_def sample_key_def int_str_def
      nat_str_def nat_digs.simps dchar_def hexdigits_def)

lemma sample_db_executes:
  obtains r w' where "db_execute (sample_env sample_claims) sample_service [sample_supplier res] sample_proposal 6 ''token''
    (execution_key sample_v6) (order_db, 0) = (Inr r, w')" and "snd w' = 1"
proof -
  obtain y w' where y: "sample_execution res = (Inr y, w')" "snd w' = 1" by (rule sample_executes)
  have "pp_supplier_id sample_proposal = 3" "pp_merchant_id sample_proposal = 1" by (simp_all add: sample_proposal_def)
  with y(1) have "db_execute (sample_env sample_claims) sample_service [sample_supplier res] sample_proposal 6 ''token''
    (execution_key sample_v6) (order_db, 0) = (Inr (order_result_of y), w')"
    unfolding db_execute_Inr by (intro exI [of _ "sample_supplier res"] exI [of _ y]) (simp add: supplier_for_def sample_key_v6)
  with y(2) show thesis by (rule that [rotated])
qed

section \<open>A confirmed receipt\<close>

definition sample_item :: confirm_item where
  "sample_item =
     \<lparr>ci_line_id = 21, ci_name = ''Rice 25 kg'', ci_sku = ''RICE-25'', ci_barcode = None, ci_category = None,
      ci_brand = None, ci_description = None, ci_quantity = Dec 4 0, ci_unit = ''bag'', ci_unit_price = None,
      ci_purchase_price = None, ci_selling_price = None, ci_mrp = None, ci_gst_rate = None, ci_tax_amount = None,
      ci_discount = None, ci_total_amount = None, ci_expiry_date = None, ci_batch_number = None,
      ci_confidence = Dec 9 1, ci_field_confidence = [], ci_source_text = None, ci_edited_fields = []\<rparr>"

definition sample_confirm :: confirm_request where
  "sample_confirm = \<lparr>cr_scan_id = 20, cr_store_id = 2, cr_idempotency_key = ''confirm-1'', cr_receipt = empty_receipt,
     cr_items = [sample_item]\<rparr>"

definition sample_store :: store_row where
  "sample_store = \<lparr>row_id = 2, created_at = sample_now, updated_at = sample_now, st_merchant_id = 1, st_name = ''Main'',
     st_timezone = ''Asia/Kolkata'', st_address = []\<rparr>"

definition shop_db :: db where "shop_db = empty_db\<lparr>t_stores := [sample_store]\<rparr>"

lemma shop_db_fields [simp]:
  "clock shop_db = sample_now" "draws shop_db = 0" "t_stores shop_db = [sample_store]" "t_products shop_db = []"
  "t_inventory shop_db = []" "t_inventory_events shop_db = []" "t_idempotency_keys shop_db = []"
  "t_outbox_events shop_db = []" "t_notifications shop_db = []" "t_audit_logs shop_db = []"
  by (simp_all add: shop_db_def empty_db_def)

lemma sample_item_fields [simp]:
  "ci_sku sample_item = ''RICE-25''" "ci_barcode sample_item = None" "ci_quantity sample_item = Dec 4 0"
  by (simp_all add: sample_item_def)

lemma sample_line_free: "line_matches [] [] sample_item = Inr (None, None)"
  by (simp add: line_matches_def ix_get_def Let_def)

lemma sample_confirms:
  obtains resp t where "confirm_scanned (sample_env c) 1 9 sample_confirm None shop_db = (Inr resp, t)"
proof -
  have "\<exists>resp t. confirm_scanned (sample_env c) 1 9 sample_confirm None shop_db = (Inr resp, t)"
    by (simp add: confirm_scanned_def confirm_receipt_def begin_confirmation_def gate_open_def idem_find_def add_idem_def
        new_uuid_def exec_defs add_row_def idem_row_def receipt_body_def get_store_def require_def sample_confirm_def
        sample_store_def merchant_products_def sku_index_def barcode_index_def receive_line_def sample_line_free Let_def
        line_product_def add_product_def ensure_inventory_def find_inventory_def record_event_def apply_event_def
        change_row_def is_low_def alert_low_def dlt_rat dle_rat rat_of_def dzero_def dadd_def
        add_outbox_def add_notification_def audit_record_def add_audit_def idem_complete_def)
  then show thesis using that by blast
qed

text \<open>Dropping the line changes the text that is hashed.\<close>

lemma sample_confirm_hashes:
  "canonical_order_hash (sample_env c) (confirm_request_json (sample_confirm\<lparr>cr_items := []\<rparr>))
     \<noteq> canonical_order_hash (sample_env c) (confirm_request_json sample_confirm)"
  by (simp add: canonical_order_hash_def sample_env_def canonical_json_def confirm_request_json_def sample_confirm_def)

text \<open>Ten bags of one product on hand.\<close>

definition stock_row :: inventory_row where
  "stock_row = \<lparr>row_id = 30, created_at = sample_now, updated_at = sample_now, inv_merchant_id = 1, inv_store_id = 2,
     inv_product_id = 4, inv_quantity_on_hand = Dec 10 0, inv_reserved_quantity = Dec 0 0, inv_reorder_point = Dec 5 0\<rparr>"

definition stock_db :: db where "stock_db = shop_db\<lparr>t_inventory := [stock_row]\<rparr>"

lemma stock_db_ok: "stock_ok stock_db"
  by (simp add: stock_ok_def table_ok_def stock_db_def stock_row_def rat_of_def)

lemma stock_db_has: "on_hand 2 4 stock_db = 10"
  by (simp add: on_hand_def stock_db_def stock_row_def rat_of_def)

lemma stock_db_sells:
  obtains i n t where "record_event (sample_env c) 1 2 4 (Dec (-3) 0) ''STOCK_SOLD'' ''POS'' ''k'' [] stock_db = (Inr (i, n), t)"
proof -
  have "\<exists>i n t. record_event (sample_env c) 1 2 4 (Dec (-3) 0) ''STOCK_SOLD'' ''POS'' ''k'' [] stock_db = (Inr (i, n), t)"
    by (simp add: record_event_def apply_event_def find_inventory_def stock_db_def stock_row_def exec_defs require_def
        Let_def dlt_rat dle_rat rat_of_def dadd_def dzero_def change_row_def add_row_def new_uuid_def add_outbox_def
        is_low_def mutate_def)
  then show thesis using that by blast
qed

section \<open>A received message\<close>

definition sample_agent :: a2a_agent_row where
  "sample_agent = \<lparr>row_id = 40, created_at = sample_now, updated_at = sample_now, aa_name = ''Mill'',
     aa_endpoint = ''https://mill.example/a2a'', aa_public_key = None, aa_shared_secret_ref = None, aa_supplier_id = Some 3,
     aa_allowed_intents = [''CANCELLATION''], aa_is_active = True\<rparr>"

definition sample_envelope :: a2a_envelope where
  "sample_envelope = signed_envelope (sample_env [])
     \<lparr>env_message_id = 41, env_correlation_id = 42, env_trace_id = ''trace'', env_sender_agent_id = 40,
      env_receiver_agent_id = a2a_agent_id default_settings, env_intent = CANCELLATION, env_timestamp = sample_now,
      env_expires_at = sample_now + minutes 5, env_nonce = ''nonce-0000000001'',
      env_payload = [(''quote_id'', JStr ''Q-1''), (''reason'', JStr ''out of stock'')], env_signature = ''unsigned'',
      env_idempotency_key = ''cancel-Q-1''\<rparr> (a2a_signing_secret default_settings)"

definition a2a_db :: db where "a2a_db = empty_db\<lparr>t_a2a_agents := [sample_agent]\<rparr>"

lemma sample_receives:
  obtains p t where "receive_message (sample_env []) default_settings sample_envelope a2a_db = (Inr p, t)"
proof -
  let ?v = "\<lparr>env_message_id = 41, env_correlation_id = 42, env_trace_id = ''trace'', env_sender_agent_id = 40,
      env_receiver_agent_id = a2a_agent_id default_settings, env_intent = CANCELLATION, env_timestamp = sample_now,
      env_expires_at = sample_now + minutes 5, env_nonce = ''nonce-0000000001'',
      env_payload = [(''quote_id'', JStr ''Q-1''), (''reason'', JStr ''out of stock'')], env_signature = ''unsigned'',
      env_idempotency_key = ''cancel-Q-1''\<rparr>"
  have skew: "a2a_max_clock_skew_seconds default_settings = 300" by (simp add: default_settings_def)
  have v: "verify_envelope (sample_env []) sample_envelope (a2a_signing_secret default_settings)
      (Some (str_uuid (a2a_agent_id default_settings))) 300 sample_now = Inr ()"
    using signed_envelope_verifies [of sample_now ?v 300 "sample_env []" "a2a_signing_secret default_settings"]
    by (simp add: sample_envelope_def minutes_def)
  have f: "env_sender_agent_id sample_envelope = 40" "env_intent sample_envelope = CANCELLATION"
    "env_payload sample_envelope = [(''quote_id'', JStr ''Q-1''), (''reason'', JStr ''out of stock'')]"
    "env_message_id sample_envelope = 41"
    by (simp_all add: sample_envelope_def signed_envelope_def)
  have tp: "typed_payload CANCELLATION [(''quote_id'', JStr ''Q-1''), (''reason'', JStr ''out of stock'')]
      = Inr (CancellationP \<lparr>cnp_order_id = None, cnp_quote_id = Some ''Q-1'', cnp_reason = ''out of stock''\<rparr>)"
    by (simp add: typed_payload_def parse_cancellation_def only_keys_def opt_field_def field_def as_str_def any_def truthy_def)
  have db: "t_a2a_agents a2a_db = [sample_agent]" "clock a2a_db = sample_now" "t_a2a_messages a2a_db = []" "draws a2a_db = 0"
    by (simp_all add: a2a_db_def empty_db_def)
  have "\<exists>p t. receive_message (sample_env []) default_settings sample_envelope a2a_db = (Inr p, t)"
    by (simp add: receive_message_def exec_defs db f require_def sample_agent_def a2a_receive_def authorize_intent_def
        registry_get_def registry_of_def agent_of_row_def skew v sql_repo_def sql_nonce_seen_def sql_idempotency_seen_def
        sql_save_def new_uuid_def add_row_def tp intent_str_def payload_merchant_def conversation_merchant_def
        message_of_envelope_def note_received_def)
  then show thesis using that by blast
qed

text \<open>A counter offer to the catalog.\<close>

definition dear_request :: purchase_request where
  "dear_request = sample_request\<lparr>pr_target_price := Dec 90 0, pr_max_price := Dec 93 0\<rparr>"

definition catalog_constraints :: negotiation_constraints where
  "catalog_constraints = quote_constraints sample_quote dear_request"

lemma dear_counter:
  "validate_offer sample_quote dear_request catalog_constraints 1 = (False, [''price_limit''])"
  "counter_price sample_quote dear_request = Dec 9200 2"
  "py_float (Dec 9200 2) = Dec 920 1" "py_float (Dec 10 0) = Dec 100 1"
  by (simp_all add: validate_offer_def offer_failures_def sample_quote_def dear_request_def sample_request_def
      catalog_constraints_def quote_constraints_def dlt_rat dle_rat rat_of_def days_def counter_price_def quantize_def
      dhalf_def dadd_def dmin_def py_float.simps)

lemma dear_negotiation:
  obtains q' t where "procurement_negotiate (catalog_adapter u) sample_quote dear_request catalog_constraints ''k'' (s, m)
    = (Inr q', t)"
proof -
  let ?q = "sample_quote\<lparr>sq_unit_price := Dec 9200 2\<rparr>"
  have v: "validate_offer ?q dear_request catalog_constraints 2 = (True, [])"
    by (simp add: validate_offer_def offer_failures_def sample_quote_def dear_request_def sample_request_def
        catalog_constraints_def quote_constraints_def dlt_rat rat_of_def days_def)
  have "pr_quantity dear_request = Dec 10 0" "sq_available_quantity sample_quote = Dec 500 0"
    by (simp_all add: dear_request_def sample_request_def sample_quote_def)
  then have "catalog_counter_offer sample_quote (Dec 920 1) (Dec 100 1) ''k'' (s, m) = (Inr (Some ?q), (s, remember ?q m))"
    by (simp add: catalog_counter_offer_def dlt_rat rat_of_def quantize_def dmul_def Let_def)
  then have "procurement_negotiate (catalog_adapter u) sample_quote dear_request catalog_constraints ''k'' (s, m)
      = (Inr ?q, (s, remember ?q m))"
    using \<open>pr_quantity dear_request = _\<close>
    by (simp add: procurement_negotiate_def dear_counter catalog_adapter_def exec_defs require_def v del: py_float.simps)
  then show thesis by (rule that)
qed

section \<open>A signed-in user\<close>

definition access :: dict where
  "access = [(''sub'', JStr (str_uuid 9)), (''merchant_id'', JStr (str_uuid 1)), (''type'', JStr ''access''),
     (''exp'', JInt (epoch_seconds sample_now + 1800)), (''iat'', JInt (epoch_seconds sample_now))]"

definition sample_user :: user_row where
  "sample_user = \<lparr>row_id = 9, created_at = sample_now, updated_at = sample_now, u_merchant_id = 1,
     u_email = ''asha@example.com'', u_password_hash = None, u_role = ''OWNER'', u_is_active = True,
     u_is_email_verified = True, u_is_phone_verified = False\<rparr>"

definition user_db :: db where "user_db = empty_db\<lparr>t_users := [sample_user]\<rparr>"

lemma sample_principal:
  obtains p t where "get_current_principal (sample_env access) cfg tok user_db = (Inr p, t)"
proof -
  have "\<exists>p t. get_current_principal (sample_env access) cfg tok user_db = (Inr p, t)"
    by (simp add: get_current_principal_def exec_defs require_def token_principal_def sample_env_def access_def expiry_of_def
        uuid_claim_def sid_claim_def json_truthy_def user_db_def empty_db_def sample_user_def epoch_seconds_def sample_now_def)
  then show thesis using that by blast
qed

definition production :: settings where
  "production = default_settings\<lparr>app_env := ''production'', app_checkpointer := ''postgres'',
     auth_jwt_secret := ''0123456789abcdef0123456789abcdef'', auth_approval_secret := ''1123456789abcdef0123456789abcdef'',
     auth_otp_secret := ''2123456789abcdef0123456789abcdef'', a2a_signing_secret := ''3123456789abcdef0123456789abcdef''\<rparr>"

lemma production_loads: "load_settings production = Inr production"
proof -
  have "fields_ok production" using default_settings_ok by (simp add: fields_ok_def production_def)
  moreover have "validate_production production = Inr production"
    by (simp add: validate_production_def production_def default_settings_def weak_secret_def startswith_def llm_check_def
        whatsapp_values_def truthy_def)
  moreover have "production\<lparr>sarvam_api_key := normalize_sarvam_key (sarvam_api_key production)\<rparr> = production"
    by (simp add: normalize_sarvam_key_def production_def default_settings_def)
  ultimately show ?thesis by (simp add: load_settings_def)
qed

section \<open>A modified approval\<close>

lemma sample_modifies:
  obtains b tok t where "approval_modify (sample_env []) sample_service 6 1 9 None (Some (Dec 900 0)) sample_db = (Inr (b, tok), t)"
proof -
  let ?p = "sample_proposal\<lparr>pp_proposal_id := 1001, pp_unit_price := Dec 900 0\<rparr>"
  have r: "revised_proposal 1001 1 (canonical_payload sample_proposal) None (Some (Dec 900 0)) = Inr ?p"
    by (simp add: revised_proposal_def item_as_payload item_str_payload payload_lookup or_fail_def dec_or_def deq_rat
        rat_of_def dzero_def dmin_def dlt_rat check_purchase_proposal_def positive_def)
      (simp add: sample_proposal_def rat_of_def dlt_rat dzero_def)
  have "\<exists>b tok t. approval_modify (sample_env []) sample_service 6 1 9 None (Some (Dec 900 0)) sample_db = (Inr (b, tok), t)"
    by (simp add: approval_modify_def approvals_get_def exec_defs require_def verify_owner_and_state_def change_approval_def
        change_row_def approval_audit_def add_audit_def new_uuid_def add_row_def r approval_create_def new_text_def
        new_approval_def approvals_add_def approval_clash_def add_outbox_def add_notification_def Let_def
        mutate_def decided_def audit_log_def outbox_event_def)
  then show thesis using that by blast
qed

section \<open>Signing in\<close>

definition no_provider :: oauth_provider_api where
  "no_provider = \<lparr>op_decode = (\<lambda>p t c n. None), op_token = (\<lambda>c i s r. (400, []))\<rparr>"

definition sample_world :: "unit world" where
  "sample_world = \<lparr>wd_chats = [], wd_otps = [], wd_out = ()\<rparr>"

definition sample_session :: refresh_row where
  "sample_session = new_session 7 sample_now default_settings sample_user ''first'' None"

definition session_db :: db where "session_db = user_db\<lparr>t_refresh_sessions := [sample_session]\<rparr>"

definition session_world :: "db \<times> unit world" where "session_world = (session_db, sample_world)"

definition sample_caller :: principal where
  "sample_caller = \<lparr>pl_user_id = 9, pl_merchant_id = 1, pl_role = ''OWNER'', pl_session_id = Some 7\<rparr>"

lemma session_db_ok: "sessions_ok session_db"
  by (simp add: sessions_ok_def session_db_def table_ok_def)

lemma session_world_ok: "sessions_ok (fst session_world)"
  by (simp add: session_world_def session_db_ok)

lemma session_db_fields [simp]:
  "clock session_db = sample_now" "draws session_db = 0" "t_users session_db = [sample_user]"
  "t_refresh_sessions session_db = [sample_session]"
  by (simp_all add: session_db_def user_db_def empty_db_def)

lemma sample_session_fields [simp]:
  "row_id sample_session = 7" "rs_user_id sample_session = 9" "rs_merchant_id sample_session = 1"
  "rs_token_hash sample_session = ''first''" "rs_revoked_at sample_session = None" "rs_device_name sample_session = None"
  "as_utc (rs_expires_at sample_session) = sample_now + days (auth_refresh_token_days default_settings)"
  by (simp_all add: sample_session_def new_session_def sample_user_def as_utc_def)

lemma refresh_days: "0 < days (auth_refresh_token_days default_settings)"
  by (simp add: days_def default_settings_def)

lemma sample_session_found: "session_by_token (sample_env c) ''first'' session_db = Some sample_session"
  by (simp add: session_by_token_def token_digest_def)

lemma sample_user_fields [simp]:
  "row_id sample_user = 9" "u_merchant_id sample_user = 1" "u_is_active sample_user" "u_role sample_user = ''OWNER''"
  by (simp_all add: sample_user_def)

lemma sample_refresh:
  obtains tk t where "route_refresh (sample_env c) default_settings ''first'' None session_db = (Inr tk, t)"
proof -
  have "\<exists>tk t. route_refresh (sample_env c) default_settings ''first'' None session_db = (Inr tk, t)"
    using refresh_days
    by (simp add: route_refresh_def request_def session_refresh_def exec_defs require_def sample_session_found
        session_dead_def by_id_def change_session_def change_row_def session_issue_def new_text_def new_uuid_def
        add_row_def new_session_def refresh_clash_def token_digest_def mutate_def revoked_def truthy_def Let_def)
  then show thesis using that by blast
qed

lemma sample_refreshes:
  obtains tk w' where
    "auth_step (sample_env c) default_settings d api (Refresh ''first'' None) session_world = (Inr (Tokens tk), w')"
proof -
  obtain tk t where "route_refresh (sample_env c) default_settings ''first'' None session_db = (Inr tk, t)"
    by (rule sample_refresh)
  then have "auth_step (sample_env c) default_settings d api (Refresh ''first'' None) session_world = (Inr (Tokens tk), (t, sample_world))"
    by (simp add: auth_step_def db_call.simps fmapP_def bnd_def ret_def on_db_def session_world_def)
  then show thesis by (rule that)
qed

lemma sample_logout:
  obtains t q t' where "route_logout (sample_env access) sample_caller None session_db = (Inr (), t)"
    "get_current_principal (sample_env access) cfg tok t = (Inr q, t')"
proof -
  have "\<exists>t. route_logout (sample_env access) sample_caller None session_db = (Inr (), t)
     \<and> (\<exists>q t'. get_current_principal (sample_env access) cfg tok t = (Inr q, t'))"
    by (simp add: route_logout_def request_def session_revoke_def revoke_found_def exec_defs sample_caller_def by_id_def
        change_session_def change_row_def truthy_def get_current_principal_def require_def token_principal_def
        sample_env_def access_def expiry_of_def uuid_claim_def sid_claim_def json_truthy_def epoch_seconds_def sample_now_def)
  then show thesis using that by blast
qed

lemma default_otp_limits: "auth_otp_expiry_minutes default_settings = 5" "auth_otp_max_resends default_settings = 3" "auth_otp_max_attempts default_settings = 5"
  by (simp_all add: default_settings_def)

lemma empty_otps_ok: "otps_ok default_settings empty_db"
  using default_settings_ok
  by (simp add: otps_ok_def otps_inv_def empty_db_def table_ok_def in_hour_def checks_left_def by_id_def)

definition google_settings :: settings where
  "google_settings = default_settings\<lparr>google_oauth_client_id := Some ''client''\<rparr>"

definition google_api :: oauth_provider_api where
  "google_api = \<lparr>op_decode = (\<lambda>p t c n. Some [(''sub'', JStr ''g-1''), (''nonce'', JStr ''nonce''),
       (''email'', JStr ''asha@example.com''), (''email_verified'', JBool True)]),
     op_token = (\<lambda>c i s r. (400, []))\<rparr>"

definition sample_exchange :: oauth_exchange_request where
  "sample_exchange = \<lparr>ox_challenge_id = 5, ox_state = ''state'', ox_nonce = ''nonce'', ox_id_token = Some ''id'',
     ox_code = None, ox_redirect_uri = None, ox_device_name = None\<rparr>"

definition google_db :: db where
  "google_db = user_db\<lparr>t_oauth_challenges := [new_oauth_challenge (sample_env []) 5 sample_now GOOGLE ''state'' ''nonce'']\<rparr>"

lemma sample_google:
  obtains tk t where "oauth_exchange (sample_env []) google_settings google_api GOOGLE sample_exchange None google_db
     = (Inr (Authenticated (SignedIn tk)), t)" "tk_user_id tk = str_uuid 9"
proof -
  have "\<exists>tk t. oauth_exchange (sample_env []) google_settings google_api GOOGLE sample_exchange None google_db
     = (Inr (Authenticated (SignedIn tk)), t) \<and> tk_user_id tk = str_uuid 9"
    by (simp add: oauth_exchange_def exec_defs google_db_def user_db_def empty_db_def sample_exchange_def new_oauth_challenge_def
        state_matches_def minutes_def as_utc_def oauth_id_token_def truthy_def oauth_client_id_def google_settings_def
        verifier_verify_def google_api_def token_digest_def require_def oauth_login_def identity_of_def claims_email_def
        json_truthy_def py_str_def sample_user_def lower_def add_identity_def new_uuid_def add_row_def change_row_def
        change_oauth_def sign_in_def session_issue_def new_text_def new_session_def by_id_def mutate_def Let_def)
  then show thesis using that by blast
qed


section \<open>A registration by phone\<close>

definition registration :: dict where
  "registration = [(''sub'', JStr ''919876543210''), (''challenge_id'', JStr (str_uuid 5)), (''provider'', JStr ''OTP''),
     (''type'', JStr ''registration''), (''exp'', JInt (epoch_seconds sample_now + 900)),
     (''iat'', JInt (epoch_seconds sample_now))]"

definition verified_challenge :: otp_row where
  "verified_challenge = (new_challenge (sample_env []) default_settings 5 sample_now ''919876543210'' OP_REGISTRATION ''ip'' ''hash'')
     \<lparr>ot_attempts := 1, ot_verified_at := Some sample_now\<rparr>"

definition registering_db :: db where
  "registering_db = empty_db\<lparr>t_otp_challenges := [verified_challenge]\<rparr>"

definition sample_registration :: registration_request where
  "sample_registration = \<lparr>rg_email = ''asha@example.com'', rg_role = ''merchant'', rg_business_name = ''Asha Stores'',
     rg_store_name = ''Main'', rg_registration_token = ''01234567890123456789'', rg_password = Some ''Secret-12345'',
     rg_phone_number = Some ''9876543210'', rg_gstin = None, rg_pan = None, rg_category = None, rg_address = [],
     rg_device_name = None\<rparr>"

lemma sample_phone: "normalize_phone ''9876543210'' = Inr ''919876543210''"
  by code_simp

lemma sample_role: "lower (strip ''merchant'') \<noteq> ''supplier''"
  by code_simp

lemma sample_token_challenge: "clock s = sample_now \<Longrightarrow>
   token_challenge (sample_env registration) cfg (clock s) tok = Some (True, 5)"
  by (simp add: token_challenge_def registration_token_claims_def sample_env_def registration_def expiry_of_def
      epoch_seconds_def sample_now_def claim_text_def registration_challenge_id_def py_str_def)

lemma registering_ok: "otps_ok default_settings registering_db" "oauth_inv {} registering_db"
  using default_settings_ok
  by (simp_all add: otps_ok_def otps_inv_def registering_db_def empty_db_def table_ok_def in_hour_def checks_left_def by_id_def
    oauth_inv_def verified_challenge_def new_challenge_def otp_row_ok_def otp_spent_def otp_row_left_def default_otp_limits)

lemma sample_registers:
  obtains tk t where "register_account (sample_env registration) default_settings sample_registration registering_db = (Inr tk, t)"
    "clock t = sample_now"
proof -
  have "\<exists>tk t. register_account (sample_env registration) default_settings sample_registration registering_db = (Inr tk, t)
     \<and> clock t = sample_now"
    by (simp add: register_account_def exec_defs registration_token_claims_def sample_env_def registration_def expiry_of_def
      epoch_seconds_def claim_text_def registration_challenge_id_def py_str_def registering_db_def empty_db_def sample_now_def
      sample_registration_def verify_by_otp_def by_id_def verified_challenge_def new_challenge_def or_else_def truthy_def
      sample_phone sample_role change_otp_def change_row_def finish_registration_def phone_taken_def gstin_taken_def tax_id_def add_account_def
      new_uuid_def add_row_def hash_password_def session_issue_def new_text_def new_session_def mutate_def consume_def Let_def)
  then show thesis using that by blast
qed

text \<open>A registration that passes the schema, and a code that went to an e-mail address.\<close>

lemma schema_ok: "check_registration sample_registration = Inr sample_registration"
  by code_simp

lemma sample_route_registers:
  obtains tk t where "route_register (sample_env registration) default_settings sample_registration registering_db = (Inr tk, t)"
proof -
  obtain tk t where "register_account (sample_env registration) default_settings sample_registration registering_db = (Inr tk, t)"
    by (rule sample_registers)
  then have "route_register (sample_env registration) default_settings sample_registration registering_db = (Inr tk, t)"
    by (simp add: route_register_def request_Inr run_simps schema_ok value_errors_Inr)
  then show thesis by (rule that)
qed

definition email_challenge :: otp_row where
  "email_challenge = new_challenge (sample_env []) default_settings 5 sample_now ''asha@example.com'' OP_REGISTRATION ''ip'' ''123456''"

definition email_claims :: dict where
  "email_claims = registration_claims sample_now (''nonce-'' @ nat_str 0) 5 ''asha@example.com'' ''OTP'' 15 (Some ''asha@example.com'')"

definition email_db :: db where "email_db = empty_db\<lparr>t_otp_challenges := [email_challenge]\<rparr>"

lemma sample_email_code:
  obtains tok em t where
    "otp_verify (sample_env email_claims) default_settings 5 ''123456'' None email_db = (Inr (MustRegister tok em), t)"
proof -
  have c: "\<not> challenge_closed sample_now email_challenge" "row_id email_challenge = 5" "ot_attempts email_challenge = 0"
    "ot_max_attempts email_challenge = 5" "ot_otp_hash email_challenge = ''123456''" "ot_purpose email_challenge = OP_REGISTRATION"
    "ot_identifier email_challenge = ''asha@example.com''"
    by (simp_all add: email_challenge_def new_challenge_def challenge_closed_def as_utc_def minutes_def default_otp_limits)
  have u: "user_for_identifier ''asha@example.com'' s = None" if "t_users s = []" for s
    using that by (simp add: user_for_identifier_def has_at_def)
  have "\<exists>tok em t. otp_verify (sample_env email_claims) default_settings 5 ''123456'' None email_db = (Inr (MustRegister tok em), t)"
    by (simp add: otp_verify_def find_challenge_def exec_defs require_def email_db_def by_id_def empty_db_def c u
        change_otp_def change_row_def mutate_def sample_env_def new_text_def Let_def)
  then show thesis using that by blast
qed

end
