(* ===== verification/MockSupplier.thy ===== *)
theory MockSupplier
  imports Activity
begin

text \<open>
  \<open>integrations/suppliers/mock_supplier.py\<close>: the supplier that the application is wired with.  It speaks the agent-to-agent
  protocol with itself: each call of the adapter signs a request, \<open>handle_envelope\<close> verifies and answers it, and the adapter
  verifies the answer.  Its memory (quotes, orders, answers by idempotency key) is a record; what it draws (message ids and
  nonces) comes from an environment of its own.  A call that records its messages runs beside the database, an order keeps
  them for the order service, so the exchange is over any outer state.
\<close>

section \<open>State\<close>

record catalog_item =
  ci_available :: dec
  ci_price :: dec
  ci_lead_days :: int

record mock_state =
  mk_draws :: nat
  mk_calls :: int
  mk_orders :: "string \<rightharpoonup> order_result"
  mk_quotes :: "string \<rightharpoonup> supplier_quote"
  mk_results :: "string \<rightharpoonup> a2a_envelope"
  mk_correlations :: "string \<rightharpoonup> uuid"
  mk_merchants :: "string \<rightharpoonup> uuid"
  mk_pending :: "string \<rightharpoonup> (a2a_envelope \<times> string \<times> uuid) list"

definition empty_mock :: mock_state where
  "empty_mock = \<lparr>mk_draws = 0, mk_calls = 0, mk_orders = Map.empty, mk_quotes = Map.empty, mk_results = Map.empty,
     mk_correlations = Map.empty, mk_merchants = Map.empty, mk_pending = Map.empty\<rparr>"

text \<open>The arguments of the constructor, and the name-based UUIDs of the standard library.\<close>

record mock_supplier =
  mx_env :: env
  mx_uuid5 :: "uuid \<Rightarrow> string \<Rightarrow> uuid"
  mx_name :: string
  mx_buyer :: uuid
  mx_secret :: string
  mx_catalog :: "string \<rightharpoonup> catalog_item"
  mx_fail_every :: int

definition mock_namespace :: uuid where
  "mock_namespace = 0xc0ffee00000040008000000000000001"

definition mock_id :: "mock_supplier \<Rightarrow> uuid" where
  "mock_id x = mx_uuid5 x mock_namespace (mx_name x)"

definition default_catalog :: "(string \<times> catalog_item) list" where
  "default_catalog =
     [(''COLD-COLA-300'', \<lparr>ci_available = Dec 240 0, ci_price = Dec 47000 2, ci_lead_days = 1\<rparr>),
      (''TATA-SALT-1KG'', \<lparr>ci_available = Dec 500 0, ci_price = Dec 2600 2, ci_lead_days = 1\<rparr>),
      (''FORTUNE-OIL-1L'', \<lparr>ci_available = Dec 180 0, ci_price = Dec 14200 2, ci_lead_days = 1\<rparr>),
      (''AASHIRVAAD-ATTA-5KG'', \<lparr>ci_available = Dec 120 0, ci_price = Dec 22000 2, ci_lead_days = 1\<rparr>),
      (''MAGGI-70G'', \<lparr>ci_available = Dec 600 0, ci_price = Dec 1200 2, ci_lead_days = 1\<rparr>),
      (''PARLE-G-100G'', \<lparr>ci_available = Dec 300 0, ci_price = Dec 1000 2, ci_lead_days = 1\<rparr>),
      (''AMUL-BUTTER-100G'', \<lparr>ci_available = Dec 150 0, ci_price = Dec 5600 2, ci_lead_days = 1\<rparr>),
      (''DETTOL-SOAP-75G'', \<lparr>ci_available = Dec 200 0, ci_price = Dec 4000 2, ci_lead_days = 1\<rparr>)]"

type_synonym 'a mock_prog = "(mock_state, exc, 'a) prog"

section \<open>Payloads on the wire\<close>

text \<open>\<open>model_dump(mode="json", exclude={"intent"})\<close>.\<close>

definition request_json :: "purchase_request \<Rightarrow> dict" where
  "request_json r =
     [(''merchant_id'', JStr (str_uuid (pr_merchant_id r))), (''store_id'', JStr (str_uuid (pr_store_id r))),
      (''sku'', JStr (pr_sku r)), (''quantity'', JStr (str_dec (pr_quantity r))), (''unit'', JStr (pr_unit r)),
      (''target_price'', JStr (str_dec (pr_target_price r))), (''max_price'', JStr (str_dec (pr_max_price r))),
      (''delivery_deadline'', JStr (iso_z (pr_delivery_deadline r)))]"

definition quote_fields :: "supplier_quote \<Rightarrow> dict" where
  "quote_fields q =
     [(''quote_id'', JStr (sq_quote_id q)), (''sku'', JStr (sq_sku q)),
      (''available_quantity'', JStr (str_dec (sq_available_quantity q))),
      (''unit_price'', JStr (str_dec (sq_unit_price q))), (''currency'', JStr (sq_currency q)),
      (''delivery_at'', JStr (iso_z (sq_delivery_at q))), (''expires_at'', JStr (iso_z (sq_expires_at q)))]"

definition counter_json :: "string \<Rightarrow> dec \<Rightarrow> dec \<Rightarrow> dict" where
  "counter_json quote quantity price =
     [(''quote_id'', JStr quote), (''quantity'', JStr (str_dec quantity)), (''unit_price'', JStr (str_dec price)),
      (''round'', JInt 1)]"

definition accepted_json :: "purchase_proposal \<Rightarrow> dict" where
  "accepted_json p =
     [(''proposal_id'', JStr (str_uuid (pp_proposal_id p))), (''merchant_id'', JStr (str_uuid (pp_merchant_id p))),
      (''store_id'', JStr (str_uuid (pp_store_id p))), (''supplier_id'', JStr (str_uuid (pp_supplier_id p))),
      (''sku'', JStr (pp_sku p)), (''quantity'', JStr (str_dec (pp_quantity p))), (''unit'', JStr (pp_unit p)),
      (''unit_price'', JStr (str_dec (pp_unit_price p))), (''currency'', JStr (pp_currency p)),
      (''delivery_at'', JStr (iso_z (pp_delivery_at p))), (''quote_id'', JStr (pp_quote_id p))]"

definition decision_json :: "purchase_proposal \<Rightarrow> dict" where
  "decision_json p =
     [(''quote_id'', JStr (pp_quote_id p)), (''reason'', JNull), (''proposal'', JObj (accepted_json p))]"

definition confirmation_json :: "uuid \<Rightarrow> string \<Rightarrow> int \<Rightarrow> dict" where
  "confirmation_json i reference expected =
     [(''order_id'', JStr (str_uuid i)), (''supplier_reference'', JStr reference),
      (''expected_delivery_at'', JStr (iso_z expected))]"

section \<open>The supplier's side\<close>

definition mock_envelope ::
  "mock_supplier \<Rightarrow> int \<Rightarrow> a2a_intent \<Rightarrow> dict \<Rightarrow> uuid \<Rightarrow> uuid \<Rightarrow> uuid \<Rightarrow> string \<Rightarrow> a2a_envelope mock_prog" where
  "mock_envelope x now i payload sender receiver correlation key =
     bnd (gets mk_draws) (\<lambda>n. andthen (modify (\<lambda>m. m\<lparr>mk_draws := n + 2\<rparr>))
     (let v = \<lparr>env_message_id = uuid_at (mx_env x) n, env_correlation_id = correlation,
               env_trace_id = take 32 (sha256 (mx_env x) key), env_sender_agent_id = sender,
               env_receiver_agent_id = receiver, env_intent = i, env_timestamp = now, env_expires_at = now + minutes 5,
               env_nonce = text_at (mx_env x) (n + 1), env_payload = payload, env_signature = replicate 64 (CHR ''0''),
               env_idempotency_key = key\<rparr>
      in andthen (lift (check_envelope v)) (ret (signed_envelope (mx_env x) v (mx_secret x)))))"

definition mock_quote :: "mock_supplier \<Rightarrow> int \<Rightarrow> request_payload \<Rightarrow> exc + supplier_quote" where
  "mock_quote x now r = (case mx_catalog x (rqp_sku r) of
     None \<Rightarrow> Inl (Exc SupplierUnavailableError (mx_name x @ '' cannot fulfill '' @ rqp_sku r))
   | Some item \<Rightarrow>
       if dlt (ci_available item) (rqp_quantity r)
       then Inl (Exc SupplierUnavailableError (mx_name x @ '' cannot fulfill '' @ rqp_sku r))
       else check_supplier_quote
         \<lparr>sq_supplier_id = mock_id x, sq_supplier_name = mx_name x, sq_sku = rqp_sku r,
          sq_available_quantity = ci_available item, sq_unit_price = ci_price item, sq_currency = ''INR'',
          sq_delivery_at = now + days (ci_lead_days item),
          sq_quote_id = ''mock-'' @ take 16 (sha256 (mx_env x) (str_uuid (rqp_merchant_id r) @ '':'' @ rqp_sku r @ '':''
             @ str_dec (rqp_quantity r) @ '':'' @ take 10 (isoformat now))),
          sq_expires_at = now + minutes 15\<rparr>)"

definition delay_or_fail :: "mock_supplier \<Rightarrow> unit mock_prog" where
  "delay_or_fail x =
     andthen (modify (\<lambda>m. m\<lparr>mk_calls := mk_calls m + 1\<rparr>))
     (bnd (gets mk_calls) (\<lambda>n.
      guard (mx_fail_every x = 0 \<or> n mod mx_fail_every x \<noteq> 0)
        (Exc SupplierUnavailableError ''Deterministic mock supplier outage'')))"

definition keep_quote :: "supplier_quote \<Rightarrow> unit mock_prog" where
  "keep_quote q = modify (\<lambda>m. m\<lparr>mk_quotes := (mk_quotes m)(sq_quote_id q \<mapsto> q)\<rparr>)"

definition mock_floor :: "supplier_quote \<Rightarrow> dec" where
  "mock_floor q = quantize 2 (dmul (sq_unit_price q) (Dec 94 2))"

text \<open>The three intents; each answer is an intent and a payload.\<close>

definition answer_request :: "mock_supplier \<Rightarrow> int \<Rightarrow> request_payload \<Rightarrow> (a2a_intent \<times> dict) mock_prog" where
  "answer_request x now r =
     bnd (lift (mock_quote x now r)) (\<lambda>q. andthen (keep_quote q) (ret (QUOTE, quote_fields q)))"

definition answer_counter :: "counter_payload \<Rightarrow> (a2a_intent \<times> dict) mock_prog" where
  "answer_counter c =
     bnd (gets (\<lambda>m. mk_quotes m (cop_quote_id c))) (\<lambda>found.
     bnd (require found (Exc SupplierUnavailableError ''Unknown or expired quote'')) (\<lambda>q.
     (if dlt (cop_unit_price c) (mock_floor q) \<or> dlt (sq_available_quantity q) (cop_quantity c)
      then ret (OFFER_REJECTED, [(''quote_id'', JStr (cop_quote_id c)), (''reason'', JStr ''outside_constraints'')])
      else let q' = q\<lparr>sq_unit_price := dmax (cop_unit_price c) (mock_floor q)\<rparr>
           in andthen (keep_quote q') (ret (QUOTE, quote_fields q')))))"

definition answer_accepted :: "mock_supplier \<Rightarrow> string \<Rightarrow> decision_payload \<Rightarrow> (a2a_intent \<times> dict) mock_prog" where
  "answer_accepted x key d =
     bnd (lift (check_purchase_proposal (the (dcp_proposal d)))) (\<lambda>p.
     bnd (gets (\<lambda>m. mk_quotes m (dcp_quote_id d))) (\<lambda>found.
     (case (found, mx_catalog x (pp_sku p)) of
        (Some q, Some item) \<Rightarrow>
          (if dlt (ci_available item) (pp_quantity p)
           then raise (Exc SupplierUnavailableError ''Supplier inventory changed before execution'')
           else ret (ORDER_CONFIRMATION,
             confirmation_json (mx_uuid5 x mock_namespace key)
               (''BWW-'' @ upper (take 10 (sha256 (mx_env x) key))) (sq_delivery_at q)))
      | _ \<Rightarrow> raise (Exc SupplierUnavailableError ''Supplier inventory changed before execution''))))"

definition answer_envelope :: "mock_supplier \<Rightarrow> int \<Rightarrow> a2a_envelope \<Rightarrow> (a2a_intent \<times> dict) mock_prog" where
  "answer_envelope x now v =
     (let unsupported = raise (Exc SupplierUnavailableError (''Unsupported supplier intent '' @ intent_str (env_intent v)))
      in if env_intent v \<notin> {PURCHASE_REQUEST, COUNTER_OFFER, OFFER_ACCEPTED} then unsupported
         else bnd (lift (typed_payload (env_intent v) (env_payload v))) (\<lambda>p. case p of
           RequestP r \<Rightarrow> answer_request x now r
         | CounterP c \<Rightarrow> answer_counter c
         | DecisionP d \<Rightarrow> answer_accepted x (env_idempotency_key v) d
         | _ \<Rightarrow> unsupported))"

definition handle_envelope :: "mock_supplier \<Rightarrow> int \<Rightarrow> a2a_envelope \<Rightarrow> a2a_envelope mock_prog" where
  "handle_envelope x now v =
     andthen (lift (verify_envelope (mx_env x) v (mx_secret x) (Some (str_uuid (mock_id x))) 300 now))
     (bnd (gets (\<lambda>m. mk_results m (env_idempotency_key v))) (\<lambda>stored. case stored of
        Some answer \<Rightarrow> ret answer
      | None \<Rightarrow>
          andthen (delay_or_fail x)
          (bnd (answer_envelope x now v) (\<lambda>(i, payload).
           bnd (mock_envelope x now i payload (mock_id x) (env_sender_agent_id v) (env_correlation_id v)
                  (''response:'' @ env_idempotency_key v)) (\<lambda>answer.
           andthen (modify (\<lambda>m. m\<lparr>mk_results := (mk_results m)(env_idempotency_key v \<mapsto> answer)\<rparr>)) (ret answer))))))"

section \<open>The buyer's side\<close>

definition on_mock :: "'a mock_prog \<Rightarrow> ('d \<times> mock_state, exc, 'a) prog" where
  "on_mock prg w = (case prg (snd w) of (r, m) \<Rightarrow> (r, (fst w, m)))"

lemma on_mock_run [run_simps]: "on_mock prg w = (r, w') \<longleftrightarrow> prg (snd w) = (r, snd w') \<and> fst w' = fst w"
  by (cases w') (auto simp: on_mock_def split: prod.splits)

text \<open>What happens to a message: it is recorded beside the database, kept for the order, or (without a merchant or a
  recorder) neither.\<close>

type_synonym 'd message_log = "a2a_envelope \<Rightarrow> string \<Rightarrow> ('d \<times> mock_state, exc, unit) prog"

definition no_log :: "'d message_log" where "no_log v dir = ret ()"

definition defer_log :: "string \<Rightarrow> uuid \<Rightarrow> 'd message_log" where
  "defer_log key merchant v dir = on_mock (modify (\<lambda>m. m\<lparr>mk_pending := (mk_pending m)(key \<mapsto>
     (case mk_pending m key of None \<Rightarrow> [] | Some vs \<Rightarrow> vs) @ [(v, dir, merchant)])\<rparr>))"

definition record_log :: "env \<Rightarrow> mock_supplier \<Rightarrow> uuid option \<Rightarrow> db message_log" where
  "record_log e x merchant v dir = (case merchant of
     None \<Rightarrow> ret ()
   | Some mid \<Rightarrow> on_db (record_message e v dir mid (mock_id x)))"

definition mock_exchange ::
  "mock_supplier \<Rightarrow> int \<Rightarrow> 'd message_log \<Rightarrow> a2a_intent \<Rightarrow> dict \<Rightarrow> string \<Rightarrow> uuid option
   \<Rightarrow> ('d \<times> mock_state, exc, a2a_envelope) prog" where
  "mock_exchange x now lg i payload key correlation =
     bnd (on_mock (mock_envelope x now i payload (mx_buyer x) (mock_id x)
            (case correlation of None \<Rightarrow> mx_uuid5 x mock_namespace key | Some c \<Rightarrow> c) key)) (\<lambda>ask.
     andthen (lg ask ''OUTBOUND'')
     (bnd (on_mock (handle_envelope x now ask)) (\<lambda>answer.
      andthen (lift (verify_envelope (mx_env x) answer (mx_secret x) (Some (str_uuid (mx_buyer x))) 300 now))
      (andthen (lg answer ''INBOUND'') (ret answer)))))"

text \<open>\<open>QuotePayload.model_validate\<close> and the quote built from it.\<close>

definition quote_of_answer :: "mock_supplier \<Rightarrow> a2a_envelope \<Rightarrow> exc + supplier_quote" where
  "quote_of_answer x v =
     bindE (if env_intent v = QUOTE then typed_payload QUOTE (env_payload v) else Inl (validation_error ''intent'')) (\<lambda>p.
     case p of
       QuoteP t \<Rightarrow> check_supplier_quote
         \<lparr>sq_supplier_id = mock_id x, sq_supplier_name = mx_name x, sq_sku = qtp_sku t,
          sq_available_quantity = qtp_available_quantity t, sq_unit_price = qtp_unit_price t,
          sq_currency = qtp_currency t, sq_delivery_at = qtp_delivery_at t, sq_quote_id = qtp_quote_id t,
          sq_expires_at = qtp_expires_at t\<rparr>
     | _ \<Rightarrow> Inl (validation_error ''intent''))"

definition quote_key_of :: "purchase_request \<Rightarrow> string" where
  "quote_key_of r = ''quote:'' @ str_uuid (pr_merchant_id r) @ '':'' @ pr_sku r @ '':''
     @ (if truthy (pr_request_id r) then the (pr_request_id r) else str_dec (pr_quantity r)) @ '':'' @ str_dec (pr_quantity r)"

definition mock_request_quote ::
  "env \<Rightarrow> mock_supplier \<Rightarrow> purchase_request \<Rightarrow> (db \<times> mock_state, exc, supplier_quote) prog" where
  "mock_request_quote e x r =
     bnd (gets (clock \<circ> fst)) (\<lambda>now.
     andthen (lift (check_purchase_request r))
     (bnd (mock_exchange x now (record_log e x (Some (pr_merchant_id r))) PURCHASE_REQUEST (request_json r) (quote_key_of r) None)
       (\<lambda>answer.
      andthen (guard (env_intent answer = QUOTE)
                 (Exc SupplierUnavailableError ''Mock supplier rejected the purchase request''))
      (bnd (lift (quote_of_answer x answer)) (\<lambda>q.
       andthen (on_mock (modify (\<lambda>m. m\<lparr>mk_correlations := (mk_correlations m)(sq_quote_id q \<mapsto> env_correlation_id answer),
                                      mk_merchants := (mk_merchants m)(sq_quote_id q \<mapsto> pr_merchant_id r)\<rparr>)))
         (ret q))))))"

definition mock_discover :: "env \<Rightarrow> mock_supplier \<Rightarrow> purchase_request \<Rightarrow> (db \<times> mock_state, exc, supplier_quote list) prog" where
  "mock_discover e x r = bnd (mock_request_quote e x r) (\<lambda>q. ret [q])"

definition mock_counter_offer ::
  "env \<Rightarrow> mock_supplier \<Rightarrow> supplier_quote \<Rightarrow> dec \<Rightarrow> dec \<Rightarrow> string \<Rightarrow> (db \<times> mock_state, exc, supplier_quote option) prog" where
  "mock_counter_offer e x q price quantity key =
     bnd (gets (clock \<circ> fst)) (\<lambda>now.
     andthen (guard (positive quantity \<and> positive price) (validation_error ''CounterOfferPayload''))
     (bnd (gets (\<lambda>w. mk_merchants (snd w) (sq_quote_id q))) (\<lambda>merchant.
      bnd (gets (\<lambda>w. mk_correlations (snd w) (sq_quote_id q))) (\<lambda>correlation.
      bnd (mock_exchange x now (record_log e x merchant) COUNTER_OFFER (counter_json (sq_quote_id q) quantity price) key correlation)
        (\<lambda>answer.
       if env_intent answer = OFFER_REJECTED then ret None
       else bnd (lift (quote_of_answer x answer)) (\<lambda>q'. ret (Some q')))))))"

definition mock_place_order :: "mock_supplier \<Rightarrow> int \<Rightarrow> purchase_proposal \<Rightarrow> string \<Rightarrow> (unit \<times> mock_state, exc, order_result) prog" where
  "mock_place_order x now p key =
     bnd (gets (\<lambda>w. mk_orders (snd w) key)) (\<lambda>stored. case stored of
       Some r \<Rightarrow> ret r
     | None \<Rightarrow>
         andthen (lift (check_purchase_proposal p))
         (bnd (gets (\<lambda>w. mk_correlations (snd w) (pp_quote_id p))) (\<lambda>correlation.
          bnd (mock_exchange x now (defer_log key (pp_merchant_id p)) OFFER_ACCEPTED (decision_json p) key correlation) (\<lambda>answer.
          bnd (lift (bindE (if env_intent answer = ORDER_CONFIRMATION then typed_payload ORDER_CONFIRMATION (env_payload answer)
                            else Inl (validation_error ''intent'')) (\<lambda>d. case d of
                 ConfirmationP c \<Rightarrow> Inr c | _ \<Rightarrow> Inl (validation_error ''intent'')))) (\<lambda>c.
          (let r = \<lparr>or_order_id = ocp_order_id c, or_status = OS_CONFIRMED,
                    or_supplier_confirmation = Some (ocp_supplier_reference c), or_transaction_id = None\<rparr>
           in andthen (on_mock (modify (\<lambda>m. m\<lparr>mk_orders := (mk_orders m)(key \<mapsto> r)\<rparr>))) (ret r)))))))"

definition pop_pending_messages :: "string \<Rightarrow> mock_state \<Rightarrow> (a2a_envelope \<times> string \<times> uuid) list \<times> mock_state" where
  "pop_pending_messages key m =
     ((case mk_pending m key of None \<Rightarrow> [] | Some vs \<Rightarrow> vs), m\<lparr>mk_pending := (mk_pending m)(key := None)\<rparr>)"

definition advertised_inventory :: "(string \<times> catalog_item) list \<Rightarrow> (string \<times> string \<times> string) list" where
  "advertised_inventory items = map (\<lambda>(sku, i). (sku, str_dec (ci_available i), str_dec (ci_price i))) items"

section \<open>What is sent is what is read\<close>

lemma field_Some [simp]: "map_of d k = Some v \<Longrightarrow> conv v = Some a \<Longrightarrow> bound a \<Longrightarrow> field d k conv bound = Inr a"
  by (simp add: field_def)

lemma wire_reads [simp]:
  "as_str (JStr s) = Some s" "as_uuid (JStr (str_uuid i)) = Some i" "as_dec (JStr (str_dec d)) = Some d"
  "as_int (JInt n) = Some n" "valid_time t \<Longrightarrow> as_time (JStr (iso_z t)) = Some t" "any a"
  by (simp_all add: as_str_def as_uuid_def as_dec_def as_int_def as_time_def any_def)

lemma request_roundtrip:
  assumes "check_purchase_request r = Inr r" and "valid_time (pr_delivery_deadline r)"
  shows "typed_payload PURCHASE_REQUEST (request_json r) = Inr (RequestP
    \<lparr>rqp_merchant_id = pr_merchant_id r, rqp_store_id = pr_store_id r, rqp_sku = pr_sku r, rqp_quantity = pr_quantity r,
     rqp_unit = pr_unit r, rqp_target_price = pr_target_price r, rqp_max_price = pr_max_price r,
     rqp_delivery_deadline = pr_delivery_deadline r\<rparr>)"
  using assms by (simp add: typed_payload_def parse_request_def request_json_def only_keys_def check_purchase_request_ok
      not_dlt [symmetric])

lemma quote_roundtrip:
  assumes "check_supplier_quote q = Inr q" and "valid_time (sq_delivery_at q)" and "valid_time (sq_expires_at q)"
  shows "typed_payload QUOTE (quote_fields q) = Inr (QuoteP
    \<lparr>qtp_quote_id = sq_quote_id q, qtp_sku = sq_sku q, qtp_available_quantity = sq_available_quantity q,
     qtp_unit_price = sq_unit_price q, qtp_currency = sq_currency q, qtp_delivery_at = sq_delivery_at q,
     qtp_expires_at = sq_expires_at q\<rparr>)"
  using assms by (simp add: typed_payload_def parse_quote_def quote_fields_def only_keys_def check_supplier_quote_def
      split: if_splits)

lemma counter_roundtrip:
  assumes "positive quantity" and "positive price"
  shows "typed_payload COUNTER_OFFER (counter_json i quantity price) = Inr (CounterP
    \<lparr>cop_quote_id = i, cop_quantity = quantity, cop_unit_price = price, cop_round = 1\<rparr>)"
  using assms by (simp add: typed_payload_def parse_counter_def counter_json_def only_keys_def)

lemma accepted_roundtrip:
  assumes "check_purchase_proposal p = Inr p" and "valid_time (pp_delivery_at p)"
  shows "typed_payload OFFER_ACCEPTED (decision_json p) = Inr (DecisionP
    \<lparr>dcp_intent = OFFER_ACCEPTED, dcp_quote_id = pp_quote_id p, dcp_reason = None, dcp_proposal = Some p\<rparr>)"
proof -
  have "parse_accepted_proposal (accepted_json p) = Inr p"
    using assms by (simp add: parse_accepted_proposal_def accepted_json_def only_keys_def check_purchase_proposal_ok)
  then show ?thesis
    by (simp add: typed_payload_def parse_decision_def decision_json_def only_keys_def opt_field_def)
qed

lemma confirmation_roundtrip:
  assumes "valid_time t"
  shows "typed_payload ORDER_CONFIRMATION (confirmation_json i reference t) = Inr (ConfirmationP
    \<lparr>ocp_order_id = i, ocp_supplier_reference = reference, ocp_expected_delivery_at = t\<rparr>)"
  using assms by (simp add: typed_payload_def parse_confirmation_def confirmation_json_def only_keys_def)

section \<open>Bargaining\<close>

text \<open>A counter offer is taken as it is when it is within the supplier's floor and stock, and refused otherwise.\<close>

lemma answer_counter_known:
  assumes "mk_quotes m (cop_quote_id c) = Some q" and "sq_quote_id q = cop_quote_id c"
  shows "answer_counter c m =
    (if rat_of (cop_unit_price c) < rat_of (mock_floor q) \<or> rat_of (sq_available_quantity q) < rat_of (cop_quantity c)
     then (Inr (OFFER_REJECTED, [(''quote_id'', JStr (cop_quote_id c)), (''reason'', JStr ''outside_constraints'')]), m)
     else (Inr (QUOTE, quote_fields (q\<lparr>sq_unit_price := cop_unit_price c\<rparr>)),
           m\<lparr>mk_quotes := (mk_quotes m)(cop_quote_id c \<mapsto> q\<lparr>sq_unit_price := cop_unit_price c\<rparr>)\<rparr>))"
proof (cases "rat_of (cop_unit_price c) < rat_of (mock_floor q) \<or> rat_of (sq_available_quantity q) < rat_of (cop_quantity c)")
  case True
  with assms show ?thesis
    by (auto simp: answer_counter_def exec_defs require_def dlt_rat)
next
  case False
  then have "dmax (cop_unit_price c) (mock_floor q) = cop_unit_price c" by (auto simp: dmax_def dlt_rat)
  with False assms show ?thesis
    by (simp add: answer_counter_def exec_defs require_def dlt_rat keep_quote_def Let_def)
qed

section \<open>An exchange\<close>

lemma mock_envelope_Inr:
  assumes "mock_envelope x now i payload s r c key m = (Inr v, m')"
  shows "m' = m\<lparr>mk_draws := mk_draws m + 2\<rparr> \<and> env_idempotency_key v = key \<and> env_receiver_agent_id v = r \<and> env_intent v = i
   \<and> env_timestamp v = now \<and> env_expires_at v = now + minutes 5 \<and> env_payload v = payload \<and> env_correlation_id v = c
   \<and> env_sender_agent_id v = s
   \<and> verify_envelope (mx_env x) v (mx_secret x) (Some (str_uuid r)) 300 now = Inr ()"
proof -
  obtain v0 where v: "v = signed_envelope (mx_env x) v0 (mx_secret x)" and m': "m' = m\<lparr>mk_draws := mk_draws m + 2\<rparr>"
    and f: "env_idempotency_key v0 = key" "env_receiver_agent_id v0 = r" "env_intent v0 = i" "env_timestamp v0 = now"
      "env_expires_at v0 = now + minutes 5" "env_payload v0 = payload" "env_correlation_id v0 = c" "env_sender_agent_id v0 = s"
    using assms by (auto simp: mock_envelope_def run_simps Let_def)
  have "verify_envelope (mx_env x) v (mx_secret x) (Some (str_uuid (env_receiver_agent_id v0))) 300 now = Inr ()"
    unfolding v by (rule signed_envelope_verifies) (simp_all add: f minutes_def)
  with m' f show ?thesis by (simp add: v signed_envelope_def)
qed

lemma handle_stored:
  "verify_envelope (mx_env x) v (mx_secret x) (Some (str_uuid (mock_id x))) 300 now = Inr () \<Longrightarrow>
   mk_results m (env_idempotency_key v) = Some a \<Longrightarrow> handle_envelope x now v m = (Inr a, m)"
  by (simp add: handle_envelope_def exec_defs)

lemma mock_envelope_results: "keeps (\<lambda>m. mk_results m = R) (mock_envelope x now i payload s r c key)"
  unfolding mock_envelope_def Let_def by (intro keeps_intros keeps_modify) simp

lemma answer_envelope_results: "keeps (\<lambda>m. mk_results m = R) (answer_envelope x now v)"
  unfolding answer_envelope_def answer_request_def answer_counter_def answer_accepted_def keep_quote_def Let_def
  by (auto intro!: keeps_intros keeps_modify split: a2a_payload.splits)

lemma delay_results: "keeps (\<lambda>m. mk_results m = R) (delay_or_fail x)"
  unfolding delay_or_fail_def by (intro keeps_intros keeps_modify) simp

lemma handle_fresh:
  assumes run: "handle_envelope x now v m = (Inr a, m')" and new: "mk_results m (env_idempotency_key v) = None"
  shows "mk_results m' = (mk_results m)(env_idempotency_key v \<mapsto> a) \<and> env_expires_at a = now + minutes 5"
proof -
  obtain i payload m1 m2 m3 where
    d: "delay_or_fail x m = (Inr (), m1)" and a: "answer_envelope x now v m1 = (Inr (i, payload), m2)"
    and e: "mock_envelope x now i payload (mock_id x) (env_sender_agent_id v) (env_correlation_id v)
              (''response:'' @ env_idempotency_key v) m2 = (Inr a, m3)"
    and m': "m' = m3\<lparr>mk_results := (mk_results m3)(env_idempotency_key v \<mapsto> a)\<rparr>"
    using run new by (auto simp: handle_envelope_def run_simps)
  have "mk_results m1 = mk_results m" using keepsD [OF delay_results d] by simp
  moreover have "mk_results m2 = mk_results m1" using keepsD [OF answer_envelope_results a] by simp
  moreover have "mk_results m3 = mk_results m2" using keepsD [OF mock_envelope_results e] by simp
  ultimately show ?thesis using m' mock_envelope_Inr [OF e] by simp
qed

text \<open>The messages that are recorded stay; recording does not touch the supplier's memory.\<close>

lemma keeps_message_rows [keeps_intros]:
  "keeps (\<lambda>s. list_ex P (t_a2a_messages s)) (record_message e v dir merchant supplier)"
proof -
  have add: "keeps (\<lambda>s. list_ex P (t_a2a_messages s)) (add_row t_a2a_messages t_a2a_messages_update message_clash r)" for r
    by (auto simp: keeps_def add_row_def)
  show ?thesis
    unfolding record_message_def request_def
    by (rule keeps_atomic, (rule keeps_intros add | simp add: rollback_def)+)
qed

lemma record_log_memory: "record_log e x merchant v dir w = (r, w') \<Longrightarrow> snd w' = snd w"
  by (auto simp: record_log_def run_simps split: option.splits)

lemma keeps_record_log:
  "keeps (\<lambda>w. list_ex P (t_a2a_messages (fst w))) (record_log e x merchant v dir)"
  unfolding record_log_def by (intro keeps_intros)

definition key_recorded :: "string \<Rightarrow> db \<Rightarrow> bool" where
  "key_recorded k s \<longleftrightarrow> list_ex (\<lambda>r. msg_idempotency_key r = k) (t_a2a_messages s)"

lemma record_message_key: "record_message e v dir merchant supplier s = (Inr u, t) \<Longrightarrow>
   \<not> message_seen v s \<Longrightarrow> key_recorded (env_idempotency_key v) t"
  by (auto simp: record_message_def message_seen_def request_def run_simps message_of_envelope_def key_recorded_def)

section \<open>An answer is kept too long\<close>

text \<open>The answer to a key is stored with its expiry, and the buyer refuses an expired answer: a quote that was asked for once
  cannot be asked for again after five minutes.  The nonces have the length that \<open>token_urlsafe(18)\<close> gives.\<close>

definition nonces_fit :: "mock_supplier \<Rightarrow> bool" where
  "nonces_fit x \<longleftrightarrow> (\<forall>n. 16 \<le> length (text_at (mx_env x) n) \<and> length (text_at (mx_env x) n) \<le> 128)"

definition unseen_id :: "mock_supplier \<Rightarrow> db \<times> mock_state \<Rightarrow> bool" where
  "unseen_id x w \<longleftrightarrow> (\<forall>r \<in> set (t_a2a_messages (fst w)). msg_message_id r \<noteq> uuid_at (mx_env x) (mk_draws (snd w)))"

lemma mock_envelope_again:
  assumes "mock_envelope x now i payload s r c key m = (Inr v, m')" and "nonces_fit x"
  obtains v2 m2 where "mock_envelope x now2 i payload s r c2 key n = (Inr v2, m2)"
proof -
  have "\<exists>a. mock_envelope x now2 i payload s r c2 key n = (Inr a, n\<lparr>mk_draws := mk_draws n + 2\<rparr>)"
    using assms unfolding nonces_fit_def
    by (auto simp: mock_envelope_def run_simps Let_def check_envelope_def minutes_def split: if_splits sum.splits)
  then show thesis using that by blast
qed

lemma record_log_key:
  assumes "record_log e x (Some m) v dir (s, d) = (Inr u, w')"
    and "\<forall>r \<in> set (t_a2a_messages s). msg_message_id r \<noteq> env_message_id v"
  shows "key_recorded (env_idempotency_key v) (fst w')"
proof -
  from assms(1) have run: "record_message e v dir m (mock_id x) s = (Inr u, fst w')"
    by (auto simp: record_log_def run_simps)
  show ?thesis
  proof (cases "message_seen v s")
    case True
    with record_message_again [OF True] run assms(2) show ?thesis
      by (auto simp: message_seen_def key_recorded_def list_ex_iff)
  next
    case False
    with run show ?thesis by (rule record_message_key)
  qed
qed

lemma mock_envelope_id: "mock_envelope x now i payload s r c key m = (Inr v, m') \<Longrightarrow> env_message_id v = uuid_at (mx_env x) (mk_draws m)"
  by (auto simp: mock_envelope_def run_simps Let_def signed_envelope_def)

lemma expired_answer: "env_expires_at a \<le> now \<Longrightarrow> \<exists>t. verify_envelope e a k r d now = Inl (Exc InvalidSignatureError t)"
  by (simp add: verify_envelope_def)

text \<open>The first exchange under a key leaves its answer and its record.\<close>

lemma exchange_first:
  assumes run: "mock_exchange x now (record_log e x (Some mid)) i payload key c w = (Inr a, w')"
    and new: "mk_results (snd w) key = None" and ids: "unseen_id x w"
  obtains ask m where "mock_envelope x now i payload (mx_buyer x) (mock_id x)
      (case c of None \<Rightarrow> mx_uuid5 x mock_namespace key | Some c \<Rightarrow> c) key (snd w) = (Inr ask, m)"
    and "mk_results (snd w') key = Some a" and "env_expires_at a = now + minutes 5" and "key_recorded key (fst w')"
proof -
  let ?c = "case c of None \<Rightarrow> mx_uuid5 x mock_namespace key | Some c \<Rightarrow> c"
  obtain ask m w1 m2 where ask: "mock_envelope x now i payload (mx_buyer x) (mock_id x) ?c key (snd w) = (Inr ask, m)"
    and l1: "record_log e x (Some mid) ask ''OUTBOUND'' (fst w, m) = (Inr (), w1)"
    and h: "handle_envelope x now ask (snd w1) = (Inr a, m2)"
    and l2: "record_log e x (Some mid) a ''INBOUND'' (fst w1, m2) = (Inr (), w')"
    using run by (auto simp: mock_exchange_def run_simps)
  note ea = mock_envelope_Inr [OF ask]
  have m: "mk_results m = mk_results (snd w)" using ea by simp
  have w1: "snd w1 = m" using record_log_memory [OF l1] by simp
  have "mk_results m2 = (mk_results m)(key \<mapsto> a) \<and> env_expires_at a = now + minutes 5"
    using handle_fresh [OF h] new ea m w1 by simp
  moreover have "snd w' = m2" using record_log_memory [OF l2] by simp
  moreover have "key_recorded key (fst w1)"
    using record_log_key [OF l1] ids ea mock_envelope_id [OF ask] by (auto simp: unseen_id_def)
  then have "key_recorded key (fst w')"
    using keepsD [OF keeps_record_log l2] by (simp add: key_recorded_def)
  ultimately show thesis using ask by (intro that) simp_all
qed

lemma exchange_stale:
  assumes ask: "mock_envelope x now i payload (mx_buyer x) (mock_id x)
      (case c of None \<Rightarrow> mx_uuid5 x mock_namespace key | Some c \<Rightarrow> c) key m = (Inr ask, m1)"
    and stored: "mk_results m key = Some a" and old: "env_expires_at a \<le> now" and rec: "key_recorded key s"
  obtains t where "mock_exchange x now (record_log e x (Some mid)) i payload key c (s, m) = (Inl (Exc InvalidSignatureError t), (s, m1))"
proof -
  note ea = mock_envelope_Inr [OF ask]
  have seen: "message_seen ask s" using rec ea by (auto simp: message_seen_def key_recorded_def list_ex_iff)
  have log: "record_log e x (Some mid) ask ''OUTBOUND'' (s, m1) = (Inr (), (s, m1))"
    using record_message_again [OF seen] by (simp add: record_log_def on_db_def)
  have h: "handle_envelope x now ask m1 = (Inr a, m1)" using ea stored by (intro handle_stored) simp_all
  obtain t where "verify_envelope (mx_env x) a (mx_secret x) (Some (str_uuid (mx_buyer x))) 300 now = Inl (Exc InvalidSignatureError t)"
    using expired_answer [OF old] by blast
  with ask log h show thesis
    by (intro that) (auto simp: mock_exchange_def bnd_def andthen_def on_mock_def lift_def)
qed

lemma requote_refused:
  assumes run: "mock_discover e x r w = (Inr qs, w')" and new: "mk_results (snd w) (quote_key_of r) = None"
    and ids: "unseen_id x w" and fit: "nonces_fit x" and later: "clock (fst w) + minutes 5 \<le> c"
  shows "\<exists>t w''. mock_discover e x r ((fst w')\<lparr>clock := c\<rparr>, snd w') = (Inl (Exc InvalidSignatureError t), w'')"
proof -
  let ?key = "quote_key_of r" and ?log = "record_log e x (Some (pr_merchant_id r))" and ?s = "(fst w')\<lparr>clock := c\<rparr>"
  obtain a w1 where ok: "check_purchase_request r = Inr r"
    and ex: "mock_exchange x (clock (fst w)) ?log PURCHASE_REQUEST (request_json r) ?key None w = (Inr a, w1)"
    and w': "fst w' = fst w1" "mk_results (snd w') = mk_results (snd w1)"
    using run by (auto simp: mock_discover_def mock_request_quote_def run_simps check_purchase_request_ok)
  from ex new ids obtain ask m where first: "mock_envelope x (clock (fst w)) PURCHASE_REQUEST (request_json r) (mx_buyer x) (mock_id x)
      (mx_uuid5 x mock_namespace ?key) ?key (snd w) = (Inr ask, m)"
    and a: "mk_results (snd w1) ?key = Some a" "env_expires_at a = clock (fst w) + minutes 5" "key_recorded ?key (fst w1)"
    by (rule exchange_first) simp_all
  obtain ask2 m2 where again: "mock_envelope x c PURCHASE_REQUEST (request_json r) (mx_buyer x) (mock_id x)
      (mx_uuid5 x mock_namespace ?key) ?key (snd w') = (Inr ask2, m2)"
    by (rule mock_envelope_again [OF first fit])
  from again have again': "mock_envelope x c PURCHASE_REQUEST (request_json r) (mx_buyer x) (mock_id x)
      (case None of None \<Rightarrow> mx_uuid5 x mock_namespace ?key | Some c \<Rightarrow> c) ?key (snd w') = (Inr ask2, m2)" by simp
  have stored: "mk_results (snd w') ?key = Some a" "env_expires_at a \<le> c" "key_recorded ?key ?s"
    using a w' later by (simp_all add: key_recorded_def)
  obtain t where "mock_exchange x c ?log PURCHASE_REQUEST (request_json r) ?key None (?s, snd w')
      = (Inl (Exc InvalidSignatureError t), (?s, m2))"
    by (rule exchange_stale [OF again' stored])
  then show ?thesis
    by (auto simp: mock_discover_def mock_request_quote_def bnd_def andthen_def gets_def lift_def ok)
qed

text \<open>An idempotency key has at most 128 characters, so a long SKU or request id makes the adapter raise a validation error.\<close>

lemma long_key_refused:
  assumes "check_purchase_request r = Inr r" and "128 < length (quote_key_of r)"
  shows "fst (mock_discover e x r w) = Inl (validation_error ''A2AEnvelope'')"
  using assms
  by (simp add: mock_discover_def mock_request_quote_def mock_exchange_def mock_envelope_def exec_defs on_mock_def Let_def
      check_envelope_def)

end
