(* ===== verification/Wiring.thy ===== *)
theory Wiring
  imports MockSupplier Inbox
begin

text \<open>
  How \<open>main._wire_runtime\<close> puts the parts together: the workflow's services over the database and the two suppliers, and
  the runtime that the routes and webhooks resume, whose threads live in the checkpointer.  \<open>service_invariant\<close> carries what
  every service keeps through a run of the workflow; \<open>wired_suppliers\<close> is what the application needs of its adapters.
\<close>

section \<open>Suppliers over the database\<close>

text \<open>An adapter as the application uses it: quotes and counter offers may read and write the database, an order is placed
  from within the order's own transaction, at the time \<open>now\<close>.\<close>

record 'a wired_supplier =
  wp_supplier_id :: "uuid option"
  wp_handles_all :: bool
  wp_discover :: "purchase_request \<Rightarrow> ('a, supplier_quote list) om"
  wp_counter_offer :: "supplier_quote \<Rightarrow> dec \<Rightarrow> dec \<Rightarrow> string \<Rightarrow> ('a, supplier_quote option) om"
  wp_place_order :: "int \<Rightarrow> purchase_proposal \<Rightarrow> string \<Rightarrow> ('a, exc, order_result) prog"
  wp_pop_pending :: "string \<Rightarrow> 'a \<Rightarrow> (a2a_envelope \<times> string \<times> uuid) list \<times> 'a"
  wp_correlation :: "string \<Rightarrow> 'a \<Rightarrow> uuid option"

text \<open>As the workflow's services see it, and as the order service does: that one only places orders.\<close>

definition services_view :: "'a wired_supplier \<Rightarrow> (db \<times> 'a) order_supplier" where
  "services_view a =
     \<lparr>ad_supplier_id = wp_supplier_id a, ad_handles_all = wp_handles_all a, ad_discover = wp_discover a,
      ad_counter_offer = wp_counter_offer a,
      ad_place_order = (\<lambda>p k w. case wp_place_order a (clock (fst w)) p k (snd w) of (r, v) \<Rightarrow> (r, (fst w, v))),
      os_pop_pending = (\<lambda>k w. case wp_pop_pending a k (snd w) of (vs, v) \<Rightarrow> (vs, (fst w, v))),
      os_correlation = (\<lambda>q w. wp_correlation a q (snd w))\<rparr>"

definition orders_view :: "int \<Rightarrow> 'a wired_supplier \<Rightarrow> 'a order_supplier" where
  "orders_view now a =
     \<lparr>ad_supplier_id = wp_supplier_id a, ad_handles_all = wp_handles_all a,
      ad_discover = (\<lambda>r. raise (Exc PyRuntimeError ''only orders are placed here'')),
      ad_counter_offer = (\<lambda>q u n k. raise (Exc PyRuntimeError ''only orders are placed here'')),
      ad_place_order = wp_place_order a now, os_pop_pending = wp_pop_pending a, os_correlation = wp_correlation a\<rparr>"

text \<open>The memories of the two adapters of the application.\<close>

type_synonym supplier_memory = "mock_state \<times> (string \<rightharpoonup> supplier_quote)"

definition wired_mock :: "env \<Rightarrow> mock_supplier \<Rightarrow> supplier_memory wired_supplier" where
  "wired_mock e x =
     \<lparr>wp_supplier_id = Some (mock_id x), wp_handles_all = False,
      wp_discover = (\<lambda>r w. case mock_discover e x r (fst w, fst (snd w)) of (v, (s, m)) \<Rightarrow> (v, (s, (m, snd (snd w))))),
      wp_counter_offer = (\<lambda>q u n k w. case mock_counter_offer e x q u n k (fst w, fst (snd w)) of
         (v, (s, m)) \<Rightarrow> (v, (s, (m, snd (snd w))))),
      wp_place_order = (\<lambda>now p k v. case mock_place_order x now p k ((), fst v) of (r, (_, m)) \<Rightarrow> (r, (m, snd v))),
      wp_pop_pending = (\<lambda>k v. case pop_pending_messages k (fst v) of (vs, m) \<Rightarrow> (vs, (m, snd v))),
      wp_correlation = (\<lambda>q v. mk_correlations (fst v) q)\<rparr>"

text \<open>The catalog adapter opens a session of its own; it only reads the database, and has neither messages nor
  correlations.\<close>

definition wired_catalog :: "(uuid \<Rightarrow> string \<Rightarrow> uuid) \<Rightarrow> supplier_memory wired_supplier" where
  "wired_catalog uuid5 =
     \<lparr>wp_supplier_id = None, wp_handles_all = True,
      wp_discover = (\<lambda>r w. case catalog_discover r (fst w, snd (snd w)) of (v, (s, m)) \<Rightarrow> (v, (s, (fst (snd w), m)))),
      wp_counter_offer = (\<lambda>q u n k w. case catalog_counter_offer q u n k (fst w, snd (snd w)) of
         (v, (s, m)) \<Rightarrow> (v, (s, (fst (snd w), m)))),
      wp_place_order = (\<lambda>now p k v. (catalog_order uuid5 p k (snd v), v)),
      wp_pop_pending = (\<lambda>k v. ([], v)), wp_correlation = (\<lambda>q v. None)\<rparr>"

section \<open>The services\<close>

text \<open>The forecaster is pandas code over the sales history; it gets no state.\<close>

type_synonym forecaster = "dict list \<Rightarrow> int \<Rightarrow> exc + forecast_result"

definition db_services ::
  "env \<Rightarrow> approval_service \<Rightarrow> (uuid \<Rightarrow> string \<Rightarrow> uuid) \<Rightarrow> forecaster \<Rightarrow> 'a wired_supplier list \<Rightarrow> (db \<times> 'a) wf_services" where
  "db_services e sv uuid5 fc adapters =
     \<lparr>sv_now = clock \<circ> fst, sv_forecast = (\<lambda>h n. lift (fc h n)), sv_adapters = map services_view adapters,
      sv_ask = (\<lambda>revision rid p. on_db (db_request e sv revision (Some rid) p)),
      sv_decide = (\<lambda>i m ac tok u. on_db (db_decide e sv i m ac tok u)),
      sv_execute = (\<lambda>p i tok key. bnd (gets (clock \<circ> fst)) (\<lambda>now.
         db_execute e sv (map (orders_view now) adapters) p i tok key)),
      sv_record = (\<lambda>v. on_db (record_negotiation e uuid5 v))\<rparr>"

section \<open>The runtime and its threads\<close>

record 'a outside =
  out_threads :: "string \<rightharpoonup> wf_thread"
  out_suppliers :: 'a

definition thread_id :: "string \<Rightarrow> string \<Rightarrow> string" where
  "thread_id merchant rid = ''purchase:'' @ merchant @ '':'' @ rid"

text \<open>A run of the graph on one thread: an exception leaves what the completed nodes have checkpointed.\<close>

definition on_thread ::
  "string \<Rightarrow> ((db \<times> 'a) \<times> wf_thread, exc, unit) prog \<Rightarrow> wf_thread \<Rightarrow> ('a outside world, unit) wm" where
  "on_thread key prg th w =
     (case prg ((fst w, out_suppliers (wd_out (snd w))), th) of
        (r, ((s, v), th')) \<Rightarrow> (r, (s, (snd w)\<lparr>wd_out :=
           \<lparr>out_threads = (out_threads (wd_out (snd w)))(key \<mapsto> th'), out_suppliers = v\<rparr>\<rparr>)))"

text \<open>\<open>WorkflowRuntime.resume\<close>: a request without a thread has no next node.\<close>

definition wired_resume ::
  "workflow \<Rightarrow> (db \<times> 'a) wf_services \<Rightarrow> uuid \<Rightarrow> string \<Rightarrow> approval_status \<Rightarrow> string \<Rightarrow> dec option \<Rightarrow> dec option
   \<Rightarrow> uuid option \<Rightarrow> uuid option \<Rightarrow> uuid option \<Rightarrow> ('a outside world, unit) wm" where
  "wired_resume g sv merchant rid ac token quantity max_price user expected_approval expected_proposal =
     bnd (gets (\<lambda>w. out_threads (wd_out (snd w)) (thread_id (str_uuid merchant) rid))) (\<lambda>found. case found of
       None \<Rightarrow> raise (Exc PyValueError ''Workflow is not waiting for approval'')
     | Some th \<Rightarrow> on_thread (thread_id (str_uuid merchant) rid)
         (runtime_resume g sv merchant ac token quantity max_price user expected_approval expected_proposal) th)"

text \<open>\<open>WorkflowRuntime.start\<close> of a request that has no thread yet.\<close>

definition wired_start :: "workflow \<Rightarrow> (db \<times> 'a) wf_services \<Rightarrow> wf_state \<Rightarrow> ('a outside world, unit) wm" where
  "wired_start g sv v =
     on_thread (thread_id (ws_merchant_id v) (ws_request_id v)) (runtime_start g sv v)
       \<lparr>th_values = v, th_next = Some DetectNeed\<rparr>"

text \<open>What the webhooks are given: they resume with the approval that the button names, and never modify.\<close>

definition channel_resumer :: "workflow \<Rightarrow> (db \<times> 'a) wf_services \<Rightarrow> 'a outside resumer" where
  "channel_resumer g sv = Some (\<lambda>merchant rid ac token user approval.
     wired_resume g sv merchant rid ac token None None (Some user) (Some approval) None)"

section \<open>What the services keep, a run keeps\<close>

locale service_invariant =
  fixes sv :: "'s wf_services" and P :: "'s \<Rightarrow> bool"
  assumes forecast_keeps: "keeps P (sv_forecast sv h n)"
    and adapters_keep: "ad \<in> set (sv_adapters sv) \<Longrightarrow> keeps P (ad_discover ad r) \<and> keeps P (ad_counter_offer ad q u k key)"
    and ask_keeps: "keeps P (sv_ask sv rn rid p)"
    and decide_keeps: "keeps P (sv_decide sv i m ac tok usr)"
    and execute_keeps: "keeps P (sv_execute sv p i tok ek)"
    and record_keeps: "keeps P (sv_record sv v)"
begin

lemma lifted: "(\<And>a. v = Inr a \<Longrightarrow> keeps P (f a)) \<Longrightarrow> keeps P (bnd (lift v) f)"
  by (cases v) (auto simp: keeps_def bnd_def lift_def)

lemma gather_keeps: "set ads \<subseteq> set (sv_adapters sv) \<Longrightarrow> keeps P (gather_quotes cs ads r)"
proof (induction ads)
  case (Cons ad ads)
  then have "keeps P (ad_discover ad r)" "keeps P (gather_quotes cs ads r)" using adapters_keep by auto
  then show ?case by (auto intro!: keeps_intros)
qed (simp add: keeps_intros)

lemma counter_keeps: "services_supplier (sv_adapters sv) i = Inr ad \<Longrightarrow> keeps P (ad_counter_offer ad q u k key)"
  using adapters_keep by (auto simp: services_supplier_def dest: supplier_for_fits split: option.splits)

lemma negotiate_one_keeps: "keeps P (negotiate_one sv v r q h)"
  unfolding negotiate_one_def Let_def
  by (intro keeps_intros lifted counter_keeps)

lemma negotiate_all_keeps: "keeps P (negotiate_all sv v r qs h)"
proof (induction qs arbitrary: h)
  case Nil
  show ?case unfolding negotiate_all.simps Let_def by (intro keeps_intros record_keeps)
next
  case (Cons q qs)
  show ?case unfolding negotiate_all.simps Let_def
    by (intro keeps_intros negotiate_one_keeps lifted Cons.IH record_keeps)
qed

lemma node_keeps: "keeps P (run_node g sv nd v)"
proof (cases nd)
  case FindSupplier
  show ?thesis unfolding FindSupplier run_node_def wf_node.case find_supplier_def collect_quotes_def Let_def
    by (intro keeps_intros lifted gather_keeps) simp
next
  case ExecuteOrder
  show ?thesis unfolding ExecuteOrder run_node_def wf_node.case execute_order_def
    by (intro keeps_intros execute_keeps)
qed (auto simp: run_node_def forecast_demand_def negotiate_def create_proposal_def Let_def
    intro!: keeps_intros forecast_keeps negotiate_all_keeps ask_keeps record_keeps)

lemma invoke_keeps: "keeps (\<lambda>w. P (fst w)) (invoke n g sv)"
proof (rule keepsI)
  fix w r w' assume "P (fst w)" "invoke n g sv w = (r, w')"
  then show "P (fst w')"
  proof (induction n arbitrary: w)
    case 0
    then show ?case by (cases w) (auto simp: invoke.simps split: option.splits if_splits)
  next
    case (Suc n)
    obtain s th where w: "w = (s, th)" by (cases w)
    show ?case
    proof (cases "th_next th = None \<or> th_next th = Some HumanApproval")
      case True
      with Suc.prems show ?thesis by (auto simp: w)
    next
      case False
      then obtain nd where nd: "th_next th = Some nd" "nd \<noteq> HumanApproval" by auto
      obtain v u where n: "run_node g sv nd (th_values th) s = (v, u)" by (cases "run_node g sv nd (th_values th) s")
      have "P u" using keepsD [OF node_keeps n] Suc.prems(1) w by simp
      with Suc n show ?thesis by (cases v) (auto simp: w invoke_Suc [OF nd])
    qed
  qed
qed

lemma start_keeps: "keeps (\<lambda>w. P (fst w)) (runtime_start g sv v)"
  using invoke_keeps by (auto simp: keeps_def runtime_start_def)

lemma resume_keeps: "keeps (\<lambda>w. P (fst w)) (runtime_resume g sv m ac tok q p u ea ep)"
proof -
  have "keeps (\<lambda>w. P (fst w)) (on_services (sv_decide sv i m ac tok u))" for i
    using decide_keeps by (auto simp: keeps_def on_services_def split: prod.splits)
  then show ?thesis
    unfolding runtime_resume_def Let_def
    by (intro keeps_intros keeps_modify invoke_keeps) auto
qed

end

section \<open>What the application's suppliers write\<close>

text \<open>Beside their own memory only agent-to-agent messages, their events, and what was drawn.\<close>

definition recorder_frame :: "(db \<Rightarrow> bool) \<Rightarrow> bool" where
  "recorder_frame P \<longleftrightarrow> (\<forall>s n. P s \<longrightarrow> P (s\<lparr>draws := n\<rparr>)) \<and> (\<forall>s n. P s \<longrightarrow> P (s\<lparr>clock := n\<rparr>))
     \<and> (\<forall>s rows. P s \<longrightarrow> P (s\<lparr>t_a2a_messages := rows\<rparr>)) \<and> (\<forall>s rows. P s \<longrightarrow> P (s\<lparr>t_outbox_events := rows\<rparr>))"

definition tidy_supplier :: "'a wired_supplier \<Rightarrow> bool" where
  "tidy_supplier a \<longleftrightarrow> (\<forall>P. recorder_frame P \<longrightarrow>
     (\<forall>r. keeps (\<lambda>w. P (fst w)) (wp_discover a r)) \<and> (\<forall>q u n k. keeps (\<lambda>w. P (fst w)) (wp_counter_offer a q u n k)))"

lemma frame_record_message: "recorder_frame P \<Longrightarrow> keeps P (record_message e v dir merchant supplier)"
  unfolding record_message_def request_def recorder_frame_def
  by (rule keeps_atomic, (rule keeps_intros | simp add: rollback_def)+)

lemma frame_exchange: "recorder_frame P \<Longrightarrow> keeps (\<lambda>w. P (fst w)) (mock_exchange x now (record_log e x mid) i payload key c)"
proof -
  assume P: "recorder_frame P"
  have on_mock: "keeps (\<lambda>w. P (fst w)) (on_mock prg)" for prg :: "'a mock_prog"
    by (auto simp: keeps_def run_simps)
  show ?thesis
    unfolding mock_exchange_def record_log_def by (intro keeps_intros on_mock frame_record_message [OF P])
qed

lemma frame_mock:
  assumes P: "recorder_frame P"
  shows "keeps (\<lambda>w. P (fst w)) (mock_discover e x r)" "keeps (\<lambda>w. P (fst w)) (mock_counter_offer e x q u n k)"
proof -
  have on_mock: "keeps (\<lambda>w. P (fst w)) (on_mock prg)" for prg :: "'a mock_prog"
    by (auto simp: keeps_def run_simps)
  show "keeps (\<lambda>w. P (fst w)) (mock_discover e x r)" "keeps (\<lambda>w. P (fst w)) (mock_counter_offer e x q u n k)"
    unfolding mock_discover_def mock_request_quote_def mock_counter_offer_def
    by (intro keeps_intros frame_exchange [OF P] on_mock)+
qed

lemma beside_memory:
  assumes "keeps (\<lambda>w. P (fst w)) f"
  shows "keeps (\<lambda>w. P (fst w)) (\<lambda>w. case f (fst w, fst (snd w)) of (v, (s, m)) \<Rightarrow> (v, (s, (m, snd (snd w)))))"
proof (rule keepsI)
  fix w and r w'
  assume "P (fst w)" and run: "(case f (fst w, fst (snd w)) of (v, (s, m)) \<Rightarrow> (v, (s, (m, snd (snd w))))) = (r, w')"
  moreover obtain v s m where f: "f (fst w, fst (snd w)) = (v, (s, m))" by (metis prod.exhaust)
  ultimately show "P (fst w')" using keepsD [OF assms f] by auto
qed

lemma tidy_mock: "tidy_supplier (wired_mock e x)"
  unfolding tidy_supplier_def wired_mock_def wired_supplier.simps
  by (intro allI impI conjI beside_memory frame_mock)

lemma tidy_catalog: "tidy_supplier (wired_catalog uuid5)"
  by (auto simp: tidy_supplier_def wired_catalog_def keeps_def catalog_discover_def catalog_counter_offer_def Let_def
      split: prod.splits if_splits)

locale wired_suppliers =
  fixes adapters :: "'a wired_supplier list"
  assumes tidy: "list_all tidy_supplier adapters"

text \<open>A property of the database that every service over it keeps.\<close>

locale database_invariant =
  fixes P :: "db \<Rightarrow> bool" and e :: env and sv :: approval_service and uuid5 :: "uuid \<Rightarrow> string \<Rightarrow> uuid"
  assumes frame: "recorder_frame P"
    and ask: "keeps P (db_request e sv rn rid p)"
    and decide: "keeps P (db_decide e sv i m ac tok u)"
    and recording: "keeps P (record_negotiation e uuid5 v)"

locale wired_invariant = wired_suppliers adapters + database_invariant P e sv uuid5
  for adapters :: "'a wired_supplier list" and P e sv uuid5 +
  fixes fc :: forecaster
  assumes execute: "keeps (\<lambda>w. P (fst w)) (db_execute e sv (ads :: 'a order_supplier list) p i tok ek)"

sublocale wired_invariant \<subseteq> service_invariant "db_services e sv uuid5 fc adapters" "\<lambda>w. P (fst w)"
proof
  fix ad r q u k key
  assume "ad \<in> set (sv_adapters (db_services e sv uuid5 fc adapters))"
  then obtain a where "a \<in> set adapters" "ad = services_view a" by (auto simp: db_services_def)
  with tidy frame show "keeps (\<lambda>w. P (fst w)) (ad_discover ad r) \<and> keeps (\<lambda>w. P (fst w)) (ad_counter_offer ad q u k key)"
    by (auto simp: list_all_iff tidy_supplier_def services_view_def)
next
  fix p i tok ek
  show "keeps (\<lambda>w. P (fst w)) (sv_execute (db_services e sv uuid5 fc adapters) p i tok ek)"
    by (auto simp: db_services_def intro!: keeps_intros execute)
qed (auto simp: db_services_def intro!: keeps_intros ask decide recording)

context wired_invariant begin

lemma thread_keeps: "keeps (\<lambda>w. P (fst (fst w))) prg \<Longrightarrow> keeps (\<lambda>w. P (fst w)) (on_thread key prg th)"
  by (fastforce simp: keeps_def on_thread_def split: prod.splits)

lemma wired_resume_keeps: "keeps (\<lambda>w. P (fst w)) (wired_resume g (db_services e sv uuid5 fc adapters) m rid ac tok q p u ea ep)"
  unfolding wired_resume_def by (intro keeps_intros thread_keeps resume_keeps)

lemma wired_start_keeps: "keeps (\<lambda>w. P (fst w)) (wired_start g (db_services e sv uuid5 fc adapters) v)"
  unfolding wired_start_def by (intro thread_keeps start_keeps)

end

section \<open>The channel messages survive the workflow\<close>

lemma messages_frame [simp]:
  "messages_inv K (s\<lparr>t_orders := a\<rparr>) = messages_inv K s" "messages_inv K (s\<lparr>t_order_items := b\<rparr>) = messages_inv K s"
  "messages_inv K (s\<lparr>t_order_events := c\<rparr>) = messages_inv K s" "messages_inv K (s\<lparr>t_transactions := d\<rparr>) = messages_inv K s"
  "messages_inv K (s\<lparr>t_idempotency_keys := f\<rparr>) = messages_inv K s" "messages_inv K (s\<lparr>t_a2a_messages := g\<rparr>) = messages_inv K s"
  "messages_inv K (s\<lparr>t_negotiations := h\<rparr>) = messages_inv K s"
  by (rule messages_inv_cong; simp)+

text \<open>A predicate that looks at none of the tables of an order survives its execution.\<close>

lemma keeps_order_execute:
  fixes P :: "db \<Rightarrow> bool"
  assumes "\<And>s n. P s \<Longrightarrow> P (s\<lparr>draws := n\<rparr>)" "\<And>s n. P s \<Longrightarrow> P (s\<lparr>clock := n\<rparr>)"
    "\<And>s rows. P s \<Longrightarrow> P (s\<lparr>t_orders := rows\<rparr>)" "\<And>s rows. P s \<Longrightarrow> P (s\<lparr>t_order_items := rows\<rparr>)"
    "\<And>s rows. P s \<Longrightarrow> P (s\<lparr>t_order_events := rows\<rparr>)" "\<And>s rows. P s \<Longrightarrow> P (s\<lparr>t_transactions := rows\<rparr>)"
    "\<And>s rows. P s \<Longrightarrow> P (s\<lparr>t_idempotency_keys := rows\<rparr>)" "\<And>s rows. P s \<Longrightarrow> P (s\<lparr>t_a2a_messages := rows\<rparr>)"
    "\<And>s rows. P s \<Longrightarrow> P (s\<lparr>t_outbox_events := rows\<rparr>)" "\<And>s rows. P s \<Longrightarrow> P (s\<lparr>t_audit_logs := rows\<rparr>)"
    "\<And>s rows. P s \<Longrightarrow> P (s\<lparr>t_notifications := rows\<rparr>)"
  shows "keeps (\<lambda>w. P (fst w)) (db_execute e sv ads p i tok ek)"
proof -
  have settle: "keeps (\<lambda>w. P (fst w)) (order_settle e sp m ek a q mr opened res)" for sp m a q mr opened res
    unfolding order_settle_def order_finish_def notify_supplier_def add_order_event_def record_order_message_def Let_def
    by (auto intro!: keeps_intros keeps_pop_pending keeps_modify assms split: prod.splits)
  have opn: "keeps P (order_open e m ek a q)" for m a q
    unfolding order_open_def add_idem_def orders_add_def add_order_event_def Let_def
    by (intro keeps_intros assms)
  have "keeps (\<lambda>w. P (fst w)) (order_execute e sv sp i m tok ek)" for sp m
    unfolding order_execute_def order_authorize_def
    by (auto intro!: keeps_intros keeps_approvals_get opn settle split: prod.splits)
  then show ?thesis
    unfolding db_execute_def
    by (intro keeps_intros keeps_atomic) (auto simp: rollback_db_def rollback_def intro: assms)
qed

text \<open>A predicate that looks at none of the tables of approvals and negotiations survives asking, deciding and recording.\<close>

lemma keeps_authority:
  fixes P :: "db \<Rightarrow> bool"
  assumes "\<And>s n. P s \<Longrightarrow> P (s\<lparr>draws := n\<rparr>)" "\<And>s n. P s \<Longrightarrow> P (s\<lparr>clock := n\<rparr>)"
    "\<And>s rows. P s \<Longrightarrow> P (s\<lparr>t_approvals := rows\<rparr>)" "\<And>s rows. P s \<Longrightarrow> P (s\<lparr>t_outbox_events := rows\<rparr>)"
    "\<And>s rows. P s \<Longrightarrow> P (s\<lparr>t_audit_logs := rows\<rparr>)" "\<And>s rows. P s \<Longrightarrow> P (s\<lparr>t_notifications := rows\<rparr>)"
  shows "keeps P (db_request e sv rn rid p)" "keeps P (db_decide e sv i m ac tok u)"
proof -
  note defs = approval_create_def approval_approve_def approval_reject_def approval_mark_modified_def approvals_get_def
    verify_owner_and_state_def change_approval_def approval_audit_def approvals_add_def
  have request: "keeps P m \<Longrightarrow> keeps P (request m)" for m :: "'c m"
    unfolding request_def by (rule keeps_atomic) (simp_all add: rollback_def assms)
  show "keeps P (db_request e sv rn rid p)"
    unfolding db_request_def defs Let_def by (rule request) (intro keeps_intros; simp add: assms)
  have request': "keeps P m \<Longrightarrow> keeps P (request m)" for m :: "'d m"
    unfolding request_def by (rule keeps_atomic) (simp_all add: rollback_def assms)
  show "keeps P (db_decide e sv i m ac tok u)"
    unfolding db_decide_def defs Let_def by (rule request') (intro keeps_intros; simp add: assms)
qed

lemma keeps_record_negotiation:
  fixes P :: "db \<Rightarrow> bool"
  assumes "\<And>s n. P s \<Longrightarrow> P (s\<lparr>draws := n\<rparr>)" "\<And>s n. P s \<Longrightarrow> P (s\<lparr>clock := n\<rparr>)"
    "\<And>s rows. P s \<Longrightarrow> P (s\<lparr>t_negotiations := rows\<rparr>)" "\<And>s rows. P s \<Longrightarrow> P (s\<lparr>t_outbox_events := rows\<rparr>)"
    "\<And>s rows. P s \<Longrightarrow> P (s\<lparr>t_a2a_messages := rows\<rparr>)"
  shows "keeps P (record_negotiation e uuid5 v)"
proof -
  have request: "keeps P m \<Longrightarrow> keeps P (request m)" for m :: "unit m"
    unfolding request_def by (rule keeps_atomic) (simp_all add: rollback_def assms)
  show ?thesis
    unfolding record_negotiation_def put_negotiation_def
    by (intro keeps_intros keeps_modify request; simp add: assms)
qed

interpretation application: wired_suppliers "[wired_mock e x, wired_catalog uuid5]" for e x uuid5
  by unfold_locales (simp add: tidy_mock tidy_catalog)

interpretation messages: wired_invariant "[wired_mock e x, wired_catalog uuid5]" "messages_inv K" e sv uuid5 fc
  for e x uuid5 K sv fc
proof unfold_locales
  show "recorder_frame (messages_inv K)" by (simp add: recorder_frame_def)
  show "keeps (messages_inv K) (db_request e sv rn rid p)" for rn rid p by (rule keeps_authority) simp_all
  show "keeps (messages_inv K) (db_decide e sv i m ac tok u)" for i m ac tok u by (rule keeps_authority) simp_all
  show "keeps (messages_inv K) (record_negotiation e uuid5 v)" for v by (rule keeps_record_negotiation) simp_all
  show "keeps (\<lambda>w. messages_inv K (fst w)) (db_execute e sv (ads :: supplier_memory order_supplier list) p i tok ek)"
    for ads p i tok ek by (rule keeps_order_execute) simp_all
qed

definition app_services ::
  "env \<Rightarrow> approval_service \<Rightarrow> (uuid \<Rightarrow> string \<Rightarrow> uuid) \<Rightarrow> forecaster \<Rightarrow> mock_supplier \<Rightarrow> (db \<times> supplier_memory) wf_services" where
  "app_services e sv uuid5 fc x = db_services e sv uuid5 fc [wired_mock e x, wired_catalog uuid5]"

interpretation wired: decision_runtime "channel_resumer g (app_services e sv uuid5 fc x)" for g e sv uuid5 fc x
proof
  fix f K m q ac tok u a
  assume "channel_resumer g (app_services e sv uuid5 fc x) = Some f"
  then have "f m q ac tok u a = wired_resume g (app_services e sv uuid5 fc x) m q ac tok None None (Some u) (Some a) None"
    by (auto simp: channel_resumer_def)
  then show "keeps (\<lambda>w. messages_inv K (fst w)) (f m q ac tok u a)"
    unfolding app_services_def using messages.wired_resume_keeps by simp
qed

end
