(* ===== verification/ApprovalsApi.thy ===== *)
theory ApprovalsApi
  imports Wiring
begin

text \<open>
  \<open>api/v1/approvals.py\<close>: listing approvals, and deciding one behind the idempotency gate, either through the workflow that
  waits for it or directly.  The workflow commits in sessions of its own: when it raises, the route's rollback takes back
  only the idempotency key.  What FastAPI makes of the workflow's state is the argument \<open>enc\<close>.
\<close>

section \<open>Views\<close>

definition tstamp_iso :: "tstamp \<Rightarrow> string" where
  "tstamp_iso t = (case t of Aware i \<Rightarrow> isoformat i | Naive i \<Rightarrow> take (length (isoformat i) - 6) (isoformat i))"

text \<open>\<open>jsonable_encoder(serialize(row))\<close>.\<close>

definition approval_json :: "approval_row \<Rightarrow> dict" where
  "approval_json a =
     [(''id'', JStr (str_uuid (row_id a))), (''proposal_id'', JStr (str_uuid (ap_proposal_id a))),
      (''workflow_request_id'', opt_json JStr (ap_workflow_request_id a)), (''order_hash'', JStr (ap_order_hash a)),
      (''proposal'', JObj (ap_proposal_payload a)), (''status'', JStr (approval_status_str (ap_status a))),
      (''revision'', JInt (ap_revision a)), (''expires_at'', JStr (tstamp_iso (ap_expires_at a))),
      (''decided_at'', opt_json (\<lambda>t. JStr (isoformat t)) (ap_decided_at a)),
      (''created_at'', JStr (isoformat (created_at a)))]"

definition pending_and_current :: "int \<Rightarrow> approval_row \<Rightarrow> bool" where
  "pending_and_current now a \<longleftrightarrow> ap_status a = AS_PENDING \<and> now < as_utc (ap_expires_at a)"

text \<open>A view with the token that acts on it, while there is something to decide.\<close>

definition approval_view :: "env \<Rightarrow> settings \<Rightarrow> principal \<Rightarrow> int \<Rightarrow> approval_row \<Rightarrow> exc + approval_row \<times> string option" where
  "approval_view e cfg p now a =
     (if pending_and_current now a
      then bindE (token_for e (approval_service_of cfg) now a (pl_merchant_id p)) (\<lambda>t. Inr (a, Some t))
      else Inr (a, None))"

definition get_approval :: "env \<Rightarrow> settings \<Rightarrow> principal \<Rightarrow> uuid \<Rightarrow> (approval_row \<times> string option) m" where
  "get_approval e cfg p i =
     bnd (approvals_get i (Some (pl_merchant_id p))) (\<lambda>a. bnd (gets clock) (\<lambda>now. lift (approval_view e cfg p now a)))"

section \<open>The run of a request\<close>

definition run_after :: "int \<Rightarrow> wf_state \<Rightarrow> agent_run_row \<Rightarrow> agent_run_row" where
  "run_after now v r =
     (if ws_approval_status v = Some ''PENDING''
      then r\<lparr>ag_status := RS_WAITING_APPROVAL, ag_current_node := Some ''human_approval''\<rparr>
      else r\<lparr>ag_status := (if ws_execution_status v = Some ''VERIFIED'' \<or> ws_approval_status v = Some ''REJECTED''
                           then RS_COMPLETED else RS_FAILED),
             ag_current_node := None, ag_finished_at := Some now\<rparr>)"

definition update_agent_run :: "string \<Rightarrow> wf_state \<Rightarrow> unit m" where
  "update_agent_run rid v =
     bnd (gets (\<lambda>s. find (\<lambda>r. ag_request_id r = rid) (t_agent_runs s))) (\<lambda>found. case found of
       None \<Rightarrow> ret ()
     | Some r \<Rightarrow> bnd (gets clock) (\<lambda>now. change_row t_agent_runs t_agent_runs_update (row_id r) (run_after now v)))"

section \<open>Deciding\<close>

text \<open>The route's rollback.\<close>

definition forget_key :: "uuid \<Rightarrow> unit m" where
  "forget_key i = modify (\<lambda>s. s\<lparr>t_idempotency_keys := filter (\<lambda>r. row_id r \<noteq> i) (t_idempotency_keys s)\<rparr>)"

definition thread_state :: "string \<Rightarrow> string \<Rightarrow> ('a outside world, wf_state option) wm" where
  "thread_state merchant rid = gets (\<lambda>w. map_option th_values (out_threads (wd_out (snd w)) (thread_id merchant rid)))"

definition through_workflow ::
  "env \<Rightarrow> (wf_state \<Rightarrow> json) \<Rightarrow> principal \<Rightarrow> string \<Rightarrow> string \<Rightarrow> dict \<Rightarrow> string \<Rightarrow> string \<Rightarrow> uuid
   \<Rightarrow> ('a outside world, unit) wm \<Rightarrow> ('a outside world, dict) wm" where
  "through_workflow e enc p scope key data rid label i resume =
     bnd (on_db (idempotency_begin e scope key data)) (\<lambda>(k, cached). case cached of
       Some d \<Rightarrow> ret d
     | None \<Rightarrow>
         bnd (attempt (andthen resume (bnd (thread_state (str_uuid (pl_merchant_id p)) rid) (\<lambda>v.
                require v (Exc PyKeyError ''values''))))) (\<lambda>res. case res of
           Inl x \<Rightarrow> andthen (on_db (forget_key k)) (raise x)
         | Inr v \<Rightarrow> on_db (andthen (update_agent_run rid v)
             (idempotency_complete k [(label, JStr (str_uuid i)), (''workflow'', enc v)]))))"

definition directly :: "env \<Rightarrow> string \<Rightarrow> string \<Rightarrow> dict \<Rightarrow> approval_row m \<Rightarrow> ('w, dict) wm" where
  "directly e scope key data decide =
     on_db (request (guarded (idempotency_begin e scope key data) idem_complete
       (bnd decide (\<lambda>a. ret (approval_json a)))))"

definition approval_scope :: "principal \<Rightarrow> uuid \<Rightarrow> string \<Rightarrow> string" where
  "approval_scope p i ac = ''approval:'' @ str_uuid (pl_merchant_id p) @ '':'' @ str_uuid i @ '':'' @ ac"

definition route_approve ::
  "env \<Rightarrow> settings \<Rightarrow> (wf_state \<Rightarrow> json) \<Rightarrow> workflow \<Rightarrow> (db \<times> 'a) wf_services \<Rightarrow> principal \<Rightarrow> uuid \<Rightarrow> string \<Rightarrow> string option
   \<Rightarrow> string \<Rightarrow> ('a outside world, dict) wm" where
  "route_approve e cfg enc g sv p i token rid key =
     (let scope = approval_scope p i ''approve'';
          data = [(''approval_token'', JStr token), (''request_id'', opt_json JStr rid), (''idempotency_key'', JStr key)]
      in if truthy rid then
           through_workflow e enc p scope key data (the rid) ''approval_id'' i
             (wired_resume g sv (pl_merchant_id p) (the rid) AS_APPROVED token None None (Some (pl_user_id p)) (Some i) None)
         else directly e scope key data
           (approval_approve e (approval_service_of cfg) i (pl_merchant_id p) (pl_user_id p) token))"

text \<open>\<open>float(body.quantity) if body.quantity else None\<close>: a float is the decimal of its text.\<close>

definition route_modify ::
  "env \<Rightarrow> (wf_state \<Rightarrow> json) \<Rightarrow> workflow \<Rightarrow> (db \<times> 'a) wf_services \<Rightarrow> principal \<Rightarrow> uuid \<Rightarrow> string \<Rightarrow> string \<Rightarrow> dec option
   \<Rightarrow> dec option \<Rightarrow> string \<Rightarrow> ('a outside world, dict) wm" where
  "route_modify e enc g sv p i token rid quantity max_price key =
     through_workflow e enc p (approval_scope p i ''modify'') key
       [(''approval_token'', JStr token), (''request_id'', JStr rid),
        (''quantity'', opt_json (\<lambda>d. JStr (str_dec d)) quantity),
        (''max_unit_price'', opt_json (\<lambda>d. JStr (str_dec d)) max_price), (''idempotency_key'', JStr key)]
       rid ''superseded_approval_id'' i
       (wired_resume g sv (pl_merchant_id p) rid AS_MODIFIED token (map_option py_float quantity)
          (map_option py_float max_price) (Some (pl_user_id p)) (Some i) None)"

definition route_reject ::
  "env \<Rightarrow> (wf_state \<Rightarrow> json) \<Rightarrow> workflow \<Rightarrow> (db \<times> 'a) wf_services \<Rightarrow> principal \<Rightarrow> uuid \<Rightarrow> string option \<Rightarrow> string
   \<Rightarrow> ('a outside world, dict) wm" where
  "route_reject e enc g sv p i rid key =
     (let scope = approval_scope p i ''reject'';
          data = [(''request_id'', opt_json JStr rid), (''idempotency_key'', JStr key)]
      in if truthy rid then
           through_workflow e enc p scope key data (the rid) ''approval_id'' i
             (bnd (thread_state (str_uuid (pl_merchant_id p)) (the rid)) (\<lambda>v.
              bnd (lift (key_item ''approval_token'' (case v of None \<Rightarrow> None | Some x \<Rightarrow> ws_approval_token x))) (\<lambda>token.
              wired_resume g sv (pl_merchant_id p) (the rid) AS_REJECTED token None None (Some (pl_user_id p)) (Some i) None)))
         else directly e scope key data (approval_reject e i (pl_merchant_id p) (pl_user_id p)))"

section \<open>A direct approval is never executed\<close>

text \<open>The route may approve an approval of a workflow without naming the request.  The workflow still waits, and no resume
  gets past the decision any more.\<close>

lemma no_second_decision:
  assumes a: "find_approval i None s = Some a" and "ap_status a \<noteq> AS_PENDING" and "ap_merchant_id a = m"
  shows "\<exists>x. db_decide e sv i m ac tok (Some u) s = (Inl x, s)"
proof -
  define x where "x = Exc ConflictError (''Approval is already '' @ approval_status_str (ap_status a))"
  have "verify_owner_and_state a m s = (Inl x, s)"
    using assms by (simp add: verify_owner_and_state_def exec_defs x_def)
  then have v: "andthen (verify_owner_and_state a m) k s = (Inl x, s)" for k :: "approval_row m" by (simp add: andthen_eval_Inl)
  have "approvals_get i None s = (Inr a, s)" by (simp add: approvals_get_def exec_defs require_def a)
  then have g: "bnd (approvals_get i None) f s = f a s" for f :: "approval_row \<Rightarrow> approval_row m" by (rule bnd_eval)
  have "approval_approve e sv i m u tok s = (Inl x, s)" "approval_reject e i m u s = (Inl x, s)"
    "approval_mark_modified e sv i m u tok s = (Inl x, s)"
    by (simp_all add: approval_approve_def approval_reject_def approval_mark_modified_def g v)
  moreover have "rollback s s = s" by (simp add: rollback_def)
  ultimately show ?thesis
    by (simp add: db_decide_def request_def atomic_def require_def ret_def raise_def bnd_def)
qed

lemma decided_thread_stuck:
  assumes th: "out_threads (wd_out (snd w)) (thread_id (str_uuid m) rid) = Some th"
    and i: "ws_approval_id (th_values th) = Some (str_uuid i)"
    and a: "find_approval i None (fst w) = Some a" "ap_status a \<noteq> AS_PENDING" "ap_merchant_id a = m"
  shows "\<exists>x. wired_resume g (app_services e sv uuid5 fc y) m rid ac tok q mp (Some u) ea ep w = (Inl x, w)"
proof -
  let ?sv = "app_services e sv uuid5 fc y" and ?s = "((fst w, out_suppliers (wd_out (snd w))), th)"
  obtain x where x: "db_decide e sv i m ac tok (Some u) (fst w) = (Inl x, fst w)"
    using no_second_decision [OF a] by blast
  have "sv_decide ?sv i m ac tok (Some u) (fst ?s) = (Inl x, fst ?s)"
    by (simp add: app_services_def db_services_def on_db_def x)
  then have d: "on_services (sv_decide ?sv i m ac tok (Some u)) ?s = (Inl x, ?s)" by (simp add: on_services_def)
  have "\<exists>x. runtime_resume g ?sv m ac tok q mp (Some u) ea ep ?s = (Inl x, ?s)"
    using d i by (auto simp: runtime_resume_def exec_defs key_item_def uuid_item_def split: sum.splits)
  then obtain x' where "runtime_resume g ?sv m ac tok q mp (Some u) ea ep ?s = (Inl x', ?s)" by blast
  with th show ?thesis
    by (cases w) (auto simp: wired_resume_def bnd_def gets_def on_thread_def intro!: world.equality outside.equality)
qed

end
