(* ===== verification/SupplierApi.thy ===== *)
theory SupplierApi
  imports Orders Inventory
begin

text \<open>
  \<open>api/v1/suppliers.py\<close>: the side of the supplier.  A supplier account keeps its catalog and decides the orders that wait
  for it: accepting one takes the ordered quantities out of the catalog stock and settles the transaction, in one commit.
  The views of orders and catalogs are those of \<open>api/v1/orders.py\<close> and of the discovery pages.
\<close>

section \<open>Views\<close>

record timeline_event =
  te_id :: uuid
  te_status :: string
  te_occurred_at :: int
  te_details :: dict

record order_view =
  ov_order :: order_row
  ov_supplier_name :: string
  ov_items :: "order_item_row list"
  ov_timeline :: "timeline_event list"

definition approval_event_status :: "string \<Rightarrow> string" where
  "approval_event_status ac =
     (if ac = ''approval.requested'' then ''APPROVAL_PENDING''
      else if ac = ''approval.granted'' then ''APPROVED''
      else if ac = ''approval.modified'' then ''MODIFIED''
      else if ac = ''approval.rejected'' then ''REJECTED''
      else map (\<lambda>c. if c = CHR ''.'' then CHR ''_'' else c) (upper ac))"

definition approval_events :: "order_row \<Rightarrow> db \<Rightarrow> timeline_event list" where
  "approval_events x s = (case o_approval_id x of
     None \<Rightarrow> []
   | Some i \<Rightarrow> map (\<lambda>l. \<lparr>te_id = row_id l, te_status = approval_event_status (au_action l), te_occurred_at = created_at l,
                        te_details = au_metadata l\<rparr>)
       (filter (\<lambda>l. au_merchant_id l = Some (o_merchant_id x) \<and> au_resource_type l = ''approval''
                    \<and> au_resource_id l = str_uuid i) (t_audit_logs s)))"

definition serialize_order :: "order_row \<Rightarrow> string \<Rightarrow> db \<Rightarrow> order_view" where
  "serialize_order x supplier s =
     \<lparr>ov_order = x, ov_supplier_name = supplier, ov_items = order_items (row_id x) s,
      ov_timeline = sort_key te_occurred_at (approval_events x s
        @ map (\<lambda>t. \<lparr>te_id = row_id t, te_status = order_status_str (oe_status t), te_occurred_at = created_at t,
                     te_details = oe_details t\<rparr>) (order_timeline (row_id x) (o_merchant_id x) s))\<rparr>"

record product_view =
  pv_item :: supplier_product_row
  pv_product :: product_row

record supplier_view =
  vw_supplier :: supplier_row
  vw_product_count :: nat
  vw_products :: "product_view list"

text \<open>SQL's \<open>ILIKE\<close> (\<open>%\<close> any text, \<open>_\<close> one character, a backslash takes the next one literally).\<close>

fun like_match :: "string \<Rightarrow> string \<Rightarrow> bool" where
  "like_match [] s \<longleftrightarrow> s = []"
| "like_match (p # ps) [] \<longleftrightarrow> p = CHR ''%'' \<and> like_match ps []"
| "like_match (p # ps) (c # s) \<longleftrightarrow>
     (if p = CHR ''%'' then like_match ps (c # s) \<or> like_match (p # ps) s
      else if p = CHR 0x5C then (case ps of [] \<Rightarrow> c = p \<and> s = [] | q # qs \<Rightarrow> c = q \<and> like_match qs s)
      else (p = CHR ''_'' \<or> p = c) \<and> like_match ps s)"

definition ilike :: "string \<Rightarrow> string \<Rightarrow> bool" where
  "ilike pattern s \<longleftrightarrow> like_match (lower pattern) (lower s)"

definition contains_like :: "string \<Rightarrow> string \<Rightarrow> bool" where
  "contains_like search s \<longleftrightarrow> ilike (''%'' @ strip search @ ''%'') s"

definition opt_ilike :: "string \<Rightarrow> string option \<Rightarrow> bool" where
  "opt_ilike search s = (case s of None \<Rightarrow> False | Some x \<Rightarrow> contains_like search x)"

definition sql_page :: "nat \<Rightarrow> nat \<Rightarrow> 'r list \<Rightarrow> 'r list" where
  "sql_page limit offset rows = take limit (drop offset rows)"

definition catalog_products :: "uuid \<Rightarrow> string option \<Rightarrow> bool option \<Rightarrow> db \<Rightarrow> product_view list" where
  "catalog_products supplier search available s =
     filter (\<lambda>v. (\<not> truthy search \<or> contains_like (the search) (p_name (pv_product v))
                   \<or> contains_like (the search) (p_sku (pv_product v))
                   \<or> contains_like (the search) (sp_supplier_sku (pv_item v)))
                 \<and> (available = Some True \<longrightarrow> dlt dzero (sp_available_quantity (pv_item v)))
                 \<and> (available = Some False \<longrightarrow> dle (sp_available_quantity (pv_item v)) dzero))
       (concat (map (\<lambda>i. map (\<lambda>p. \<lparr>pv_item = i, pv_product = p\<rparr>)
            (filter (\<lambda>p. row_id p = sp_product_id i) (t_products s)))
          (filter (\<lambda>i. sp_supplier_id i = supplier) (t_supplier_products s))))"

definition product_page :: "uuid \<Rightarrow> string option \<Rightarrow> bool option \<Rightarrow> nat \<Rightarrow> nat \<Rightarrow> db \<Rightarrow> product_view list" where
  "product_page supplier search available limit offset s =
     sql_page limit offset (sort_key (\<lambda>v. (p_name (pv_product v), uint (row_id (pv_item v))))
       (catalog_products supplier search available s))"

definition product_count :: "uuid \<Rightarrow> db \<Rightarrow> nat" where
  "product_count supplier s = length (filter (\<lambda>i. sp_supplier_id i = supplier) (t_supplier_products s))"

definition view_supplier :: "db \<Rightarrow> supplier_row \<Rightarrow> supplier_view" where
  "view_supplier s r = \<lparr>vw_supplier = r, vw_product_count = product_count (row_id r) s,
     vw_products = product_page (row_id r) None None 20 0 s\<rparr>"

text \<open>A supplier is visible to its own account, when it has no account, and while it is active.\<close>

definition visible_supplier :: "uuid \<Rightarrow> uuid \<Rightarrow> supplier_row m" where
  "visible_supplier i merchant =
     bnd (gets (\<lambda>s. find (\<lambda>r. row_id r = i \<and> (s_merchant_id r = Some merchant \<or> s_merchant_id r = None \<or> s_is_active r))
        (t_suppliers s))) (\<lambda>found. require found (Exc NotFoundError ''Supplier not found''))"

definition get_supplier :: "uuid \<Rightarrow> principal \<Rightarrow> supplier_view m" where
  "get_supplier i p = bnd (visible_supplier i (pl_merchant_id p)) (\<lambda>r. gets (\<lambda>s. view_supplier s r))"

definition supplier_products :: "uuid \<Rightarrow> principal \<Rightarrow> string option \<Rightarrow> bool option \<Rightarrow> nat \<Rightarrow> nat \<Rightarrow> (product_view list \<times> nat) m" where
  "supplier_products i p search available limit offset =
     andthen (visible_supplier i (pl_merchant_id p))
       (gets (\<lambda>s. (product_page i search available limit offset s, length (catalog_products i search available s))))"

definition account_supplier :: "uuid \<Rightarrow> db \<Rightarrow> supplier_row option" where
  "account_supplier merchant s = find (\<lambda>r. s_merchant_id r = Some merchant) (t_suppliers s)"

definition my_supplier :: "principal \<Rightarrow> supplier_view m" where
  "my_supplier p =
     bnd (gets (account_supplier (pl_merchant_id p))) (\<lambda>found.
     bnd (require found (Exc NotFoundError ''Supplier profile not found for this account'')) (\<lambda>r.
     gets (\<lambda>s. view_supplier s r)))"

section \<open>Discovery\<close>

text \<open>Every active supplier; the distance is a display value computed from the id, in tenths of a kilometre.\<close>

record nearby_supplier =
  nb_supplier :: supplier_row
  nb_distance_tenths :: int
  nb_trust_score :: dec
  nb_product_count :: nat

definition shown_trust :: "dec \<Rightarrow> dec" where
  "shown_trust d = (if deq d dzero then Dec 95 2 else d)"

definition nearby_view :: "db \<Rightarrow> supplier_row \<Rightarrow> nearby_supplier" where
  "nearby_view s r =
     \<lparr>nb_supplier = r, nb_distance_tenths = 12 + uint (row_id r) mod 38, nb_trust_score = shown_trust (s_trust_score r),
      nb_product_count = product_count (row_id r) s\<rparr>"

definition discover_suppliers :: "string option \<Rightarrow> string option \<Rightarrow> nat \<Rightarrow> nat \<Rightarrow> db \<Rightarrow> nearby_supplier list \<times> nat" where
  "discover_suppliers search category limit offset s =
     (let text = (case search of None \<Rightarrow> '''' | Some x \<Rightarrow> strip x);
          kind = (case category of None \<Rightarrow> '''' | Some x \<Rightarrow> strip x);
          rows = sort_key (\<lambda>r. (- rat_of (s_trust_score r), s_name r))
            (filter (\<lambda>r. s_is_active r
                \<and> (text = '''' \<or> contains_like text (s_name r) \<or> opt_ilike text (s_city r) \<or> opt_ilike text (s_category r))
                \<and> (kind = '''' \<or> opt_ilike kind (s_category r))) (t_suppliers s))
      in (sql_page limit offset (map (nearby_view s) rows), length rows))"

text \<open>Every other merchant, with the address of one of its stores.\<close>

record nearby_merchant =
  nm_merchant :: merchant_row
  nm_address :: "dict option"
  nm_distance_tenths :: int
  nm_product_count :: nat
  nm_business_type :: string

definition nearby_merchant_view :: "db \<Rightarrow> merchant_row \<Rightarrow> nearby_merchant" where
  "nearby_merchant_view s m =
     \<lparr>nm_merchant = m, nm_address = map_option st_address (find (\<lambda>x. st_merchant_id x = row_id m) (t_stores s)),
      nm_distance_tenths = 8 + uint (row_id m) mod 40,
      nm_product_count = length (merchant_products (row_id m) s),
      nm_business_type = (if m_business_type m = '''' then ''retail'' else m_business_type m)\<rparr>"

definition discover_merchants :: "principal \<Rightarrow> string option \<Rightarrow> nat \<Rightarrow> nat \<Rightarrow> db \<Rightarrow> nearby_merchant list \<times> nat" where
  "discover_merchants p search limit offset s =
     (let text = (case search of None \<Rightarrow> '''' | Some x \<Rightarrow> strip x);
          rows = sort_key m_name (filter (\<lambda>m. row_id m \<noteq> pl_merchant_id p \<and> (text = '''' \<or> contains_like text (m_name m)))
                   (t_merchants s))
      in (sql_page limit offset (map (nearby_merchant_view s) rows), length rows))"

section \<open>The catalog of an account\<close>

definition owned_supplier :: "principal \<Rightarrow> supplier_row m" where
  "owned_supplier p =
     andthen (guard (lower (pl_role p) = ''supplier'') (Exc AuthorizationError ''A supplier account is required for this action''))
     (bnd (gets (account_supplier (pl_merchant_id p))) (\<lambda>found.
      require found (Exc NotFoundError ''Supplier profile not found for this account'')))"

record catalog_upsert =
  cu_sku :: string
  cu_name :: string
  cu_unit :: string
  cu_available_quantity :: dec
  cu_unit_price :: dec
  cu_lead_time_days :: int
  cu_category :: "string option"
  cu_supplier_sku :: "string option"

definition opt_length_ok :: "nat \<Rightarrow> string option \<Rightarrow> bool" where
  "opt_length_ok n v = (case v of None \<Rightarrow> True | Some x \<Rightarrow> length x \<le> n)"

definition check_catalog_upsert :: "catalog_upsert \<Rightarrow> exc + catalog_upsert" where
  "check_catalog_upsert b =
     (if 1 \<le> length (cu_sku b) \<and> length (cu_sku b) \<le> 100 \<and> 1 \<le> length (cu_name b) \<and> length (cu_name b) \<le> 200
         \<and> 1 \<le> length (cu_unit b) \<and> length (cu_unit b) \<le> 30 \<and> nonneg (cu_available_quantity b) \<and> positive (cu_unit_price b)
         \<and> 0 \<le> cu_lead_time_days b \<and> cu_lead_time_days b \<le> 90 \<and> opt_length_ok 100 (cu_category b)
         \<and> opt_length_ok 100 (cu_supplier_sku b)
      then Inr b else Inl (validation_error ''SupplierCatalogUpsertRequest''))"

definition supplier_product_clash :: "supplier_product_row \<Rightarrow> supplier_product_row \<Rightarrow> bool" where
  "supplier_product_clash x y \<longleftrightarrow> sp_supplier_id x = sp_supplier_id y \<and> sp_product_id x = sp_product_id y"

definition named_product :: "catalog_upsert \<Rightarrow> product_row \<Rightarrow> product_row" where
  "named_product b p = p\<lparr>p_name := strip (cu_name b), p_unit := strip (cu_unit b),
     p_category := (if truthy (cu_category b) then Some (strip (the (cu_category b))) else p_category p)\<rparr>"

definition put_product :: "env \<Rightarrow> uuid \<Rightarrow> catalog_upsert \<Rightarrow> uuid m" where
  "put_product e merchant b =
     (let sku = upper (strip (cu_sku b)) in
      bnd (gets (\<lambda>s. find (\<lambda>p. p_merchant_id p = merchant \<and> p_sku p = sku) (t_products s))) (\<lambda>found. case found of
        None \<Rightarrow> bnd (add_product e merchant sku (strip (cu_name b)) (strip (cu_unit b))
                 (if truthy (cu_category b) then Some (strip (the (cu_category b))) else None) []) (\<lambda>p. ret (row_id p))
      | Some p \<Rightarrow> andthen (change_row t_products t_products_update (row_id p) (named_product b)) (ret (row_id p))))"

definition stocked :: "catalog_upsert \<Rightarrow> supplier_product_row \<Rightarrow> supplier_product_row" where
  "stocked b i = i\<lparr>sp_supplier_sku := upper (strip (or_else (cu_supplier_sku b) (upper (strip (cu_sku b))))),
     sp_available_quantity := cu_available_quantity b, sp_unit_price := cu_unit_price b,
     sp_lead_time_days := cu_lead_time_days b\<rparr>"

definition put_catalog_item :: "env \<Rightarrow> uuid \<Rightarrow> uuid \<Rightarrow> catalog_upsert \<Rightarrow> unit m" where
  "put_catalog_item e supplier product b =
     bnd (gets (\<lambda>s. find (\<lambda>i. sp_supplier_id i = supplier \<and> sp_product_id i = product) (t_supplier_products s))) (\<lambda>found.
     case found of
       None \<Rightarrow> bnd (new_uuid e) (\<lambda>i. bnd (gets clock) (\<lambda>now.
         add_row t_supplier_products t_supplier_products_update supplier_product_clash
           (stocked b \<lparr>row_id = i, created_at = now, updated_at = now, sp_supplier_id = supplier, sp_product_id = product,
                       sp_supplier_sku = '''', sp_available_quantity = dzero, sp_unit_price = dzero, sp_lead_time_days = 1\<rparr>)))
     | Some i \<Rightarrow> change_row t_supplier_products t_supplier_products_update (row_id i) (stocked b))"

definition upsert_supplier_product :: "env \<Rightarrow> principal \<Rightarrow> catalog_upsert \<Rightarrow> product_view option m" where
  "upsert_supplier_product e p b = request (
     andthen (lift (check_catalog_upsert b))
     (bnd (owned_supplier p) (\<lambda>spl.
      bnd (put_product e (pl_merchant_id p) b) (\<lambda>product.
      andthen (put_catalog_item e (row_id spl) product b)
        (gets (\<lambda>s. find (\<lambda>v. sp_product_id (pv_item v) = product) (catalog_products (row_id spl) None None s)))))))"

section \<open>Deciding an order\<close>

definition incoming_order :: "uuid \<Rightarrow> uuid \<Rightarrow> db \<Rightarrow> order_row option" where
  "incoming_order i supplier s = find (\<lambda>x. row_id x = i \<and> o_supplier_id x = supplier) (t_orders s)"

text \<open>The catalog row of an ordered SKU, case-insensitively.\<close>

definition catalog_item_for :: "uuid \<Rightarrow> string \<Rightarrow> db \<Rightarrow> supplier_product_row option" where
  "catalog_item_for supplier sku s =
     find (\<lambda>i. sp_supplier_id i = supplier
       \<and> list_ex (\<lambda>p. row_id p = sp_product_id i \<and> upper (p_sku p) = upper sku) (t_products s)) (t_supplier_products s)"

definition take_stock :: "dec \<Rightarrow> supplier_product_row \<Rightarrow> supplier_product_row" where
  "take_stock q i = i\<lparr>sp_available_quantity := dsub (sp_available_quantity i) q\<rparr>"

definition reserve_item :: "uuid \<Rightarrow> order_item_row \<Rightarrow> unit m" where
  "reserve_item supplier it =
     bnd (gets (catalog_item_for supplier (oi_sku it))) (\<lambda>found.
     bnd (require found (Exc ConflictError (''Insufficient catalog stock for '' @ oi_sku it))) (\<lambda>i.
     andthen (guard (\<not> dlt (sp_available_quantity i) (oi_quantity it))
                (Exc ConflictError (''Insufficient catalog stock for '' @ oi_sku it)))
       (change_row t_supplier_products t_supplier_products_update (row_id i) (take_stock (oi_quantity it)))))"

definition supplier_decided :: "bool \<Rightarrow> order_row \<Rightarrow> order_row" where
  "supplier_decided approved x =
     (if approved then x\<lparr>o_status := OS_CONFIRMED,
        o_supplier_reference := Some (or_else (o_supplier_reference x) (''PO-'' @ upper (take 8 (str_uuid (row_id x)))))\<rparr>
      else x\<lparr>o_status := OS_CANCELLED, o_failure_reason := Some ''supplier_rejected''\<rparr>)"

definition settled_by_supplier :: "bool \<Rightarrow> string option \<Rightarrow> transaction_row \<Rightarrow> transaction_row" where
  "settled_by_supplier approved reference x =
     x\<lparr>t_status := (if approved then TS_SUCCEEDED else TS_FAILED),
       t_provider_reference := (if approved then reference else None),
       t_error := (if approved then None else Some [(''reason'', JStr ''supplier_rejected'')])\<rparr>"

definition decision_title :: "bool \<Rightarrow> string" where
  "decision_title approved = (if approved then ''Supplier confirmed your order'' else ''Supplier could not fulfil your order'')"

definition decision_body :: "bool \<Rightarrow> string" where
  "decision_body approved = (if approved then ''The supplier approved the order. Settlement has started.''
     else ''The supplier declined the order before settlement.'')"

text \<open>What follows the decision: the transaction, the event, the notification and the outbox.\<close>

definition settle_decision :: "env \<Rightarrow> bool \<Rightarrow> order_row \<Rightarrow> unit m" where
  "settle_decision e approved x =
     (let st = order_status_str (o_status x) in
      bnd (gets (\<lambda>s. find (\<lambda>t. t_order_id t = row_id x) (t_transactions s))) (\<lambda>found.
      andthen (case found of None \<Rightarrow> ret ()
               | Some t \<Rightarrow> change_row t_transactions t_transactions_update (row_id t)
                   (settled_by_supplier approved (o_supplier_reference x)))
      (andthen (add_order_event e (o_merchant_id x) (row_id x) (o_status x)
         [(''supplier_decision'', JStr (if approved then ''APPROVED'' else ''REJECTED''))])
      (bnd (add_notification e (o_merchant_id x) NT_ORDER_UPDATE (decision_title approved) (decision_body approved)
         (Some ''order'') (Some (row_id x)) [(''status'', JStr st)]) (\<lambda>n.
      andthen (add_outbox e (Some (o_merchant_id x)) ''order'' (row_id x) (if approved then ORDER_EXECUTED else ORDER_FAILED)
         None None [(''order_id'', JStr (str_uuid (row_id x))), (''status'', JStr st)])
      (add_outbox e (Some (o_merchant_id x)) ''notification'' n NOTIFICATION_CREATED None None
         [(''notification_id'', JStr (str_uuid n)), (''entity_id'', JStr (str_uuid (row_id x)))]))))))"

definition decide_supplier_order :: "env \<Rightarrow> principal \<Rightarrow> uuid \<Rightarrow> bool \<Rightarrow> order_view m" where
  "decide_supplier_order e p i approved = request (
     bnd (owned_supplier p) (\<lambda>spl.
     bnd (gets (incoming_order i (row_id spl))) (\<lambda>found.
     bnd (require found (Exc NotFoundError ''Incoming order not found'')) (\<lambda>x.
     (if o_status x \<noteq> OS_APPROVAL_PENDING then
        (if o_status x = (if approved then OS_CONFIRMED else OS_CANCELLED) then gets (serialize_order x (s_name spl))
         else raise (Exc ConflictError (''Order is already '' @ order_status_str (o_status x))))
      else
        andthen (if approved then bnd (gets (order_items (row_id x))) (\<lambda>its. bnd (mapP (reserve_item (row_id spl)) its) (\<lambda>_. ret ()))
                 else ret ())
        (andthen (change_row t_orders t_orders_update (row_id x) (supplier_decided approved))
        (andthen (settle_decision e approved (supplier_decided approved x))
          (bnd (gets (\<lambda>s. by_id (row_id x) (t_orders s))) (\<lambda>y.
           bnd (require y (Exc NotFoundError ''Order not found'')) (\<lambda>y. gets (serialize_order y (s_name spl))))))))))))"

definition supplier_orders :: "principal \<Rightarrow> string option \<Rightarrow> nat \<Rightarrow> nat \<Rightarrow> db \<Rightarrow> order_view list \<times> nat" where
  "supplier_orders p status limit offset s = (case account_supplier (pl_merchant_id p) s of
     None \<Rightarrow> ([], 0)
   | Some spl \<Rightarrow>
       (let rows = filter (\<lambda>x. o_supplier_id x = row_id spl
               \<and> (\<not> truthy status \<or> Some (order_status_str (o_status x)) = status)) (t_orders s)
        in (map (\<lambda>x. serialize_order x (s_name spl) s) (sql_page limit offset (sort_key (\<lambda>x. - created_at x) rows)),
            length rows)))"

section \<open>The catalog stock\<close>

definition catalog_ok :: "db \<Rightarrow> bool" where
  "catalog_ok s \<longleftrightarrow> table_ok supplier_product_clash (t_supplier_products s)
     \<and> list_all (\<lambda>i. 0 \<le> rat_of (sp_available_quantity i)) (t_supplier_products s)"

text \<open>The stock of an account, over all its rows.\<close>

definition catalog_stock :: "uuid \<Rightarrow> db \<Rightarrow> rat" where
  "catalog_stock supplier s =
     sum_list (map (\<lambda>i. if sp_supplier_id i = supplier then rat_of (sp_available_quantity i) else 0) (t_supplier_products s))"

lemma take_stock_fields [simp]:
  "row_id (take_stock q i) = row_id i" "sp_supplier_id (take_stock q i) = sp_supplier_id i"
  "sp_product_id (take_stock q i) = sp_product_id i"
  "rat_of (sp_available_quantity (take_stock q i)) = rat_of (sp_available_quantity i) - rat_of q"
  by (simp_all add: take_stock_def dsub_def)

lemma mutate_item [simp]:
  "sp_supplier_id (mutate now f i) = sp_supplier_id (f i)" "sp_product_id (mutate now f i) = sp_product_id (f i)"
  "sp_available_quantity (mutate now f i) = sp_available_quantity (f i)" for f :: "supplier_product_row \<Rightarrow> supplier_product_row"
  by (simp_all add: mutate_def)

text \<open>Taking \<open>q\<close> out of one row.\<close>

definition rows_taken :: "db \<Rightarrow> supplier_product_row \<Rightarrow> dec \<Rightarrow> supplier_product_row list" where
  "rows_taken s i q = upd (\<lambda>x. row_id x = row_id i) (mutate (clock s) (take_stock q)) (t_supplier_products s)"

lemma reserve_item_Inr:
  "reserve_item supplier it s = (Inr u, t) \<longleftrightarrow>
     (\<exists>i. catalog_item_for supplier (oi_sku it) s = Some i \<and> rat_of (oi_quantity it) \<le> rat_of (sp_available_quantity i)
        \<and> t = s\<lparr>t_supplier_products := rows_taken s i (oi_quantity it)\<rparr>)"
  by (auto simp: reserve_item_def run_simps dlt_rat rows_taken_def)

lemma sum_list_upd_one:
  fixes g :: "'r row_scheme \<Rightarrow> rat"
  assumes "distinct (map row_id rows)" and "x \<in> set rows" and "g (f x) = g x - d"
  shows "sum_list (map g (upd (\<lambda>r. row_id r = row_id x) f rows)) = sum_list (map g rows) - d"
  using assms
proof (induction rows)
  case (Cons r rows)
  show ?case
  proof (cases "r = x")
    case True
    with Cons.prems have "upd (\<lambda>r. row_id r = row_id x) f rows = rows" by (intro upd_none) (auto simp: image_iff)
    with True Cons.prems(3) show ?thesis by simp
  next
    case False
    with Cons have "row_id r \<noteq> row_id x" by (auto simp: image_iff)
    with False Cons show ?thesis by simp
  qed
qed simp

lemma rows_taken_ok:
  assumes ok: "catalog_ok s" and i: "i \<in> set (t_supplier_products s)" "rat_of q \<le> rat_of (sp_available_quantity i)"
  shows "catalog_ok (s\<lparr>t_supplier_products := rows_taken s i q\<rparr>)"
    and "catalog_stock (sp_supplier_id i) (s\<lparr>t_supplier_products := rows_taken s i q\<rparr>)
      = catalog_stock (sp_supplier_id i) s - rat_of q"
    and "sp_supplier_id i \<noteq> other \<Longrightarrow>
      catalog_stock other (s\<lparr>t_supplier_products := rows_taken s i q\<rparr>) = catalog_stock other s"
proof -
  have d: "distinct (map row_id (t_supplier_products s))" using ok by (auto simp: catalog_ok_def table_ok_distinct)
  have "table_ok supplier_product_clash (rows_taken s i q)"
    unfolding rows_taken_def by (rule table_ok_upd) (use ok in \<open>simp_all add: catalog_ok_def supplier_product_clash_def\<close>)
  moreover have "0 \<le> rat_of (sp_available_quantity x)" if "x \<in> set (rows_taken s i q)" for x
  proof -
    from that obtain r where r: "r \<in> set (t_supplier_products s)"
      and x: "x = (if row_id r = row_id i then mutate (clock s) (take_stock q) r else r)"
      by (auto simp: rows_taken_def in_set_upd)
    then show ?thesis using distinct_keyD [OF d r i(1)] i(2) ok by (auto simp: catalog_ok_def list_all_iff)
  qed
  ultimately show "catalog_ok (s\<lparr>t_supplier_products := rows_taken s i q\<rparr>)" by (simp add: catalog_ok_def list_all_iff)
  show "catalog_stock (sp_supplier_id i) (s\<lparr>t_supplier_products := rows_taken s i q\<rparr>)
      = catalog_stock (sp_supplier_id i) s - rat_of q"
    by (simp add: catalog_stock_def rows_taken_def sum_list_upd_one [OF d i(1)])
  show "sp_supplier_id i \<noteq> other \<Longrightarrow>
      catalog_stock other (s\<lparr>t_supplier_products := rows_taken s i q\<rparr>) = catalog_stock other s"
    using sum_list_upd_one [OF d i(1), where d = 0] by (simp add: catalog_stock_def rows_taken_def)
qed

lemma catalog_item_mem:
  "catalog_item_for supplier sku s = Some i \<Longrightarrow> i \<in> set (t_supplier_products s) \<and> sp_supplier_id i = supplier"
  by (auto simp: catalog_item_for_def dest: find_Some_iff_mem)

definition ordered :: "order_item_row list \<Rightarrow> rat" where
  "ordered its = sum_list (map (\<lambda>it. rat_of (oi_quantity it)) its)"

lemma reserve_all_exact:
  "mapP (reserve_item supplier) its s = (Inr us, t) \<Longrightarrow> catalog_ok s \<Longrightarrow>
   catalog_ok t \<and> catalog_stock supplier t = catalog_stock supplier s - ordered its
   \<and> (\<forall>other. other \<noteq> supplier \<longrightarrow> catalog_stock other t = catalog_stock other s)
   \<and> t = s\<lparr>t_supplier_products := t_supplier_products t\<rparr>"
proof (induction its arbitrary: s us)
  case Nil
  then show ?case by (simp add: run_simps ordered_def)
next
  case (Cons it its)
  then obtain u v where one: "reserve_item supplier it s = (Inr (), u)" and rest: "mapP (reserve_item supplier) its u = (Inr v, t)"
    by (auto simp: run_simps)
  from one obtain i where i: "catalog_item_for supplier (oi_sku it) s = Some i"
    "rat_of (oi_quantity it) \<le> rat_of (sp_available_quantity i)" and u: "u = s\<lparr>t_supplier_products := rows_taken s i (oi_quantity it)\<rparr>"
    unfolding reserve_item_Inr by blast
  note m = catalog_item_mem [OF i(1)]
  note taken = rows_taken_ok [OF Cons.prems(2) conjunct1 [OF m] i(2), folded u]
  from Cons.IH [OF rest taken(1)] taken m show ?case
    by (auto simp: ordered_def u)
qed

section \<open>Deciding once\<close>

definition answer_status :: "bool \<Rightarrow> order_status" where
  "answer_status approved = (if approved then OS_CONFIRMED else OS_CANCELLED)"

lemma supplier_decided_fields [simp]:
  "row_id (supplier_decided b x) = row_id x" "o_merchant_id (supplier_decided b x) = o_merchant_id x"
  "o_supplier_id (supplier_decided b x) = o_supplier_id x" "o_status (supplier_decided b x) = answer_status b"
  "o_total_amount (supplier_decided b x) = o_total_amount x" "o_currency (supplier_decided b x) = o_currency x"
  "o_approval_id (supplier_decided b x) = o_approval_id x" "o_idempotency_key (supplier_decided b x) = o_idempotency_key x"
  "o_proposal_id (supplier_decided b x) = o_proposal_id x" "o_order_hash (supplier_decided b x) = o_order_hash x"
  "order_clash y (supplier_decided b x) = order_clash y x"
  by (simp_all add: supplier_decided_def answer_status_def order_clash_def)

lemma settled_by_supplier_fields [simp]:
  "row_id (settled_by_supplier b ref x) = row_id x" "t_order_id (settled_by_supplier b ref x) = t_order_id x"
  "t_merchant_id (settled_by_supplier b ref x) = t_merchant_id x" "t_amount (settled_by_supplier b ref x) = t_amount x"
  "t_currency (settled_by_supplier b ref x) = t_currency x" "t_approval_id (settled_by_supplier b ref x) = t_approval_id x"
  "t_idempotency_key (settled_by_supplier b ref x) = t_idempotency_key x"
  "t_status (settled_by_supplier b ref x) = (if b then TS_SUCCEEDED else TS_FAILED)"
  "transaction_clash y (settled_by_supplier b ref x) = transaction_clash y x"
  by (simp_all add: settled_by_supplier_def transaction_clash_def)

definition settled_rows_of :: "bool \<Rightarrow> order_row \<Rightarrow> db \<Rightarrow> transaction_row list" where
  "settled_rows_of approved x s = (case find (\<lambda>t. t_order_id t = row_id x) (t_transactions s) of
     None \<Rightarrow> t_transactions s
   | Some y \<Rightarrow> upd (\<lambda>r. row_id r = row_id y) (mutate (clock s) (settled_by_supplier approved (o_supplier_reference x)))
       (t_transactions s))"

lemma settled_rows_cong:
  "t_transactions u = t_transactions s \<Longrightarrow> clock u = clock s \<Longrightarrow> settled_rows_of approved x u = settled_rows_of approved x s"
  by (simp add: settled_rows_of_def cong: option.case_cong)

lemma settle_decision_effect:
  assumes "settle_decision e approved x s = (Inr u, t)"
  shows "t_orders t = t_orders s \<and> t_supplier_products t = t_supplier_products s \<and> t_suppliers t = t_suppliers s
    \<and> t_approvals t = t_approvals s \<and> clock t = clock s \<and> t_transactions t = settled_rows_of approved x s"
  using assms
  by (auto simp: settle_decision_def add_order_event_def run_simps Let_def settled_rows_of_def split: option.splits)

lemma reserve_frame:
  "mapP (reserve_item supplier) its s = (Inr us, t) \<Longrightarrow> \<exists>rows. t = s\<lparr>t_supplier_products := rows\<rparr>"
proof (induction its arbitrary: s us)
  case Nil
  then show ?case by (auto simp: run_simps intro: exI [of _ "t_supplier_products s"])
next
  case (Cons it its)
  then obtain u v where one: "reserve_item supplier it s = (Inr (), u)" and rest: "mapP (reserve_item supplier) its u = (Inr v, t)"
    by (auto simp: run_simps)
  from one obtain rows where "u = s\<lparr>t_supplier_products := rows\<rparr>" unfolding reserve_item_Inr by blast
  with Cons.IH [OF rest] show ?case by auto
qed

lemma owned_Inr:
  "owned_supplier p s = (Inr r, t) \<longleftrightarrow> lower (pl_role p) = ''supplier'' \<and> account_supplier (pl_merchant_id p) s = Some r \<and> t = s"
  by (auto simp: owned_supplier_def run_simps)

lemma decide_Inr:
  assumes run: "decide_supplier_order e p i approved s = (Inr v, t)"
  obtains (again) spl x where "account_supplier (pl_merchant_id p) s = Some spl" "lower (pl_role p) = ''supplier''"
      "incoming_order i (row_id spl) s = Some x" "o_status x = answer_status approved" "t = s" "v = serialize_order x (s_name spl) s"
  | (decided) spl x u where "account_supplier (pl_merchant_id p) s = Some spl" "lower (pl_role p) = ''supplier''"
      "incoming_order i (row_id spl) s = Some x" "o_status x = OS_APPROVAL_PENDING"
      "if approved then \<exists>us. mapP (reserve_item (row_id spl)) (order_items (row_id x) s) s = (Inr us, u) else u = s"
      "t_orders t = upd (\<lambda>r. row_id r = row_id x) (mutate (clock s) (supplier_decided approved)) (t_orders s)"
      "t_transactions t = settled_rows_of approved (supplier_decided approved x) s"
      "t_supplier_products t = t_supplier_products u" "t_suppliers t = t_suppliers s" "t_approvals t = t_approvals s"
proof -
  from run obtain spl x where spl: "account_supplier (pl_merchant_id p) s = Some spl" "lower (pl_role p) = ''supplier''"
    and x: "incoming_order i (row_id spl) s = Some x"
    by (auto simp: decide_supplier_order_def request_def run_simps owned_Inr)
  show thesis
  proof (cases "o_status x = OS_APPROVAL_PENDING")
    case False
    with run spl x show thesis
      by (intro again [OF spl x])
        (auto simp: decide_supplier_order_def request_def run_simps owned_Inr answer_status_def split: if_splits)
  next
    case True
    from run spl x True obtain u w where
      u: "if approved then \<exists>us. mapP (reserve_item (row_id spl)) (order_items (row_id x) s) s = (Inr us, u) else u = s"
      and w: "settle_decision e approved (supplier_decided approved x) (u\<lparr>t_orders :=
         upd (\<lambda>r. row_id r = row_id x) (mutate (clock u) (supplier_decided approved)) (t_orders u)\<rparr>) = (Inr (), t)"
      by (auto simp: decide_supplier_order_def request_def run_simps owned_Inr split: if_splits)
    from u obtain rows where us: "u = s\<lparr>t_supplier_products := rows\<rparr>"
    proof (cases approved)
      case True
      with u obtain us where "mapP (reserve_item (row_id spl)) (order_items (row_id x) s) s = (Inr us, u)" by auto
      from reserve_frame [OF this] that show thesis by blast
    next
      case False
      with u that [of "t_supplier_products s"] show thesis by simp
    qed
    from settle_decision_effect [OF w] us show thesis
      by (intro decided [OF spl x True u]) (auto intro: settled_rows_cong)
  qed
qed

text \<open>Whatever was answered is final: the same answer again changes nothing, the other one is refused.\<close>

lemma decide_again:
  assumes run: "decide_supplier_order e p i approved s = (Inr v, t)"
  shows "\<exists>r. decide_supplier_order e' p i approved' t = (r, t)
    \<and> (if approved' = approved then \<exists>w. r = Inr w
       else r = Inl (Exc ConflictError (''Order is already '' @ order_status_str (answer_status approved))))"
proof -
  obtain spl y where spl: "account_supplier (pl_merchant_id p) t = Some spl" "lower (pl_role p) = ''supplier''"
    and y: "incoming_order i (row_id spl) t = Some y" "o_status y = answer_status approved"
  proof (cases rule: decide_Inr [OF run])
    case (1 spl x)
    then show thesis by (intro that) simp_all
  next
    case (2 spl x u)
    let ?f = "mutate (clock s) (supplier_decided approved)"
    have f: "row_id (?f r) = row_id r" "o_supplier_id (?f r) = o_supplier_id r" "o_status (?f r) = answer_status approved" for r
      by (simp_all add: mutate_def)
    from 2 have "incoming_order i (row_id spl) t = Some (?f x)"
      by (simp add: incoming_order_def find_upd_same f)
    with 2 f show thesis by (intro that) (simp_all add: account_supplier_def)
  qed
  have "answer_status approved \<noteq> OS_APPROVAL_PENDING" by (simp add: answer_status_def)
  with spl y show ?thesis
    by (auto simp: decide_supplier_order_def request_def atomic_def bnd_def andthen_def gets_def require_def ret_def raise_def
        owned_supplier_def guard_def answer_status_def rollback_def)
qed

text \<open>An accepted order takes exactly what was ordered out of the supplier's catalog; a refused one takes nothing.\<close>

lemma decide_stock:
  assumes run: "decide_supplier_order e p i approved s = (Inr v, t)" and ok: "catalog_ok s"
  shows "catalog_ok t \<and> (\<forall>x spl. account_supplier (pl_merchant_id p) s = Some spl \<longrightarrow> incoming_order i (row_id spl) s = Some x \<longrightarrow>
    catalog_stock (row_id spl) t = catalog_stock (row_id spl) s
      - (if approved \<and> o_status x = OS_APPROVAL_PENDING then ordered (order_items (row_id x) s) else 0)
    \<and> (\<forall>other. other \<noteq> row_id spl \<longrightarrow> catalog_stock other t = catalog_stock other s))"
proof (cases rule: decide_Inr [OF run])
  case (1 spl x)
  with ok show ?thesis by (auto simp: answer_status_def split: if_splits)
next
  case (2 spl x u)
  have t: "catalog_ok t = catalog_ok u" "catalog_stock k t = catalog_stock k u" for k
    using 2 by (simp_all add: catalog_ok_def catalog_stock_def)
  show ?thesis
  proof (cases approved)
    case True
    with 2 obtain us where "mapP (reserve_item (row_id spl)) (order_items (row_id x) s) s = (Inr us, u)" by auto
    from reserve_all_exact [OF this ok] 2 t True show ?thesis by auto
  next
    case False
    with 2 ok t show ?thesis by auto
  qed
qed

end
