(* ===== verification/Cursor.thy ===== *)
theory Cursor
  imports PyTime Json Procurement
begin

text \<open>
  \<open>api/pagination.py\<close>: the text a client sends back to get the next page.  It is the position of the last row it has seen, in
  JSON, in URL-safe base64 without padding.  \<open>json.loads\<close> on the decoded bytes is the argument \<open>loads\<close>; base64 is written out,
  its decoder with the leniency of \<open>binascii.a2b_base64\<close> (foreign characters are skipped, text after the padding is ignored).
\<close>

section \<open>Base64\<close>

definition b64_alphabet :: string where
  "b64_alphabet = ''ABCDEFGHIJKLMNOPQRSTUVWXYZabcdefghijklmnopqrstuvwxyz0123456789-_''"

definition b64_char :: "nat \<Rightarrow> char" where
  "b64_char n = b64_alphabet ! n"

text \<open>\<open>urlsafe_b64decode\<close> translates \<open>-\<close> and \<open>_\<close> and so takes both spellings.\<close>

definition b64_val :: "char \<Rightarrow> nat option" where
  "b64_val c = (if c = CHR ''+'' then Some 62 else if c = CHR ''/'' then Some 63
     else map_option fst (find (\<lambda>(i, x). x = c) (enumerate 0 b64_alphabet)))"

abbreviation byte :: "char \<Rightarrow> nat" where
  "byte c \<equiv> of_char c"

definition b64_one :: "nat \<Rightarrow> string" where
  "b64_one a = [b64_char (a div 4), b64_char (a mod 4 * 16)]"

definition b64_two :: "nat \<Rightarrow> nat \<Rightarrow> string" where
  "b64_two a b = [b64_char (a div 4), b64_char (a mod 4 * 16 + b div 16), b64_char (b mod 16 * 4)]"

definition b64_three :: "nat \<Rightarrow> nat \<Rightarrow> nat \<Rightarrow> string" where
  "b64_three a b c = [b64_char (a div 4), b64_char (a mod 4 * 16 + b div 16), b64_char (b mod 16 * 4 + c div 64), b64_char (c mod 64)]"

fun b64_encode :: "string \<Rightarrow> string" where
  "b64_encode [] = []"
| "b64_encode [a] = b64_one (byte a) @ ''==''"
| "b64_encode [a, b] = b64_two (byte a) (byte b) @ ''=''"
| "b64_encode (a # b # c # cs) = b64_three (byte a) (byte b) (byte c) @ b64_encode cs"

definition padding_error :: exc where
  "padding_error = Exc PyValueError ''Incorrect padding''"

text \<open>The arguments are the place in the quad, the bits left over and the padding seen.\<close>

fun b64_scan :: "nat \<Rightarrow> nat \<Rightarrow> nat \<Rightarrow> string \<Rightarrow> exc + string" where
  "b64_scan q left pads [] = (if q = 0 then Inr [] else Inl padding_error)"
| "b64_scan q left pads (c # cs) =
     (if c = CHR ''='' then
        (if 2 \<le> q then if 4 \<le> q + pads + 1 then Inr [] else b64_scan q left (pads + 1) cs else b64_scan q left pads cs)
      else (case b64_val c of
          None \<Rightarrow> b64_scan q left pads cs
        | Some v \<Rightarrow>
            (if q = 0 then b64_scan 1 v 0 cs
             else if q = 1 then map_sum id ((#) (char_of (left * 4 + v div 16))) (b64_scan 2 (v mod 16) 0 cs)
             else if q = 2 then map_sum id ((#) (char_of (left * 16 + v div 4))) (b64_scan 3 (v mod 4) 0 cs)
             else map_sum id ((#) (char_of (left * 64 + v))) (b64_scan 0 0 0 cs))))"

definition b64_decode :: "string \<Rightarrow> exc + string" where
  "b64_decode s =
     (if list_ex (\<lambda>c. 128 \<le> byte c) s then Inl (Exc PyValueError ''string argument should contain only ASCII characters'')
      else b64_scan 0 0 0 s)"

lemma less_64: "(n :: nat) < 64 \<longleftrightarrow> n \<in> set [0 ..< 64]" by auto

lemma b64_val_char [simp]: "n < 64 \<Longrightarrow> b64_val (b64_char n) = Some n"
proof -
  have "\<forall>n \<in> set [0 ..< 64]. b64_val (b64_char n) = Some n \<and> b64_char n \<noteq> CHR ''=''"
    by code_simp
  then show "n < 64 \<Longrightarrow> b64_val (b64_char n) = Some n" by simp
qed

lemma b64_char_plain [simp]: "n < 64 \<Longrightarrow> b64_char n \<noteq> CHR ''=''" "n < 64 \<Longrightarrow> byte (b64_char n) < 128"
proof -
  have "\<forall>n \<in> set [0 ..< 64]. b64_char n \<noteq> CHR ''='' \<and> byte (b64_char n) < 128" by code_simp
  then show "n < 64 \<Longrightarrow> b64_char n \<noteq> CHR ''=''" "n < 64 \<Longrightarrow> byte (b64_char n) < 128" by simp_all
qed

lemma byte_bound: "byte c < 256" using nat_of_char_less_256 [of c] by simp

text \<open>What the decoder sees of the encoded text once its padding is gone, and the padding that \<open>decode_cursor\<close> puts back.\<close>

fun b64_body :: "string \<Rightarrow> string" where
  "b64_body [] = []"
| "b64_body [a] = b64_one (byte a)"
| "b64_body [a, b] = b64_two (byte a) (byte b)"
| "b64_body (a # b # c # cs) = b64_three (byte a) (byte b) (byte c) @ b64_body cs"

definition padded :: "string \<Rightarrow> string" where
  "padded s = s @ replicate ((4 - length s mod 4) mod 4) CHR ''=''"

lemma sextets:
  assumes "a < 256" "b < 256" "c < 256"
  shows "a div 4 < 64" "a mod 4 * 16 + b div 16 < 64" "b mod 16 * 4 + c div 64 < 64" "c mod (64 :: nat) < 64"
    "a mod 4 * 16 < 64" "b mod 16 * 4 < (64 :: nat)"
  using assms by simp_all

lemma reassembled:
  assumes "b < 256" "c < (256 :: nat)"
  shows "b div 16 div 16 = 0" "b div 16 mod 16 * 16 + (b mod 16 + c div 64 div 4) = b" "c div 64 mod 4 * 64 + c mod 64 = c"
    "b div 16 mod 16 * 16 + b mod 16 = b"
proof -
  have "b div 16 mod 16 = b div 16" "c div 64 div 4 = 0" "c div 64 mod 4 = c div 64" using assms by simp_all
  then show "b div 16 mod 16 * 16 + (b mod 16 + c div 64 div 4) = b" "c div 64 mod 4 * 64 + c mod 64 = c"
    "b div 16 mod 16 * 16 + b mod 16 = b" by simp_all
  show "b div 16 div 16 = 0" using assms by simp
qed

lemma b64_body_plain: "x \<in> set (b64_body cs) \<Longrightarrow> x \<noteq> CHR ''='' \<and> byte x < 128"
  by (induction cs rule: b64_body.induct) (auto simp: b64_one_def b64_two_def b64_three_def sextets [OF byte_bound byte_bound byte_bound])

lemma b64_encode_body: "\<exists>k. b64_encode cs = b64_body cs @ replicate k CHR ''=''"
proof (induction cs rule: b64_body.induct)
  case (2 a)
  show ?case by (intro exI [of _ 2]) (simp add: numeral_2_eq_2)
next
  case (3 a b)
  show ?case by (intro exI [of _ 1]) simp
next
  case (4 a b c cs)
  then show ?case by auto
qed simp

lemma rstrip_replicate: "CHR ''='' \<notin> set s \<Longrightarrow> rstrip_char CHR ''='' (s @ replicate k CHR ''='') = s"
proof -
  assume "CHR ''='' \<notin> set s"
  then have "dropWhile (\<lambda>x. x = CHR ''='') (replicate k CHR ''='' @ rev s) = rev s"
    by (induction k) (cases "rev s"; auto)+
  then show ?thesis by (simp add: rstrip_char_def)
qed

lemma b64_stripped: "rstrip_char CHR ''='' (b64_encode cs) = b64_body cs"
  using b64_encode_body [of cs] b64_body_plain [of _ cs] rstrip_replicate [of "b64_body cs"] by metis

lemma b64_scan_body: "b64_scan 0 0 0 (padded (b64_body cs)) = Inr cs"
proof (induction cs rule: b64_body.induct)
  case (4 a b c cs)
  have "padded (b64_body (a # b # c # cs)) = b64_three (byte a) (byte b) (byte c) @ padded (b64_body cs)"
    by (simp add: padded_def b64_three_def)
  with 4 show ?case
    by (simp add: b64_three_def sextets [OF byte_bound byte_bound byte_bound] reassembled [OF byte_bound byte_bound])
qed (simp_all add: padded_def b64_one_def b64_two_def sextets [OF byte_bound byte_bound byte_bound]
    reassembled [OF byte_bound byte_bound] numeral_2_eq_2)

lemma b64_roundtrip: "b64_decode (padded (rstrip_char CHR ''='' (b64_encode cs))) = Inr cs"
proof -
  have "\<not> list_ex (\<lambda>c. 128 \<le> byte c) (padded (b64_body cs))"
    using b64_body_plain [of _ cs] by (auto simp: padded_def list_ex_iff not_le)
  with b64_scan_body show ?thesis by (simp add: b64_stripped b64_decode_def)
qed

section \<open>Positions\<close>

type_synonym position = "int \<times> uuid"

definition encode_cursor :: "position \<Rightarrow> string" where
  "encode_cursor p = rstrip_char CHR ''='' (b64_encode (render (JArr [JStr (isoformat (fst p)), JStr (str_uuid (snd p))])))"

text \<open>\<open>created_at, row_id = value\<close>, \<open>datetime.fromisoformat\<close> and \<open>UUID\<close>, whose argument \<open>None\<close> is a \<open>TypeError\<close> and any other
  value that is not a text an \<open>AttributeError\<close>.\<close>

definition unpack_two :: "json \<Rightarrow> exc + json \<times> json" where
  "unpack_two v = (case v of
     JArr [a, b] \<Rightarrow> Inr (a, b)
   | JStr [a, b] \<Rightarrow> Inr (JStr [a], JStr [b])
   | JObj [(a, _), (b, _)] \<Rightarrow> Inr (JStr a, JStr b)
   | JArr _ \<Rightarrow> Inl (Exc PyValueError ''unpack'') | JStr _ \<Rightarrow> Inl (Exc PyValueError ''unpack'')
   | JObj _ \<Rightarrow> Inl (Exc PyValueError ''unpack'') | _ \<Rightarrow> Inl (Exc PyTypeError ''cannot unpack''))"

definition iso_of_json :: "json \<Rightarrow> exc + int" where
  "iso_of_json v = (case v of
     JStr s \<Rightarrow> (case parse_iso s of None \<Rightarrow> Inl (Exc PyValueError ''Invalid isoformat string'') | Some t \<Rightarrow> Inr t)
   | _ \<Rightarrow> Inl (Exc PyTypeError ''fromisoformat: argument must be str''))"

definition uuid_of_json :: "json \<Rightarrow> exc + uuid" where
  "uuid_of_json v = (case v of
     JStr s \<Rightarrow> (case parse_uuid s of None \<Rightarrow> Inl (Exc PyValueError ''badly formed hexadecimal UUID string'') | Some i \<Rightarrow> Inr i)
   | JNull \<Rightarrow> Inl (Exc PyTypeError ''one of the hex arguments must be given'')
   | _ \<Rightarrow> Inl (Exc PyAttributeError ''replace''))"

definition decode_cursor :: "(string \<Rightarrow> exc + json) \<Rightarrow> string option \<Rightarrow> exc + position option" where
  "decode_cursor loads cursor =
     (if truthy cursor
      then (case bindE (b64_decode (padded (the cursor))) (\<lambda>raw. bindE (loads raw) (\<lambda>v. bindE (unpack_two v) (\<lambda>(a, b).
                bindE (iso_of_json a) (\<lambda>t. bindE (uuid_of_json b) (\<lambda>i. Inr (t, i)))))) of
              Inr p \<Rightarrow> Inr (Some p)
            | Inl x \<Rightarrow> (if isa (cls x) PyValueError \<or> isa (cls x) PyTypeError
                       then Inl (Exc InvalidRequestError ''Pagination cursor is invalid'') else Inl x))
      else Inr None)"

text \<open>What the code relies on of \<open>json.loads\<close>: it reads an array of two texts that need no escape.\<close>

definition plain :: "string \<Rightarrow> bool" where
  "plain s \<longleftrightarrow> (\<forall>c \<in> set s. esc_char c = [c])"

definition reads_pairs :: "(string \<Rightarrow> exc + json) \<Rightarrow> bool" where
  "reads_pairs loads \<longleftrightarrow> (\<forall>a b. plain a \<longrightarrow> plain b \<longrightarrow> loads (render (JArr [JStr a, JStr b])) = Inr (JArr [JStr a, JStr b]))"

lemma plain_dchar: "d < 16 \<Longrightarrow> esc_char (dchar d) = [dchar d]"
  by (auto simp: less_16 dchar_def hexdigits_def esc_char_def)

lemma plain_simps [simp]:
  "plain []" "plain (c # s) \<longleftrightarrow> esc_char c = [c] \<and> plain s" "plain (s @ t) \<longleftrightarrow> plain s \<and> plain t"
  by (auto simp: plain_def)

lemma plain_take_drop: "plain s \<Longrightarrow> plain (take n s)" "plain s \<Longrightarrow> plain (drop n s)"
  by (auto simp: plain_def dest: in_set_takeD in_set_dropD)

lemma plain_digs: "0 < b \<Longrightarrow> b \<le> 16 \<Longrightarrow> plain (map dchar (digs b k n))"
  using digs_less [of b _ k n] plain_dchar by (fastforce simp: plain_def)

lemma plain_uuid [simp]: "plain (str_uuid u)"
proof -
  have "esc_char CHR ''-'' = [CHR ''-'']" by (simp add: esc_char_def)
  then show ?thesis by (simp add: str_uuid_def Let_def plain_take_drop plain_digs)
qed

lemma plain_isoformat [simp]: "plain (isoformat t)"
proof -
  have "plain ''-''" "plain ''T''" "plain '':''" "plain ''.''" "plain ''+00:00''" by (simp_all add: esc_char_def)
  moreover have "plain (pad_str k n)" for k n unfolding pad_str_def by (rule plain_digs) simp_all
  ultimately show ?thesis by (simp add: isoformat_def Let_def split: prod.split)
qed

lemma cursor_roundtrip:
  assumes "reads_pairs loads" and "valid_time (fst p)"
  shows "decode_cursor loads (Some (encode_cursor p)) = Inr (Some p)"
proof -
  have body: "b64_body (c # cs) \<noteq> []" for c cs
    by (cases "c # cs" rule: b64_body.cases) (simp_all add: b64_one_def b64_two_def b64_three_def)
  have "render (JArr vs) = CHR ''['' # (join '','' (render_list vs) @ '']'')" for vs by simp
  then have "encode_cursor p \<noteq> []" unfolding encode_cursor_def b64_stripped using body by metis
  then have "truthy (Some (encode_cursor p))" by (simp add: truthy_def)
  moreover have "loads (render (JArr [JStr (isoformat (fst p)), JStr (str_uuid (snd p))]))
      = Inr (JArr [JStr (isoformat (fst p)), JStr (str_uuid (snd p))])"
    using assms(1) by (simp add: reads_pairs_def del: render.simps)
  ultimately show ?thesis
    using assms(2) by (simp add: decode_cursor_def encode_cursor_def b64_roundtrip unpack_two_def iso_of_json_def
      uuid_of_json_def del: render.simps b64_encode.simps)
qed

text \<open>A cursor can raise what no caller catches: a position whose second part is a number.\<close>

lemma cursor_escapes:
  assumes "b64_decode (padded s) = Inr raw" and "loads raw = Inr (JArr [JStr t, JInt i])" and "parse_iso t = Some u"
  shows "s \<noteq> [] \<Longrightarrow> decode_cursor loads (Some s) = Inl (Exc PyAttributeError ''replace'')"
  using assms by (simp add: decode_cursor_def unpack_two_def iso_of_json_def uuid_of_json_def truthy_def isa_def mro_def
      parent_def eval_nat_numeral)

section \<open>Pages\<close>

text \<open>Rows newest first, the id deciding between rows of the same instant; a page is what comes after the position, one row
  more than is shown, and that row says whether there is a next page.\<close>

definition newest_first :: "('a \<Rightarrow> position) \<Rightarrow> 'a list \<Rightarrow> 'a list" where
  "newest_first key rows = rev (sort_key key rows)"

definition page_rows :: "('a \<Rightarrow> position) \<Rightarrow> position option \<Rightarrow> nat \<Rightarrow> 'a list \<Rightarrow> 'a list" where
  "page_rows key pos limit rows =
     take (limit + 1) (newest_first key (filter (\<lambda>r. case pos of None \<Rightarrow> True | Some p \<Rightarrow> key r < p) rows))"

definition next_cursor :: "('a \<Rightarrow> position) \<Rightarrow> 'a list \<Rightarrow> nat \<Rightarrow> string option" where
  "next_cursor key rows limit = (if length rows \<le> limit then None else Some (encode_cursor (key (rows ! (limit - 1)))))"

definition cursor_page ::
  "(string \<Rightarrow> exc + json) \<Rightarrow> ('a \<Rightarrow> position) \<Rightarrow> string option \<Rightarrow> nat \<Rightarrow> 'a list \<Rightarrow> exc + 'a list \<times> string option" where
  "cursor_page loads key cursor limit rows = bindE (decode_cursor loads cursor) (\<lambda>pos.
     let page = page_rows key pos limit rows in Inr (take limit page, next_cursor key page limit))"

text \<open>A client that follows the cursors, with fuel for the pages it asks for.\<close>

fun follow :: "(string option \<Rightarrow> exc + 'a list \<times> string option) \<Rightarrow> nat \<Rightarrow> string option \<Rightarrow> exc + 'a list" where
  "follow get 0 cursor = Inr []"
| "follow get (Suc n) cursor = bindE (get cursor) (\<lambda>(items, next). case next of
     None \<Rightarrow> Inr items
   | Some c \<Rightarrow> map_sum id ((@) items) (follow get n (Some c)))"

lemma follow_next: "get cursor = Inr (items, Some c) \<Longrightarrow> follow get (Suc n) cursor = map_sum id ((@) items) (follow get n (Some c))"
  by simp

lemma newest_first_mset [simp]: "mset (newest_first key rows) = mset rows"
  by (simp add: newest_first_def)

lemma newest_first_set [simp]: "set (newest_first key rows) = set rows"
  by (simp add: newest_first_def)

lemma newest_first_sorted:
  assumes "distinct (map key rows)"
  shows "sorted_wrt (\<lambda>x y. key y < key x) (newest_first key rows)"
proof -
  have "sorted (map key (sort_key key rows))" by simp
  moreover have "distinct (map key (sort_key key rows))"
    using assms by (metis mset_map mset_eq_imp_distinct_iff mset_sort)
  ultimately have "sorted_wrt (<) (map key (sort_key key rows))" by (simp add: strict_sorted_iff)
  then show ?thesis by (simp add: newest_first_def sorted_wrt_rev sorted_wrt_map)
qed

text \<open>The rows after the last one shown are what is left of the listing.\<close>

lemma newest_first_after:
  assumes "distinct (map key rows)" and "k < length rows"
  shows "newest_first key (filter (\<lambda>r. key r < key (newest_first key rows ! k)) rows) = drop (Suc k) (newest_first key rows)"
proof -
  let ?xs = "newest_first key rows" and ?P = "\<lambda>r. key r < key (newest_first key rows ! k)"
  have s: "sorted_wrt (\<lambda>x y. key y < key x) ?xs" by (rule newest_first_sorted [OF assms(1)])
  have len: "length ?xs = length rows" by (simp add: newest_first_def)
  have split: "?xs = take k ?xs @ ?xs ! k # drop (Suc k) ?xs" using assms(2) len by (simp add: id_take_nth_drop)
  with s have s': "sorted_wrt (\<lambda>x y. key y < key x) (take k ?xs @ ?xs ! k # drop (Suc k) ?xs)" by metis
  have "filter ?P (take k ?xs) = []" "\<not> ?P (?xs ! k)" "filter ?P (drop (Suc k) ?xs) = drop (Suc k) ?xs"
    using s' by (auto simp: sorted_wrt_append filter_empty_conv filter_id_conv)
  then have "filter ?P ?xs = drop (Suc k) ?xs"
    by (subst split) (simp only: filter_append filter.simps append_Nil if_False)
  then show ?thesis by (simp add: newest_first_def filter_sort [symmetric] rev_filter [symmetric])
qed

definition position_at :: "('a \<Rightarrow> position) \<Rightarrow> 'a list \<Rightarrow> nat \<Rightarrow> position option" where
  "position_at key xs k = (if k = 0 then None else Some (key (xs ! (k - 1))))"

lemma page_rows_at:
  assumes "distinct (map key rows)" and "k \<le> length rows"
  shows "page_rows key (position_at key (newest_first key rows) k) limit rows = take (limit + 1) (drop k (newest_first key rows))"
  using assms newest_first_after [of key rows "k - 1"] by (cases k) (simp_all add: page_rows_def position_at_def)

text \<open>Following the cursors is reading the whole listing: no row is left out, none comes twice.\<close>

theorem follow_is_listing:
  assumes loads: "reads_pairs loads" and limit: "1 \<le> limit" and keys: "distinct (map key rows)"
    and times: "\<forall>r \<in> set rows. valid_time (fst (key r))" and fuel: "length rows \<le> n"
  shows "follow (\<lambda>c. cursor_page loads key c limit rows) (Suc n) None = Inr (newest_first key rows)"
proof -
  let ?xs = "newest_first key rows" and ?get = "\<lambda>c. cursor_page loads key c limit rows"
  let ?c = "\<lambda>k. map_option encode_cursor (position_at key ?xs k)"
  have len: "length ?xs = length rows" by (simp add: newest_first_def)
  have times': "valid_time (fst (key (?xs ! k)))" if "k < length rows" for k
    using that times len by (metis newest_first_set nth_mem)
  have decode: "decode_cursor loads (?c k) = Inr (position_at key ?xs k)" if "k \<le> length rows" for k
    using that times' [of "k - 1"] cursor_roundtrip [OF loads]
    by (cases k) (auto simp: position_at_def decode_cursor_def truthy_def)
  have get: "?get (?c k) = Inr (take limit (drop k ?xs),
      if length rows - k \<le> limit then None else ?c (k + limit))" if k: "k \<le> length rows" for k
  proof -
    let ?page = "take (limit + 1) (drop k ?xs)"
    have "?get (?c k) = Inr (take limit ?page, next_cursor key ?page limit)"
      unfolding cursor_page_def decode [OF k] by (simp add: Let_def page_rows_at [OF keys k])
    moreover have "take limit ?page = take limit (drop k ?xs)" by (simp add: min_def)
    moreover have "next_cursor key ?page limit = (if length rows - k \<le> limit then None else ?c (k + limit))"
      using limit by (simp add: next_cursor_def position_at_def len min_def)
    ultimately show ?thesis by simp
  qed
  have "length rows - k \<le> n \<Longrightarrow> k \<le> length rows \<Longrightarrow> follow ?get (Suc n) (?c k) = Inr (drop k ?xs)" for n k
  proof (induction n arbitrary: k)
    case 0
    then show ?case using get [of k] len by simp
  next
    case (Suc n)
    show ?case
    proof (cases "length rows - k \<le> limit")
      case True
      with get [OF Suc.prems(2)] len show ?thesis by simp
    next
      case False
      then have "follow ?get (Suc n) (?c (k + limit)) = Inr (drop (k + limit) ?xs)" using Suc.IH [of "k + limit"] Suc.prems limit by simp
      moreover have c: "?c (k + limit) = Some (encode_cursor (key (?xs ! (k + limit - 1))))" using limit by (simp add: position_at_def)
      moreover have "?get (?c k) = Inr (take limit (drop k ?xs), ?c (k + limit))" using get [OF Suc.prems(2)] False by simp
      then have "follow ?get (Suc (Suc n)) (?c k)
          = map_sum id ((@) (take limit (drop k ?xs))) (follow ?get (Suc n) (Some (encode_cursor (key (?xs ! (k + limit - 1))))))"
        unfolding c by (rule follow_next)
      ultimately have "follow ?get (Suc (Suc n)) (?c k) = Inr (take limit (drop k ?xs) @ drop limit (drop k ?xs))"
        by (simp add: add.commute del: follow.simps)
      then show ?thesis by (simp only: append_take_drop_id)
    qed
  qed
  from this [of 0 n] fuel show ?thesis by (simp add: position_at_def del: follow.simps)
qed

end
