(* ===== verification/Listing.thy ===== *)
theory Listing
  imports ApprovalsApi SupplierApi Cursor
begin

text \<open>
  The routes that list rows of the caller's merchant: notifications, orders, approvals, negotiations and the two histories,
  page by page behind a cursor; transactions, settlements and customers by offset.  FastAPI has checked \<open>1 \<le> limit \<le> 100\<close> and
  \<open>0 \<le> offset\<close> before a route runs.  A view is the JSON that the response model writes.
\<close>

section \<open>Queries\<close>

definition row_key :: "'r row_scheme \<Rightarrow> position" where
  "row_key r = (created_at r, row_id r)"

definition opt_is :: "'a option \<Rightarrow> 'a \<Rightarrow> bool" where
  "opt_is v x \<longleftrightarrow> (case v of None \<Rightarrow> True | Some a \<Rightarrow> x = a)"

definition text_is :: "string option \<Rightarrow> string \<Rightarrow> bool" where
  "text_is v x \<longleftrightarrow> (if truthy v then x = the v else True)"

definition created_within :: "int option \<Rightarrow> int option \<Rightarrow> 'r row_scheme \<Rightarrow> bool" where
  "created_within since until r \<longleftrightarrow> (case since of None \<Rightarrow> True | Some t \<Rightarrow> t \<le> created_at r)
     \<and> (case until of None \<Rightarrow> True | Some t \<Rightarrow> created_at r < t)"

definition page_view :: "('a \<Rightarrow> 'v) \<Rightarrow> exc + 'a list \<times> string option \<Rightarrow> exc + 'v list \<times> string option" where
  "page_view f r = bindE r (\<lambda>(rows, next). Inr (map f rows, next))"

section \<open>Notifications\<close>

definition notification_json :: "notification_row \<Rightarrow> dict" where
  "notification_json n =
     [(''id'', JStr (str_uuid (row_id n))), (''notification_type'', JStr (notification_type_str (nt_notification_type n))),
      (''title'', JStr (nt_title n)), (''body'', JStr (nt_body n)), (''entity_type'', opt_json JStr (nt_entity_type n)),
      (''entity_id'', opt_json (\<lambda>i. JStr (str_uuid i)) (nt_entity_id n)), (''payload'', JObj (nt_payload n)),
      (''is_read'', JBool (nt_is_read n)), (''read_at'', opt_json (\<lambda>t. JStr (iso_z t)) (nt_read_at n)),
      (''created_at'', JStr (iso_z (created_at n)))]"

definition own_notification :: "principal \<Rightarrow> notification_row \<Rightarrow> bool" where
  "own_notification p n \<longleftrightarrow> nt_merchant_id n = pl_merchant_id p \<and> (nt_user_id n = None \<or> nt_user_id n = Some (pl_user_id p))"

definition list_notifications ::
  "(string \<Rightarrow> exc + json) \<Rightarrow> principal \<Rightarrow> bool \<Rightarrow> notification_type option \<Rightarrow> string option \<Rightarrow> nat \<Rightarrow> db
   \<Rightarrow> exc + dict list \<times> string option" where
  "list_notifications loads p unread_only kind cursor limit s = page_view notification_json (cursor_page loads row_key cursor limit
     (filter (\<lambda>n. own_notification p n \<and> (unread_only \<longrightarrow> \<not> nt_is_read n) \<and> opt_is kind (nt_notification_type n)) (t_notifications s)))"

definition own_by_id :: "principal \<Rightarrow> uuid \<Rightarrow> notification_row m" where
  "own_by_id p i = bnd (gets (\<lambda>s. find (\<lambda>n. row_id n = i \<and> own_notification p n) (t_notifications s)))
     (\<lambda>r. require r (Exc NotFoundError ''Notification not found''))"

definition notification_detail :: "principal \<Rightarrow> uuid \<Rightarrow> dict m" where
  "notification_detail p i = bnd (own_by_id p i) (\<lambda>n. ret (notification_json n))"

definition as_read :: "int \<Rightarrow> notification_row \<Rightarrow> notification_row" where
  "as_read now n = n\<lparr>nt_is_read := True, nt_read_at := Some now\<rparr>"

definition mark_read :: "principal \<Rightarrow> uuid \<Rightarrow> dict m" where
  "mark_read p i = bnd (own_by_id p i) (\<lambda>n. bnd (gets clock) (\<lambda>now.
     andthen (change_row t_notifications t_notifications_update (row_id n) (as_read now))
       (ret (notification_json (as_read now n)))))"

definition mark_all_read :: "principal \<Rightarrow> unit m" where
  "mark_all_read p = modify (\<lambda>s. s\<lparr>t_notifications :=
     upd (\<lambda>n. own_notification p n \<and> \<not> nt_is_read n) (mutate (clock s) (as_read (clock s))) (t_notifications s)\<rparr>)"

section \<open>Orders\<close>

record order_filter =
  of_status :: "order_status option"
  of_store_id :: "uuid option"
  of_supplier_id :: "uuid option"
  of_created_from :: "int option"
  of_created_to :: "int option"
  of_search :: "string option"

definition order_matches :: "order_filter \<Rightarrow> order_row \<times> supplier_row \<Rightarrow> bool" where
  "order_matches f r \<longleftrightarrow> opt_is (of_status f) (o_status (fst r)) \<and> opt_is (of_store_id f) (o_store_id (fst r))
     \<and> opt_is (of_supplier_id f) (o_supplier_id (fst r)) \<and> created_within (of_created_from f) (of_created_to f) (fst r)
     \<and> (truthy (of_search f) \<longrightarrow> contains_like (the (of_search f)) (s_name (snd r))
          \<or> opt_ilike (the (of_search f)) (o_supplier_reference (fst r)))"

definition orders_joined :: "uuid \<Rightarrow> db \<Rightarrow> (order_row \<times> supplier_row) list" where
  "orders_joined merchant s = concat (map (\<lambda>o'. map (\<lambda>v. (o', v)) (filter (\<lambda>v. row_id v = o_supplier_id o') (t_suppliers s)))
     (filter (\<lambda>o'. o_merchant_id o' = merchant) (t_orders s)))"

definition matching_orders :: "principal \<Rightarrow> order_filter \<Rightarrow> db \<Rightarrow> (order_row \<times> supplier_row) list" where
  "matching_orders p f s = filter (order_matches f) (orders_joined (pl_merchant_id p) s)"

definition list_orders ::
  "(string \<Rightarrow> exc + json) \<Rightarrow> principal \<Rightarrow> order_filter \<Rightarrow> string option \<Rightarrow> nat \<Rightarrow> db \<Rightarrow> exc + order_view list \<times> string option" where
  "list_orders loads p f cursor limit s = page_view (\<lambda>r. serialize_order (fst r) (s_name (snd r)) s)
     (cursor_page loads (row_key \<circ> fst) cursor limit (matching_orders p f s))"

definition get_order :: "principal \<Rightarrow> uuid \<Rightarrow> order_view m" where
  "get_order p i = bnd (order_get_for_merchant i (pl_merchant_id p)) (\<lambda>o'.
     bnd (order_supplier_row (o_supplier_id o')) (\<lambda>v. gets (serialize_order o' (s_name v))))"

section \<open>Approvals\<close>

definition matching_approvals :: "uuid \<Rightarrow> approval_status option \<Rightarrow> int option \<Rightarrow> int option \<Rightarrow> db \<Rightarrow> approval_row list" where
  "matching_approvals merchant status since until s =
     filter (\<lambda>a. ap_merchant_id a = merchant \<and> opt_is status (ap_status a) \<and> created_within since until a) (t_approvals s)"

definition list_approvals ::
  "env \<Rightarrow> settings \<Rightarrow> (string \<Rightarrow> exc + json) \<Rightarrow> principal \<Rightarrow> approval_status option \<Rightarrow> int option \<Rightarrow> int option \<Rightarrow> string option \<Rightarrow> nat
   \<Rightarrow> ((approval_row \<times> string option) list \<times> string option) m" where
  "list_approvals e cfg loads p status since until cursor limit =
     bnd (gets (\<lambda>s. cursor_page loads row_key cursor limit (matching_approvals (pl_merchant_id p) status since until s)))
       (\<lambda>r. bnd (lift r) (\<lambda>(rows, next).
        bnd (mapP (\<lambda>a. bnd (gets clock) (\<lambda>now. lift (approval_view e cfg p now a))) rows) (\<lambda>views. ret (views, next))))"

section \<open>Negotiations\<close>

definition negotiation_json :: "negotiation_row \<times> supplier_row \<times> uuid option \<Rightarrow> dict" where
  "negotiation_json r = (case r of (n, v, a) \<Rightarrow>
     [(''id'', JStr (str_uuid (row_id n))), (''store_id'', opt_json (\<lambda>i. JStr (str_uuid i)) (n_store_id n)),
      (''supplier_id'', JStr (str_uuid (n_supplier_id n))), (''supplier_name'', JStr (s_name v)),
      (''correlation_id'', JStr (str_uuid (n_correlation_id n))),
      (''workflow_request_id'', opt_json JStr (n_workflow_request_id n)),
      (''proposal_id'', opt_json (\<lambda>i. JStr (str_uuid i)) (n_proposal_id n)),
      (''approval_id'', opt_json (\<lambda>i. JStr (str_uuid i)) a), (''sku'', JStr (n_sku n)),
      (''status'', JStr (negotiation_status_str (n_status n))), (''round_count'', JInt (n_round_count n)),
      (''constraints'', JObj (n_constraints n)), (''history'', JArr (n_history n)),
      (''current_quote'', opt_json JObj (n_current_quote n)), (''created_at'', JStr (iso_z (created_at n))),
      (''updated_at'', JStr (iso_z (updated_at n)))])"

text \<open>The outer join: a negotiation comes with every approval of its proposal, or with none.\<close>

definition negotiation_approvals :: "negotiation_row \<Rightarrow> db \<Rightarrow> uuid option list" where
  "negotiation_approvals n s =
     (case filter (\<lambda>a. ap_merchant_id a = n_merchant_id n \<and> n_proposal_id n = Some (ap_proposal_id a)) (t_approvals s) of
        [] \<Rightarrow> [None] | as \<Rightarrow> map (Some \<circ> row_id) as)"

definition negotiations_joined :: "(negotiation_row \<Rightarrow> bool) \<Rightarrow> db \<Rightarrow> (negotiation_row \<times> supplier_row \<times> uuid option) list" where
  "negotiations_joined P s = concat (map (\<lambda>n. concat (map (\<lambda>v. map (\<lambda>a. (n, v, a)) (negotiation_approvals n s))
     (filter (\<lambda>v. row_id v = n_supplier_id n) (t_suppliers s)))) (filter P (t_negotiations s)))"

record negotiation_filter =
  nf_status :: "negotiation_status option"
  nf_supplier_id :: "uuid option"
  nf_store_id :: "uuid option"
  nf_search :: "string option"
  nf_created_from :: "int option"
  nf_created_to :: "int option"

definition negotiation_matches :: "negotiation_filter \<Rightarrow> negotiation_row \<times> supplier_row \<times> uuid option \<Rightarrow> bool" where
  "negotiation_matches f r \<longleftrightarrow> (case r of (n, v, _) \<Rightarrow> opt_is (nf_status f) (n_status n) \<and> opt_is (nf_supplier_id f) (n_supplier_id n)
     \<and> (case nf_store_id f of None \<Rightarrow> True | Some i \<Rightarrow> n_store_id n = Some i)
     \<and> created_within (nf_created_from f) (nf_created_to f) n
     \<and> (truthy (nf_search f) \<longrightarrow> contains_like (the (nf_search f)) (n_sku n) \<or> contains_like (the (nf_search f)) (s_name v)))"

definition list_negotiations ::
  "(string \<Rightarrow> exc + json) \<Rightarrow> principal \<Rightarrow> negotiation_filter \<Rightarrow> string option \<Rightarrow> nat \<Rightarrow> db \<Rightarrow> exc + dict list \<times> string option" where
  "list_negotiations loads p f cursor limit s = page_view negotiation_json (cursor_page loads (row_key \<circ> fst) cursor limit
     (filter (negotiation_matches f) (negotiations_joined (\<lambda>n. n_merchant_id n = pl_merchant_id p) s)))"

definition get_negotiation :: "principal \<Rightarrow> uuid \<Rightarrow> dict m" where
  "get_negotiation p i =
     bnd (gets (negotiations_joined (\<lambda>n. row_id n = i \<and> n_merchant_id n = pl_merchant_id p))) (\<lambda>rows. case rows of
       [] \<Rightarrow> raise (Exc NotFoundError ''Negotiation not found'') | r # _ \<Rightarrow> ret (negotiation_json r))"

section \<open>Histories\<close>

definition activity_json :: "audit_row \<Rightarrow> dict" where
  "activity_json r =
     [(''id'', JStr (str_uuid (row_id r))), (''action'', JStr (au_action r)), (''actor_type'', JStr (au_actor_type r)),
      (''resource_type'', JStr (au_resource_type r)), (''resource_id'', JStr (au_resource_id r)),
      (''trace_id'', opt_json JStr (au_trace_id r)), (''metadata'', JObj (au_metadata r)),
      (''occurred_at'', JStr (iso_z (created_at r)))]"

definition activity_history ::
  "(string \<Rightarrow> exc + json) \<Rightarrow> principal \<Rightarrow> string option \<Rightarrow> string option \<Rightarrow> int option \<Rightarrow> int option \<Rightarrow> string option \<Rightarrow> nat \<Rightarrow> db
   \<Rightarrow> exc + dict list \<times> string option" where
  "activity_history loads p resource action since until cursor limit s = page_view activity_json (cursor_page loads row_key cursor limit
     (filter (\<lambda>r. au_merchant_id r = Some (pl_merchant_id p) \<and> text_is resource (au_resource_type r) \<and> text_is action (au_action r)
        \<and> created_within since until r) (t_audit_logs s)))"

definition inventory_event_json :: "inventory_event_row \<Rightarrow> dict" where
  "inventory_event_json r =
     [(''id'', JStr (str_uuid (row_id r))), (''store_id'', JStr (str_uuid (ie_store_id r))),
      (''product_id'', JStr (str_uuid (ie_product_id r))), (''event_type'', JStr (ie_event_type r)),
      (''quantity_delta'', JStr (str_dec (ie_quantity_delta r))), (''quantity_after'', JStr (str_dec (ie_quantity_after r))),
      (''source'', JStr (ie_source r)), (''occurred_at'', JStr (iso_z (created_at r)))]"

definition inventory_history ::
  "(string \<Rightarrow> exc + json) \<Rightarrow> principal \<Rightarrow> uuid option \<Rightarrow> uuid option \<Rightarrow> string option \<Rightarrow> int option \<Rightarrow> int option \<Rightarrow> string option \<Rightarrow> nat
   \<Rightarrow> db \<Rightarrow> exc + dict list \<times> string option" where
  "inventory_history loads p store product kind since until cursor limit s =
     page_view inventory_event_json (cursor_page loads row_key cursor limit
       (filter (\<lambda>r. ie_merchant_id r = pl_merchant_id p \<and> opt_is store (ie_store_id r) \<and> opt_is product (ie_product_id r)
          \<and> text_is kind (ie_event_type r) \<and> created_within since until r) (t_inventory_events s)))"

section \<open>Pages by offset\<close>

text \<open>The order of rows with the same key is the database's; here it is the order of the table.\<close>

record 'v offset_page =
  pg_items :: "'v list"
  pg_total :: nat
  pg_limit :: nat
  pg_offset :: nat

definition offset_page :: "('a \<Rightarrow> 'k::linorder) \<Rightarrow> nat \<Rightarrow> nat \<Rightarrow> 'a list \<Rightarrow> 'a offset_page" where
  "offset_page key limit offset rows =
     \<lparr>pg_items = sql_page limit offset (sort_key key rows), pg_total = length rows, pg_limit = limit, pg_offset = offset\<rparr>"

definition transaction_status_str :: "transaction_status \<Rightarrow> string" where
  "transaction_status_str t = (case t of TS_PENDING \<Rightarrow> ''PENDING'' | TS_SUCCEEDED \<Rightarrow> ''SUCCEEDED'' | TS_FAILED \<Rightarrow> ''FAILED'')"

definition list_transactions :: "principal \<Rightarrow> string option \<Rightarrow> nat \<Rightarrow> nat \<Rightarrow> db \<Rightarrow> transaction_row offset_page" where
  "list_transactions p status limit offset s = offset_page (\<lambda>r. - created_at r) limit offset
     (filter (\<lambda>r. t_merchant_id r = pl_merchant_id p \<and> text_is status (transaction_status_str (t_status r))) (t_transactions s))"

definition list_settlements :: "principal \<Rightarrow> nat \<Rightarrow> nat \<Rightarrow> db \<Rightarrow> settlement_row offset_page" where
  "list_settlements p limit offset s = offset_page (\<lambda>r. - created_at r) limit offset
     (filter (\<lambda>r. se_merchant_id r = pl_merchant_id p) (t_settlements s))"

definition customer_matches :: "string option \<Rightarrow> customer_row \<Rightarrow> bool" where
  "customer_matches search c \<longleftrightarrow> (truthy search \<and> strip (the search) \<noteq> [] \<longrightarrow>
     contains_like (the search) (customer_row.cu_name c) \<or> contains_like (the search) (cu_phone_number c))"

definition list_customers :: "principal \<Rightarrow> string option \<Rightarrow> nat \<Rightarrow> nat \<Rightarrow> db \<Rightarrow> customer_row offset_page" where
  "list_customers p search limit offset s = offset_page (\<lambda>c. (- rat_of (cu_total_spent c), - created_at c)) limit offset
     (filter (\<lambda>c. cu_merchant_id c = pl_merchant_id p \<and> customer_matches search c) (t_customers s))"

definition get_customer :: "principal \<Rightarrow> uuid \<Rightarrow> customer_row m" where
  "get_customer p i = bnd (gets (\<lambda>s. find (\<lambda>c. row_id c = i \<and> cu_merchant_id c = pl_merchant_id p) (t_customers s)))
     (\<lambda>r. require r (Exc NotFoundError ''Customer not found''))"

section \<open>What a client reads by following the cursors\<close>

lemma follow_view:
  "follow (\<lambda>c. page_view f (get c)) n cursor = bindE (follow get n cursor) (\<lambda>xs. Inr (map f xs))"
proof (induction n arbitrary: cursor)
  case (Suc n)
  show ?case
  proof (cases "get cursor")
    case (Inr r)
    obtain items "next" where r: "r = (items, next)" by (cases r)
    show ?thesis
    proof (cases "next")
      case (Some c)
      with Inr r Suc.IH [of "Some c"] show ?thesis
        by (cases "follow get n (Some c)") (simp_all add: page_view_def)
    qed (use Inr r in \<open>simp add: page_view_def\<close>)
  qed (simp add: page_view_def)
qed simp

lemma follow_page_view:
  assumes "reads_pairs loads" and "1 \<le> limit" and "distinct (map key rows)" and "\<forall>r \<in> set rows. valid_time (fst (key r))"
    and "length rows \<le> n"
  shows "follow (\<lambda>c. page_view f (cursor_page loads key c limit rows)) (Suc n) None = Inr (map f (newest_first key rows))"
  using follow_is_listing [OF assms] by (simp only: follow_view bindE_simps)

lemma row_keys_distinct: "distinct (map row_id rows) \<Longrightarrow> distinct (map row_key rows)"
  by (simp add: distinct_map inj_on_def row_key_def)

lemma joined_keys:
  assumes "distinct (map row_id os)" and "distinct (map row_id vs)"
  shows "distinct (map (row_key \<circ> fst) (concat (map (\<lambda>o'. map (\<lambda>v. (o', v)) (filter (\<lambda>v. row_id v = g o') vs)) os)))"
  using assms(1)
proof (induction os)
  case (Cons x os)
  let ?vs = "filter (\<lambda>v. row_id v = g x) vs"
  have "length ?vs \<le> 1"
  proof -
    have "distinct (map row_id ?vs)" using assms(2) by (simp add: distinct_map_filter)
    moreover have "set (map row_id ?vs) \<subseteq> {g x}" by auto
    ultimately have "card (set (map row_id ?vs)) \<le> 1" by (metis card_mono card.empty card_insert_disjoint empty_iff finite.emptyI finite.insertI One_nat_def)
    with \<open>distinct (map row_id ?vs)\<close> show ?thesis by (metis distinct_card length_map)
  qed
  then have "distinct (map (row_key \<circ> fst) (map (\<lambda>v. (x, v)) ?vs))" by (cases ?vs) auto
  moreover have "row_key x \<notin> set (map (row_key \<circ> fst) (concat (map (\<lambda>o'. map (\<lambda>v. (o', v)) (filter (\<lambda>v. row_id v = g o') vs)) os)))"
    using Cons.prems by (auto simp: row_key_def)
  ultimately show ?case using Cons by (auto simp: comp_def row_key_def)
qed simp

lemma matching_orders_keys:
  assumes "distinct (map row_id (t_orders s))" "distinct (map row_id (t_suppliers s))"
  shows "distinct (map (row_key \<circ> fst) (matching_orders p f s))"
proof -
  have "distinct (map row_id (filter (\<lambda>o'. o_merchant_id o' = pl_merchant_id p) (t_orders s)))"
    using assms(1) by (simp add: distinct_map_filter)
  from joined_keys [OF this assms(2)] show ?thesis
    unfolding matching_orders_def orders_joined_def by (rule distinct_map_filter)
qed

lemma orders_listing:
  assumes "reads_pairs loads" and "1 \<le> limit"
    and ids: "distinct (map row_id (t_orders s))" "distinct (map row_id (t_suppliers s))"
    and times: "\<forall>o' \<in> set (t_orders s). valid_time (created_at o')"
    and "length (matching_orders p f s) \<le> n"
  shows "follow (\<lambda>c. list_orders loads p f c limit s) (Suc n) None
    = Inr (map (\<lambda>r. serialize_order (fst r) (s_name (snd r)) s) (newest_first (row_key \<circ> fst) (matching_orders p f s)))"
proof -
  have "distinct (map (row_key \<circ> fst) (matching_orders p f s))" by (rule matching_orders_keys [OF ids])
  moreover have "\<forall>r \<in> set (matching_orders p f s). valid_time (fst ((row_key \<circ> fst) r))"
    using times by (auto simp: matching_orders_def orders_joined_def row_key_def)
  ultimately show ?thesis using assms(1,2,6) unfolding list_orders_def by (intro follow_page_view)
qed

text \<open>Nobody else's orders are in it, and every own order with its supplier that matches is.\<close>

lemma matching_orders_iff:
  "r \<in> set (matching_orders p f s) \<longleftrightarrow> fst r \<in> set (t_orders s) \<and> snd r \<in> set (t_suppliers s)
     \<and> row_id (snd r) = o_supplier_id (fst r) \<and> o_merchant_id (fst r) = pl_merchant_id p \<and> order_matches f r"
  by (cases r) (auto simp: matching_orders_def orders_joined_def)

section \<open>Searching\<close>

text \<open>A search text without wildcards matches exactly the columns that contain it, in any case.\<close>

lemma like_prefix:
  assumes "\<forall>c \<in> set x. c \<notin> {CHR ''%'', CHR ''_'', CHR 0x5C}"
  shows "like_match (x @ p) t \<longleftrightarrow> (\<exists>v. t = x @ v \<and> like_match p v)"
  using assms
proof (induction x arbitrary: t)
  case (Cons c x)
  then show ?case by (cases t) auto
qed simp

lemma like_rest: "like_match ''%'' t"
  by (induction t) simp_all

lemma like_any: "like_match (CHR ''%'' # p) t \<longleftrightarrow> (\<exists>u v. t = u @ v \<and> like_match p v)"
proof (induction t)
  case (Cons c t)
  have "(\<exists>u v. c # t = u @ v \<and> like_match p v) \<longleftrightarrow> like_match p (c # t) \<or> (\<exists>u v. t = u @ v \<and> like_match p v)"
    by (metis Cons_eq_append_conv append_Nil)
  with Cons show ?case by simp
qed simp

lemma search_is_containment:
  assumes "\<forall>c \<in> set (strip x). c \<notin> {CHR ''%'', CHR ''_'', CHR 0x5C}"
  shows "contains_like x t \<longleftrightarrow> (\<exists>u v. lower t = u @ lower (strip x) @ v)"
proof -
  have lower_punct: "lower [c] = [d] \<Longrightarrow> d \<in> {CHR ''%'', CHR ''_'', CHR 0x5C} \<Longrightarrow> c \<in> {CHR ''%'', CHR ''_'', CHR 0x5C}" for c d
  proof -
    assume c: "lower [c] = [d]" and d: "d \<in> {CHR ''%'', CHR ''_'', CHR 0x5C}"
    have "\<not> is_upper c"
    proof
      assume u: "is_upper c"
      with c have "byte d = byte c + 32" by (auto simp: lower_def is_upper_def Let_def)
      with u d show False by (auto simp: is_upper_def Let_def)
    qed
    with c d show ?thesis by (simp add: lower_def)
  qed
  have pat: "lower (''%'' @ strip x @ ''%'') = CHR ''%'' # lower (strip x) @ ''%''"
    by (simp add: lower_def is_upper_def)
  have "\<forall>c \<in> set (lower (strip x)). c \<notin> {CHR ''%'', CHR ''_'', CHR 0x5C}"
  proof
    fix c assume "c \<in> set (lower (strip x))"
    then obtain b where b: "b \<in> set (strip x)" "lower [b] = [c]" by (auto simp: lower_def)
    show "c \<notin> {CHR ''%'', CHR ''_'', CHR 0x5C}"
      by (rule contrapos_nn [OF bspec [OF assms b(1)]]) (rule lower_punct [OF b(2)])
  qed
  note prefix = like_prefix [OF this, of "''%''"]
  show ?thesis unfolding contains_like_def ilike_def pat like_any prefix like_match.simps(1) by auto
qed

section \<open>Reading the notifications\<close>

lemma mark_all_read_effect:
  assumes "mark_all_read p s = (v, t)"
  shows "v = Inr () \<and> (\<forall>n \<in> set (t_notifications t). own_notification p n \<longrightarrow> nt_is_read n)
    \<and> filter (\<lambda>n. \<not> own_notification p n) (t_notifications t) = filter (\<lambda>n. \<not> own_notification p n) (t_notifications s)
    \<and> map row_id (t_notifications t) = map row_id (t_notifications s)"
proof -
  have own: "own_notification p (mutate now (as_read now) n) = own_notification p n" for now n
    by (simp add: own_notification_def mutate_def as_read_def)
  have t: "t = s\<lparr>t_notifications := upd (\<lambda>n. own_notification p n \<and> \<not> nt_is_read n) (mutate (clock s) (as_read (clock s))) (t_notifications s)\<rparr>"
    and v: "v = Inr ()" using assms by (simp_all add: mark_all_read_def modify_def)
  have "filter (\<lambda>n. \<not> own_notification p n) (upd (\<lambda>n. own_notification p n \<and> \<not> nt_is_read n) (mutate now (as_read now)) ns)
      = filter (\<lambda>n. \<not> own_notification p n) ns" for now ns
    by (induction ns) (auto simp: own)
  moreover have "nt_is_read (mutate now (as_read now) n)" for now n by (simp add: mutate_def as_read_def)
  moreover have "map row_id (upd P (mutate now (as_read now)) ns) = map row_id ns" for P now ns
    by (simp add: upd_def as_read_def)
  ultimately show ?thesis by (auto simp: t v in_set_upd own)
qed

lemma unread_after_mark_all:
  assumes "mark_all_read p s = (v, t)" and "decode_cursor loads cursor = Inr pos"
  shows "list_notifications loads p True kind cursor limit t = Inr ([], None)"
proof -
  have "filter (\<lambda>n. own_notification p n \<and> \<not> nt_is_read n \<and> opt_is kind (nt_notification_type n)) (t_notifications t) = []"
    using mark_all_read_effect [OF assms(1)] by (auto simp: filter_empty_conv)
  then show ?thesis using assms(2)
    by (simp add: list_notifications_def cursor_page_def page_rows_def newest_first_def next_cursor_def page_view_def)
qed

section \<open>Offsets\<close>

text \<open>The pages at the multiples of the limit are the whole listing, and the total is its length.\<close>

lemma offset_pages_cover:
  assumes "1 \<le> limit" and "length rows \<le> n * limit"
  shows "concat (map (\<lambda>i. pg_items (offset_page key limit (i * limit) rows)) [0 ..< n]) = sort_key key rows"
proof -
  have "concat (map (\<lambda>i. take limit (drop (i * limit) xs)) [0 ..< n]) = take (n * limit) xs" for xs :: "'a list"
  proof (induction n)
    case (Suc n)
    have "take (Suc n * limit) xs = take (n * limit) xs @ take limit (drop (n * limit) xs)"
      by (metis take_add add.commute mult_Suc)
    with Suc show ?case by simp
  qed simp
  then show ?thesis using assms(2) by (simp add: offset_page_def sql_page_def)
qed

end
