(* ===== verification/Analytics.thy ===== *)
theory Analytics
  imports Listing
begin

text \<open>
  \<open>application/services/analytics_service.py\<close> with the routes of \<open>api/v1/analytics.py\<close>: what a merchant is shown of sales, stock,
  orders and settlements.  Every report reads the session and writes nothing.  How the database prints the day, week or month
  of an instant (\<open>to_char\<close>, \<open>strftime\<close>) is the argument \<open>bucket\<close>.  The reports group the same rows that the overview counts, so
  their sums agree; rows that a query leaves unordered stand in the order of their table.
\<close>

section \<open>Sums and groups\<close>

definition dsum :: "dec list \<Rightarrow> dec" where
  "dsum ds = foldr dadd ds dzero"

lemma rat_of_dsum [simp]: "rat_of (dsum ds) = sum_list (map rat_of ds)"
  by (induction ds) (simp_all add: dsum_def)

definition group_rows :: "('a \<Rightarrow> 'k) \<Rightarrow> 'a list \<Rightarrow> ('k \<times> 'a list) list" where
  "group_rows f xs = map (\<lambda>k. (k, filter (\<lambda>x. f x = k) xs)) (remdups (map f xs))"

lemma sum_split:
  fixes g :: "'a \<Rightarrow> 'n::comm_monoid_add"
  assumes "distinct ks" and "\<forall>x \<in> set xs. f x \<in> set ks"
  shows "sum_list (map (\<lambda>k. sum_list (map g (filter (\<lambda>x. f x = k) xs))) ks) = sum_list (map g xs)"
  using assms(2)
proof (induction xs)
  case (Cons x xs)
  have pick: "sum_list (map (\<lambda>k. sum_list (map g (filter (\<lambda>x. f x = k) (x # xs)))) ls)
      = (if f x \<in> set ls then g x else 0) + sum_list (map (\<lambda>k. sum_list (map g (filter (\<lambda>x. f x = k) xs))) ls)"
    if "distinct ls" for ls
    using that by (induction ls) (auto simp: ac_simps)
  from Cons assms(1) show ?case by (simp only: pick) simp
qed (induction ks, simp_all)

lemma sum_groups:
  fixes g :: "'a \<Rightarrow> 'n::comm_monoid_add"
  shows "sum_list (map (\<lambda>gr. sum_list (map g (snd gr))) (group_rows f xs)) = sum_list (map g xs)"
  using sum_split [of "remdups (map f xs)" xs f g] by (simp add: group_rows_def comp_def)

lemma length_groups: "sum_list (map (\<lambda>gr. length (snd gr)) (group_rows f xs)) = length xs"
proof -
  have ones: "sum_list (map (\<lambda>_. 1) ys) = length ys" for ys :: "'x list" by (induction ys) simp_all
  show ?thesis using sum_groups [of "\<lambda>_. 1 :: nat" f xs] by (simp only: ones)
qed

lemma sum_list_mset:
  fixes g :: "'a \<Rightarrow> 'n::comm_monoid_add"
  shows "mset xs = mset ys \<Longrightarrow> sum_list (map g xs) = sum_list (map g ys)"
  by (metis mset_map sum_mset_sum_list)

section \<open>The range of a report\<close>

definition analytics_range :: "int \<Rightarrow> int option \<Rightarrow> int option \<Rightarrow> exc + int \<times> int" where
  "analytics_range now since until =
     (let stop = (case until of Some t \<Rightarrow> t | None \<Rightarrow> now);
          start = (case since of Some t \<Rightarrow> t | None \<Rightarrow> stop - days 30) in
      if stop \<le> start \<or> days 366 < stop - start
      then Inl (Exc InvalidRequestError ''Analytics date range must be positive and at most 366 days'')
      else Inr (start, stop))"

lemma analytics_range_bounds:
  "analytics_range now since until = Inr (a, b) \<Longrightarrow> a < b \<and> b - a \<le> days 366"
  by (auto simp: analytics_range_def Let_def split: if_splits)

section \<open>The rows that are counted\<close>

definition sales_between :: "uuid \<Rightarrow> uuid option \<Rightarrow> int \<Rightarrow> int \<Rightarrow> db \<Rightarrow> sale_row list" where
  "sales_between m store a b s =
     filter (\<lambda>x. sa_merchant_id x = m \<and> a \<le> sa_sold_at x \<and> sa_sold_at x < b \<and> opt_is store (sa_store_id x)) (t_sales s)"

definition orders_between :: "uuid \<Rightarrow> uuid option \<Rightarrow> int \<Rightarrow> int \<Rightarrow> db \<Rightarrow> order_row list" where
  "orders_between m store a b s =
     filter (\<lambda>y. o_merchant_id y = m \<and> a \<le> created_at y \<and> created_at y < b \<and> opt_is store (o_store_id y)) (t_orders s)"

definition stock_rows :: "uuid \<Rightarrow> uuid option \<Rightarrow> db \<Rightarrow> inventory_row list" where
  "stock_rows m store s = filter (\<lambda>i. inv_merchant_id i = m \<and> opt_is store (inv_store_id i)) (t_inventory s)"

definition runs_low :: "inventory_row \<Rightarrow> bool" where
  "runs_low i \<longleftrightarrow> dle (inv_quantity_on_hand i) (inv_reorder_point i)"

definition with_product :: "db \<Rightarrow> inventory_row list \<Rightarrow> (product_row \<times> inventory_row) list" where
  "with_product s rows = concat (map (\<lambda>i. map (\<lambda>p. (p, i)) (filter (\<lambda>p. row_id p = inv_product_id i) (t_products s))) rows)"

definition sale_value :: "sale_row \<Rightarrow> dec" where
  "sale_value x = dmul (sa_quantity x) (sa_unit_price x)"

definition lowest_first :: "(product_row \<times> inventory_row) list \<Rightarrow> (product_row \<times> inventory_row) list" where
  "lowest_first rows = sort_key (\<lambda>r. rat_of (inv_quantity_on_hand (snd r))) rows"

definition latest_settlements :: "uuid \<Rightarrow> db \<Rightarrow> settlement_row list" where
  "latest_settlements m s = sort_key (\<lambda>r. - created_at r) (filter (\<lambda>r. se_merchant_id r = m) (t_settlements s))"

definition in_status :: "string \<Rightarrow> settlement_row list \<Rightarrow> settlement_row option" where
  "in_status st rows = find (\<lambda>r. se_status r = st) rows"

section \<open>The overview\<close>

record overview =
  ov_sales_quantity :: dec
  ov_low_inventory_products :: nat
  ov_orders_by_status :: "(order_status \<times> nat) list"
  ov_from :: int
  ov_to :: int
  ov_total_sales_amount :: dec
  ov_sales_growth_pct :: dec
  ov_customer_count :: nat
  ov_customer_growth_pct :: dec
  ov_expected_settlement :: dec
  ov_critical_alert :: dict
  ov_opportunities :: "dict list"
  ov_quick_actions :: "dict list"

definition critical_alert :: "(product_row \<times> inventory_row) list \<Rightarrow> dict" where
  "critical_alert low =
     (let (title, desc, sku, url) = (case low of
        (p, i) # _ \<Rightarrow> (p_name p @ '' ka stock kal tak khatam ho sakta hai'',
          ''Sirf '' @ str_dec (inv_quantity_on_hand i) @ '' '' @ p_unit p @ '' bache hain. Reorder point se kam hai.'',
          p_sku p, ''/recommendations/'' @ p_sku p)
      | [] \<Rightarrow> (''Sabhi stock theek hain'', ''Koi bhi item abhi reorder point se neeche nahi hai.'', ''ALL-OK'', ''/inventory'')) in
      [(''title'', JStr title), (''description'', JStr desc), (''tag'', JStr ''Dhyaan dene layak''), (''sku'', JStr sku),
       (''action_label'', JStr ''Review''), (''action_url'', JStr url)])"

definition text_fields :: "string list \<Rightarrow> string list \<Rightarrow> dict" where
  "text_fields names values = zip names (map JStr values)"

definition opportunities :: "dict list" where
  "opportunities = map (text_fields [''id'', ''title'', ''subtitle'', ''action_label'', ''action_type'', ''icon''])
     [[''opp-1'', ''Cold drinks ka stock badhayein'', ([CHR 0xE2, CHR 0x82, CHR 0xB9] @ ''4,500+ tak extra revenue ki sambhaavna (Garmi badhne par)''),
       ''Stock Badhayein'', ''offer'', ''chart''],
      [''opp-2'', ''Supplier discount: Atta 50kg bag par 5% off'', (''Metro Cash & Carry se bulk offer par '' @ [CHR 0xE2, CHR 0x82, CHR 0xB9] @ ''1,200 ki bachat''),
       ''Deal Dekhein'', ''deal'', ''truck''],
      [''opp-3'', ''Weekend WhatsApp offer bhejein'', ''Top 50 regular customers ko festive offer bhejein'',
       ''Campaign Chalayein'', ''campaign'', ''tag'']]"

definition quick_actions :: "dict list" where
  "quick_actions = map (text_fields [''id'', ''label'', ''icon'', ''target''])
     [[''qa-1'', ''Payment Accept Karein'', ''qr'', ''payment_qr''], [''qa-2'', ''Settlements Dekhein'', ''invoice'', ''settlements''],
      [''qa-3'', ''Stock Reorder Karein'', ''truck'', ''reorder''], [''qa-4'', ''Naya Item Jodein'', ''plus'', ''add_product''],
      [''qa-5'', ''Bill Scan Karein'', ''camera'', ''scan_bill'']]"

text \<open>The growth figures are constants; the customers and the settlement that is expected are those of all stores.\<close>

definition overview_of :: "uuid \<Rightarrow> uuid option \<Rightarrow> int option \<Rightarrow> int option \<Rightarrow> db \<Rightarrow> exc + overview" where
  "overview_of m store since until s = bindE (analytics_range (clock s) since until) (\<lambda>(a, b).
     let sold = sales_between m store a b s;
         low = filter runs_low (stock_rows m store s);
         known = length (filter (\<lambda>c. cu_merchant_id c = m) (t_customers s));
         customers = (if 0 < known then known else length sold);
         amount = dsum (map sale_value sold);
         waiting = dsum (map se_amount (filter (\<lambda>r. se_merchant_id r = m \<and> se_status r = ''PROCESSING'') (t_settlements s))) in
     Inr \<lparr>ov_sales_quantity = dsum (map sa_quantity sold), ov_low_inventory_products = length low,
       ov_orders_by_status = map (\<lambda>(k, ys). (k, length ys)) (group_rows o_status (orders_between m store a b s)),
       ov_from = a, ov_to = b, ov_total_sales_amount = amount,
       ov_sales_growth_pct = (if dlt dzero amount then Dec 120 1 else Dec 0 1), ov_customer_count = customers,
       ov_customer_growth_pct = (if 0 < customers then Dec 80 1 else Dec 0 1),
       ov_expected_settlement = (if dlt dzero waiting then waiting else Dec 0 2),
       ov_critical_alert = critical_alert (lowest_first (with_product s low)), ov_opportunities = opportunities,
       ov_quick_actions = quick_actions\<rparr>)"

section \<open>The reports\<close>

record settlement_view =
  sv_expected_today :: dec
  sv_currency :: string
  sv_status :: string
  sv_settlement_time :: string
  sv_bank_name :: string
  sv_account_ending :: string
  sv_yesterday_settled :: dec
  sv_utr :: string

definition text_or :: "string \<Rightarrow> string \<Rightarrow> string" where
  "text_or v w = (if v = [] then w else v)"

definition settlement_report :: "uuid \<Rightarrow> uuid option \<Rightarrow> db \<Rightarrow> settlement_view" where
  "settlement_report m store s =
     (let rows = filter (\<lambda>r. case store of None \<Rightarrow> True | Some i \<Rightarrow> se_store_id r = Some i) (latest_settlements m s);
          settled = in_status ''SETTLED'' rows in
      case in_status ''PROCESSING'' rows of
        Some r \<Rightarrow> \<lparr>sv_expected_today = se_amount r, sv_currency = text_or (se_currency r) ''INR'', sv_status = se_status r,
          sv_settlement_time = text_or (se_settlement_time r) ''by 4:00 PM'', sv_bank_name = text_or (se_bank_name r) ''HDFC Bank'',
          sv_account_ending = text_or (se_account_ending r) ''4921'',
          sv_yesterday_settled = (case settled of Some q \<Rightarrow> se_amount q | None \<Rightarrow> Dec 0 2),
          sv_utr = or_else (case settled of Some q \<Rightarrow> se_utr q | None \<Rightarrow> se_utr r) ''PAYTMUTR000000''\<rparr>
      | None \<Rightarrow> (case settled of
        Some r \<Rightarrow> \<lparr>sv_expected_today = Dec 0 2, sv_currency = text_or (se_currency r) ''INR'', sv_status = ''Settled'',
          sv_settlement_time = text_or (se_settlement_time r) ''by 4:00 PM'', sv_bank_name = text_or (se_bank_name r) ''HDFC Bank'',
          sv_account_ending = text_or (se_account_ending r) ''4921'', sv_yesterday_settled = se_amount r,
          sv_utr = or_else (se_utr r) ''PAYTMUTR000000''\<rparr>
      | None \<Rightarrow> \<lparr>sv_expected_today = Dec 0 2, sv_currency = ''INR'', sv_status = ''No settlements'',
          sv_settlement_time = ''by 4:00 PM'', sv_bank_name = ''HDFC Bank'', sv_account_ending = ''4921'',
          sv_yesterday_settled = Dec 0 2, sv_utr = ''-''\<rparr>))"

definition merchant_currency :: "uuid \<Rightarrow> db \<Rightarrow> string" where
  "merchant_currency m s = (case by_id m (t_merchants s) of Some r \<Rightarrow> text_or (m_currency r) ''INR'' | None \<Rightarrow> ''INR'')"

record sales_report =
  sr_currency :: string
  sr_group_by :: string
  sr_points :: "(string \<times> dec) list"

definition sales_by :: "(string \<Rightarrow> int \<Rightarrow> string) \<Rightarrow> uuid \<Rightarrow> uuid option \<Rightarrow> int option \<Rightarrow> int option \<Rightarrow> string \<Rightarrow> db \<Rightarrow> exc + sales_report" where
  "sales_by bucket m store since until group_by s = bindE (analytics_range (clock s) since until) (\<lambda>(a, b).
     if group_by \<notin> {''day'', ''week'', ''month''}
     then Inl (Exc InvalidRequestError ''Sales grouping must be day, week, or month'')
     else Inr \<lparr>sr_currency = merchant_currency m s, sr_group_by = group_by,
       sr_points = sort_key fst (map (\<lambda>(k, xs). (k, dsum (map sale_value xs)))
         (group_rows (\<lambda>x. bucket group_by (sa_sold_at x)) (sales_between m store a b s)))\<rparr>)"

record category_stock =
  cs_category :: string
  cs_products :: nat
  cs_low_products :: nat

text \<open>Products without a category are a group of their own, beside a category that happens to have its name.\<close>

definition stock_by_category :: "uuid \<Rightarrow> uuid option \<Rightarrow> db \<Rightarrow> category_stock list" where
  "stock_by_category m store s = map (\<lambda>(k, rows). \<lparr>cs_category = (case k of Some c \<Rightarrow> c | None \<Rightarrow> ''Uncategorized''),
       cs_products = length rows, cs_low_products = length (filter (runs_low \<circ> snd) rows)\<rparr>)
     (group_rows (\<lambda>r. p_category (fst r)) (with_product s (stock_rows m store s)))"

record supplier_spend =
  ss_supplier_id :: uuid
  ss_supplier_name :: string
  ss_order_count :: nat
  ss_spend :: dec

definition with_supplier :: "db \<Rightarrow> order_row list \<Rightarrow> (supplier_row \<times> order_row) list" where
  "with_supplier s rows = concat (map (\<lambda>y. map (\<lambda>v. (v, y)) (filter (\<lambda>v. row_id v = o_supplier_id y) (t_suppliers s))) rows)"

definition spend_by_supplier ::
  "uuid \<Rightarrow> uuid option \<Rightarrow> int option \<Rightarrow> int option \<Rightarrow> db \<Rightarrow> exc + string \<times> supplier_spend list" where
  "spend_by_supplier m store since until s = bindE (analytics_range (clock s) since until) (\<lambda>(a, b).
     Inr (merchant_currency m s, map (\<lambda>((i, name), rows). \<lparr>ss_supplier_id = i, ss_supplier_name = name,
         ss_order_count = length rows, ss_spend = dsum (map (o_total_amount \<circ> snd) rows)\<rparr>)
       (group_rows (\<lambda>r. (row_id (fst r), s_name (fst r))) (with_supplier s (orders_between m store a b s)))))"

section \<open>The reports agree\<close>

lemma with_one:
  assumes "\<forall>i \<in> set rows. length (filter (P i) table) = 1"
  shows "map snd (concat (map (\<lambda>i. map (\<lambda>p. (p, i)) (filter (P i) table)) rows)) = rows"
  using assms by (induction rows) (auto simp: length_Suc_conv comp_def)

lemma sales_points_add_up:
  assumes "sales_by bucket m store since until group_by s = Inr rep" and "overview_of m store since until s = Inr v"
  shows "sum_list (map (rat_of \<circ> snd) (sr_points rep)) = rat_of (ov_total_sales_amount v)"
proof -
  obtain a b where ab: "analytics_range (clock s) since until = Inr (a, b)"
    using assms(1) by (cases "analytics_range (clock s) since until") (auto simp: sales_by_def bindE_def)
  let ?groups = "group_rows (\<lambda>x. bucket group_by (sa_sold_at x)) (sales_between m store a b s)"
  have "sum_list (map (rat_of \<circ> snd) (sr_points rep))
      = sum_list (map (rat_of \<circ> snd) (map (\<lambda>(k, xs). (k, dsum (map sale_value xs))) ?groups))"
    using assms(1) ab by (intro sum_list_mset) (auto simp: sales_by_def bindE_def split: if_splits)
  also have "\<dots> = sum_list (map (\<lambda>gr. sum_list (map (rat_of \<circ> sale_value) (snd gr))) ?groups)"
    by (simp add: comp_def case_prod_beta)
  also have "\<dots> = sum_list (map (rat_of \<circ> sale_value) (sales_between m store a b s))" by (rule sum_groups)
  also have "\<dots> = rat_of (ov_total_sales_amount v)"
    using assms(2) ab by (auto simp: overview_of_def bindE_def Let_def comp_def)
  finally show ?thesis .
qed

lemma categories_add_up:
  assumes "\<forall>i \<in> set (stock_rows m store s). length (filter (\<lambda>p. row_id p = inv_product_id i) (t_products s)) = 1"
  shows "sum_list (map cs_products (stock_by_category m store s)) = length (stock_rows m store s)"
    and "sum_list (map cs_low_products (stock_by_category m store s)) = length (filter runs_low (stock_rows m store s))"
proof -
  let ?rows = "with_product s (stock_rows m store s)"
  have snds: "map snd ?rows = stock_rows m store s" unfolding with_product_def by (rule with_one [OF assms])
  have "sum_list (map cs_products (stock_by_category m store s)) = length ?rows"
    using length_groups [of "\<lambda>r. p_category (fst r)" ?rows] by (simp add: stock_by_category_def comp_def case_prod_beta)
  also have "\<dots> = length (map snd ?rows)" by simp
  finally show "sum_list (map cs_products (stock_by_category m store s)) = length (stock_rows m store s)" by (simp add: snds)
  have count: "length (filter P xs) = sum_list (map (\<lambda>x. if P x then 1 else 0) xs)" for P and xs :: "'x list"
    by (induction xs) simp_all
  have "sum_list (map cs_low_products (stock_by_category m store s)) = length (filter (runs_low \<circ> snd) ?rows)"
    using sum_groups [of "\<lambda>r. if runs_low (snd r) then 1 else (0::nat)" "\<lambda>r. p_category (fst r)" ?rows]
    by (simp add: stock_by_category_def comp_def case_prod_beta count)
  also have "\<dots> = length (filter runs_low (map snd ?rows))" by (simp add: filter_map)
  finally show "sum_list (map cs_low_products (stock_by_category m store s)) = length (filter runs_low (stock_rows m store s))"
    by (simp add: snds)
qed

lemma suppliers_add_up:
  assumes "spend_by_supplier m store since until s = Inr (cur, rows)" and "overview_of m store since until s = Inr v"
    and "\<forall>y \<in> set (t_orders s). length (filter (\<lambda>v. row_id v = o_supplier_id y) (t_suppliers s)) = 1"
  shows "sum_list (map ss_order_count rows) = sum_list (map snd (ov_orders_by_status v))"
proof -
  obtain a b where ab: "analytics_range (clock s) since until = Inr (a, b)"
    using assms(1) by (cases "analytics_range (clock s) since until") (auto simp: spend_by_supplier_def bindE_def)
  let ?orders = "orders_between m store a b s"
  have "map snd (with_supplier s ?orders) = ?orders"
    unfolding with_supplier_def by (rule with_one) (use assms(3) in \<open>simp add: orders_between_def\<close>)
  then have len: "length (with_supplier s ?orders) = length ?orders" by (metis length_map)
  have "sum_list (map ss_order_count rows) = length (with_supplier s ?orders)"
    using assms(1) ab length_groups [of "\<lambda>r. (row_id (fst r), s_name (fst r))" "with_supplier s ?orders"]
    by (auto simp: spend_by_supplier_def bindE_def comp_def case_prod_beta)
  also have "\<dots> = sum_list (map snd (ov_orders_by_status v))"
    using assms(2) ab length_groups [of o_status ?orders]
    by (auto simp: overview_of_def bindE_def Let_def comp_def case_prod_beta len)
  finally show ?thesis .
qed

end
