(* ===== verification/ShopApi.thy ===== *)
theory ShopApi
  imports Analytics Inventory
begin

text \<open>
  The routes of the shop itself: stock (\<open>api/v1/inventory.py\<close>), the profile, the payment code and the campaigns
  (\<open>api/v1/merchants.py\<close> over \<open>merchant_service.py\<close>) and the channels of the merchant (\<open>api/v1/channels.py\<close>).
  A confirmation that collides with another one is a conflict (\<open>conflict_route\<close>); a stock event that collides is not
  caught (\<open>repeated_event_fails\<close>).
\<close>

section \<open>Stock\<close>

record inventory_item =
  it_inventory_id :: uuid
  it_store_id :: uuid
  it_product_id :: uuid
  it_sku :: string
  it_name :: string
  it_unit :: string
  it_quantity_on_hand :: dec
  it_reorder_point :: dec
  it_is_low :: bool
  it_category :: "string option"
  it_attributes :: "(string \<times> json) list"

definition shown_attributes :: "(string \<times> string) list" where
  "shown_attributes = [(''barcode'', ''barcode''), (''brand'', ''brand''), (''description'', ''description''),
     (''unit_price'', ''last_unit_price''), (''purchase_price'', ''last_purchase_price''), (''selling_price'', ''selling_price''),
     (''mrp'', ''mrp''), (''gst_rate'', ''gst_rate''), (''expiry_date'', ''expiry_date''), (''batch_number'', ''batch_number'')]"

definition inventory_item_of :: "product_row \<times> inventory_row \<Rightarrow> inventory_item" where
  "inventory_item_of r = (case r of (p, i) \<Rightarrow>
     \<lparr>it_inventory_id = row_id i, it_store_id = inv_store_id i, it_product_id = row_id p, it_sku = p_sku p, it_name = p_name p,
      it_unit = p_unit p, it_quantity_on_hand = inv_quantity_on_hand i, it_reorder_point = inv_reorder_point i,
      it_is_low = dle (inv_quantity_on_hand i) (inv_reorder_point i), it_category = p_category p,
      it_attributes = map (\<lambda>(shown, key). (shown, case map_of (p_attributes p) key of None \<Rightarrow> JNull | Some v \<Rightarrow> v)) shown_attributes\<rparr>)"

definition list_inventory :: "uuid \<Rightarrow> uuid option \<Rightarrow> db \<Rightarrow> inventory_item list" where
  "list_inventory m store s = map inventory_item_of (with_product s (stock_rows m store s))"

text \<open>\<open>except IntegrityError: rollback; raise ConflictError\<close>.\<close>

definition conflict_route :: "string \<Rightarrow> 'r m \<Rightarrow> 'r m" where
  "conflict_route said prg s = (case request prg s of
     (Inr a, t) \<Rightarrow> (Inr a, t)
   | (Inl x, t) \<Rightarrow> (Inl (if isa (cls x) SqlIntegrityError then Exc ConflictError said else x), t))"

definition confirm_scanned_receipt :: "env \<Rightarrow> principal \<Rightarrow> confirm_request \<Rightarrow> string option \<Rightarrow> confirm_response m" where
  "confirm_scanned_receipt e p body trace =
     conflict_route ''A product or receipt confirmation changed while it was being saved''
       (confirm_scanned e (pl_merchant_id p) (pl_user_id p) body trace)"

definition confirm_manual :: "env \<Rightarrow> principal \<Rightarrow> manual_request \<Rightarrow> string option \<Rightarrow> confirm_response m" where
  "confirm_manual e p body trace =
     conflict_route ''A product or inventory update changed while it was being saved''
       (confirm_manual_inventory e (pl_merchant_id p) (pl_user_id p) body trace)"

record inventory_event_request =
  er_store_id :: uuid
  er_product_id :: uuid
  er_quantity_delta :: dec
  er_event_type :: string
  er_source :: string
  er_idempotency_key :: string

definition inventory_event_ok :: "inventory_event_request \<Rightarrow> bool" where
  "inventory_event_ok b \<longleftrightarrow> 8 \<le> length (er_idempotency_key b) \<and> length (er_idempotency_key b) \<le> 128"

definition inventory_event :: "env \<Rightarrow> principal \<Rightarrow> inventory_event_request \<Rightarrow> (uuid \<times> dec) m" where
  "inventory_event e p b = request (record_event e (pl_merchant_id p) (er_store_id b) (er_product_id b) (er_quantity_delta b)
     (er_event_type b) (er_source b) (er_idempotency_key b) [])"

text \<open>\<open>scan_receipt\<close>: what the extraction yields is matched with the products; a file is cut one byte past the limit.\<close>

definition max_receipt_image_bytes :: nat where
  "max_receipt_image_bytes = 10 * 1024 * 1024"

definition scan_receipt ::
  "(string \<Rightarrow> string \<Rightarrow> string \<Rightarrow> exc + (string option \<times> string option) list) \<Rightarrow> principal \<Rightarrow> string option \<Rightarrow> string option \<Rightarrow> string
   \<Rightarrow> db \<Rightarrow> exc + (uuid \<times> string) option list" where
  "scan_receipt extract p filename content_type content s =
     bindE (extract (if truthy filename then the filename else ''receipt'')
       (if truthy content_type then the content_type else ''application/octet-stream'')
       (take (max_receipt_image_bytes + 1) content)) (\<lambda>review. Inr (match_receipt_products (pl_merchant_id p) review s))"

section \<open>The merchant\<close>

definition find_merchant :: "uuid \<Rightarrow> db \<Rightarrow> exc + merchant_row" where
  "find_merchant m s = (case by_id m (t_merchants s) of None \<Rightarrow> Inl (Exc NotFoundError ''Merchant not found'') | Some r \<Rightarrow> Inr r)"

definition stores_of :: "uuid \<Rightarrow> db \<Rightarrow> store_row list" where
  "stores_of m s = filter (\<lambda>r. st_merchant_id r = m) (t_stores s)"

record profile_store =
  pf_id :: uuid
  pf_name :: string
  pf_locality :: json

record merchant_profile =
  mf_id :: uuid
  mf_name :: string
  mf_currency :: string
  mf_spending_limit :: dec
  mf_stores :: "profile_store list"

definition profile_store_of :: "store_row \<Rightarrow> profile_store" where
  "profile_store_of r = \<lparr>pf_id = row_id r, pf_name = text_or (st_name r) ''Ramesh General Store'',
     pf_locality = (case map_of (st_address r) ''locality'' of None \<Rightarrow> JStr ''Karol Bagh, New Delhi'' | Some v \<Rightarrow> v)\<rparr>"

definition merchant_profile_of :: "uuid \<Rightarrow> db \<Rightarrow> exc + merchant_profile" where
  "merchant_profile_of m s = bindE (find_merchant m s) (\<lambda>r.
     Inr \<lparr>mf_id = row_id r, mf_name = m_name r, mf_currency = m_currency r, mf_spending_limit = m_spending_limit r,
       mf_stores = map profile_store_of (stores_of m s)\<rparr>)"

record payment_qr =
  pq_merchant_name :: string
  pq_store_name :: string
  pq_vpa :: string
  pq_soundbox_active :: bool
  pq_qr_string :: string

definition selected_store :: "uuid option \<Rightarrow> store_row list \<Rightarrow> store_row option" where
  "selected_store wanted rows = (case find (\<lambda>r. Some (row_id r) = wanted) rows of
     Some r \<Rightarrow> Some r | None \<Rightarrow> (case rows of [] \<Rightarrow> None | r # _ \<Rightarrow> Some r))"

definition get_payment_qr :: "uuid \<Rightarrow> uuid option \<Rightarrow> db \<Rightarrow> exc + payment_qr" where
  "get_payment_qr m wanted s = bindE (find_merchant m s) (\<lambda>r.
     let vpa = (if truthy (m_phone_number r) then the (m_phone_number r) else ''9810012345'') @ ''@paytm'' in
     Inr \<lparr>pq_merchant_name = m_name r,
       pq_store_name = (case selected_store wanted (stores_of m s) of None \<Rightarrow> ''Ramesh General Store'' | Some t \<Rightarrow> st_name t),
       pq_vpa = vpa, pq_soundbox_active = True,
       pq_qr_string = ''upi://pay?pa='' @ vpa @ ''&pn='' @ m_name r @ ''&cu=INR''\<rparr>)"

record campaign =
  cg_id :: uuid
  cg_title :: string
  cg_status :: string
  cg_audience_count :: int
  cg_created_at :: int

text \<open>A campaign is answered and not stored; the discount and the audience of the request are not read.\<close>

definition create_campaign :: "env \<Rightarrow> string \<Rightarrow> dec \<Rightarrow> string \<Rightarrow> campaign m" where
  "create_campaign e title discount_pct target_audience = bnd (new_uuid e) (\<lambda>i. bnd (gets clock) (\<lambda>now.
     ret \<lparr>cg_id = i, cg_title = title, cg_status = ''ACTIVE'', cg_audience_count = 146, cg_created_at = now\<rparr>))"

section \<open>Channels\<close>

record channel_view =
  cv_id :: string
  cv_status :: string
  cv_is_active :: bool
  cv_is_coming_soon :: bool
  cv_bot :: "(string \<times> string) option"

definition bot_of :: "settings \<Rightarrow> string \<times> string" where
  "bot_of cfg = (telegram_bot_username cfg, ''https://t.me/'' @ telegram_bot_username cfg)"

definition channel_of :: "string \<Rightarrow> 'x option \<Rightarrow> (string \<times> string) option \<Rightarrow> channel_view" where
  "channel_of i key bot' = \<lparr>cv_id = i, cv_status = (if key \<noteq> None then ''active'' else ''unconfigured''), cv_is_active = (key \<noteq> None),
     cv_is_coming_soon = False, cv_bot = bot'\<rparr>"

definition list_channels :: "settings \<Rightarrow> channel_view list" where
  "list_channels cfg = [channel_of ''telegram'' (telegram_bot_token cfg) (Some (bot_of cfg)),
     \<lparr>cv_id = ''whatsapp'', cv_status = ''coming_soon'', cv_is_active = False, cv_is_coming_soon = True, cv_bot = None\<rparr>,
     channel_of ''voice'' (sarvam_api_key cfg) None, channel_of ''email'' (resend_api_key cfg) None]"

record channel_status =
  ch_telegram_connected :: bool
  ch_chat_id :: json
  ch_username :: json
  ch_bot :: "string \<times> string"
  ch_phone_number :: "string option"

definition merchant_channel_status :: "settings \<Rightarrow> principal \<Rightarrow> db \<Rightarrow> channel_status" where
  "merchant_channel_status cfg p s =
     (let found = by_id (pl_merchant_id p) (t_merchants s);
          stored = (case found of None \<Rightarrow> [] | Some r \<Rightarrow> m_settings r);
          field = (\<lambda>k. case map_of stored k of None \<Rightarrow> JNull | Some v \<Rightarrow> v) in
      \<lparr>ch_telegram_connected = (field ''telegram_chat_id'' \<noteq> JNull), ch_chat_id = field ''telegram_chat_id'',
       ch_username = field ''telegram_username'', ch_bot = bot_of cfg,
       ch_phone_number = (case found of None \<Rightarrow> None | Some r \<Rightarrow> m_phone_number r)\<rparr>)"

section \<open>What the routes keep\<close>

lemma keeps_conflict_route [keeps_intros]: "keeps P (request prg) \<Longrightarrow> keeps P (conflict_route said prg)"
  by (rule keepsI) (auto simp: conflict_route_def dest: keepsD split: prod.splits sum.splits)

lemma conflict_route_Inr: "conflict_route said prg s = (Inr a, t) \<longleftrightarrow> request prg s = (Inr a, t)"
  by (auto simp: conflict_route_def split: prod.splits sum.splits)

text \<open>A collision is never seen as such by the caller of a confirmation.\<close>

lemma collision_is_conflict: "conflict_route said prg s = (Inl x, t) \<Longrightarrow> \<not> isa (cls x) SqlIntegrityError"
proof -
  have "\<not> isa ConflictError SqlIntegrityError" by code_simp
  then show "conflict_route said prg s = (Inl x, t) \<Longrightarrow> \<not> isa (cls x) SqlIntegrityError"
    by (auto simp: conflict_route_def split: prod.splits sum.splits if_splits)
qed

lemma inventory_event_ledger:
  assumes "stock_ok s" and "inventory_event e p b s = (Inr (i, n), t)"
  shows "stock_ok t" and "on_hand (er_store_id b) (er_product_id b) t = on_hand (er_store_id b) (er_product_id b) s + rat_of (er_quantity_delta b)"
    and "0 \<le> rat_of n"
  using assms record_event_ledger [OF assms(1)]
  by (auto simp: inventory_event_def request_def atomic_def split: prod.splits sum.splits)

text \<open>An event that is sent again with its key is an internal error, and nothing changes.\<close>

lemma repeated_event_fails:
  assumes "find_inventory (pl_merchant_id p) (er_store_id b) (er_product_id b) s = Some r"
    and "0 \<le> rat_of (inv_quantity_on_hand r) + rat_of (er_quantity_delta b)"
    and "x \<in> set (t_inventory_events s)" "ie_merchant_id x = pl_merchant_id p" "ie_idempotency_key x = er_idempotency_key b"
  shows "inventory_event e p b s = (Inl integrity_error, s\<lparr>draws := draws s + 1\<rparr>)"
proof -
  have "\<exists>t. apply_event e (pl_merchant_id p) (er_store_id b) (er_product_id b) (er_quantity_delta b) (er_event_type b) (er_source b)
      (er_idempotency_key b) [] s = (Inl integrity_error, t) \<and> clock t = clock s \<and> draws t = draws s + 1"
    using assms
    by (auto simp: apply_event_def exec_defs require_def Let_def dlt_rat change_row_def new_uuid_def add_row_def list_ex_iff
        inventory_event_clash_def)
  then show ?thesis by (auto simp: inventory_event_def record_event_def request_def atomic_def bnd_def rollback_def)
qed

lemma list_inventory_own:
  assumes "x \<in> set (list_inventory m store s)"
  shows "\<exists>i \<in> set (t_inventory s). inv_merchant_id i = m \<and> row_id i = it_inventory_id x \<and> opt_is store (inv_store_id i)"
  using assms by (auto simp: list_inventory_def inventory_item_of_def with_product_def stock_rows_def)

text \<open>Every merchant without a phone number is paid at the same address.\<close>

lemma shared_address:
  assumes "find_merchant m s = Inr r" and "\<not> truthy (m_phone_number r)"
  shows "\<exists>q. get_payment_qr m wanted s = Inr q \<and> pq_vpa q = ''9810012345@paytm''"
  using assms by (simp add: get_payment_qr_def bindE_def Let_def)

end
