(* ===== verification/Starts.thy ===== *)
theory Starts
  imports Listing
begin

text \<open>
  The three routes that start a purchase workflow: \<open>agents.start_run\<close> from a request, \<open>negotiations.start_negotiation\<close> for one
  item, and \<open>agents.detect_and_replenish_low_stock\<close> for everything that runs low.  The workflow works in sessions of its own
  and commits; what the route's session has added meanwhile is its own until it commits.  \<open>fl\<close> holds the operations on binary
  floats; a float is the decimal of its text.
\<close>

section \<open>Looking things up\<close>

record float_ops =
  fl_minus :: "dec \<Rightarrow> dec \<Rightarrow> dec"
  fl_times :: "dec \<Rightarrow> dec \<Rightarrow> dec"
  fl_round :: "dec \<Rightarrow> dec"

definition find_store :: "principal \<Rightarrow> uuid \<Rightarrow> db \<Rightarrow> store_row option" where
  "find_store p i s = find (\<lambda>r. row_id r = i \<and> st_merchant_id r = pl_merchant_id p) (t_stores s)"

definition first_store :: "principal \<Rightarrow> db \<Rightarrow> store_row option" where
  "first_store p s = find (\<lambda>r. st_merchant_id r = pl_merchant_id p) (t_stores s)"

definition stock_at :: "principal \<Rightarrow> uuid \<Rightarrow> uuid \<Rightarrow> db \<Rightarrow> inventory_row option" where
  "stock_at p store product s = find (\<lambda>r. inv_merchant_id r = pl_merchant_id p \<and> inv_store_id r = store
     \<and> inv_product_id r = product) (t_inventory s)"

definition item_sales :: "principal \<Rightarrow> uuid \<Rightarrow> uuid \<Rightarrow> db \<Rightarrow> sale_row list" where
  "item_sales p store product s = filter (\<lambda>r. sa_merchant_id r = pl_merchant_id p \<and> sa_store_id r = store
     \<and> sa_product_id r = product) (t_sales s)"

definition latest_sales :: "principal \<Rightarrow> uuid \<Rightarrow> uuid \<Rightarrow> db \<Rightarrow> sale_row list" where
  "latest_sales p store product s = take 90 (sort_key (\<lambda>r. - sa_sold_at r) (item_sales p store product s))"

text \<open>The \<open>safety_stock\<close> property of an inventory row is zero.\<close>

definition safety_stock :: "inventory_row \<Rightarrow> dec" where
  "safety_stock r = Dec 0 0"

definition history_of :: "dec \<Rightarrow> sale_row list \<Rightarrow> dict list" where
  "history_of held sales = map (\<lambda>r. dmerge
     [(''date'', JStr (isoformat (sa_sold_at r))), (''sales'', JNum (py_float (sa_quantity r))), (''inventory'', JNum held),
      (''price'', JNum (py_float (sa_unit_price r)))] (sa_signals r)) (rev sales)"

text \<open>The state a workflow starts with; the keys that no route sets are absent.\<close>

definition purchase_state ::
  "principal \<Rightarrow> uuid \<Rightarrow> string \<Rightarrow> string \<Rightarrow> dec \<Rightarrow> string \<Rightarrow> dec \<Rightarrow> dec \<Rightarrow> dec \<Rightarrow> int \<Rightarrow> wf_inventory \<Rightarrow> dict list \<Rightarrow> string option \<Rightarrow> wf_state" where
  "purchase_state p store rid sku quantity unit target max_price limit delivery stock history preferred =
     \<lparr>ws_merchant_id = str_uuid (pl_merchant_id p), ws_store_id = str_uuid store, ws_request_id = rid, ws_sku = sku,
      ws_required_quantity = Some quantity, ws_unit = unit, ws_target_price = target, ws_max_price = max_price,
      ws_spending_limit = limit, ws_delivery_requirement = isoformat delivery, ws_inventory = stock, ws_sales_history = history,
      ws_forecast = None, ws_candidates = [], ws_selected = None, ws_history = [], ws_correlation = None, ws_price = None,
      ws_risk = None, ws_proposal = None, ws_revision = Some 1, ws_order_hash = None, ws_approval_status = None,
      ws_approval_id = None, ws_approval_token = None, ws_execution_status = None, ws_result = None, ws_failure = None,
      ws_attempted = [], ws_preferred = preferred, ws_override = False\<rparr>"

type_synonym 'w runtime = "wf_state \<Rightarrow> ('w, unit) wm"

section \<open>A run for a request\<close>

record run_request =
  rr_request_id :: string
  rr_store_id :: uuid
  rr_sku :: string
  rr_safety_stock :: dec
  rr_required_quantity :: dec
  rr_target_price :: dec
  rr_max_price :: dec
  rr_delivery_deadline :: int

definition run_request_ok :: "run_request \<Rightarrow> bool" where
  "run_request_ok b \<longleftrightarrow> 8 \<le> length (rr_request_id b) \<and> length (rr_request_id b) \<le> 128 \<and> dle dzero (rr_safety_stock b)
     \<and> dle dzero (rr_required_quantity b) \<and> dlt dzero (rr_target_price b) \<and> dlt dzero (rr_max_price b)
     \<and> \<not> dlt (rr_max_price b) (rr_target_price b)"

definition run_state :: "principal \<Rightarrow> run_request \<Rightarrow> wf_state m" where
  "run_state p b =
     andthen (guard (run_request_ok b) (Exc PyValidationError ''AgentRunRequest''))
     (bnd (gets (find_store p (rr_store_id b))) (\<lambda>st. bnd (require st (Exc NotFoundError ''Store not found'')) (\<lambda>store.
      bnd (gets (\<lambda>s. find (\<lambda>r. p_merchant_id r = pl_merchant_id p \<and> p_sku r = rr_sku b) (t_products s))) (\<lambda>pr.
      bnd (require pr (Exc NotFoundError ''Product not found'')) (\<lambda>product.
      bnd (gets (stock_at p (row_id store) (row_id product))) (\<lambda>iv.
      bnd (gets (\<lambda>s. by_id (pl_merchant_id p) (t_merchants s))) (\<lambda>me.
      bnd (require iv (Exc NotFoundError ''Inventory or merchant record not found'')) (\<lambda>i.
      bnd (require me (Exc NotFoundError ''Inventory or merchant record not found'')) (\<lambda>merchant.
      bnd (gets (latest_sales p (row_id store) (row_id product))) (\<lambda>sales.
      andthen (guard (sales \<noteq> []) (Exc InvalidRequestError ''Demand history is not available for this product''))
      (bnd (gets clock) (\<lambda>now.
       ret (purchase_state p (rr_store_id b) (rr_request_id b) (rr_sku b) (rr_required_quantity b) (p_unit product)
         (rr_target_price b) (rr_max_price b) (py_float (m_spending_limit merchant)) (rr_delivery_deadline b)
         \<lparr>wi_quantity_on_hand = py_float (inv_quantity_on_hand i), wi_reorder_point = py_float (inv_reorder_point i),
          wi_captured_at = isoformat now, wi_safety_stock = Some (rr_safety_stock b)\<rparr>
         (history_of (py_float (inv_quantity_on_hand i)) sales) None)))))))))))))"

definition session_clash :: "agent_session_row \<Rightarrow> agent_session_row \<Rightarrow> bool" where
  "session_clash x y \<longleftrightarrow> as_thread_id x = as_thread_id y"

definition run_clash :: "agent_run_row \<Rightarrow> agent_run_row \<Rightarrow> bool" where
  "run_clash x y \<longleftrightarrow> ag_request_id x = ag_request_id y"

definition waits_for_approval :: "wf_state option \<Rightarrow> bool" where
  "waits_for_approval v \<longleftrightarrow> (case v of None \<Rightarrow> False | Some v \<Rightarrow> ws_approval_status v = Some ''PENDING'')"

definition run_session :: "env \<Rightarrow> principal \<Rightarrow> run_request \<Rightarrow> uuid m" where
  "run_session e p b =
     (let thread = thread_id (str_uuid (pl_merchant_id p)) (rr_request_id b) in
      bnd (gets (\<lambda>s. find (\<lambda>r. as_thread_id r = thread) (t_agent_sessions s))) (\<lambda>found. case found of
        Some r \<Rightarrow> ret (row_id r)
      | None \<Rightarrow> bnd (new_uuid e) (\<lambda>i. bnd (gets clock) (\<lambda>now.
          andthen (add_row t_agent_sessions t_agent_sessions_update session_clash
            \<lparr>row_id = i, created_at = now, updated_at = now, as_merchant_id = pl_merchant_id p, as_store_id = Some (rr_store_id b),
             as_thread_id = thread, as_channel = ''API'', as_status = ''ACTIVE'', as_context = [(''sku'', JStr (rr_sku b))]\<rparr>)
          (ret i)))))"

definition record_run :: "env \<Rightarrow> principal \<Rightarrow> string \<Rightarrow> run_request \<Rightarrow> wf_state option \<Rightarrow> unit m" where
  "record_run e p trace b result =
     bnd (run_session e p b) (\<lambda>session. bnd (new_uuid e) (\<lambda>i. bnd (gets clock) (\<lambda>now.
       add_row t_agent_runs t_agent_runs_update run_clash
         \<lparr>row_id = i, created_at = now, updated_at = now, ag_session_id = session, ag_request_id = rr_request_id b,
          ag_trace_id = trace, ag_status = (if waits_for_approval result then RS_WAITING_APPROVAL else RS_COMPLETED),
          ag_current_node = (if waits_for_approval result then Some ''human_approval'' else None), ag_started_at = now,
          ag_finished_at = None, ag_error = None\<rparr>)))"

definition start_run ::
  "env \<Rightarrow> 'a outside world runtime \<Rightarrow> principal \<Rightarrow> string \<Rightarrow> run_request \<Rightarrow> ('a outside world, string \<times> wf_state option) wm" where
  "start_run e start p trace b =
     bnd (on_db (run_state p b)) (\<lambda>v. bnd (start v) (\<lambda>_.
     bnd (thread_state (str_uuid (pl_merchant_id p)) (rr_request_id b)) (\<lambda>result.
     andthen (on_db (request (record_run e p trace b result))) (ret (rr_request_id b, result)))))"

section \<open>A negotiation for an item\<close>

record negotiation_request =
  nr_sku :: string
  nr_supplier_id :: "uuid option"
  nr_store_id :: "uuid option"
  nr_quantity :: "dec option"
  nr_target_price :: "dec option"
  nr_max_price :: "dec option"

definition wanted_sku :: "string \<Rightarrow> string" where
  "wanted_sku sku = upper (strip sku)"

definition resolve_store :: "principal \<Rightarrow> uuid option \<Rightarrow> store_row m" where
  "resolve_store p i = (case i of
     Some j \<Rightarrow> bnd (gets (find_store p j)) (\<lambda>r. require r (Exc NotFoundError ''Store not found''))
   | None \<Rightarrow> bnd (gets (first_store p)) (\<lambda>r. require r (Exc NotFoundError ''No store found for merchant'')))"

definition listed_product :: "uuid \<Rightarrow> string \<Rightarrow> db \<Rightarrow> product_row option" where
  "listed_product supplier sku s = find (\<lambda>r. upper (p_sku r) = sku
     \<and> (\<exists>x \<in> set (t_supplier_products s). sp_product_id x = row_id r \<and> sp_supplier_id x = supplier)
     \<and> (\<exists>v \<in> set (t_suppliers s). row_id v = supplier \<and> s_is_active v)) (t_products s)"

text \<open>The copy of a supplier's item is flushed in the session of the route and never committed: the row is the route's alone.
  Its flush meets no other row: a product of the merchant with this SKU would have been found.\<close>

definition resolve_product :: "env \<Rightarrow> principal \<Rightarrow> negotiation_request \<Rightarrow> product_row m" where
  "resolve_product e p b =
     bnd (gets (\<lambda>s. find (\<lambda>r. p_merchant_id r = pl_merchant_id p \<and> upper (p_sku r) = wanted_sku (nr_sku b)) (t_products s))) (\<lambda>found.
     case (found, nr_supplier_id b) of
       (Some r, _) \<Rightarrow> ret r
     | (None, None) \<Rightarrow> raise (Exc NotFoundError ''Product with SKU not found'')
     | (None, Some v) \<Rightarrow> bnd (gets (listed_product v (wanted_sku (nr_sku b)))) (\<lambda>listed.
         bnd (require listed (Exc NotFoundError ''This supplier does not list the requested item'')) (\<lambda>c.
         bnd (new_uuid e) (\<lambda>i. bnd (gets clock) (\<lambda>now.
           ret \<lparr>row_id = i, created_at = now, updated_at = now, p_merchant_id = pl_merchant_id p, p_sku = p_sku c,
                p_name = p_name c, p_unit = p_unit c, p_category = p_category c, p_attributes = p_attributes c\<rparr>)))))"

text \<open>Sales made up for an item that has none: two weeks of five a day; they are not stored.\<close>

definition made_up_sale :: "env \<Rightarrow> principal \<Rightarrow> uuid \<Rightarrow> uuid \<Rightarrow> int \<Rightarrow> nat \<Rightarrow> sale_row m" where
  "made_up_sale e p store product now d = bnd (new_uuid e) (\<lambda>i.
     ret \<lparr>row_id = i, created_at = now, updated_at = now, sa_merchant_id = pl_merchant_id p, sa_store_id = store,
          sa_product_id = product, sa_quantity = Dec 5 0, sa_unit_price = Dec 100 0, sa_sold_at = now - days (int d),
          sa_signals = [(''temperature_c'', JInt 28)]\<rparr>)"

definition sales_or_made_up :: "env \<Rightarrow> principal \<Rightarrow> uuid \<Rightarrow> uuid \<Rightarrow> sale_row list m" where
  "sales_or_made_up e p store product =
     bnd (gets (latest_sales p store product)) (\<lambda>sales. bnd (gets clock) (\<lambda>now.
       if sales \<noteq> [] then ret sales else mapP (made_up_sale e p store product now) (rev [1 ..< 15])))"

text \<open>\<open>x or default\<close>: a zero counts as missing.\<close>

definition nonzero_or :: "dec \<Rightarrow> dec \<Rightarrow> dec" where
  "nonzero_or d v = (if deq v dzero then d else v)"

definition default_spending_limit :: dec where
  "default_spending_limit = Dec 5000000 2"

definition wanted_quantity :: "float_ops \<Rightarrow> negotiation_request \<Rightarrow> inventory_row option \<Rightarrow> dec" where
  "wanted_quantity fl b iv =
     (let held = (case iv of None \<Rightarrow> Dec 0 1 | Some i \<Rightarrow> py_float (inv_quantity_on_hand i));
          reorder = (case iv of None \<Rightarrow> Dec 100 1 | Some i \<Rightarrow> py_float (inv_reorder_point i))
      in case nr_quantity b of Some q \<Rightarrow> py_float q | None \<Rightarrow> dmax (fl_minus fl reorder held) (Dec 100 1))"

definition wanted_target :: "negotiation_request \<Rightarrow> dec" where
  "wanted_target b = py_float (case nr_target_price b of Some t \<Rightarrow> t | None \<Rightarrow> Dec 44000 2)"

definition wanted_max :: "negotiation_request \<Rightarrow> dec" where
  "wanted_max b = py_float (case nr_max_price b of Some t \<Rightarrow> t | None \<Rightarrow> quantize 2 (dmul (wanted_target b) (Dec 120 2)))"

definition fresh_suffix :: "uuid \<Rightarrow> string" where
  "fresh_suffix i = take 6 (str_uuid i)"

definition negotiation_state :: "env \<Rightarrow> float_ops \<Rightarrow> principal \<Rightarrow> negotiation_request \<Rightarrow> (wf_state \<times> product_row) m" where
  "negotiation_state e fl p b =
     bnd (resolve_store p (nr_store_id b)) (\<lambda>store. bnd (resolve_product e p b) (\<lambda>product.
     bnd (gets (stock_at p (row_id store) (row_id product))) (\<lambda>iv.
     bnd (gets (\<lambda>s. by_id (pl_merchant_id p) (t_merchants s))) (\<lambda>me.
     bnd (require me (Exc NotFoundError ''Merchant not found'')) (\<lambda>merchant.
     bnd (sales_or_made_up e p (row_id store) (row_id product)) (\<lambda>sales. bnd (gets clock) (\<lambda>now.
     bnd (new_uuid e) (\<lambda>i. bnd (new_uuid e) (\<lambda>trace.
     (let held = (case iv of None \<Rightarrow> Dec 0 1 | Some i \<Rightarrow> py_float (inv_quantity_on_hand i));
          reorder = (case iv of None \<Rightarrow> Dec 100 1 | Some i \<Rightarrow> py_float (inv_reorder_point i))
      in ret (purchase_state p (row_id store) (''nego_'' @ p_sku product @ ''_'' @ fresh_suffix i) (p_sku product)
           (wanted_quantity fl b iv) (p_unit product) (wanted_target b) (wanted_max b)
           (py_float (nonzero_or default_spending_limit (m_spending_limit merchant))) (now + days 2)
           \<lparr>wi_quantity_on_hand = held, wi_reorder_point = reorder, wi_captured_at = isoformat now,
            wi_safety_stock = Some (Dec 0 1)\<rparr>
           (history_of held sales) (map_option str_uuid (nr_supplier_id b)), product)))))))))))"

definition negotiation_refusal :: "negotiation_request \<Rightarrow> exc" where
  "negotiation_refusal b = Exc InvalidRequestError (if nr_supplier_id b \<noteq> None
     then ''The selected supplier cannot fulfil this item within the requested terms''
     else ''Negotiation could not be completed with available suppliers'')"

definition first_negotiation :: "(negotiation_row \<Rightarrow> bool) \<Rightarrow> db \<Rightarrow> (negotiation_row \<times> supplier_row \<times> uuid option) option" where
  "first_negotiation P s = (case negotiations_joined P s of [] \<Rightarrow> None | r # _ \<Rightarrow> Some r)"

definition latest_negotiation :: "(negotiation_row \<Rightarrow> bool) \<Rightarrow> db \<Rightarrow> (negotiation_row \<times> supplier_row \<times> uuid option) option" where
  "latest_negotiation P s = (case sort_key (\<lambda>r. - created_at (fst r)) (negotiations_joined P s) of [] \<Rightarrow> None | r # _ \<Rightarrow> Some r)"

definition recorded_negotiation ::
  "principal \<Rightarrow> negotiation_request \<Rightarrow> string \<Rightarrow> string \<Rightarrow> db \<Rightarrow> (negotiation_row \<times> supplier_row \<times> uuid option) option" where
  "recorded_negotiation p b rid sku s =
     (case first_negotiation (\<lambda>n. n_merchant_id n = pl_merchant_id p \<and> n_workflow_request_id n = Some rid) s of
        Some r \<Rightarrow> Some r
      | None \<Rightarrow> (if nr_supplier_id b = None
                then latest_negotiation (\<lambda>n. n_merchant_id n = pl_merchant_id p \<and> n_sku n = sku) s else None))"

definition start_negotiation ::
  "env \<Rightarrow> float_ops \<Rightarrow> 'a outside world runtime option \<Rightarrow> principal \<Rightarrow> negotiation_request \<Rightarrow> ('a outside world, dict) wm" where
  "start_negotiation e fl runtime p b =
     bnd (on_db (negotiation_state e fl p b)) (\<lambda>(v, product).
     bnd (case runtime of None \<Rightarrow> ret () | Some start \<Rightarrow> start v) (\<lambda>_.
     bnd (on_db (gets (recorded_negotiation p b (ws_request_id v) (p_sku product)))) (\<lambda>found.
     bnd (on_db (require found (negotiation_refusal b))) (\<lambda>r. ret (negotiation_json r)))))"

section \<open>Everything that runs low\<close>

definition low_stock :: "principal \<Rightarrow> uuid \<Rightarrow> db \<Rightarrow> (inventory_row \<times> product_row) list" where
  "low_stock p store s = concat (map (\<lambda>i. map (\<lambda>r. (i, r)) (filter (\<lambda>r. row_id r = inv_product_id i) (t_products s)))
     (filter (\<lambda>i. inv_merchant_id i = pl_merchant_id p \<and> inv_store_id i = store
        \<and> dle (inv_quantity_on_hand i) (inv_reorder_point i)) (t_inventory s)))"

definition supplier_prices :: "uuid \<Rightarrow> db \<Rightarrow> dec list" where
  "supplier_prices product s = map sp_unit_price (filter (\<lambda>x. sp_product_id x = product
     \<and> (\<exists>v \<in> set (t_suppliers s). row_id v = sp_supplier_id x \<and> s_is_active v)) (t_supplier_products s))"

definition reference_price :: "principal \<Rightarrow> uuid \<Rightarrow> db \<Rightarrow> dec" where
  "reference_price p product s = (case supplier_prices product s of
     x # xs \<Rightarrow> foldl dmin x xs
   | [] \<Rightarrow> (case sort_key (\<lambda>r. - sa_sold_at r) (filter (\<lambda>r. sa_merchant_id r = pl_merchant_id p \<and> sa_product_id r = product) (t_sales s)) of
        r # _ \<Rightarrow> nonzero_or (Dec 2000 2) (sa_unit_price r) | [] \<Rightarrow> Dec 2000 2))"

text \<open>The check for a proposal that waits already reads one waiting approval of the merchant, whichever comes first.\<close>

definition already_proposed :: "principal \<Rightarrow> string \<Rightarrow> db \<Rightarrow> bool" where
  "already_proposed p sku s =
     (case find (\<lambda>a. ap_merchant_id a = pl_merchant_id p \<and> ap_status a = AS_PENDING) (t_approvals s) of
        None \<Rightarrow> False | Some a \<Rightarrow> ap_proposal_payload a \<noteq> [] \<and> map_of (ap_proposal_payload a) ''sku'' = Some (JStr sku))"

definition seed_sale :: "env \<Rightarrow> principal \<Rightarrow> uuid \<Rightarrow> uuid \<Rightarrow> dec \<Rightarrow> nat \<Rightarrow> unit m" where
  "seed_sale e p store product price d = bnd (new_uuid e) (\<lambda>i. bnd (gets clock) (\<lambda>now.
     add_row t_sales t_sales_update no_clash
       \<lparr>row_id = i, created_at = now, updated_at = now, sa_merchant_id = pl_merchant_id p, sa_store_id = store,
        sa_product_id = product, sa_quantity = Dec 500 2, sa_unit_price = price, sa_sold_at = now - days (int d),
        sa_signals = [(''weather'', JStr ''sunny''), (''day_of_week'', JStr ''weekday'')]\<rparr>))"

definition seeded_sales :: "env \<Rightarrow> principal \<Rightarrow> uuid \<Rightarrow> uuid \<Rightarrow> dec \<Rightarrow> sale_row list m" where
  "seeded_sales e p store product price =
     bnd (gets (item_sales p store product)) (\<lambda>sales.
     andthen (if sales = [] then bnd (mapP (seed_sale e p store product price) (rev [1 ..< 6])) (\<lambda>_. ret ()) else ret ())
       (gets (latest_sales p store product)))"

definition low_quantity :: "inventory_row \<Rightarrow> dec" where
  "low_quantity i = py_float (dmax (dadd (dsub (inv_reorder_point i) (inv_quantity_on_hand i)) (safety_stock i)) (Dec 100 1))"

definition merchant_limit :: "merchant_row option \<Rightarrow> dec" where
  "merchant_limit me = py_float (case me of None \<Rightarrow> default_spending_limit
     | Some m \<Rightarrow> nonzero_or default_spending_limit (m_spending_limit m))"

definition low_stock_state ::
  "env \<Rightarrow> float_ops \<Rightarrow> principal \<Rightarrow> uuid \<Rightarrow> dec \<Rightarrow> inventory_row \<Rightarrow> product_row \<Rightarrow> wf_state m" where
  "low_stock_state e fl p store limit i r =
     bnd (gets (reference_price p (row_id r))) (\<lambda>price. bnd (seeded_sales e p store (row_id r) price) (\<lambda>sales.
     bnd (gets clock) (\<lambda>now. bnd (new_uuid e) (\<lambda>fresh. bnd (new_uuid e) (\<lambda>trace.
       ret (purchase_state p store (''auto_replenish_'' @ p_sku r @ ''_'' @ fresh_suffix fresh) (p_sku r) (low_quantity i) (p_unit r)
         (fl_round fl (fl_times fl (py_float price) (Dec 92 2))) (fl_round fl (fl_times fl (py_float price) (Dec 115 2)))
         limit (now + days 2)
         \<lparr>wi_quantity_on_hand = py_float (inv_quantity_on_hand i), wi_reorder_point = py_float (inv_reorder_point i),
          wi_captured_at = isoformat now, wi_safety_stock = Some (py_float (safety_stock i))\<rparr>
         (history_of (py_float (inv_quantity_on_hand i)) sales) None))))))"

text \<open>The alerts: Telegram when the merchant's phone is linked to a chat, e-mail when the user has an address.  \<open>mail\<close> sends
  the message; its text is not modelled.  An alert that fails is forgotten.\<close>

record 'w alerts =
  al_telegram :: "'w http_post option"
  al_mail :: "(string \<Rightarrow> product_row \<Rightarrow> dict \<Rightarrow> string \<Rightarrow> ('w, exc, unit) prog) option"

definition telegram_alert ::
  "env \<Rightarrow> 'a world alerts \<Rightarrow> principal \<Rightarrow> merchant_row option \<Rightarrow> dict \<Rightarrow> string \<Rightarrow> ('a world, string list) wm" where
  "telegram_alert e al p me proposal rid =
     (case (me, al_telegram al) of
        (Some m, Some post) \<Rightarrow> (if truthy (m_phone_number m)
          then bnd (gets (\<lambda>w. get_telegram_chat_for_phone (the (m_phone_number m)) (snd w))) (\<lambda>chat. if truthy chat
            then bnd (attempt (telegram_channel_approval e post (pl_merchant_id p) (the chat) proposal (''tg_'' @ rid))) (\<lambda>v. case v of
                Inl _ \<Rightarrow> ret [] | Inr _ \<Rightarrow> ret [''telegram''])
            else ret [])
          else ret [])
      | _ \<Rightarrow> ret [])"

definition mail_alert ::
  "'a world alerts \<Rightarrow> user_row option \<Rightarrow> product_row \<Rightarrow> dict \<Rightarrow> string \<Rightarrow> ('a world, string list) wm" where
  "mail_alert al u r proposal rid =
     (case (u, al_mail al) of
        (Some user, Some mail) \<Rightarrow> (if u_email user = [] then ret []
          else bnd (attempt (on_world (mail (u_email user) r proposal (''email_'' @ rid)))) (\<lambda>v. case v of
            Inl _ \<Rightarrow> ret [] | Inr _ \<Rightarrow> ret [''email'']))
      | _ \<Rightarrow> ret [])"

record triggered =
  tw_request_id :: string
  tw_sku :: string
  tw_product_name :: string
  tw_approval_id :: "string option"
  tw_approval_token :: "string option"
  tw_status :: string

definition triggered_of :: "string \<Rightarrow> product_row \<Rightarrow> wf_state \<Rightarrow> triggered" where
  "triggered_of rid r v =
     \<lparr>tw_request_id = rid, tw_sku = p_sku r, tw_product_name = p_name r, tw_approval_id = ws_approval_id v,
      tw_approval_token = ws_approval_token v,
      tw_status = (case ws_approval_status v of None \<Rightarrow> ''PENDING'' | Some t \<Rightarrow> t)\<rparr>"

definition start_low ::
  "env \<Rightarrow> 'a outside world runtime \<Rightarrow> 'a outside world alerts \<Rightarrow> principal \<Rightarrow> merchant_row option \<Rightarrow> user_row option \<Rightarrow> product_row
   \<Rightarrow> wf_state \<Rightarrow> ('a outside world, triggered option \<times> string list) wm" where
  "start_low e start al p me u r v =
     bnd (attempt (andthen (start v) (bnd (thread_state (ws_merchant_id v) (ws_request_id v)) (\<lambda>t.
        require t (Exc PyKeyError ''values''))))) (\<lambda>res. case res of
       Inl _ \<Rightarrow> ret (None, [])
     | Inr t \<Rightarrow> (let proposal = (case ws_proposal t of None \<Rightarrow> [] | Some d \<Rightarrow> d) in
         bnd (telegram_alert e al p me proposal (ws_request_id v)) (\<lambda>a. bnd (mail_alert al u r proposal (ws_request_id v)) (\<lambda>b.
           ret (Some (triggered_of (ws_request_id v) r t), ''in_app'' # a @ b)))))"

definition replenish_one ::
  "env \<Rightarrow> float_ops \<Rightarrow> 'a outside world runtime option \<Rightarrow> 'a outside world alerts \<Rightarrow> principal \<Rightarrow> uuid \<Rightarrow> merchant_row option \<Rightarrow> user_row option
   \<Rightarrow> inventory_row \<times> product_row \<Rightarrow> ('a outside world, triggered option \<times> string list) wm" where
  "replenish_one e fl runtime al p store me u ir =
     bnd (on_db (gets (already_proposed p (p_sku (snd ir))))) (\<lambda>skip. if skip then ret (None, []) else
     bnd (on_db (low_stock_state e fl p store (merchant_limit me) (fst ir) (snd ir))) (\<lambda>v. case runtime of
       None \<Rightarrow> ret (None, []) | Some start \<Rightarrow> start_low e start al p me u (snd ir) v))"

record low_stock_report =
  lr_detected :: "(inventory_row \<times> product_row) list"
  lr_triggered :: "triggered list"
  lr_notifications :: "string set"

text \<open>The route commits at its end; nothing in the loop leaves an exception.\<close>

definition detect_low_stock ::
  "env \<Rightarrow> float_ops \<Rightarrow> 'a outside world runtime option \<Rightarrow> 'a outside world alerts \<Rightarrow> principal \<Rightarrow> ('a outside world, low_stock_report) wm" where
  "detect_low_stock e fl runtime al p =
     bnd (on_db (gets (first_store p))) (\<lambda>st. case st of
       None \<Rightarrow> ret \<lparr>lr_detected = [], lr_triggered = [], lr_notifications = {}\<rparr>
     | Some store \<Rightarrow>
         bnd (on_db (gets (low_stock p (row_id store)))) (\<lambda>rows.
         bnd (on_db (gets (\<lambda>s. by_id (pl_merchant_id p) (t_merchants s)))) (\<lambda>me.
         bnd (on_db (gets (\<lambda>s. by_id (pl_user_id p) (t_users s)))) (\<lambda>u.
         bnd (mapP (replenish_one e fl runtime al p (row_id store) me u) rows) (\<lambda>rs.
           ret \<lparr>lr_detected = rows, lr_triggered = concat (map (\<lambda>r. case fst r of None \<Rightarrow> [] | Some t \<Rightarrow> [t]) rs),
                lr_notifications = set (concat (map snd rs))\<rparr>)))))"

section \<open>The runtime that starts\<close>

text \<open>A request whose thread exists is started again by LangGraph on what the thread holds and the new state: \<open>c\<close> is that
  choice, which for a new thread is the state itself.\<close>

definition merges :: "(wf_state \<Rightarrow> db \<times> 'a outside world \<Rightarrow> wf_state) \<Rightarrow> bool" where
  "merges c \<longleftrightarrow> (\<forall>v w. ws_merchant_id (c v w) = ws_merchant_id v \<and> ws_request_id (c v w) = ws_request_id v
     \<and> (out_threads (wd_out (snd w)) (thread_id (ws_merchant_id v) (ws_request_id v)) = None \<longrightarrow> c v w = v))"

definition starting ::
  "(wf_state \<Rightarrow> db \<times> 'a outside world \<Rightarrow> wf_state) \<Rightarrow> workflow \<Rightarrow> (db \<times> 'a) wf_services \<Rightarrow> 'a outside world runtime" where
  "starting c g sv v w = wired_start g sv (c v w) w"

text \<open>What a start keeps, the three routes keep, when it does not look at what they write beside it.\<close>

locale start_invariant =
  fixes P :: "db \<Rightarrow> bool" and start :: "'a outside world runtime"
  assumes start_keeps: "keeps (\<lambda>w. P (fst w)) (start v)"
    and drawn: "P s \<Longrightarrow> P (s\<lparr>draws := n\<rparr>)" and timed: "P s \<Longrightarrow> P (s\<lparr>clock := t\<rparr>)"
    and sessions: "P s \<Longrightarrow> P (s\<lparr>t_agent_sessions := xs\<rparr>)" and agent_runs: "P s \<Longrightarrow> P (s\<lparr>t_agent_runs := ys\<rparr>)"
    and sales: "P s \<Longrightarrow> P (s\<lparr>t_sales := zs\<rparr>)" and sent: "P s \<Longrightarrow> P (s\<lparr>t_channel_messages := ms\<rparr>)"
begin

lemma uuid_keeps: "keeps P (new_uuid e)"
  by (auto simp: keeps_def new_uuid_def drawn)

lemma run_state_keeps: "keeps P (run_state p b)"
  unfolding run_state_def by (intro keeps_intros)

lemma record_run_keeps: "keeps P (request (record_run e p trace b r))"
  unfolding record_run_def run_session_def Let_def request_def
  by (rule keeps_atomic) (auto simp: rollback_def drawn timed intro!: keeps_intros uuid_keeps sessions agent_runs)

lemma start_run_keeps: "keeps (\<lambda>w. P (fst w)) (start_run e start p trace b)"
  unfolding start_run_def thread_state_def by (intro keeps_intros run_state_keeps record_run_keeps start_keeps)

lemma negotiation_state_keeps: "keeps P (negotiation_state e fl p b)"
  unfolding negotiation_state_def resolve_store_def resolve_product_def sales_or_made_up_def made_up_sale_def Let_def
  by (auto intro!: keeps_intros uuid_keeps split: option.split)

lemma start_negotiation_keeps: "keeps (\<lambda>w. P (fst w)) (start_negotiation e fl (Some start) p b)"
  unfolding start_negotiation_def by (auto intro!: keeps_intros negotiation_state_keeps start_keeps split: prod.split)

lemma low_stock_state_keeps: "keeps P (low_stock_state e fl p store limit i r)"
  unfolding low_stock_state_def seeded_sales_def seed_sale_def
  by (intro keeps_intros uuid_keeps) (simp_all add: sales)

lemma telegram_alert_keeps: "keeps (\<lambda>w. P (fst w)) (telegram_alert e al p me d rid)"
proof -
  have "keeps P (change_message i h)" for i h
    by (auto simp: keeps_def change_message_def change_row_def sent split: option.splits if_splits)
  then show ?thesis
    unfolding telegram_alert_def telegram_channel_approval_def send_recorded_def
    by (intro keeps_intros uuid_keeps) (simp_all add: sent)
qed

lemma replenish_one_keeps: "keeps (\<lambda>w. P (fst w)) (replenish_one e fl (Some start) al p store me u ir)"
  unfolding replenish_one_def start_low_def mail_alert_def Let_def thread_state_def option.case
  by (intro keeps_intros low_stock_state_keeps telegram_alert_keeps start_keeps)

lemma detect_low_stock_keeps: "keeps (\<lambda>w. P (fst w)) (detect_low_stock e fl (Some start) al p)"
  unfolding detect_low_stock_def by (auto intro!: keeps_intros replenish_one_keeps)

end

text \<open>No start of the workflow touches the catalogue.\<close>

interpretation catalogue: wired_invariant "[wired_mock e x, wired_catalog uuid5]" "\<lambda>s. t_products s = X" e sv uuid5 fc
  for e x uuid5 X sv fc
proof unfold_locales
  show "recorder_frame (\<lambda>s. t_products s = X)" by (simp add: recorder_frame_def)
  show "keeps (\<lambda>s. t_products s = X) (db_request e sv rn rid p)" for rn rid p by (rule keeps_authority) simp_all
  show "keeps (\<lambda>s. t_products s = X) (db_decide e sv i m ac tok u)" for i m ac tok u by (rule keeps_authority) simp_all
  show "keeps (\<lambda>s. t_products s = X) (record_negotiation e uuid5 v)" for v by (rule keeps_record_negotiation) simp_all
  show "keeps (\<lambda>w. t_products (fst w) = X) (db_execute e sv (ads :: supplier_memory order_supplier list) p i tok ek)"
    for ads p i tok ek by (rule keeps_order_execute) simp_all
qed

lemma starting_keeps: "(\<And>v. keeps Q (wired_start g sv v)) \<Longrightarrow> keeps Q (starting c g sv v)"
  by (auto simp: keeps_def starting_def)

interpretation catalogue_starts: start_invariant "\<lambda>s. t_products s = X" "starting c g (app_services e sv uuid5 fc x)"
  for X c g e sv uuid5 fc x
  by unfold_locales (auto simp: app_services_def intro!: starting_keeps catalogue.wired_start_keeps)

section \<open>What the routes get wrong\<close>

text \<open>A merchant without a spending limit is one whose limit is zero.  A negotiation and a low stock run take that for fifty
  thousand, the order service for zero.\<close>

lemma negotiation_state_limit:
  assumes "negotiation_state e fl p b s = (Inr (v, product), t)" and "by_id (pl_merchant_id p) (t_merchants s) = Some m"
  shows "ws_spending_limit v = py_float (nonzero_or default_spending_limit (m_spending_limit m))"
proof -
  have store: "keeps (\<lambda>u. t_merchants u = t_merchants s) (resolve_store p (nr_store_id b))"
    unfolding resolve_store_def by (intro keeps_intros)
  have prod: "keeps (\<lambda>u. t_merchants u = t_merchants s) (resolve_product e p b)"
    unfolding resolve_product_def by (intro keeps_intros) simp_all
  obtain st s1 pr s2 where a: "resolve_store p (nr_store_id b) s = (Inr st, s1)" "resolve_product e p b s1 = (Inr pr, s2)"
    and k: "case by_id (pl_merchant_id p) (t_merchants s2) of None \<Rightarrow> False
      | Some m' \<Rightarrow> ws_spending_limit v = py_float (nonzero_or default_spending_limit (m_spending_limit m'))"
    using assms(1) unfolding negotiation_state_def Let_def
    by (auto simp: run_simps purchase_state_def split: option.splits)
  from keepsD [OF store a(1)] keepsD [OF prod a(2)] have "t_merchants s2 = t_merchants s" by simp
  with k assms(2) show ?thesis by simp
qed

lemma order_within_limit:
  assumes "order_authorize e sv i m tok s = (Inr (a, p, mr), t)"
  shows "by_id m (t_merchants s) = Some mr \<and> \<not> dlt (m_spending_limit mr) (total_amount p)"
  using assms unfolding order_authorize_def approvals_get_def by (auto simp: run_simps split: option.splits)

text \<open>The check for a waiting proposal misses the second one.\<close>

lemma second_proposal_missed:
  assumes "t_approvals s = a # as" and "ap_merchant_id a = pl_merchant_id p" "ap_status a = AS_PENDING"
    and "map_of (ap_proposal_payload a) ''sku'' \<noteq> Some (JStr sku)"
  shows "\<not> already_proposed p sku s"
  using assms by (simp add: already_proposed_def)

text \<open>A run whose workflow ended without an approval is recorded as completed, whatever it failed of.\<close>

lemma record_run_effect:
  assumes "record_run e p trace b r s = (Inr u, t)"
  shows "\<exists>x. t_agent_runs t = t_agent_runs s @ [x] \<and> ag_request_id x = rr_request_id b
    \<and> ag_status x = (if waits_for_approval r then RS_WAITING_APPROVAL else RS_COMPLETED) \<and> ag_finished_at x = None"
proof -
  have "keeps (\<lambda>v. t_agent_runs v = t_agent_runs s) (run_session e p b)"
    unfolding run_session_def Let_def by (intro keeps_intros) simp_all
  from keepsD [OF this] assms show ?thesis
    unfolding record_run_def by (fastforce simp: run_simps)
qed

lemma start_run_records:
  assumes "start_run e start p trace b w = (Inr (rid, r), w')"
  shows "\<exists>x \<in> set (t_agent_runs (fst w')). ag_request_id x = rid
    \<and> ag_status x = (if waits_for_approval r then RS_WAITING_APPROVAL else RS_COMPLETED) \<and> ag_finished_at x = None"
proof -
  obtain u t where "request (record_run e p trace b r) u = (Inr (), t)" "t = fst w'" "rid = rr_request_id b"
    using assms unfolding start_run_def by (auto simp: run_simps)
  then have "record_run e p trace b r u = (Inr (), fst w')"
    by (auto simp: request_def atomic_def split: prod.splits sum.splits)
  from record_run_effect [OF this] \<open>rid = _\<close> show ?thesis by auto
qed

text \<open>An item of a supplier that the merchant does not have yet: the copy is gone with the session of the route.\<close>

lemma negotiation_keeps_catalogue:
  assumes run: "start_negotiation e fl (Some (starting c g (app_services e sv uuid5 fc x))) p b w = (r, w')"
  shows "t_products (fst w') = t_products (fst w)"
proof -
  have "keeps (\<lambda>v. t_products (fst v) = t_products (fst w))
      (start_negotiation e fl (Some (starting c g (app_services e sv uuid5 fc x))) p b)"
    by (rule catalogue_starts.start_negotiation_keeps)
  from keepsD [OF this run] show ?thesis by simp
qed

text \<open>What \<open>start_negotiation\<close> answers need not be what it started.\<close>

lemma old_negotiation_answers:
  assumes "first_negotiation (\<lambda>n. n_merchant_id n = pl_merchant_id p \<and> n_workflow_request_id n = Some rid) s = None"
    and "nr_supplier_id b = None"
    and "latest_negotiation (\<lambda>n. n_merchant_id n = pl_merchant_id p \<and> n_sku n = sku) s = Some r"
  shows "recorded_negotiation p b rid sku s = Some r"
  using assms by (simp add: recorded_negotiation_def)

end
