(* ===== verification/Events.thy ===== *)
theory Events
  imports MockSupplier
begin

text \<open>
  How a recorded event reaches the merchant's devices: \<open>infrastructure/events/outbox.py\<close> publishes the rows of the outbox in
  batches (every ten seconds, \<open>workers/jobs.py\<close>), \<open>events/bus.py\<close> and \<open>redis/pubsub.py\<close> hand them to Redis,
  \<open>events/realtime.py\<close> reads them back and \<open>api/v1/websocket.py\<close> sends them to the sockets of the merchant.  Redis and the
  sockets are parameters.
\<close>

section \<open>Events on the wire\<close>

definition event_types :: "event_type list" where
  "event_types = [INVENTORY_LOW, DEMAND_SURGE_DETECTED, PURCHASE_PROPOSAL_CREATED, NEGOTIATION_STARTED, QUOTE_RECEIVED,
     NEGOTIATION_COMPLETED, APPROVAL_REQUIRED, APPROVAL_GRANTED, APPROVAL_REJECTED, ORDER_EXECUTED, ORDER_FAILED,
     SUPPLIER_CONFIRMATION_RECEIVED, VOICE_SESSION_STARTED, VOICE_TRANSCRIPT_FINAL, A2A_MESSAGE_RECEIVED,
     INVENTORY_UPDATED, NEGOTIATION_UPDATED, NOTIFICATION_CREATED]"

definition event_type_str :: "event_type \<Rightarrow> string" where
  "event_type_str t = (case t of
     INVENTORY_LOW \<Rightarrow> ''INVENTORY_LOW'' | DEMAND_SURGE_DETECTED \<Rightarrow> ''DEMAND_SURGE_DETECTED''
   | PURCHASE_PROPOSAL_CREATED \<Rightarrow> ''PURCHASE_PROPOSAL_CREATED'' | NEGOTIATION_STARTED \<Rightarrow> ''NEGOTIATION_STARTED''
   | QUOTE_RECEIVED \<Rightarrow> ''QUOTE_RECEIVED'' | NEGOTIATION_COMPLETED \<Rightarrow> ''NEGOTIATION_COMPLETED''
   | APPROVAL_REQUIRED \<Rightarrow> ''APPROVAL_REQUIRED'' | APPROVAL_GRANTED \<Rightarrow> ''APPROVAL_GRANTED''
   | APPROVAL_REJECTED \<Rightarrow> ''APPROVAL_REJECTED'' | ORDER_EXECUTED \<Rightarrow> ''ORDER_EXECUTED'' | ORDER_FAILED \<Rightarrow> ''ORDER_FAILED''
   | SUPPLIER_CONFIRMATION_RECEIVED \<Rightarrow> ''SUPPLIER_CONFIRMATION_RECEIVED''
   | VOICE_SESSION_STARTED \<Rightarrow> ''VOICE_SESSION_STARTED'' | VOICE_TRANSCRIPT_FINAL \<Rightarrow> ''VOICE_TRANSCRIPT_FINAL''
   | A2A_MESSAGE_RECEIVED \<Rightarrow> ''A2A_MESSAGE_RECEIVED'' | INVENTORY_UPDATED \<Rightarrow> ''INVENTORY_UPDATED''
   | NEGOTIATION_UPDATED \<Rightarrow> ''NEGOTIATION_UPDATED'' | NOTIFICATION_CREATED \<Rightarrow> ''NOTIFICATION_CREATED'')"

definition as_event_type :: "json \<Rightarrow> event_type option" where
  "as_event_type v = (case v of JStr s \<Rightarrow> find (\<lambda>t. event_type_str t = s) event_types | _ \<Rightarrow> None)"

lemma as_event_type_str [simp]: "as_event_type (JStr (event_type_str t)) = Some t"
  by (cases t) (simp_all add: as_event_type_def event_types_def event_type_str_def)

text \<open>\<open>event.model_dump(mode="json")\<close> and \<open>DomainEvent.model_validate\<close>, whose defaults are the last two arguments.\<close>

definition event_json :: "domain_event \<Rightarrow> dict" where
  "event_json ev =
     [(''event_id'', JStr (str_uuid (de_event_id ev))), (''event_type'', JStr (event_type_str (de_event_type ev))),
      (''aggregate_type'', JStr (de_aggregate_type ev)), (''aggregate_id'', JStr (str_uuid (de_aggregate_id ev))),
      (''merchant_id'', opt_json (\<lambda>i. JStr (str_uuid i)) (de_merchant_id ev)), (''payload'', JObj (de_payload ev)),
      (''occurred_at'', JStr (iso_z (de_occurred_at ev))), (''correlation_id'', opt_json JStr (de_correlation_id ev)),
      (''trace_id'', opt_json JStr (de_trace_id ev)), (''version'', JInt (de_version ev))]"

definition default_field :: "dict \<Rightarrow> string \<Rightarrow> (json \<Rightarrow> 'a option) \<Rightarrow> ('a \<Rightarrow> bool) \<Rightarrow> 'a \<Rightarrow> exc + 'a" where
  "default_field d k conv bound v = (if map_of d k = None then Inr v else field d k conv bound)"

definition as_obj :: "json \<Rightarrow> dict option" where
  "as_obj v = (case v of JObj d \<Rightarrow> Some d | _ \<Rightarrow> None)"

definition event_of_json :: "dict \<Rightarrow> uuid \<Rightarrow> int \<Rightarrow> exc + domain_event" where
  "event_of_json d fresh_id now =
     bindE (default_field d ''event_id'' as_uuid any fresh_id) (\<lambda>i.
     bindE (field d ''event_type'' as_event_type any) (\<lambda>t.
     bindE (field d ''aggregate_type'' as_str any) (\<lambda>aggregate.
     bindE (field d ''aggregate_id'' as_uuid any) (\<lambda>ai.
     bindE (opt_field d ''merchant_id'' as_uuid) (\<lambda>m.
     bindE (default_field d ''payload'' as_obj any []) (\<lambda>p.
     bindE (default_field d ''occurred_at'' as_time any now) (\<lambda>at'.
     bindE (opt_field d ''correlation_id'' as_str) (\<lambda>c.
     bindE (opt_field d ''trace_id'' as_str) (\<lambda>tr.
     bindE (default_field d ''version'' as_int (\<lambda>v. 1 \<le> v) 1) (\<lambda>v.
       Inr \<lparr>de_event_id = i, de_event_type = t, de_aggregate_type = aggregate, de_aggregate_id = ai, de_merchant_id = m,
            de_payload = p, de_occurred_at = at', de_correlation_id = c, de_trace_id = tr, de_version = v\<rparr>))))))))))"

lemma opt_field_json:
  assumes k: "map_of d k = Some (opt_json g v)" and conv: "\<And>a. conv (g a) = Some a \<and> g a \<noteq> JNull"
  shows "opt_field d k conv = Inr v"
proof (cases v)
  case (Some a)
  with k conv [of a] have "map_of d k = Some (g a)" "g a \<noteq> JNull" "conv (g a) = Some a" by (auto simp: opt_json_def)
  with Some show ?thesis by (cases "g a") (simp_all add: opt_field_def)
qed (use k in \<open>simp add: opt_field_def opt_json_def\<close>)

lemma event_roundtrip:
  assumes "1 \<le> de_version ev" and "valid_time (de_occurred_at ev)"
  shows "event_of_json (event_json ev) fresh_id now = Inr ev"
proof -
  have m: "opt_field (event_json ev) ''merchant_id'' as_uuid = Inr (de_merchant_id ev)"
    by (rule opt_field_json [where g = "\<lambda>i. JStr (str_uuid i)"]) (simp_all add: event_json_def)
  have c: "opt_field (event_json ev) ''correlation_id'' as_str = Inr (de_correlation_id ev)"
    by (rule opt_field_json [where g = JStr]) (simp_all add: event_json_def)
  have t: "opt_field (event_json ev) ''trace_id'' as_str = Inr (de_trace_id ev)"
    by (rule opt_field_json [where g = JStr]) (simp_all add: event_json_def)
  have f: "map_of (event_json ev) ''event_id'' = Some (JStr (str_uuid (de_event_id ev)))"
    "map_of (event_json ev) ''event_type'' = Some (JStr (event_type_str (de_event_type ev)))"
    "map_of (event_json ev) ''aggregate_type'' = Some (JStr (de_aggregate_type ev))"
    "map_of (event_json ev) ''aggregate_id'' = Some (JStr (str_uuid (de_aggregate_id ev)))"
    "map_of (event_json ev) ''payload'' = Some (JObj (de_payload ev))"
    "map_of (event_json ev) ''occurred_at'' = Some (JStr (iso_z (de_occurred_at ev)))"
    "map_of (event_json ev) ''version'' = Some (JInt (de_version ev))"
    by (simp_all add: event_json_def)
  have "as_obj (JObj p) = Some p" for p by (simp add: as_obj_def)
  with assms show ?thesis by (simp add: event_of_json_def default_field_def f m c t)
qed

section \<open>The publisher\<close>

definition domain_event_of :: "outbox_row \<Rightarrow> domain_event" where
  "domain_event_of r =
     \<lparr>de_event_id = row_id r, de_event_type = ob_event_type r, de_aggregate_type = ob_aggregate_type r,
      de_aggregate_id = ob_aggregate_id r, de_merchant_id = ob_merchant_id r, de_payload = ob_payload r,
      de_occurred_at = created_at r, de_correlation_id = ob_correlation_id r, de_trace_id = ob_trace_id r,
      de_version = ob_event_version r\<rparr>"

type_synonym 'b bus = "domain_event \<Rightarrow> 'b \<Rightarrow> (exc + unit) \<times> 'b"

definition waiting_rows :: "db \<Rightarrow> outbox_row list" where
  "waiting_rows s = filter (\<lambda>r. ob_published_at r = None) (t_outbox_events s)"

definition pending_batch :: "nat \<Rightarrow> db \<Rightarrow> outbox_row list" where
  "pending_batch limit s = take limit (sort_key created_at (waiting_rows s))"

definition offer_event :: "'b bus \<Rightarrow> outbox_row \<Rightarrow> (db \<times> 'b, exc, unit) prog" where
  "offer_event bus r w =
     (if ob_event_version r < 1 then (Inl (validation_error ''version''), w)
      else (case bus (domain_event_of r) (snd w) of (v, b) \<Rightarrow> (v, (fst w, b))))"

definition event_refused :: "exc \<Rightarrow> outbox_row \<Rightarrow> outbox_row" where
  "event_refused x r = r\<lparr>ob_attempts := ob_attempts r + 1, ob_last_error := Some (exc_name (cls x))\<rparr>"

definition event_published :: "int \<Rightarrow> outbox_row \<Rightarrow> outbox_row" where
  "event_published now r = r\<lparr>ob_published_at := Some now\<rparr>"

definition publish_row :: "'b bus \<Rightarrow> outbox_row \<Rightarrow> (db \<times> 'b, exc, nat) prog" where
  "publish_row bus r =
     bnd (attempt (offer_event bus r)) (\<lambda>v. case v of
       Inl x \<Rightarrow> andthen (on_db (change_row t_outbox_events t_outbox_events_update (row_id r) (event_refused x))) (ret 0)
     | Inr _ \<Rightarrow> bnd (gets (clock \<circ> fst)) (\<lambda>now.
         andthen (on_db (change_row t_outbox_events t_outbox_events_update (row_id r) (event_published now))) (ret 1)))"

fun publish_rows :: "'b bus \<Rightarrow> outbox_row list \<Rightarrow> (db \<times> 'b, exc, nat) prog" where
  "publish_rows bus [] = ret 0"
| "publish_rows bus (r # rs) = bnd (publish_row bus r) (\<lambda>n. bnd (publish_rows bus rs) (\<lambda>k. ret (n + k)))"

definition publish_batch :: "'b bus \<Rightarrow> nat \<Rightarrow> (db \<times> 'b, exc, nat) prog" where
  "publish_batch bus limit = bnd (gets (pending_batch limit \<circ> fst)) (publish_rows bus)"

text \<open>The job: one batch of a hundred in a transaction of its own.\<close>

definition publish_outbox :: "'b bus \<Rightarrow> (db \<times> 'b, exc, nat) prog" where
  "publish_outbox bus = atomic (\<lambda>w v. (rollback (fst w) (fst v), snd v)) (publish_batch bus 100)"

text \<open>Redis: publishing to the channel; the list beside the server's state is what the server has accepted.\<close>

definition redis_bus :: "(string \<Rightarrow> dict \<Rightarrow> 'r \<Rightarrow> (exc + int) \<times> 'r) \<Rightarrow> (domain_event list \<times> 'r) bus" where
  "redis_bus server ev w = (case server ''vyapaar:events'' (event_json ev) (snd w) of
     (Inl x, r) \<Rightarrow> (Inl x, (fst w, r)) | (Inr n, r) \<Rightarrow> (Inr (), (fst w @ [ev], r)))"

section \<open>Batches\<close>

text \<open>A batch returns: no exception of the bus leaves it.\<close>

lemma publish_row_cases:
  obtains (refused) x b where "offer_event bus r w = (Inl x, (fst w, b))"
    "publish_row bus r w = (Inr 0, ((fst w)\<lparr>t_outbox_events := upd (\<lambda>y. row_id y = row_id r)
        (mutate (clock (fst w)) (event_refused x)) (t_outbox_events (fst w))\<rparr>, b))"
  | (accepted) b where "1 \<le> ob_event_version r" "bus (domain_event_of r) (snd w) = (Inr (), b)"
    "publish_row bus r w = (Inr 1, ((fst w)\<lparr>t_outbox_events := upd (\<lambda>y. row_id y = row_id r)
        (mutate (clock (fst w)) (event_published (clock (fst w)))) (t_outbox_events (fst w))\<rparr>, b))"
proof -
  obtain v w' where Pair: "offer_event bus r w = (v, w')" by (cases "offer_event bus r w")
  have w': "fst w' = fst w" using Pair by (auto simp: offer_event_def split: if_splits prod.splits)
  show thesis
  proof (cases v)
    case (Inl x)
    show thesis
    proof (rule refused [of x "snd w'"])
      show "offer_event bus r w = (Inl x, (fst w, snd w'))" using Pair Inl w' by (cases w') simp
      then show "publish_row bus r w = (Inr 0, ((fst w)\<lparr>t_outbox_events := upd (\<lambda>y. row_id y = row_id r)
          (mutate (clock (fst w)) (event_refused x)) (t_outbox_events (fst w))\<rparr>, snd w'))"
        by (simp add: publish_row_def exec_defs on_db_def change_row_def)
    qed
  next
    case (Inr u)
    show thesis
    proof (rule accepted [of "snd w'"])
      show "1 \<le> ob_event_version r" "bus (domain_event_of r) (snd w) = (Inr (), snd w')"
        using Pair Inr by (auto simp: offer_event_def split: if_splits prod.splits)
      have "offer_event bus r w = (Inr (), (fst w, snd w'))" using Pair Inr w' by (cases w') simp
      then show "publish_row bus r w = (Inr 1, ((fst w)\<lparr>t_outbox_events := upd (\<lambda>y. row_id y = row_id r)
          (mutate (clock (fst w)) (event_published (clock (fst w)))) (t_outbox_events (fst w))\<rparr>, snd w'))"
        by (simp add: publish_row_def exec_defs on_db_def change_row_def)
    qed
  qed
qed

text \<open>Every change of the outbox by a batch: the rows stay what they are but for their publication and their attempts.\<close>

definition outbox_edit :: "(outbox_row \<Rightarrow> outbox_row) \<Rightarrow> bool" where
  "outbox_edit f \<longleftrightarrow> (\<forall>r. row_id (f r) = row_id r \<and> created_at (f r) = created_at r \<and> domain_event_of (f r) = domain_event_of r
     \<and> (ob_published_at r \<noteq> None \<longrightarrow> ob_published_at (f r) \<noteq> None))"

lemma outbox_edits [simp]:
  "outbox_edit id" "outbox_edit (\<lambda>r. r)" "outbox_edit (mutate now (event_refused x))" "outbox_edit (mutate now (event_published t))"
  "outbox_edit f \<Longrightarrow> outbox_edit g \<Longrightarrow> outbox_edit (\<lambda>r. g (f r))" "outbox_edit f \<Longrightarrow> outbox_edit (\<lambda>r. if P r then f r else r)"
  by (auto simp: outbox_edit_def mutate_def event_refused_def event_published_def domain_event_of_def)

text \<open>What is sent: the state of the bus moves as the accepted events are sent one by one, in order, and exactly the rows of
  accepted events become published.\<close>

lemma publish_rows_effect:
  obtains n w' f where "publish_rows bus rs w = (Inr n, w')" "outbox_edit f"
    "fst w' = (fst w)\<lparr>t_outbox_events := map f (t_outbox_events (fst w))\<rparr>" "n \<le> length rs"
proof -
  have "\<exists>n w' f. publish_rows bus rs w = (Inr n, w') \<and> outbox_edit f
     \<and> fst w' = (fst w)\<lparr>t_outbox_events := map f (t_outbox_events (fst w))\<rparr> \<and> n \<le> length rs"
  proof (induction rs arbitrary: w)
    case Nil
    show ?case by (intro exI [of _ 0] exI [of _ w] exI [of _ id]) (simp add: ret_def)
  next
    case (Cons r rs)
    have "\<exists>k u g. publish_row bus r w = (Inr k, u) \<and> k \<le> 1 \<and> outbox_edit g
        \<and> fst u = (fst w)\<lparr>t_outbox_events := map g (t_outbox_events (fst w))\<rparr>"
      by (rule publish_row_cases [of bus r w])
        (auto simp: upd_def intro!: exI [of _ "\<lambda>y. if row_id y = row_id r then mutate (clock (fst w)) _ y else y"])
    then obtain k u g where r: "publish_row bus r w = (Inr k, u)" "k \<le> 1" "outbox_edit g"
      "fst u = (fst w)\<lparr>t_outbox_events := map g (t_outbox_events (fst w))\<rparr>" by blast
    obtain n w' f where rs: "publish_rows bus rs u = (Inr n, w')" "outbox_edit f" "n \<le> length rs"
      "fst w' = (fst u)\<lparr>t_outbox_events := map f (t_outbox_events (fst u))\<rparr>" using Cons.IH [of u] by blast
    have "publish_rows bus (r # rs) w = (Inr (k + n), w')" by (simp add: bnd_def r(1) rs(1) ret_def)
    moreover have "fst w' = (fst w)\<lparr>t_outbox_events := map (\<lambda>y. f (g y)) (t_outbox_events (fst w))\<rparr>"
      by (simp add: rs r comp_def)
    ultimately show ?case using r rs by (intro exI [of _ "k + n"] exI [of _ w'] exI [of _ "\<lambda>y. f (g y)"]) simp
  qed
  with that show thesis by blast
qed

section \<open>At least once\<close>

text \<open>What the publisher relies on of the bus: what it accepts is delivered, what it refuses may be.\<close>

locale event_bus =
  fixes bus :: "'b bus" and delivered :: "'b \<Rightarrow> domain_event set"
  assumes accepts: "bus ev b = (Inr (), c) \<Longrightarrow> delivered c = insert ev (delivered b)"
    and refuses: "bus ev b = (Inl x, c) \<Longrightarrow> delivered b \<subseteq> delivered c \<and> delivered c \<subseteq> insert ev (delivered b)"
begin

definition announced :: "db \<times> 'b \<Rightarrow> bool" where
  "announced w \<longleftrightarrow> (\<forall>r \<in> set (t_outbox_events (fst w)). ob_published_at r \<noteq> None \<longrightarrow> domain_event_of r \<in> delivered (snd w))"

definition same_events :: "outbox_row list \<Rightarrow> db \<Rightarrow> bool" where
  "same_events rs s \<longleftrightarrow> (\<forall>r \<in> set rs. \<forall>y \<in> set (t_outbox_events s). row_id y = row_id r \<longrightarrow> domain_event_of y = domain_event_of r)"

lemma offered: "offer_event bus r w = (v, w') \<Longrightarrow> delivered (snd w) \<subseteq> delivered (snd w')
   \<and> delivered (snd w') \<subseteq> insert (domain_event_of r) (delivered (snd w)) \<and> (v = Inr () \<longrightarrow> domain_event_of r \<in> delivered (snd w'))"
proof -
  assume run: "offer_event bus r w = (v, w')"
  show ?thesis
  proof (cases "ob_event_version r < 1")
    case False
    with run have "bus (domain_event_of r) (snd w) = (v, snd w')" by (auto simp: offer_event_def split: prod.splits)
    then show ?thesis using accepts refuses by (cases v) auto
  qed (use run in \<open>auto simp: offer_event_def\<close>)
qed

lemma edited_announced:
  assumes w: "announced w" and same: "same_events (r # rs) (fst w)" and f: "outbox_edit f"
    and new: "\<And>y. ob_published_at (f y) \<noteq> None \<Longrightarrow> ob_published_at y \<noteq> None \<or> domain_event_of r \<in> delivered b"
    and b: "delivered (snd w) \<subseteq> delivered b"
    and w': "w' = ((fst w)\<lparr>t_outbox_events := upd (\<lambda>y. row_id y = row_id r) f (t_outbox_events (fst w))\<rparr>, b)"
  shows "announced w' \<and> same_events rs (fst w')"
proof
  have e: "domain_event_of (f y) = domain_event_of y" "row_id (f y) = row_id y" for y using f by (simp_all add: outbox_edit_def)
  show "same_events rs (fst w')"
    using same unfolding w' same_events_def by (auto simp: in_set_upd e)
  show "announced w'"
    unfolding announced_def
  proof (intro ballI impI)
    fix x assume "x \<in> set (t_outbox_events (fst w'))" and x: "ob_published_at x \<noteq> None"
    then obtain y where y: "y \<in> set (t_outbox_events (fst w))" "x = (if row_id y = row_id r then f y else y)"
      by (auto simp: w' in_set_upd)
    have "domain_event_of y = domain_event_of r" if "row_id y = row_id r" using same y(1) that by (simp add: same_events_def)
    moreover have "domain_event_of y \<in> delivered b" if "ob_published_at y \<noteq> None"
      using w y(1) b that by (auto simp: announced_def)
    ultimately have "domain_event_of y \<in> delivered b" using y(2) x new [of y] by (cases "row_id y = row_id r") auto
    then show "domain_event_of x \<in> delivered (snd w')" by (simp add: w' y(2) e)
  qed
qed

lemma publish_row_announced:
  assumes w: "announced w" and same: "same_events (r # rs) (fst w)" and run: "publish_row bus r w = (v, w')"
  shows "announced w' \<and> same_events rs (fst w') \<and> delivered (snd w) \<subseteq> delivered (snd w')
    \<and> delivered (snd w') \<subseteq> insert (domain_event_of r) (delivered (snd w))"
proof (rule publish_row_cases [of bus r w])
  fix x b assume o: "offer_event bus r w = (Inl x, (fst w, b))"
    and p: "publish_row bus r w = (Inr 0, ((fst w)\<lparr>t_outbox_events := upd (\<lambda>y. row_id y = row_id r)
        (mutate (clock (fst w)) (event_refused x)) (t_outbox_events (fst w))\<rparr>, b))"
  from run p have w': "w' = ((fst w)\<lparr>t_outbox_events := upd (\<lambda>y. row_id y = row_id r)
        (mutate (clock (fst w)) (event_refused x)) (t_outbox_events (fst w))\<rparr>, b)" by simp
  have "announced w' \<and> same_events rs (fst w')"
    by (rule edited_announced [OF w same _ _ _ w']) (use offered [OF o] in \<open>auto simp: mutate_def event_refused_def\<close>)
  with offered [OF o] show ?thesis by (simp add: w')
next
  fix b assume b: "bus (domain_event_of r) (snd w) = (Inr (), b)"
    and p: "publish_row bus r w = (Inr 1, ((fst w)\<lparr>t_outbox_events := upd (\<lambda>y. row_id y = row_id r)
        (mutate (clock (fst w)) (event_published (clock (fst w)))) (t_outbox_events (fst w))\<rparr>, b))"
  from run p have w': "w' = ((fst w)\<lparr>t_outbox_events := upd (\<lambda>y. row_id y = row_id r)
        (mutate (clock (fst w)) (event_published (clock (fst w)))) (t_outbox_events (fst w))\<rparr>, b)" by simp
  have "announced w' \<and> same_events rs (fst w')"
    by (rule edited_announced [OF w same _ _ _ w']) (use accepts [OF b] in auto)
  with accepts [OF b] show ?thesis by (auto simp: w')
qed

lemma publish_rows_announced:
  "announced w \<Longrightarrow> same_events rs (fst w) \<Longrightarrow> publish_rows bus rs w = (v, w') \<Longrightarrow>
   announced w' \<and> delivered (snd w) \<subseteq> delivered (snd w') \<and> delivered (snd w') \<subseteq> delivered (snd w) \<union> domain_event_of ` set rs"
proof (induction rs arbitrary: w v w')
  case Nil
  then show ?case by (simp add: ret_def)
next
  case (Cons r rs)
  obtain k u where r: "publish_row bus r w = (Inr k, u)" by (rule publish_row_cases [of bus r w]) auto
  note one = publish_row_announced [OF Cons.prems(1,2) r]
  obtain n u' f where rs: "publish_rows bus rs u = (Inr n, u')" by (rule publish_rows_effect)
  with r Cons.prems(3) have "w' = u'" by (simp add: bnd_def ret_def)
  with Cons.IH [OF _ _ rs] one show ?case by auto
qed

text \<open>A batch keeps the promise, sends nothing but events that were waiting, and takes nothing back.\<close>

lemma batch_announced:
  assumes w: "announced w" and ids: "distinct (map row_id (t_outbox_events (fst w)))"
    and run: "publish_batch bus limit w = (v, w')"
  shows "announced w' \<and> delivered (snd w) \<subseteq> delivered (snd w')
    \<and> delivered (snd w') \<subseteq> delivered (snd w) \<union> domain_event_of ` set (waiting_rows (fst w))"
proof -
  have sub: "set (pending_batch limit (fst w)) \<subseteq> set (waiting_rows (fst w))"
    by (auto simp: pending_batch_def dest: in_set_takeD)
  with ids have "same_events (pending_batch limit (fst w)) (fst w)"
    by (auto simp: same_events_def waiting_rows_def distinct_map inj_on_def)
  moreover have "publish_rows bus (pending_batch limit (fst w)) w = (v, w')"
    using run by (simp add: publish_batch_def bnd_def gets_def)
  ultimately show ?thesis using publish_rows_announced [OF w] sub by blast
qed

end

interpretation redis: event_bus "redis_bus server" "\<lambda>b. set (fst b)" for server
  by unfold_locales (auto simp: redis_bus_def split: prod.splits sum.splits)

section \<open>Nothing waits for ever\<close>

definition accepting :: "'b bus \<Rightarrow> bool" where
  "accepting bus \<longleftrightarrow> (\<forall>ev b. \<exists>c. bus ev b = (Inr (), c))"

definition sound_rows :: "db \<Rightarrow> bool" where
  "sound_rows s \<longleftrightarrow> distinct (map row_id (t_outbox_events s)) \<and> (\<forall>r \<in> set (t_outbox_events s). 1 \<le> ob_event_version r)"

lemma publish_rows_accepted:
  assumes "accepting bus" and "\<forall>r \<in> set rs. 1 \<le> ob_event_version r"
  shows "\<exists>b f. publish_rows bus rs w = (Inr (length rs), ((fst w)\<lparr>t_outbox_events := map f (t_outbox_events (fst w))\<rparr>, b))
    \<and> outbox_edit f \<and> (\<forall>r. ob_event_version (f r) = ob_event_version r)
    \<and> (\<forall>r. ob_published_at (f r) = None \<longleftrightarrow> ob_published_at r = None \<and> row_id r \<notin> row_id ` set rs)"
  using assms(2)
proof (induction rs arbitrary: w)
  case Nil
  show ?case by (intro exI [of _ "snd w"] exI [of _ id]) (simp add: ret_def)
next
  case (Cons r rs)
  let ?g = "\<lambda>y. if row_id y = row_id r then mutate (clock (fst w)) (event_published (clock (fst w))) y else y"
  obtain b where r: "publish_row bus r w = (Inr 1, ((fst w)\<lparr>t_outbox_events := map ?g (t_outbox_events (fst w))\<rparr>, b))"
  proof (rule publish_row_cases [of bus r w])
    fix x b assume "offer_event bus r w = (Inl x, (fst w, b))"
    moreover obtain c where "bus (domain_event_of r) (snd w) = (Inr (), c)" using assms(1) by (auto simp: accepting_def)
    ultimately show thesis using Cons.prems by (auto simp: offer_event_def)
  qed (auto simp: upd_def intro: that)
  let ?u = "((fst w)\<lparr>t_outbox_events := map ?g (t_outbox_events (fst w))\<rparr>, b)"
  obtain c f where rs: "publish_rows bus rs ?u = (Inr (length rs), ((fst ?u)\<lparr>t_outbox_events := map f (t_outbox_events (fst ?u))\<rparr>, c))"
    and f: "outbox_edit f" "\<And>y. ob_event_version (f y) = ob_event_version y"
      "\<And>y. ob_published_at (f y) = None \<longleftrightarrow> ob_published_at y = None \<and> row_id y \<notin> row_id ` set rs"
    using Cons.IH [of ?u] Cons.prems by auto
  have "publish_rows bus (r # rs) w = (Inr (length (r # rs)), ((fst w)\<lparr>t_outbox_events := map (\<lambda>y. f (?g y)) (t_outbox_events (fst w))\<rparr>, c))"
    using rs by (simp add: bnd_def r ret_def comp_def)
  moreover have "outbox_edit (\<lambda>y. f (?g y))" by (rule outbox_edits(5) [OF outbox_edits(6) [OF outbox_edits(4)] f(1)])
  moreover have "ob_event_version (f (?g y)) = ob_event_version y" for y by (simp add: f(2) mutate_def event_published_def)
  moreover have "ob_published_at (f (?g y)) = None \<longleftrightarrow> ob_published_at y = None \<and> row_id y \<notin> row_id ` set (r # rs)" for y
    by (simp add: f(3)) (auto simp: mutate_def event_published_def)
  ultimately show ?case by blast
qed

lemma batch_progress:
  assumes bus: "accepting bus" and s: "sound_rows (fst w)"
  shows "\<exists>w'. publish_batch bus limit w = (Inr (min limit (length (waiting_rows (fst w)))), w') \<and> sound_rows (fst w')
    \<and> length (waiting_rows (fst w')) = length (waiting_rows (fst w)) - limit"
proof -
  let ?rs = "pending_batch limit (fst w)" and ?ws = "waiting_rows (fst w)" and ?xs = "t_outbox_events (fst w)"
  have len: "length ?rs = min limit (length ?ws)" by (simp add: pending_batch_def)
  have sub: "set ?rs \<subseteq> set ?ws" by (auto simp: pending_batch_def dest: in_set_takeD)
  have ids: "distinct (map row_id ?xs)" and v: "\<forall>r \<in> set ?xs. 1 \<le> ob_event_version r" using s by (simp_all add: sound_rows_def)
  have dw: "distinct (map row_id ?ws)" using ids by (simp add: waiting_rows_def distinct_map_filter)
  then have "distinct ?ws" by (simp add: distinct_map)
  then have dr: "distinct ?rs" by (simp add: pending_batch_def)
  have "\<forall>r \<in> set ?rs. 1 \<le> ob_event_version r" using sub v by (auto simp: waiting_rows_def)
  from publish_rows_accepted [OF bus this, of w] obtain b f where
    run: "publish_rows bus ?rs w = (Inr (length ?rs), ((fst w)\<lparr>t_outbox_events := map f ?xs\<rparr>, b))" and f: "outbox_edit f"
    "\<And>r. ob_event_version (f r) = ob_event_version r"
    "\<And>r. ob_published_at (f r) = None \<longleftrightarrow> ob_published_at r = None \<and> row_id r \<notin> row_id ` set ?rs"
    by blast
  let ?t = "(fst w)\<lparr>t_outbox_events := map f ?xs\<rparr>"
  have "row_id \<circ> f = row_id" using f(1) by (simp add: outbox_edit_def fun_eq_iff)
  with ids v f(2) have sound: "sound_rows ?t" by (simp add: sound_rows_def)
  have inj: "inj_on row_id (set ?ws)" using dw by (simp add: distinct_map)
  have "waiting_rows ?t = map f (filter (\<lambda>r. ob_published_at r = None \<and> row_id r \<notin> row_id ` set ?rs) ?xs)"
    by (simp add: waiting_rows_def filter_map comp_def f(3))
  also have "filter (\<lambda>r. ob_published_at r = None \<and> row_id r \<notin> row_id ` set ?rs) ?xs = filter (\<lambda>r. row_id r \<notin> row_id ` set ?rs) ?ws"
    by (simp add: waiting_rows_def conj_commute)
  also have "\<dots> = filter (\<lambda>r. r \<notin> set ?rs) ?ws"
    by (rule filter_cong [OF refl]) (use inj sub in \<open>auto simp: inj_on_def\<close>)
  finally have "length (waiting_rows ?t) = length (filter (\<lambda>r. r \<notin> set ?rs) ?ws)" by simp
  also have "\<dots> = length ?ws - length ?rs"
  proof -
    have "set (filter (\<lambda>r. r \<in> set ?rs) ?ws) = set ?rs" using sub by auto
    with \<open>distinct ?ws\<close> have "length (filter (\<lambda>r. r \<in> set ?rs) ?ws) = card (set ?rs)"
      using distinct_card [of "filter (\<lambda>r. r \<in> set ?rs) ?ws"] by simp
    with dr have "length (filter (\<lambda>r. r \<in> set ?rs) ?ws) = length ?rs" by (simp add: distinct_card)
    with sum_length_filter_compl [of "\<lambda>r. r \<in> set ?rs" ?ws] show ?thesis by simp
  qed
  finally show ?thesis using run sound by (simp add: publish_batch_def bnd_def gets_def len)
qed

lemma batches_finish:
  assumes "accepting bus" and "sound_rows (fst w)" and "length (waiting_rows (fst w)) \<le> n * limit"
  shows "waiting_rows (fst (((\<lambda>v. snd (publish_batch bus limit v)) ^^ n) w)) = []"
  using assms(2,3)
proof (induction n arbitrary: w)
  case (Suc n)
  from batch_progress [OF assms(1) Suc.prems(1), of limit] obtain w' where
    w': "snd (publish_batch bus limit w) = w'" "sound_rows (fst w')"
      "length (waiting_rows (fst w')) = length (waiting_rows (fst w)) - limit" by auto
  with Suc.IH [of w'] Suc.prems(2) show ?case by (simp add: funpow_Suc_right del: funpow.simps)
qed simp

text \<open>After enough batches every recorded event is delivered, and only recorded events were added.\<close>

context event_bus begin

lemma batch_keeps_events:
  "domain_event_of ` set (t_outbox_events (fst (snd (publish_batch bus limit w)))) = domain_event_of ` set (t_outbox_events (fst w))"
proof -
  obtain n w' f where "publish_rows bus (pending_batch limit (fst w)) w = (Inr n, w')" "outbox_edit f"
    "fst w' = (fst w)\<lparr>t_outbox_events := map f (t_outbox_events (fst w))\<rparr>" by (rule publish_rows_effect)
  then show ?thesis by (simp add: publish_batch_def bnd_def gets_def outbox_edit_def image_image)
qed

lemma batches_announced:
  assumes bus: "accepting bus" and "sound_rows (fst w)" and "announced w"
  shows "sound_rows (fst (((\<lambda>v. snd (publish_batch bus limit v)) ^^ n) w)) \<and> announced (((\<lambda>v. snd (publish_batch bus limit v)) ^^ n) w)
    \<and> domain_event_of ` set (t_outbox_events (fst (((\<lambda>v. snd (publish_batch bus limit v)) ^^ n) w))) = domain_event_of ` set (t_outbox_events (fst w))
    \<and> delivered (snd (((\<lambda>v. snd (publish_batch bus limit v)) ^^ n) w)) \<subseteq> delivered (snd w) \<union> domain_event_of ` set (t_outbox_events (fst w))"
  using assms(2,3)
proof (induction n arbitrary: w)
  case (Suc n)
  obtain v u where run: "publish_batch bus limit w = (v, u)" by (cases "publish_batch bus limit w")
  have "distinct (map row_id (t_outbox_events (fst w)))" using Suc.prems(1) by (simp add: sound_rows_def)
  from batch_announced [OF Suc.prems(2) this run] have u: "announced u"
    "delivered (snd u) \<subseteq> delivered (snd w) \<union> domain_event_of ` set (waiting_rows (fst w))" by auto
  have "set (waiting_rows (fst w)) \<subseteq> set (t_outbox_events (fst w))" by (auto simp: waiting_rows_def)
  with u(2) have "delivered (snd u) \<subseteq> delivered (snd w) \<union> domain_event_of ` set (t_outbox_events (fst w))" by fast
  moreover note u(1)
  moreover have "sound_rows (fst u)" using batch_progress [OF bus Suc.prems(1), of limit] run by auto
  moreover have "domain_event_of ` set (t_outbox_events (fst u)) = domain_event_of ` set (t_outbox_events (fst w))"
    using batch_keeps_events [of limit w] run by simp
  ultimately show ?case using Suc.IH [of u] run by (simp add: funpow_Suc_right del: funpow.simps) fast
qed simp

lemma batches_deliver:
  assumes "accepting bus" and "sound_rows (fst w)" and "announced w" and "length (waiting_rows (fst w)) \<le> n * limit"
    and run: "((\<lambda>v. snd (publish_batch bus limit v)) ^^ n) w = w'"
  shows "domain_event_of ` set (t_outbox_events (fst w)) \<subseteq> delivered (snd w')"
    and "delivered (snd w') \<subseteq> delivered (snd w) \<union> domain_event_of ` set (t_outbox_events (fst w))"
proof -
  have none: "waiting_rows (fst w') = []" using batches_finish [OF assms(1,2,4)] run by simp
  from batches_announced [OF assms(1-3), of n limit] run
  have w': "announced w'" "domain_event_of ` set (t_outbox_events (fst w')) = domain_event_of ` set (t_outbox_events (fst w))"
    "delivered (snd w') \<subseteq> delivered (snd w) \<union> domain_event_of ` set (t_outbox_events (fst w))" by simp_all
  from none w'(1) have "domain_event_of ` set (t_outbox_events (fst w')) \<subseteq> delivered (snd w')"
    by (auto simp: announced_def waiting_rows_def filter_empty_conv)
  with w' show "domain_event_of ` set (t_outbox_events (fst w)) \<subseteq> delivered (snd w')"
    "delivered (snd w') \<subseteq> delivered (snd w) \<union> domain_event_of ` set (t_outbox_events (fst w))" by simp_all
qed

end

end
