(* ===== verification/Speech.thy ===== *)
theory Speech
  imports Store "HOL-Library.Product_Lexorder"
begin

text \<open>
  What the voice channel makes of words: \<open>channels/voice/pipeline.py\<close> (from a transcript to an intent), \<open>protocol.py\<close>, the
  language and script helpers of \<open>channels/voice/sarvam.py\<close> and the lookup of \<open>i18n.py\<close>.  A text is the list of its code points; of
  the Unicode tables only the ASCII part is written out, the rest is the argument \<open>U\<close> (a decimal digit is a word character there).
\<close>

section \<open>Text\<close>

type_synonym utext = "nat list"

definition ascii :: "string \<Rightarrow> utext" where
  "ascii s = map of_char s"

record unicode =
  un_word :: "nat \<Rightarrow> bool"
  un_lower :: "nat \<Rightarrow> utext"
  un_space :: "nat \<Rightarrow> bool"
  un_digit :: "nat \<Rightarrow> nat option"

definition word_char :: "unicode \<Rightarrow> nat \<Rightarrow> bool" where
  "word_char U c \<longleftrightarrow> (if c < 128 then 48 \<le> c \<and> c \<le> 57 \<or> 65 \<le> c \<and> c \<le> 90 \<or> c = 95 \<or> 97 \<le> c \<and> c \<le> 122 else un_word U c)"

definition lower_char :: "unicode \<Rightarrow> nat \<Rightarrow> utext" where
  "lower_char U c = (if c < 128 then (if 65 \<le> c \<and> c \<le> 90 then [c + 32] else [c]) else un_lower U c)"

definition space_char :: "unicode \<Rightarrow> nat \<Rightarrow> bool" where
  "space_char U c \<longleftrightarrow> (if c < 128 then 9 \<le> c \<and> c \<le> 13 \<or> 28 \<le> c \<and> c \<le> 32 else un_space U c)"

definition digit_char :: "unicode \<Rightarrow> nat \<Rightarrow> nat option" where
  "digit_char U c = (if c < 128 then (if 48 \<le> c \<and> c \<le> 57 then Some (c - 48) else None) else un_digit U c)"

definition ulower :: "unicode \<Rightarrow> utext \<Rightarrow> utext" where
  "ulower U t = concat (map (lower_char U) t)"

definition ustrip :: "unicode \<Rightarrow> utext \<Rightarrow> utext" where
  "ustrip U t = rev (dropWhile (space_char U) (rev (dropWhile (space_char U) t)))"

text \<open>\<open>\b\<close> between two characters, or at an end of the text.\<close>

definition word_at :: "unicode \<Rightarrow> nat option \<Rightarrow> bool" where
  "word_at U c = (case c of None \<Rightarrow> False | Some x \<Rightarrow> word_char U x)"

definition first_char :: "utext \<Rightarrow> nat option" where
  "first_char t = (case t of [] \<Rightarrow> None | c # _ \<Rightarrow> Some c)"

definition boundary :: "unicode \<Rightarrow> nat option \<Rightarrow> nat option \<Rightarrow> bool" where
  "boundary U a b \<longleftrightarrow> word_at U a \<noteq> word_at U b"

definition last_char :: "utext \<Rightarrow> nat option" where
  "last_char t = (if t = [] then None else Some (last t))"

definition word_here :: "unicode \<Rightarrow> utext \<Rightarrow> nat option \<Rightarrow> utext \<Rightarrow> bool" where
  "word_here U w before t \<longleftrightarrow> take (length w) t = w \<and> boundary U before (first_char t)
     \<and> boundary U (if w = [] then before else last_char w) (first_char (drop (length w) t))"

text \<open>Where \<open>re.search(r"\b" + w + r"\b", t)\<close> finds a word, and \<open>re.search(w, t)\<close> a text.\<close>

fun find_word :: "unicode \<Rightarrow> utext \<Rightarrow> nat \<Rightarrow> nat option \<Rightarrow> utext \<Rightarrow> nat option" where
  "find_word U w i before [] = (if word_here U w before [] then Some i else None)"
| "find_word U w i before (c # cs) = (if word_here U w before (c # cs) then Some i else find_word U w (i + 1) (Some c) cs)"

fun find_text :: "utext \<Rightarrow> nat \<Rightarrow> utext \<Rightarrow> nat option" where
  "find_text w i [] = (if w = [] then Some i else None)"
| "find_text w i (c # cs) = (if take (length w) (c # cs) = w then Some i else find_text w (i + 1) cs)"

definition is_ascii :: "utext \<Rightarrow> bool" where
  "is_ascii t \<longleftrightarrow> (\<forall>c \<in> set t. c < 128)"

definition find_phrase :: "unicode \<Rightarrow> utext \<Rightarrow> utext \<Rightarrow> nat option" where
  "find_phrase U w t = (if is_ascii w then find_word U w 0 None t else find_text w 0 t)"

definition match_word :: "unicode \<Rightarrow> utext \<Rightarrow> utext \<Rightarrow> bool" where
  "match_word U w t \<longleftrightarrow> find_phrase U w t \<noteq> None"

definition says :: "unicode \<Rightarrow> utext \<Rightarrow> utext list \<Rightarrow> bool" where
  "says U t ws \<longleftrightarrow> (\<exists>w \<in> set ws. match_word U w t)"

text \<open>\<open>re.search(r"\b(\d+)\b", t)\<close>: digits are word characters, so the match is a whole run of digits.\<close>

fun find_number :: "unicode \<Rightarrow> nat option \<Rightarrow> utext \<Rightarrow> utext option" where
  "find_number U before [] = None"
| "find_number U before (c # cs) =
     (let run = takeWhile (\<lambda>x. digit_char U x \<noteq> None) (c # cs); after = dropWhile (\<lambda>x. digit_char U x \<noteq> None) (c # cs) in
      if run \<noteq> [] \<and> \<not> word_at U before \<and> \<not> word_at U (first_char after) then Some run else find_number U (Some c) cs)"

definition number_value :: "unicode \<Rightarrow> utext \<Rightarrow> nat" where
  "number_value U run = foldl (\<lambda>n c. 10 * n + the (digit_char U c)) 0 run"

section \<open>The words of a merchant\<close>

definition number_words :: "(utext \<times> nat) list" where
  "number_words = [
     (ascii ''one'', 1), (ascii ''two'', 2), (ascii ''three'', 3), (ascii ''four'', 4), (ascii ''five'', 5),
     (ascii ''ek'', 1), (ascii ''do'', 2), (ascii ''teen'', 3), (ascii ''char'', 4), (ascii ''chaar'', 4),
     (ascii ''paanch'', 5), ([2319, 2325], 1), ([2342, 2379], 2), ([2340, 2368, 2344], 3), ([2330, 2366, 2352], 4),
     ([2346, 2366, 2305, 2330], 5), ([2346, 2366, 2306, 2330], 5), (ascii ''be'', 2), (ascii ''tran'', 3),
     ([2703, 2709], 1), ([2732, 2759], 2), ([2724, 2765, 2736, 2723], 3), ([2714, 2750, 2736], 4),
     ([2730, 2750, 2690, 2714], 5), (ascii ''dui'', 2), (ascii ''tin'', 3), ([2447, 2453], 1), ([2470, 2497, 2439], 2),
     ([2468, 2495, 2472], 3), ([2458, 2494, 2480], 4), ([2474, 2494, 2433, 2458], 5), (ascii ''du'', 2), ([2342, 2370], 2),
     (ascii ''ondru'', 1), (ascii ''irandu'', 2), (ascii ''moondru'', 3), (ascii ''naangu'', 4), (ascii ''aindhu'', 5),
     ([2962, 2985, 3021, 2993, 3009], 1), ([2951, 2992, 2979, 3021, 2975, 3009], 2),
     ([2990, 3010, 2985, 3021, 2993, 3009], 3), ([2984, 3006, 2985, 3021, 2965, 3009], 4),
     ([2960, 2984, 3021, 2980, 3009], 5), (ascii ''okati'', 1), (ascii ''rendu'', 2), (ascii ''moodu'', 3),
     (ascii ''naalugu'', 4), (ascii ''aidu'', 5), ([3090, 3093, 3103, 3135], 1), ([3120, 3142, 3074, 3105, 3137], 2),
     ([3118, 3138, 3105, 3137], 3), ([3112, 3134, 3122, 3137, 3095, 3137], 4), ([3088, 3110, 3137], 5), (ascii ''don'', 2),
     (ascii ''paach'', 5), ([2342, 2379, 2344], 2), ([2346, 2366, 2330], 5)]"

definition unit_words :: "utext list" where
  "unit_words = [
     ascii ''peti'', ascii ''crate'', ascii ''crates'', [2346, 2375, 2335, 2368], [2730, 2759, 2719, 2752],
     [2709, 2765, 2736, 2759, 2719], [2730, 2759, 2719, 2752, 2707], [2474, 2503, 2463, 2495],
     [2986, 3014, 2975, 3021, 2975, 3007], [2986, 3014, 2975, 3021, 2975, 3007, 2965, 2995, 3021],
     [3114, 3142, 3103, 3149, 3103, 3142], [3114, 3142, 3103, 3149, 3103, 3142, 3122, 3137],
     [2346, 2375, 2335, 2381, 2351, 2366], [2346, 2375, 2335, 2367, 2351, 2366]]"

definition sku_words :: "utext list" where
  "sku_words = [
     ascii ''cold drink'', ascii ''cola'', [2325, 2379, 2354, 2381, 2337, 32, 2337, 2381, 2352, 2367, 2306, 2325],
     [2709, 2763, 2738, 2765, 2721, 32, 2721, 2765, 2736, 2751, 2690, 2709],
     [2709, 2761, 2738, 2765, 2721, 32, 2721, 2765, 2736, 2751, 2690, 2709],
     [2453, 2507, 2482, 2509, 2465, 32, 2465, 2509, 2480, 2495, 2457, 2509, 2453],
     [2965, 3019, 2994, 3021, 2975, 3021, 32, 2975, 3007, 2992, 3007, 2969, 3021, 2965, 3021],
     [3093, 3147, 3122, 3149, 3105, 3149, 32, 3105, 3149, 3120, 3135, 3074, 3093, 3149]]"

definition approve_words :: "utext list" where
  "approve_words = [
     ascii ''haan kar do'', ascii ''approve'', ascii ''confirm kar'', ascii ''confirm'', ascii ''manzoor'',
     ascii ''anumodan'', ascii ''aamam'', ascii ''avunu'', [2360, 2381, 2357, 2368, 2325, 2371, 2340],
     [2350, 2306, 2332, 2370, 2352], [2361, 2366, 2305], [2745, 2750, 32, 2709, 2728, 2765, 2731, 2736, 2765, 2734],
     [2745, 2750, 32, 2709, 2736, 2763], [2489, 2509, 2479, 2494, 2433], [2950, 2990, 3006, 2990, 3021],
     [2953, 2993, 3009, 2980, 3007], [2949, 2997, 3009, 2985, 3009], [3077, 3125, 3137, 3112, 3137],
     [3078, 3118, 3147, 3110, 3135, 3074, 3098, 3074, 3105, 3135], [3093, 3112, 3149, 3115, 3120, 3149, 3118, 3149],
     [2325, 2344, 2381, 2347, 2352, 2381, 2350], [2361, 2379, 32, 2325, 2352, 2366],
     [2350, 2306, 2332, 2370, 2352, 32, 2325, 2352, 2366]]"

definition reject_words :: "utext list" where
  "reject_words = [
     ascii ''reject'', ascii ''mat karo'', ascii ''cancel'', ascii ''nako'', ascii ''vendaam'', ascii ''oddu'',
     [2476, 2494, 2468, 2495, 2482], [2736, 2726], [2352, 2342, 2381, 2342],
     [2997, 3015, 2979, 3021, 2975, 3006, 2990, 3021], [3125, 3110, 3149, 3110, 3137], [2344, 2325, 2379]]"

definition modify_words :: "utext list" where
  "modify_words = [
     ascii ''rakhna'', ascii ''modify'', ascii ''badal'', ascii ''rakho'', ascii ''rakhjo'', ascii ''parivartan'',
     [2990, 3006, 2993, 3021, 2993, 3009], [3118, 3134, 3120, 3149, 3098, 3074, 3105, 3135], [2348, 2342, 2354, 2366],
     [2476, 2470, 2482, 2494, 2451]]"

definition purchase_words :: "utext list" where
  "purchase_words = [
     ascii ''mangwa'', ascii ''order'', ascii ''manga'', ascii ''mangavi'', ascii ''aniye'', ascii ''theppinchandi'',
     ascii ''pannunga'', ascii ''magvoon'', [2350, 2305, 2327, 2357, 2366], [2350, 2306, 2327, 2357, 2366],
     [2734, 2690, 2711, 2750, 2741, 2752], [2707, 2736, 2765, 2721, 2736], [2438, 2472, 2495, 2527, 2503],
     [2438, 2472, 2495, 2527, 2494], [2950, 2992, 3021, 2975, 2992, 3021], [3078, 3120, 3149, 3105, 3120, 3149],
     [2350, 2366, 2327, 2357, 2370, 2344]]"

definition low_words :: "utext list" where
  "low_words = [
     ascii ''khatam'', ascii ''low'', ascii ''kam'', ascii ''ochho'', ascii ''ochha'', ascii ''khali'', ascii ''shesh'',
     ascii ''furiye'', ascii ''sira gail'', ascii ''theerndhadhu'', ascii ''theerndhuvittadhu'', ascii ''kuraivaga'',
     ascii ''aypoindi'', ascii ''thakkuva'', ascii ''sampale'', [2325, 2350, 2368], [2326, 2340, 2350],
     [2326, 2340, 2381, 2350], [2360, 2367, 2352, 2366], [2360, 2367, 2352, 2366, 32, 2327, 2311, 2354], [2707, 2715, 2763],
     [2707, 2715, 2750], [2710, 2724, 2734], [2742, 2759, 2743], [2486, 2503, 2487], [2965, 3009, 2993, 3016, 2997, 3009],
     [2980, 3008, 2992, 3021, 2984, 3021, 2980, 3009], [3108, 3093, 3149, 3093, 3137, 3125],
     [3077, 3119, 3135, 3114, 3147, 3119, 3135, 3074, 3110, 3135], [2360, 2306, 2346, 2354, 2375]]"

definition greeting_words :: "utext list" where
  "greeting_words = [
     ascii ''hi'', ascii ''hello'', ascii ''kaise ho'', ascii ''kaisa hai'', ascii ''kya haal'', ascii ''namaste'',
     ascii ''namaskar'', ascii ''pranam'', ascii ''kem cho'', ascii ''kemon acho'', ascii ''vanakkam'',
     ascii ''namaskaram'', ascii ''sat sri akal'', ascii ''good morning'', ascii ''good afternoon'', ascii ''good evening'',
     [2344, 2350, 2360, 2381, 2340, 2375], [2344, 2350, 2360, 2381, 2325, 2366, 2352], [2346, 2381, 2352, 2339, 2366, 2350],
     [2709, 2759, 2734, 32, 2715, 2763], [2472, 2478, 2488, 2509, 2453, 2494, 2480],
     [2997, 2979, 2965, 3021, 2965, 2990, 3021], [3112, 3118, 3128, 3149, 3093, 3134, 3120, 3074]]"

definition capability_words :: "utext list" where
  "capability_words = [
     ascii ''kya kar sakte ho'', ascii ''kya kar sakti ho'', ascii ''who are you'', ascii ''tum kaun ho'',
     ascii ''aap kaun hain'', ascii ''help'', ascii ''madad'', [2724, 2734, 2759, 32, 2709, 2763, 2723, 32, 2715, 2763],
     [2468, 2497, 2478, 2495, 32, 2453, 2503], [2984, 3008, 32, 2991, 3006, 2992, 3021],
     [3112, 3137, 3125, 3149, 3125, 3137, 32, 3086, 3125, 3120, 3137]]"

definition inventory_words :: "utext list" where
  "inventory_words = [
     ascii ''stock'', ascii ''inventory'', ascii ''maal'', ascii ''kitna bacha'', ascii ''kya bacha'',
     ascii ''kya kam hai'', ascii ''stock check'', ascii ''maal kitna'', [2744, 2765, 2719, 2763, 2709],
     [2695, 2728, 2765, 2741, 2759, 2728, 2765, 2719, 2736, 2752], [2951, 2992, 3009, 2986, 3021, 2986, 3009],
     [3128, 3149, 3103, 3134, 3093, 3149], [2360, 2366, 2336, 2366]]"

definition proposal_words :: "utext list" where
  "proposal_words = [
     ascii ''proposal'', ascii ''proposals'', ascii ''approval'', ascii ''approvals'', ascii ''pending'',
     ascii ''pending order'', ascii ''orders'', [2346, 2381, 2352, 2360, 2381, 2340, 2366, 2357],
     [2707, 2736, 2765, 2721, 2736]]"


section \<open>From a transcript to an intent\<close>

datatype voice_intent_type =
    REPORT_LOW_STOCK | REQUEST_PURCHASE | APPROVE_ACTIVE_PROPOSAL | MODIFY_ACTIVE_PROPOSAL | REJECT_ACTIVE_PROPOSAL
  | GREETING | QUERY_INVENTORY | QUERY_PROPOSALS | CAPABILITIES | GENERAL_QUERY | UNKNOWN_INTENT

record voice_intent =
  vi_intent :: voice_intent_type
  vi_quantity :: "nat option"
  vi_unit :: "string option"
  vi_sku_hint :: "string option"
  vi_explicit_confirmation :: bool
  vi_raw_text :: utext

definition decisions :: "voice_intent_type list" where
  "decisions = [APPROVE_ACTIVE_PROPOSAL, MODIFY_ACTIVE_PROPOSAL, REJECT_ACTIVE_PROPOSAL]"

fun earliest :: "(nat \<times> nat) list \<Rightarrow> nat option" where
  "earliest [] = None"
| "earliest (m # ms) = Some (snd (foldl min m ms))"

definition word_quantity :: "unicode \<Rightarrow> utext \<Rightarrow> nat option" where
  "word_quantity U t = earliest (concat (map (\<lambda>(w, v). case find_phrase U w t of Some i \<Rightarrow> [(i, v)] | None \<Rightarrow> []) number_words))"

text \<open>\<open>int\<close> refuses a numeral of more than 4300 digits.\<close>

definition spoken_quantity :: "unicode \<Rightarrow> utext \<Rightarrow> exc + nat option" where
  "spoken_quantity U t = (case find_number U None t of
     Some run \<Rightarrow> if 4300 < length run then Inl (Exc PyValueError ''Exceeds the limit for integer string conversion'')
        else Inr (Some (number_value U run))
   | None \<Rightarrow> Inr (word_quantity U t))"

definition voice_intent_of :: "unicode \<Rightarrow> nat option \<Rightarrow> utext \<Rightarrow> voice_intent_type" where
  "voice_intent_of U q t =
     (if says U t approve_words then APPROVE_ACTIVE_PROPOSAL
      else if says U t reject_words then REJECT_ACTIVE_PROPOSAL
      else if q \<noteq> None \<and> q \<noteq> Some 0 \<and> says U t modify_words then MODIFY_ACTIVE_PROPOSAL
      else if says U t purchase_words then REQUEST_PURCHASE
      else if says U t low_words then REPORT_LOW_STOCK
      else if says U t greeting_words then GREETING
      else if says U t capability_words then CAPABILITIES
      else if says U t inventory_words then QUERY_INVENTORY
      else if says U t proposal_words then QUERY_PROPOSALS
      else if t \<noteq> [] then GENERAL_QUERY else UNKNOWN_INTENT)"

definition extract_voice_intent :: "unicode \<Rightarrow> utext \<Rightarrow> exc + voice_intent" where
  "extract_voice_intent U text =
     (let t = ustrip U (ulower U text) in
      bindE (spoken_quantity U t) (\<lambda>q.
        let kind = voice_intent_of U q t in
        if q = Some 0 then Inl (Exc PyValidationError ''quantity'')
        else Inr \<lparr>vi_intent = kind, vi_quantity = q, vi_unit = (if says U t unit_words then Some ''crate'' else None),
          vi_sku_hint = (if says U t sku_words then Some ''cold drink'' else None),
          vi_explicit_confirmation = (kind \<in> set decisions), vi_raw_text = text\<rparr>))"

section \<open>Script and language\<close>

definition urdu_words :: "(utext \<times> utext) list" where
  "urdu_words = [
     ([1575, 1670, 1726, 1575], [2309, 2330, 2381, 2331, 2366]), ([1578, 1608], [2340, 2379]),
     ([1605, 1580, 1726, 1746], [2350, 2369, 2333, 2375]), ([1576, 1578, 1575], [2348, 2340, 2366]),
     ([1587, 1705, 1578, 1746], [2360, 2325, 2340, 2375]), ([1729, 1740, 1722], [2361, 2376, 2306]),
     ([1570, 1580], [2310, 2332]), ([1705, 1608, 1574, 1740], [2325, 2379, 2312]),
     ([1608, 1594, 1740, 1585, 1729], [2357, 2327, 2376, 2352, 2361]), ([1729, 1746], [2361, 2376]),
     ([1580, 1587], [2332, 2367, 2360]), ([1705, 1746], [2325, 2375]), ([1587, 1575, 1578, 1726], [2360, 2366, 2341]),
     ([1605, 1740, 1722], [2350, 2375, 2306]), ([1604, 1740, 1606], [2354, 2375, 2344]),
     ([1583, 1740, 1606], [2342, 2375, 2344]), ([1705, 1585], [2325, 2352]),
     ([1587, 1705, 1578, 1575], [2360, 2325, 2340, 2366]), ([1729, 1608, 1722], [2361, 2370, 2305]),
     ([1580, 1740], [2332, 2368]), ([1575, 1576, 1726, 1740], [2309, 2349, 2368]), ([1570, 1662], [2310, 2346]),
     ([1575, 1587, 1657, 1608, 1585], [2360, 2381, 2335, 2379, 2352]), ([1705, 1587, 1740], [2325, 2367, 2360, 2368]),
     ([1608, 1740, 1606, 1672, 1585], [2357, 2375, 2306, 2337, 2352]), ([1705, 1740], [2325, 2368]),
     ([1606, 1729, 1740, 1722], [2344, 2361, 2368, 2306]), ([1575, 1711, 1585], [2309, 2327, 2352]),
     ([1582, 1575, 1589], [2326, 2366, 2360]), ([1606, 1575, 1605], [2344, 2366, 2350]),
     ([1576, 1578, 1575, 1574, 1740, 1722], [2348, 2340, 2366, 2319, 2306]), ([1575, 1587], [2313, 2360]),
     ([1578, 1601, 1589, 1740, 1604], [2340, 2347, 2360, 2368, 2354]), ([1670, 1740, 1705], [2330, 2375, 2325]),
     ([1705, 1585, 1606, 1746], [2325, 2352, 2344, 2375]), ([1605, 1583, 1583], [2350, 2342, 2342]),
     ([1583, 1608, 1722], [2342, 2370, 2305]), ([1711, 1740], [2327, 2368]), ([1705, 1575], [2325, 2366]),
     ([1705, 1608], [2325, 2379]), ([1587, 1746], [2360, 2375]), ([1662, 1585], [2346, 2352]), ([1578, 1705], [2340, 2325]),
     ([1740, 1729], [2351, 2361]), ([1608, 1729], [2357, 2361]), ([1705, 1740, 1575], [2325, 2381, 2351, 2366]),
     ([1705, 1740, 1608, 1722], [2325, 2381, 2351, 2379, 2306]), ([1705, 1576], [2325, 2348]),
     ([1705, 1729, 1575, 1722], [2325, 2361, 2366, 2305]), ([1705, 1740, 1587, 1746], [2325, 2376, 2360, 2375]),
     ([1705, 1578, 1606, 1575], [2325, 2367, 2340, 2344, 2366]), ([1605, 1575, 1604], [2350, 2366, 2354]),
     ([1575, 1587, 1657, 1575, 1705], [2360, 2381, 2335, 2377, 2325]), ([1582, 1585, 1740, 1583], [2326, 2352, 2368, 2342]),
     ([1601, 1585, 1608, 1582, 1578], [2348, 2367, 2325, 2381, 2352, 2368]),
     ([1570, 1585, 1672, 1585], [2321, 2352, 2381, 2337, 2352]), ([1583, 1705, 1575, 1606], [2342, 2369, 2325, 2366, 2344]),
     ([1605, 1606, 1592, 1608, 1585, 1740], [2350, 2306, 2332, 2370, 2352, 2368]),
     ([1662, 1740, 1606, 1672, 1606, 1711], [2346, 2375, 2306, 2337, 2367, 2306, 2327]),
     ([1586, 1740, 1585, 32, 1575, 1604, 1578, 1608, 1575], [2346, 2375, 2306, 2337, 2367, 2306, 2327]),
     ([1605, 1608, 1580, 1608, 1583], [2350, 2380, 2332, 2370, 2342]),
     ([1588, 1705, 1585, 1740, 1729], [2358, 2369, 2325, 2381, 2352, 2367, 2351, 2366]),
     ([1587, 1604, 1575, 1605], [2344, 2350, 2360, 2381, 2340, 2375]),
     ([1606, 1605, 1587, 1578, 1746], [2344, 2350, 2360, 2381, 2340, 2375]), ([1740, 1575], [2351, 2366]),
     ([1586, 1740, 1585], [2346, 2375, 2306, 2337, 2367, 2306, 2327]), ([1575, 1604, 1578, 1608, 1575], [])]"

definition urdu_chars :: "(nat \<times> utext) list" where
  "urdu_chars = [
     (1575, [2309]), (1570, [2310]), (1576, [2348]), (1662, [2346]), (1578, [2340]), (1657, [2335]), (1579, [2360]),
     (1580, [2332]), (1670, [2330]), (1581, [2361]), (1582, [2326]), (1583, [2342]), (1672, [2337]), (1584, [2332, 2364]),
     (1585, [2352]), (1681, [2337, 2364]), (1586, [2332, 2364]), (1688, [2332, 2364]), (1587, [2360]), (1588, [2358]),
     (1589, [2360]), (1590, [2332, 2364]), (1591, [2340]), (1592, [2332, 2364]), (1593, [2309]), (1594, [2327, 2364]),
     (1601, [2347]), (1602, [2325]), (1705, [2325]), (1711, [2327]), (1604, [2354]), (1605, [2350]), (1606, [2344]),
     (1722, [2306]), (1608, [2379]), (1729, [2361]), (1726, [2361]), (1569, []), (1740, [2368]), (1746, [2375]),
     (1567, ascii ''?''), (1548, ascii '',''), (1748, ascii ''.''), (1574, [2312]), (1730, [2361]), (1731, [2340]),
     (1734, [2323])]"


definition urdu_char :: "nat \<Rightarrow> bool" where
  "urdu_char c \<longleftrightarrow> 1536 \<le> c \<and> c \<le> 1791"

fun words_of :: "unicode \<Rightarrow> utext \<Rightarrow> utext \<Rightarrow> utext list" where
  "words_of U w [] = (if w = [] then [] else [w])"
| "words_of U w (c # cs) = (if space_char U c then (if w = [] then words_of U [] cs else w # words_of U [] cs) else words_of U (w @ [c]) cs)"

text \<open>The full stop U+06D4 is not among the marks that are looked for, so only its own branch is dead.\<close>

definition sanitize_word :: "utext \<Rightarrow> utext list" where
  "sanitize_word w =
     (let ends = w \<noteq> [] \<and> last w \<in> {1567, 1548, 46, 33, 44, 63};
          suffix = (if ends then (if last w = 1567 then [63] else if last w = 1548 then [44] else [last w]) else []);
          stem = (if ends then butlast w else w) in
      case map_of urdu_words stem of
        Some v \<Rightarrow> if v = [] then [] else [v @ suffix]
      | None \<Rightarrow> [concat (map (\<lambda>c. case map_of urdu_chars c of Some v \<Rightarrow> v | None \<Rightarrow> [c]) stem) @ suffix])"

text \<open>\<open>re.sub(r"x{n,}", out, t)\<close> for a class of characters.\<close>

function squeeze :: "(nat \<Rightarrow> bool) \<Rightarrow> nat \<Rightarrow> utext \<Rightarrow> utext \<Rightarrow> utext" where
  "squeeze P n out [] = []"
| "squeeze P n out (c # cs) =
     (if P c then (let run = takeWhile P (c # cs) in (if n \<le> length run then out else run) @ squeeze P n out (dropWhile P cs))
      else c # squeeze P n out cs)"
  by pat_completeness auto
termination by (relation "measure (\<lambda>(P, n, out, t). length t)") (auto simp: le_imp_less_Suc length_dropWhile_le)

fun ujoin :: "utext list \<Rightarrow> utext" where
  "ujoin [] = []" | "ujoin [w] = w" | "ujoin (w # ws) = w @ 32 # ujoin ws"

definition sanitize_urdu_to_hindi :: "unicode \<Rightarrow> utext \<Rightarrow> utext" where
  "sanitize_urdu_to_hindi U t =
     (if t = [] \<or> \<not> list_ex urdu_char t then t
      else ustrip U (squeeze (space_char U) 1 [32] (ujoin (concat (map sanitize_word (words_of U [] t))))))"

text \<open>\<open>re.sub(r"^\s*[-U+2022]\s*", "", t, flags=re.MULTILINE)\<close>.\<close>

function strip_bullets :: "unicode \<Rightarrow> bool \<Rightarrow> utext \<Rightarrow> utext" where
  "strip_bullets U line_start [] = []"
| "strip_bullets U line_start (c # cs) =
     (case dropWhile (space_char U) (c # cs) of
        b # after \<Rightarrow>
          if line_start \<and> (b = 45 \<or> b = 8226)
          then (let gap = takeWhile (space_char U) after in
                strip_bullets U (gap \<noteq> [] \<and> last gap = 10) (dropWhile (space_char U) after))
          else c # strip_bullets U (c = 10) cs
      | [] \<Rightarrow> c # strip_bullets U (c = 10) cs)"
  by pat_completeness auto
termination
proof (relation "measure (\<lambda>(U, l, t). length t)")
  fix U :: unicode and l c cs b after gap
  assume "dropWhile (space_char U) (c # cs) = b # after"
  then have "length (b # after) \<le> length (c # cs)" by (metis length_dropWhile_le)
  then have "length (dropWhile (space_char U) after) < length (c # cs)"
    using length_dropWhile_le [of "space_char U" after] by simp
  then show "((U, gap \<noteq> [] \<and> last gap = 10, dropWhile (space_char U) after), U, l, c # cs) \<in> measure (\<lambda>(U, l, t). length t)"
    by simp
qed simp_all

definition clean_text_for_natural_voice :: "unicode \<Rightarrow> utext \<Rightarrow> utext" where
  "clean_text_for_natural_voice U t =
     (let a = filter (\<lambda>c. \<not> urdu_char c) (sanitize_urdu_to_hindi U t);
          b = strip_bullets U True (filter (\<lambda>c. c \<notin> {42, 35, 95, 96, 126}) a);
          c = squeeze (\<lambda>c. c = 45) 2 [32] (squeeze (\<lambda>c. c = 46) 2 [46] b);
          d = map (\<lambda>c. if c = 59 \<or> c = 58 then 44 else c) c in
      ustrip U (squeeze (space_char U) 1 [32] d))"

definition normalize_stt_language :: "string option \<Rightarrow> string" where
  "normalize_stt_language lang =
     (let code = lower (strip (case lang of Some l \<Rightarrow> l | None \<Rightarrow> [])) in
      if code \<in> {'''', ''auto'', ''und'', ''hi'', ''hi-in'', ''bho'', ''bho-in'', ''hi-bho''} then ''hi-IN''
      else if startswith code ''gu'' then ''gu-IN'' else if startswith code ''bn'' then ''bn-IN''
      else if startswith code ''ta'' then ''ta-IN'' else if startswith code ''te'' then ''te-IN''
      else if startswith code ''mr'' then ''mr-IN'' else if startswith code ''en'' then ''en-IN''
      else if startswith code ''kn'' then ''kn-IN'' else if startswith code ''ml'' then ''ml-IN''
      else if startswith code ''pa'' then ''pa-IN'' else if startswith code ''or'' \<or> startswith code ''od'' then ''or-IN''
      else ''hi-IN'')"

definition target_prefixes :: "(string \<times> string) list" where
  "target_prefixes = [(''hi'', ''hi-IN''), (''en'', ''en-IN''), (''gu'', ''gu-IN''), (''bn'', ''bn-IN''), (''ta'', ''ta-IN''), (''te'', ''te-IN''),
     (''mr'', ''mr-IN''), (''kn'', ''kn-IN''), (''ml'', ''ml-IN''), (''pa'', ''pa-IN''), (''od'', ''od-IN'')]"

definition target_scripts :: "(nat \<times> nat \<times> string) list" where
  "target_scripts = [(2688, 2815, ''gu-IN''), (2432, 2559, ''bn-IN''), (2944, 3071, ''ta-IN''), (3072, 3199, ''te-IN''),
     (3200, 3327, ''kn-IN''), (3328, 3455, ''ml-IN''), (2560, 2687, ''pa-IN''), (2816, 2943, ''od-IN''), (2304, 2431, ''hi-IN'')]"

definition resolve_target_language :: "utext \<Rightarrow> string option \<Rightarrow> string" where
  "resolve_target_language t language =
     (let lang = lower (strip (case language of Some l \<Rightarrow> l | None \<Rightarrow> [])) in
      if list_ex urdu_char t then ''hi-IN''
      else if lang \<in> {''bho-in'', ''bho'', ''hi-bho''} then ''hi-IN''
      else case find (\<lambda>(p, _). startswith lang p) target_prefixes of
        Some (_, l) \<Rightarrow> l
      | None \<Rightarrow> (case find (\<lambda>(a, b, _). list_ex (\<lambda>c. a \<le> c \<and> c \<le> b) t) target_scripts of
          Some (_, _, l) \<Rightarrow> l | None \<Rightarrow> ''en-IN''))"

text \<open>The messages exist in eight languages, each with the same keys; a message is named by its language and key.\<close>

definition message_languages :: "string list" where
  "message_languages = [''hi-IN'', ''gu-IN'', ''bn-IN'', ''bho-IN'', ''ta-IN'', ''te-IN'', ''mr-IN'', ''en-IN'']"

definition message_prefixes :: "(string \<times> string) list" where
  "message_prefixes = [(''hi'', ''hi-IN''), (''gu'', ''gu-IN''), (''bn'', ''bn-IN''), (''bho'', ''bho-IN''), (''ta'', ''ta-IN''),
     (''te'', ''te-IN''), (''mr'', ''mr-IN'')]"

definition message_language :: "string \<Rightarrow> string" where
  "message_language lang =
     (if lang \<in> set message_languages then lang
      else case find (\<lambda>(p, _). startswith lang p) message_prefixes of Some (_, l) \<Rightarrow> l | None \<Rightarrow> ''en-IN'')"

definition heard_text :: "unicode \<Rightarrow> utext \<Rightarrow> utext" where
  "heard_text U text = ustrip U (ulower U text)"

section \<open>What an utterance can do\<close>

lemmas text_simps = ascii_def find_phrase_def is_ascii_def word_here_def boundary_def word_at_def first_char_def last_char_def
  word_char_def

lemma extracted:
  assumes "extract_voice_intent U text = Inr x"
  shows "vi_raw_text x = text" "vi_quantity x \<noteq> Some 0" "spoken_quantity U (heard_text U text) = Inr (vi_quantity x)"
    "vi_intent x = voice_intent_of U (vi_quantity x) (heard_text U text)"
    "vi_explicit_confirmation x \<longleftrightarrow> vi_intent x \<in> set decisions"
  using assms
  by (auto simp: extract_voice_intent_def heard_text_def bindE_def Let_def split: sum.splits if_splits)

lemma approval_word_wins:
  "says U (heard_text U text) approve_words \<Longrightarrow> extract_voice_intent U text = Inr x \<Longrightarrow> vi_intent x = APPROVE_ACTIVE_PROPOSAL"
  by (simp add: extracted(4) voice_intent_of_def)

lemma decision_needs_words:
  assumes "extract_voice_intent U text = Inr x" and "vi_intent x \<in> set decisions"
  shows "says U (heard_text U text) (approve_words @ reject_words @ modify_words)"
  using assms(2) by (auto simp: extracted(4) [OF assms(1)] voice_intent_of_def decisions_def says_def split: if_splits)

lemma change_needs_quantity:
  assumes "extract_voice_intent U text = Inr x" and "vi_intent x = MODIFY_ACTIVE_PROPOSAL"
  shows "\<exists>n > 0. vi_quantity x = Some n"
  using extracted(2) [OF assms(1)] assms(2)
  by (auto simp: extracted(4) [OF assms(1)] voice_intent_of_def split: if_splits)

lemma zero_is_refused:
  "find_number U None (heard_text U text) = Some run \<Longrightarrow> number_value U run = 0 \<Longrightarrow> length run \<le> 4300
    \<Longrightarrow> extract_voice_intent U text = Inl (Exc PyValidationError ''quantity'')"
  by (simp add: extract_voice_intent_def heard_text_def spoken_quantity_def bindE_def Let_def)

lemma heard_ascii:
  "heard_text U (ascii ''badal do'') = ascii ''badal do''"
  "heard_text U (ascii ''Please do not approve it'') = ascii ''please do not approve it''"
  by (simp_all add: heard_text_def ustrip_def ulower_def ascii_def lower_char_def space_char_def)

lemma change_it_means_two:
  "extract_voice_intent U (ascii ''badal do'') = Inr \<lparr>vi_intent = MODIFY_ACTIVE_PROPOSAL, vi_quantity = Some 2, vi_unit = None,
     vi_sku_hint = None, vi_explicit_confirmation = True, vi_raw_text = ascii ''badal do''\<rparr>"
proof -
  let ?t = "ascii ''badal do''"
  have q: "word_quantity U ?t = Some 2" unfolding word_quantity_def number_words_def by (simp add: text_simps)
  have n: "find_number U None ?t = None" by (simp add: text_simps digit_char_def)
  have "\<not> says U ?t approve_words" "\<not> says U ?t reject_words" "says U ?t modify_words" "\<not> says U ?t unit_words" "\<not> says U ?t sku_words"
    unfolding says_def match_word_def approve_words_def reject_words_def modify_words_def unit_words_def sku_words_def
    by (simp_all add: text_simps)
  then show ?thesis
    by (simp add: extract_voice_intent_def heard_ascii [unfolded heard_text_def] spoken_quantity_def n q bindE_def voice_intent_of_def
        decisions_def)
qed

lemma refusal_says: "says U (heard_text U (ascii ''Please do not approve it'')) approve_words"
  unfolding heard_ascii says_def match_word_def approve_words_def by (simp add: text_simps)

lemma refusal_approves:
  "\<exists>x. extract_voice_intent U (ascii ''Please do not approve it'') = Inr x \<and> vi_intent x = APPROVE_ACTIVE_PROPOSAL"
proof -
  let ?t = "ascii ''please do not approve it''"
  have q: "word_quantity U ?t = Some 2" unfolding word_quantity_def number_words_def by (simp add: text_simps)
  have n: "find_number U None ?t = None" by (simp add: text_simps digit_char_def)
  with refusal_says show ?thesis
    by (simp add: extract_voice_intent_def heard_ascii [unfolded heard_text_def] spoken_quantity_def n q bindE_def voice_intent_of_def
        heard_text_def Let_def)
qed

section \<open>What is spoken is clean\<close>

lemma in_dropWhile: "c \<in> set (dropWhile P t) \<Longrightarrow> c \<in> set t"
  by (induction t) (auto split: if_splits)

lemma set_squeeze: "set (squeeze P n out t) \<subseteq> set t \<union> set out"
  by (induction P n out t rule: squeeze.induct) (auto simp: Let_def dest: set_takeWhileD in_dropWhile)

lemma set_strip_bullets: "set (strip_bullets U l t) \<subseteq> set t"
proof (induction U l t rule: strip_bullets.induct)
  case (2 U l c cs)
  obtain d where d: "dropWhile (space_char U) (c # cs) = d" by simp
  then have sub: "set d \<subseteq> set (c # cs)" by (metis in_dropWhile subsetI)
  show ?case
  proof (cases d)
    case Nil
    from 2(1) [OF d [unfolded Nil]] show ?thesis
      unfolding strip_bullets.simps(2) d [unfolded Nil] list.case by auto
  next
    case (Cons b after)
    with sub have "set (dropWhile (space_char U) after) \<subseteq> set (c # cs)" by (auto dest: in_dropWhile)
    with 2(2) [OF d [unfolded Cons] _ refl] 2(3) [OF d [unfolded Cons]] show ?thesis
      unfolding strip_bullets.simps(2) d [unfolded Cons] list.case Let_def by (auto split: if_splits)
  qed
qed simp

lemma set_ustrip: "set (ustrip U t) \<subseteq> set t"
  by (auto simp: ustrip_def dest!: in_dropWhile)

lemma speech_chars:
  assumes "c \<in> set (clean_text_for_natural_voice U t)"
  shows "\<not> urdu_char c \<and> c \<notin> {35, 42, 58, 59, 95, 96, 126}"
proof -
  let ?a = "filter (\<lambda>c. \<not> urdu_char c) (sanitize_urdu_to_hindi U t)"
  let ?b = "strip_bullets U True (filter (\<lambda>c. c \<notin> {42, 35, 95, 96, 126}) ?a)"
  let ?c = "squeeze (\<lambda>c. c = 45) 2 [32] (squeeze (\<lambda>c. c = 46) 2 [46] ?b)"
  let ?d = "map (\<lambda>c. if c = 59 \<or> c = 58 then 44 else c) ?c"
  have "c \<in> set (squeeze (space_char U) 1 [32] ?d)"
    using assms set_ustrip unfolding clean_text_for_natural_voice_def Let_def by blast
  then have "c = 32 \<or> c \<in> set ?d" using set_squeeze [of "space_char U" 1 "[32]" ?d] by auto
  then have cases: "c = 32 \<or> c = 44 \<or> c \<in> set ?c \<and> c \<noteq> 58 \<and> c \<noteq> 59" by (auto split: if_splits)
  have "set ?c \<subseteq> {32, 46} \<union> set ?b"
    using set_squeeze [of "\<lambda>c. c = 45" 2 "[32]"] set_squeeze [of "\<lambda>c. c = 46" 2 "[46]" ?b] by fastforce
  moreover have "set ?b \<subseteq> {c. \<not> urdu_char c} - {42, 35, 95, 96, 126}" using set_strip_bullets by fastforce
  ultimately show ?thesis using cases by (auto simp: urdu_char_def)
qed

lemma target_languages:
  "resolve_target_language t l \<in> set (map snd target_prefixes)"
proof -
  have a: "snd x \<in> set (map snd target_prefixes)" if "find P target_prefixes = Some x" for P x
    using that by (auto simp: find_Some_iff)
  have b: "snd (snd x) \<in> set (map snd target_prefixes)" if "find P target_scripts = Some x" for P x
  proof -
    from that have "x \<in> set target_scripts" by (auto simp: find_Some_iff)
    then show ?thesis by (auto simp: target_scripts_def target_prefixes_def)
  qed
  show ?thesis
    unfolding resolve_target_language_def Let_def
    by (auto split: option.splits prod.splits dest!: a b simp del: set_map) (auto simp: target_prefixes_def)
qed

end
