(* ===== verification/Munim.thy ===== *)
theory Munim
  imports Analytics Starts Inbox
begin

text \<open>
  What the assistant is told about a business: \<open>agents/munim_context.py\<close> gathers the facts that ground its answers,
  \<open>agents/munim_tools.py\<close> holds the tools, and the chat route of \<open>api/v1/agents.py\<close> picks tools by the words of the message.
  Every number is a float, written as the decimal of its text.  All of it only reads.  What a merchant is told depends on the
  merchant's own rows and on the directory of suppliers (\<open>assistant_sees_own_shop\<close>).
\<close>

section \<open>Facts\<close>

definition num :: "dec \<Rightarrow> json" where "num d = JNum (py_float d)"

definition opt_str :: "string option \<Rightarrow> json" where "opt_str v = opt_json JStr v"

definition id_json :: "uuid \<Rightarrow> json" where "id_json i = JStr (str_uuid i)"

definition stock_item :: "product_row \<times> inventory_row \<Rightarrow> dict" where
  "stock_item r = [(''name'', JStr (p_name (fst r))), (''sku'', JStr (p_sku (fst r))), (''unit'', JStr (p_unit (fst r))),
     (''quantity_on_hand'', num (inv_quantity_on_hand (snd r))), (''reorder_point'', num (inv_reorder_point (snd r)))]"

definition fullest_first :: "(product_row \<times> inventory_row) list \<Rightarrow> (product_row \<times> inventory_row) list" where
  "fullest_first rows = sort_key (\<lambda>r. - rat_of (inv_quantity_on_hand (snd r))) rows"

definition available_items :: "uuid \<Rightarrow> db \<Rightarrow> dict list" where
  "available_items m s = map stock_item (take 20 (fullest_first (with_product s (stock_rows m None s))))"

definition low_rows :: "uuid \<Rightarrow> db \<Rightarrow> (product_row \<times> inventory_row) list" where
  "low_rows m s = take 10 (lowest_first (with_product s (filter runs_low (stock_rows m None s))))"

definition low_item :: "product_row \<times> inventory_row \<Rightarrow> dict" where
  "low_item r = stock_item r @ [(''safety_stock'', JNum (Dec 0 1)),
     (''deficit'', num (dsub (inv_reorder_point (snd r)) (inv_quantity_on_hand (snd r))))]"

definition stock_events :: "uuid \<Rightarrow> db \<Rightarrow> (product_row \<times> inventory_event_row) list" where
  "stock_events m s = take 10 (sort_key (\<lambda>r. - created_at (snd r))
     (concat (map (\<lambda>v. map (\<lambda>p. (p, v)) (filter (\<lambda>p. row_id p = ie_product_id v) (t_products s)))
       (filter (\<lambda>v. ie_merchant_id v = m) (t_inventory_events s)))))"

definition stock_event_json :: "bool \<Rightarrow> product_row \<times> inventory_event_row \<Rightarrow> dict" where
  "stock_event_json with_unit r = [(''name'', JStr (p_name (fst r))), (''sku'', JStr (p_sku (fst r)))]
     @ (if with_unit then [(''unit'', JStr (p_unit (fst r)))] else [])
     @ [(''event_type'', JStr (ie_event_type (snd r))), (''quantity_delta'', num (ie_quantity_delta (snd r))),
        (''quantity_after'', num (ie_quantity_after (snd r))), (''source'', JStr (ie_source (snd r))),
        (''created_at'', JStr (isoformat (created_at (snd r))))]"

text \<open>The value of the stock: the lowest price of an active supplier, or what the merchant sold it for last.\<close>

definition unit_value :: "uuid \<Rightarrow> uuid \<Rightarrow> db \<Rightarrow> dec option" where
  "unit_value m product s = (case supplier_prices product s of
     x # xs \<Rightarrow> Some (foldl dmin x xs)
   | [] \<Rightarrow> (case sort_key (\<lambda>r. - sa_sold_at r) (filter (\<lambda>r. sa_merchant_id r = m \<and> sa_product_id r = product) (t_sales s)) of
        r # _ \<Rightarrow> Some (sa_unit_price r) | [] \<Rightarrow> None))"

definition stock_value :: "uuid \<Rightarrow> db \<Rightarrow> dec" where
  "stock_value m s = foldl (\<lambda>v i. case unit_value m (inv_product_id i) s of
       None \<Rightarrow> v | Some price \<Rightarrow> dadd v (dmul (inv_quantity_on_hand i) price)) (Dec 0 2) (stock_rows m None s)"

definition today_sales :: "uuid \<Rightarrow> db \<Rightarrow> sale_row list" where
  "today_sales m s = filter (\<lambda>x. sa_merchant_id x = m \<and> clock s - clock s mod day_us \<le> sa_sold_at x) (t_sales s)"

definition own_transactions :: "uuid \<Rightarrow> db \<Rightarrow> transaction_row list" where
  "own_transactions m s = sort_key (\<lambda>r. - created_at r) (filter (\<lambda>r. t_merchant_id r = m) (t_transactions s))"

definition transaction_sum :: "uuid \<Rightarrow> transaction_status \<Rightarrow> db \<Rightarrow> dec" where
  "transaction_sum m st s = dsum (map t_amount (filter (\<lambda>r. t_merchant_id r = m \<and> t_status r = st) (t_transactions s)))"

definition transaction_json :: "bool \<Rightarrow> transaction_row \<Rightarrow> dict" where
  "transaction_json with_currency r = [(''transaction_id'', id_json (row_id r)), (''order_id'', id_json (t_order_id r)),
     (''amount'', num (t_amount r))] @ (if with_currency then [(''currency'', JStr (t_currency r))] else [])
     @ [(''status'', JStr (transaction_status_str (t_status r))), (''created_at'', JStr (isoformat (created_at r)))]"

text \<open>A number of an approval's payload, which holds texts.\<close>

definition json_float :: "json \<Rightarrow> exc + dec" where
  "json_float v = (case v of
     JStr x \<Rightarrow> (case parse_dec x of Some d \<Rightarrow> Inr d | None \<Rightarrow> Inl (Exc PyValueError ''could not convert string to float''))
   | JInt n \<Rightarrow> Inr (Dec n 0) | JNum d \<Rightarrow> Inr d
   | JBool _ \<Rightarrow> Inl (Exc PyException ''InvalidOperation'')
   | _ \<Rightarrow> Inl (Exc PyTypeError ''float() argument must be a string or a real number''))"

definition payload_get :: "dict \<Rightarrow> string \<Rightarrow> json \<Rightarrow> json" where
  "payload_get d k v = (case dget d k of Some x \<Rightarrow> x | None \<Rightarrow> v)"

definition approval_fact :: "json \<Rightarrow> json \<Rightarrow> approval_row \<Rightarrow> exc + dict" where
  "approval_fact no_sku no_unit a =
     (let p = ap_proposal_payload a in
      bindE (json_float (payload_get p ''quantity'' (JInt 0))) (\<lambda>q. bindE (json_float (payload_get p ''unit_price'' (JInt 0))) (\<lambda>u. Inr
        [(''approval_id'', id_json (row_id a)), (''proposal_id'', id_json (ap_proposal_id a)),
         (''sku'', payload_get p ''sku'' no_sku), (''quantity'', num q), (''unit'', payload_get p ''unit'' no_unit),
         (''unit_price'', num u), (''total_amount'', num (dmul q u)), (''expires_at'', JStr (isoformat (as_utc (ap_expires_at a))))])))"

definition waiting_approvals :: "uuid \<Rightarrow> db \<Rightarrow> approval_row list" where
  "waiting_approvals m s =
     sort_key (\<lambda>a. - created_at a) (filter (\<lambda>a. ap_merchant_id a = m \<and> ap_status a = AS_PENDING) (t_approvals s))"

section \<open>The address of a store\<close>

fun first_true :: "dict \<Rightarrow> string list \<Rightarrow> json" where
  "first_true d [] = JNull"
| "first_true d [k] = payload_get d k JNull"
| "first_true d (k # ks) = (if json_truthy (dget d k) then payload_get d k JNull else first_true d ks)"

definition store_city :: "store_row \<Rightarrow> json" where "store_city x = first_true (st_address x) [''city'']"
definition store_state :: "store_row \<Rightarrow> json" where "store_state x = first_true (st_address x) [''state'']"
definition store_pincode :: "store_row \<Rightarrow> json" where "store_pincode x = first_true (st_address x) [''pincode'', ''postal_code'']"
definition store_line1 :: "store_row \<Rightarrow> json" where
  "store_line1 x = first_true (st_address x) [''address_line1'', ''street'', ''flat'']"

definition joined_text :: "json list \<Rightarrow> exc + string" where
  "joined_text vs = bindE (mapE (\<lambda>v. case v of JStr x \<Rightarrow> Inr x | _ \<Rightarrow> Inl (Exc PyTypeError ''sequence item: expected str instance'')) vs)
     (\<lambda>xs. Inr (join '', '' xs))"

definition store_address :: "store_row option \<Rightarrow> exc + string" where
  "store_address found = (case found of None \<Rightarrow> Inr ''Address not registered'' | Some x \<Rightarrow>
     let parts = filter (\<lambda>v. json_truthy (Some v)) [store_line1 x, store_city x, store_state x];
         pin = store_pincode x in
     if parts \<noteq> [] \<and> json_truthy (Some pin) then bindE (joined_text parts) (\<lambda>p. Inr (p @ '' - '' @ py_str pin))
     else if parts \<noteq> [] then joined_text parts
     else if json_truthy (Some pin) then Inr (''PIN '' @ py_str pin) else Inr ''Address not registered'')"

section \<open>The context of a merchant\<close>

definition own_store :: "uuid \<Rightarrow> db \<Rightarrow> store_row option" where
  "own_store m s = find (\<lambda>x. st_merchant_id x = m) (t_stores s)"

definition settlement_facts :: "uuid \<Rightarrow> db \<Rightarrow> dict" where
  "settlement_facts m s =
     (let rows = latest_settlements m s; processing = in_status ''PROCESSING'' rows; settled = in_status ''SETTLED'' rows;
          shown = (case processing of Some r \<Rightarrow> Some r | None \<Rightarrow> settled);
          amount = (\<lambda>r. case r of Some q \<Rightarrow> num (se_amount q) | None \<Rightarrow> JNum (Dec 0 1)) in
      [(''expected_settlement'', amount processing), (''yesterday_settled'', amount settled),
       (''bank_name'', JStr (case shown of Some r \<Rightarrow> se_bank_name r | None \<Rightarrow> ''HDFC Bank'')),
       (''account_ending'', JStr (case shown of Some r \<Rightarrow> se_account_ending r | None \<Rightarrow> ''4921''))])"

definition supplier_fact :: "supplier_row \<Rightarrow> dict" where
  "supplier_fact v = [(''id'', id_json (row_id v)), (''name'', JStr (s_name v)), (''city'', JStr (or_else (s_city v) ''Local'')),
     (''category'', JStr (or_else (s_category v) ''General FMCG'')), (''trust_score'', num (shown_trust (s_trust_score v)))]"

definition merchant_context :: "uuid \<Rightarrow> db \<Rightarrow> exc + dict" where
  "merchant_context m s =
     (let me = by_id m (t_merchants s); low = low_rows m s; sold = today_sales m s; customers = filter (\<lambda>c. cu_merchant_id c = m) (t_customers s) in
      bindE (store_address (own_store m s)) (\<lambda>address.
      bindE (mapE (approval_fact (JStr ''Unknown'') (JStr ''units'')) (take 5 (waiting_approvals m s))) (\<lambda>waiting. Inr (
        [(''account_type'', JStr ''merchant''), (''business_name'', JStr (case me of Some r \<Rightarrow> m_name r | None \<Rightarrow> ''Merchant'')),
         (''currency'', JStr (merchant_currency m s)),
         (''gstin'', opt_str (Option.bind me m_gstin)), (''pan'', opt_str (Option.bind me m_pan)),
         (''business_type'', JStr (case me of Some r \<Rightarrow> text_or (m_business_type r) ''Kirana / Retail'' | None \<Rightarrow> ''Kirana / Retail'')),
         (''store_address'', JStr address),
         (''total_products'', JInt (int (length (filter (\<lambda>p. p_merchant_id p = m) (t_products s))))),
         (''total_inventory_value'', num (stock_value m s)),
         (''inventory_items'', JArr (map JObj (available_items m s))), (''available_items'', JArr (map JObj (available_items m s))),
         (''recent_inventory_events'', JArr (map (JObj \<circ> stock_event_json True) (stock_events m s))),
         (''low_stock_count'', JInt (int (length low))), (''low_stock_items'', JArr (map (JObj \<circ> low_item) low)),
         (''today_sales_amount'', num (dsum (map sale_value sold))), (''today_sales_count'', JInt (int (length sold))),
         (''transaction_count'', JInt (int (length (own_transactions m s)))),
         (''successful_transaction_amount'', num (transaction_sum m TS_SUCCEEDED s)),
         (''pending_transaction_amount'', num (transaction_sum m TS_PENDING s)),
         (''recent_transactions'', JArr (map (JObj \<circ> transaction_json True) (take 10 (own_transactions m s)))),
         (''total_customers'', JInt (int (length customers))),
         (''top_customers'', JArr (map (\<lambda>c. JObj [(''name'', JStr (customer_row.cu_name c)), (''phone'', JStr (cu_phone_number c)),
             (''total_spent'', num (cu_total_spent c))]) (take 3 (sort_key (\<lambda>c. - rat_of (cu_total_spent c)) customers))))]
        @ settlement_facts m s
        @ [(''pending_approvals'', JArr (map JObj waiting)),
           (''suppliers'', JArr (map (JObj \<circ> supplier_fact) (take 5
              (filter (\<lambda>v. s_is_active v \<and> (s_merchant_id v = Some m \<or> s_merchant_id v = None)) (t_suppliers s)))))]))))"

section \<open>The context of a supplier\<close>

definition supplier_orders_of :: "uuid \<Rightarrow> nat \<Rightarrow> db \<Rightarrow> order_row list" where
  "supplier_orders_of i n s = take n (sort_key (\<lambda>y. - created_at y) (filter (\<lambda>y. o_supplier_id y = i) (t_orders s)))"

definition incoming_fact :: "string \<Rightarrow> db \<Rightarrow> order_row \<Rightarrow> dict" where
  "incoming_fact unnamed s y = [(''order_id'', id_json (row_id y)),
     (''merchant_name'', JStr (case by_id (o_merchant_id y) (t_merchants s) of Some r \<Rightarrow> m_name r | None \<Rightarrow> unnamed)),
     (''total_amount'', num (o_total_amount y)), (''status'', JStr (order_status_str (o_status y))),
     (''created_at'', JStr (isoformat (created_at y)))]"

definition supplied_rows :: "uuid \<Rightarrow> db \<Rightarrow> product_view list" where
  "supplied_rows i s = concat (map (\<lambda>x. map (\<lambda>p. \<lparr>pv_item = x, pv_product = p\<rparr>) (filter (\<lambda>p. row_id p = sp_product_id x) (t_products s)))
     (filter (\<lambda>x. sp_supplier_id x = i) (t_supplier_products s)))"

definition catalog_fact :: "product_view \<Rightarrow> dict" where
  "catalog_fact v = [(''name'', JStr (p_name (pv_product v))), (''sku'', JStr (p_sku (pv_product v))),
     (''supplier_sku'', JStr (sp_supplier_sku (pv_item v))), (''unit'', JStr (p_unit (pv_product v))),
     (''price'', num (sp_unit_price (pv_item v))), (''available_quantity'', num (sp_available_quantity (pv_item v))),
     (''lead_time_days'', JInt (sp_lead_time_days (pv_item v)))]"

text \<open>A merchant without a supplier row is taken for the supplier that has the merchant's name.\<close>

definition context_supplier :: "uuid \<Rightarrow> db \<Rightarrow> supplier_row option" where
  "context_supplier m s = (case account_supplier m s of Some v \<Rightarrow> Some v
     | None \<Rightarrow> find (\<lambda>v. s_name v = (case by_id m (t_merchants s) of Some r \<Rightarrow> m_name r | None \<Rightarrow> ''Supplier'')) (t_suppliers s))"

definition supplier_context :: "uuid \<Rightarrow> db \<Rightarrow> dict" where
  "supplier_context m s =
     (let found = context_supplier m s;
          orders = (case found of None \<Rightarrow> [] | Some v \<Rightarrow> supplier_orders_of (row_id v) 5 s) in
      [(''account_type'', JStr ''supplier''), (''business_name'', JStr (case found of Some v \<Rightarrow> s_name v | None \<Rightarrow> ''Supplier Hub'')),
       (''city'', JStr (case found of Some v \<Rightarrow> or_else (s_city v) ''Bengaluru'' | None \<Rightarrow> ''Bengaluru'')),
       (''category'', JStr (case found of Some v \<Rightarrow> or_else (s_category v) ''FMCG Distribution'' | None \<Rightarrow> ''FMCG Distribution'')),
       (''gstin'', opt_str (Option.bind found s_gstin)),
       (''trust_score'', num (case found of Some v \<Rightarrow> shown_trust (s_trust_score v) | None \<Rightarrow> Dec 95 2)),
       (''catalog_items'', JArr (case found of None \<Rightarrow> [] | Some v \<Rightarrow> map (JObj \<circ> catalog_fact) (take 10 (supplied_rows (row_id v) s)))),
       (''incoming_orders'', JArr (map (JObj \<circ> incoming_fact ''Kirana Store'' s) orders)),
       (''pending_orders_count'', JInt (int (length (filter (\<lambda>y. o_status y \<in> {OS_APPROVAL_PENDING, OS_PROPOSED}) orders))))])"

definition business_context :: "uuid \<Rightarrow> string \<Rightarrow> db \<Rightarrow> exc + dict" where
  "business_context m role s = (if role = ''supplier'' then Inr (supplier_context m s) else merchant_context m s)"

section \<open>The tools\<close>

definition business_profile :: "string \<Rightarrow> uuid \<Rightarrow> db \<Rightarrow> dict" where
  "business_profile role m s =
     (let me = by_id m (t_merchants s); store = own_store m s; place = (\<lambda>f. case store of Some x \<Rightarrow> f x | None \<Rightarrow> JNull) in
      [(''business_name'', JStr (case me of Some r \<Rightarrow> m_name r | None \<Rightarrow> ''My Business'')), (''role'', JStr role),
       (''legal_name'', JStr (case me of Some r \<Rightarrow> m_name r | None \<Rightarrow> [])),
       (''gstin'', opt_str (Option.bind me m_gstin)), (''pan'', opt_str (Option.bind me m_pan)),
       (''business_type'', JStr (case me of Some r \<Rightarrow> m_business_type r | None \<Rightarrow> ''retail'')),
       (''city'', place store_city), (''state'', place store_state), (''pincode'', place store_pincode), (''address'', place store_line1),
       (''currency'', JStr (case me of Some r \<Rightarrow> m_currency r | None \<Rightarrow> ''INR''))])"

definition inventory_summary :: "uuid \<Rightarrow> db \<Rightarrow> dict" where
  "inventory_summary m s =
     [(''total_products'', JInt (int (length (filter (\<lambda>p. p_merchant_id p = m) (t_products s))))),
      (''available_items'', JArr (map JObj (available_items m s))), (''items'', JArr (map JObj (available_items m s))),
      (''low_stock_count'', JInt (int (length (low_rows m s)))), (''low_stock_items'', JArr (map (JObj \<circ> stock_item) (low_rows m s))),
      (''recent_inventory_events'', JArr (map (JObj \<circ> stock_event_json False) (stock_events m s)))]"

definition transaction_summary :: "uuid \<Rightarrow> db \<Rightarrow> dict" where
  "transaction_summary m s =
     [(''transaction_count'', JInt (int (length (own_transactions m s)))),
      (''successful_amount'', num (transaction_sum m TS_SUCCEEDED s)), (''pending_amount'', num (transaction_sum m TS_PENDING s)),
      (''recent_transactions'', JArr (map (JObj \<circ> transaction_json False) (take 20 (own_transactions m s))))]"

definition sales_summary :: "uuid \<Rightarrow> db \<Rightarrow> dict" where
  "sales_summary m s = [(''today_sales_amount'', num (dsum (map sale_value (today_sales m s)))),
     (''today_transactions'', JInt (int (length (today_sales m s)))), (''currency'', JStr ''INR'')]"

definition settlement_summary :: "uuid \<Rightarrow> db \<Rightarrow> dict" where
  "settlement_summary m s =
     (let rows = latest_settlements m s; processing = in_status ''PROCESSING'' rows; settled = in_status ''SETTLED'' rows;
          shown = (case processing of Some r \<Rightarrow> Some r | None \<Rightarrow> settled); paid = (case settled of Some r \<Rightarrow> Some r | None \<Rightarrow> processing);
          amount = (\<lambda>r. case r of Some q \<Rightarrow> num (se_amount q) | None \<Rightarrow> JNum (Dec 0 1)) in
      [(''expected_today'', amount processing), (''yesterday_settled'', amount settled),
       (''status'', JStr (case processing of Some r \<Rightarrow> se_status r | None \<Rightarrow> ''Settled'')),
       (''bank_name'', JStr (case shown of Some r \<Rightarrow> se_bank_name r | None \<Rightarrow> ''HDFC Bank'')),
       (''account_ending'', JStr (case shown of Some r \<Rightarrow> se_account_ending r | None \<Rightarrow> ''4921'')),
       (''utr'', (case paid of Some r \<Rightarrow> opt_str (se_utr r) | None \<Rightarrow> JStr ''PAYTMUTR000000''))])"

definition has_text :: "string \<Rightarrow> string option \<Rightarrow> bool" where
  "has_text q v = (case v of None \<Rightarrow> False | Some x \<Rightarrow> ilike (''%'' @ q @ ''%'') x)"

definition search_suppliers :: "string option \<Rightarrow> string option \<Rightarrow> db \<Rightarrow> dict list" where
  "search_suppliers search city s = map (\<lambda>v. [(''id'', id_json (row_id v)), (''name'', JStr (s_name v)), (''city'', opt_str (s_city v)),
       (''category'', opt_str (s_category v)), (''trust_score'', num (shown_trust (s_trust_score v))),
       (''phone_number'', opt_str (s_phone_number v))])
     (take 10 (filter (\<lambda>v. s_is_active v
        \<and> (truthy search \<longrightarrow> has_text (the search) (Some (s_name v)) \<or> has_text (the search) (s_category v))
        \<and> (truthy city \<longrightarrow> has_text (the city) (s_city v))) (t_suppliers s)))"

definition compare_supplier_prices :: "uuid \<Rightarrow> string \<Rightarrow> db \<Rightarrow> dict list" where
  "compare_supplier_prices m sku s = (case find (\<lambda>p. p_merchant_id p = m \<and> p_sku p = sku) (t_products s) of None \<Rightarrow> [] | Some p \<Rightarrow>
     map (\<lambda>(x, v). [(''supplier_name'', JStr (s_name v)), (''supplier_id'', id_json (row_id v)), (''unit_price'', num (sp_unit_price x)),
         (''available_quantity'', num (sp_available_quantity x)), (''lead_time_days'', JInt (sp_lead_time_days x)),
         (''trust_score'', num (shown_trust (s_trust_score v)))])
       (sort_key (\<lambda>r. rat_of (sp_unit_price (fst r))) (concat (map (\<lambda>x. map (\<lambda>v. (x, v))
          (filter (\<lambda>v. row_id v = sp_supplier_id x \<and> s_is_active v) (t_suppliers s)))
          (filter (\<lambda>x. sp_product_id x = row_id p) (t_supplier_products s))))))"

definition pending_facts :: "uuid \<Rightarrow> db \<Rightarrow> exc + dict list" where
  "pending_facts m s = mapE (approval_fact JNull JNull) (waiting_approvals m s)"

definition supplier_catalog :: "uuid \<Rightarrow> db \<Rightarrow> dict list" where
  "supplier_catalog m s = (case account_supplier m s of None \<Rightarrow> [] | Some v \<Rightarrow>
     map (\<lambda>r. [(''product_name'', JStr (p_name (pv_product r))), (''sku'', JStr (p_sku (pv_product r))),
        (''unit'', JStr (p_unit (pv_product r))), (''unit_price'', num (sp_unit_price (pv_item r))),
        (''available_quantity'', num (sp_available_quantity (pv_item r))), (''lead_time_days'', JInt (sp_lead_time_days (pv_item r)))])
       (supplied_rows (row_id v) s))"

definition incoming_orders :: "uuid \<Rightarrow> db \<Rightarrow> dict list" where
  "incoming_orders m s = (case account_supplier m s of None \<Rightarrow> [] | Some v \<Rightarrow>
     map (incoming_fact ''Store'' s) (supplier_orders_of (row_id v) 20 s))"

section \<open>The chat\<close>

definition mentions :: "string \<Rightarrow> string list \<Rightarrow> bool" where
  "mentions text ws \<longleftrightarrow> (\<exists>w \<in> set ws. contains text w)"

definition chat_tools :: "string \<Rightarrow> uuid \<Rightarrow> string \<Rightarrow> db \<Rightarrow> exc + (string \<times> json) list" where
  "chat_tools role m text s =
     (let tell = (\<lambda>words name v. if mentions (lower text) words then [(name, v)] else []);
          facts = tell [''profile'', ''gst'', ''pan'', ''address'', ''dukaan''] ''get_business_profile'' (JObj (business_profile role m s))
            @ tell [''stock'', ''inventory'', ''maal'', ''reorder'', ''scan'', ''receipt'', ''bill''] ''get_inventory_summary''
                (JObj (inventory_summary m s))
            @ tell [''sale'', ''bikri'', ''revenue'', ''kamaai'', ''aaj''] ''get_sales_report'' (JObj (sales_summary m s))
            @ tell [''settlement'', ''bank'', ''khata'', ''utr''] ''get_settlements'' (JObj (settlement_summary m s))
            @ (if role \<noteq> ''supplier'' then tell [''transaction'', ''payment'', ''purchase'', ''kharcha'', ''order'']
                 ''get_transaction_summary'' (JObj (transaction_summary m s)) else [])
            @ tell [''supplier'', ''distributor'', ''dealer''] ''search_suppliers'' (JArr (map JObj (search_suppliers None None s))) in
      if \<not> mentions (lower text) [''approval'', ''proposal'', ''order''] then Inr facts
      else if role = ''supplier'' then Inr (facts @ [(''get_incoming_orders'', JArr (map JObj (incoming_orders m s)))])
      else bindE (pending_facts m s) (\<lambda>as. Inr (facts @ [(''get_pending_approvals'', JArr (map JObj as))])))"

text \<open>The words of the answer (the language model's, or the fallback's when it fails) are the argument \<open>answer\<close>.\<close>

definition chat_with_munim ::
  "(string \<Rightarrow> (string \<times> json) list \<Rightarrow> dict \<Rightarrow> string) \<Rightarrow> principal \<Rightarrow> string \<Rightarrow> db \<Rightarrow> exc + string \<times> (string \<times> json) list \<times> dict" where
  "chat_with_munim answer p text s =
     bindE (business_context (pl_merchant_id p) (pl_role p) s) (\<lambda>facts.
     bindE (chat_tools (pl_role p) (pl_merchant_id p) text s) (\<lambda>tools.
       Inr (answer text tools facts, tools, facts)))"

section \<open>The assistant sees its own shop only\<close>

definition same_shop :: "uuid \<Rightarrow> db \<Rightarrow> db \<Rightarrow> bool" where
  "same_shop m s t \<longleftrightarrow> clock s = clock t \<and> t_suppliers s = t_suppliers t \<and> t_supplier_products s = t_supplier_products t
     \<and> by_id m (t_merchants s) = by_id m (t_merchants t)
     \<and> filter (\<lambda>r. st_merchant_id r = m) (t_stores s) = filter (\<lambda>r. st_merchant_id r = m) (t_stores t)
     \<and> filter (\<lambda>r. p_merchant_id r = m) (t_products s) = filter (\<lambda>r. p_merchant_id r = m) (t_products t)
     \<and> filter (\<lambda>r. inv_merchant_id r = m) (t_inventory s) = filter (\<lambda>r. inv_merchant_id r = m) (t_inventory t)
     \<and> filter (\<lambda>r. ie_merchant_id r = m) (t_inventory_events s) = filter (\<lambda>r. ie_merchant_id r = m) (t_inventory_events t)
     \<and> filter (\<lambda>r. sa_merchant_id r = m) (t_sales s) = filter (\<lambda>r. sa_merchant_id r = m) (t_sales t)
     \<and> filter (\<lambda>r. cu_merchant_id r = m) (t_customers s) = filter (\<lambda>r. cu_merchant_id r = m) (t_customers t)
     \<and> filter (\<lambda>r. ap_merchant_id r = m) (t_approvals s) = filter (\<lambda>r. ap_merchant_id r = m) (t_approvals t)
     \<and> filter (\<lambda>r. t_merchant_id r = m) (t_transactions s) = filter (\<lambda>r. t_merchant_id r = m) (t_transactions t)
     \<and> filter (\<lambda>r. se_merchant_id r = m) (t_settlements s) = filter (\<lambda>r. se_merchant_id r = m) (t_settlements t)"

definition product_keys :: "uuid \<Rightarrow> db \<Rightarrow> uuid list" where
  "product_keys m s = map inv_product_id (filter (\<lambda>i. inv_merchant_id i = m) (t_inventory s))
     @ map ie_product_id (filter (\<lambda>v. ie_merchant_id v = m) (t_inventory_events s))"

text \<open>What a merchant stocks, or has ever stocked, are products of its own.\<close>

definition own_products :: "uuid \<Rightarrow> db \<Rightarrow> bool" where
  "own_products m s \<longleftrightarrow> (\<forall>p \<in> set (t_products s). row_id p \<in> set (product_keys m s) \<longrightarrow> p_merchant_id p = m)"

lemma filter_own:
  "filter A xs = filter A ys \<Longrightarrow> filter (\<lambda>r. A r \<and> Q r) xs = filter (\<lambda>r. A r \<and> Q r) ys"
  by (metis (no_types, lifting) filter_cong filter_filter)

lemma find_filter: "find P xs = (case filter P xs of [] \<Rightarrow> None | x # _ \<Rightarrow> Some x)"
  by (induction xs) auto

lemma products_of_own:
  assumes "filter (\<lambda>p. p_merchant_id p = m) (t_products s) = filter (\<lambda>p. p_merchant_id p = m) (t_products t)"
    and "\<forall>p \<in> set (t_products s). row_id p = k \<longrightarrow> p_merchant_id p = m"
    and "\<forall>p \<in> set (t_products t). row_id p = k \<longrightarrow> p_merchant_id p = m"
  shows "filter (\<lambda>p. row_id p = k) (t_products s) = filter (\<lambda>p. row_id p = k) (t_products t)"
proof -
  have own: "filter (\<lambda>p. row_id p = k) (t_products u) = filter (\<lambda>p. p_merchant_id p = m \<and> row_id p = k) (t_products u)"
    if "\<forall>p \<in> set (t_products u). row_id p = k \<longrightarrow> p_merchant_id p = m" for u
    using that by (auto intro!: filter_cong)
  show ?thesis unfolding own [OF assms(2)] own [OF assms(3)] by (rule filter_own [OF assms(1)])
qed

lemma same_queries:
  assumes "same_shop m s t"
  shows "filter (\<lambda>r. sa_merchant_id r = m \<and> Q r) (t_sales s) = filter (\<lambda>r. sa_merchant_id r = m \<and> Q r) (t_sales t)"
    and "filter (\<lambda>r. ap_merchant_id r = m \<and> A r) (t_approvals s) = filter (\<lambda>r. ap_merchant_id r = m \<and> A r) (t_approvals t)"
    and "filter (\<lambda>r. t_merchant_id r = m \<and> T r) (t_transactions s) = filter (\<lambda>r. t_merchant_id r = m \<and> T r) (t_transactions t)"
  using assms by (auto simp: same_shop_def intro!: filter_own)

lemma same_rows:
  assumes same: "same_shop m s t"
  shows "stock_rows m None s = stock_rows m None t" "today_sales m s = today_sales m t" "own_transactions m s = own_transactions m t"
    "transaction_sum m st s = transaction_sum m st t" "latest_settlements m s = latest_settlements m t"
    "waiting_approvals m s = waiting_approvals m t" "own_store m s = own_store m t" "merchant_currency m s = merchant_currency m t"
    "supplier_prices k s = supplier_prices k t" "unit_value m k s = unit_value m k t"
    "search_suppliers q c s = search_suppliers q c t"
proof -
  have tables: "clock s = clock t" "t_suppliers s = t_suppliers t" "t_supplier_products s = t_supplier_products t"
    "by_id m (t_merchants s) = by_id m (t_merchants t)"
    "filter (\<lambda>r. st_merchant_id r = m) (t_stores s) = filter (\<lambda>r. st_merchant_id r = m) (t_stores t)"
    "filter (\<lambda>r. inv_merchant_id r = m) (t_inventory s) = filter (\<lambda>r. inv_merchant_id r = m) (t_inventory t)"
    "filter (\<lambda>r. t_merchant_id r = m) (t_transactions s) = filter (\<lambda>r. t_merchant_id r = m) (t_transactions t)"
    "filter (\<lambda>r. se_merchant_id r = m) (t_settlements s) = filter (\<lambda>r. se_merchant_id r = m) (t_settlements t)"
    using same by (simp_all add: same_shop_def)
  show prices: "supplier_prices k s = supplier_prices k t" by (simp only: supplier_prices_def tables)
  show "unit_value m k s = unit_value m k t" by (simp only: unit_value_def prices same_queries [OF same])
  show "stock_rows m None s = stock_rows m None t" using tables(6) by (simp add: stock_rows_def opt_is_def)
  show "own_store m s = own_store m t" by (simp only: own_store_def find_filter tables)
qed (use same in \<open>simp_all only: today_sales_def own_transactions_def transaction_sum_def latest_settlements_def waiting_approvals_def
    merchant_currency_def search_suppliers_def same_queries [OF same] same_shop_def\<close>)

lemma same_joined:
  assumes same: "same_shop m s t" and own: "own_products m s" "own_products m t"
  shows "set rows \<subseteq> set (stock_rows m None s) \<Longrightarrow> with_product s rows = with_product t rows"
    and "stock_events m s = stock_events m t"
proof -
  have keys: "product_keys m s = product_keys m t" using same by (simp add: product_keys_def same_shop_def)
  have products: "filter (\<lambda>p. row_id p = k) (t_products s) = filter (\<lambda>p. row_id p = k) (t_products t)"
    if "k \<in> set (product_keys m s)" for k
    by (rule products_of_own [of m]) (use same own keys that in \<open>auto simp: same_shop_def own_products_def\<close>)
  show "with_product s rows = with_product t rows" if "set rows \<subseteq> set (stock_rows m None s)"
    unfolding with_product_def using that
    by (intro arg_cong [where f = concat] map_cong refl products) (auto simp: stock_rows_def product_keys_def)
  have "filter (\<lambda>v. ie_merchant_id v = m) (t_inventory_events s) = filter (\<lambda>v. ie_merchant_id v = m) (t_inventory_events t)"
    using same by (simp add: same_shop_def)
  then have "map (\<lambda>v. map (\<lambda>p. (p, v)) (filter (\<lambda>p. row_id p = ie_product_id v) (t_products s))) (filter (\<lambda>v. ie_merchant_id v = m) (t_inventory_events s))
      = map (\<lambda>v. map (\<lambda>p. (p, v)) (filter (\<lambda>p. row_id p = ie_product_id v) (t_products t))) (filter (\<lambda>v. ie_merchant_id v = m) (t_inventory_events t))"
    by (intro map_cong arg_cong [where f = "map _"] products) (auto simp: product_keys_def)
  then show "stock_events m s = stock_events m t" by (simp add: stock_events_def)
qed

lemma same_facts:
  assumes same: "same_shop m s t" and own: "own_products m s" "own_products m t"
  shows "available_items m s = available_items m t" "low_rows m s = low_rows m t" "stock_value m s = stock_value m t"
proof -
  note rows = same_rows [OF same]
  have "with_product s (stock_rows m None s) = with_product t (stock_rows m None t)"
    using same_joined(1) [OF assms, of "stock_rows m None s"] by (simp add: rows(1))
  then show "available_items m s = available_items m t" by (simp add: available_items_def)
  have "with_product s (filter runs_low (stock_rows m None s)) = with_product t (filter runs_low (stock_rows m None t))"
    using same_joined(1) [OF assms, of "filter runs_low (stock_rows m None s)"] by (simp add: rows(1))
  then show "low_rows m s = low_rows m t" by (simp add: low_rows_def)
  show "stock_value m s = stock_value m t" by (simp add: stock_value_def rows(1,10))
qed

lemma same_context:
  assumes same: "same_shop m s t" and own: "own_products m s" "own_products m t"
  shows "merchant_context m s = merchant_context m t"
proof -
  have tables: "by_id m (t_merchants s) = by_id m (t_merchants t)"
    "filter (\<lambda>c. cu_merchant_id c = m) (t_customers s) = filter (\<lambda>c. cu_merchant_id c = m) (t_customers t)"
    "filter (\<lambda>p. p_merchant_id p = m) (t_products s) = filter (\<lambda>p. p_merchant_id p = m) (t_products t)"
    "t_suppliers s = t_suppliers t"
    using same by (simp_all add: same_shop_def)
  show ?thesis
    unfolding merchant_context_def settlement_facts_def
    by (simp only: tables same_rows [OF same] same_facts [OF assms] same_joined(2) [OF assms])
qed

lemma same_tools:
  assumes same: "same_shop m s t" and own: "own_products m s" "own_products m t" and role: "role \<noteq> ''supplier''"
  shows "chat_tools role m text s = chat_tools role m text t"
proof -
  have tables: "by_id m (t_merchants s) = by_id m (t_merchants t)"
    "filter (\<lambda>p. p_merchant_id p = m) (t_products s) = filter (\<lambda>p. p_merchant_id p = m) (t_products t)"
    using same by (simp_all add: same_shop_def)
  have "business_profile role m s = business_profile role m t" "inventory_summary m s = inventory_summary m t"
    "sales_summary m s = sales_summary m t" "settlement_summary m s = settlement_summary m t"
    "transaction_summary m s = transaction_summary m t" "pending_facts m s = pending_facts m t"
    unfolding business_profile_def inventory_summary_def sales_summary_def settlement_summary_def transaction_summary_def
      pending_facts_def
    by (simp_all only: tables same_rows [OF same] same_facts [OF assms(1,2,3)] same_joined(2) [OF assms(1,2,3)])
  then show ?thesis
    using role by (simp add: chat_tools_def same_rows(11) [OF same])
qed

lemma chat_reads_own_shop:
  assumes "same_shop (pl_merchant_id p) s t" and "own_products (pl_merchant_id p) s" "own_products (pl_merchant_id p) t"
    and "pl_role p \<noteq> ''supplier''"
  shows "chat_with_munim answer p text s = chat_with_munim answer p text t"
  using same_context [OF assms(1-3)] same_tools [OF assms] assms(4) by (simp add: chat_with_munim_def business_context_def)

section \<open>A name is enough\<close>

lemma name_shows_supplier:
  assumes "account_supplier m s = None" and "by_id m (t_merchants s) = Some r"
    and "find (\<lambda>v. s_name v = m_name r) (t_suppliers s) = Some v"
  shows "dget (supplier_context m s) ''incoming_orders''
      = Some (JArr (map (JObj \<circ> incoming_fact ''Kirana Store'' s) (supplier_orders_of (row_id v) 5 s)))"
  using assms by (simp add: supplier_context_def context_supplier_def dget_def Let_def)

end
