(* ===== verification/Realtime.thy ===== *)
theory Realtime
  imports Events
begin

text \<open>
  From Redis to the sockets of a merchant: \<open>infrastructure/events/realtime.py\<close> reads the published events back and hands them
  to the hub of \<open>api/v1/websocket.py\<close>, which keeps the sockets of every merchant.  The sockets are a parameter: \<open>send\<close> is
  \<open>socket.send_json\<close>, which may raise.
\<close>

section \<open>The hub\<close>

text \<open>\<open>sockets\<close> is the \<open>defaultdict(set)\<close> of the connections, a set listed in the order in which it is iterated; \<open>wire\<close> is
  what the sockets have taken.\<close>

record ('k, 'n) room =
  sockets :: "uuid \<Rightarrow> 'k list"
  wire :: "('k \<times> dict) list"
  net :: 'n

type_synonym ('k, 'n) sender = "'k \<Rightarrow> dict \<Rightarrow> 'n \<Rightarrow> (exc + unit) \<times> 'n"

definition on_net :: "('n \<Rightarrow> (exc + 'a) \<times> 'n) \<Rightarrow> (('k, 'n) room, exc, 'a) prog" where
  "on_net f w = (case f (net w) of (v, n) \<Rightarrow> (v, w\<lparr>net := n\<rparr>))"

definition send_json :: "('k, 'n) sender \<Rightarrow> 'k \<Rightarrow> dict \<Rightarrow> (('k, 'n) room, exc, unit) prog" where
  "send_json send k d = andthen (on_net (send k d)) (modify (\<lambda>w. w\<lparr>wire := wire w @ [(k, d)]\<rparr>))"

definition hub_connect :: "('k \<Rightarrow> 'n \<Rightarrow> (exc + unit) \<times> 'n) \<Rightarrow> uuid \<Rightarrow> 'k \<Rightarrow> (('k, 'n) room, exc, unit) prog" where
  "hub_connect accept m k =
     andthen (on_net (accept k)) (modify (\<lambda>w. w\<lparr>sockets := (sockets w)(m := List.insert k (sockets w m))\<rparr>))"

definition hub_disconnect :: "uuid \<Rightarrow> 'k \<Rightarrow> (('k, 'n) room, exc, unit) prog" where
  "hub_disconnect m k = modify (\<lambda>w. w\<lparr>sockets := (sockets w)(m := removeAll k (sockets w m))\<rparr>)"

fun send_all :: "('k, 'n) sender \<Rightarrow> dict \<Rightarrow> 'k list \<Rightarrow> (('k, 'n) room, exc, 'k list) prog" where
  "send_all send d [] = ret []"
| "send_all send d (k # ks) = bnd (attempt (send_json send k d)) (\<lambda>v. bnd (send_all send d ks) (\<lambda>stale.
     ret (case v of Inl _ \<Rightarrow> k # stale | Inr _ \<Rightarrow> stale)))"

definition hub_publish :: "('k, 'n) sender \<Rightarrow> uuid \<Rightarrow> dict \<Rightarrow> (('k, 'n) room, exc, unit) prog" where
  "hub_publish send m d = bnd (gets (\<lambda>w. sockets w m)) (\<lambda>ks. bnd (send_all send d ks) (\<lambda>stale.
     bnd (mapP (hub_disconnect m) stale) (\<lambda>_. ret ())))"

section \<open>A socket's life\<close>

text \<open>The route \<open>/ws\<close>.  The token is the one of the header, or else of the query; whatever fails on the way to a principal
  closes the socket with code 4401.\<close>

definition ws_token :: "string \<Rightarrow> string \<Rightarrow> exc + string" where
  "ws_token authorization query_token =
     (let (scheme, rest) = split_first CHR '' '' authorization;
          header_token = (case rest of None \<Rightarrow> [] | Some t \<Rightarrow> t);
          token = (if lower scheme \<noteq> ''bearer'' \<or> header_token = [] then query_token else header_token)
      in if token = [] then Inl (Exc PyValueError ''Missing bearer token'') else Inr token)"

definition ws_claims :: "env \<Rightarrow> settings \<Rightarrow> int \<Rightarrow> string \<Rightarrow> exc + (uuid \<times> uuid \<times> uuid option \<times> json)" where
  "ws_claims e cfg now token =
     (case jwt_decode e token (auth_jwt_secret cfg) (auth_jwt_algorithm cfg) [''sub'', ''merchant_id'', ''exp'', ''iat''] now of
        Claims c \<Rightarrow>
          (if map_of c ''type'' \<noteq> Some (JStr ''access'') then Inl (Exc AuthenticationError ''Wrong WebSocket token type'')
           else (case bindE (uuid_claim c ''sub'') (\<lambda>u. bindE (uuid_claim c ''merchant_id'') (\<lambda>m.
                        bindE (sid_claim c) (\<lambda>i. Inr (u, m, i)))) of
               Inr (u, m, i) \<Rightarrow> Inr (u, m, i, case map_of c ''role'' of None \<Rightarrow> JStr ''merchant'' | Some r \<Rightarrow> r)
             | Inl x \<Rightarrow> (if isa (cls x) PyKeyError \<or> isa (cls x) PyValueError
                        then Inl (Exc AuthenticationError ''Invalid WebSocket token'') else Inl x)))
      | _ \<Rightarrow> Inl (Exc AuthenticationError ''Invalid WebSocket token''))"

text \<open>A principal here carries the role claim as it is.\<close>

record ws_principal =
  wp_user_id :: uuid
  wp_merchant_id :: uuid
  wp_role :: json
  wp_session_id :: "uuid option"

definition websocket_principal :: "env \<Rightarrow> settings \<Rightarrow> string \<Rightarrow> (db, exc, ws_principal) prog" where
  "websocket_principal e cfg token =
     bnd (gets clock) (\<lambda>now.
     bnd (lift (ws_claims e cfg now token)) (\<lambda>(uid, mid, sid, role).
     bnd (gets (\<lambda>s. by_id uid (t_users s))) (\<lambda>found.
     bnd (require found (Exc AuthenticationError ''Inactive voice session user'')) (\<lambda>u.
     andthen (guard (u_is_active u \<and> u_merchant_id u = mid) (Exc AuthenticationError ''Inactive voice session user''))
     (bnd (gets (\<lambda>s. case sid of None \<Rightarrow> True | Some i \<Rightarrow> session_active now uid (by_id i (t_refresh_sessions s)))) (\<lambda>live.
      andthen (guard live (Exc AuthenticationError ''WebSocket session is no longer active''))
      (ret \<lparr>wp_user_id = uid, wp_merchant_id = mid, wp_role = role, wp_session_id = sid\<rparr>)))))))"

record ('k, 'n) ws_net =
  ws_accept :: "'k \<Rightarrow> 'n \<Rightarrow> (exc + unit) \<times> 'n"
  ws_close :: "'k \<Rightarrow> nat \<Rightarrow> string \<Rightarrow> 'n \<Rightarrow> (exc + unit) \<times> 'n"
  ws_text :: "'k \<Rightarrow> string \<Rightarrow> 'n \<Rightarrow> (exc + unit) \<times> 'n"
  ws_json :: "('k, 'n) sender"

definition open_socket ::
  "('k, 'n) ws_net \<Rightarrow> env \<Rightarrow> settings \<Rightarrow> string \<Rightarrow> string \<Rightarrow> 'k \<Rightarrow> (db \<times> ('k, 'n) room, exc, ws_principal option) prog" where
  "open_socket ws e cfg authorization query_token k =
     bnd (attempt (bnd (lift (ws_token authorization query_token)) (\<lambda>t. on_db (websocket_principal e cfg t)))) (\<lambda>v. case v of
       Inl _ \<Rightarrow> on_world (andthen (on_net (ws_accept ws k)) (andthen (on_net (ws_close ws k 4401 ''Unauthorized'')) (ret None)))
     | Inr p \<Rightarrow> on_world (andthen (hub_connect (ws_accept ws) (wp_merchant_id p) k) (ret (Some p))))"

text \<open>What the loop of an open socket meets: a text, twenty-five seconds of silence, the disconnect of the client, or another
  exception of the socket.  A list of inputs that ends before the loop does leaves the socket open.\<close>

datatype ws_input = Said string | Silent | Hung_up | Broke exc

datatype ws_end = Still_open | Closed | Crashed exc

definition heartbeat :: dict where
  "heartbeat = [(''type'', JStr ''HEARTBEAT'')]"

fun ws_loop :: "('k, 'n) ws_net \<Rightarrow> 'k \<Rightarrow> ws_input list \<Rightarrow> (('k, 'n) room, exc, ws_end) prog" where
  "ws_loop ws k [] = ret Still_open"
| "ws_loop ws k (Said s # is) =
     (if s = ''ping'' then andthen (on_net (ws_text ws k ''pong'')) (ws_loop ws k is) else ws_loop ws k is)"
| "ws_loop ws k (Silent # is) = andthen (on_net (ws_json ws k heartbeat)) (ws_loop ws k is)"
| "ws_loop ws k (Hung_up # is) = ret Closed"
| "ws_loop ws k (Broke x # is) = raise x"

definition serve_socket :: "('k, 'n) ws_net \<Rightarrow> uuid \<Rightarrow> 'k \<Rightarrow> ws_input list \<Rightarrow> (('k, 'n) room, exc, ws_end) prog" where
  "serve_socket ws m k is = bnd (attempt (ws_loop ws k is)) (\<lambda>v. case v of
       Inr Still_open \<Rightarrow> ret Still_open
     | Inr r \<Rightarrow> andthen (hub_disconnect m k) (ret r)
     | Inl x \<Rightarrow> andthen (hub_disconnect m k) (ret (if isa (cls x) PyRuntimeError then Closed else Crashed x)))"

section \<open>The bridge\<close>

definition bridge_message :: "('k, 'n) sender \<Rightarrow> uuid \<Rightarrow> int \<Rightarrow> dict \<Rightarrow> (('k, 'n) room, exc, bool) prog" where
  "bridge_message send fresh_id now raw =
     bnd (lift (event_of_json raw fresh_id now)) (\<lambda>ev. case de_merchant_id ev of
       None \<Rightarrow> ret False
     | Some m \<Rightarrow> bnd (hub_publish send m (event_json ev)) (\<lambda>_. ret True))"

text \<open>What the task of the bridge meets: a message, an exception of the subscription, its end, and \<open>stop()\<close> from outside.
  The naps are the seconds slept after every exception.\<close>

datatype feed = Received dict | Dropped exc | Ended | Stop

record bridge =
  br_retry :: nat
  br_stopped :: bool
  br_returned :: bool
  br_naps :: "nat list"

definition new_bridge :: bridge where
  "new_bridge = \<lparr>br_retry = 0, br_stopped = False, br_returned = False, br_naps = []\<rparr>"

definition bridge_retry :: "bridge \<Rightarrow> bridge" where
  "bridge_retry b = (let r = min (br_retry b + 1) 6 in
     b\<lparr>br_retry := r, br_naps := br_naps b @ [2 ^ (r - 1)], br_returned := br_stopped b\<rparr>)"

definition bridge_step :: "('k, 'n) sender \<Rightarrow> uuid \<Rightarrow> int \<Rightarrow> feed \<Rightarrow> bridge \<times> ('k, 'n) room \<Rightarrow> bridge \<times> ('k, 'n) room" where
  "bridge_step send fresh_id now f w = (let (b, room) = w in
     if br_returned b then w else case f of
       Received raw \<Rightarrow> (case bridge_message send fresh_id now raw room of
           (Inl _, room') \<Rightarrow> (bridge_retry (b\<lparr>br_retry := 0\<rparr>), room')
         | (Inr sent, room') \<Rightarrow> (b\<lparr>br_retry := 0, br_returned := sent \<and> br_stopped b\<rparr>, room'))
     | Dropped _ \<Rightarrow> (bridge_retry b, room)
     | Ended \<Rightarrow> (b\<lparr>br_returned := br_stopped b\<rparr>, room)
     | Stop \<Rightarrow> (b\<lparr>br_stopped := True\<rparr>, room))"

definition bridge_run :: "('k, 'n) sender \<Rightarrow> uuid \<Rightarrow> int \<Rightarrow> feed list \<Rightarrow> bridge \<times> ('k, 'n) room \<Rightarrow> bridge \<times> ('k, 'n) room" where
  "bridge_run send fresh_id now fs w = fold (bridge_step send fresh_id now) fs w"

section \<open>Who hears what\<close>

text \<open>\<open>heard\<close> relates two states of the hub: no socket joins a merchant, nothing is taken back, and everything new on the wire
  is an event that went to a socket of its own merchant.\<close>

definition for_merchant :: "uuid \<Rightarrow> dict \<Rightarrow> bool" where
  "for_merchant m d \<longleftrightarrow> (\<exists>ev. d = event_json ev \<and> de_merchant_id ev = Some m)"

definition heard :: "('k, 'n) room \<Rightarrow> ('k, 'n) room \<Rightarrow> bool" where
  "heard w w' \<longleftrightarrow> (\<forall>m. set (sockets w' m) \<subseteq> set (sockets w m))
     \<and> (\<exists>sent. wire w' = wire w @ sent \<and> (\<forall>(k, d) \<in> set sent. \<exists>m. k \<in> set (sockets w m) \<and> for_merchant m d))"

lemma heard_refl [simp]: "heard w w" by (simp add: heard_def)

lemma heard_trans:
  assumes "heard u v" and "heard v w"
  shows "heard u w"
proof -
  from assms obtain xs ys where xs: "wire v = wire u @ xs" "\<forall>(k, d) \<in> set xs. \<exists>m. k \<in> set (sockets u m) \<and> for_merchant m d"
    and ys: "wire w = wire v @ ys" "\<forall>(k, d) \<in> set ys. \<exists>m. k \<in> set (sockets v m) \<and> for_merchant m d"
    and s: "\<And>m. set (sockets v m) \<subseteq> set (sockets u m)" "\<And>m. set (sockets w m) \<subseteq> set (sockets v m)"
    by (auto simp: heard_def)
  have "\<exists>m. k \<in> set (sockets u m) \<and> for_merchant m d" if "(k, d) \<in> set ys" for k d
    using ys(2) s(1) that by blast
  with xs(2) have "\<forall>(k, d) \<in> set (xs @ ys). \<exists>m. k \<in> set (sockets u m) \<and> for_merchant m d" by auto
  moreover have "wire w = wire u @ xs @ ys" by (simp add: xs(1) ys(1))
  moreover have "set (sockets w m) \<subseteq> set (sockets u m)" for m using s by blast
  ultimately show ?thesis unfolding heard_def by blast
qed

text \<open>Where the send works, a broadcast reaches every socket once; a socket whose send fails is dropped.\<close>

lemma send_json_cases:
  obtains n where "send_json send k d w = (Inr (), w\<lparr>wire := wire w @ [(k, d)], net := n\<rparr>)"
  | x n where "send_json send k d w = (Inl x, w\<lparr>net := n\<rparr>)"
proof -
  obtain v n where s: "send k d (net w) = (v, n)" by (cases "send k d (net w)")
  show thesis
  proof (cases v)
    case (Inl x)
    with s show thesis by (intro that(2) [of x n]) (simp add: send_json_def on_net_def exec_defs)
  next
    case (Inr u)
    with s show thesis by (intro that(1) [of n], cases w) (simp add: send_json_def on_net_def exec_defs)
  qed
qed

lemma send_all_effect:
  "\<exists>stale n sent. send_all send d ks w = (Inr stale, w\<lparr>wire := wire w @ map (\<lambda>k. (k, d)) sent, net := n\<rparr>)
     \<and> set sent \<subseteq> set ks \<and> set stale \<subseteq> set ks"
proof (induction ks arbitrary: w)
  case Nil
  show ?case by (intro exI [of _ "[]"] exI [of _ "net w"]) (simp add: ret_def)
next
  case (Cons k ks)
  show ?case
  proof (rule send_json_cases [of send k d w])
    fix n assume s: "send_json send k d w = (Inr (), w\<lparr>wire := wire w @ [(k, d)], net := n\<rparr>)"
    from Cons.IH [of "w\<lparr>wire := wire w @ [(k, d)], net := n\<rparr>"] obtain stale n' sent where
      "send_all send d ks (w\<lparr>wire := wire w @ [(k, d)], net := n\<rparr>)
         = (Inr stale, w\<lparr>wire := (wire w @ [(k, d)]) @ map (\<lambda>k. (k, d)) sent, net := n'\<rparr>)"
      "set sent \<subseteq> set ks" "set stale \<subseteq> set ks" by auto
    with s show ?case by (intro exI [of _ stale] exI [of _ n'] exI [of _ "k # sent"]) (auto simp: exec_defs)
  next
    fix x n assume s: "send_json send k d w = (Inl x, w\<lparr>net := n\<rparr>)"
    from Cons.IH [of "w\<lparr>net := n\<rparr>"] obtain stale n' sent where
      "send_all send d ks (w\<lparr>net := n\<rparr>) = (Inr stale, w\<lparr>wire := wire w @ map (\<lambda>k. (k, d)) sent, net := n'\<rparr>)"
      "set sent \<subseteq> set ks" "set stale \<subseteq> set ks" by auto
    with s show ?case by (intro exI [of _ "k # stale"] exI [of _ n'] exI [of _ sent]) (auto simp: exec_defs)
  qed
qed

lemma drop_sockets:
  "mapP (hub_disconnect m) ks w = (Inr (map (\<lambda>_. ()) ks), w\<lparr>sockets := (sockets w)(m := filter (\<lambda>k. k \<notin> set ks) (sockets w m))\<rparr>)"
proof (induction ks arbitrary: w)
  case Nil
  show ?case by (simp add: ret_def)
next
  case (Cons k ks)
  have "filter (\<lambda>x. x \<notin> set ks) (removeAll k xs) = filter (\<lambda>x. x \<notin> set (k # ks)) xs" for xs
    by (induction xs) auto
  with Cons.IH show ?case by (simp add: exec_defs hub_disconnect_def cong: if_cong)
qed

lemma hub_publish_heard:
  assumes "hub_publish send m (event_json ev) w = (v, w')" and "de_merchant_id ev = Some m"
  shows "v = Inr () \<and> heard w w'"
proof -
  obtain stale n sent where s: "send_all send (event_json ev) (sockets w m) w
      = (Inr stale, w\<lparr>wire := wire w @ map (\<lambda>k. (k, event_json ev)) sent, net := n\<rparr>)" "set sent \<subseteq> set (sockets w m)"
    using send_all_effect [of send "event_json ev" "sockets w m" w] by blast
  with assms(1) have "v = Inr ()" and w': "w' = w\<lparr>sockets := (sockets w)(m := filter (\<lambda>k. k \<notin> set stale) (sockets w m)),
      wire := wire w @ map (\<lambda>k. (k, event_json ev)) sent, net := n\<rparr>"
    by (auto simp: hub_publish_def exec_defs drop_sockets)
  moreover have "for_merchant m (event_json ev)" using assms(2) by (auto simp: for_merchant_def)
  ultimately show ?thesis using s(2) by (auto simp: heard_def)
qed

lemma bridge_message_heard: "bridge_message send i now raw w = (v, w') \<Longrightarrow> heard w w'"
  by (auto simp: bridge_message_def exec_defs split: option.splits prod.splits sum.splits dest: hub_publish_heard)

lemma bridge_run_heard: "bridge_run send i now fs w = w' \<Longrightarrow> heard (snd w) (snd w')"
proof (induction fs arbitrary: w)
  case (Cons f fs)
  have "heard (snd w) (snd (bridge_step send i now f w))"
    by (auto simp: bridge_step_def Let_def split: prod.splits feed.splits sum.splits dest: bridge_message_heard)
  moreover from Cons.prems have "bridge_run send i now fs (bridge_step send i now f w) = w'" by (simp add: bridge_run_def)
  ultimately show ?case using Cons.IH heard_trans by blast
qed (simp add: bridge_run_def)

text \<open>The bridge never sleeps longer than half a minute and two seconds.\<close>

definition naps_bounded :: "bridge \<Rightarrow> bool" where
  "naps_bounded b \<longleftrightarrow> br_retry b \<le> 6 \<and> (\<forall>n \<in> set (br_naps b). 1 \<le> n \<and> n \<le> 32)"

lemma bridge_naps_bounded: "naps_bounded (fst w) \<Longrightarrow> naps_bounded (fst (bridge_run send i now fs w))"
proof (induction fs arbitrary: w)
  case (Cons f fs)
  have nap: "(2::nat) ^ (min (r + 1) 6 - 1) \<le> 32" for r :: nat
    using power_increasing [of "min (r + 1) 6 - 1" 5 "2::nat"] by simp
  have retry: "naps_bounded (bridge_retry b)" if "naps_bounded b" for b
    using that nap [of "br_retry b"] by (auto simp: naps_bounded_def bridge_retry_def Let_def)
  have "naps_bounded (fst (bridge_step send i now f w))"
    using Cons.prems retry [of "fst w"] retry [of "(fst w)\<lparr>br_retry := 0\<rparr>"]
    by (cases w) (auto simp: bridge_step_def Let_def naps_bounded_def split: feed.splits sum.splits prod.splits)
  from Cons.IH [OF this] show ?case by (simp add: bridge_run_def)
qed (simp add: bridge_run_def)

section \<open>Working sockets hear their merchant, in order\<close>

definition sending :: "('k, 'n) sender \<Rightarrow> bool" where
  "sending send \<longleftrightarrow> (\<forall>k d n. \<exists>n'. send k d n = (Inr (), n'))"

definition wire_event :: "domain_event \<Rightarrow> bool" where
  "wire_event ev \<longleftrightarrow> 1 \<le> de_version ev \<and> valid_time (de_occurred_at ev)"

lemma hub_publish_all:
  assumes "sending send"
  shows "\<exists>n. hub_publish send m d w = (Inr (), w\<lparr>wire := wire w @ map (\<lambda>k. (k, d)) (sockets w m), net := n\<rparr>)"
proof -
  have all: "\<exists>n. send_all send d ks w = (Inr [], w\<lparr>wire := wire w @ map (\<lambda>k. (k, d)) ks, net := n\<rparr>)" for ks and w :: "('a, 'b) room"
  proof (induction ks arbitrary: w)
    case Nil
    show ?case by (intro exI [of _ "net w"]) (simp add: ret_def)
  next
    case (Cons k ks)
    from assms obtain n where "send k d (net w) = (Inr (), n)" by (metis sending_def)
    then have s: "send_json send k d w = (Inr (), w\<lparr>wire := wire w @ [(k, d)], net := n\<rparr>)"
      by (cases w) (simp add: send_json_def on_net_def exec_defs)
    with Cons.IH [of "w\<lparr>wire := wire w @ [(k, d)], net := n\<rparr>"] show ?case by (auto simp: exec_defs)
  qed
  from all [of "sockets w m" w] obtain n where
    "send_all send d (sockets w m) w = (Inr [], w\<lparr>wire := wire w @ map (\<lambda>k. (k, d)) (sockets w m), net := n\<rparr>)" by blast
  then show ?thesis by (intro exI [of _ n]) (simp add: hub_publish_def exec_defs)
qed

text \<open>The broadcasts of a list of events, the specification of a run without failures.\<close>

definition broadcast :: "(uuid \<Rightarrow> 'k list) \<Rightarrow> domain_event list \<Rightarrow> ('k \<times> dict) list" where
  "broadcast conns evs = concat (map (\<lambda>ev. case de_merchant_id ev of
     None \<Rightarrow> [] | Some m \<Rightarrow> map (\<lambda>k. (k, event_json ev)) (conns m)) evs)"

lemma bridge_run_all:
  assumes "sending send" and "\<forall>ev \<in> set evs. wire_event ev" and "\<not> br_returned b" "\<not> br_stopped b"
  shows "\<exists>b' n. bridge_run send i now (map (Received \<circ> event_json) evs) (b, w)
    = (b', w\<lparr>wire := wire w @ broadcast (sockets w) evs, net := n\<rparr>) \<and> \<not> br_returned b' \<and> \<not> br_stopped b'"
  using assms(2-)
proof (induction evs arbitrary: b w)
  case Nil
  then show ?case by (intro exI [of _ b] exI [of _ "net w"]) (simp add: bridge_run_def broadcast_def)
next
  case (Cons ev evs)
  have read: "event_of_json (event_json ev) i now = Inr ev"
    using Cons.prems(1) by (intro event_roundtrip) (simp_all add: wire_event_def)
  have one: "\<exists>sent n. bridge_message send i now (event_json ev) w
      = (Inr sent, w\<lparr>wire := wire w @ broadcast (sockets w) [ev], net := n\<rparr>)"
  proof (cases "de_merchant_id ev")
    case None
    then show ?thesis by (intro exI [of _ False] exI [of _ "net w"]) (simp add: bridge_message_def exec_defs read broadcast_def)
  next
    case (Some m)
    with hub_publish_all [OF assms(1), of m "event_json ev" w] show ?thesis
      by (auto simp: bridge_message_def exec_defs read broadcast_def)
  qed
  then obtain sent n where m: "bridge_message send i now (event_json ev) w
      = (Inr sent, w\<lparr>wire := wire w @ broadcast (sockets w) [ev], net := n\<rparr>)" by blast
  let ?w = "w\<lparr>wire := wire w @ broadcast (sockets w) [ev], net := n\<rparr>" and ?b = "b\<lparr>br_retry := 0, br_returned := False\<rparr>"
  have s: "bridge_step send i now (Received (event_json ev)) (b, w) = (?b, ?w)"
    using Cons.prems by (simp add: bridge_step_def m)
  have "\<forall>ev \<in> set evs. wire_event ev" "\<not> br_returned ?b" "\<not> br_stopped ?b" using Cons.prems by simp_all
  from Cons.IH [OF this, of ?w] obtain b' n' where
    "bridge_run send i now (map (Received \<circ> event_json) evs) (?b, ?w)
       = (b', ?w\<lparr>wire := wire ?w @ broadcast (sockets ?w) evs, net := n'\<rparr>)" "\<not> br_returned b'" "\<not> br_stopped b'" by blast
  with s show ?case by (intro exI [of _ b'] exI [of _ n']) (simp add: bridge_run_def broadcast_def comp_def)
qed

lemma broadcast_one:
  assumes "\<forall>m'. k \<in> set (conns m') \<longleftrightarrow> m' = m" and "distinct (conns m)"
  shows "filter (\<lambda>s. fst s = k) (broadcast conns evs)
    = map (\<lambda>ev. (k, event_json ev)) (filter (\<lambda>ev. de_merchant_id ev = Some m) evs)"
proof (induction evs)
  case Nil
  show ?case by (simp add: broadcast_def)
next
  case (Cons ev evs)
  have none: "filter (\<lambda>s. fst s = k) (map (\<lambda>k. (k, d)) ks) = []" if "k \<notin> set ks" for d :: dict and ks
    using that by (induction ks) auto
  have "filter (\<lambda>s. fst s = k) (map (\<lambda>k. (k, d)) ks) = [(k, d)]" if "k \<in> set ks" "distinct ks" for d :: dict and ks
    using that by (induction ks) (auto simp: none)
  with none assms Cons.IH show ?case by (simp add: broadcast_def split: option.splits)
qed

section \<open>Who may listen\<close>

text \<open>A socket joins the hub only as a live user of that merchant, and a session that is over has left it.\<close>

definition live_user :: "db \<Rightarrow> uuid \<Rightarrow> bool" where
  "live_user s m \<longleftrightarrow> (\<exists>u \<in> set (t_users s). u_is_active u \<and> u_merchant_id u = m)"

lemma websocket_principal_live:
  assumes "websocket_principal e cfg token s = (Inr p, t)"
  shows "t = s \<and> live_user s (wp_merchant_id p)"
proof -
  obtain u where "u \<in> set (t_users s)" "u_is_active u" "u_merchant_id u = wp_merchant_id p" "t = s"
    using assms unfolding websocket_principal_def by_id_def
    by (auto simp: run_simps split: option.splits if_splits dest!: find_Some_iff_mem)
  then show ?thesis by (auto simp: live_user_def)
qed

lemma on_net_sockets [simp]: "on_net f w = (v, w') \<Longrightarrow> sockets w' = sockets w \<and> wire w' = wire w"
  by (auto simp: on_net_def split: prod.splits)

lemma open_socket_live:
  assumes run: "open_socket ws e cfg authorization query_token k w = (v, w')"
    and joined: "k' \<in> set (sockets (snd w') m)" and new: "k' \<notin> set (sockets (snd w) m)"
  shows "k' = k \<and> live_user (fst w) m"
proof -
  obtain r w1 where r: "bnd (lift (ws_token authorization query_token)) (\<lambda>t. on_db (websocket_principal e cfg t)) w = (r, w1)"
    by (cases "bnd (lift (ws_token authorization query_token)) (\<lambda>t. on_db (websocket_principal e cfg t)) w")
  then have same: "snd w1 = snd w" by (auto simp: exec_defs on_db_def split: prod.splits sum.splits)
  show ?thesis
  proof (cases r)
    case (Inl x)
    with run r same have "sockets (snd w') = sockets (snd w)"
      by (auto simp: open_socket_def exec_defs on_world_def split: prod.splits sum.splits)
    with joined new show ?thesis by simp
  next
    case (Inr p)
    with r have "live_user (fst w) (wp_merchant_id p)"
      by (auto simp: exec_defs on_db_def split: prod.splits sum.splits dest: websocket_principal_live)
    moreover have "m = wp_merchant_id p \<and> k' = k"
      using run r same Inr joined new
      by (auto simp: open_socket_def exec_defs on_world_def hub_connect_def split: prod.splits sum.splits if_splits)
    ultimately show ?thesis by simp
  qed
qed

lemma ws_loop_sockets: "ws_loop ws k is w = (v, w') \<Longrightarrow> sockets w' = sockets w"
  by (induction ws k "is" arbitrary: w rule: ws_loop.induct)
    (auto simp: exec_defs split: prod.splits sum.splits if_splits dest: on_net_sockets)

lemma serve_socket_leaves:
  assumes "serve_socket ws m k is w = (v, w')"
  shows "\<exists>r. v = Inr r \<and> (r = Still_open \<and> sockets w' = sockets w
    \<or> r \<noteq> Still_open \<and> sockets w' = (sockets w)(m := removeAll k (sockets w m)))"
proof -
  obtain r w1 where r: "ws_loop ws k is w = (r, w1)" by (cases "ws_loop ws k is w")
  with assms ws_loop_sockets [OF r] show ?thesis
    by (auto simp: serve_socket_def exec_defs hub_disconnect_def split: sum.splits ws_end.splits)
qed

section \<open>From the outbox to the sockets\<close>

lemma broadcast_iff:
  "(k, d) \<in> set (broadcast conns evs) \<longleftrightarrow> (\<exists>ev \<in> set evs. \<exists>m. de_merchant_id ev = Some m \<and> k \<in> set (conns m) \<and> d = event_json ev)"
proof (induction evs)
  case (Cons ev evs)
  then show ?case by (cases "de_merchant_id ev") (auto simp: broadcast_def)
qed (simp add: broadcast_def)

lemma domain_event_fields [simp]:
  "de_merchant_id (domain_event_of r) = ob_merchant_id r" "de_version (domain_event_of r) = ob_event_version r"
  "de_occurred_at (domain_event_of r) = created_at r"
  by (simp_all add: domain_event_of_def)

lemma outbox_reaches_sockets:
  assumes bus: "accepting (redis_bus server)" and rows: "sound_rows s" and times: "\<forall>r \<in> set (t_outbox_events s). valid_time (created_at r)"
    and before: "\<forall>r \<in> set (t_outbox_events s). ob_published_at r \<noteq> None \<longrightarrow> domain_event_of r \<in> set sent" "\<forall>ev \<in> set sent. wire_event ev"
    and n: "length (waiting_rows s) \<le> n * limit"
    and batches: "((\<lambda>v. snd (publish_batch (redis_bus server) limit v)) ^^ n) (s, (sent, srv)) = (s', (sent', srv'))"
    and send: "sending send" and run: "bridge_run send i now (map (Received \<circ> event_json) sent') (new_bridge, room) = (b, room')"
  shows "wire room' = wire room @ broadcast (sockets room) sent' \<and> sockets room' = sockets room"
    and "domain_event_of ` set (t_outbox_events s) \<subseteq> set sent'"
    and "set sent' \<subseteq> set sent \<union> domain_event_of ` set (t_outbox_events s)"
proof -
  have "redis.announced (s, (sent, srv))" using before(1) by (simp add: redis.announced_def)
  from redis.batches_deliver [OF bus _ this _ batches] rows n
  show events: "domain_event_of ` set (t_outbox_events s) \<subseteq> set sent'"
    "set sent' \<subseteq> set sent \<union> domain_event_of ` set (t_outbox_events s)" by simp_all
  have "wire_event (domain_event_of r)" if "r \<in> set (t_outbox_events s)" for r
    using rows times that by (simp add: wire_event_def sound_rows_def)
  with before(2) events(2) have "\<forall>ev \<in> set sent'. wire_event ev" by auto
  from bridge_run_all [OF send this, of new_bridge i now room] run
  show "wire room' = wire room @ broadcast (sockets room) sent' \<and> sockets room' = sockets room"
    by (auto simp: new_bridge_def)
qed

end
