(* ===== verification/Voice.thy ===== *)
theory Voice
  imports Speech Munim Realtime
begin

text \<open>
  The voice channel: \<open>channels/voice/session.py\<close>, \<open>agent.py\<close> and \<open>pipeline.py\<close>, with the routes of \<open>api/v1/voice.py\<close>.  A session is
  opened for a proposal; what the merchant says is transcribed (by a provider, which is a parameter), may decide that proposal
  through the workflow, and is answered aloud.  The sentences of \<open>i18n.py\<close> and of the fallback are the record \<open>voice_texts\<close>; the
  language model with its prompt is the argument \<open>llm\<close>.
\<close>

section \<open>A session\<close>

record voice_session =
  vo_session_id :: uuid
  vo_merchant_id :: uuid
  vo_user_id :: uuid
  vo_language_code :: string
  vo_sample_rate :: int
  vo_encoding :: string
  vo_active_proposal_id :: "uuid option"
  vo_active_request_id :: "string option"
  vo_approval_token :: "string option"
  vo_started_at :: int
  vo_interrupted :: bool
  vo_closed :: bool
  vo_speaking :: bool
  vo_reconnect_count :: nat
  vo_history :: "(string \<times> utext) list"

definition add_message :: "string \<Rightarrow> utext \<Rightarrow> voice_session \<Rightarrow> voice_session" where
  "add_message role t v =
     (let h = vo_history v @ [(role, t)] in v\<lparr>vo_history := (if 20 < length h then drop (length h - 20) h else h)\<rparr>)"

definition interrupt :: "voice_session \<Rightarrow> voice_session" where
  "interrupt v = v\<lparr>vo_interrupted := True, vo_speaking := False\<rparr>"

definition close_session :: "voice_session \<Rightarrow> voice_session" where
  "close_session v = v\<lparr>vo_closed := True\<rparr>"

definition reconnect :: "voice_session \<Rightarrow> voice_session" where
  "reconnect v = v\<lparr>vo_closed := False, vo_interrupted := False, vo_speaking := False,
     vo_reconnect_count := vo_reconnect_count v + 1\<rparr>"

section \<open>What happens on the line\<close>

datatype 'a voice_event =
    Session_started | Transcript bool utext | Action_event voice_intent | Response_text utext
  | Audio_start | Audio 'a | Audio_end | Session_ended

record 'a voice_line =
  vl_session :: voice_session
  vl_out :: "'a voice_event list"

type_synonym ('a, 'w, 'r) vp = "('a voice_line \<times> (db \<times> 'w), exc, 'r) prog"

definition on_app :: "('w, 'r) wm \<Rightarrow> ('a, 'w, 'r) vp" where
  "on_app prg x = (case prg (snd x) of (r, w) \<Rightarrow> (r, (fst x, w)))"

definition on_session :: "(voice_session \<Rightarrow> voice_session) \<Rightarrow> ('a, 'w, unit) vp" where
  "on_session f = modify (\<lambda>x. ((fst x)\<lparr>vl_session := f (vl_session (fst x))\<rparr>, snd x))"

definition emit :: "'a voice_event \<Rightarrow> ('a, 'w, unit) vp" where
  "emit ev = modify (\<lambda>x. ((fst x)\<lparr>vl_out := vl_out (fst x) @ [ev]\<rparr>, snd x))"

definition session_now :: "('a, 'w, voice_session) vp" where
  "session_now = gets (\<lambda>x. vl_session (fst x))"

section \<open>The agent\<close>

type_synonym 'w voice_runtime =
  "(uuid \<Rightarrow> string \<Rightarrow> approval_status \<Rightarrow> string \<Rightarrow> dec option \<Rightarrow> uuid \<Rightarrow> uuid \<Rightarrow> ('w, unit) wm) option"

record voice_texts =
  vt_message :: "string \<Rightarrow> string \<Rightarrow> utext"
  vt_low_stock :: "string \<Rightarrow> utext \<Rightarrow> utext"
  vt_pending :: "string \<Rightarrow> nat \<Rightarrow> utext"

definition get_voice_message :: "voice_texts \<Rightarrow> string \<Rightarrow> string \<Rightarrow> utext" where
  "get_voice_message tx key lang = vt_message tx (message_language (if lang = [] then ''en-IN'' else lang)) key"

definition spoken_action :: "voice_intent_type \<Rightarrow> approval_status" where
  "spoken_action k = (case k of APPROVE_ACTIVE_PROPOSAL \<Rightarrow> AS_APPROVED | MODIFY_ACTIVE_PROPOSAL \<Rightarrow> AS_MODIFIED | _ \<Rightarrow> AS_REJECTED)"

definition decision_message :: "approval_status \<Rightarrow> string" where
  "decision_message a = (case a of AS_APPROVED \<Rightarrow> ''proposal_approved'' | AS_MODIFIED \<Rightarrow> ''proposal_modified'' | _ \<Rightarrow> ''proposal_rejected'')"

definition say_message :: "voice_texts \<Rightarrow> string \<Rightarrow> ('a, 'w, utext) vp" where
  "say_message tx key = bnd session_now (\<lambda>v. let t = get_voice_message tx key (vo_language_code v) in
     andthen (on_session (add_message ''assistant'' t)) (ret t))"

definition spoken_amount :: "voice_intent \<Rightarrow> dec option" where
  "spoken_amount i = (case vi_quantity i of Some n \<Rightarrow> if n = 0 then None else Some (py_float (Dec (int n) 0)) | None \<Rightarrow> None)"

definition decide_by_voice :: "voice_texts \<Rightarrow> 'w voice_runtime \<Rightarrow> voice_intent \<Rightarrow> ('a, 'w, utext) vp" where
  "decide_by_voice tx rt i = bnd session_now (\<lambda>v. case (rt, vo_active_proposal_id v) of
       (Some resume, Some proposal) \<Rightarrow>
         if truthy (vo_active_request_id v) \<and> truthy (vo_approval_token v)
         then andthen (on_app (resume (vo_merchant_id v) (the (vo_active_request_id v)) (spoken_action (vi_intent i))
                (the (vo_approval_token v)) (spoken_amount i) (vo_user_id v) proposal))
              (say_message tx (decision_message (spoken_action (vi_intent i))))
         else say_message tx ''no_active_proposal''
     | _ \<Rightarrow> say_message tx ''no_active_proposal'')"

text \<open>What the agent knows of the shop; when its facts cannot be read it answers without them.\<close>

record voice_facts =
  vf_low_stock_items :: "utext list"
  vf_pending_approvals :: nat

definition low_text :: "product_row \<times> inventory_row \<Rightarrow> utext" where
  "low_text r = ascii (let d = low_item r; f = (\<lambda>k. py_str (payload_get d k JNull)) in
     f ''name'' @ '' ('' @ f ''quantity_on_hand'' @ '' '' @ f ''unit'' @ '' on hand, reorder at '' @ f ''reorder_point'' @ '' ''
       @ f ''unit'' @ '')'')"

definition voice_facts_of :: "uuid \<Rightarrow> db \<Rightarrow> voice_facts" where
  "voice_facts_of m s = (case merchant_context m s of
     Inl _ \<Rightarrow> \<lparr>vf_low_stock_items = [], vf_pending_approvals = 0\<rparr>
   | Inr _ \<Rightarrow> \<lparr>vf_low_stock_items = map low_text (low_rows m s), vf_pending_approvals = length (take 5 (waiting_approvals m s))\<rparr>)"

definition fallback_family :: "string \<Rightarrow> string" where
  "fallback_family lang = (if startswith lang ''hi'' then ''hi'' else if startswith lang ''gu'' then ''gu''
     else if startswith lang ''bn'' then ''bn'' else ''en'')"

fun comma_join :: "utext list \<Rightarrow> utext" where
  "comma_join [] = []" | "comma_join [w] = w" | "comma_join (w # ws) = w @ [44, 32] @ comma_join ws"

definition fallback_reply :: "voice_texts \<Rightarrow> string \<Rightarrow> voice_facts \<Rightarrow> voice_intent_type \<Rightarrow> utext" where
  "fallback_reply tx lang facts k = (let message = (\<lambda>key. get_voice_message tx key lang) in case k of
     GREETING \<Rightarrow> message ''greeting''
   | CAPABILITIES \<Rightarrow> message ''capabilities''
   | QUERY_INVENTORY \<Rightarrow> (if vf_low_stock_items facts = [] then message ''inventory_all_good''
       else vt_low_stock tx (fallback_family lang) (comma_join (take 2 (vf_low_stock_items facts))))
   | QUERY_PROPOSALS \<Rightarrow> (if 0 < vf_pending_approvals facts then vt_pending tx (fallback_family lang) (vf_pending_approvals facts)
       else message ''no_pending_proposals'')
   | REQUEST_PURCHASE \<Rightarrow> message ''purchase_request''
   | REPORT_LOW_STOCK \<Rightarrow> message ''low_stock''
   | _ \<Rightarrow> message ''general_help'')"

type_synonym voice_llm = "(voice_session \<Rightarrow> voice_facts \<Rightarrow> voice_intent \<Rightarrow> utext \<Rightarrow> exc + utext) option"

definition converse :: "unicode \<Rightarrow> voice_texts \<Rightarrow> voice_llm \<Rightarrow> voice_intent \<Rightarrow> utext \<Rightarrow> ('a, 'w, utext) vp" where
  "converse U tx llm i raw = bnd session_now (\<lambda>v. bnd (gets (\<lambda>x. voice_facts_of (vo_merchant_id v) (fst (snd x)))) (\<lambda>facts.
     let generated = (case llm of None \<Rightarrow> [] | Some ask \<Rightarrow> (case ask v facts i (if raw = [] then ascii ''Namaste'' else raw) of
           Inl _ \<Rightarrow> [] | Inr t \<Rightarrow> clean_text_for_natural_voice U t));
         reply = (if generated \<noteq> [] then generated
           else clean_text_for_natural_voice U (fallback_reply tx (vo_language_code v) facts (vi_intent i))) in
     andthen (on_session (add_message ''assistant'' reply)) (ret reply)))"

definition handle_utterance ::
  "unicode \<Rightarrow> voice_texts \<Rightarrow> 'w voice_runtime \<Rightarrow> voice_llm \<Rightarrow> voice_intent \<Rightarrow> ('a, 'w, utext) vp" where
  "handle_utterance U tx rt llm i =
     (let raw = sanitize_urdu_to_hindi U (ustrip U (vi_raw_text i)) in
      andthen (if raw \<noteq> [] then on_session (add_message ''user'' raw) else ret ())
        (if vi_intent i \<in> set decisions then decide_by_voice tx rt i else converse U tx llm i raw))"

section \<open>The pipeline\<close>

text \<open>\<open>synth\<close> is the provider's speech for a text: pieces of audio, and perhaps a failure after them.  \<open>cuts\<close> says before which
  pieces an interruption arrived.  The loop looks at the flag before it sends a piece; the piece at hand is dropped with the rest.\<close>

fun play :: "bool list \<Rightarrow> 'a list \<Rightarrow> voice_session \<Rightarrow> 'a list \<times> voice_session \<times> bool" where
  "play cuts [] v = ([], v, True)"
| "play cuts (a # as) v =
     (let v' = (if cuts \<noteq> [] \<and> hd cuts then interrupt v else v) in
      if vo_interrupted v' then ([], v'\<lparr>vo_interrupted := False, vo_speaking := False\<rparr>, False)
      else (case play (tl cuts) as v' of (sent, w, whole) \<Rightarrow> (a # sent, w, whole)))"

definition speak :: "(utext \<Rightarrow> string \<Rightarrow> 'a list \<times> exc option) \<Rightarrow> bool list \<Rightarrow> utext \<Rightarrow> ('a, 'w, unit) vp" where
  "speak synth cuts t = bnd session_now (\<lambda>v.
     case synth t (vo_language_code v) of (pieces, failure) \<Rightarrow>
     case play cuts pieces v of (sent, v', whole) \<Rightarrow>
       andthen (modify (\<lambda>x. ((fst x)\<lparr>vl_out := vl_out (fst x) @ map Audio sent, vl_session := v'\<rparr>, snd x)))
         (case failure of Some problem \<Rightarrow> if whole then raise problem else ret () | None \<Rightarrow> ret ()))"

text \<open>\<open>try \<dots> finally session.speaking = False\<close>.\<close>

definition finally_silent :: "('a, 'w, 'r) vp \<Rightarrow> ('a, 'w, 'r) vp" where
  "finally_silent prg x = (case prg x of (r, y) \<Rightarrow> (r, ((fst y)\<lparr>vl_session := (vl_session (fst y))\<lparr>vo_speaking := False\<rparr>\<rparr>, snd y)))"

definition respond ::
  "unicode \<Rightarrow> (utext \<Rightarrow> string \<Rightarrow> 'a list \<times> exc option) \<Rightarrow> (voice_intent \<Rightarrow> ('a, 'w, utext) vp) \<Rightarrow> utext \<Rightarrow> bool list \<Rightarrow> ('a, 'w, unit) vp" where
  "respond U synth handler text cuts = bnd (lift (extract_voice_intent U text)) (\<lambda>i.
     andthen (emit (Action_event i)) (andthen (on_session (\<lambda>v. v\<lparr>vo_speaking := True\<rparr>))
       (finally_silent (bnd (handler i) (\<lambda>reply. andthen (emit (Response_text reply)) (andthen (emit Audio_start)
         (andthen (speak synth cuts reply) (emit Audio_end))))))))"

datatype voice_turn = Interruption | Spoken bool utext "bool list" | Provider_failed exc

definition voice_turn_step ::
  "unicode \<Rightarrow> (utext \<Rightarrow> string \<Rightarrow> 'a list \<times> exc option) \<Rightarrow> (voice_intent \<Rightarrow> ('a, 'w, utext) vp) \<Rightarrow> voice_turn \<Rightarrow> ('a, 'w, unit) vp" where
  "voice_turn_step U synth handler t = (case t of
     Interruption \<Rightarrow> on_session interrupt
   | Spoken is_final text cuts \<Rightarrow> andthen (emit (Transcript is_final text))
       (if is_final \<and> text \<noteq> [] then respond U synth handler text cuts else ret ())
   | Provider_failed problem \<Rightarrow> raise problem)"

fun voice_turns ::
  "unicode \<Rightarrow> (utext \<Rightarrow> string \<Rightarrow> 'a list \<times> exc option) \<Rightarrow> (voice_intent \<Rightarrow> ('a, 'w, utext) vp) \<Rightarrow> voice_turn list \<Rightarrow> ('a, 'w, unit) vp" where
  "voice_turns U synth handler [] = ret ()"
| "voice_turns U synth handler (t # ts) = andthen (voice_turn_step U synth handler t) (voice_turns U synth handler ts)"

definition run_pipeline ::
  "unicode \<Rightarrow> (utext \<Rightarrow> string \<Rightarrow> 'a list \<times> exc option) \<Rightarrow> (voice_intent \<Rightarrow> ('a, 'w, utext) vp) \<Rightarrow> voice_turn list \<Rightarrow> ('a, 'w, unit) vp" where
  "run_pipeline U synth handler ts = andthen (emit Session_started) (andthen (voice_turns U synth handler ts)
     (andthen (on_session close_session) (emit Session_ended)))"

text \<open>The microphone's queue holds 32 pieces; the oldest makes room for a new one, and nothing is taken in while the assistant speaks.\<close>

definition push_piece :: "'c list \<Rightarrow> 'c \<Rightarrow> 'c list" where
  "push_piece q c = (if length q < 32 then q @ [c] else tl q @ [c])"

datatype 'c line_message = Piece 'c | Control json | Disconnected

record 'c mic =
  mc_queue :: "'c list"
  mc_finished :: bool
  mc_pongs :: nat

definition control_type :: "json \<Rightarrow> exc + json option" where
  "control_type j = (case j of JObj d \<Rightarrow> Inr (dget d ''type'') | _ \<Rightarrow> Inl (Exc PyAttributeError ''get''))"

definition line_receive :: "'c line_message \<Rightarrow> 'c mic \<times> voice_session \<Rightarrow> exc + 'c mic \<times> voice_session" where
  "line_receive g st = (case st of (m, v) \<Rightarrow> case g of
     Piece c \<Rightarrow> Inr (if vo_speaking v then m else m\<lparr>mc_queue := push_piece (mc_queue m) c\<rparr>, v)
   | Disconnected \<Rightarrow> Inr (m\<lparr>mc_finished := True\<rparr>, v)
   | Control j \<Rightarrow> bindE (control_type j) (\<lambda>t. Inr (
       if t = Some (JStr ''interrupt'') then (m, interrupt v)
       else if t = Some (JStr ''end'') then (m\<lparr>mc_finished := True\<rparr>, v)
       else if t = Some (JStr ''ping'') then (m\<lparr>mc_pongs := mc_pongs m + 1\<rparr>, v) else (m, v))))"

section \<open>The routes\<close>

record voice_request =
  vr_language_code :: string
  vr_sample_rate :: int
  vr_encoding :: string
  vr_active_proposal_id :: "uuid option"
  vr_active_request_id :: "string option"
  vr_approval_token :: "string option"

definition voice_request_ok :: "voice_request \<Rightarrow> bool" where
  "voice_request_ok b \<longleftrightarrow> 8000 \<le> vr_sample_rate b \<and> vr_sample_rate b \<le> 48000"

definition create_voice_session :: "env \<Rightarrow> principal \<Rightarrow> voice_request \<Rightarrow> voice_session m" where
  "create_voice_session e p b = bnd (new_uuid e) (\<lambda>i. bnd (gets clock) (\<lambda>now.
     andthen (add_row t_voice_sessions t_voice_sessions_update no_clash
       \<lparr>row_id = i, created_at = now, updated_at = now, vs_merchant_id = pl_merchant_id p, vs_user_id = pl_user_id p,
        vs_agent_session_id = None, vs_active_proposal_id = vr_active_proposal_id b, vs_language_code = vr_language_code b,
        vs_status = ''ACTIVE'', vs_started_at = now, vs_ended_at = None,
        vs_audio_metadata = [(''encoding'', JStr (vr_encoding b)), (''sample_rate'', JInt (vr_sample_rate b)), (''channels'', JInt 1)]\<rparr>)
     (ret \<lparr>vo_session_id = i, vo_merchant_id = pl_merchant_id p, vo_user_id = pl_user_id p, vo_language_code = vr_language_code b,
        vo_sample_rate = vr_sample_rate b, vo_encoding = vr_encoding b, vo_active_proposal_id = vr_active_proposal_id b,
        vo_active_request_id = vr_active_request_id b, vo_approval_token = vr_approval_token b, vo_started_at = now,
        vo_interrupted = False, vo_closed = False, vo_speaking = False, vo_reconnect_count = 0, vo_history = []\<rparr>)))"

text \<open>Opening the stream: the token's merchant has to be the session's.  Any user of the merchant may speak; the decisions are made in
  the name of the user that created the session.\<close>

definition open_stream ::
  "env \<Rightarrow> settings \<Rightarrow> (uuid \<Rightarrow> voice_session option) \<Rightarrow> string \<Rightarrow> string \<Rightarrow> uuid \<Rightarrow> voice_session m" where
  "open_stream e cfg sessions authorization query_token i =
     bnd (lift (ws_token authorization query_token)) (\<lambda>t. bnd (websocket_principal e cfg t) (\<lambda>p.
     bnd (require (sessions i) (Exc NotFoundError ''Voice session not found'')) (\<lambda>v.
     andthen (guard (vo_merchant_id v = wp_merchant_id p) (Exc NotFoundError ''Voice session not found''))
       (ret (if vo_closed v then reconnect v else v)))))"

definition voice_resumer :: "workflow \<Rightarrow> (db \<times> 'a) wf_services \<Rightarrow> 'a outside world voice_runtime" where
  "voice_resumer g sv = Some (\<lambda>merchant rid ac token quantity user proposal.
     wired_resume g sv merchant rid ac token quantity None (Some user) None (Some proposal))"

section \<open>What speaking can change\<close>

lemma on_app_run [run_simps]: "on_app prg x = (r, y) \<longleftrightarrow> prg (snd x) = (r, snd y) \<and> fst y = fst x"
  by (cases y) (auto simp: on_app_def split: prod.splits)

lemma keeps_on_app [keeps_intros]: "keeps P prg \<Longrightarrow> keeps (\<lambda>x. P (snd x)) (on_app prg)"
  by (auto simp: keeps_def run_simps)

lemma keeps_line [keeps_intros]:
  "keeps (\<lambda>x. P (snd x)) (on_session f)" "keeps (\<lambda>x. P (snd x)) (emit ev)" "keeps (\<lambda>x. P (snd x)) session_now"
  "keeps (\<lambda>x. P (snd x)) (modify (\<lambda>x. (g x, snd x)))"
  unfolding on_session_def emit_def session_now_def by (auto intro!: keeps_modify keeps_intros)

lemma keeps_say [keeps_intros]: "keeps (\<lambda>x. P (snd x)) (say_message tx key)"
  unfolding say_message_def Let_def by (intro keeps_intros)

lemma keeps_converse [keeps_intros]: "keeps (\<lambda>x. P (snd x)) (converse U tx llm i raw)"
  unfolding converse_def Let_def by (intro keeps_intros)

lemma keeps_finally_silent [keeps_intros]: "keeps (\<lambda>x. P (snd x)) prg \<Longrightarrow> keeps (\<lambda>x. P (snd x)) (finally_silent prg)"
  by (fastforce simp: keeps_def finally_silent_def split: prod.splits)

lemma keeps_speak [keeps_intros]: "keeps (\<lambda>x. P (snd x)) (speak synth cuts t)"
  unfolding speak_def by (intro keeps_intros)

definition decided_by ::
  "'w voice_runtime \<Rightarrow> voice_session \<Rightarrow> approval_status \<Rightarrow> dec option \<Rightarrow> db \<times> 'w \<Rightarrow> db \<times> 'w \<Rightarrow> bool" where
  "decided_by rt v a q w w' \<longleftrightarrow> (\<exists>resume rid token proposal reply. rt = Some resume \<and> vo_active_request_id v = Some rid
     \<and> vo_approval_token v = Some token \<and> vo_active_proposal_id v = Some proposal \<and> rid \<noteq> [] \<and> token \<noteq> []
     \<and> resume (vo_merchant_id v) rid a token q (vo_user_id v) proposal w = (reply, w'))"

text \<open>A session is about one proposal; what is said changes its history and its flags.\<close>

definition same_errand :: "voice_session \<Rightarrow> voice_session \<Rightarrow> bool" where
  "same_errand v v' \<longleftrightarrow> vo_merchant_id v' = vo_merchant_id v \<and> vo_user_id v' = vo_user_id v
     \<and> vo_active_request_id v' = vo_active_request_id v \<and> vo_active_proposal_id v' = vo_active_proposal_id v
     \<and> vo_approval_token v' = vo_approval_token v"

lemma decided_by_errand: "same_errand v v' \<Longrightarrow> decided_by rt v' a q w w' \<longleftrightarrow> decided_by rt v a q w w'"
  by (simp add: same_errand_def decided_by_def)

lemma say_silent: "say_message tx key x = (r, y) \<Longrightarrow> snd y = snd x"
  using keepsD [OF keeps_say [of "\<lambda>w. w = snd x"]] by blast

text \<open>A session that is ready decides: the workflow is called once, and nothing else changes the application.\<close>

definition ready :: "voice_session \<Rightarrow> string \<Rightarrow> string \<Rightarrow> uuid \<Rightarrow> bool" where
  "ready v rid token proposal \<longleftrightarrow> vo_active_request_id v = Some rid \<and> vo_approval_token v = Some token
     \<and> vo_active_proposal_id v = Some proposal \<and> rid \<noteq> [] \<and> token \<noteq> []"

definition resumed ::
  "(uuid \<Rightarrow> string \<Rightarrow> approval_status \<Rightarrow> string \<Rightarrow> dec option \<Rightarrow> uuid \<Rightarrow> uuid \<Rightarrow> ('w, unit) wm) \<Rightarrow> voice_session
   \<Rightarrow> string \<Rightarrow> string \<Rightarrow> uuid \<Rightarrow> voice_intent \<Rightarrow> ('w, unit) wm" where
  "resumed resume v rid token proposal i =
     resume (vo_merchant_id v) rid (spoken_action (vi_intent i)) token (spoken_amount i) (vo_user_id v) proposal"

lemma decide_calls:
  assumes "decide_by_voice tx (Some resume) i x = (r, y)" and "ready (vl_session (fst x)) rid token proposal"
  shows "snd y = snd (resumed resume (vl_session (fst x)) rid token proposal i (snd x))"
proof -
  let ?call = "resumed resume (vl_session (fst x)) rid token proposal i (snd x)"
  obtain reply w' where call: "?call = (reply, w')" by (cases ?call)
  have "snd y = w'"
    using assms call
    by (cases reply) (auto simp: decide_by_voice_def session_now_def bnd_def gets_def andthen_def on_app_def truthy_def ready_def
        resumed_def dest: say_silent)
  with call show ?thesis by simp
qed

lemma decide_effect:
  assumes "decide_by_voice tx rt i x = (r, y)"
  shows "snd y = snd x \<or> decided_by rt (vl_session (fst x)) (spoken_action (vi_intent i)) (spoken_amount i) (snd x) (snd y)"
proof (cases "rt = None \<or> vo_active_proposal_id (vl_session (fst x)) = None
    \<or> \<not> truthy (vo_active_request_id (vl_session (fst x))) \<or> \<not> truthy (vo_approval_token (vl_session (fst x)))")
  case True
  with assms have "say_message tx ''no_active_proposal'' x = (r, y)"
    by (auto simp: decide_by_voice_def session_now_def bnd_def gets_def split: option.splits)
  then show ?thesis by (simp add: say_silent)
next
  case False
  let ?v = "vl_session (fst x)"
  from False obtain resume proposal rid token where some: "rt = Some resume" "ready ?v rid token proposal"
    by (auto simp: truthy_def ready_def split: option.splits)
  obtain reply where "resumed resume ?v rid token proposal i (snd x) = (reply, snd y)"
    using decide_calls [OF assms [unfolded some(1)] some(2)] by (metis prod.collapse)
  with some show ?thesis by (auto simp: decided_by_def resumed_def ready_def)
qed

lemma handle_calls:
  assumes "handle_utterance U tx (Some resume) llm i x = (r, y)" and "vi_intent i \<in> set decisions"
    and "ready (vl_session (fst x)) rid token proposal"
  shows "snd y = snd (resumed resume (vl_session (fst x)) rid token proposal i (snd x))"
proof -
  let ?raw = "sanitize_urdu_to_hindi U (ustrip U (vi_raw_text i))"
  define z where "z = (if ?raw \<noteq> [] then ((fst x)\<lparr>vl_session := add_message ''user'' ?raw (vl_session (fst x))\<rparr>, snd x) else x)"
  have "decide_by_voice tx (Some resume) i z = (r, y)"
    using assms(1,2)
    by (auto simp: handle_utterance_def Let_def z_def andthen_def bnd_def on_session_def modify_def ret_def split: if_splits)
  moreover have "ready (vl_session (fst z)) rid token proposal"
    "resumed resume (vl_session (fst z)) rid token proposal i = resumed resume (vl_session (fst x)) rid token proposal i" "snd z = snd x"
    using assms(3) by (auto simp: z_def ready_def resumed_def add_message_def Let_def)
  ultimately show ?thesis using decide_calls by metis
qed

lemma handle_effect:
  assumes "handle_utterance U tx rt llm i x = (r, y)"
  shows "snd y = snd x \<or> (vi_intent i \<in> set decisions
    \<and> decided_by rt (vl_session (fst x)) (spoken_action (vi_intent i)) (spoken_amount i) (snd x) (snd y))"
proof -
  let ?raw = "sanitize_urdu_to_hindi U (ustrip U (vi_raw_text i))"
  define z where "z = (if ?raw \<noteq> [] then ((fst x)\<lparr>vl_session := add_message ''user'' ?raw (vl_session (fst x))\<rparr>, snd x) else x)"
  have z: "snd z = snd x" "same_errand (vl_session (fst x)) (vl_session (fst z))"
    by (auto simp: z_def same_errand_def add_message_def Let_def)
  have run: "(if vi_intent i \<in> set decisions then decide_by_voice tx rt i else converse U tx llm i ?raw) z = (r, y)"
    using assms by (auto simp: handle_utterance_def Let_def z_def andthen_def bnd_def on_session_def modify_def ret_def split: if_splits)
  show ?thesis
  proof (cases "vi_intent i \<in> set decisions")
    case True
    with run have "decide_by_voice tx rt i z = (r, y)" by simp
    from decide_effect [OF this] True z show ?thesis by (simp add: decided_by_errand)
  next
    case False
    with run have "converse U tx llm i ?raw z = (r, y)" by simp
    then have "snd y = snd z" using keepsD [OF keeps_converse [of "\<lambda>w. w = snd z"]] by blast
    with z show ?thesis by simp
  qed
qed

text \<open>After the intent is known, the answer is the agent's; what follows it leaves the application alone.\<close>

lemma respond_handles:
  assumes "respond U synth handler said cuts x = (r, y)" and "extract_voice_intent U said = Inr i"
  obtains z reply u where "handler i z = (reply, u)" "snd u = snd y" "snd z = snd x"
    "vl_session (fst z) = (vl_session (fst x))\<lparr>vo_speaking := True\<rparr>" "vl_out (fst z) = vl_out (fst x) @ [Action_event i]"
proof -
  define z where "z = ((fst x)\<lparr>vl_out := vl_out (fst x) @ [Action_event i], vl_session := (vl_session (fst x))\<lparr>vo_speaking := True\<rparr>\<rparr>, snd x)"
  define answer where "answer = bnd (handler i) (\<lambda>reply. andthen (emit (Response_text reply)) (andthen (emit Audio_start)
      (andthen (speak synth cuts reply) (emit Audio_end))))"
  have "finally_silent answer z = (r, y)"
    using assms
    by (simp add: respond_def answer_def z_def bnd_def lift_def andthen_def emit_def on_session_def modify_def ret_def)
  then obtain y' where y': "answer z = (r, y')" "snd y' = snd y" by (auto simp: finally_silent_def split: prod.splits)
  obtain reply u where h: "handler i z = (reply, u)" by (cases "handler i z")
  have tail: "keeps (\<lambda>v. snd v = snd u) (andthen (emit (Response_text t)) (andthen (emit Audio_start)
      (andthen (speak synth cuts t) (emit Audio_end))))" for t :: utext
    by (intro keeps_intros)
  have "snd u = snd y"
    using y' h keepsD [OF tail] by (cases reply) (auto simp: answer_def bnd_def)
  with h show thesis by (rule that) (simp_all add: z_def)
qed

lemma respond_effect:
  assumes "respond U synth (handle_utterance U tx rt llm) said cuts x = (r, y)"
  shows "snd y = snd x \<or> (\<exists>i. extract_voice_intent U said = Inr i \<and> vi_intent i \<in> set decisions
    \<and> decided_by rt (vl_session (fst x)) (spoken_action (vi_intent i)) (spoken_amount i) (snd x) (snd y))"
proof (cases "extract_voice_intent U said")
  case (Inl problem)
  with assms show ?thesis by (simp add: respond_def bnd_def lift_def)
next
  case (Inr i)
  obtain z reply u where h: "handle_utterance U tx rt llm i z = (reply, u)" "snd u = snd y" "snd z = snd x"
      "vl_session (fst z) = (vl_session (fst x))\<lparr>vo_speaking := True\<rparr>" "vl_out (fst z) = vl_out (fst x) @ [Action_event i]"
    by (rule respond_handles [OF assms Inr])
  then have "same_errand (vl_session (fst x)) (vl_session (fst z))" by (simp add: same_errand_def)
  with handle_effect [OF h(1)] h(2,3) Inr show ?thesis by (auto simp: decided_by_errand)
qed

lemma spoken_step:
  assumes "voice_turn_step U synth handler (Spoken is_final said cuts) x = (r, y)"
  obtains z where "(if is_final \<and> said \<noteq> [] then respond U synth handler said cuts else ret ()) z = (r, y)"
    "snd z = snd x" "vl_session (fst z) = vl_session (fst x)"
proof (rule that [of "((fst x)\<lparr>vl_out := vl_out (fst x) @ [Transcript is_final said]\<rparr>, snd x)"])
  show "(if is_final \<and> said \<noteq> [] then respond U synth handler said cuts else ret ())
      ((fst x)\<lparr>vl_out := vl_out (fst x) @ [Transcript is_final said]\<rparr>, snd x) = (r, y)"
    using assms by (simp add: voice_turn_step_def andthen_def bnd_def emit_def modify_def)
qed simp_all

lemma turn_calls:
  assumes "voice_turn_step U synth (handle_utterance U tx (Some resume) llm) (Spoken True said cuts) x = (r, y)" and "said \<noteq> []"
    and "extract_voice_intent U said = Inr i" "vi_intent i \<in> set decisions" and "ready (vl_session (fst x)) rid token proposal"
  shows "snd y = snd (resumed resume (vl_session (fst x)) rid token proposal i (snd x))"
proof -
  obtain z where z: "respond U synth (handle_utterance U tx (Some resume) llm) said cuts z = (r, y)" "snd z = snd x"
      "vl_session (fst z) = vl_session (fst x)"
    by (rule spoken_step [OF assms(1)]) (use assms(2) in \<open>simp\<close>)
  obtain z' reply u where h: "handle_utterance U tx (Some resume) llm i z' = (reply, u)" "snd u = snd y" "snd z' = snd z"
      "vl_session (fst z') = (vl_session (fst z))\<lparr>vo_speaking := True\<rparr>" "vl_out (fst z') = vl_out (fst z) @ [Action_event i]"
    by (rule respond_handles [OF z(1) assms(3)])
  then have "ready (vl_session (fst z')) rid token proposal"
    "resumed resume (vl_session (fst z')) rid token proposal i = resumed resume (vl_session (fst x)) rid token proposal i"
    using assms(5) z(3) by (simp_all add: ready_def resumed_def)
  with handle_calls [OF h(1) assms(4)] h(2,3) z(2) show ?thesis by simp
qed

lemma call_decides:
  assumes "voice_turn_step U synth (handle_utterance U tx (voice_resumer g sv) llm) (Spoken True said cuts) (l, w) = (r, y)"
    and "said \<noteq> []" and "extract_voice_intent U said = Inr i" and "vi_intent i \<in> set decisions"
    and "ready (vl_session l) rid token proposal"
  shows "snd y = snd (wired_resume g sv (vo_merchant_id (vl_session l)) rid (spoken_action (vi_intent i)) token (spoken_amount i) None
      (Some (vo_user_id (vl_session l))) None (Some proposal) w)"
  using turn_calls [OF assms(1) [unfolded voice_resumer_def] assms(2-4)] assms(5) by (simp add: resumed_def)

lemma turn_effect:
  assumes "voice_turn_step U synth (handle_utterance U tx rt llm) t x = (r, y)" and "snd y \<noteq> snd x"
  shows "\<exists>text cuts i. t = Spoken True text cuts \<and> extract_voice_intent U text = Inr i \<and> vi_intent i \<in> set decisions
    \<and> decided_by rt (vl_session (fst x)) (spoken_action (vi_intent i)) (spoken_amount i) (snd x) (snd y)"
proof (cases t)
  case Interruption
  with assms show ?thesis by (auto simp: voice_turn_step_def on_session_def modify_def)
next
  case (Provider_failed problem)
  with assms show ?thesis by (simp add: voice_turn_step_def raise_def)
next
  case (Spoken is_final said cuts)
  with assms(1) obtain z where z: "(if is_final \<and> said \<noteq> [] then respond U synth (handle_utterance U tx rt llm) said cuts else ret ()) z
      = (r, y)" "snd z = snd x" "vl_session (fst z) = vl_session (fst x)"
    by (metis spoken_step)
  show ?thesis
  proof (cases "is_final \<and> said \<noteq> []")
    case True
    with z(1) have "respond U synth (handle_utterance U tx rt llm) said cuts z = (r, y)" by simp
    from respond_effect [OF this] assms(2) z Spoken True show ?thesis by auto
  next
    case False
    with z assms(2) show ?thesis by (simp add: ret_def)
  qed
qed

section \<open>What the line keeps\<close>

text \<open>The workflow keeps a property of the database and its world, so whatever is said keeps it.\<close>

locale voice_invariant =
  fixes rt :: "'w voice_runtime" and P :: "db \<times> 'w \<Rightarrow> bool"
  assumes resume_keeps: "rt = Some resume \<Longrightarrow> keeps P (resume m rid a token q u pr)"
begin

lemma decided_keeps: "decided_by rt v a q w w' \<Longrightarrow> P w \<Longrightarrow> P w'"
  using resume_keeps by (fastforce simp: decided_by_def dest: keepsD)

lemma turn_keeps: "keeps (\<lambda>x. P (snd x)) (voice_turn_step U synth (handle_utterance U tx rt llm) t)"
proof (rule keepsI)
  fix x r y assume ok: "P (snd x)" and run: "voice_turn_step U synth (handle_utterance U tx rt llm) t x = (r, y)"
  show "P (snd y)"
  proof (cases "snd y = snd x")
    case False
    from turn_effect [OF run this] show ?thesis using decided_keeps ok by blast
  qed (use ok in \<open>simp\<close>)
qed

lemma pipeline_keeps: "keeps (\<lambda>x. P (snd x)) (run_pipeline U synth (handle_utterance U tx rt llm) ts)"
proof -
  have "keeps (\<lambda>x. P (snd x)) (voice_turns U synth (handle_utterance U tx rt llm) ts)"
    by (induction ts) (auto intro!: keeps_intros turn_keeps)
  then show ?thesis unfolding run_pipeline_def by (intro keeps_intros)
qed

end

interpretation voice_messages: voice_invariant "voice_resumer g (app_services e sv uuid5 fc x)" "\<lambda>w. messages_inv K (fst w)"
  for g e sv uuid5 fc x K
  by unfold_locales (auto simp: voice_resumer_def app_services_def intro!: messages.wired_resume_keeps)

section \<open>Interruptions, memory and the microphone\<close>

definition cut_at :: "bool list \<Rightarrow> nat \<Rightarrow> bool" where
  "cut_at cuts k \<longleftrightarrow> k < length cuts \<and> cuts ! k"

lemma cut_at_Suc: "cut_at cuts (Suc k) = cut_at (tl cuts) k" "cut_at cuts 0 \<longleftrightarrow> cuts \<noteq> [] \<and> hd cuts"
  by (cases cuts; simp add: cut_at_def)+

lemma play_prefix:
  "play cuts pieces v = (sent, w, whole) \<Longrightarrow> sent = take (length sent) pieces \<and> (whole \<longleftrightarrow> length sent = length pieces)
     \<and> (\<forall>k < length sent. \<not> cut_at cuts k) \<and> (\<not> whole \<longrightarrow> \<not> vo_interrupted w)"
proof (induction pieces arbitrary: cuts v sent w whole)
  case (Cons a as)
  let ?v = "if cuts \<noteq> [] \<and> hd cuts then interrupt v else v"
  show ?case
  proof (cases "vo_interrupted ?v")
    case True
    with Cons.prems show ?thesis by (auto simp: Let_def)
  next
    case False
    obtain sent' w' whole' where rest: "play (tl cuts) as ?v = (sent', w', whole')" by (metis prod.exhaust)
    with Cons.prems False have eqs: "sent = a # sent'" "w = w'" "whole = whole'" by (auto simp: Let_def)
    have "\<not> cut_at cuts 0" using False by (auto simp: cut_at_Suc interrupt_def)
    moreover have "(\<forall>k < Suc n. \<not> cut_at cuts k) \<longleftrightarrow> \<not> cut_at cuts 0 \<and> (\<forall>k < n. \<not> cut_at (tl cuts) k)" for n
      by (auto simp: cut_at_Suc(1) [symmetric] less_Suc_eq_0_disj)
    ultimately show ?thesis using Cons.IH [OF rest] by (simp add: eqs)
  qed
qed simp

text \<open>An interruption that arrives while nothing is spoken stays pending: the next answer is not heard.\<close>

lemma stale_interruption: "play cuts (a # as) (interrupt v) = ([], w, whole) \<Longrightarrow> \<not> whole \<and> \<not> vo_interrupted w"
  by (auto simp: Let_def interrupt_def split: if_splits)

lemma interrupted_play: "vo_interrupted v \<Longrightarrow> pieces \<noteq> [] \<Longrightarrow> fst (play cuts pieces v) = []"
  by (cases pieces) (auto simp: Let_def interrupt_def)

lemma history_short [simp]: "length (vo_history (add_message role t v)) \<le> 20"
  by (simp add: add_message_def Let_def)

lemma push_piece_bounded: "length q \<le> 32 \<Longrightarrow> length (push_piece q c) \<le> 32"
  by (auto simp: push_piece_def)

lemma push_pieces: "length q \<le> 32 \<Longrightarrow> foldl push_piece q cs = drop (length (q @ cs) - 32) (q @ cs)"
proof (induction cs arbitrary: q)
  case (Cons c cs)
  have "foldl push_piece q (c # cs) = foldl push_piece (push_piece q c) cs" by simp
  also have "\<dots> = drop (length (push_piece q c @ cs) - 32) (push_piece q c @ cs)"
    by (rule Cons.IH [OF push_piece_bounded [OF Cons.prems]])
  also have "\<dots> = drop (length (q @ c # cs) - 32) (q @ c # cs)"
  proof (cases "length q < 32")
    case False
    with Cons.prems have "length q = 32" by simp
    then obtain x q' where "q = x # q'" "length q' = 31" by (cases q) auto
    then show ?thesis by (simp add: push_piece_def)
  qed (simp add: push_piece_def)
  finally show ?case .
qed simp

end
