(* ===== verification/System.thy ===== *)
theory System
  imports ApprovalsApi SupplierApi AuthApi ShopApi Starts Events Voice
begin

text \<open>
  The running application: the routes, the two webhooks, the workflow's starts and the passing of time as the steps of one
  transition system over the database and what is beside it.  Whatever happens in whatever order, every order in the
  database is backed by a granted approval of exactly its proposal.
\<close>

section \<open>What an order rests on\<close>

definition backed :: "env \<Rightarrow> db \<Rightarrow> order_row \<Rightarrow> bool" where
  "backed e s x \<longleftrightarrow> (\<exists>a \<in> set (t_approvals s). \<exists>p. o_approval_id x = Some (row_id a) \<and> ap_status a = AS_APPROVED
     \<and> ap_merchant_id a = o_merchant_id x \<and> o_order_hash x = canonical_order_hash e (ap_proposal_payload a)
     \<and> proposal_of_payload (ap_proposal_payload a) = Inr p \<and> o_proposal_id x = pp_proposal_id p
     \<and> o_supplier_id x = pp_supplier_id p \<and> o_total_amount x = total_amount p)"

definition purchases_ok :: "env \<Rightarrow> db \<Rightarrow> bool" where
  "purchases_ok e s \<longleftrightarrow> approvals_ok e s \<and> orders_ok s \<and> (\<forall>x \<in> set (t_orders s). backed e s x)"

lemma purchases_cong:
  "t_approvals t = t_approvals s \<Longrightarrow> t_orders t = t_orders s \<Longrightarrow> t_transactions t = t_transactions s \<Longrightarrow>
   purchases_ok e t = purchases_ok e s"
  by (simp add: purchases_ok_def approvals_ok_def orders_ok_def backed_def)

lemma purchases_frame [simp]:
  "purchases_ok e (s\<lparr>draws := n\<rparr>) = purchases_ok e s" "purchases_ok e (s\<lparr>clock := c\<rparr>) = purchases_ok e s"
  "purchases_ok e (s\<lparr>t_a2a_messages := a\<rparr>) = purchases_ok e s" "purchases_ok e (s\<lparr>t_outbox_events := b\<rparr>) = purchases_ok e s"
  "purchases_ok e (s\<lparr>t_negotiations := d\<rparr>) = purchases_ok e s" "purchases_ok e (s\<lparr>t_channel_messages := f\<rparr>) = purchases_ok e s"
  "purchases_ok e (s\<lparr>t_voice_sessions := v\<rparr>) = purchases_ok e s"
  "purchases_ok e (s\<lparr>t_merchants := g\<rparr>) = purchases_ok e s" "purchases_ok e (s\<lparr>t_agent_runs := h\<rparr>) = purchases_ok e s"
  "purchases_ok e (s\<lparr>t_idempotency_keys := i\<rparr>) = purchases_ok e s" "purchases_ok e (s\<lparr>t_products := j\<rparr>) = purchases_ok e s"
  "purchases_ok e (s\<lparr>t_supplier_products := k\<rparr>) = purchases_ok e s"
  by (rule purchases_cong; simp)+

lemma purchases_rollback [simp]: "purchases_ok e (rollback s t) = purchases_ok e s"
  by (simp add: rollback_def)

lemma purchases_request: "keeps (purchases_ok e) m \<Longrightarrow> keeps (purchases_ok e) (request m)"
  unfolding request_def by (rule keeps_atomic) simp_all

text \<open>It is enough that a request keeps it when it succeeds.\<close>

lemma purchases_request_Inr:
  "(\<And>s r t. purchases_ok e s \<Longrightarrow> m s = (Inr r, t) \<Longrightarrow> purchases_ok e t) \<Longrightarrow> keeps (purchases_ok e) (request m)"
  by (auto simp: keeps_def request_def atomic_def split: prod.splits sum.splits)

text \<open>The approvals may go on: a granted approval stays as it is.\<close>

lemma purchases_evolve:
  assumes ok: "purchases_ok e s" and ev: "evolves (t_approvals s) (t_approvals t)" and a: "approvals_ok e t"
    and o: "t_orders t = t_orders s" "t_transactions t = t_transactions s"
  shows "purchases_ok e t"
proof -
  have "backed e t x" if x: "backed e s x" for x
  proof -
    from x obtain a p where "a \<in> set (t_approvals s)" "ap_status a = AS_APPROVED"
      "o_approval_id x = Some (row_id a)" "ap_merchant_id a = o_merchant_id x"
      "o_order_hash x = canonical_order_hash e (ap_proposal_payload a)"
      "proposal_of_payload (ap_proposal_payload a) = Inr p" "o_proposal_id x = pp_proposal_id p"
      "o_supplier_id x = pp_supplier_id p" "o_total_amount x = total_amount p" by (auto simp: backed_def)
    then show ?thesis unfolding backed_def by (intro bexI [OF _ evolves_decided [OF ev]] exI [of _ p]) auto
  qed
  with ok a o show ?thesis by (auto simp: purchases_ok_def orders_ok_def)
qed

section \<open>Approvals\<close>

text \<open>A predicate that looks at neither orders nor what is settled survives every operation on approvals.\<close>

lemma orders_keep_create: "keeps (\<lambda>s. t_orders s = X \<and> t_transactions s = Y) (approval_create e sv p c rn q)"
  unfolding approval_create_def approvals_add_def Let_def by (intro keeps_intros; simp)

lemmas approval_parts = approvals_get_def verify_owner_and_state_def change_approval_def approval_audit_def

lemma orders_keep_ops:
  "keeps (\<lambda>s. t_orders s = X \<and> t_transactions s = Y) (approval_approve e sv i m u tok)"
  "keeps (\<lambda>s. t_orders s = X \<and> t_transactions s = Y) (approval_reject e i m u)"
  "keeps (\<lambda>s. t_orders s = X \<and> t_transactions s = Y) (approval_mark_modified e sv i m u tok)"
  unfolding approval_approve_def approval_reject_def approval_mark_modified_def approval_parts
  by (intro keeps_intros; simp)+

lemma orders_keep_modify: "keeps (\<lambda>s. t_orders s = X \<and> t_transactions s = Y) (approval_modify e sv i m u q p)"
  unfolding approval_modify_def approval_parts by (intro keeps_intros orders_keep_create; simp)

lemma op_frame: "keeps (\<lambda>s. t_orders s = X \<and> t_transactions s = Y) (run_op e sv ac)"
  unfolding run_op_def
  by (cases ac) (simp_all only: approval_op.case, (intro keeps_intros orders_keep_create orders_keep_ops orders_keep_modify)+)

lemma purchases_op: "keeps (purchases_ok e) (request (run_op e sv ac))"
proof (rule purchases_request_Inr)
  fix s r t assume ok: "purchases_ok e s" and run: "run_op e sv ac s = (Inr r, t)"
  from ok have "approvals_ok e s" by (simp add: purchases_ok_def)
  from run_op_evolves [OF this run] keepsD [OF op_frame run, of "t_orders s" "t_transactions s"] ok
  show "purchases_ok e t" by (intro purchases_evolve [OF ok]) auto
qed

lemma purchases_calls:
  "keeps (purchases_ok e) (request (bnd (approval_approve e sv i m u tok) (\<lambda>_. ret ())))"
  "keeps (purchases_ok e) (request (bnd (approval_reject e i m u) (\<lambda>_. ret ())))"
  using purchases_op [of e sv "OpApprove i m u tok"] purchases_op [of e sv "OpReject i m u"] by (simp_all add: run_op_def)

lemma ask_frame: "keeps (\<lambda>s. t_orders s = X \<and> t_transactions s = Y) (db_request e sv rn rid p)"
  by (rule keeps_authority) simp_all

lemma db_request_rows:
  assumes "db_request e sv rn rid p s = (Inr r, t)"
  shows "\<exists>b. t_approvals t = t_approvals s @ [b] \<and> ap_status b = AS_PENDING"
proof -
  obtain a tok u where c: "approval_create e sv p ''API'' rn rid s = (Inr (a, tok), u)"
    and t: "t_approvals t = upd (\<lambda>x. row_id x = row_id a)
        (mutate (clock u) (\<lambda>r. r\<lparr>ap_workflow_request_id := rid\<rparr>)) (t_approvals u)"
    using assms by (auto simp: db_request_def request_def change_approval_def run_simps)
  note cr = create_Inr [OF c]
  have "ap_status (mutate (clock u) (\<lambda>r. r\<lparr>ap_workflow_request_id := rid\<rparr>) a) = AS_PENDING"
    using cr by (simp add: mutate_def created_row_def new_approval_def)
  with cr t show ?thesis by (auto simp: upd_none)
qed

lemma purchases_ask: "keeps (purchases_ok e) (db_request e sv rn rid p)"
proof (rule keepsI)
  fix s r t assume ok: "purchases_ok e s" and run: "db_request e sv rn rid p s = (r, t)"
  have o: "t_orders t = t_orders s" "t_transactions t = t_transactions s"
    using keepsD [OF ask_frame run, of "t_orders s" "t_transactions s"] by simp_all
  show "purchases_ok e t"
  proof (cases r)
    case (Inl x)
    with db_fails(2) run have "t_approvals t = t_approvals s" by blast
    with ok o show ?thesis by (simp add: purchases_cong [of t s])
  next
    case (Inr v)
    obtain b where b: "t_approvals t = t_approvals s @ [b]" "ap_status b = AS_PENDING"
      using db_request_rows run Inr by blast
    obtain r' tok where v: "v = (r', tok)" by (cases v)
    have "approvals_ok e t" using db_request_Inr [of e s sv rn rid p r' tok t] ok run Inr v by (auto simp: purchases_ok_def)
    moreover have "evolves (t_approvals s) (t_approvals t)"
      unfolding b(1) by (rule evolves_append) (simp_all add: list_all2_refl b)
    ultimately show ?thesis by (intro purchases_evolve [OF ok _ _ o])
  qed
qed

lemma decide_frame: "keeps (\<lambda>s. t_orders s = X \<and> t_transactions s = Y) (db_decide e sv i m ac tok u)"
  by (rule keeps_authority) simp_all

lemma purchases_decide: "keeps (purchases_ok e) (db_decide e sv i m ac tok user)"
proof (rule keepsI)
  fix s r t assume ok: "purchases_ok e s" and run: "db_decide e sv i m ac tok user s = (r, t)"
  have o: "t_orders t = t_orders s" "t_transactions t = t_transactions s"
    using keepsD [OF decide_frame run, of "t_orders s" "t_transactions s"] by simp_all
  show "purchases_ok e t"
  proof (cases r)
    case (Inl x)
    with db_fails(1) run have "t_approvals t = t_approvals s" by blast
    with ok o show ?thesis by (simp add: purchases_cong [of t s])
  next
    case (Inr v)
    with run obtain u where "run_op e sv (decision_op i m ac tok u) s = (Inr (), t)" by (auto elim: db_decide_Inr)
    from run_op_evolves [OF _ this] ok show ?thesis by (intro purchases_evolve [OF ok _ _ o]) (simp_all add: purchases_ok_def)
  qed
qed

section \<open>Orders\<close>

lemma execute_approvals: "keeps (\<lambda>w. t_approvals (fst w) = X) (db_execute e sv ads p i tok ek)"
  by (rule keeps_order_execute) simp_all

text \<open>An execution adds an order that an approval authorises, or none.\<close>

lemma execute_orders:
  assumes run: "order_execute e sv sp i m tok ek w = (Inr y, w')"
  shows "t_orders (fst w') = t_orders (fst w)
    \<or> (\<exists>z. t_orders (fst w') = t_orders (fst w) @ [z] \<and> (\<exists>a p mr. authorized e sv (fst w) i m tok a p mr
         \<and> o_approval_id z = Some (row_id a) \<and> o_merchant_id z = m \<and> o_order_hash z = ap_order_hash a
         \<and> o_proposal_id z = pp_proposal_id p \<and> o_supplier_id z = pp_supplier_id p \<and> o_total_amount z = total_amount p))"
proof (cases "order_by_key m ek (fst w)")
  case (Some x)
  from order_replay [OF this, of e sv sp i tok] run show ?thesis by auto
next
  case None
  from order_execute_first [OF run None] obtain a p mr res where
    au: "authorized e sv (fst w) i m tok a p mr"
    and y: "y = settle_order res (new_order (row_id y) (clock (fst w)) m p a ek)"
    and t: "t_orders (fst w') = t_orders (fst w) @ [y]" by blast
  have "o_approval_id y = Some (row_id a)" "o_merchant_id y = m" "o_order_hash y = ap_order_hash a"
    "o_proposal_id y = pp_proposal_id p" "o_supplier_id y = pp_supplier_id p" "o_total_amount y = total_amount p"
    by (subst y, simp add: new_order_def settle_order_def split: sum.split)+
  with au t show ?thesis by blast
qed

lemma purchases_execute: "keeps (\<lambda>w. purchases_ok e (fst w)) (db_execute e sv ads p i tok ek)"
proof (rule keepsI)
  fix w r w' assume ok: "purchases_ok e (fst w)" and run: "db_execute e sv ads p i tok ek w = (r, w')"
  have ap: "t_approvals (fst w') = t_approvals (fst w)" using keepsD [OF execute_approvals run] by simp
  show "purchases_ok e (fst w')"
  proof (cases r)
    case (Inl x)
    with run ok show ?thesis
      by (auto simp: db_execute_def run_simps rollback_db_def)
  next
    case (Inr v)
    with run obtain sp y where ex: "order_execute e sv sp i (pp_merchant_id p) tok ek w = (Inr y, w')"
      by (auto simp: db_execute_Inr)
    have orders: "orders_ok (fst w')" using order_execute_ok [OF ex] ok by (simp add: purchases_ok_def)
    have "backed e (fst w') x" if x: "x \<in> set (t_orders (fst w'))" for x
    proof (cases "x \<in> set (t_orders (fst w))")
      case True
      with ok ap show ?thesis by (auto simp: purchases_ok_def backed_def)
    next
      case False
      with x execute_orders [OF ex] obtain a q mr where au: "authorized e sv (fst w) i (pp_merchant_id p) tok a q mr"
        and z: "o_approval_id x = Some (row_id a)" "o_merchant_id x = pp_merchant_id p" "o_order_hash x = ap_order_hash a"
          "o_proposal_id x = pp_proposal_id q" "o_supplier_id x = pp_supplier_id q" "o_total_amount x = total_amount q"
        by auto
      from au have "a \<in> set (t_approvals (fst w'))" by (auto simp: authorized_def ap dest: find_approval_mem)
      with au z show ?thesis unfolding backed_def
        by (intro bexI [of _ a] exI [of _ q]) (auto simp: authorized_def)
    qed
    with orders ok ap show ?thesis by (simp add: purchases_ok_def approvals_ok_def)
  qed
qed

lemma purchases_supplier: "keeps (purchases_ok e) (decide_supplier_order e' p i approved)"
proof (rule keepsI)
  fix s r t assume ok: "purchases_ok e s" and run: "decide_supplier_order e' p i approved s = (r, t)"
  show "purchases_ok e t"
  proof (cases r)
    case (Inl x)
    with run have "\<exists>u. t = rollback s u" by (auto simp: decide_supplier_order_def request_def run_simps)
    with ok show ?thesis by auto
  next
    case (Inr v)
    with run have run: "decide_supplier_order e' p i approved s = (Inr v, t)" by simp
    show ?thesis
    proof (cases rule: decide_Inr [OF run])
      case (1 spl x)
      with ok show ?thesis by simp
    next
      case (2 spl x u)
      let ?f = "mutate (clock s) (supplier_decided approved)"
      let ?g = "mutate (clock s) (settled_by_supplier approved (o_supplier_reference (supplier_decided approved x)))"
      have f: "row_id (?f y) = row_id y" "o_merchant_id (?f y) = o_merchant_id y" "o_total_amount (?f y) = o_total_amount y"
        "o_currency (?f y) = o_currency y" "o_approval_id (?f y) = o_approval_id y" "o_idempotency_key (?f y) = o_idempotency_key y"
        "o_order_hash (?f y) = o_order_hash y" "o_proposal_id (?f y) = o_proposal_id y" "o_supplier_id (?f y) = o_supplier_id y" for y
        by (simp_all add: mutate_def supplier_decided_def)
      have g: "row_id (?g y) = row_id y" "t_order_id (?g y) = t_order_id y" "t_merchant_id (?g y) = t_merchant_id y"
        "t_amount (?g y) = t_amount y" "t_currency (?g y) = t_currency y" "t_approval_id (?g y) = t_approval_id y"
        "t_idempotency_key (?g y) = t_idempotency_key y" for y
        by (simp_all add: mutate_def settled_by_supplier_def)
      obtain Q where tx: "t_transactions t = upd Q ?g (t_transactions s)"
      proof (cases "find (\<lambda>t. t_order_id t = row_id x) (t_transactions s)")
        case None
        with 2 that [of "\<lambda>_. False"] show thesis by (simp add: settled_rows_of_def upd_none)
      next
        case (Some y)
        with 2 that [of "\<lambda>r. row_id r = row_id y"] show thesis by (simp add: settled_rows_of_def)
      qed
      have o: "t_orders t = upd (\<lambda>r. row_id r = row_id x) ?f (t_orders s)" using 2 by simp
      have "table_ok order_clash (t_orders t)"
        unfolding o by (rule table_ok_upd) (use ok in \<open>simp_all add: f purchases_ok_def orders_ok_def order_clash_def\<close>)
      moreover have "table_ok transaction_clash (t_transactions t)"
        unfolding tx by (rule table_ok_upd) (use ok in \<open>simp_all add: g purchases_ok_def orders_ok_def transaction_clash_def\<close>)
      moreover have "list_all2 order_paid (t_orders t) (t_transactions t)"
        using ok unfolding o tx upd_def purchases_ok_def orders_ok_def
        by (auto simp: list_all2_map1 list_all2_map2 order_paid_def f g elim!: list_all2_mono)
      moreover have "backed e t y" if "y \<in> set (t_orders t)" for y
        using that ok 2(10) unfolding o by (auto simp: in_set_upd purchases_ok_def backed_def f split: if_splits)
      ultimately show ?thesis using ok 2(10) by (simp add: purchases_ok_def orders_ok_def approvals_ok_def)
    qed
  qed
qed

section \<open>What the other operations do not touch\<close>

lemma purchases_frame' [simp]:
  "purchases_ok e (s\<lparr>t_users := a\<rparr>) = purchases_ok e s" "purchases_ok e (s\<lparr>t_stores := b\<rparr>) = purchases_ok e s"
  "purchases_ok e (s\<lparr>t_suppliers := c\<rparr>) = purchases_ok e s" "purchases_ok e (s\<lparr>t_oauth_identities := d\<rparr>) = purchases_ok e s"
  "purchases_ok e (s\<lparr>t_oauth_challenges := f\<rparr>) = purchases_ok e s" "purchases_ok e (s\<lparr>t_otp_challenges := g\<rparr>) = purchases_ok e s"
  "purchases_ok e (s\<lparr>t_refresh_sessions := h\<rparr>) = purchases_ok e s" "purchases_ok e (s\<lparr>t_inventory := i\<rparr>) = purchases_ok e s"
  "purchases_ok e (s\<lparr>t_inventory_events := j\<rparr>) = purchases_ok e s" "purchases_ok e (s\<lparr>t_audit_logs := k\<rparr>) = purchases_ok e s"
  "purchases_ok e (s\<lparr>t_notifications := l\<rparr>) = purchases_ok e s" "purchases_ok e (s\<lparr>t_sales := m\<rparr>) = purchases_ok e s"
  "purchases_ok e (s\<lparr>t_agent_sessions := n\<rparr>) = purchases_ok e s"
  by (rule purchases_cong; simp)+

lemma blind_purchases: "blind_to_auth (purchases_ok e)"
  unfolding blind_to_auth_def by (intro conjI allI) simp_all

interpretation accounts: auth_invariant "purchases_ok e" env cfg
  for e env cfg
proof
  fix d :: "'w delivery option" and ident purpose ip
  show "keeps (\<lambda>w. purchases_ok e (fst w)) (otp_request env cfg d ident purpose ip)"
    by (rule keepsI) (auto dest!: otp_request_effect)
next
  fix d :: "'w delivery option" and i
  show "keeps (\<lambda>w. purchases_ok e (fst w)) (otp_resend env cfg d i)"
    by (rule keepsI) (auto dest!: otp_resend_effect)
next
  fix i otp device
  show "keeps (purchases_ok e) (otp_verify env cfg i otp device)"
    unfolding otp_verify_def find_challenge_def change_otp_def Let_def session_issue_def
    by (intro keeps_intros) simp_all
next
  fix u device
  show "keeps (purchases_ok e) (session_issue env cfg u device)"
    unfolding session_issue_def Let_def by (intro keeps_intros) simp_all
qed (auto simp: blind_purchases change_oauth_def change_otp_def change_session_def intro!: keeps_change_row keeps_add_row)

lemma purchases_stock:
  "keeps (purchases_ok e) (confirm_scanned_receipt env p r tr)"
  "keeps (purchases_ok e) (confirm_manual env p q tr)"
  "keeps (purchases_ok e) (inventory_event env p b)"
  "keeps (purchases_ok e) (request (create_campaign env title pct audience))"
  unfolding confirm_scanned_receipt_def confirm_manual_def inventory_event_def create_campaign_def record_event_def alert_low_def
    confirm_scanned_def confirm_manual_inventory_def confirm_receipt_def guarded_def begin_confirmation_def
    gate_open_def idem_complete_def add_idem_def Let_def
  by (intro purchases_request keeps_intros receipt_body_frame; simp)+

lemma purchases_message: "keeps (purchases_ok e) (request (receive_message env cfg v))"
proof -
  have "keeps (purchases_ok e) (sql_save env v d)" for d
    unfolding sql_save_def by (intro keeps_intros) simp_all
  then have "keeps (purchases_ok e) (a2a_receive env reg (sql_repo env) i skew now v)" for reg i skew now
    unfolding a2a_receive_def by (intro keeps_intros) (simp_all add: sql_repo_def)
  moreover have "keeps (purchases_ok e) (note_received env v registered payload)" for registered payload
    unfolding note_received_def by (intro keeps_intros) (auto split: option.splits intro!: keeps_intros)
  ultimately show ?thesis unfolding receive_message_def by (intro purchases_request keeps_intros)
qed

lemma purchases_catalog: "keeps (purchases_ok e) (upsert_supplier_product env p b)"
  unfolding upsert_supplier_product_def owned_supplier_def put_product_def put_catalog_item_def add_product_def Let_def
  by (intro purchases_request keeps_intros) simp_all

section \<open>The runtime and its users\<close>

interpretation purchases: wired_invariant "[wired_mock e x, wired_catalog uuid5]" "purchases_ok e" e sv uuid5 fc
  for x uuid5 e sv fc
proof unfold_locales
  show "recorder_frame (purchases_ok e)" by (simp add: recorder_frame_def)
  show "keeps (purchases_ok e) (record_negotiation e uuid5 v)" for v by (rule keeps_record_negotiation) simp_all
qed (rule purchases_ask purchases_decide purchases_execute)+

lemma purchases_resume:
  "keeps (\<lambda>w. purchases_ok e (fst w)) (wired_resume g (app_services e sv uuid5 fc x) m rid ac tok q p u ea ep)"
  unfolding app_services_def by (rule purchases.wired_resume_keeps)

interpretation purchase_channels:
  channel_invariant "channel_resumer g (app_services e sv uuid5 fc x)" e cfg "purchases_ok e"
  for g e sv uuid5 fc x cfg
proof
  fix f m q ac tok u a
  assume "channel_resumer g (app_services e sv uuid5 fc x) = Some f"
  then have "f m q ac tok u a = wired_resume g (app_services e sv uuid5 fc x) m q ac tok None None (Some u) (Some a) None"
    by (auto simp: channel_resumer_def)
  then show "keeps (\<lambda>w. purchases_ok e (fst w)) (f m q ac tok u a)" using purchases_resume by simp
next
  fix ch k kind p
  show "keeps (purchases_ok e) (accept_inbound e ch k kind p)"
    unfolding accept_inbound_def record_inbound_def by (intro keeps_intros purchases_request) simp_all
next
  fix h i show "keeps (purchases_ok e) (change_message i h)"
  proof (rule keepsI)
    fix s r t assume ok: "purchases_ok e s" and run: "change_message i h s = (r, t)"
    have "keeps (purchases_ok e) (change_row t_channel_messages t_channel_messages_update i h)"
      by (intro keeps_intros) simp
    then show "purchases_ok e t"
      using run ok by (auto simp: change_message_def keeps_def split: option.splits if_splits)
  qed
qed (auto simp: change_merchant_def intro!: purchases_calls keeps_change_row)

section \<open>The routes that start, the notifications and the outbox\<close>

interpretation purchase_starts: start_invariant "purchases_ok e'" "starting c g (app_services e' sv uuid5 fc x)"
  for e' c g sv uuid5 fc x
  by unfold_locales (auto simp: app_services_def intro!: starting_keeps purchases.wired_start_keeps)

lemma purchases_notifications: "keeps (purchases_ok e) (mark_read p i)" "keeps (purchases_ok e) (mark_all_read p)"
  unfolding mark_read_def own_by_id_def mark_all_read_def by (intro keeps_intros keeps_modify; simp)+

interpretation purchase_voice: voice_invariant "voice_resumer g (app_services e' sv uuid5 fc x)" "\<lambda>w. purchases_ok e' (fst w)"
  for g e' sv uuid5 fc x
  by unfold_locales (auto simp: voice_resumer_def intro!: purchases_resume)

lemma purchases_voice_session: "keeps (purchases_ok e) (create_voice_session e' p b)"
  unfolding create_voice_session_def by (intro keeps_intros) simp_all

lemma purchases_outbox: "keeps (\<lambda>w. purchases_ok e (fst w)) (publish_outbox bus)"
proof (rule keepsI)
  fix w r w' assume ok: "purchases_ok e (fst w)" and run: "publish_outbox bus w = (r, w')"
  obtain n u f where "publish_batch bus 100 w = (Inr n, u)" "fst u = (fst w)\<lparr>t_outbox_events := map f (t_outbox_events (fst w))\<rparr>"
    by (rule publish_rows_effect [of bus "pending_batch 100 (fst w)" w]) (simp add: publish_batch_def bnd_def gets_def)
  with run ok show "purchases_ok e (fst w')" by (auto simp: publish_outbox_def atomic_def)
qed

section \<open>The approval routes\<close>

lemma purchases_direct:
  assumes "keeps (purchases_ok e) (request (bnd m (\<lambda>_. ret ())))"
  shows "succeeds (purchases_ok e) m"
proof (rule succeedsI)
  fix s a t assume "purchases_ok e s" "m s = (Inr a, t)"
  moreover from this have "request (bnd m (\<lambda>_. ret ())) s = (Inr (), t)"
    by (simp add: request_def atomic_def bnd_def ret_def)
  ultimately show "purchases_ok e t" using keepsD [OF assms] by blast
qed

lemma purchases_gate:
  "keeps (purchases_ok e) (idempotency_begin env scope key data)" "keeps (purchases_ok e) (idem_complete k d)"
  "keeps (purchases_ok e) (idempotency_complete k d)" "keeps (purchases_ok e) (forget_key k)"
  "keeps (purchases_ok e) (update_agent_run rid v)"
  unfolding idempotency_begin_def gate_open_def add_idem_def idem_complete_def idempotency_complete_def forget_key_def
    update_agent_run_def
  by (intro keeps_intros keeps_modify; simp)+

lemma purchases_directly:
  assumes "keeps (purchases_ok e) (request (bnd m (\<lambda>_. ret ())))"
  shows "keeps (\<lambda>w. purchases_ok e (fst w)) (directly env scope key data m)"
proof -
  have "succeeds (purchases_ok e) (guarded (idempotency_begin env scope key data) idem_complete
      (bnd m (\<lambda>a. ret (approval_json a))))"
    unfolding guarded_def by (intro succeeds_intros purchases_direct assms keeps_succeeds purchases_gate)
  then have "keeps (purchases_ok e) (request (guarded (idempotency_begin env scope key data) idem_complete
      (bnd m (\<lambda>a. ret (approval_json a)))))"
    by (intro purchases_request_Inr) (auto dest: succeedsD)
  then show ?thesis unfolding directly_def by (intro keeps_intros)
qed

lemma purchases_through:
  assumes "keeps (\<lambda>w. purchases_ok e (fst w)) m"
  shows "keeps (\<lambda>w. purchases_ok e (fst w)) (through_workflow env enc p scope key data rid label i m)"
  unfolding through_workflow_def thread_state_def by (intro keeps_intros assms purchases_gate)

lemma purchases_routes:
  "keeps (\<lambda>w. purchases_ok e (fst w)) (route_approve e cfg enc g (app_services e sv uuid5 fc x) p i tok rid key)"
  "keeps (\<lambda>w. purchases_ok e (fst w)) (route_modify e enc g (app_services e sv uuid5 fc x) p i tok rid' q mp key)"
  "keeps (\<lambda>w. purchases_ok e (fst w)) (route_reject e enc g (app_services e sv uuid5 fc x) p i rid key)"
  unfolding route_approve_def route_modify_def route_reject_def thread_state_def Let_def
  by (intro keeps_intros purchases_through purchases_directly purchases_calls purchases_resume)+

section \<open>Everything that can happen\<close>

text \<open>The world of the application: the database, what was sent, and beside them the workflow's threads and the memories
  of the suppliers.  One step is one request to the application, one message to a bot, one start of the workflow, one batch
  of the outbox, or the passing of time.  The state of the bus is a number that stands for it.  What a step returns to its caller plays no role here; a step that raises is a step too.\<close>

type_synonym app = "db \<times> supplier_memory outside world"

inductive app_step ::
  "env \<Rightarrow> settings \<Rightarrow> workflow \<Rightarrow> (uuid \<Rightarrow> string \<Rightarrow> uuid) \<Rightarrow> forecaster \<Rightarrow> mock_supplier \<Rightarrow> app \<Rightarrow> app \<Rightarrow> bool"
  for e cfg g uuid5 fc x where
  tick: "clock (fst w) \<le> n \<Longrightarrow> app_step e cfg g uuid5 fc x w ((fst w)\<lparr>clock := n\<rparr>, snd w)"
| account: "auth_step e cfg d api call w = (r, w') \<Longrightarrow> app_step e cfg g uuid5 fc x w w'"
| telegram_message:
    "telegram_webhook e cfg tg (channel_resumer g (app_services e (approval_service_of cfg) uuid5 fc x)) secret update w
       = (reply, w') \<Longrightarrow> app_step e cfg g uuid5 fc x w w'"
| whatsapp_message:
    "whatsapp_webhook e cfg (channel_resumer g (app_services e (approval_service_of cfg) uuid5 fc x)) sig raw parsed w
       = (reply, w') \<Longrightarrow> app_step e cfg g uuid5 fc x w w'"
| start:
    "out_threads (wd_out (snd w)) (thread_id (ws_merchant_id v) (ws_request_id v)) = None \<Longrightarrow>
     wired_start g (app_services e (approval_service_of cfg) uuid5 fc x) v w = (reply, w')
       \<Longrightarrow> app_step e cfg g uuid5 fc x w w'"
| approve:
    "route_approve e cfg enc g (app_services e (approval_service_of cfg) uuid5 fc x) p i tok rid key w = (reply, w')
       \<Longrightarrow> app_step e cfg g uuid5 fc x w w'"
| revise:
    "route_modify e enc g (app_services e (approval_service_of cfg) uuid5 fc x) p i tok request_id q mp key w = (reply, w')
       \<Longrightarrow> app_step e cfg g uuid5 fc x w w'"
| reject:
    "route_reject e enc g (app_services e (approval_service_of cfg) uuid5 fc x) p i rid key w = (reply, w')
       \<Longrightarrow> app_step e cfg g uuid5 fc x w w'"
| supplier_answer:
    "on_db (decide_supplier_order e p i approved) w = (reply, w') \<Longrightarrow> app_step e cfg g uuid5 fc x w w'"
| catalog_change: "on_db (upsert_supplier_product e p b) w = (reply, w') \<Longrightarrow> app_step e cfg g uuid5 fc x w w'"
| receipt: "on_db (confirm_scanned_receipt e p rcpt tr) w = (reply, w') \<Longrightarrow> app_step e cfg g uuid5 fc x w w'"
| manual_receipt:
    "on_db (confirm_manual e p entry tr) w = (reply, w') \<Longrightarrow> app_step e cfg g uuid5 fc x w w'"
| stock_event: "on_db (inventory_event e p ev) w = (reply, w') \<Longrightarrow> app_step e cfg g uuid5 fc x w w'"
| campaign: "on_db (request (create_campaign e title pct audience)) w = (reply, w') \<Longrightarrow> app_step e cfg g uuid5 fc x w w'"
| agent_message: "on_db (request (receive_message e cfg v)) w = (reply, w') \<Longrightarrow> app_step e cfg g uuid5 fc x w w'"
| requested_run:
    "merges c \<Longrightarrow> start_run e (starting c g (app_services e (approval_service_of cfg) uuid5 fc x)) p trace b w = (reply, w')
       \<Longrightarrow> app_step e cfg g uuid5 fc x w w'"
| negotiation:
    "merges c \<Longrightarrow> start_negotiation e fl (Some (starting c g (app_services e (approval_service_of cfg) uuid5 fc x))) p n w
       = (reply, w') \<Longrightarrow> app_step e cfg g uuid5 fc x w w'"
| low_stock_run:
    "merges c \<Longrightarrow> detect_low_stock e fl (Some (starting c g (app_services e (approval_service_of cfg) uuid5 fc x))) al p w
       = (reply, w') \<Longrightarrow> app_step e cfg g uuid5 fc x w w'"
| notification_read: "on_db (request (mark_read p i)) w = (reply, w') \<Longrightarrow> app_step e cfg g uuid5 fc x w w'"
| notifications_read: "on_db (request (mark_all_read p)) w = (reply, w') \<Longrightarrow> app_step e cfg g uuid5 fc x w w'"
| voice_session: "on_db (request (create_voice_session e p b)) w = (reply, w') \<Longrightarrow> app_step e cfg g uuid5 fc x w w'"
| voice_call:
    "run_pipeline U (synth :: utext \<Rightarrow> string \<Rightarrow> nat list \<times> exc option)
       (handle_utterance U tx (voice_resumer g (app_services e (approval_service_of cfg) uuid5 fc x)) llm) turns (l, w)
       = (reply, (l', w')) \<Longrightarrow> app_step e cfg g uuid5 fc x w w'"
| outbox: "publish_outbox (bus :: nat bus) (fst w, b) = (reply, (s, b')) \<Longrightarrow> app_step e cfg g uuid5 fc x w (s, snd w)"

inductive_cases app_stepE: "app_step e cfg g uuid5 fc x w w'"

definition app_steps ::
  "env \<Rightarrow> settings \<Rightarrow> workflow \<Rightarrow> (uuid \<Rightarrow> string \<Rightarrow> uuid) \<Rightarrow> forecaster \<Rightarrow> mock_supplier \<Rightarrow> app \<Rightarrow> app \<Rightarrow> bool" where
  "app_steps e cfg g uuid5 fc x = rtranclp (app_step e cfg g uuid5 fc x)"

lemma app_step_purchases:
  assumes "app_step e cfg g uuid5 fc x w w'" and ok: "purchases_ok e (fst w)"
  shows "purchases_ok e (fst w')"
proof -
  from assms(1) show ?thesis
  proof (cases rule: app_step.cases)
    case (tick n)
    with ok show ?thesis by simp
  next
    case account
    from keepsD [OF accounts.step_keeps this] ok show ?thesis by simp
  next
    case telegram_message
    from keepsD [OF purchase_channels.webhook_keeps(1) this] ok show ?thesis by simp
  next
    case whatsapp_message
    from keepsD [OF purchase_channels.webhook_keeps(2) this] ok show ?thesis by simp
  next
    case (start v)
    from keepsD [OF purchases.wired_start_keeps start(2) [unfolded app_services_def]] ok show ?thesis by simp
  next
    case approve
    from keepsD [OF purchases_routes(1) this] ok show ?thesis by simp
  next
    case revise
    from keepsD [OF purchases_routes(2) this] ok show ?thesis by simp
  next
    case reject
    from keepsD [OF purchases_routes(3) this] ok show ?thesis by simp
  next
    case supplier_answer
    from keepsD [OF keeps_on_db [OF purchases_supplier] this] ok show ?thesis by simp
  next
    case catalog_change
    from keepsD [OF keeps_on_db [OF purchases_catalog] this] ok show ?thesis by simp
  next
    case receipt
    from keepsD [OF keeps_on_db [OF purchases_stock(1)] this] ok show ?thesis by simp
  next
    case manual_receipt
    from keepsD [OF keeps_on_db [OF purchases_stock(2)] this] ok show ?thesis by simp
  next
    case stock_event
    from keepsD [OF keeps_on_db [OF purchases_stock(3)] this] ok show ?thesis by simp
  next
    case agent_message
    from keepsD [OF keeps_on_db [OF purchases_message] this] ok show ?thesis by simp
  next
    case campaign
    from keepsD [OF keeps_on_db [OF purchases_stock(4)] this] ok show ?thesis by simp
  next
    case requested_run
    from keepsD [OF purchase_starts.start_run_keeps requested_run(2)] ok show ?thesis by simp
  next
    case negotiation
    from keepsD [OF purchase_starts.start_negotiation_keeps negotiation(2)] ok show ?thesis by simp
  next
    case low_stock_run
    from keepsD [OF purchase_starts.detect_low_stock_keeps low_stock_run(2)] ok show ?thesis by simp
  next
    case notification_read
    from keepsD [OF keeps_on_db [OF purchases_request [OF purchases_notifications(1)]] this] ok show ?thesis by simp
  next
    case notifications_read
    from keepsD [OF keeps_on_db [OF purchases_request [OF purchases_notifications(2)]] this] ok show ?thesis by simp
  next
    case voice_session
    from keepsD [OF keeps_on_db [OF purchases_request [OF purchases_voice_session]] this] ok show ?thesis by simp
  next
    case voice_call
    from keepsD [OF purchase_voice.pipeline_keeps this] ok show ?thesis by simp
  next
    case outbox
    from keepsD [OF purchases_outbox outbox(2)] ok show ?thesis by (simp add: outbox(1))
  qed
qed

lemma app_steps_purchases:
  assumes "app_steps e cfg g uuid5 fc x w w'" and "purchases_ok e (fst w)"
  shows "purchases_ok e (fst w')"
  using assms unfolding app_steps_def by (induction rule: rtranclp_induct) (auto dest: app_step_purchases)

lemma orders_of_approval:
  assumes ok: "purchases_ok e s" and "x \<in> set (t_orders s)" "y \<in> set (t_orders s)" and "o_approval_id x = o_approval_id y"
  shows "x = y"
proof -
  from assms have "backed e s x" "backed e s y" by (simp_all add: purchases_ok_def)
  then obtain a b where a: "a \<in> set (t_approvals s)" "o_approval_id x = Some (row_id a)"
      "o_order_hash x = canonical_order_hash e (ap_proposal_payload a)"
    and b: "b \<in> set (t_approvals s)" "o_approval_id y = Some (row_id b)"
      "o_order_hash y = canonical_order_hash e (ap_proposal_payload b)"
    unfolding backed_def by blast
  have "distinct (map row_id (t_approvals s))"
    using ok by (auto simp: purchases_ok_def approvals_ok_def dest: table_ok_distinct)
  with a b assms(4) have "a = b" by (simp add: distinct_map inj_on_def)
  with a b have "order_clash x y" by (simp add: order_clash_def)
  moreover have "order_clash u v = order_clash v u" for u v by (auto simp: order_clash_def)
  ultimately show ?thesis
    using ok assms(2,3) by (auto simp: purchases_ok_def orders_ok_def intro: table_ok_no_clash)
qed

end
