(* ===== verification/AppSamples.thy ===== *)
theory AppSamples
  imports Samples System Realtime Munim
begin

text \<open>
  Data for the witnesses of the running application: an order that waits for its supplier, a merchant with a chat, a
  request whose approval was decided past the workflow, events, a shop that sells and a call.
\<close>

section \<open>An order that waits for its supplier\<close>

definition waiting_order :: order_row where
  "waiting_order = (new_order 20 sample_now 1 sample_proposal approved_approval sample_key)\<lparr>o_status := OS_APPROVAL_PENDING\<rparr>"

definition waiting_payment :: transaction_row where
  "waiting_payment = new_transaction 21 sample_now 1 20 approved_approval sample_proposal sample_key"

definition rice_supplier :: supplier_row where
  "rice_supplier = \<lparr>row_id = 3, created_at = sample_now, updated_at = sample_now, s_merchant_id = Some 8,
     s_name = ''Rice House'', s_adapter_type = ''CATALOG'', s_endpoint = None, s_trust_score = Dec 90 2, s_is_active = True,
     s_phone_number = None, s_gstin = None, s_pan = None, s_city = None, s_state = None, s_pincode = None, s_address = [],
     s_category = None, s_configuration = []\<rparr>"

definition rice_product :: product_row where
  "rice_product = \<lparr>row_id = 30, created_at = sample_now, updated_at = sample_now, p_merchant_id = 8, p_sku = ''RICE-25'',
     p_name = ''Rice'', p_unit = ''bag'', p_category = None, p_attributes = []\<rparr>"

definition rice_stock :: supplier_product_row where
  "rice_stock = \<lparr>row_id = 31, created_at = sample_now, updated_at = sample_now, sp_supplier_id = 3, sp_product_id = 30,
     sp_supplier_sku = ''RICE-25'', sp_available_quantity = Dec 25 0, sp_unit_price = Dec 94 0, sp_lead_time_days = 2\<rparr>"

definition waiting_db :: db where
  "waiting_db = order_db\<lparr>t_orders := [waiting_order], t_transactions := [waiting_payment],
     t_order_items := [new_item 22 sample_now 20 sample_proposal], t_suppliers := [rice_supplier],
     t_products := [rice_product], t_supplier_products := [rice_stock]\<rparr>"

definition rice_owner :: principal where
  "rice_owner = \<lparr>pl_user_id = 10, pl_merchant_id = 8, pl_role = ''supplier'', pl_session_id = None\<rparr>"

lemma waiting_ok: "purchases_ok (sample_env sample_claims) waiting_db"
proof -
  have au: "authorized (sample_env sample_claims) sample_service order_db 6 1 ''token'' approved_approval sample_proposal sample_merchant"
    by (rule sample_authorized)
  have a: "approvals_ok (sample_env sample_claims) waiting_db"
    using sample_ok [of sample_claims]
    by (simp add: approvals_ok_def table_ok_def waiting_db_def approval_wf_def approved_approval_def order_db_def)
  have o: "orders_ok waiting_db"
    by (simp add: orders_ok_def waiting_db_def table_ok_def order_paid_def waiting_order_def waiting_payment_def new_order_def
        new_transaction_def)
  have "backed (sample_env sample_claims) waiting_db waiting_order"
    unfolding backed_def
    by (intro bexI [of _ approved_approval] exI [of _ sample_proposal])
      (use au in \<open>auto simp: authorized_def waiting_order_def new_order_def waiting_db_def\<close>)
  with a o show ?thesis by (simp add: purchases_ok_def waiting_db_def)
qed

lemma waiting_stock_ok: "catalog_ok waiting_db"
  by (simp add: catalog_ok_def waiting_db_def table_ok_def rice_stock_def rat_of_def)

lemma waiting_fields [simp]:
  "t_orders waiting_db = [waiting_order]" "t_suppliers waiting_db = [rice_supplier]" "t_products waiting_db = [rice_product]"
  "t_supplier_products waiting_db = [rice_stock]" "t_order_items waiting_db = [new_item 22 sample_now 20 sample_proposal]"
  "t_transactions waiting_db = [waiting_payment]" "draws waiting_db = 0" "clock waiting_db = sample_now"
  "t_order_events waiting_db = []" "t_notifications waiting_db = []" "t_outbox_events waiting_db = []"
  "t_approvals waiting_db = [approved_approval]"
  by (simp_all add: waiting_db_def order_db_def empty_db_def)

lemma waiting_order_fields [simp]:
  "row_id waiting_order = 20" "o_supplier_id waiting_order = 3" "o_status waiting_order = OS_APPROVAL_PENDING"
  "o_merchant_id waiting_order = 1"
  by (simp_all add: waiting_order_def new_order_def sample_proposal_def)

lemma sample_reserves: "mapP (reserve_item 3) [new_item 22 sample_now 20 sample_proposal] waiting_db
   = (Inr [()], waiting_db\<lparr>t_supplier_products := upd (\<lambda>x. row_id x = 31) (mutate sample_now (take_stock (Dec 10000 3))) [rice_stock]\<rparr>)"
  by (simp add: reserve_item_def exec_defs require_def catalog_item_for_def new_item_def sample_proposal_def rice_product_def
      rice_stock_def dlt_rat rat_of_def change_row_def)

lemma settle_returns:
  assumes "clock s = sample_now" "t_order_events s = []" "t_notifications s = []" "t_outbox_events s = []"
  shows "\<exists>t. settle_decision (sample_env c) approved x s = (Inr (), t) \<and> t_orders t = t_orders s"
  using assms
  by (simp add: settle_decision_def exec_defs add_order_event_def add_row_def new_uuid_def add_notification_def add_outbox_def
      outbox_event_def change_row_def Let_def split: option.split)

lemma bnd_pure: "bnd (gets f) k s = k (f s) s" "bnd (ret a) k s = k a s"
  by (simp_all add: bnd_def gets_def ret_def)

lemma sample_answers: obtains v t where "decide_supplier_order (sample_env c) rice_owner 20 approved waiting_db = (Inr v, t)"
proof -
  let ?s = "if approved then waiting_db\<lparr>t_supplier_products := upd (\<lambda>x. row_id x = 31)
      (mutate sample_now (take_stock (Dec 10000 3))) [rice_stock]\<rparr> else waiting_db"
  let ?f = "mutate sample_now (supplier_decided approved)"
  have s: "clock ?s = sample_now" "t_order_events ?s = []" "t_notifications ?s = []" "t_outbox_events ?s = []"
    "t_orders ?s = [waiting_order]" by simp_all
  let ?u = "?s\<lparr>t_orders := upd (\<lambda>r. row_id r = 20) ?f [waiting_order]\<rparr>"
  obtain t where t: "settle_decision (sample_env c) approved (supplier_decided approved waiting_order) ?u = (Inr (), t)"
    "t_orders t = upd (\<lambda>r. row_id r = 20) ?f [waiting_order]"
    using settle_returns [of ?u c approved "supplier_decided approved waiting_order"] s by auto
  have reserved: "(if approved then bnd (gets (order_items 20)) (\<lambda>its. bnd (mapP (reserve_item 3) its) (\<lambda>_. ret ())) else ret ()) waiting_db
      = (Inr (), ?s)"
    using sample_reserves by (simp add: exec_defs order_items_def new_item_def)
  have y: "by_id 20 (t_orders t) = Some (?f waiting_order)" by (simp add: t by_id_def mutate_def)
  have "lower ''supplier'' = ''supplier''" by code_simp
  then have spl: "owned_supplier rice_owner waiting_db = (Inr rice_supplier, waiting_db)"
    by (simp add: owned_supplier_def exec_defs require_def rice_owner_def account_supplier_def rice_supplier_def)
  have change: "change_row t_orders t_orders_update 20 (supplier_decided approved) ?s = (Inr (), ?u)"
    using s by (simp add: change_row_def)
  have order: "incoming_order 20 3 waiting_db = Some waiting_order" by (simp add: incoming_order_def)
  have "row_id rice_supplier = 3" by (simp add: rice_supplier_def)
  moreover have "bnd (owned_supplier rice_owner) f waiting_db = f rice_supplier waiting_db" for f :: "supplier_row \<Rightarrow> order_view m"
    by (rule bnd_eval) (rule spl)
  moreover have "bnd (if approved then bnd (gets (order_items 20)) (\<lambda>its. bnd (mapP (reserve_item 3) its) (\<lambda>_. ret ())) else ret ())
      f waiting_db = f () ?s" for f :: "unit \<Rightarrow> order_view m" by (rule bnd_eval) (rule reserved)
  moreover have "bnd (change_row t_orders t_orders_update 20 (supplier_decided approved)) f ?s = f () ?u" for f :: "unit \<Rightarrow> order_view m"
    by (rule bnd_eval) (rule change)
  moreover have "bnd (settle_decision (sample_env c) approved (supplier_decided approved waiting_order)) f ?u = f () t"
    for f :: "unit \<Rightarrow> order_view m" by (rule bnd_eval) (rule t(1))
  ultimately have "\<exists>v. decide_supplier_order (sample_env c) rice_owner 20 approved waiting_db = (Inr v, t)"
    by (cases approved)
      (simp_all add: decide_supplier_order_def request_def atomic_def bnd_pure order require_def andthen_def y, simp_all add: gets_def)
  then show thesis using that by blast
qed

section \<open>The world around it\<close>

definition app_world :: "supplier_memory outside world" where
  "app_world = \<lparr>wd_chats = [], wd_otps = [], wd_out = \<lparr>out_threads = Map.empty, out_suppliers = (empty_mock, Map.empty)\<rparr>\<rparr>"

definition sample_uuid5 :: "uuid \<Rightarrow> string \<Rightarrow> uuid" where
  "sample_uuid5 n s = n + of_nat (length s)"

definition app_mock :: mock_supplier where
  "app_mock = \<lparr>mx_env = sample_env [], mx_uuid5 = sample_uuid5, mx_name = ''Rice House'', mx_buyer = 4, mx_secret = ''shared'',
     mx_catalog = Map.empty, mx_fail_every = 0\<rparr>"

definition no_forecast :: forecaster where
  "no_forecast h n = Inl (Exc PyRuntimeError ''no model'')"

lemma empty_messages_ok: "messages_inv {} empty_db"
  by (simp add: messages_inv_def empty_db_def table_ok_def)

section \<open>A chat\<close>

definition chat_message :: telegram_inbound where
  "chat_message = \<lparr>ti_update_id = 1, ti_message_id = ''11'', ti_chat_id = ''77'', ti_sender_id = ''77'', ti_sender_name = ''Eve'',
     ti_username = None, ti_kind = ''message'', ti_text = Some ''/connect 9876543210'', ti_callback_data = None,
     ti_callback_query_id = None, ti_raw = JNull\<rparr>"

definition phone_merchant :: merchant_row where
  "phone_merchant = sample_merchant\<lparr>m_phone_number := Some ''9876543210''\<rparr>"

definition chat_db :: db where
  "chat_db = empty_db\<lparr>t_approvals := [sample_approval], t_merchants := [phone_merchant], t_users := [sample_user]\<rparr>"

definition answering_bot :: "'w world http_post" where
  "answering_bot meth payload key w =
     (HttpReply 200 None [] (Inr (JObj [(''ok'', JBool True), (''result'', JObj [(''message_id'', JInt 1)])])), w)"

lemma sample_connects: "connect_merchant (rest_words ''/connect 9876543210'') chat_db = Some phone_merchant"
  "merchant_for_phone ''9876543210'' chat_db = Some phone_merchant" "\<not> has_at ''9876543210''"
  "dropWhile (\<lambda>c. \<not> is_space c) ''/connect 9876543210'' \<noteq> []"
proof -
  have r: "rest_words ''/connect 9876543210'' = ''9876543210''" by code_simp
  have p: "filter (\<lambda>c. is_digit c \<or> c = CHR ''+'') ''9876543210'' = ''9876543210''" by code_simp
  have c: "''9876543210'' \<in> set (phone_candidates ''9876543210'')" by code_simp
  show at: "\<not> has_at ''9876543210''" by code_simp
  show m: "merchant_for_phone ''9876543210'' chat_db = Some phone_merchant"
    using c by (simp add: merchant_for_phone_def chat_db_def phone_merchant_def sample_merchant_def)
  show "connect_merchant (rest_words ''/connect 9876543210'') chat_db = Some phone_merchant"
    unfolding r connect_merchant_def using at m p by simp
  show "dropWhile (\<lambda>c. \<not> is_space c) ''/connect 9876543210'' \<noteq> []" by code_simp
qed

lemma sample_press: obtains w' where
  "press_button (sample_env c) cfg None None chat_message 50 6 CA_REJECT (chat_db, app_world) = (Inr (), w')"
proof -
  have d: "draws chat_db = 0" "clock chat_db = sample_now" "t_outbox_events chat_db = []" "t_audit_logs chat_db = []"
    "t_channel_messages chat_db = []" "t_approvals chat_db = [sample_approval]"
    by (simp_all add: chat_db_def empty_db_def)
  have a: "find_approval 6 None s = Some sample_approval" if "t_approvals s = [sample_approval]" for s
    using that by (simp add: find_approval_def)
  have m: "by_id 1 (t_merchants chat_db) = Some phone_merchant"
    by (simp add: chat_db_def by_id_def phone_merchant_def sample_merchant_def)
  obtain r t where link: "auto_link chat_message 50 phone_merchant chat_db = (r, t)"
    by (cases "auto_link chat_message 50 phone_merchant chat_db")
  have t: "r = Inr () \<and> t_approvals t = [sample_approval] \<and> t_outbox_events t = [] \<and> t_audit_logs t = [] \<and> draws t = 0
      \<and> clock t = sample_now \<and> t_users t = [sample_user]"
    using link by (auto simp: auto_link_def request_def atomic_def exec_defs change_merchant_def change_row_def change_message_def
        d by_id_def ret_def split: if_splits) (simp_all add: chat_db_def)
  have u: "active_user_of phone_merchant t = Some sample_user"
    using t by (simp add: active_user_of_def phone_merchant_def sample_merchant_def sample_user_def)
  obtain b s where rej: "approval_reject (sample_env c) 6 1 9 t = (Inr b, s)"
    unfolding reject_Inr using t by (auto simp: a unused_id_def)
  have "row_id phone_merchant = 1" "row_id sample_user = 9" by (simp_all add: phone_merchant_def sample_merchant_def sample_user_def)
  then have "press_button (sample_env c) cfg None None chat_message 50 6 CA_REJECT (chat_db, app_world) = (Inr (), (s, app_world))"
    using link t u rej m a d
    by (simp add: press_button_def exec_defs on_db_def approvals_get_def require_def channel_decide_def request_def atomic_def
        close_card_def)
  then show thesis by (rule that)
qed

section \<open>A decision past the workflow\<close>

definition stuck_world :: "supplier_memory outside world" where
  "stuck_world = app_world\<lparr>wd_out := \<lparr>out_threads = [thread_id (str_uuid 1) ''R-1'' \<mapsto> gate_thread],
     out_suppliers = (empty_mock, Map.empty)\<rparr>\<rparr>"

section \<open>Events on their way\<close>

definition sample_event :: outbox_row where
  "sample_event = \<lparr>row_id = 40, created_at = sample_now, updated_at = sample_now, ob_merchant_id = Some 1,
     ob_aggregate_type = ''approval'', ob_aggregate_id = 6, ob_event_type = APPROVAL_GRANTED, ob_payload = [],
     ob_trace_id = None, ob_correlation_id = None, ob_event_version = 1, ob_published_at = None, ob_attempts = 0,
     ob_last_error = None\<rparr>"

definition event_db :: db where
  "event_db = empty_db\<lparr>t_outbox_events := [sample_event]\<rparr>"

definition good_server :: "string \<Rightarrow> dict \<Rightarrow> nat \<Rightarrow> (exc + int) \<times> nat" where
  "good_server channel payload n = (Inr 1, Suc n)"

definition good_socket :: "(nat, nat) sender" where
  "good_socket k d n = (Inr (), Suc n)"

text \<open>Two merchants, one socket each.\<close>

definition sample_room :: "(nat, nat) room" where
  "sample_room = \<lparr>sockets = (\<lambda>m. if m = 1 then [11] else if m = 2 then [22] else []), wire = [], net = 0\<rparr>"

lemma good_sides [simp]: "accepting (redis_bus good_server)" "sending good_socket"
  by (simp_all add: accepting_def redis_bus_def good_server_def sending_def good_socket_def)

lemma event_db_fields [simp]: "t_outbox_events event_db = [sample_event]"
  by (simp add: event_db_def)

lemma sample_event_sound: "sound_rows event_db" "valid_time (created_at sample_event)" "length (waiting_rows event_db) \<le> 1 * 100"
  "ob_published_at sample_event = None" "ob_merchant_id sample_event = Some 1"
  by (simp_all add: sound_rows_def sample_event_def waiting_rows_def valid_time_def sample_now_def epoch_ordinal_def day_us_def)

section \<open>Two orders in pages of one\<close>

text \<open>A reader of the two texts in an array.\<close>

definition pair_loads :: "string \<Rightarrow> exc + json" where
  "pair_loads s = (case split_first CHR 0x22 (drop 2 s) of
     (a, Some rest) \<Rightarrow> (case split_first CHR 0x22 (drop 2 rest) of (b, _) \<Rightarrow> Inr (JArr [JStr a, JStr b]))
   | _ \<Rightarrow> Inl (Exc PyValueError ''not a pair''))"

lemma split_first_at: "c \<notin> set a \<Longrightarrow> split_first c (a @ c # b) = (a, Some b)"
  by (induction a) auto

lemma pair_loads_reads: "reads_pairs pair_loads"
proof -
  have quote: "quote_str s = [CHR 0x22] @ s @ [CHR 0x22]" "CHR 0x22 \<notin> set s" if "plain s" for s
  proof -
    have "concat (map esc_char s) = s" using that by (induction s) simp_all
    then show "quote_str s = [CHR 0x22] @ s @ [CHR 0x22]" by (simp add: quote_str_def)
    show "CHR 0x22 \<notin> set s" using that by (auto simp: plain_def esc_char_def)
  qed
  have "pair_loads (render (JArr [JStr a, JStr b])) = Inr (JArr [JStr a, JStr b])" if "plain a" "plain b" for a b
    using quote [OF that(1)] quote [OF that(2)] by (simp add: pair_loads_def split_first_at)
  then show ?thesis by (simp add: reads_pairs_def)
qed

definition older_order :: order_row where
  "older_order = waiting_order\<lparr>row_id := 23, created_at := sample_now - hours 1\<rparr>"

definition two_orders_db :: db where
  "two_orders_db = waiting_db\<lparr>t_orders := [waiting_order, older_order]\<rparr>"

definition every_order :: order_filter where
  "every_order = \<lparr>of_status = None, of_store_id = None, of_supplier_id = None, of_created_from = None, of_created_to = None,
     of_search = None\<rparr>"

definition shop_owner :: principal where
  "shop_owner = \<lparr>pl_user_id = 9, pl_merchant_id = 1, pl_role = ''merchant'', pl_session_id = None\<rparr>"

lemma two_orders: "distinct (map row_id (t_orders two_orders_db))" "distinct (map row_id (t_suppliers two_orders_db))"
  "\<forall>x \<in> set (t_orders two_orders_db). valid_time (created_at x)"
  "(older_order, rice_supplier) \<in> set (matching_orders shop_owner every_order two_orders_db)"
  "(waiting_order, rice_supplier) \<in> set (matching_orders shop_owner every_order two_orders_db)"
  "length (matching_orders shop_owner every_order two_orders_db) \<le> 2"
  by (simp_all add: two_orders_db_def waiting_db_def older_order_def waiting_order_def new_order_def matching_orders_def
      orders_joined_def rice_supplier_def sample_proposal_def every_order_def order_matches_def opt_is_def created_within_def
      truthy_def shop_owner_def valid_time_def sample_now_def epoch_ordinal_def day_us_def hours_def)

section \<open>A shop without a spending limit\<close>

definition free_merchant :: merchant_row where
  "free_merchant = sample_merchant\<lparr>m_spending_limit := Dec 0 2\<rparr>"

definition shop_store :: store_row where
  "shop_store = \<lparr>row_id = 2, created_at = sample_now, updated_at = sample_now, st_merchant_id = 1, st_name = ''Main'',
     st_timezone = ''Asia/Kolkata'', st_address = []\<rparr>"

definition shop_rice :: product_row where
  "shop_rice = rice_product\<lparr>row_id := 60, p_merchant_id := 1\<rparr>"

definition shop_inventory :: inventory_row where
  "shop_inventory = \<lparr>row_id = 61, created_at = sample_now, updated_at = sample_now, inv_merchant_id = 1, inv_store_id = 2,
     inv_product_id = 60, inv_quantity_on_hand = Dec 50 0, inv_reserved_quantity = Dec 0 0, inv_reorder_point = Dec 10 0\<rparr>"

definition shop_sale :: sale_row where
  "shop_sale = \<lparr>row_id = 62, created_at = sample_now, updated_at = sample_now, sa_merchant_id = 1, sa_store_id = 2,
     sa_product_id = 60, sa_quantity = Dec 5 0, sa_unit_price = Dec 100 0, sa_sold_at = sample_now, sa_signals = []\<rparr>"

definition free_db :: db where
  "free_db = empty_db\<lparr>t_merchants := [free_merchant], t_stores := [shop_store], t_products := [shop_rice],
     t_inventory := [shop_inventory], t_sales := [shop_sale]\<rparr>"

lemma free_db_fields [simp]:
  "clock free_db = sample_now" "draws free_db = 0" "t_merchants free_db = [free_merchant]" "t_stores free_db = [shop_store]"
  "t_products free_db = [shop_rice]" "t_inventory free_db = [shop_inventory]" "t_sales free_db = [shop_sale]"
  "t_agent_sessions free_db = []" "t_agent_runs free_db = []" "t_approvals free_db = []"
  by (simp_all add: free_db_def empty_db_def)

lemmas shop_rows = free_merchant_def sample_merchant_def shop_store_def shop_rice_def rice_product_def shop_inventory_def
  shop_sale_def shop_owner_def

definition rice_wanted :: negotiation_request where
  "rice_wanted = \<lparr>nr_sku = ''rice-25'', nr_supplier_id = None, nr_store_id = None, nr_quantity = Some (Dec 5 0),
     nr_target_price = None, nr_max_price = None\<rparr>"

definition plain_floats :: float_ops where
  "plain_floats = \<lparr>fl_minus = dsub, fl_times = dmul, fl_round = quantize 2\<rparr>"

lemma sample_negotiation: obtains v t where
  "negotiation_state (sample_env c) plain_floats shop_owner rice_wanted free_db = (Inr (v, shop_rice), t)"
proof -
  have sku: "upper ''RICE-25'' = ''RICE-25''" "wanted_sku ''rice-25'' = ''RICE-25''" by code_simp+
  have "\<exists>v t. negotiation_state (sample_env c) plain_floats shop_owner rice_wanted free_db = (Inr (v, shop_rice), t)"
    by (simp add: negotiation_state_def resolve_store_def first_store_def resolve_product_def sales_or_made_up_def latest_sales_def
        item_sales_def exec_defs rice_wanted_def shop_rows sku by_id_def new_uuid_def require_def Let_def)
  then show thesis using that by blast
qed

definition rice_run :: run_request where
  "rice_run = \<lparr>rr_request_id = ''request-1'', rr_store_id = 2, rr_sku = ''RICE-25'', rr_safety_stock = Dec 2 0,
     rr_required_quantity = Dec 0 0, rr_target_price = Dec 90 0, rr_max_price = Dec 100 0, rr_delivery_deadline = sample_now + days 2\<rparr>"

text \<open>Fifty bags and a reorder point of ten: the workflow ends at its first node.\<close>

lemma sample_run: obtains v w' where
  "start_run (sample_env c) (starting (\<lambda>v w. v) g sv) shop_owner ''trace'' rice_run (free_db, app_world)
     = (Inr (''request-1'', Some v), w')" "ws_failure v = Some ''inventory_above_reorder_point''" "ws_approval_status v = None"
proof -
  have ok: "run_request_ok rice_run"
    by (simp add: run_request_ok_def rice_run_def dle_def dlt_def dzero_def)
  have "\<exists>v. run_state shop_owner rice_run free_db = (Inr v, free_db) \<and> wi_quantity_on_hand (ws_inventory v) = py_float (Dec 50 0)
      \<and> wi_reorder_point (ws_inventory v) = py_float (Dec 10 0) \<and> ws_approval_status v = None
      \<and> ws_merchant_id v = str_uuid 1 \<and> ws_request_id v = ''request-1''"
    using ok by (simp add: run_state_def exec_defs require_def find_store_def stock_at_def latest_sales_def item_sales_def
        shop_rows by_id_def purchase_state_def rice_run_def)
  then obtain v where v: "run_state shop_owner rice_run free_db = (Inr v, free_db)"
    "wi_quantity_on_hand (ws_inventory v) = py_float (Dec 50 0)" "wi_reorder_point (ws_inventory v) = py_float (Dec 10 0)"
    "ws_approval_status v = None" "ws_merchant_id v = str_uuid 1" "ws_request_id v = ''request-1''" by blast
  let ?v = "v\<lparr>ws_failure := Some ''inventory_above_reorder_point''\<rparr>"
  have "detect_need v = ?v" using v by (simp add: detect_need_def py_float.simps dlt_def)
  then have node: "run_node g sv DetectNeed v s = (Inr ?v, s)" "next_node DetectNeed ?v = None" for s
    by (simp_all add: run_node_def next_node_def ret_def failing_def)
  have start: "\<exists>w'. starting (\<lambda>v w. v) g sv v (free_db, app_world) = (Inr (), w') \<and> fst w' = free_db
      \<and> out_threads (wd_out (snd w')) (thread_id (str_uuid 1) ''request-1'') = Some \<lparr>th_values = ?v, th_next = None\<rparr>"
    using v by (simp add: starting_def wired_start_def on_thread_def runtime_start_def recursion_limit_def numeral_eq_Suc
        invoke.simps node)
  then obtain w' where w': "starting (\<lambda>v w. v) g sv v (free_db, app_world) = (Inr (), w')" "fst w' = free_db"
    "out_threads (wd_out (snd w')) (thread_id (str_uuid 1) ''request-1'') = Some \<lparr>th_values = ?v, th_next = None\<rparr>" by blast
  have "\<exists>t. request (record_run (sample_env c) shop_owner ''trace'' rice_run (Some ?v)) free_db = (Inr (), t)"
    by (simp add: request_def atomic_def record_run_def run_session_def exec_defs new_uuid_def Let_def add_row_def)
  then obtain t where "request (record_run (sample_env c) shop_owner ''trace'' rice_run (Some ?v)) free_db = (Inr (), t)" by blast
  with v w' have "start_run (sample_env c) (starting (\<lambda>v w. v) g sv) shop_owner ''trace'' rice_run (free_db, app_world)
     = (Inr (''request-1'', Some ?v), (t, snd w'))"
    by (simp add: start_run_def exec_defs on_db_def thread_state_def shop_owner_def rice_run_def)
  then show thesis by (rule that) (simp_all add: v)
qed

definition sample_app_services :: "(db \<times> supplier_memory) wf_services" where
  "sample_app_services = app_services (sample_env sample_claims) (approval_service_of default_settings) sample_uuid5 no_forecast app_mock"

section \<open>A call\<close>

definition plain_unicode :: unicode where
  "plain_unicode = \<lparr>un_word = (\<lambda>n. False), un_lower = (\<lambda>n. [n]), un_space = (\<lambda>n. False), un_digit = (\<lambda>n. None)\<rparr>"

definition no_texts :: voice_texts where
  "no_texts = \<lparr>vt_message = (\<lambda>lang key. []), vt_low_stock = (\<lambda>family names. []), vt_pending = (\<lambda>family n. [])\<rparr>"

definition one_piece :: "utext \<Rightarrow> string \<Rightarrow> nat list \<times> exc option" where
  "one_piece t lang = ([length t], None)"

definition call_line :: "nat voice_line" where
  "call_line = \<lparr>vl_session = \<lparr>vo_session_id = 90, vo_merchant_id = 1, vo_user_id = 9, vo_language_code = ''hi-IN'',
     vo_sample_rate = 16000, vo_encoding = ''pcm_s16le'', vo_active_proposal_id = Some 5, vo_active_request_id = Some ''R-1'',
     vo_approval_token = Some ''token'', vo_started_at = sample_now, vo_interrupted = False, vo_closed = False,
     vo_speaking = False, vo_reconnect_count = 0, vo_history = []\<rparr>, vl_out = []\<rparr>"

lemma call_ready: "ready (vl_session call_line) ''R-1'' ''token'' 5" "vo_merchant_id (vl_session call_line) = 1"
  "vo_user_id (vl_session call_line) = 9"
  by (simp_all add: ready_def call_line_def)

lemma cancel_rejects:
  "\<exists>i. extract_voice_intent U (ascii ''Cancel it'') = Inr i \<and> vi_intent i = REJECT_ACTIVE_PROPOSAL"
proof -
  let ?t = "ascii ''cancel it''"
  have h: "heard_text U (ascii ''Cancel it'') = ?t"
    by (simp add: heard_text_def ustrip_def ulower_def ascii_def lower_char_def space_char_def)
  have q: "word_quantity U ?t = None" unfolding word_quantity_def number_words_def by (simp add: text_simps)
  have n: "find_number U None ?t = None" by (simp add: text_simps digit_char_def)
  have "\<not> says U ?t approve_words" "says U ?t reject_words"
    unfolding says_def match_word_def approve_words_def reject_words_def by (simp_all add: text_simps)
  then show ?thesis
    by (simp add: extract_voice_intent_def h [unfolded heard_text_def] spoken_quantity_def n q bindE_def voice_intent_of_def Let_def)
qed

lemma sample_rejects:
  obtains rec s1 where "db_decide (sample_env c) sample_service 6 1 AS_REJECTED tok (Some 9) sample_db = (Inr rec, s1)"
    "s1 \<noteq> sample_db"
proof -
  obtain b t where t: "approval_reject (sample_env c) 6 1 9 sample_db = (Inr b, t)"
    unfolding reject_Inr by (simp add: unused_id_def)
  then have "db_decide (sample_env c) sample_service 6 1 AS_REJECTED tok (Some 9) sample_db = (Inr (approval_record_of b), t)"
    by (simp add: db_decide_def request_def atomic_def exec_defs require_def)
  moreover have "t \<noteq> sample_db" using t unfolding reject_Inr by (auto dest: arg_cong [where f = draws])
  ultimately show thesis by (rule that)
qed

lemma gate_expects: "expect_proposal (Some 5) (th_values gate_thread) = Inr ()"
proof -
  have "bindE (item_str (canonical_payload gate_proposal) ''proposal_id'') uuid_item = Inr 5"
    by (simp add: canonical_payload_def payload_items_def gate_proposal_def item_str_def uuid_item_def str_dict_def)
  then show ?thesis by (simp add: expect_proposal_def gate_thread_def sample_v6_def key_item_def)
qed

lemma wired_rejects:
  obtains s1 w' where "wired_resume g (app_services (sample_env c) sample_service u5 fc x) 1 ''R-1'' AS_REJECTED ''token'' q None
      (Some 9) None (Some 5) (sample_db, stuck_world) = (Inr (), (s1, w'))" "s1 \<noteq> sample_db"
proof -
  let ?sv = "app_services (sample_env c) sample_service u5 fc x" and ?s = "((sample_db, (empty_mock, Map.empty)), gate_thread)"
  obtain rec s1 where d: "db_decide (sample_env c) sample_service 6 1 AS_REJECTED ''token'' (Some 9) sample_db = (Inr rec, s1)"
      "s1 \<noteq> sample_db" by (rule sample_rejects)
  then have "sv_decide ?sv 6 1 AS_REJECTED ''token'' (Some 9) (fst ?s) = (Inr rec, (s1, (empty_mock, Map.empty)))"
    by (simp add: app_services_def db_services_def on_db_def)
  then have o: "on_services (sv_decide ?sv 6 1 AS_REJECTED ''token'' (Some 9)) ?s = (Inr rec, ((s1, (empty_mock, Map.empty)), gate_thread))"
    by (simp add: on_services_def)
  let ?v = "approval_gate Reject (th_values gate_thread)"
  have "next_node HumanApproval ?v = None" by (simp add: next_node_def approval_gate_def)
  then have "runtime_resume g ?sv 1 AS_REJECTED ''token'' q None (Some 9) None (Some 5) ?s
      = (Inr (), ((s1, (empty_mock, Map.empty)), \<lparr>th_values = ?v, th_next = None\<rparr>))"
    using o by (simp add: runtime_resume_def exec_defs decision_of_def gate_expects invoke.simps)
  then show thesis
    by (intro that [OF _ d(2)]) (simp add: wired_resume_def bnd_def gets_def on_thread_def stuck_world_def)
qed

section \<open>Another shop\<close>

definition foreign_sale :: sale_row where
  "foreign_sale = shop_sale\<lparr>row_id := 70, sa_merchant_id := 8, sa_store_id := 12, sa_product_id := 30\<rparr>"

definition crowded_db :: db where
  "crowded_db = free_db\<lparr>t_products := [shop_rice, rice_product], t_sales := [foreign_sale, shop_sale]\<rparr>"

lemma crowded_same: "same_shop 1 free_db crowded_db" "own_products 1 free_db" "own_products 1 crowded_db"
  by (simp_all add: same_shop_def own_products_def product_keys_def crowded_db_def foreign_sale_def shop_rows free_db_def empty_db_def)

definition trading_db :: db where
  "trading_db = two_orders_db\<lparr>t_sales := [shop_sale]\<rparr>"

lemma trading_range: "analytics_range (clock trading_db) None (Some (sample_now + 1)) = Inr (sample_now + 1 - days 30, sample_now + 1)"
  by (simp add: analytics_range_def days_def)

lemma trading_rows:
  "t_orders trading_db = [waiting_order, older_order]" "t_suppliers trading_db = [rice_supplier]" "t_sales trading_db = [shop_sale]"
  "o_supplier_id waiting_order = 3" "o_supplier_id older_order = 3" "row_id rice_supplier = 3" "o_merchant_id waiting_order = 1"
  "o_merchant_id older_order = 1" "created_at waiting_order = sample_now" "created_at older_order = sample_now - hours 1"
  by (simp_all add: trading_db_def two_orders_db_def waiting_db_def waiting_order_def older_order_def new_order_def sample_proposal_def
      rice_supplier_def)

lemma trading_currency: "merchant_currency 1 trading_db = ''INR''"
  by (simp add: merchant_currency_def trading_db_def two_orders_db_def waiting_db_def order_db_def by_id_def sample_merchant_def text_or_def truthy_def)

lemma trading_totals:
  assumes "overview_of 1 None None (Some (sample_now + 1)) trading_db = Inr v"
  shows "rat_of (ov_total_sales_amount v) = 500" "sum_list (map snd (ov_orders_by_status v)) = 2"
proof -
  let ?a = "sample_now + 1 - days 30" and ?b = "sample_now + 1"
  have "sales_between 1 None ?a ?b trading_db = [shop_sale]" "orders_between 1 None ?a ?b trading_db = [waiting_order, older_order]"
    by (simp_all add: sales_between_def orders_between_def trading_rows shop_sale_def opt_is_def days_def hours_def)
  moreover have "rat_of (dsum [sale_value shop_sale]) = 500"
    by (simp add: sale_value_def shop_sale_def) (simp add: rat_of_def)
  ultimately show "rat_of (ov_total_sales_amount v) = 500" "sum_list (map snd (ov_orders_by_status v)) = 2"
    using assms length_groups [of o_status "[waiting_order, older_order]"]
    by (auto simp: overview_of_def bindE_def trading_range Let_def comp_def case_prod_beta simp del: rat_of_dsum)
qed

end
