(* ===== verification/Spec2Isabelle.thy ===== *)
theory Spec2Isabelle
  imports AppSamples
begin

text \<open>
  The backend of Vyapaar (\<open>src/backend/app\<close>) watches a merchant's stock, asks suppliers for quotes,
  negotiates, and buys once the merchant approves.  This library models it from the database rows up and
  proves what keeps a purchase safe: nothing is ordered without a live approval of exactly that proposal, nothing
  is ordered, received or decided twice, and the stock is what its ledger says.

  \<^bold>\<open>How the parts map to the code\<close>

  \<^item> \<open>Prelude\<close>: programs as state passing with exceptions (\<open>'s \<Rightarrow> (exc + 'a) \<times> 's\<close>), their rule
    collections \<open>run_simps\<close>, \<open>keeps_intros\<close>, \<open>succeeds_intros\<close> and \<open>returns_intros\<close>, and tables as lists of rows.
  \<^item> \<open>PyText\<close>, \<open>PyDecimal\<close>, \<open>PyTime\<close>: what the code uses of Python's strings, \<open>uuid\<close>, \<open>decimal\<close> and \<open>datetime\<close>; a
    UUID is a \<open>128 word\<close>, a \<open>Decimal\<close> its coefficient and scale, an aware instant its microseconds since 1970.
  \<^item> \<open>Errors\<close> (\<open>core/errors.py\<close>), \<open>Json\<close> (\<open>json.dumps\<close> as \<open>core/security.py\<close> uses it), \<open>Domain\<close> (\<open>domain/\<close>),
    \<open>Config\<close> (\<open>core/config.py\<close>), \<open>Models\<close> (\<open>infrastructure/db/models.py\<close>: one record per table, the session
    \<open>db\<close> the record of all tables with the clock), \<open>Security\<close> (\<open>core/security.py\<close>, \<open>core/dependencies.py\<close>).
  \<^item> \<open>Store\<close>: adding and changing rows, the outbox, the audit log and notifications, and when ids are fresh.
  \<^item> \<open>Approvals\<close> and \<open>ApprovalLifecycle\<close> (\<open>application/services/approval_service.py\<close>): the service and, over any
    sequence of its calls, each committed or rolled back, the life of an approval and its abstract registry.
  \<^item> \<open>Idempotency\<close> (the gates of \<open>api/v1/approvals.py\<close> and \<open>inventory_service.py\<close>, \<open>infrastructure/idempotency.py\<close>).
  \<^item> \<open>Procurement\<close> (risk, negotiation, procurement services, the catalog adapter), \<open>A2A\<close> (\<open>a2a/\<close>, \<open>api/v1/a2a.py\<close>),
    \<open>Orders\<close> (\<open>application/services/order_service.py\<close>), \<open>Authority\<close> (\<open>agents/services.py\<close>), \<open>Workflow\<close>
    (\<open>agents/state.py\<close>, \<open>graph.py\<close>, \<open>runtime.py\<close> and the nodes), \<open>Activity\<close> (\<open>activity_service.py\<close>), \<open>Inventory\<close>
    (\<open>inventory_service.py\<close> and its repository).
  \<^item> \<open>Contacts\<close>, \<open>Sessions\<close>, \<open>Otp\<close>, \<open>OAuth\<close>, \<open>Registration\<close> (\<open>auth_service.py\<close>, \<open>channels/telegram/registry.py\<close>):
    addresses and chats, refresh sessions, one-time codes, identity providers, accounts; \<open>AuthApi\<close> (\<open>api/v1/auth.py\<close>)
    is one step function for every route.
  \<^item> \<open>Outbound\<close> and \<open>Webhooks\<close> (\<open>integrations/telegram\<close>, \<open>integrations/whatsapp\<close>, \<open>channels/\<close>): what is sent
    to and parsed from the chat channels; \<open>TelegramApi\<close>, \<open>WhatsAppApi\<close>, \<open>Inbox\<close>: what an inbound message does.
  \<^item> \<open>MockSupplier\<close> (\<open>integrations/suppliers/mock_supplier.py\<close>), \<open>Wiring\<close> (\<open>main.py\<close>: the workflow over the
    database and its suppliers, the threads of the runtime).
  \<^item> \<open>SupplierApi\<close> (\<open>api/v1/suppliers.py\<close>), \<open>ApprovalsApi\<close> (\<open>api/v1/approvals.py\<close>), \<open>Cursor\<close>
    (\<open>api/pagination.py\<close>, with base64), \<open>Listing\<close> (every paged list), \<open>Starts\<close> (\<open>api/v1/agents.py\<close> and
    \<open>negotiations.py\<close>: the routes that start a purchase).
  \<^item> \<open>Events\<close> and \<open>Realtime\<close> (\<open>infrastructure/events/\<close>, \<open>redis/pubsub.py\<close>, \<open>api/v1/websocket.py\<close>): from a
    row of the outbox over Redis to the sockets of a merchant.
  \<^item> \<open>ShopApi\<close> (\<open>api/v1/inventory.py\<close>, \<open>merchants.py\<close>, \<open>channels.py\<close>): the stock routes, the profile, the payment
    code; \<open>Analytics\<close> (\<open>analytics_service.py\<close>): every report; \<open>Munim\<close> (\<open>agents/munim_context.py\<close>,
    \<open>munim_tools.py\<close>): the facts and tools of the assistant.
  \<^item> \<open>Speech\<close> and \<open>Voice\<close> (\<open>channels/voice/\<close>, \<open>api/v1/voice.py\<close>): a text is a list of code points and \<open>unicode\<close> what
    Python knows of them; the intent of a sentence, what is spoken, and a call with its session, interruptions and decisions.
  \<^item> \<open>System\<close>: the running application, one inductive step relation over the routes, the webhooks, calls, the starts, the
    outbox job and the passing of time.
  \<^item> \<open>Samples\<close> and \<open>AppSamples\<close>: the concrete data of the witnesses.

  \<^bold>\<open>Interfaces\<close>

  \<open>idempotent_gate\<close> and \<open>idempotency_store\<close> (Idempotency), \<open>message_repository\<close> (A2A), \<open>supplier_adapter\<close>
  (Procurement), \<open>approval_authority\<close> and \<open>transaction_executor\<close> (Authority), \<open>directory\<close> (Contacts), \<open>event_bus\<close>
  (Events) and \<open>decision_runtime\<close> (Inbox) are the contracts that one part relies on from another; \<open>budget\<close> and
  \<open>single_use\<close> (Prelude) are the contracts of a counter that runs out and of a token that is consumed, which the one-time codes,
  the refresh sessions and the registration challenges share.  \<open>auth_invariant\<close>, \<open>channel_invariant\<close>, \<open>service_invariant\<close>,
  \<open>start_invariant\<close>, \<open>database_invariant\<close>, \<open>voice_invariant\<close> and \<open>wired_invariant\<close> carry a property of the database through every route of
  a part, once its primitive writes keep it.  Each is interpreted on every implementation in the code: both gates, both stores, the SQL
  repository, the catalog and the mock supplier, the memory and database variants of the authority and the executor.  The workflow's
  theorems about resuming and recovering are proved in \<open>approval_authority\<close> and \<open>transaction_executor\<close> and used on
  the database variants.

  \<^bold>\<open>Parameters\<close>

  What is not under \<open>src/\<close> is an argument: \<open>env\<close> holds hashing, HMAC, JWT, password hashing and the random
  draws; the HTTP clients, Redis, the sockets, the identity providers, \<open>json.loads\<close>, the forecasting model, \<open>uuid5\<close> and the rounding of binary floats are
  arguments, and so are the language model, the speech of the provider and the wording of the assistant's sentences.  Hypotheses
  about them are named: \<open>collision_free\<close>, \<open>jwt_roundtrip\<close>, \<open>fresh\<close> (ids drawn before a horizon are distinct and
  unused; 12 of them are enough for an order).

  \<^bold>\<open>Bounds\<close>

  The graph engine stops an invocation after 25 nodes; an invocation needs at most six, so the limit is never
  hit (\<open>remaining\<close>, \<open>invoke_outcome\<close>).  A \<open>Decimal\<close> is exact: Python rounds to 28 digits, which no amount here
  reaches.  A float that is turned back into a \<open>Decimal\<close> is exact up to 15 digits.

  \<^bold>\<open>Not modelled\<close>

  The transports themselves (HTTP, Redis, SMTP, telemetry, speech recognition and synthesis; they are parameters above), the middleware
  and lifespan of \<open>main.py\<close>, the prompts and the wording of the assistant and of the voice agent, reading a receipt from an image, the
  score of the recommendations (binary floats), the demand model's training, migrations and scripts.
\<close>

section \<open>The running application\<close>

text \<open>
  C1: Every order is backed by an approval.  Start from any consistent database (the empty one, say) and let the
  application run: sign-ins, Telegram and WhatsApp messages, voice calls, requested runs, negotiations and low stock scans, approvals,
  modifications and rejections over the API, suppliers answering orders and changing catalogs, messages of other agents, receipts,
  stock events, notifications that are read, the outbox job and the passing of time, in any order and whatever they return.  Each order in the database then names a granted approval of the same
  merchant whose stored payload is exactly the proposal that was ordered, supplier and total included, and no two
  orders rest on the same approval.
\<close>

theorem every_order_is_backed:
  assumes "app_steps e cfg g uuid5 fc x w w'" and "purchases_ok e (fst w)" and "y \<in> set (t_orders (fst w'))"
  shows "(\<exists>a \<in> set (t_approvals (fst w')). \<exists>p. o_approval_id y = Some (row_id a) \<and> ap_status a = AS_APPROVED
      \<and> ap_merchant_id a = o_merchant_id y \<and> o_order_hash y = canonical_order_hash e (ap_proposal_payload a)
      \<and> proposal_of_payload (ap_proposal_payload a) = Inr p \<and> o_proposal_id y = pp_proposal_id p
      \<and> o_supplier_id y = pp_supplier_id p \<and> o_total_amount y = total_amount p)
    \<and> (\<forall>z \<in> set (t_orders (fst w')). o_approval_id z = o_approval_id y \<longrightarrow> z = y)"
proof -
  have ok: "purchases_ok e (fst w')" using assms(1,2) by (rule app_steps_purchases)
  with assms(3) have "backed e (fst w') y" by (simp add: purchases_ok_def)
  moreover have "z = y" if "z \<in> set (t_orders (fst w'))" "o_approval_id z = o_approval_id y" for z
    using orders_of_approval [OF ok that(1) assms(3) that(2)] .
  ultimately show ?thesis by (simp add: backed_def)
qed

theorem every_order_is_backed_witness:
  "\<exists>w'. app_steps (sample_env sample_claims) default_settings sample_workflow sample_uuid5 no_forecast app_mock
      (waiting_db, app_world) w' \<and> purchases_ok (sample_env sample_claims) waiting_db
    \<and> (\<exists>y \<in> set (t_orders (fst w')). \<exists>a \<in> set (t_approvals (fst w')).
         o_approval_id y = Some (row_id a) \<and> ap_status a = AS_APPROVED)"
proof -
  obtain v t where ans: "decide_supplier_order (sample_env sample_claims) rice_owner 20 True waiting_db = (Inr v, t)"
    by (rule sample_answers)
  then have "on_db (decide_supplier_order (sample_env sample_claims) rice_owner 20 True) (waiting_db, app_world)
      = (Inr v, (t, app_world))" by (simp add: on_db_def)
  from app_step.supplier_answer [OF this] have run: "app_steps (sample_env sample_claims) default_settings sample_workflow
      sample_uuid5 no_forecast app_mock (waiting_db, app_world) (t, app_world)" by (simp add: app_steps_def r_into_rtranclp)
  from ans obtain y where "y \<in> set (t_orders t)"
    by (cases rule: decide_Inr [OF ans]) (auto simp: upd_def)
  with run waiting_ok every_order_is_backed [OF run] show ?thesis by (intro exI [of _ "(t, app_world)"]) fastforce
qed

text \<open>
  C2: What a supplier has answered stays answered.  Once an incoming order has been approved or rejected, giving the same
  answer again returns the order, and the other answer is refused with a conflict that names the order's status.
\<close>

theorem supplier_answer_is_final:
  assumes "decide_supplier_order e p i approved s = (Inr v, t)"
  shows "(\<exists>shown u. decide_supplier_order e' p i approved t = (Inr shown, u))
    \<and> (\<exists>u. decide_supplier_order e' p i (\<not> approved) t
         = (Inl (Exc ConflictError (''Order is already '' @ order_status_str (answer_status approved))), u))"
  using decide_again [OF assms, of e' approved] decide_again [OF assms, of e' "\<not> approved"] by auto

theorem supplier_answer_is_final_witness:
  "\<exists>t u. decide_supplier_order (sample_env []) rice_owner 20 False t
     = (Inl (Exc ConflictError (''Order is already '' @ order_status_str OS_CONFIRMED)), u)"
proof -
  obtain v t where "decide_supplier_order (sample_env []) rice_owner 20 True waiting_db = (Inr v, t)" by (rule sample_answers)
  from supplier_answer_is_final [OF this, of "sample_env []"] show ?thesis by (auto simp: answer_status_def)
qed

text \<open>
  C3: Approving an order takes exactly what was ordered out of the supplier's catalog.  The catalog's stock (never negative, one
  row per product) stays consistent, the supplier's total falls by the sum of the order's items when a waiting order
  is approved and by nothing otherwise, and no other supplier's stock moves.
\<close>

theorem supplier_takes_exactly_the_order:
  assumes "decide_supplier_order e p i approved s = (Inr v, t)" and "catalog_ok s"
    and "account_supplier (pl_merchant_id p) s = Some spl" and "incoming_order i (row_id spl) s = Some y"
  shows "catalog_ok t \<and> catalog_stock (row_id spl) t = catalog_stock (row_id spl) s
      - (if approved \<and> o_status y = OS_APPROVAL_PENDING then ordered (order_items (row_id y) s) else 0)
    \<and> (\<forall>other. other \<noteq> row_id spl \<longrightarrow> catalog_stock other t = catalog_stock other s)"
  using decide_stock [OF assms(1,2)] assms(3,4) by simp

theorem supplier_takes_exactly_the_order_witness:
  "\<exists>v t. decide_supplier_order (sample_env []) rice_owner 20 True waiting_db = (Inr v, t)
     \<and> catalog_stock 3 t = catalog_stock 3 waiting_db - 10"
proof -
  obtain v t where run: "decide_supplier_order (sample_env []) rice_owner 20 True waiting_db = (Inr v, t)" by (rule sample_answers)
  have s: "account_supplier (pl_merchant_id rice_owner) waiting_db = Some rice_supplier" "row_id rice_supplier = 3"
    by (simp_all add: account_supplier_def rice_owner_def rice_supplier_def)
  have y: "incoming_order 20 (row_id rice_supplier) waiting_db = Some waiting_order" by (simp add: incoming_order_def s)
  have "ordered (order_items (row_id waiting_order) waiting_db) = 10"
    by (simp add: ordered_def order_items_def new_item_def sample_proposal_def rat_of_def)
  with supplier_takes_exactly_the_order [OF run waiting_stock_ok s(1) y] run show ?thesis by (auto simp: s)
qed

section \<open>The chat channels\<close>

text \<open>
  C4: A chat message counts once.  However often Telegram or WhatsApp delivers a message, in one update or
  several, between other messages and with whatever content, it is accepted at most once; the workflow that a button
  press resumes does not undo this.
\<close>

theorem chat_message_counts_once:
  assumes "messages_inv {} (fst w)"
  shows "total (process_item e cfg tg (channel_resumer g (app_services e sv uuid5 fc x)))
      (use_cost (process_item e cfg tg (channel_resumer g (app_services e sv uuid5 fc x))) telegram_use k) messages w \<le> 1
    \<and> total (whatsapp_item e cfg (channel_resumer g (app_services e sv uuid5 fc x)))
      (use_cost (whatsapp_item e cfg (channel_resumer g (app_services e sv uuid5 fc x))) whatsapp_use k) replies w \<le> 1"
  using wired.telegram.used_at_most_once [OF assms] wired.whatsapp.used_at_most_once [OF assms] by simp

theorem chat_message_counts_once_witness:
  "total (process_item (sample_env []) default_settings None
        (channel_resumer sample_workflow (app_services (sample_env []) sample_service sample_uuid5 no_forecast app_mock)))
      (use_cost (process_item (sample_env []) default_settings None
        (channel_resumer sample_workflow (app_services (sample_env []) sample_service sample_uuid5 no_forecast app_mock)))
        telegram_use ''11'') [chat_message, chat_message] (empty_db, app_world) \<le> 1"
  by (rule chat_message_counts_once [THEN conjunct1]) (simp add: empty_messages_ok)

text \<open>
  C5: A button press decides, whoever pressed it.  When an approval or rejection over Telegram succeeds for an approval that no
  workflow waits for, the approval was decidable by its merchant, the decision is recorded under the name of that merchant's
  first active user, and the chat that sent the press has become the merchant's chat.  No hypothesis relates the
  chat to the merchant.
\<close>

theorem button_press_decides:
  assumes "press_button e cfg tg rs i row appr ac w = (Inr (), w')"
    and "find_approval appr None (fst w) = Some a" and "by_id (ap_merchant_id a) (t_merchants (fst w)) = Some m"
    and "active_user_of m (fst w) = Some u" and "ac \<noteq> CA_MODIFY"
    and "rs = None \<or> \<not> truthy (ap_workflow_request_id a)"
  shows "\<exists>a'. find_approval (row_id a) None (fst w) = Some a' \<and> decidable (row_id m) (clock (fst w)) a'
    \<and> t_approvals (fst w') = decide_rows (fst w) a' (decided_status ac) (row_id u)
    \<and> (\<exists>m'. by_id (row_id m) (t_merchants (fst w')) = Some m'
         \<and> map_of (m_settings m') ''telegram_chat_id'' = Some (JStr (ti_chat_id i)))"
  using press_button_effect [OF assms] by (simp add: chat_of_def)

theorem button_press_decides_witness:
  "\<exists>w' m'. press_button (sample_env []) default_settings None None chat_message 50 6 CA_REJECT (chat_db, app_world) = (Inr (), w')
     \<and> by_id 1 (t_merchants (fst w')) = Some m' \<and> map_of (m_settings m') ''telegram_chat_id'' = Some (JStr ''77'')"
proof -
  obtain w' where run: "press_button (sample_env []) default_settings None None chat_message 50 6 CA_REJECT (chat_db, app_world)
      = (Inr (), w')" by (rule sample_press)
  have f: "find_approval 6 None chat_db = Some sample_approval" "by_id 1 (t_merchants chat_db) = Some phone_merchant"
    "active_user_of phone_merchant chat_db = Some sample_user"
    by (simp_all add: find_approval_def chat_db_def by_id_def phone_merchant_def sample_merchant_def active_user_of_def sample_user_def)
  have "row_id phone_merchant = 1" by (simp add: phone_merchant_def sample_merchant_def)
  with button_press_decides [OF run, of sample_approval phone_merchant sample_user] f run show ?thesis
    by (auto simp: chat_message_def)
qed

text \<open>
  C6: \<open>/connect\<close> hands over the codes.  Whoever sends \<open>/connect\<close> with the number of an account becomes the chat to which
  the account's verification codes are delivered: nothing is asked for in return.
\<close>

theorem connect_redirects_codes:
  assumes "handle_connect post i words w = (r, w')" and "dropWhile (\<lambda>c. \<not> is_space c) words \<noteq> []"
    and "connect_merchant (rest_words words) (fst w) = Some m" and "ti_chat_id i \<noteq> []"
    and "merchant_for_phone ident (fst w) = Some m" and "\<not> has_at ident"
  shows "fst (resolve_delivery_info ident w') = ti_chat_id i"
  using assms by (rule connect_redirects)

theorem connect_redirects_codes_witness:
  "fst (resolve_delivery_info ''9876543210''
     (snd (handle_connect answering_bot chat_message ''/connect 9876543210'' (chat_db, app_world)))) = ''77''"
proof -
  have "handle_connect answering_bot chat_message ''/connect 9876543210'' (chat_db, app_world)
      = (fst (handle_connect answering_bot chat_message ''/connect 9876543210'' (chat_db, app_world)),
         snd (handle_connect answering_bot chat_message ''/connect 9876543210'' (chat_db, app_world)))" by simp
  from connect_redirects_codes [OF this sample_connects(4)] sample_connects(1-3) show ?thesis by (simp add: chat_message_def)
qed

text \<open>
  C7: The buttons of a card come back as what they say: the data that both clients attach to a button parses, on either
  channel, to the approval and the action it was made from.
\<close>

theorem buttons_survive_the_wire:
  "parse_telegram_callback (button_data (JStr (str_uuid i)) (channel_action_str a)) = Inr (i, a)
   \<and> parse_whatsapp_callback (button_data (JStr (str_uuid i)) (channel_action_str a)) = Inr (i, a)"
  by (simp add: parse_telegram_callback_def parse_whatsapp_callback_def parse_button)

text \<open>
  C8: A decision past the workflow strands the request.  When the approval that a workflow waits for is decided directly (the route
  allows it when no request is named), no later resume of the request gets past its decision: every resume raises and changes
  nothing, so the approved purchase is never executed.
\<close>

theorem direct_decision_strands_request:
  assumes "out_threads (wd_out (snd w)) (thread_id (str_uuid m) rid) = Some th"
    and "ws_approval_id (th_values th) = Some (str_uuid i)"
    and "find_approval i None (fst w) = Some a" and "ap_status a \<noteq> AS_PENDING" and "ap_merchant_id a = m"
  shows "\<exists>problem. wired_resume g (app_services e sv uuid5 fc x) m rid ac tok q price (Some u) ea ep w = (Inl problem, w)"
  using assms by (rule decided_thread_stuck)

theorem direct_decision_strands_request_witness:
  "\<exists>problem. wired_resume sample_workflow (app_services (sample_env []) sample_service sample_uuid5 no_forecast app_mock) 1 ''R-1''
     AS_APPROVED ''token'' None None (Some 9) (Some 6) None (order_db, stuck_world) = (Inl problem, (order_db, stuck_world))"
  by (rule direct_decision_strands_request [where i = 6 and th = gate_thread and a = approved_approval])
    (simp_all add: stuck_world_def app_world_def gate_thread_def sample_v6_def find_approval_def approved_approval_def)

section \<open>Events, lists and starts\<close>



text \<open>
  C10: Reading the order list page by page is reading the whole list.  A client that starts without a cursor and follows the
  cursor of every page gets every order of its merchant that has a supplier and matches the filter, newest first, each once,
  and no order of another merchant, whatever the page size.
\<close>

theorem order_pages_are_the_listing:
  assumes "reads_pairs loads" and "1 \<le> limit" and "distinct (map row_id (t_orders s))" and "distinct (map row_id (t_suppliers s))"
    and "\<forall>x \<in> set (t_orders s). valid_time (created_at x)" and "length (matching_orders p f s) \<le> n"
  shows "\<exists>rows. follow (\<lambda>c. list_orders loads p f c limit s) (Suc n) None
      = Inr (map (\<lambda>r. serialize_order (fst r) (s_name (snd r)) s) rows)
    \<and> sorted_wrt (\<lambda>a b. row_key (fst b) < row_key (fst a)) rows
    \<and> set rows = {(x, v). x \<in> set (t_orders s) \<and> v \<in> set (t_suppliers s) \<and> row_id v = o_supplier_id x
        \<and> o_merchant_id x = pl_merchant_id p \<and> order_matches f (x, v)}"
proof -
  let ?rows = "newest_first (row_key \<circ> fst) (matching_orders p f s)"
  have "sorted_wrt (\<lambda>a b. row_key (fst b) < row_key (fst a)) ?rows"
    using newest_first_sorted [OF matching_orders_keys [OF assms(3,4)]] by simp
  moreover have "set ?rows = {(x, v). x \<in> set (t_orders s) \<and> v \<in> set (t_suppliers s) \<and> row_id v = o_supplier_id x
        \<and> o_merchant_id x = pl_merchant_id p \<and> order_matches f (x, v)}"
    using matching_orders_iff by auto
  ultimately show ?thesis using orders_listing [OF assms] by blast
qed

theorem order_pages_are_the_listing_witness:
  "\<exists>rows. follow (\<lambda>c. list_orders pair_loads shop_owner every_order c 1 two_orders_db) (Suc 2) None
      = Inr (map (\<lambda>r. serialize_order (fst r) (s_name (snd r)) two_orders_db) rows)
    \<and> (waiting_order, rice_supplier) \<in> set rows \<and> (older_order, rice_supplier) \<in> set rows"
proof -
  from order_pages_are_the_listing [OF pair_loads_reads _ two_orders(1-3,6), of 1] obtain rows where
    "follow (\<lambda>c. list_orders pair_loads shop_owner every_order c 1 two_orders_db) (Suc 2) None
      = Inr (map (\<lambda>r. serialize_order (fst r) (s_name (snd r)) two_orders_db) rows)"
    "set rows = {(x, v). x \<in> set (t_orders two_orders_db) \<and> v \<in> set (t_suppliers two_orders_db) \<and> row_id v = o_supplier_id x
        \<and> o_merchant_id x = pl_merchant_id shop_owner \<and> order_matches every_order (x, v)}" by auto
  with two_orders(4,5) show ?thesis unfolding matching_orders_iff by auto
qed



text \<open>
  A run that came to nothing is on record as completed.  When the workflow that a run started has ended without asking for
  an approval (the stock was above its reorder point, no supplier answered, the risk check failed), the stored run is
  COMPLETED and not FAILED, and it has no end.
\<close>

theorem failed_run_is_completed:
  assumes "start_run e start p trace b w = (Inr (rid, Some v), w')" and "ws_approval_status v \<noteq> Some ''PENDING''"
  shows "\<exists>x \<in> set (t_agent_runs (fst w')). ag_request_id x = rid \<and> ag_status x = RS_COMPLETED \<and> ag_finished_at x = None"
  using start_run_records [OF assms(1)] assms(2) by (auto simp: waits_for_approval_def)

theorem failed_run_is_completed_witness:
  "\<exists>v w'. start_run (sample_env sample_claims) (starting (\<lambda>v w. v) sample_workflow sample_app_services) shop_owner ''trace'' rice_run (free_db, app_world)
       = (Inr (''request-1'', Some v), w')
    \<and> ws_failure v = Some ''inventory_above_reorder_point''
    \<and> (\<exists>x \<in> set (t_agent_runs (fst w')). ag_request_id x = ''request-1'' \<and> ag_status x = RS_COMPLETED)"
proof -
  obtain v w' where run: "start_run (sample_env sample_claims) (starting (\<lambda>v w. v) sample_workflow sample_app_services) shop_owner ''trace'' rice_run (free_db, app_world)
      = (Inr (''request-1'', Some v), w')" "ws_failure v = Some ''inventory_above_reorder_point''" "ws_approval_status v = None"
    by (rule sample_run)
  from failed_run_is_completed [OF run(1)] run show ?thesis by auto
qed

section \<open>Calls, the assistant and reports\<close>

text \<open>
  C12: What is said on a call decides only what the call was opened for.  When a turn of a call changes the database or the workflows, it
  was a final transcript with a word of approval, refusal or change in it, and the change is one resume of the workflow: of the session's
  merchant and user, for the request, the proposal and the token that the session was opened with.  A change by voice
  always carries a positive quantity.
\<close>

theorem spoken_decision_is_the_sessions:
  assumes "voice_turn_step U synth (handle_utterance U tx (voice_resumer g sv) llm) t (l, w) = (r, (l', w'))" and "w' \<noteq> w"
  shows "\<exists>said cuts i rid token proposal. t = Spoken True said cuts \<and> extract_voice_intent U said = Inr i
    \<and> says U (heard_text U said) (approve_words @ reject_words @ modify_words) \<and> ready (vl_session l) rid token proposal
    \<and> w' = snd (wired_resume g sv (vo_merchant_id (vl_session l)) rid (spoken_action (vi_intent i)) token (spoken_amount i) None
        (Some (vo_user_id (vl_session l))) None (Some proposal) w)
    \<and> (spoken_action (vi_intent i) = AS_MODIFIED \<longrightarrow> (\<exists>n > 0. vi_quantity i = Some n))"
proof -
  from turn_effect [OF assms(1)] assms(2) obtain said cuts i where t: "t = Spoken True said cuts" "extract_voice_intent U said = Inr i"
      "vi_intent i \<in> set decisions"
      "decided_by (voice_resumer g sv) (vl_session l) (spoken_action (vi_intent i)) (spoken_amount i) w w'" by auto
  have "spoken_action (vi_intent i) = AS_MODIFIED \<Longrightarrow> \<exists>n > 0. vi_quantity i = Some n"
    using change_needs_quantity [OF t(2)] t(3) by (auto simp: spoken_action_def decisions_def)
  with t decision_needs_words [OF t(2,3)] show ?thesis
    by (auto simp: decided_by_def voice_resumer_def ready_def)
qed

theorem spoken_decision_is_the_sessions_witness:
  "\<exists>i r y. voice_turn_step plain_unicode one_piece (handle_utterance plain_unicode no_texts
        (voice_resumer sample_workflow (app_services (sample_env []) sample_service sample_uuid5 no_forecast app_mock)) None)
      (Spoken True (ascii ''Cancel it'') []) (call_line, (sample_db, stuck_world)) = (r, y)
    \<and> snd y \<noteq> (sample_db, stuck_world) \<and> extract_voice_intent plain_unicode (ascii ''Cancel it'') = Inr i
    \<and> snd y = snd (wired_resume sample_workflow (app_services (sample_env []) sample_service sample_uuid5 no_forecast app_mock) 1 ''R-1''
        AS_REJECTED ''token'' (spoken_amount i) None (Some 9) None (Some 5) (sample_db, stuck_world))"
proof -
  let ?sv = "app_services (sample_env []) sample_service sample_uuid5 no_forecast app_mock"
  let ?turn = "voice_turn_step plain_unicode one_piece (handle_utterance plain_unicode no_texts (voice_resumer sample_workflow ?sv) None)
      (Spoken True (ascii ''Cancel it'') []) (call_line, (sample_db, stuck_world))"
  obtain r l' w' where run: "?turn = (r, (l', w'))" by (metis prod.exhaust)
  obtain i where i: "extract_voice_intent plain_unicode (ascii ''Cancel it'') = Inr i" "vi_intent i = REJECT_ACTIVE_PROPOSAL"
    using cancel_rejects by blast
  have "w' = snd (wired_resume sample_workflow ?sv 1 ''R-1'' AS_REJECTED ''token'' (spoken_amount i) None (Some 9) None (Some 5)
      (sample_db, stuck_world))"
    using call_decides [OF run _ i(1) _ call_ready(1)] i(2) by (simp add: call_ready decisions_def spoken_action_def ascii_def)
  then have "w' \<noteq> (sample_db, stuck_world)"
    by (metis prod.inject snd_conv wired_rejects)
  from spoken_decision_is_the_sessions [OF run this] i run this show ?thesis
    by (auto simp: call_ready ready_def spoken_action_def) (simp_all add: call_line_def)
qed

text \<open>
  C13: A word of approval approves, whatever is said around it.  The final transcript "Please do not approve it" resumes the session's
  workflow with an approval, as every transcript does that has a word of approval in it and from which an intent can be read.
\<close>

theorem approval_word_approves:
  assumes "voice_turn_step U synth (handle_utterance U tx (voice_resumer g sv) llm) (Spoken True said cuts) (l, w) = (r, y)"
    and "said \<noteq> []" and "says U (heard_text U said) approve_words" and "extract_voice_intent U said = Inr i"
    and "ready (vl_session l) rid token proposal"
  shows "snd y = snd (wired_resume g sv (vo_merchant_id (vl_session l)) rid AS_APPROVED token (spoken_amount i) None
      (Some (vo_user_id (vl_session l))) None (Some proposal) w)"
  using call_decides [OF assms(1,2,4) _ assms(5)] approval_word_wins [OF assms(3,4)]
  by (simp add: decisions_def spoken_action_def)

theorem approval_word_approves_witness:
  "\<exists>i r y. voice_turn_step plain_unicode one_piece (handle_utterance plain_unicode no_texts
        (voice_resumer sample_workflow (app_services (sample_env []) sample_service sample_uuid5 no_forecast app_mock)) None)
      (Spoken True (ascii ''Please do not approve it'') []) (call_line, (sample_db, stuck_world)) = (r, y)
    \<and> snd y = snd (wired_resume sample_workflow (app_services (sample_env []) sample_service sample_uuid5 no_forecast app_mock) 1 ''R-1''
        AS_APPROVED ''token'' (spoken_amount i) None (Some 9) None (Some 5) (sample_db, stuck_world))"
proof -
  let ?turn = "voice_turn_step plain_unicode one_piece (handle_utterance plain_unicode no_texts
        (voice_resumer sample_workflow (app_services (sample_env []) sample_service sample_uuid5 no_forecast app_mock)) None)
      (Spoken True (ascii ''Please do not approve it'') []) (call_line, (sample_db, stuck_world))"
  obtain r y where run: "?turn = (r, y)" by (metis prod.exhaust)
  obtain i where i: "extract_voice_intent plain_unicode (ascii ''Please do not approve it'') = Inr i"
    using refusal_approves by blast
  from approval_word_approves [OF run _ refusal_says i call_ready(1)] run show ?thesis by (auto simp: call_ready ascii_def)
qed

text \<open>
  C14: The assistant sees its own shop only.  Two databases that agree on the rows of a merchant and on the supplier catalogs give
  a merchant the same answer, tools and facts to the same message, whatever other merchants have bought, sold, stocked or been asked to approve.
\<close>

theorem assistant_sees_own_shop:
  assumes "same_shop (pl_merchant_id p) s t" and "own_products (pl_merchant_id p) s" and "own_products (pl_merchant_id p) t"
    and "pl_role p \<noteq> ''supplier''"
  shows "chat_with_munim answer p message s = chat_with_munim answer p message t"
  using assms by (rule chat_reads_own_shop)

theorem assistant_sees_own_shop_witness:
  "chat_with_munim (\<lambda>said tools facts. said) shop_owner ''What did I sell today?'' free_db
     = chat_with_munim (\<lambda>said tools facts. said) shop_owner ''What did I sell today?'' crowded_db
    \<and> t_sales crowded_db \<noteq> t_sales free_db"
  using assistant_sees_own_shop [of shop_owner free_db crowded_db] crowded_same
  by (simp add: shop_owner_def crowded_db_def free_db_def)

text \<open>
  C15: The reports agree with the overview.  For the same merchant, store and range, the points of the sales report add up to the
  sales of the overview, however they are grouped, and the orders counted by supplier add up to the orders counted by status.
\<close>

theorem reports_agree_with_overview:
  assumes "overview_of m store since until s = Inr v" and "sales_by bucket m store since until group_by s = Inr rep"
    and "spend_by_supplier m store since until s = Inr (cur, rows)"
    and "\<forall>y \<in> set (t_orders s). length (filter (\<lambda>x. row_id x = o_supplier_id y) (t_suppliers s)) = 1"
  shows "sum_list (map (rat_of \<circ> snd) (sr_points rep)) = rat_of (ov_total_sales_amount v)
    \<and> sum_list (map ss_order_count rows) = sum_list (map snd (ov_orders_by_status v))"
  using sales_points_add_up [OF assms(2,1)] suppliers_add_up [OF assms(3,1,4)] by simp

theorem reports_agree_with_overview_witness:
  "\<exists>v rep rows. overview_of 1 None None (Some (sample_now + 1)) trading_db = Inr v
    \<and> sales_by (\<lambda>g t. g) 1 None None (Some (sample_now + 1)) ''day'' trading_db = Inr rep
    \<and> spend_by_supplier 1 None None (Some (sample_now + 1)) trading_db = Inr (''INR'', rows)
    \<and> sum_list (map (rat_of \<circ> snd) (sr_points rep)) = 500 \<and> sum_list (map ss_order_count rows) = 2"
proof -
  let ?r = "Some (sample_now + 1)"
  obtain v rep rows where runs: "overview_of 1 None None ?r trading_db = Inr v"
      "sales_by (\<lambda>g t. g) 1 None None ?r ''day'' trading_db = Inr rep" "spend_by_supplier 1 None None ?r trading_db = Inr (''INR'', rows)"
    by (simp add: overview_of_def sales_by_def spend_by_supplier_def bindE_def trading_range trading_currency Let_def)
  have "\<forall>y \<in> set (t_orders trading_db). length (filter (\<lambda>x. row_id x = o_supplier_id y) (t_suppliers trading_db)) = 1"
    by (simp add: trading_rows)
  from reports_agree_with_overview [OF runs this] trading_totals [OF runs(1)] runs show ?thesis by auto
qed

section \<open>Proposals and approvals\<close>

text \<open>
  C16: The canonical payload that an approval stores determines the proposal: reading it back with
  \<open>OrderService._proposal\<close> gives the proposal that was approved, for every proposal with positive
  quantity and price and a representable delivery time.
\<close>

theorem proposal_survives_storage:
  assumes "positive (pp_quantity p)" and "positive (pp_unit_price p)" and "valid_time (pp_delivery_at p)"
  shows "proposal_of_payload (canonical_payload p) = Inr p"
  using assms by (rule proposal_payload_roundtrip)

theorem proposal_survives_storage_witness:
  "proposal_of_payload (canonical_payload sample_proposal) = Inr sample_proposal"
  by (rule proposal_survives_storage) (simp_all add: sample_proposal_def positive_def dlt_def dzero_def
      valid_time_def sample_now_def days_def epoch_ordinal_def day_us_def)

text \<open>
  C17: An order hash identifies its proposal.  If SHA-256 does not collide on the two canonical
  texts, two proposals with the same order hash are the same proposal, so no field of an approved
  proposal can be changed without changing the hash that the approval and its token carry.
\<close>

theorem order_hash_identifies_proposal:
  assumes "canonical_order_hash e (canonical_payload p) = canonical_order_hash e (canonical_payload q)"
    and "collision_free e (canonical_json (JObj (canonical_payload p)))
           (canonical_json (JObj (canonical_payload q)))"
    and "valid_time (pp_delivery_at p)" and "valid_time (pp_delivery_at q)"
  shows "p = q"
  using assms by (rule order_hash_inject)

theorem order_hash_identifies_proposal_witness:
  "collision_free (sample_env []) (canonical_json (JObj (canonical_payload sample_proposal)))
           (canonical_json (JObj (canonical_payload sample_proposal)))
   \<and> sample_proposal = sample_proposal"
  using order_hash_identifies_proposal [of "sample_env []" sample_proposal sample_proposal]
  by (simp add: collision_free_def)

text \<open>
  C18: Approving needs everything: when \<open>ApprovalService.approve\<close> returns, the approval was found, was
  owned by the caller's merchant, was PENDING and unexpired, and the token decoded to claims that
  name exactly this merchant, proposal, approval, order hash and nonce; the call changed the
  approvals only by deciding this row and added one APPROVAL_GRANTED event and one audit entry.
\<close>

theorem approve_requires_token:
  assumes "approval_approve e sv i merchant user tok s = (Inr b, t)"
  shows "\<exists>a c. find_approval i None s = Some a \<and> ap_merchant_id a = merchant \<and> ap_status a = AS_PENDING
    \<and> clock s < as_utc (ap_expires_at a)
    \<and> decode_token e (clock s) tok (as_secret sv) (as_algorithm sv) = Inr c
    \<and> (\<forall>(k, v) \<in> set (expected_claims a). map_of c k = Some (JStr v))
    \<and> t_approvals t = decide_rows s a AS_APPROVED user
    \<and> (\<exists>x. t_outbox_events t = t_outbox_events s @ [x] \<and> ob_event_type x = APPROVAL_GRANTED
           \<and> ob_aggregate_id x = row_id a)
    \<and> (\<exists>l. t_audit_logs t = t_audit_logs s @ [l] \<and> au_action l = ''approval.granted'')
    \<and> t_orders t = t_orders s"
  using assms unfolding approve_Inr verify_token_ok decidable_def
  by (fastforce simp: outbox_event_def audit_log_def)

theorem approve_requires_token_witness:
  "\<exists>b t. approval_approve (sample_env sample_claims) sample_service 6 1 9 ''token'' sample_db = (Inr b, t)
     \<and> t_approvals t = decide_rows sample_db sample_approval AS_APPROVED 9"
proof -
  obtain b t where r: "approval_approve (sample_env sample_claims) sample_service 6 1 9 ''token'' sample_db = (Inr b, t)"
    unfolding approve_Inr by (simp add: unused_id_def)
  from approve_requires_token [OF r] r show ?thesis by auto
qed

text \<open>
  C19: A decision is final.  Under any sequence of service calls, each committed or rolled back, with
  any passage of time, an approval that has been decided stays in the table exactly as it was
  decided, and no two approvals ever share an id, a nonce, or a proposal and order hash.
\<close>

theorem decided_approvals_are_final:
  assumes "approval_steps e sv s t" and "approvals_ok e s" and "a \<in> set (t_approvals s)"
    and "ap_status a \<noteq> AS_PENDING"
  shows "a \<in> set (t_approvals t) \<and> approvals_ok e t"
  using assms approval_steps_decided approval_steps_ok by blast

theorem decided_approvals_are_final_witness:
  "\<exists>s t. approval_steps (sample_env []) sample_service s t \<and> clock t \<noteq> clock s
     \<and> (\<exists>a \<in> set (t_approvals t). ap_status a = AS_REJECTED)"
proof -
  let ?a = "sample_approval\<lparr>ap_status := AS_REJECTED, ap_decided_at := Some 1, ap_decided_by_user_id := Some 9\<rparr>"
  let ?s = "sample_db\<lparr>t_approvals := [?a]\<rparr>"
  have st: "approval_steps (sample_env []) sample_service ?s (?s\<lparr>clock := clock ?s + 1\<rparr>)"
    unfolding approval_steps_def by (intro r_into_rtranclp approval_step.tick) simp
  have ok: "approvals_ok (sample_env []) ?s"
    using sample_ok [of "[]"] by (simp add: approvals_ok_def table_ok_def approval_wf_def)
  from decided_approvals_are_final [OF st ok, of ?a] st show ?thesis
    by (intro exI [of _ ?s] exI [of _ "?s\<lparr>clock := clock ?s + 1\<rparr>"]) auto
qed

section \<open>Orders\<close>

text \<open>
  C20: Nothing is ordered without an approval.  When \<open>OrderService.execute\<close> returns an order under a
  key that had none, then the approval was found, belongs to the merchant, is APPROVED and
  unexpired, its token verifies, its payload still has the approved hash and is within the merchant's
  spending limit; the supplier was called with the approved proposal, and exactly one order and
  one transaction, for the proposal's amount, were added.
\<close>

theorem order_needs_approval:
  assumes "order_execute e sv sp i merchant token key w = (Inr y, w')"
    and "order_by_key merchant key (fst w) = None"
  shows "\<exists>a p mr res v tx. find_approval i None (fst w) = Some a \<and> ap_merchant_id a = merchant
    \<and> ap_status a = AS_APPROVED \<and> clock (fst w) < as_utc (ap_expires_at a)
    \<and> verify_token e sv (clock (fst w)) a token = Inr ()
    \<and> canonical_order_hash e (ap_proposal_payload a) = ap_order_hash a
    \<and> proposal_of_payload (ap_proposal_payload a) = Inr p
    \<and> by_id merchant (t_merchants (fst w)) = Some mr
    \<and> rat_of (total_amount p) \<le> rat_of (m_spending_limit mr)
    \<and> ad_place_order sp p key (snd w) = (res, v)
    \<and> t_orders (fst w') = t_orders (fst w) @ [y]
    \<and> t_transactions (fst w') = t_transactions (fst w) @
         [settle_transaction res (new_transaction tx (clock (fst w)) merchant (row_id y) a p key)]
    \<and> o_total_amount y = total_amount p \<and> o_approval_id y = Some (row_id a)"
proof -
  obtain a p mr tx res v where h: "authorized e sv (fst w) i merchant token a p mr"
      "ad_place_order sp p key (snd w) = (res, v)"
      "t_orders (fst w') = t_orders (fst w) @ [y]"
      "t_transactions (fst w') = t_transactions (fst w) @
         [settle_transaction res (new_transaction tx (clock (fst w)) merchant (row_id y) a p key)]"
    and y: "y = settle_order res (new_order (row_id y) (clock (fst w)) merchant p a key)"
    using order_execute_first [OF assms] by blast
  from y have "o_total_amount y = total_amount p" "o_approval_id y = Some (row_id a)"
    by (metis (no_types, lifting) settle_order_fields(3,5) new_order_def order_row.select_convs)+
  with h show ?thesis unfolding authorized_def by blast
qed

theorem order_needs_approval_witness:
  "\<exists>y w'. sample_execution (Inr refusal) = (Inr y, w') \<and> o_total_amount y = total_amount sample_proposal"
proof -
  obtain y w' where r: "sample_execution (Inr refusal) = (Inr y, w')" by (rule sample_executes)
  from order_needs_approval [OF r] sample_authorized show ?thesis
    using r by (auto simp: sample_no_order authorized_def)
qed

text \<open>
  C21: An order is executed once per key.  After an execution under a key has returned, every later
  execution under that key for the merchant, whatever approval, token, supplier or configuration it
  names, returns the same order, calls no supplier and changes nothing.
\<close>

theorem order_executed_once_per_key:
  assumes "order_execute e sv sp i merchant token key w = (Inr y, w')"
  shows "order_execute e' sv' sp' i' merchant token' key w' = (Inr y, w')"
  using assms by (rule order_execute_idempotent)

theorem order_executed_once_per_key_witness:
  "\<exists>y w'. order_execute (sample_env []) sample_service (sample_supplier (Inr refusal)) 8 1 ''other'' sample_key w' = (Inr y, w')
     \<and> snd w' = 1"
proof -
  obtain y w' where r: "sample_execution (Inr refusal) = (Inr y, w')" "snd w' = 1" by (rule sample_executes)
  from order_executed_once_per_key [OF r(1)] r(2) show ?thesis by blast
qed

text \<open>
  Executing orders keeps the order book consistent: no two orders share an id, a merchant's key,
  a proposal or an order hash, no two transactions share an order, and each order has exactly its own
  transaction, for its merchant, approval, amount and currency.
\<close>

theorem order_book_stays_consistent:
  assumes "order_execute e sv sp i merchant token key w = (Inr y, w')" and "orders_ok (fst w)"
  shows "orders_ok (fst w')"
  using assms by (rule order_execute_ok)

theorem order_book_stays_consistent_witness:
  "\<exists>y w'. sample_execution (Inr refusal) = (Inr y, w') \<and> orders_ok (fst w')"
proof -
  obtain y w' where r: "sample_execution (Inr refusal) = (Inr y, w')" by (rule sample_executes)
  from order_book_stays_consistent [OF r] r show ?thesis by (auto simp: sample_orders_ok)
qed



text \<open>
  C23: What the supplier said is what the order says.  An exception leaves a FAILED order that names the
  exception class and a FAILED transaction; an answer is recorded with its status and reference.
\<close>

theorem supplier_outcome_is_recorded:
  assumes "order_execute e sv sp i merchant token key w = (Inr y, w')"
    and "order_by_key merchant key (fst w) = None"
  shows "\<exists>a p tx res. find_approval i None (fst w) = Some a \<and> proposal_of_payload (ap_proposal_payload a) = Inr p
    \<and> fst (ad_place_order sp p key (snd w)) = res \<and> tx \<in> set (t_transactions (fst w')) \<and> t_order_id tx = row_id y
    \<and> (case res of
        Inl x \<Rightarrow> o_status y = OS_FAILED \<and> o_failure_reason y = Some (exc_name (cls x)) \<and> t_status tx = TS_FAILED
          \<and> t_error tx = Some [(''type'', JStr (exc_name (cls x)))]
      | Inr r \<Rightarrow> o_status y = or_status r \<and> o_supplier_reference y = or_supplier_confirmation r
          \<and> o_failure_reason y = None)"
proof -
  obtain a p mr tx res v where h: "authorized e sv (fst w) i merchant token a p mr"
      "ad_place_order sp p key (snd w) = (res, v)"
    and t: "t_transactions (fst w') = t_transactions (fst w) @
         [settle_transaction res (new_transaction tx (clock (fst w)) merchant (row_id y) a p key)]"
    and y: "y = settle_order res (new_order (row_id y) (clock (fst w)) merchant p a key)"
    using order_execute_first [OF assms] by blast
  let ?tx = "settle_transaction res (new_transaction tx (clock (fst w)) merchant (row_id y) a p key)"
  have "case res of Inl x \<Rightarrow> o_status y = OS_FAILED \<and> o_failure_reason y = Some (exc_name (cls x)) \<and> t_status ?tx = TS_FAILED
          \<and> t_error ?tx = Some [(''type'', JStr (exc_name (cls x)))]
      | Inr r \<Rightarrow> o_status y = or_status r \<and> o_supplier_reference y = or_supplier_confirmation r \<and> o_failure_reason y = None"
    using y by (cases res; cases y) (simp_all add: settle_order_def settle_transaction_def new_order_def)
  moreover have "find_approval i None (fst w) = Some a" "proposal_of_payload (ap_proposal_payload a) = Inr p"
    "fst (ad_place_order sp p key (snd w)) = res" "?tx \<in> set (t_transactions (fst w'))" "t_order_id ?tx = row_id y"
    using h t by (simp_all add: authorized_def new_transaction_def)
  ultimately show ?thesis by blast
qed

theorem supplier_outcome_is_recorded_witness:
  "\<exists>y w'. sample_execution (Inl (Exc ProviderError ''down'')) = (Inr y, w') \<and> o_status y = OS_FAILED
     \<and> o_failure_reason y = Some ''ProviderError''"
proof -
  obtain y w' where r: "sample_execution (Inl (Exc ProviderError ''down'')) = (Inr y, w')" by (rule sample_executes)
  from supplier_outcome_is_recorded [OF r] show ?thesis
    using r by (auto simp: sample_no_order exc_name_def)
qed

text \<open>
  A supplier that answers without confirming is paid: whatever status other than APPROVAL_PENDING
  the answer carries, FAILED and CANCELLED included, the transaction of the order becomes SUCCEEDED
  and the published event is ORDER_EXECUTED.
\<close>

theorem refused_order_counts_as_success:
  assumes "order_execute e sv sp i merchant token key w = (Inr y, w')"
    and "order_by_key merchant key (fst w) = None" and "o_status y \<noteq> OS_APPROVAL_PENDING"
    and "\<And>p v. \<exists>r. fst (ad_place_order sp p key v) = Inr r"
  shows "\<exists>tx \<in> set (t_transactions (fst w')). t_order_id tx = row_id y \<and> t_status tx = TS_SUCCEEDED"
proof -
  obtain a p mr tx res v where h: "ad_place_order sp p key (snd w) = (res, v)"
    and t: "t_transactions (fst w') = t_transactions (fst w) @
         [settle_transaction res (new_transaction tx (clock (fst w)) merchant (row_id y) a p key)]"
    and y: "y = settle_order res (new_order (row_id y) (clock (fst w)) merchant p a key)"
    using order_execute_first [OF assms(1,2)] by blast
  obtain r where res: "res = Inr r" using assms(4) [of p "snd w"] h by auto
  have "o_status y = or_status r" using y by (cases y) (simp add: res settle_order_def new_order_def)
  with assms(3) have "t_status (settle_transaction res (new_transaction tx (clock (fst w)) merchant (row_id y) a p key)) = TS_SUCCEEDED"
    by (simp add: res settle_transaction_def)
  then show ?thesis by (simp add: t new_transaction_def)
qed

theorem refused_order_counts_as_success_witness:
  "\<exists>y w'. sample_execution (Inr refusal) = (Inr y, w')
     \<and> (\<exists>tx \<in> set (t_transactions (fst w')). t_status tx = TS_SUCCEEDED)"
proof -
  obtain y w' where r: "sample_execution (Inr refusal) = (Inr y, w')" by (rule sample_executes)
  from order_execute_first [OF r] obtain i t p a where "y = settle_order (Inr refusal) (new_order i t 1 p a sample_key)"
    by (auto simp: sample_no_order)
  then have "o_status y \<noteq> OS_APPROVAL_PENDING" by (simp add: settle_order_def refusal_def)
  from refused_order_counts_as_success [OF r _ this] r show ?thesis by (auto simp: sample_no_order)
qed

section \<open>The purchase workflow\<close>

text \<open>
  C24: Every proposal that waits for the merchant is within the limits of its request: in whatever way
  a thread reached the approval gate, its stored proposal is for a supplier that was not yet tried (and is
  the preferred one if there is any), which has the quantity in stock, at no more than the maximum
  price and no later than the deadline, and its total is within the spending limit.
\<close>

theorem gate_proposals_within_limits:
  assumes "reachable g sv (s, th)" and "th_next th = Some HumanApproval"
  shows "\<exists>q p r. ws_proposal (th_values th) = Some (canonical_payload p)
    \<and> purchase_request_of (th_values th) = Inr r \<and> workflow_proposal (wf_uuid5 g) (th_values th) q = Inr p
    \<and> pp_supplier_id p = sq_supplier_id q \<and> pp_quantity p = pr_quantity r \<and> pp_unit_price p = sq_unit_price q
    \<and> eligible (th_values th) q
    \<and> rat_of (pr_quantity r) \<le> rat_of (sq_available_quantity q)
    \<and> rat_of (pp_unit_price p) \<le> rat_of (pr_max_price r) \<and> pp_delivery_at p \<le> pr_delivery_deadline r
    \<and> rat_of (total_amount p) \<le> rat_of (ws_spending_limit (th_values th))"
proof -
  from reachable_ok [OF assms(1)] assms(2) obtain q p where
      p: "proposal_ok g (th_values th) q p" "ws_proposal (th_values th) = Some (canonical_payload p)"
    by (auto simp: thread_ok_def Let_def)
  then obtain r where r: "purchase_request_of (th_values th) = Inr r" "acceptable q r (quote_constraints q r)"
    by (auto simp: proposal_ok_def offer_ok_def)
  have w: "workflow_proposal (wf_uuid5 g) (th_values th) q = Inr p" using p by (simp add: proposal_ok_def)
  then have "pp_supplier_id p = sq_supplier_id q" "pp_quantity p = pr_quantity r" "pp_unit_price p = sq_unit_price q"
    "pp_delivery_at p = sq_delivery_at q"
    using r(1) by (auto simp: workflow_proposal_def purchase_request_of_def check_purchase_proposal_ok
        check_purchase_request_ok run_simps)
  with p r w show ?thesis
    by (intro exI [of _ q] exI [of _ p] exI [of _ r])
      (auto simp: proposal_ok_def offer_ok_def acceptable_def quote_constraints_def)
qed

theorem gate_proposals_within_limits_witness:
  "\<exists>p. ws_proposal sample_v6 = Some (canonical_payload p) \<and> rat_of (total_amount p) \<le> rat_of (ws_spending_limit sample_v6)"
proof -
  have "reachable sample_workflow sample_services (0, gate_thread)"
    using sample_reaches_gate unfolding gate_thread_def by (rule reachable.started)
  from gate_proposals_within_limits [OF this] show ?thesis by (auto simp: gate_thread_def)
qed

text \<open>
  Starting a workflow executes nothing: a start with any executor in place of the configured one
  has the same result and leaves the same state.
\<close>

theorem start_never_executes:
  "runtime_start g (sv\<lparr>sv_execute := f\<rparr>) v w = runtime_start g sv v w"
  by (rule start_executor)

text \<open>
  Only an APPROVED decision can reach the executor: a resume with any other decision behaves the
  same with any executor.
\<close>

theorem only_approval_executes:
  assumes "ac \<noteq> AS_APPROVED"
  shows "runtime_resume g (sv\<lparr>sv_execute := f\<rparr>) m ac tok q mp u ea ep w = runtime_resume g sv m ac tok q mp u ea ep w"
  using assms by (rule resume_executor)

theorem only_approval_executes_witness:
  "runtime_resume sample_workflow (sample_services\<lparr>sv_execute := (\<lambda>p i tok key n. (Inl recursion_error, n))\<rparr>) 1 AS_REJECTED ''t'' None None None None None (0, gate_thread)
   = runtime_resume sample_workflow sample_services 1 AS_REJECTED ''t'' None None None None None (0, gate_thread)"
  by (rule only_approval_executes) simp



text \<open>
  A modification without terms wedges its workflow.  The decision MODIFIED is committed to the
  approval before the runtime notices that neither a quantity nor a price was given; the resume then raises, the thread
  stays at the gate, and because its approval is already decided every later resume of the thread
  raises too.
\<close>

theorem modification_without_terms_wedges:
  assumes "sv_decide sv = db_decide e as" and "approvals_ok e s" and "th_next th = Some HumanApproval"
    and "bindE (key_item ''approval_id'' (ws_approval_id (th_values th))) uuid_item = Inr i"
    and "db_decide e as i m AS_MODIFIED tok u s = (Inr rec, s1)"
    and "\<forall>a \<in> set (t_approvals s1). ap_proposal_id a \<noteq> i"
  shows "\<exists>x. runtime_resume g sv m AS_MODIFIED tok None None u None None (s, th) = (Inl x, (s1, th))
    \<and> (\<forall>m' ac tok' q mp u' ea ep r w. runtime_resume g sv m' ac tok' q mp u' ea ep (s1, th) = (r, w) \<longrightarrow>
          (\<exists>y. r = Inl y) \<and> snd w = th)"
proof -
  have one: "runtime_resume g sv m AS_MODIFIED tok None None u None None (s, th)
      = (Inl (Exc PyValueError ''A quantity or price limit is required for modification''), (s1, th))"
    using assms(1,3,4,5)
    by (simp add: runtime_resume_def exec_defs on_services_def expect_proposal_def decision_of_def)
  have other: "ar_proposal_id r \<noteq> i" if "db_lookup s1 k = Some r" for k r
    using that assms(6) by (auto simp: db_lookup_def approval_record_of_def dest: by_id_mem)
  note once = db_authority.decide_once [OF assms(2,5)] and names = db_authority.decide_names [OF assms(2,5)]
  from once have "db_lookup s1 (ar_approval_id rec) = Some rec" by auto
  with names other have "ar_approval_id rec = i" by blast
  then have "approvals_ok e s1" "db_lookup s1 i = Some rec" "ar_status rec \<noteq> AS_PENDING"
    using once by auto
  then have "(\<exists>y. r = Inl y) \<and> snd w = th" if "runtime_resume g sv m' ac tok' q mp u' ea ep (s1, th) = (r, w)"
    for m' ac tok' q mp u' ea ep r w
    using that db_authority.resume_decided_fails [OF assms(1) _ assms(4) _ _ other] by (cases w) simp
  with one show ?thesis by blast
qed

theorem modification_without_terms_wedges_witness:
  "\<exists>x s1. runtime_resume sample_workflow local_services 1 AS_MODIFIED ''token'' None None (Some 9) None None (sample_db, gate_thread)
     = (Inl x, (s1, gate_thread))"
proof -
  obtain rec s1 where d: "db_decide (sample_env sample_claims) sample_service 6 1 AS_MODIFIED ''token'' (Some 9) sample_db
    = (Inr rec, s1)" by (rule sample_decides)
  then have "t_approvals s1 = decide_rows sample_db sample_approval AS_MODIFIED 9"
    by (rule db_decide_Inr) simp
  then have "\<forall>a \<in> set (t_approvals s1). ap_proposal_id a \<noteq> 6"
    by (simp add: decide_rows_def mutate_def decided_def)
  from modification_without_terms_wedges [OF gate_thread_simps(3) sample_ok gate_thread_simps(1,2) d this]
  show ?thesis by blast
qed

text \<open>
  C26: An approval in the database is decided once: after a decision through the workflow's authority has
  succeeded, no later decision, by whatever id, caller, action or token, can succeed on the same approval.
\<close>

theorem approval_decided_once:
  assumes "approvals_ok e s" and "db_decide e sv i m ac tok u s = (Inr r, t)"
    and "db_decide e sv i' m' ac' tok' u' t = (Inr r', t')"
  shows "ar_approval_id r' \<noteq> ar_approval_id r"
proof -
  have "ac \<noteq> AS_PENDING" using assms(2) by (auto elim: db_decide_Inr)
  from db_authority.decide_distinct [OF assms(1,2) this assms(3)] show ?thesis .
qed

theorem approval_decided_once_witness:
  "\<exists>r t r' t'. db_decide (sample_env sample_claims) sample_service 6 1 AS_APPROVED ''token'' (Some 9) two_db = (Inr r, t)
     \<and> db_decide (sample_env sample_claims) sample_service 7 1 AS_REJECTED ''x'' (Some 9) t = (Inr r', t')
     \<and> ar_approval_id r' \<noteq> ar_approval_id r"
proof -
  obtain r t r' t' where
    d: "db_decide (sample_env sample_claims) sample_service 6 1 AS_APPROVED ''token'' (Some 9) two_db = (Inr r, t)"
    "db_decide (sample_env sample_claims) sample_service 7 1 AS_REJECTED ''x'' (Some 9) t = (Inr r', t')"
    by (rule two_decisions)
  from approval_decided_once [OF two_db_ok d] d show ?thesis by blast
qed

text \<open>
  A recovery repeats the first result.  After an execution for a request and revision, the execute node of
  a thread with the same request and revision, as after a failed order for which another supplier
  was approved, gets the stored result whatever it proposes now, and no supplier is called.
\<close>

theorem recovery_repeats_first_result:
  assumes "sv_execute sv = db_execute e as adapters"
    and "ws_proposal v2 = Some d2" and "validate_proposal d2 = Inr p2"
    and "pp_merchant_id p2 = pp_merchant_id p1" and "execution_key v2 = execution_key v1"
    and "db_execute e as adapters p1 i tok (execution_key v1) w = (Inr r, w')"
    and "execute_order sv v2 w' = (Inr v3, w'')"
  shows "w'' = w' \<and> (\<exists>res. v3 = execution_outcome v2 p2 res \<and> (\<forall>r'. res = Inr r' \<longrightarrow> r' = r))"
  using assms by (intro db_exec.execute_node_again)

theorem recovery_repeats_first_result_witness:
  "\<exists>v3 w. execute_order (exec_services (Inr refusal)) sample_v6 w = (Inr v3, w) \<and> snd w = 1"
proof -
  have p: "ws_proposal sample_v6 = Some (canonical_payload gate_proposal)" by (simp add: sample_v6_def)
  obtain r w where x: "db_execute (sample_env sample_claims) sample_service [sample_supplier (Inr refusal)] sample_proposal 6 ''token''
      (execution_key sample_v6) (order_db, 0) = (Inr r, w)" and w: "snd w = 1"
    by (rule sample_db_executes)
  obtain z w2 where z: "execute_order (exec_services (Inr refusal)) sample_v6 w = (z, w2)" by (cases "execute_order (exec_services (Inr refusal)) sample_v6 w")
  then obtain v3 where v3: "z = Inr v3"
    by (cases z) (auto simp: execute_order_def p key_item_def gate_proposal_valid run_simps)
  have sv: "sv_execute (exec_services (Inr refusal)) = db_execute (sample_env sample_claims) sample_service [sample_supplier (Inr refusal)]"
    by (simp add: exec_services_def)
  have m: "pp_merchant_id gate_proposal = pp_merchant_id sample_proposal"
    by (simp add: gate_proposal_def sample_proposal_def)
  from recovery_repeats_first_result [OF sv p gate_proposal_valid m refl x z [unfolded v3]] have "w2 = w" by blast
  with z v3 w show ?thesis by blast
qed

text \<open>
  C27: The approval service implements the abstract registry of decisions: approving a row of the table is the
  registry's single step from PENDING to APPROVED on that id, and leaves every other entry.
\<close>

theorem approve_refines_registry:
  assumes "approval_approve e sv i merchant user tok s = (Inr b, t)" and "approvals_ok e s"
  shows "abs_decide (row_id b) AS_APPROVED (abs_approvals s) = Some (abs_approvals t)"
proof -
  from assms(1) obtain a where a: "find_approval i None s = Some a" "decidable merchant (clock s) a"
      "b = decided AS_APPROVED (clock s) user a" "t_approvals t = decide_rows s a AS_APPROVED user"
    by (auto simp: approve_Inr)
  then have "row_id b = row_id a" "ap_status a = AS_PENDING" "a \<in> set (t_approvals s)"
    by (auto simp: decided_def decidable_def dest: find_approval_mem)
  with a(4) assms(2) show ?thesis by (auto simp: approvals_ok_def intro: abs_decide_rows)
qed

theorem approve_refines_registry_witness:
  "\<exists>b t. approval_approve (sample_env sample_claims) sample_service 6 1 9 ''token'' sample_db = (Inr b, t)
     \<and> abs_decide (row_id b) AS_APPROVED (abs_approvals sample_db) = Some (abs_approvals t)"
proof -
  obtain b t where r: "approval_approve (sample_env sample_claims) sample_service 6 1 9 ''token'' sample_db = (Inr b, t)"
    unfolding approve_Inr by (simp add: unused_id_def)
  from approve_refines_registry [OF r sample_ok] r show ?thesis by blast
qed

section \<open>Stock and receipts\<close>

text \<open>
  C28: A receipt is received once: after a confirmation has returned, confirming the same request again, by
  any user, returns the same answer and receives nothing.
\<close>

theorem receipt_received_once:
  assumes "idem_ok s" and "confirm_scanned e m user r tr s = (Inr resp, t)"
  shows "confirm_scanned e m user' r tr' t = (Inr resp, t)"
  using assms unfolding confirm_scanned_def by (rule confirm_replay)

theorem receipt_received_once_witness:
  "\<exists>resp t. confirm_scanned (sample_env []) 1 9 sample_confirm None shop_db = (Inr resp, t)
     \<and> confirm_scanned (sample_env []) 1 10 sample_confirm None t = (Inr resp, t)"
proof -
  obtain resp t where r: "confirm_scanned (sample_env []) 1 9 sample_confirm None shop_db = (Inr resp, t)"
    by (rule sample_confirms)
  from receipt_received_once [OF _ r] r show ?thesis by (auto simp: idem_ok_def table_ok_def)
qed

text \<open>
  A confirmation key is never reused for other data: a confirmation with the key of an earlier one but
  with a different request hash raises a ConflictError and changes nothing.
\<close>

theorem receipt_key_not_reused:
  assumes "idem_ok s" and "confirm_scanned e m user r tr s = (Inr resp, t)"
    and "cr_idempotency_key r' = cr_idempotency_key r"
    and "canonical_order_hash e (confirm_request_json r') \<noteq> canonical_order_hash e (confirm_request_json r)"
  shows "\<exists>x. confirm_scanned e m user' r' tr' t = (Inl x, t) \<and> isa (cls x) ConflictError"
  using assms unfolding confirm_scanned_def by (rule confirm_reuse)

theorem receipt_key_not_reused_witness:
  "\<exists>x t. confirm_scanned (sample_env []) 1 9 (sample_confirm\<lparr>cr_items := []\<rparr>) None t = (Inl x, t) \<and> isa (cls x) ConflictError"
proof -
  obtain resp t where r: "confirm_scanned (sample_env []) 1 9 sample_confirm None shop_db = (Inr resp, t)"
    by (rule sample_confirms)
  have "canonical_order_hash (sample_env []) (confirm_request_json (sample_confirm\<lparr>cr_items := []\<rparr>))
      \<noteq> canonical_order_hash (sample_env []) (confirm_request_json sample_confirm)"
    by (rule sample_confirm_hashes)
  from receipt_key_not_reused [OF _ r _ this, of 9 None] show ?thesis by (auto simp: idem_ok_def table_ok_def)
qed

text \<open>
  C29: A confirmation receives exactly its lines: the stock of the store grows by the sum of the reviewed
  quantities, the answer has one entry per line in their order, no quantity becomes negative,
  and for every product and store the change of stock is the change of the ledger.
\<close>

theorem receipt_adds_its_lines:
  assumes "confirm_scanned e m user r tr s = (Inr resp, t)" and "stock_ok s"
    and "idem_find (''inventory-receipt:'' @ str_uuid m) (cr_idempotency_key r) s = None"
  shows "stock_ok t \<and> (\<forall>st p. on_hand st p t - on_hand st p s = moved st p t - moved st p s)
    \<and> store_moved (cr_store_id r) t = store_moved (cr_store_id r) s + sum_list (map (\<lambda>i. rat_of (ci_quantity i)) (cr_items r))
    \<and> map cf_line_id (co_items resp) = map ci_line_id (cr_items r)"
proof -
  have none: "idem_find (''inventory-receipt'' @ '':'' @ str_uuid m) (cr_idempotency_key r) s = None" using assms(3) by simp
  note l = confirm_ledger [OF assms(1) [unfolded confirm_scanned_def] none assms(2)]
  have "on_hand st p t - on_hand st p s = moved st p t - moved st p s" for st p
    using l(2) [of st p] by (simp add: unexplained_def algebra_simps)
  with l(1,3,4) show ?thesis by blast
qed

theorem receipt_adds_its_lines_witness:
  "\<exists>resp t. confirm_scanned (sample_env []) 1 9 sample_confirm None shop_db = (Inr resp, t)
     \<and> store_moved 2 t = 4 \<and> length (co_items resp) = 1"
proof -
  obtain resp t where r: "confirm_scanned (sample_env []) 1 9 sample_confirm None shop_db = (Inr resp, t)"
    by (rule sample_confirms)
  from receipt_adds_its_lines [OF r] have "store_moved 2 t = 4" "map cf_line_id (co_items resp) = [21]"
    by (auto simp: stock_ok_def table_ok_def idem_find_def store_moved_def sample_confirm_def rat_of_def sample_item_def)
  with r show ?thesis by (metis length_map length_Cons list.size(3) One_nat_def)
qed

text \<open>
  A stock event is exact: it returns the new quantity, which is not negative, and changes the stock of its
  product in its store by its delta and every other difference between stock and ledger not at all.
\<close>

theorem stock_event_is_exact:
  assumes "stock_ok s" and "record_event e m st p delta ty src key d s = (Inr (i, n), t)"
  shows "stock_ok t \<and> 0 \<le> rat_of n \<and> on_hand st p t = on_hand st p s + rat_of delta
    \<and> (\<forall>st' p'. on_hand st' p' t - moved st' p' t = on_hand st' p' s - moved st' p' s)"
  using record_event_ledger [OF assms] by (simp add: unexplained_def)

theorem stock_event_is_exact_witness:
  "\<exists>i n t. record_event (sample_env []) 1 2 4 (Dec (-3) 0) ''STOCK_SOLD'' ''POS'' ''k'' [] stock_db = (Inr (i, n), t)
     \<and> on_hand 2 4 t = 7"
proof -
  obtain i n t where r: "record_event (sample_env []) 1 2 4 (Dec (-3) 0) ''STOCK_SOLD'' ''POS'' ''k'' [] stock_db = (Inr (i, n), t)"
    by (rule stock_db_sells)
  from stock_event_is_exact [OF stock_db_ok r] r stock_db_has show ?thesis by (auto simp: rat_of_def)
qed

text \<open>
  C30: Stock cannot be oversold: an event that would make a quantity negative raises, and leaves no row, no event
  and no notification behind.
\<close>

theorem stock_never_oversold:
  assumes "find_inventory m st p s = Some r" and "rat_of (inv_quantity_on_hand r) + rat_of delta < 0"
  shows "record_event e m st p delta ty src key d s = (Inl (Exc PyValueError ''Inventory cannot become negative''), s)"
  using assms by (rule record_event_refuses)

theorem stock_never_oversold_witness:
  "record_event (sample_env []) 1 2 4 (Dec (-11) 0) ''STOCK_SOLD'' ''POS'' ''k'' [] stock_db
     = (Inl (Exc PyValueError ''Inventory cannot become negative''), stock_db)"
  by (rule stock_never_oversold [of _ _ _ _ stock_row])
    (simp_all add: find_inventory_def stock_db_def stock_row_def rat_of_def)

text \<open>
  The stored answer of a confirmation is the answer: reading back the JSON that is kept under the key gives
  the response, so a replay returns what the first call returned.
\<close>

theorem confirmation_survives_storage:
  "response_of_json (response_json r) = Inr r"
  by (rule response_roundtrip)

section \<open>Messages between agents\<close>

text \<open>
  C31: A message is accepted only from who it says: when the receiving route accepts an envelope, its sender
  is an active registered agent that may use the intent, the signature is the one of its content under the
  shared secret, it is addressed to this agent, unexpired and within the clock skew, its nonce and
  idempotency key are unused, and its payload has the shape of its intent.
\<close>

theorem message_is_authentic:
  assumes "receive_message e cfg v s = (Inr p, t)"
  shows "\<exists>a \<in> set (t_a2a_agents s). row_id a = env_sender_agent_id v \<and> aa_is_active a
      \<and> (aa_allowed_intents a = [] \<or> intent_str (env_intent v) \<in> set (aa_allowed_intents a))
      \<and> sign_envelope e v (a2a_signing_secret cfg) = env_signature v
      \<and> env_receiver_agent_id v = a2a_agent_id cfg
      \<and> clock s < env_expires_at v \<and> \<bar>clock s - env_timestamp v\<bar> \<le> a2a_max_clock_skew_seconds cfg * 1000000
      \<and> \<not> sql_nonce_seen (env_sender_agent_id v) (env_nonce v) s
      \<and> \<not> sql_idempotency_seen (env_idempotency_key v) s
      \<and> typed_payload (env_intent v) (env_payload v) = Inr p"
  using assms by (rule receive_message_ok)

theorem message_is_authentic_witness:
  "\<exists>p. typed_payload CANCELLATION (env_payload sample_envelope) = Inr p"
proof -
  obtain p t where r: "receive_message (sample_env []) default_settings sample_envelope a2a_db = (Inr p, t)"
    by (rule sample_receives)
  from message_is_authentic [OF r] show ?thesis
    by (auto simp: sample_envelope_def signed_envelope_def)
qed

text \<open>
  C32: A message is accepted once: after one has been accepted, any envelope with its sender and nonce or with its
  idempotency key is refused, and the refusal changes nothing.
\<close>

theorem message_accepted_once:
  assumes "receive_message e cfg v s = (Inr p, t)"
    and "(env_sender_agent_id w = env_sender_agent_id v \<and> env_nonce w = env_nonce v)
       \<or> env_idempotency_key w = env_idempotency_key v"
  shows "\<exists>x. receive_message e' cfg' w t = (Inl x, t)"
  using assms by (rule route_receives_once)

theorem message_accepted_once_witness:
  "\<exists>x t. receive_message (sample_env []) default_settings sample_envelope t = (Inl x, t) \<and> t_a2a_messages t \<noteq> []"
proof -
  obtain p t where r: "receive_message (sample_env []) default_settings sample_envelope a2a_db = (Inr p, t)"
    by (rule sample_receives)
  from message_accepted_once [OF r, of sample_envelope "sample_env []" default_settings] obtain x where
    "receive_message (sample_env []) default_settings sample_envelope t = (Inl x, t)" by blast
  moreover have "t_a2a_messages t \<noteq> []"
    using route_marks [OF r] by (auto simp: sql_marked_def sql_nonce_seen_def)
  ultimately show ?thesis by blast
qed

section \<open>Buying\<close>

text \<open>
  A quote negotiated with the catalog is what was asked for: from the same supplier and for the same goods, within
  every constraint, and either the quote itself or one whose price is the counter price to half a
  cent and not below ninety percent of the list price.
\<close>

theorem catalog_quote_is_acceptable:
  assumes "procurement_negotiate (catalog_adapter uuid5) q r c key s = (Inr q', t)"
  shows "acceptable q' r c \<and> sq_supplier_id q' = sq_supplier_id q \<and> sq_sku q' = sq_sku q
    \<and> (q' = q \<or> \<bar>rat_of (sq_unit_price q') - rat_of (counter_price q r)\<bar> \<le> 1 / 200)"
  by (rule catalog.negotiated_quote [OF _ assms]) (simp add: catalog_adapter_def)

theorem catalog_quote_is_acceptable_witness:
  "\<exists>q' t. procurement_negotiate (catalog_adapter (\<lambda>n x. 1)) sample_quote dear_request catalog_constraints ''k''
       (empty_db, Map.empty) = (Inr q', t) \<and> sq_supplier_id q' = 3"
proof -
  obtain q' t where r: "procurement_negotiate (catalog_adapter (\<lambda>n x. 1)) sample_quote dear_request catalog_constraints ''k''
       (empty_db, Map.empty) = (Inr q', t)" by (rule dear_negotiation)
  from catalog_quote_is_acceptable [OF r] r show ?thesis by auto
qed

text \<open>
  C33: A counter offer is fair and affordable: for a quote above the target it lies between the target and the
  midpoint of target and quote, to half a cent, and never above the maximum price.
\<close>

theorem counter_offer_bounds:
  assumes "rat_of (pr_target_price r) \<le> rat_of (pr_max_price r)"
    and "rat_of (pr_target_price r) < rat_of (sq_unit_price q)"
  shows "rat_of (pr_target_price r) - 1 / 200 \<le> rat_of (counter_price q r)
    \<and> rat_of (counter_price q r) \<le> rat_of (pr_max_price r)
    \<and> rat_of (counter_price q r) \<le> (rat_of (sq_unit_price q) + rat_of (pr_target_price r)) / 2 + 1 / 200"
  using counter_price_bounds [OF assms] by blast

theorem counter_offer_bounds_witness: "rat_of (counter_price sample_quote dear_request) \<le> 93"
  using counter_offer_bounds [of dear_request sample_quote]
  by (simp add: dear_request_def sample_request_def rat_of_def)

text \<open>
  The risk check passes exactly the proposals it should: positive quantity, consistent inventory, enough
  supplier stock, a trusted supplier, a total within the spending limit, no duplicate, and the
  quoted price; the reasons are empty exactly when it passes.
\<close>

theorem risk_check_is_exact:
  "(rr_passed (risk_evaluate snap p q limit trust dup) \<longleftrightarrow>
     0 < rat_of (pp_quantity p) \<and> 0 \<le> rat_of (is_quantity_on_hand snap)
   \<and> rat_of (pp_quantity p) \<le> rat_of (sq_available_quantity q) \<and> 3 / 5 \<le> rat_of trust
   \<and> rat_of (pp_quantity p) * rat_of (pp_unit_price p) \<le> rat_of limit \<and> \<not> dup
   \<and> rat_of (pp_unit_price p) = rat_of (sq_unit_price q))
   \<and> (rr_reasons (risk_evaluate snap p q limit trust dup) = [] \<longleftrightarrow> rr_passed (risk_evaluate snap p q limit trust dup))"
  using risk_passed_iff risk_reasons_iff by blast

section \<open>Approvals over time\<close>

text \<open>
  A modification asks again and never for more money: it leaves the old approval MODIFIED and adds a pending one,
  one revision later, for the same goods from the same supplier, whose unit price is the lower of the old price
  and the new limit.
\<close>

theorem modification_never_dearer:
  assumes "approval_modify e sv i merchant user quantity limit s = (Inr (b, tok), t)"
    and "find_approval i None s = Some a" and "ap_proposal_payload a = canonical_payload q"
    and "valid_time (pp_delivery_at q)"
  shows "\<exists>p. ap_proposal_payload b = canonical_payload p \<and> ap_status b = AS_PENDING \<and> ap_revision b = ap_revision a + 1
    \<and> pp_supplier_id p = pp_supplier_id q \<and> pp_sku p = pp_sku q \<and> pp_quantity p = dec_or quantity (pp_quantity q)
    \<and> rat_of (pp_unit_price p) = min (rat_of (pp_unit_price q)) (rat_of (dec_or limit (pp_unit_price q)))
    \<and> t_approvals t = decide_rows s a AS_MODIFIED user @ [b]"
proof -
  obtain a' p u where f: "find_approval i None s = Some a'"
    and p: "revised_proposal (uuid_at e (draws s + 1)) merchant (ap_proposal_payload a') quantity limit = Inr p"
    and u: "u = s\<lparr>t_approvals := decide_rows s a' AS_MODIFIED user,
         t_audit_logs := t_audit_logs s @
             [audit_log (uuid_at e (draws s)) (clock s) (Some (ap_merchant_id a')) ''USER'' (str_uuid user)
                ''approval.modified'' ''approval'' (str_uuid (row_id a')) None
                [(''order_hash'', JStr (ap_order_hash a'))]], draws := draws s + 2\<rparr>"
    and c: "approval_create e sv p (ap_channel a') (ap_revision a' + 1) (ap_workflow_request_id a') u = (Inr (b, tok), t)"
    using assms(1) by (rule modify_Inr)
  have a: "a' = a" using f assms(2) by simp
  note cr = create_Inr [OF c]
  have b: "b = created_row e sv u p (ap_channel a') (ap_revision a' + 1)" and t: "t_approvals t = t_approvals u @ [b]"
    using cr by auto
  note pr = revised_proposal_of_canonical [OF p [unfolded a assms(3)] assms(4)]
  have "ap_proposal_payload b = canonical_payload p" "ap_status b = AS_PENDING" "ap_revision b = ap_revision a + 1"
    by (simp_all add: b a created_row_def new_approval_def)
  moreover have "t_approvals t = decide_rows s a AS_MODIFIED user @ [b]" using t by (simp add: u a)
  ultimately show ?thesis using pr by (intro exI [of _ p]) (simp add: rat_of_min)
qed

theorem modification_never_dearer_witness:
  "\<exists>b tok t. approval_modify (sample_env []) sample_service 6 1 9 None (Some (Dec 900 0)) sample_db = (Inr (b, tok), t)
     \<and> ap_revision b = 2"
proof -
  obtain b tok t where r: "approval_modify (sample_env []) sample_service 6 1 9 None (Some (Dec 900 0)) sample_db = (Inr (b, tok), t)"
    by (rule sample_modifies)
  from modification_never_dearer [OF r sample_find sample_fields(7) sample_valid_time] r show ?thesis by auto
qed

text \<open>
  The expiry of an approval is not recorded in the database: deciding an expired pending approval through the
  workflow's authority raises StaleApprovalError, and the transaction that had marked the row EXPIRED is
  rolled back, so that the row stays PENDING.
\<close>

theorem expired_approval_stays_pending:
  assumes "find_approval i None s = Some a" and "ap_merchant_id a = merchant" and "ap_status a = AS_PENDING"
    and "as_utc (ap_expires_at a) \<le> clock s" and "ac \<in> {AS_APPROVED, AS_REJECTED, AS_MODIFIED}"
  shows "\<exists>t. db_decide e sv i merchant ac tok (Some u) s = (Inl (Exc StaleApprovalError ''Approval has expired''), t)
    \<and> t_approvals t = t_approvals s"
  using assms(5)
  by (auto simp: db_decide_def request_def exec_defs require_def atomic_def rollback_def approval_approve_def
      approval_reject_def approval_mark_modified_def approvals_get_def verify_owner_and_state_def change_approval_def
      change_row_def assms(1-4))

theorem expired_approval_stays_pending_witness:
  "\<exists>t. db_decide (sample_env []) sample_service 6 1 AS_APPROVED ''token'' (Some 9) (sample_db\<lparr>clock := sample_now + 600000000\<rparr>)
     = (Inl (Exc StaleApprovalError ''Approval has expired''), t) \<and> (\<exists>a \<in> set (t_approvals t). ap_status a = AS_PENDING)"
proof -
  have "find_approval 6 None (sample_db\<lparr>clock := sample_now + 600000000\<rparr>) = Some sample_approval"
    by (simp add: find_approval_def)
  from expired_approval_stays_pending [OF this, of 1 AS_APPROVED "sample_env []" sample_service "''token''" 9] show ?thesis
    by auto
qed

text \<open>
  The token that is issued with an approval is the one that approves it: until the second of its expiry it
  verifies against its row, provided signing and decoding are inverse as PyJWT documents.
\<close>

theorem issued_token_verifies:
  assumes "jwt_roundtrip e (approval_claims now (ap_merchant_id a) (ap_proposal_id a) (row_id a) (ap_order_hash a)
      (ap_nonce a) (as_ttl_minutes sv) (Some (as_utc (ap_expires_at a)))) (as_secret sv) (as_algorithm sv)"
    and "later < epoch_seconds (as_utc (ap_expires_at a)) * 1000000"
  shows "verify_token e sv later a (approval_token e sv now a) = Inr ()"
  using assms by (rule signed_token_verifies)

theorem issued_token_verifies_witness:
  "verify_token (sample_env sample_claims) sample_service (sample_now + 1) sample_approval
     (approval_token (sample_env sample_claims) sample_service sample_now sample_approval) = Inr ()"
proof (rule issued_token_verifies)
  have c: "approval_claims sample_now (ap_merchant_id sample_approval) (ap_proposal_id sample_approval) (row_id sample_approval)
      (ap_order_hash sample_approval) (ap_nonce sample_approval) (as_ttl_minutes sample_service)
      (Some (as_utc (ap_expires_at sample_approval))) = sample_claims"
    by (simp add: sample_claims_def sample_service_def)
  show "jwt_roundtrip (sample_env sample_claims) (approval_claims sample_now (ap_merchant_id sample_approval)
      (ap_proposal_id sample_approval) (row_id sample_approval) (ap_order_hash sample_approval) (ap_nonce sample_approval)
      (as_ttl_minutes sample_service) (Some (as_utc (ap_expires_at sample_approval)))) (as_secret sample_service)
      (as_algorithm sample_service)"
    unfolding c by (simp add: jwt_roundtrip_def sample_env_def)
qed (simp add: epoch_seconds_def sample_now_def)

section \<open>Callers and configuration\<close>

text \<open>
  C34: The caller of a route is who the token says and is still allowed: the principal is an active user of the
  token's merchant with its stored role, and, when the token names a session, that session is the user's own,
  not revoked and not expired; resolving it changes nothing.
\<close>

theorem principal_is_live:
  assumes "get_current_principal e cfg token s = (Inr p, t)"
  shows "t = s
    \<and> (\<exists>u \<in> set (t_users s). row_id u = pl_user_id p \<and> u_is_active u \<and> u_merchant_id u = pl_merchant_id p
         \<and> u_role u = pl_role p)
    \<and> (\<forall>i. pl_session_id p = Some i \<longrightarrow>
         (\<exists>r \<in> set (t_refresh_sessions s). row_id r = i \<and> rs_revoked_at r = None
            \<and> clock s < as_utc (rs_expires_at r) \<and> rs_user_id r = pl_user_id p))"
  using assms by (rule get_current_principal_ok)

theorem principal_is_live_witness:
  "\<exists>p. get_current_principal (sample_env access) default_settings ''token'' user_db = (Inr p, user_db)
     \<and> pl_user_id p \<in> row_id ` set (t_users user_db)"
proof -
  obtain p t where r: "get_current_principal (sample_env access) default_settings ''token'' user_db = (Inr p, t)"
    by (rule sample_principal)
  from principal_is_live [OF r] r show ?thesis by (auto intro: image_eqI [OF sym])
qed

text \<open>
  A production deployment never starts on placeholder secrets: when settings load with the environment
  \<open>production\<close>, each of the four secrets has at least 32 characters and is no development default, the database is
  PostgreSQL, checkpoints are persistent, and the model and WhatsApp credentials are complete or absent.
\<close>

theorem production_is_ready:
  assumes "load_settings c = Inr c'" and "app_env c = ''production''"
  shows "fields_ok c' \<and> production_ready c'"
  using assms validate_production_ready [of "c\<lparr>sarvam_api_key := normalize_sarvam_key (sarvam_api_key c)\<rparr>" c']
  by (auto simp: load_settings_def Let_def split: if_splits)

theorem production_is_ready_witness: "production_ready production"
  using production_is_ready [OF production_loads] by (simp add: production_def)

text \<open>
  The two idempotency stores disagree on a reused key: after a key was reserved for one request hash, reserving it
  for another is a plain loss in the database store and a ConflictError in the memory store.
\<close>

theorem stores_disagree_on_reuse:
  assumes "idem_ok s" and "sql_reserve e scope key h s = (Inr True, t)" and "mem_reserve scope key h m = (Inr True, m')"
    and "h' \<noteq> h"
  shows "sql_reserve e scope key h' t = (Inr False, t)
    \<and> mem_reserve scope key h' m' = (Inl (Exc ConflictError ''Idempotency key was reused with a different request''), m')"
proof -
  from sql_store.reserve_won [OF assms(1,2)] obtain r where "idem_find scope key t = Some r" by auto
  then have "sql_reserve e scope key h' t = (Inr False, t)" by (rule sql_reserve_no_conflict)
  moreover have "m' (scope, key) = Some (h, None)"
    using assms(3) by (auto simp: mem_reserve_def split: option.splits if_splits)
  ultimately show ?thesis using assms(4) by (simp add: mem_reserve_def)
qed

theorem stores_disagree_on_reuse_witness:
  "\<exists>t. sql_reserve (sample_env []) ''s'' ''k'' ''other'' t = (Inr False, t)"
proof -
  have "\<exists>t. sql_reserve (sample_env []) ''s'' ''k'' ''hash'' empty_db = (Inr True, t)"
    by (simp add: sql_reserve_def idem_find_def empty_db_def add_idem_def exec_defs new_uuid_def add_row_def)
  then obtain t where r: "sql_reserve (sample_env []) ''s'' ''k'' ''hash'' empty_db = (Inr True, t)" by blast
  have "mem_reserve ''s'' ''k'' ''hash'' Map.empty = (Inr True, [(''s'', ''k'') \<mapsto> (''hash'', None)])"
    by (simp add: mem_reserve_def)
  from stores_disagree_on_reuse [OF _ r this, of "''other''"] show ?thesis
    by (auto simp: idem_ok_def table_ok_def empty_db_def)
qed

section \<open>Activity\<close>

text \<open>
  A supplier message is recorded once: recording an envelope again, in any direction and for any merchant, after it was
  recorded succeeds and changes nothing.
\<close>

theorem message_recorded_once:
  assumes "record_message e v dir merchant supplier s = (Inr u, t)"
  shows "record_message e v dir' merchant' supplier' t = (Inr (), t)"
  using record_message_stored [OF assms] by (rule record_message_again)

theorem message_recorded_once_witness:
  "\<exists>t. record_message (sample_env []) sample_envelope ''INBOUND'' 1 3 t = (Inr (), t) \<and> t_a2a_messages t \<noteq> []"
proof -
  have "\<exists>u t. record_message (sample_env []) sample_envelope ''INBOUND'' 1 3 a2a_db = (Inr u, t)"
    by (simp add: record_message_def request_def exec_defs atomic_def a2a_db_def empty_db_def new_uuid_def add_row_def
        add_outbox_def)
  then obtain u t where r: "record_message (sample_env []) sample_envelope ''INBOUND'' 1 3 a2a_db = (Inr u, t)" by blast
  have "t_a2a_messages t \<noteq> []" using record_message_stored [OF r] by (auto simp: message_seen_def)
  with message_recorded_once [OF r] show ?thesis by blast
qed

text \<open>
  A purchase request has one negotiation: whatever the recorder does, and whether its transaction commits or rolls back, the
  merchant never gets a second negotiation row for one request.
\<close>

theorem one_negotiation_per_request:
  assumes "record_negotiation e uuid5 v s = (r, t)" and "uuid_item (ws_merchant_id v) = Inr merchant"
    and "length (request_rows merchant (ws_request_id v) s) \<le> 1"
  shows "length (request_rows merchant (ws_request_id v) t) \<le> 1"
  using assms by (rule record_negotiation_once)

theorem one_negotiation_per_request_witness:
  "length (request_rows 1 ''R-1'' (snd (record_negotiation (sample_env []) (\<lambda>n x. 5) sample_v6 empty_db))) \<le> 1"
proof -
  have "uuid_item (ws_merchant_id sample_v6) = Inr 1" "ws_request_id sample_v6 = ''R-1''"
    by (simp_all add: sample_v6_def sample_v5_def sample_v_defs uuid_item_def)
  with one_negotiation_per_request [of "sample_env []" "\<lambda>n x. 5" sample_v6 empty_db _ _ 1, OF prod.collapse [symmetric]]
  show ?thesis by (simp add: request_rows_def empty_db_def)
qed

section \<open>Signing in\<close>

text \<open>
  C35: A refresh token is exchanged at most once.  However the clients of the authentication routes interleave their
  calls, whatever they send and however much time passes, at most one call in the whole run trades a given
  refresh token for new tokens.
\<close>

theorem refresh_token_used_once:
  assumes "sessions_ok (fst w)"
  shows "total (auth_step e cfg d api) (use_cost (auth_step e cfg d api) refresh_use token) calls w \<le> 1"
  using assms by (rule refresh_tokens.used_at_most_once)

theorem refresh_token_used_once_witness:
  "sessions_ok (fst session_world) \<and>
   total (auth_step (sample_env []) default_settings None no_provider)
     (use_cost (auth_step (sample_env []) default_settings None no_provider) refresh_use ''first'')
     [Refresh ''first'' None, Refresh ''first'' None] session_world = 1"
proof -
  obtain tk w' where "auth_step (sample_env []) default_settings None no_provider (Refresh ''first'' None) session_world
      = (Inr (Tokens tk), w')" by (rule sample_refreshes)
  then have "1 \<le> total (auth_step (sample_env []) default_settings None no_provider)
     (use_cost (auth_step (sample_env []) default_settings None no_provider) refresh_use ''first'')
     [Refresh ''first'' None, Refresh ''first'' None] session_world"
    by (simp add: use_cost_def)
  with refresh_token_used_once [OF session_world_ok] show ?thesis
    by (metis session_world_ok le_antisym)
qed

text \<open>
  Refreshing rotates the session.  The old token must belong to a live session of an active user; its session is
  revoked and names its replacement, the new token belongs to a live session of the same user with the full
  lifetime, and every other session stays as it was.
\<close>

theorem refresh_rotates:
  assumes "sessions_ok s" and "route_refresh e cfg token device s = (Inr tk, t)"
  shows "\<exists>old new u. session_by_token e token s = Some old \<and> \<not> session_dead (clock s) old
    \<and> u \<in> set (t_users s) \<and> u_is_active u \<and> row_id u = rs_user_id old
    \<and> session_by_token e (tk_refresh_token tk) t = Some new \<and> rs_user_id new = rs_user_id old
    \<and> rs_revoked_at new = None \<and> rs_expires_at new = Aware (clock s + days (auth_refresh_token_days cfg))
    \<and> session_by_token e token t = Some (rotated (clock s) (row_id new) old)
    \<and> (\<forall>x \<in> set (t_refresh_sessions s). row_id x \<noteq> row_id old \<longrightarrow> x \<in> set (t_refresh_sessions t))"
  using assms by (rule refresh_replaces)

theorem refresh_rotates_witness:
  "\<exists>tk t new. route_refresh (sample_env []) default_settings ''first'' None session_db = (Inr tk, t)
     \<and> session_by_token (sample_env []) (tk_refresh_token tk) t = Some new \<and> rs_user_id new = 9"
proof -
  obtain tk t where run: "route_refresh (sample_env []) default_settings ''first'' None session_db = (Inr tk, t)"
    by (rule sample_refresh)
  from refresh_rotates [OF session_db_ok run] run show ?thesis by (auto simp: sample_session_found)
qed

text \<open>
  Logging out ends the session.  After a logout, no access token that names the session is accepted any more, and
  the logout never fails.
\<close>

theorem logout_ends_the_session:
  assumes "sessions_ok s" and "route_logout e p token s = (v, t)" and "pl_session_id p = Some i"
    and "get_current_principal e cfg later t = (Inr q, t')"
  shows "v = Inr () \<and> pl_session_id q \<noteq> Some i"
  using assms by (rule logout_ends_session)

theorem logout_ends_the_session_witness:
  "\<exists>t q t'. route_logout (sample_env access) sample_caller None session_db = (Inr (), t)
     \<and> get_current_principal (sample_env access) default_settings ''other'' t = (Inr q, t') \<and> pl_session_id q \<noteq> Some 7"
proof -
  obtain t q t' where run: "route_logout (sample_env access) sample_caller None session_db = (Inr (), t)"
    "get_current_principal (sample_env access) default_settings ''other'' t = (Inr q, t')"
    by (rule sample_logout)
  from logout_ends_the_session [OF session_db_ok run(1) _ run(2)] run show ?thesis
    by (auto simp: sample_caller_def)
qed

text \<open>
  C36: A one-time code cannot be guessed.  In any run of the authentication routes, from the moment a challenge is made,
  the codes that are wrong and still checked against it number at most what its attempts and resends allow:
  \<open>resends * (attempts - 1) + attempts\<close>, 17 under the default settings.
\<close>

theorem code_guesses_bounded:
  assumes "otps_ok cfg (fst w)" and "by_id i (t_otp_challenges (fst w)) = None"
  shows "total (auth_step e cfg d api) (wrong_guess e i) calls w
    \<le> nat (auth_otp_max_resends cfg * (auth_otp_max_attempts cfg - 1) + auth_otp_max_attempts cfg)"
  using guesses.total_le [OF assms(1), of e d api i calls] assms(2)
  by (simp add: checks_left_def otp_budget_def checks_bound_def)

theorem code_guesses_bounded_witness:
  "total (auth_step (sample_env []) default_settings None no_provider) (wrong_guess (sample_env []) 5)
     [RequestOtp ''9876543210'' OP_LOGIN None None, VerifyOtp 5 ''000000'' None] (empty_db, sample_world) \<le> 17"
  using code_guesses_bounded [of default_settings "(empty_db, sample_world)" 5 "sample_env []" None no_provider
    "[RequestOtp ''9876543210'' OP_LOGIN None None, VerifyOtp 5 ''000000'' None]"]
  by (simp add: empty_otps_ok default_otp_limits) (simp add: empty_db_def by_id_def)



text \<open>
  An authorisation of an identity provider is used once.  In any run of the routes at most one call signs a user in or links an
  identity with a given OAuth challenge.
\<close>

theorem authorisation_used_once:
  assumes "oauth_inv {} (fst w)"
  shows "total (auth_step e cfg d api) (use_cost (auth_step e cfg d api) oauth_use i) calls w \<le> 1"
  using assms by (rule authorisations.used_at_most_once)

theorem authorisation_used_once_witness:
  "total (auth_step (sample_env []) default_settings None no_provider)
     (use_cost (auth_step (sample_env []) default_settings None no_provider) oauth_use 5)
     [StartOAuth ''google'', ExchangeOAuth ''google'' sample_exchange] (empty_db, sample_world) \<le> 1"
  by (rule authorisation_used_once) (simp add: oauth_inv_def empty_db_def table_ok_def)



text \<open>
  C39: A proof of identity registers one account.  After a registration has gone through on the challenge that its
  token names, no registration goes through on that challenge again, whatever the clients do in between and whichever
  token of the challenge they present.
\<close>

theorem one_account_per_proof:
  assumes "otps_ok cfg s" and "oauth_inv {} s" and "register_account e cfg b s = (Inr tk, t)"
    and "token_challenge e cfg (clock s) (rg_registration_token b) = Some (otp, i)"
    and "u = fst (runs (auth_step e cfg d api) calls (t, x))"
    and "token_challenge e cfg (clock u) (rg_registration_token b') = Some (otp, i)"
  shows "\<exists>err. fst (register_account e cfg b' u) = Inl err"
  using assms by (rule used_registration_refused)


theorem one_account_per_proof_witness:
  "\<exists>tk t err. register_account (sample_env registration) default_settings sample_registration registering_db = (Inr tk, t)
     \<and> fst (register_account (sample_env registration) default_settings sample_registration t) = Inl err"
proof -
  obtain tk t where run: "register_account (sample_env registration) default_settings sample_registration registering_db = (Inr tk, t)"
    "clock t = sample_now" by (rule sample_registers)
  have u: "t = fst (runs (auth_step (sample_env registration) default_settings None no_provider) [] (t, sample_world))" by simp
  show ?thesis
    using one_account_per_proof [OF registering_ok run(1) sample_token_challenge u sample_token_challenge] run
    by (simp add: registering_db_def empty_db_def)
qed

text \<open>
  A code sent to an e-mail address registers nobody.  Checking such a code answers with a registration token, but no
  registration that presents this token goes through: the service compares the proved address with a normalised phone number.
\<close>

theorem email_code_cannot_register:
  assumes "otp_verify e cfg i otp device s = (Inr (MustRegister tok em), t)"
    and "by_id i (t_otp_challenges s) = Some r" and "has_at (ot_identifier r)"
    and "jwt_roundtrip e (registration_claims (clock s) (text_at e (draws s)) i (ot_identifier r) ''OTP'' 15 (Some (ot_identifier r)))
      (auth_otp_secret cfg) ''HS256''"
    and "rg_registration_token b = tok"
  shows "\<exists>err. fst (route_register e cfg b u) = Inl err"
proof (rule ccontr)
  let ?c = "registration_claims (clock s) (text_at e (draws s)) i (ot_identifier r) ''OTP'' 15 (Some (ot_identifier r))"
  assume "\<not> ?thesis"
  then obtain tk v where "route_register e cfg b u = (Inr tk, v)"
    by (cases "route_register e cfg b u"; cases "fst (route_register e cfg b u)") auto
  then obtain b' where b': "check_registration b = Inr b'" and run: "register_account e cfg b' u = (Inr tk, v)"
    by (auto simp: route_register_def request_Inr run_simps value_errors_Inr)
  have "rg_registration_token b' = tok" using b' assms(5) by (auto simp: check_registration_def bindE_def split: if_splits sum.splits)
  moreover have "tok = jwt_encode e ?c (auth_otp_secret cfg) ''HS256''"
    using email_registration_token [OF assms(1,2,3)] by (simp add: create_registration_token_def)
  moreover obtain claims where c: "registration_token_claims e cfg (clock u) (rg_registration_token b') = Inr claims"
    using run unfolding register_account_def by (auto simp: run_simps)
  ultimately have "claims = ?c"
    using assms(4) by (auto simp: registration_token_claims_def jwt_roundtrip_def split: if_splits)
  with register_otp_sub [OF run c] obtain p where "normalize_phone (or_else (rg_phone_number b') []) = Inr p" "p = ot_identifier r"
    by (auto simp: registration_claims_def claim_text_def py_str_def)
  with has_at_phone assms(3) show False by blast
qed

theorem email_code_cannot_register_witness:
  "\<exists>tok em t err. otp_verify (sample_env email_claims) default_settings 5 ''123456'' None email_db = (Inr (MustRegister tok em), t)
     \<and> fst (route_register (sample_env email_claims) default_settings (sample_registration\<lparr>rg_registration_token := tok\<rparr>) t) = Inl err"
proof -
  obtain tok em t where run: "otp_verify (sample_env email_claims) default_settings 5 ''123456'' None email_db = (Inr (MustRegister tok em), t)"
    by (rule sample_email_code)
  have "\<exists>err. fst (route_register (sample_env email_claims) default_settings (sample_registration\<lparr>rg_registration_token := tok\<rparr>) t) = Inl err"
    by (rule email_code_cannot_register [OF run, of email_challenge])
      (simp_all add: email_db_def by_id_def has_at_def email_challenge_def new_challenge_def jwt_roundtrip_def sample_env_def
        email_claims_def empty_db_def)
  with run show ?thesis by blast
qed

text \<open>
  C40: A registered account is well formed.  A successful registration adds exactly one merchant, one user and one store that belong
  together; the user is an active merchant or supplier with a fresh e-mail address, the phone number is a normalised one,
  and a GSTIN or PAN has its official format.
\<close>

theorem registered_account_is_well_formed:
  assumes "route_register e cfg b s = (Inr tk, t)"
  shows "\<exists>m u st. t_merchants t = t_merchants s @ [m] \<and> t_users t = t_users s @ [u] \<and> t_stores t = t_stores s @ [st]
    \<and> u_merchant_id u = row_id m \<and> st_merchant_id st = row_id m \<and> tk_user_id tk = str_uuid (row_id u) \<and> u_is_active u
    \<and> u_role u \<in> {''merchant'', ''supplier''} \<and> u_email u = lower (strip (rg_email b))
    \<and> (\<forall>x \<in> set (t_users s). lower (u_email x) \<noteq> u_email u)
    \<and> m_name m = rg_business_name b \<and> st_name st = rg_store_name b \<and> phone_shape (m_phone_number m)
    \<and> (case m_gstin m of None \<Rightarrow> True | Some g \<Rightarrow> matches_classes gstin_classes g)
    \<and> (case m_pan m of None \<Rightarrow> True | Some g \<Rightarrow> matches_classes pan_classes g)"
  using route_register_shape [OF assms] unfolding account_shape_def .

theorem registered_account_is_well_formed_witness:
  "\<exists>tk t m. route_register (sample_env registration) default_settings sample_registration registering_db = (Inr tk, t)
     \<and> t_merchants t = [m] \<and> phone_shape (m_phone_number m)"
proof -
  obtain tk t where run: "route_register (sample_env registration) default_settings sample_registration registering_db = (Inr tk, t)"
    by (rule sample_route_registers)
  from registered_account_is_well_formed [OF run] run show ?thesis
    by (auto simp: registering_db_def empty_db_def)
qed

end
